(* ===== verification/Py_Base.thy ===== *)
theory Py_Base
  imports Main "HOL-Library.Word" "HOL-Library.AList" "HOL-Library.Sublist"
    "HOL-Library.Char_ord" "HOL-Library.List_Lexorder"
begin

text \<open>
  The prelude of the development: the Python values, strings, dictionaries and exceptions
  the service is written with, and the combinators by which its methods are composed.

  \<^item> Python \<open>str\<close> is \<^typ>\<open>string\<close>, a list of 8-bit characters; code points above 255
    are not modelled. Python \<open>int\<close> is \<^typ>\<open>int\<close>. A \<open>float\<close> is represented by the text
    that \<open>str\<close> prints for it, which is all the service ever does with one.
  \<^item> A \<open>dict\<close> is an association list in insertion order; \<open>dset\<close> keeps the position of a key
    that exists, \<open>dpop\<close> removes it, as Python does.
  \<^item> An exception is a value of \<open>exn\<close>; a method that may raise returns \<open>exn + 'a\<close>, and one
    that also changes state \<open>'s\<close> is a \<open>('s, 'a) prog\<close>. A raise keeps the changes made
    before it, as in Python.
\<close>

named_theorems py_simps \<open>evaluation rules of the Python combinators\<close>

section \<open>Values\<close>

type_synonym byte = "8 word"
type_synonym bytes = "byte list"
type_synonym ('k, 'v) dict = "('k \<times> 'v) list"

datatype pyval =
    PyNone
  | PyBool bool
  | PyInt int
  | PyFloat string
  | PyStr string
  | PyBytes bytes
  | PyList "pyval list"
  | PyDict "(string \<times> pyval) list"
  | PyOther string

type_synonym row = "(string, pyval) dict"

text \<open>Truth of a Python value, as \<open>if v:\<close> tests it. A float is false when it prints as a zero.\<close>

fun truthy :: "pyval \<Rightarrow> bool" where
  "truthy PyNone = False"
| "truthy (PyBool b) = b"
| "truthy (PyInt i) = (i \<noteq> 0)"
| "truthy (PyFloat s) = (s \<noteq> ''0.0'' \<and> s \<noteq> ''-0.0'')"
| "truthy (PyStr s) = (s \<noteq> [])"
| "truthy (PyBytes b) = (b \<noteq> [])"
| "truthy (PyList l) = (l \<noteq> [])"
| "truthy (PyDict d) = (d \<noteq> [])"
| "truthy (PyOther t) = True"

section \<open>Exceptions\<close>

record http_error =
  status_code :: int
  message :: string
  http_headers :: "(string, string) dict option"
  error_code :: "string option"
  http_body :: "pyval option"

record cancel_reason =
  cr_code :: "string option"
  cr_message :: "string option"

datatype exn =
    KeyError string
  | IndexError
  | ValueError string
  | TypeError
  | AssertionError
  | AttributeError
  | NotImplementedError
  | StopIteration
  | PlainException string
  | PrimaryKeyViolation
  | PreconditionFailed
  | ResourceNotFound
  | Throttling
  | DynamoDbValidation
  | ClientError string
  | TransactionCancelled "cancel_reason list"
  | UnhandledAws string
  | OutOfFuel
  | OptimisticLock
  | UserSessionExists string
  | SessionLocked
  | SessionNotActive
  | PollingShutdown
  | BeanInitialization string
  | HttpExn http_error
  | HttpClientExn int string
  | HttpServerExn int string
  | CommandLineExn string
  | SystemExit int

section \<open>Programs with state and exceptions\<close>

type_synonym ('s, 'a) prog = "'s \<Rightarrow> (exn + 'a) \<times> 's"

definition ret :: "'a \<Rightarrow> ('s, 'a) prog" where
  "ret x = (\<lambda>s. (Inr x, s))"

definition raise :: "exn \<Rightarrow> ('s, 'a) prog" where
  "raise e = (\<lambda>s. (Inl e, s))"

definition bnd :: "('s, 'a) prog \<Rightarrow> ('a \<Rightarrow> ('s, 'b) prog) \<Rightarrow> ('s, 'b) prog" where
  "bnd m f = (\<lambda>s. case m s of (Inl e, s') \<Rightarrow> (Inl e, s') | (Inr x, s') \<Rightarrow> f x s')"

definition lift_res :: "exn + 'a \<Rightarrow> ('s, 'a) prog" where
  "lift_res r = (\<lambda>s. (r, s))"

definition gets :: "('s \<Rightarrow> 'a) \<Rightarrow> ('s, 'a) prog" where
  "gets f = (\<lambda>s. (Inr (f s), s))"

definition modify :: "('s \<Rightarrow> 's) \<Rightarrow> ('s, unit) prog" where
  "modify f = (\<lambda>s. (Inr (), f s))"

text \<open>\<open>try: m except E as ex: h ex\<close>, where \<open>h\<close> returns \<open>None\<close> for an exception it does not catch.\<close>

definition catch :: "('s, 'a) prog \<Rightarrow> (exn \<Rightarrow> ('s, 'a) prog option) \<Rightarrow> ('s, 'a) prog" where
  "catch m h = (\<lambda>s. case m s of
       (Inl e, s') \<Rightarrow> (case h e of None \<Rightarrow> (Inl e, s') | Some p \<Rightarrow> p s')
     | (Inr x, s') \<Rightarrow> (Inr x, s'))"

text \<open>\<open>try: m finally: f\<close>: an exception raised by \<open>f\<close> replaces the outcome of \<open>m\<close>.\<close>

definition finally_do :: "('s, 'a) prog \<Rightarrow> ('s, unit) prog \<Rightarrow> ('s, 'a) prog" where
  "finally_do m f = (\<lambda>s. case m s of (r, s') \<Rightarrow>
     (case f s' of (Inl e, s'') \<Rightarrow> (Inl e, s'') | (Inr _, s'') \<Rightarrow> (r, s'')))"

definition assert_that :: "bool \<Rightarrow> ('s, unit) prog" where
  "assert_that b = (if b then ret () else raise AssertionError)"

fun for_each :: "('a \<Rightarrow> ('s, unit) prog) \<Rightarrow> 'a list \<Rightarrow> ('s, unit) prog" where
  "for_each f [] = ret ()"
| "for_each f (x # xs) = bnd (f x) (\<lambda>_. for_each f xs)"

lemmas prog_defs = ret_def raise_def bnd_def lift_res_def gets_def modify_def catch_def
  finally_do_def assert_that_def

lemma bnd_ret [simp]: "bnd (ret x) f = f x"
  by (simp add: prog_defs)

lemma bnd_raise [simp]: "bnd (raise e) f = raise e"
  by (simp add: prog_defs)

lemma bnd_lift_Inr [simp]: "bnd (lift_res (Inr x)) f = f x"
  and bnd_lift_Inl [simp]: "bnd (lift_res (Inl e)) f = raise e"
  by (simp_all add: prog_defs)

lemma bnd_assoc: "bnd (bnd m f) g = bnd m (\<lambda>x. bnd (f x) g)"
  by (rule ext) (simp add: bnd_def split: prod.splits sum.splits)

lemma ret_app [simp]: "ret x s = (Inr x, s)"
  and raise_app [simp]: "raise e s = (Inl e, s)"
  and gets_app [simp]: "gets f s = (Inr (f s), s)"
  and modify_app [simp]: "modify g s = (Inr (), g s)"
  and lift_res_app [simp]: "lift_res r s = (r, s)"
  by (simp_all add: prog_defs)

lemma bnd_Inr: "m s = (Inr x, s') \<Longrightarrow> bnd m f s = f x s'"
  and bnd_Inl: "m s = (Inl e, s') \<Longrightarrow> bnd m f s = (Inl e, s')"
  by (simp_all add: bnd_def)

lemma bnd_InrE:
  assumes "bnd m f s = (Inr y, t)"
  obtains x s' where "m s = (Inr x, s')" "f x s' = (Inr y, t)"
  using assms by (auto simp: bnd_def split: prod.splits sum.splits)

lemma bnd_cases:
  assumes "bnd m f s = (r, t)"
  obtains (err) e where "m s = (Inl e, t)" "r = Inl e"
    | (ok) x s' where "m s = (Inr x, s')" "f x s' = (r, t)"
  using assms by (auto simp: bnd_def split: prod.splits sum.splits)

lemma assert_that_app [simp]:
  "assert_that b s = (if b then (Inr (), s) else (Inl AssertionError, s))"
  by (simp add: prog_defs)

text \<open>The pure fragment: a result that is bound to a function of it.\<close>

definition rbind :: "exn + 'a \<Rightarrow> ('a \<Rightarrow> exn + 'b) \<Rightarrow> exn + 'b" where
  "rbind r f = (case r of Inl e \<Rightarrow> Inl e | Inr x \<Rightarrow> f x)"

lemma rbind_simps [simp]: "rbind (Inl e) f = Inl e" "rbind (Inr x) f = f x"
  by (simp_all add: rbind_def)

lemma rbind_eq_Inr: "rbind r f = Inr y \<longleftrightarrow> (\<exists>x. r = Inr x \<and> f x = Inr y)"
  by (cases r) auto

fun map_res :: "('a \<Rightarrow> exn + 'b) \<Rightarrow> 'a list \<Rightarrow> exn + 'b list" where
  "map_res f [] = Inr []"
| "map_res f (x # xs) = rbind (f x) (\<lambda>y. rbind (map_res f xs) (\<lambda>ys. Inr (y # ys)))"

lemma map_res_Inr: "(\<And>x. x \<in> set xs \<Longrightarrow> f x = Inr (g x)) \<Longrightarrow> map_res f xs = Inr (map g xs)"
  by (induction xs) auto

lemma map_sum_id_Inl [simp]: "map_sum id f r = Inl e \<longleftrightarrow> r = Inl e"
  and map_sum_id_Inr: "map_sum id f r = Inr y \<longleftrightarrow> (\<exists>x. r = Inr x \<and> f x = y)"
  by (cases r; auto)+

section \<open>Dictionaries\<close>

definition dget :: "'k \<Rightarrow> ('k, 'v) dict \<Rightarrow> 'v option" where
  "dget k d = map_of d k"

definition dset :: "'k \<Rightarrow> 'v \<Rightarrow> ('k, 'v) dict \<Rightarrow> ('k, 'v) dict" where
  "dset k v d = AList.update k v d"

definition ddel :: "'k \<Rightarrow> ('k, 'v) dict \<Rightarrow> ('k, 'v) dict" where
  "ddel k d = AList.delete k d"

fun dupdate :: "('k, 'v) dict \<Rightarrow> ('k, 'v) dict \<Rightarrow> ('k, 'v) dict" where
  "dupdate d [] = d"
| "dupdate d ((k, v) # kvs) = dupdate (dset k v d) kvs"

definition dkeys :: "('k, 'v) dict \<Rightarrow> 'k list" where
  "dkeys d = map fst d"

definition dvalues :: "('k, 'v) dict \<Rightarrow> 'v list" where
  "dvalues d = map snd d"

text \<open>\<open>d[k]\<close> raises \<open>KeyError\<close> when the key is absent.\<close>

definition dreq :: "string \<Rightarrow> (string, 'v) dict \<Rightarrow> exn + 'v" where
  "dreq k d = (case dget k d of None \<Rightarrow> Inl (KeyError k) | Some v \<Rightarrow> Inr v)"

text \<open>Equality of dictionaries ignores the insertion order.\<close>

definition dict_eq :: "('k, 'v) dict \<Rightarrow> ('k, 'v) dict \<Rightarrow> bool" where
  "dict_eq a b \<longleftrightarrow> list_all (\<lambda>k. dget k a = dget k b) (dkeys a @ dkeys b)"

lemma dict_eq_iff: "dict_eq a b \<longleftrightarrow> (\<forall>k. dget k a = dget k b)"
proof
  assume eq: "dict_eq a b"
  show "\<forall>k. dget k a = dget k b"
  proof
    fix k
    show "dget k a = dget k b"
    proof (cases "k \<in> set (dkeys a @ dkeys b)")
      case True
      with eq show ?thesis by (auto simp: dict_eq_def list_all_iff)
    next
      case False
      then show ?thesis by (simp add: dget_def dkeys_def map_of_eq_None_iff [THEN iffD2])
    qed
  qed
qed (simp add: dict_eq_def list_all_iff)

lemma dget_Nil [simp]: "dget k [] = None"
  by (simp add: dget_def)

lemma dget_Cons [simp]: "dget k ((k', v) # d) = (if k = k' then Some v else dget k d)"
  by (simp add: dget_def)

lemma dget_append [simp]: "dget k (a @ b) = (case dget k a of None \<Rightarrow> dget k b | Some v \<Rightarrow> Some v)"
  by (simp add: dget_def map_add_def split: option.splits)

lemma dget_dset [simp]: "dget k (dset k' v d) = (if k = k' then Some v else dget k d)"
  by (simp add: dget_def dset_def update_conv')

lemma dget_ddel [simp]: "dget k (ddel k' d) = (if k = k' then None else dget k d)"
  by (simp add: dget_def ddel_def delete_conv')

lemma dset_Nil [simp]: "dset k v [] = [(k, v)]"
  and dset_Cons [simp]: "dset k v ((k', v') # d) = (if k = k' then (k', v) # d else (k', v') # dset k v d)"
  by (simp_all add: dset_def)

lemma ddel_Nil [simp]: "ddel k [] = []"
  and ddel_Cons [simp]: "ddel k ((k', v') # d) = (if k = k' then ddel k d else (k', v') # ddel k d)"
  by (simp_all add: ddel_def)

lemma dkeys_simps [simp]: "dkeys [] = []" "dkeys ((k, v) # d) = k # dkeys d"
    "dkeys (a @ b) = dkeys a @ dkeys b"
  by (simp_all add: dkeys_def)

lemma dvalues_simps [simp]: "dvalues [] = []" "dvalues ((k, v) # d) = v # dvalues d"
  by (simp_all add: dvalues_def)

lemma dget_None_iff: "dget k d = None \<longleftrightarrow> k \<notin> set (dkeys d)"
  by (auto simp: dget_def dkeys_def map_of_eq_None_iff)

lemma dget_SomeD: "dget k d = Some v \<Longrightarrow> (k, v) \<in> set d"
  by (simp add: dget_def map_of_SomeD)

lemma dset_absent: "dget k d = None \<Longrightarrow> dset k v d = d @ [(k, v)]"
  by (induction d) (auto split: if_splits)

lemma distinct_dset [intro]: "distinct (dkeys d) \<Longrightarrow> distinct (dkeys (dset k v d))"
  by (simp add: dkeys_def dset_def distinct_update)

lemma dkeys_dset: "set (dkeys (dset k v d)) = insert k (set (dkeys d))"
  by (simp add: dkeys_def dset_def dom_update)

lemma dkeys_ddel: "set (dkeys (ddel k d)) = set (dkeys d) - {k}"
  by (simp add: dkeys_def ddel_def delete_keys) 

lemma distinct_ddel [intro]: "distinct (dkeys d) \<Longrightarrow> distinct (dkeys (ddel k d))"
  by (simp add: dkeys_def ddel_def distinct_delete)

lemma length_dset: "length (dset k v d) = (if dget k d = None then Suc (length d) else length d)"
  by (induction d) (auto split: if_splits)

lemma dget_dupdate: "dget k (dupdate d e) = (case dget k (rev e) of None \<Rightarrow> dget k d | Some v \<Rightarrow> Some v)"
  by (induction d e rule: dupdate.induct) (auto split: option.splits)

lemma dget_rev: "distinct (dkeys e) \<Longrightarrow> dget k (rev e) = dget k e"
proof (induction e)
  case (Cons p e)
  obtain a b where p: "p = (a, b)" by fastforce
  have "dget a e = None" using Cons.prems by (simp add: p dget_None_iff)
  with Cons p show ?case by (auto split: option.splits)
qed simp

lemma dupdate_fresh:
  "distinct (dkeys e) \<Longrightarrow> \<forall>n\<in>set (dkeys e). dget n d = None \<Longrightarrow> dupdate d e = d @ e"
proof (induction d e rule: dupdate.induct)
  case (2 d k v kvs)
  have "dset k v d = d @ [(k, v)]" using 2(3) by (simp add: dset_absent)
  moreover have "\<forall>n\<in>set (dkeys kvs). dget n (d @ [(k, v)]) = None" using 2(2,3) by auto
  ultimately show ?case using 2(1,2) by simp
qed simp

lemma dreq_Inr: "dreq k d = Inr v \<longleftrightarrow> dget k d = Some v"
  by (simp add: dreq_def split: option.splits)

lemmas dict_simps = dget_def dset_def ddel_def dkeys_def

end
