(* ===== verification/Py_Strings.thy ===== *)
theory Py_Strings
  imports Py_Base
begin

text \<open>
  The \<open>str\<close> methods and the \<open>int\<close>/\<open>str\<close> conversions the service uses: \<open>split\<close>, \<open>join\<close>,
  \<open>find\<close>, \<open>ljust\<close>, \<open>rjust\<close>, \<open>strip\<close>, \<open>str(int)\<close> and \<open>int(str)\<close>, with the facts that
  relate them (a split undoes a join, \<open>int\<close> undoes \<open>str\<close>, padding keeps the number and makes
  the lexicographic order numeric).
\<close>

section \<open>Splitting and joining\<close>

fun join_str :: "string \<Rightarrow> string list \<Rightarrow> string" where
  "join_str sep [] = []"
| "join_str sep [x] = x"
| "join_str sep (x # xs) = x @ sep @ join_str sep xs"

text \<open>\<open>s.split(sep)\<close> for a non-empty separator: the leftmost, non-overlapping occurrences.\<close>

function split_from :: "string \<Rightarrow> string \<Rightarrow> string \<Rightarrow> string list" where
  "split_from sep acc [] = [rev acc]"
| "split_from sep acc (c # cs) =
     (if sep \<noteq> [] \<and> prefix sep (c # cs)
      then rev acc # split_from sep [] (drop (length sep) (c # cs))
      else split_from sep (c # acc) cs)"
  by pat_completeness auto
termination
  by (relation "measure (\<lambda>(sep, acc, s). length s)") auto

definition split_str :: "string \<Rightarrow> string \<Rightarrow> string list" where
  "split_str sep s = split_from sep [] s"

text \<open>\<open>s.split(sep, n)\<close>: at most \<open>n\<close> splits, the rest is the last part.\<close>

function split_from_max :: "nat \<Rightarrow> string \<Rightarrow> string \<Rightarrow> string \<Rightarrow> string list" where
  "split_from_max n sep acc [] = [rev acc]"
| "split_from_max n sep acc (c # cs) =
     (if n = 0 then [rev acc @ c # cs]
      else if sep \<noteq> [] \<and> prefix sep (c # cs)
      then rev acc # split_from_max (n - 1) sep [] (drop (length sep) (c # cs))
      else split_from_max n sep (c # acc) cs)"
  by pat_completeness auto
termination
  by (relation "measure (\<lambda>(n, sep, acc, s). length s)") auto

definition split_max :: "string \<Rightarrow> nat \<Rightarrow> string \<Rightarrow> string list" where
  "split_max sep n s = split_from_max n sep [] s"

text \<open>\<open>s.find(sub)\<close>: the index of the first occurrence, \<open>-1\<close> if there is none.\<close>

fun find_from :: "string \<Rightarrow> nat \<Rightarrow> string \<Rightarrow> int" where
  "find_from sub i [] = (if sub = [] then int i else -1)"
| "find_from sub i (c # cs) = (if prefix sub (c # cs) then int i else find_from sub (Suc i) cs)"

definition find_str :: "string \<Rightarrow> string \<Rightarrow> int" where
  "find_str sub s = find_from sub 0 s"

definition contains_str :: "string \<Rightarrow> string \<Rightarrow> bool" where
  "contains_str sub s \<longleftrightarrow> find_str sub s \<ge> 0"

lemma split_from_skip:
  "c \<notin> set xs \<Longrightarrow> split_from (c # sep) acc (xs @ s) = split_from (c # sep) (rev xs @ acc) s"
  by (induction xs arbitrary: acc) auto

lemma split_from_sep: "sep \<noteq> [] \<Longrightarrow> split_from sep acc (sep @ s) = rev acc # split_from sep [] s"
  by (cases sep) auto

theorem split_join:
  assumes "xs \<noteq> []" "\<forall>x\<in>set xs. c \<notin> set x"
  shows "split_str [c] (join_str [c] xs) = xs"
proof -
  have "split_from [c] acc (join_str [c] xs) = (rev acc @ hd xs) # tl xs" for acc
    using assms
  proof (induction "[c]" xs arbitrary: acc rule: join_str.induct)
    case (2 x)
    then show ?case using split_from_skip [of c x "[]" acc "[]"] by simp
  next
    case (3 x y ys)
    have "split_from [c] acc (x @ [c] @ join_str [c] (y # ys)) =
        (rev acc @ x) # split_from [c] [] (join_str [c] (y # ys))"
      using 3 split_from_skip [of c x "[]" acc "[c] @ join_str [c] (y # ys)"]
      by (simp add: split_from_sep)
    also have "split_from [c] [] (join_str [c] (y # ys)) = y # ys"
      using 3 by simp
    finally show ?case by simp
  qed simp
  with assms(1) show ?thesis by (simp add: split_str_def)
qed

lemma split_str_no_sep: "c \<notin> set s \<Longrightarrow> split_str [c] s = [s]"
  using split_join [of "[s]" c] by simp

lemma split_from_nonempty [simp]: "split_from sep acc s \<noteq> []"
  by (induction sep acc s rule: split_from.induct) auto

lemma split_str_nonempty [simp]: "split_str sep s \<noteq> []"
  by (simp add: split_str_def)

lemma split_from_no_char: "x \<in> set (split_from [c] acc s) \<Longrightarrow> c \<notin> set acc \<Longrightarrow> c \<notin> set x"
  by (induction "[c]" acc s rule: split_from.induct) (auto split: if_splits)

lemma split_str_no_char: "x \<in> set (split_str [c] s) \<Longrightarrow> c \<notin> set x"
  using split_from_no_char [of x c "[]" s] by (simp add: split_str_def)

lemma join_split_from: "join_str [c] (split_from [c] acc s) = rev acc @ s"
proof (induction "[c]" acc s rule: split_from.induct)
  case (2 acc d cs)
  show ?case
  proof (cases "prefix [c] (d # cs)")
    case True
    then have d: "d = c" by simp
    obtain y ys where y: "split_from [c] [] cs = y # ys"
      by (meson neq_Nil_conv split_from_nonempty)
    have "join_str [c] (y # ys) = cs" using 2(1) True d y by simp
    then show ?thesis by (simp add: d y)
  next
    case False
    then show ?thesis using 2 by simp
  qed
qed simp

lemma join_split: "join_str [c] (split_str [c] s) = s"
  by (simp add: split_str_def join_split_from)

lemma join_str_Cons: "xs \<noteq> [] \<Longrightarrow> join_str sep (x # xs) = x @ sep @ join_str sep xs"
  by (cases xs) auto

lemma join_str_snoc: "xs \<noteq> [] \<Longrightarrow> join_str sep (xs @ [x]) = join_str sep xs @ sep @ x"
proof (induction xs)
  case (Cons a xs)
  then show ?case by (cases xs) auto
qed simp

lemma set_join_str: "set (join_str sep xs) \<subseteq> set sep \<union> \<Union> (set ` set xs)"
  by (induction sep xs rule: join_str.induct) auto

lemma find_from_prefix: "find_from sub i s = (if find_from sub 0 s < 0 then -1 else int i + find_from sub 0 s)"
proof (induction s arbitrary: i)
  case (Cons c cs)
  have "find_from sub 1 cs = (if find_from sub 0 cs < 0 then -1 else 1 + find_from sub 0 cs)"
    using Cons [of 1] by simp
  moreover have "find_from sub (Suc i) cs =
      (if find_from sub 0 cs < 0 then -1 else int (Suc i) + find_from sub 0 cs)"
    by (rule Cons)
  ultimately show ?case by auto
qed simp

lemma find_char_skip: "c \<notin> set xs \<Longrightarrow> find_from [c] i (xs @ s) = find_from [c] (i + length xs) s"
  by (induction xs arbitrary: i) auto

lemma find_char: "c \<notin> set xs \<Longrightarrow> find_str [c] (xs @ c # s) = int (length xs)"
  by (simp add: find_str_def find_char_skip)

lemma find_char_none: "c \<notin> set s \<Longrightarrow> find_str [c] s = -1"
  using find_char_skip [of c s 0 "[]"] by (simp add: find_str_def)

section \<open>Padding\<close>

definition ljust :: "nat \<Rightarrow> char \<Rightarrow> string \<Rightarrow> string" where
  "ljust n c s = s @ replicate (n - length s) c"

definition rjust :: "nat \<Rightarrow> char \<Rightarrow> string \<Rightarrow> string" where
  "rjust n c s = replicate (n - length s) c @ s"

lemma length_ljust [simp]: "length (ljust n c s) = max n (length s)"
  and length_rjust [simp]: "length (rjust n c s) = max n (length s)"
  by (simp_all add: ljust_def rjust_def)

lemma ljust_idem [simp]: "ljust n c (ljust n c s) = ljust n c s"
  and rjust_idem [simp]: "rjust n c (rjust n c s) = rjust n c s"
  by (simp_all add: ljust_def rjust_def)

section \<open>White space and case\<close>

definition is_space :: "char \<Rightarrow> bool" where
  "is_space c \<longleftrightarrow> (let n = (of_char c :: nat) in
     n = 32 \<or> (9 \<le> n \<and> n \<le> 13) \<or> (28 \<le> n \<and> n \<le> 31) \<or> n = 133 \<or> n = 160)"

definition strip :: "string \<Rightarrow> string" where
  "strip s = rev (dropWhile is_space (rev (dropWhile is_space s)))"

text \<open>\<open>str.lower\<close> on the ASCII range.\<close>

definition lower_char :: "char \<Rightarrow> char" where
  "lower_char c = (let n = (of_char c :: nat) in if 65 \<le> n \<and> n \<le> 90 then char_of (n + 32) else c)"

definition lower :: "string \<Rightarrow> string" where
  "lower s = map lower_char s"

section \<open>Numbers\<close>

definition is_digit :: "char \<Rightarrow> bool" where
  "is_digit c \<longleftrightarrow> (let n = (of_char c :: nat) in 48 \<le> n \<and> n \<le> 57)"

definition digit_val :: "char \<Rightarrow> nat" where
  "digit_val c = of_char c - 48"

definition digit_char :: "nat \<Rightarrow> char" where
  "digit_char d = char_of (d + 48)"

fun nat_str :: "nat \<Rightarrow> string" where
  "nat_str n = (if n < 10 then [digit_char n] else nat_str (n div 10) @ [digit_char (n mod 10)])"

declare nat_str.simps [simp del]

text \<open>\<open>str(i)\<close>\<close>

definition int_str :: "int \<Rightarrow> string" where
  "int_str i = (if i < 0 then CHR ''-'' # nat_str (nat (- i)) else nat_str (nat i))"

text \<open>\<open>int(s)\<close>: white space around, one sign, digits with single underscores between them.\<close>

fun parse_rest :: "nat \<Rightarrow> string \<Rightarrow> nat option" where
  "parse_rest acc [] = Some acc"
| "parse_rest acc [c] = (if is_digit c then Some (acc * 10 + digit_val c) else None)"
| "parse_rest acc (c # d # cs) =
     (if is_digit c then parse_rest (acc * 10 + digit_val c) (d # cs)
      else if c = CHR ''_'' \<and> is_digit d then parse_rest (acc * 10 + digit_val d) cs
      else None)"

fun parse_nat :: "string \<Rightarrow> nat option" where
  "parse_nat [] = None"
| "parse_nat (c # cs) = (if is_digit c then parse_rest (digit_val c) cs else None)"

fun parse_signed :: "string \<Rightarrow> int option" where
  "parse_signed [] = None"
| "parse_signed (c # cs) =
     (if c = CHR ''-'' then map_option (\<lambda>n. - int n) (parse_nat cs)
      else if c = CHR ''+'' then map_option int (parse_nat cs)
      else map_option int (parse_nat (c # cs)))"

definition int_of_str :: "string \<Rightarrow> exn + int" where
  "int_of_str s = (case parse_signed (strip s) of
     None \<Rightarrow> Inl (ValueError s) | Some i \<Rightarrow> Inr i)"

lemma is_digit_digit_char [simp]: "d < 10 \<Longrightarrow> is_digit (digit_char d)"
  by (simp add: is_digit_def digit_char_def)

lemma digit_val_digit_char [simp]: "d < 10 \<Longrightarrow> digit_val (digit_char d) = d"
  by (simp add: digit_val_def digit_char_def)

lemma digit_not_space: "is_digit c \<Longrightarrow> \<not> is_space c"
  by (auto simp: is_digit_def is_space_def Let_def)

lemma digit_not_sign: "is_digit c \<Longrightarrow> c \<noteq> CHR ''-'' \<and> c \<noteq> CHR ''+'' \<and> c \<noteq> CHR ''_''"
  by (auto simp: is_digit_def)

lemma nat_str_digits: "\<forall>c\<in>set (nat_str n). is_digit c"
proof (induction n rule: nat_str.induct)
  case (1 n)
  then show ?case by (subst nat_str.simps) auto
qed

lemma nat_str_nonempty [simp]: "nat_str n \<noteq> []"
  by (subst nat_str.simps) simp

definition digits_val :: "nat \<Rightarrow> string \<Rightarrow> nat" where
  "digits_val acc s = foldl (\<lambda>a c. a * 10 + digit_val c) acc s"

lemma digits_val_simps [simp]: "digits_val acc [] = acc"
    "digits_val acc (c # s) = digits_val (acc * 10 + digit_val c) s"
    "digits_val acc (s @ t) = digits_val (digits_val acc s) t"
  by (simp_all add: digits_val_def)

lemma digits_val_nat_str: "digits_val 0 (nat_str n) = n"
proof (induction n rule: nat_str.induct)
  case (1 n)
  then show ?case by (subst nat_str.simps) auto
qed

lemma parse_rest_digits: "\<forall>c\<in>set s. is_digit c \<Longrightarrow> parse_rest acc s = Some (digits_val acc s)"
  by (induction acc s rule: parse_rest.induct) auto

lemma parse_nat_digits: "\<forall>c\<in>set s. is_digit c \<Longrightarrow> s \<noteq> [] \<Longrightarrow> parse_nat s = Some (digits_val 0 s)"
  by (cases s) (auto simp: parse_rest_digits)

lemma strip_no_space: "s \<noteq> [] \<Longrightarrow> \<not> is_space (hd s) \<Longrightarrow> \<not> is_space (last s) \<Longrightarrow> strip s = s"
proof -
  assume s: "s \<noteq> []" "\<not> is_space (hd s)" "\<not> is_space (last s)"
  then have "dropWhile is_space s = s" "dropWhile is_space (rev s) = rev s"
    by (simp_all add: dropWhile_eq_self_iff hd_rev)
  then show ?thesis by (simp add: strip_def)
qed

lemma int_of_digits:
  assumes "\<forall>c\<in>set s. is_digit c" "s \<noteq> []"
  shows "int_of_str s = Inr (int (digits_val 0 s))"
proof -
  have "strip s = s"
    using assms by (intro strip_no_space) (auto simp: digit_not_space)
  moreover obtain c cs where "s = c # cs" using assms(2) by (cases s) auto
  ultimately show ?thesis
    using assms parse_nat_digits [OF assms] by (simp add: int_of_str_def digit_not_sign)
qed

lemma digits_val_zeros [simp]: "digits_val 0 (replicate k (CHR ''0'')) = 0"
  by (induction k) (simp_all add: digit_val_def)

theorem int_of_int_str: "int_of_str (int_str i) = Inr i"
proof (cases "i < 0")
  case True
  have "last (nat_str (nat (- i))) \<in> set (nat_str (nat (- i)))" by simp
  then have "\<not> is_space (last (nat_str (nat (- i))))"
    using nat_str_digits digit_not_space by blast
  then have "strip (CHR ''-'' # nat_str (nat (- i))) = CHR ''-'' # nat_str (nat (- i))"
    by (intro strip_no_space) (auto simp: is_space_def)
  then show ?thesis
    using True parse_nat_digits [OF nat_str_digits nat_str_nonempty, of "nat (- i)"]
    by (simp add: int_of_str_def int_str_def digits_val_nat_str)
next
  case False
  then show ?thesis
    using int_of_digits [OF nat_str_digits nat_str_nonempty, of "nat i"]
    by (simp add: int_str_def digits_val_nat_str)
qed

lemma int_of_rjust_int_str:
  assumes "0 \<le> i"
  shows "int_of_str (rjust n (CHR ''0'') (int_str i)) = Inr i"
proof -
  let ?s = "rjust n (CHR ''0'') (int_str i)"
  have s: "?s = replicate (n - length (nat_str (nat i))) (CHR ''0'') @ nat_str (nat i)"
    using assms by (simp add: rjust_def int_str_def)
  have "\<forall>c\<in>set ?s. is_digit c"
    using nat_str_digits by (auto simp: s is_digit_def)
  then show ?thesis
    using int_of_digits [of ?s] assms by (simp add: s digits_val_nat_str)
qed

text \<open>The characters of a printed number are digits or the sign, never a delimiter.\<close>

lemma int_str_chars: "c \<in> set (int_str i) \<Longrightarrow> is_digit c \<or> c = CHR ''-''"
  using nat_str_digits by (auto simp: int_str_def split: if_splits)

lemma int_str_nonempty [simp]: "int_str i \<noteq> []"
  by (simp add: int_str_def)

lemma int_str_inj: "int_str i = int_str j \<longleftrightarrow> i = j"
  by (metis Inr_inject int_of_int_str)

subsection \<open>Zero padding makes the lexicographic order numeric\<close>

lemma length_nat_str_less: "n < 10 ^ k \<Longrightarrow> 0 < k \<Longrightarrow> length (nat_str n) \<le> k"
proof (induction n arbitrary: k rule: nat_str.induct)
  case (1 n)
  show ?case
  proof (cases "n < 10")
    case True
    with 1 show ?thesis by (subst nat_str.simps) simp
  next
    case False
    then have "k \<noteq> 1" using 1 by (cases "k = 1") auto
    then obtain k' where k: "k = Suc k'" "0 < k'" using 1 by (cases k) auto
    then have "n div 10 < 10 ^ k'" using 1 by (simp add: less_mult_imp_div_less mult.commute)
    with 1 False k show ?thesis by (subst nat_str.simps) auto
  qed
qed

text \<open>Digit strings of one length compare as the numbers they print.\<close>

lemma digits_val_bound: "\<forall>c\<in>set s. is_digit c \<Longrightarrow> digits_val acc s < (acc + 1) * 10 ^ length s"
proof (induction s arbitrary: acc)
  case (Cons c s)
  have d: "digit_val c \<le> 9" using Cons.prems by (auto simp: is_digit_def digit_val_def Let_def)
  have "digits_val (acc * 10 + digit_val c) s < (acc * 10 + digit_val c + 1) * 10 ^ length s"
    using Cons by simp
  also have "\<dots> \<le> (acc * 10 + 10) * 10 ^ length s" using d by (intro mult_right_mono) auto
  finally show ?case by (simp add: algebra_simps)
qed simp

lemma digits_val_acc: "digits_val acc s = acc * 10 ^ length s + digits_val 0 s"
proof (induction s arbitrary: acc)
  case (Cons c s)
  have "digits_val (acc * 10 + digit_val c) s = (acc * 10 + digit_val c) * 10 ^ length s + digits_val 0 s"
    "digits_val (digit_val c) s = digit_val c * 10 ^ length s + digits_val 0 s"
    by (rule Cons)+
  then show ?case by (simp add: algebra_simps)
qed simp

lemma digit_less: "is_digit c \<Longrightarrow> is_digit d \<Longrightarrow> digit_val c < digit_val d \<longleftrightarrow> c < d"
  by (auto simp: is_digit_def digit_val_def less_char_def Let_def)

lemma digits_lex:
  assumes "length s = length t" "\<forall>c\<in>set s. is_digit c" "\<forall>c\<in>set t. is_digit c"
  shows "s < t \<longleftrightarrow> digits_val 0 s < digits_val 0 t"
  using assms
proof (induction s t rule: list_induct2)
  case (Cons c s d t)
  have vs: "digits_val 0 s < 10 ^ length t" "digits_val 0 t < 10 ^ length t"
    using digits_val_bound [of s 0] digits_val_bound [of t 0] Cons by auto
  have cd: "digits_val 0 (c # s) = digit_val c * 10 ^ length t + digits_val 0 s"
    "digits_val 0 (d # t) = digit_val d * 10 ^ length t + digits_val 0 t"
    using digits_val_acc [of "digit_val c" s] digits_val_acc [of "digit_val d" t] Cons.hyps by simp_all
  have step: "digits_val 0 (x # xs) < digits_val 0 (y # ys)"
    if "digit_val x < digit_val y" "digits_val 0 xs < 10 ^ length ys" "length xs = length ys"
    for x y xs ys
  proof -
    have "digits_val 0 (x # xs) < (digit_val x + 1) * 10 ^ length ys"
      using that digits_val_acc [of "digit_val x" xs] by simp
    also have "\<dots> \<le> digit_val y * 10 ^ length ys" using that by (intro mult_right_mono) auto
    also have "\<dots> \<le> digits_val 0 (y # ys)" using digits_val_acc [of "digit_val y" ys] by simp
    finally show ?thesis .
  qed
  show ?case
  proof (cases "digit_val c = digit_val d")
    case True
    then have "c = d" using Cons.prems digit_less [of c d] digit_less [of d c] by auto
    then show ?thesis using Cons cd by simp
  next
    case False
    then have "c \<noteq> d" by auto
    show ?thesis
    proof (cases "digit_val c < digit_val d")
      case True
      then have "c < d" using Cons.prems digit_less by simp
      moreover have "digits_val 0 (c # s) < digits_val 0 (d # t)"
        using True vs Cons.hyps by (intro step) auto
      ultimately show ?thesis by simp
    next
      case False
      with \<open>digit_val c \<noteq> digit_val d\<close> have l: "digit_val d < digit_val c" by simp
      then have "d < c" using Cons.prems digit_less by simp
      then have "\<not> c # s < d # t" by (auto simp: not_less)
      moreover have "digits_val 0 (d # t) < digits_val 0 (c # s)"
        using l vs Cons.hyps by (intro step) auto
      ultimately show ?thesis by simp
    qed
  qed
qed simp

theorem zero_padded_order:
  assumes "0 \<le> i" "0 \<le> j" "i < 10 ^ n" "j < 10 ^ n" "0 < n"
  shows "rjust n (CHR ''0'') (int_str i) < rjust n (CHR ''0'') (int_str j) \<longleftrightarrow> i < j"
proof -
  let ?p = "\<lambda>i. rjust n (CHR ''0'') (int_str i)"
  have len: "length (?p k) = n" if "0 \<le> k" "k < 10 ^ n" for k
  proof -
    have "nat k < 10 ^ n" using that by (simp add: nat_less_iff)
    then have "length (nat_str (nat k)) \<le> n" using assms(5) by (rule length_nat_str_less)
    then show ?thesis using that by (simp add: int_str_def)
  qed
  have digs: "\<forall>c\<in>set (?p k). is_digit c" if "0 \<le> k" for k
    using that nat_str_digits by (auto simp: rjust_def int_str_def is_digit_def)
  have val: "digits_val 0 (?p k) = nat k" if "0 \<le> k" for k
    using that by (simp add: rjust_def int_str_def digits_val_nat_str)
  show ?thesis
    using digits_lex [of "?p i" "?p j"] len digs val assms by auto
qed

end
