(* ===== verification/Ddb_Values.thy ===== *)
theory Ddb_Values
  imports Py_Strings
begin

text \<open>
  Conversion between Python values and DynamoDB attribute values (\<open>aws/dynamodb.py\<close>,
  \<open>convert_value\<close> to \<open>_to_ddb_item\<close>). An attribute value is a one-entry dictionary from a type
  tag to a value of the type DynamoDB documents for that tag; \<open>Attr\<close> holds the entries of that
  dictionary, so that the checks of \<open>convert_value\<close> on their number are part of the model.
\<close>

datatype attr = Attr "attr_val list"
  and attr_val =
    SV string | NV string | BOOLV bool | BV bytes
  | MV "(string \<times> attr) list" | LV "attr list" | NULLV
  | UnknownV string

type_synonym ddb_item = "(string, attr) dict"

definition dont_know :: "string \<Rightarrow> string" where
  "dont_know t = ''Don'' @ [CHR 0x27] @ ''t know how to handle '' @ t"

subsection \<open>From DynamoDB\<close>

text \<open>The texts \<open>float\<close> accepts among those that contain a dot.\<close>

definition float_text :: "string \<Rightarrow> bool" where
  "float_text s = (let
     t = strip s;
     u = (if t \<noteq> [] \<and> (hd t = CHR ''-'' \<or> hd t = CHR ''+'') then tl t else t);
     ip = takeWhile is_digit u; r = dropWhile is_digit u
   in r \<noteq> [] \<and> hd r = CHR ''.'' \<and>
      (let fp = takeWhile is_digit (tl r); e = dropWhile is_digit (tl r)
       in (ip \<noteq> [] \<or> fp \<noteq> []) \<and>
          (e = [] \<or> (hd e = CHR ''e'' \<or> hd e = CHR ''E'') \<and>
             (let x = tl e; y = (if x \<noteq> [] \<and> (hd x = CHR ''-'' \<or> hd x = CHR ''+'') then tl x else x)
              in y \<noteq> [] \<and> list_all is_digit y))))"

definition number_of_text :: "string \<Rightarrow> exn + pyval" where
  "number_of_text x =
     (if CHR ''.'' \<in> set x
      then (if float_text x then Inr (PyFloat x) else Inl (ValueError x))
      else rbind (int_of_str x) (\<lambda>i. Inr (PyInt i)))"

fun convert_value :: "attr \<Rightarrow> exn + pyval"
  and convert_typed :: "attr_val \<Rightarrow> exn + pyval"
  and build_list :: "attr list \<Rightarrow> exn + pyval list"
  and build_map :: "(string \<times> attr) list \<Rightarrow> exn + (string \<times> pyval) list"
where
  "convert_value (Attr []) = Inl IndexError"
| "convert_value (Attr [v]) = convert_typed v"
| "convert_value (Attr (_ # _ # _)) = Inl (ValueError ''Too many keys'')"
| "convert_typed (SV s) = Inr (PyStr s)"
| "convert_typed (BOOLV b) = Inr (PyBool b)"
| "convert_typed (BV b) = Inr (PyBytes b)"
| "convert_typed (NV n) = number_of_text n"
| "convert_typed (MV m) = rbind (build_map m) (\<lambda>d. Inr (PyDict d))"
| "convert_typed (LV l) = rbind (build_list l) (\<lambda>xs. Inr (PyList xs))"
| "convert_typed NULLV = Inr PyNone"
| "convert_typed (UnknownV t) = Inl (ValueError (dont_know t))"
| "build_list [] = Inr []"
| "build_list (x # xs) = rbind (convert_value x) (\<lambda>v. rbind (build_list xs) (\<lambda>vs. Inr (v # vs)))"
| "build_map [] = Inr []"
| "build_map ((k, x) # kxs) =
     rbind (convert_value x) (\<lambda>v. rbind (build_map kxs) (\<lambda>kvs. Inr ((k, v) # kvs)))"

definition from_ddb_item :: "ddb_item \<Rightarrow> exn + row" where
  "from_ddb_item item = build_map item"

subsection \<open>To DynamoDB\<close>

fun to_attribute_value :: "pyval \<Rightarrow> exn + attr_val"
  and to_attr_list :: "pyval list \<Rightarrow> exn + attr list"
  and to_attribute_value_map :: "(string \<times> pyval) list \<Rightarrow> exn + (string \<times> attr) list"
where
  "to_attribute_value PyNone = Inr NULLV"
| "to_attribute_value (PyStr s) = Inr (SV s)"
| "to_attribute_value (PyBool b) = Inr (BOOLV b)"
| "to_attribute_value (PyFloat t) = Inr (NV t)"
| "to_attribute_value (PyInt i) = Inr (NV (int_str i))"
| "to_attribute_value (PyList l) = rbind (to_attr_list l) (\<lambda>xs. Inr (LV xs))"
| "to_attribute_value (PyDict d) = rbind (to_attribute_value_map d) (\<lambda>m. Inr (MV m))"
| "to_attribute_value (PyBytes b) = Inr (BV b)"
| "to_attribute_value (PyOther t) = Inl (PlainException (dont_know t))"
| "to_attr_list [] = Inr []"
| "to_attr_list (x # xs) =
     rbind (to_attribute_value x) (\<lambda>v. rbind (to_attr_list xs) (\<lambda>vs. Inr (Attr [v] # vs)))"
| "to_attribute_value_map [] = Inr []"
| "to_attribute_value_map ((k, x) # kxs) =
     rbind (to_attribute_value x)
       (\<lambda>v. rbind (to_attribute_value_map kxs) (\<lambda>kvs. Inr ((k, Attr [v]) # kvs)))"

definition to_attribute_value_dict :: "pyval \<Rightarrow> exn + attr" where
  "to_attribute_value_dict v = rbind (to_attribute_value v) (\<lambda>av. Inr (Attr [av]))"

definition to_ddb_item :: "row \<Rightarrow> exn + ddb_item" where
  "to_ddb_item entry = to_attribute_value_map entry"

subsection \<open>The conversions are inverse on storable values\<close>

text \<open>
  A value is storable when every part of it has one of the converted types and every float
  prints with a dot: \<open>str(1e16)\<close> is \<open>1e+16\<close>, which \<open>convert_value\<close> hands to \<open>int\<close>.
\<close>

fun storable :: "pyval \<Rightarrow> bool" where
  "storable (PyOther t) = False"
| "storable (PyFloat t) = (CHR ''.'' \<in> set t \<and> float_text t)"
| "storable (PyList l) = list_all storable l"
| "storable (PyDict d) = list_all (\<lambda>p. storable (snd p)) d"
| "storable _ = True"

definition storable_row :: "row \<Rightarrow> bool" where
  "storable_row r = list_all (\<lambda>p. storable (snd p)) r"

lemma no_dot_int_str: "CHR ''.'' \<notin> set (int_str i)"
  using int_str_chars [of "CHR ''.''" i] by (auto simp: is_digit_def)

lemma number_of_int_str [simp]: "number_of_text (int_str i) = Inr (PyInt i)"
  by (simp add: number_of_text_def no_dot_int_str int_of_int_str)

lemma convert_to_attribute:
  "storable v \<Longrightarrow> \<exists>av. to_attribute_value v = Inr av \<and> convert_typed av = Inr v"
  "list_all storable l \<Longrightarrow> \<exists>xs. to_attr_list l = Inr xs \<and> build_list xs = Inr l"
  "list_all (\<lambda>p. storable (snd p)) d \<Longrightarrow>
     \<exists>m. to_attribute_value_map d = Inr m \<and> build_map m = Inr d \<and> dkeys m = dkeys d"
proof (induction v and l and d
    rule: to_attribute_value_to_attr_list_to_attribute_value_map.induct)
  case (4 t)
  then show ?case by (simp add: number_of_text_def)
qed auto

text \<open>
  C25 (roundtrip). A row of storable values can always be written to DynamoDB, and the item
  written reads back as the same row, key for key and in the same order.
\<close>

theorem item_roundtrip:
  assumes "storable_row r"
  shows "\<exists>item. to_ddb_item r = Inr item \<and> from_ddb_item item = Inr r"
  using convert_to_attribute(3) [of r] assms
  by (auto simp: storable_row_def to_ddb_item_def from_ddb_item_def)

lemma item_roundtrip_witness:
  "\<exists>item. to_ddb_item [(''id'', PyStr ''s1''), (''n'', PyInt (- 42)), (''w'', PyList [PyNone, PyBytes [1]])] = Inr item \<and>
     from_ddb_item item = Inr [(''id'', PyStr ''s1''), (''n'', PyInt (- 42)), (''w'', PyList [PyNone, PyBytes [1]])]"
  by (rule item_roundtrip) (simp add: storable_row_def)

end
