(* ===== verification/Ddb_Keys.thy ===== *)
theory Ddb_Keys
  imports Ddb_Values
begin

text \<open>
  Composite keys (\<open>aws/dynamodb_keys.py\<close>): several attributes of a row are formatted and joined
  with a tab into one key attribute of the table, and split again when the row is read. A virtual
  table injects its table type as the first part of the hash key.
\<close>

subsection \<open>Formatters\<close>

datatype attribute_type = TStr | TInt | TOther string

datatype formatter = StringFormatter "nat option" | IntFormatter "nat option"

text \<open>\<open>str(v)\<close> of the scalar values; of a container it is not modelled.\<close>

fun str_of :: "pyval \<Rightarrow> exn + string" where
  "str_of PyNone = Inr ''None''"
| "str_of (PyBool b) = Inr (if b then ''True'' else ''False'')"
| "str_of (PyInt i) = Inr (int_str i)"
| "str_of (PyFloat t) = Inr t"
| "str_of (PyStr s) = Inr s"
| "str_of _ = Inl NotImplementedError"

fun format_part :: "formatter \<Rightarrow> pyval \<Rightarrow> exn + pyval" where
  "format_part (StringFormatter None) v = Inr v"
| "format_part (StringFormatter (Some n)) (PyStr s) = Inr (PyStr (ljust n (CHR ''~'') s))"
| "format_part (StringFormatter (Some n)) (PyBytes b) = Inl TypeError"
| "format_part (StringFormatter (Some n)) v = Inl AttributeError"
| "format_part (IntFormatter sz) v = rbind (str_of v) (\<lambda>out.
     Inr (PyStr (case sz of None \<Rightarrow> out | Some n \<Rightarrow> rjust n (CHR ''0'') out)))"

fun extract_part :: "formatter \<Rightarrow> string \<Rightarrow> exn + pyval" where
  "extract_part (StringFormatter None) v = Inr (PyStr v)"
| "extract_part (StringFormatter (Some n)) v =
     (let i = find_str ''~'' v in Inr (PyStr (if i > -1 then take (nat i) v else v)))"
| "extract_part (IntFormatter sz) v = rbind (int_of_str v) (\<lambda>i. Inr (PyInt i))"

text \<open>\<open>CompositeKeyPart\<close>: the formatter of its type; the size of a formatter must be positive.\<close>

definition composite_key_part :: "attribute_type \<times> nat option \<Rightarrow> exn + formatter" where
  "composite_key_part ts = (case ts of (t, sz) \<Rightarrow>
     (case t of
        TOther n \<Rightarrow> Inl (ValueError (''Unsupported type: '' @ n))
      | TStr \<Rightarrow> if sz = Some 0 then Inl AssertionError else Inr (StringFormatter sz)
      | TInt \<Rightarrow> if sz = Some 0 then Inl AssertionError else Inr (IntFormatter sz)))"

subsection \<open>Composite keys\<close>

record composite_key =
  ck_attribute :: string
  ck_parts :: "(string, formatter) dict"
  ck_original_parts :: "(string, formatter) dict"
  ck_delimiter :: string
  ck_injected :: "(string \<times> pyval) option"

definition default_delimiter :: string where
  "default_delimiter = [CHR 0x09]"

fun build_parts :: "(string, attribute_type \<times> nat option) dict \<Rightarrow> exn + (string, formatter) dict" where
  "build_parts [] = Inr []"
| "build_parts ((n, ts) # r) =
     rbind (composite_key_part ts) (\<lambda>f. rbind (build_parts r) (\<lambda>fs. Inr ((n, f) # fs)))"

definition new_composite_key ::
  "string \<Rightarrow> (string, attribute_type \<times> nat option) dict \<Rightarrow> exn + composite_key" where
  "new_composite_key name attrs = rbind (build_parts attrs) (\<lambda>ps.
     Inr \<lparr>ck_attribute = name, ck_parts = ps, ck_original_parts = ps,
          ck_delimiter = default_delimiter, ck_injected = None\<rparr>)"

definition type_of :: "pyval \<Rightarrow> attribute_type" where
  "type_of v = (case v of PyStr _ \<Rightarrow> TStr | PyInt _ \<Rightarrow> TInt | _ \<Rightarrow> TOther ''?'')"

definition inject_attribute :: "string \<Rightarrow> pyval \<Rightarrow> composite_key \<Rightarrow> exn + composite_key" where
  "inject_attribute name v ck = rbind (composite_key_part (type_of v, None)) (\<lambda>p.
     Inr (ck\<lparr>ck_parts := dupdate [(name, p)] (ck_parts ck), ck_injected := Some (name, v)\<rparr>))"

text \<open>The values of the parts, taken out of the item with \<open>pop\<close> or read with \<open>[]\<close>.\<close>

fun part_values :: "bool \<Rightarrow> (string, formatter) dict \<Rightarrow> row \<Rightarrow> exn + pyval list \<times> row" where
  "part_values remove [] item = Inr ([], item)"
| "part_values remove ((n, f) # ps) item =
     rbind (dreq n item) (\<lambda>v.
     rbind (format_part f v) (\<lambda>s.
     rbind (part_values remove ps (if remove then ddel n item else item)) (\<lambda>(vs, item').
     Inr (s # vs, item'))))"

fun strings_of :: "pyval list \<Rightarrow> exn + string list" where
  "strings_of [] = Inr []"
| "strings_of (PyStr s # vs) = rbind (strings_of vs) (\<lambda>ss. Inr (s # ss))"
| "strings_of (v # vs) = Inl TypeError"

definition injected_values :: "composite_key \<Rightarrow> pyval list" where
  "injected_values ck = (case ck_injected ck of None \<Rightarrow> [] | Some (n, v) \<Rightarrow> [v])"

text \<open>\<open>build_key\<close>: the key text and the item without the parts (when \<open>remove\<close> is set).\<close>

definition build_key :: "composite_key \<Rightarrow> row \<Rightarrow> bool \<Rightarrow> exn + string \<times> row" where
  "build_key ck item remove =
     rbind (part_values remove (ck_original_parts ck) item) (\<lambda>(vs, item').
     rbind (strings_of (injected_values ck @ vs)) (\<lambda>ss.
     Inr (join_str (ck_delimiter ck) ss, item')))"

definition ck_prep_for_serialization :: "composite_key \<Rightarrow> row \<Rightarrow> exn + row" where
  "ck_prep_for_serialization ck item =
     rbind (build_key ck item True) (\<lambda>(key, item'). Inr (dset (ck_attribute ck) (PyStr key) item'))"

fun parts_from_args ::
  "(string, formatter) dict \<Rightarrow> pyval list \<Rightarrow> row \<Rightarrow> exn + row \<times> pyval list" where
  "parts_from_args [] args target = Inr (target, args)"
| "parts_from_args ((n, f) # ps) [] target = Inl StopIteration"
| "parts_from_args ((n, f) # ps) (a # args) target =
     rbind (format_part f a) (\<lambda>v. parts_from_args ps args (dset n v target))"

fun extract_parts :: "(string, formatter) dict \<Rightarrow> string list \<Rightarrow> row \<Rightarrow> exn + row" where
  "extract_parts [] vs item = Inr item"
| "extract_parts ((n, f) # ps) [] item = Inl StopIteration"
| "extract_parts ((n, f) # ps) (v # vs) item =
     rbind (extract_part f v) (\<lambda>x. extract_parts ps vs (dset n x item))"

definition ck_prep_for_deserialization :: "composite_key \<Rightarrow> row \<Rightarrow> exn + row" where
  "ck_prep_for_deserialization ck item =
     rbind (dreq (ck_attribute ck) item) (\<lambda>key.
     case key of
       PyStr k \<Rightarrow>
         (let values = split_str (ck_delimiter ck) k;
              values = (if ck_injected ck \<noteq> None then tl values else values)
          in extract_parts (ck_original_parts ck) values (ddel (ck_attribute ck) item))
     | _ \<Rightarrow> Inl AttributeError)"

subsection \<open>Keys and compound keys\<close>

datatype key = PlainKey string | CompositeK composite_key

fun key_attribute :: "key \<Rightarrow> string" where
  "key_attribute (PlainKey n) = n"
| "key_attribute (CompositeK ck) = ck_attribute ck"

text \<open>\<open>populate_key\<close> with \<open>remove=False\<close>, the only way it is called.\<close>

fun populate_key :: "key \<Rightarrow> row \<Rightarrow> bool \<Rightarrow> row \<Rightarrow> exn + row" where
  "populate_key k item pre_serialized target =
     (case (pre_serialized, k) of
        (False, CompositeK ck) \<Rightarrow>
          rbind (build_key ck item False) (\<lambda>(key, _). Inr (dset (ck_attribute ck) (PyStr key) target))
      | _ \<Rightarrow> rbind (dreq (key_attribute k) item) (\<lambda>v. Inr (dset (key_attribute k) v target)))"

fun populate_key_from_args :: "key \<Rightarrow> pyval list \<Rightarrow> row \<Rightarrow> exn + row \<times> pyval list" where
  "populate_key_from_args (CompositeK ck) args target =
     parts_from_args (ck_original_parts ck) args target"
| "populate_key_from_args (PlainKey n) [] target = Inl IndexError"
| "populate_key_from_args (PlainKey n) (a # args) target = Inr (dset n a target, args)"

fun key_prep_for_serialization :: "key \<Rightarrow> row \<Rightarrow> exn + row" where
  "key_prep_for_serialization (PlainKey n) item = Inr item"
| "key_prep_for_serialization (CompositeK ck) item = ck_prep_for_serialization ck item"

fun key_prep_for_deserialization :: "key \<Rightarrow> row \<Rightarrow> exn + row" where
  "key_prep_for_deserialization (PlainKey n) item = Inr item"
| "key_prep_for_deserialization (CompositeK ck) item = ck_prep_for_deserialization ck item"

text \<open>A compound key is the hash key and, if the table has one, the range key.\<close>

type_synonym compound_key = "key list"

definition key_attributes :: "compound_key \<Rightarrow> string list" where
  "key_attributes pk = map key_attribute pk"

fun populate_keys :: "compound_key \<Rightarrow> row \<Rightarrow> bool \<Rightarrow> row \<Rightarrow> exn + row" where
  "populate_keys [] item pre target = Inr target"
| "populate_keys (k # ks) item pre target =
     rbind (populate_key k item pre target) (populate_keys ks item pre)"

definition build_key_as_dict :: "compound_key \<Rightarrow> row \<Rightarrow> bool \<Rightarrow> exn + row" where
  "build_key_as_dict pk item pre_serialized = populate_keys pk item pre_serialized []"

fun prep_for_serialization :: "compound_key \<Rightarrow> row \<Rightarrow> exn + row" where
  "prep_for_serialization [] item = Inr item"
| "prep_for_serialization (k # ks) item =
     rbind (key_prep_for_serialization k item) (prep_for_serialization ks)"

fun prep_for_deserialization :: "compound_key \<Rightarrow> row \<Rightarrow> exn + row" where
  "prep_for_deserialization [] item = Inr item"
| "prep_for_deserialization (k # ks) item =
     rbind (key_prep_for_deserialization k item) (prep_for_deserialization ks)"

definition build_hash_key_from_args :: "compound_key \<Rightarrow> pyval list \<Rightarrow> exn + string \<times> pyval" where
  "build_hash_key_from_args pk args = (case pk of [] \<Rightarrow> Inl IndexError | k # _ \<Rightarrow>
     rbind (populate_key_from_args k args []) (\<lambda>(target, _).
     rbind (key_prep_for_serialization k target) (\<lambda>r.
     rbind (dreq (key_attribute k) r) (\<lambda>v. Inr (key_attribute k, v)))))"

definition build_range_key_from_args :: "compound_key \<Rightarrow> pyval list \<Rightarrow> exn + string \<times> pyval" where
  "build_range_key_from_args pk args = (case pk of _ # k # _ \<Rightarrow>
     rbind (populate_key_from_args k args []) (\<lambda>(target, _).
     rbind (key_prep_for_serialization k target) (\<lambda>r.
     case r of (n, v) # _ \<Rightarrow> Inr (n, v)
             | [] \<Rightarrow> rbind (dreq (key_attribute k) r) (\<lambda>v. Inr (key_attribute k, v))))
   | _ \<Rightarrow> Inl IndexError)"

fun populate_all_from_args :: "compound_key \<Rightarrow> pyval list \<Rightarrow> row \<Rightarrow> exn + row \<times> pyval list" where
  "populate_all_from_args [] args target = Inr (target, args)"
| "populate_all_from_args (k # ks) args target =
     rbind (populate_key_from_args k args target) (\<lambda>(t, a). populate_all_from_args ks a t)"

definition build_key_from_args :: "compound_key \<Rightarrow> pyval list \<Rightarrow> exn + row \<times> pyval list" where
  "build_key_from_args pk args =
     rbind (populate_all_from_args pk args []) (\<lambda>(target, rest).
     rbind (prep_for_serialization pk target) (\<lambda>r. Inr (r, rest)))"

subsection \<open>Extracting the primary key of a repository class\<close>

record key_attrs =
  hash_key :: "string option"
  hash_key_attributes :: "(string, attribute_type \<times> nat option) dict option"
  range_key :: "string option"
  range_key_attributes :: "(string, attribute_type \<times> nat option) dict option"
  inject_hash_attribute :: "(string \<times> pyval) option"

definition extract_hash_key :: "key_attrs \<Rightarrow> exn + key" where
  "extract_hash_key obj = (case hash_key obj of
     None \<Rightarrow> Inl AssertionError
   | Some k \<Rightarrow> (case hash_key_attributes obj of
       None \<Rightarrow> Inr (PlainKey k)
     | Some ka \<Rightarrow> rbind (new_composite_key k ka) (\<lambda>kc.
         case inject_hash_attribute obj of
           None \<Rightarrow> Inr (CompositeK kc)
         | Some (n, v) \<Rightarrow> rbind (inject_attribute n v kc) (\<lambda>kc'. Inr (CompositeK kc')))))"

definition extract_range_key :: "key_attrs \<Rightarrow> exn + key option" where
  "extract_range_key obj = (case range_key obj of
     None \<Rightarrow> Inr None
   | Some k \<Rightarrow> (case range_key_attributes obj of
       None \<Rightarrow> Inr (Some (PlainKey k))
     | Some ka \<Rightarrow> rbind (new_composite_key k ka) (\<lambda>kc. Inr (Some (CompositeK kc)))))"

definition create_primary_key :: "key_attrs \<Rightarrow> exn + compound_key" where
  "create_primary_key obj =
     rbind (extract_hash_key obj) (\<lambda>h.
     rbind (extract_range_key obj) (\<lambda>r. Inr (h # (case r of None \<Rightarrow> [] | Some k \<Rightarrow> [k]))))"


section \<open>What the keys guarantee\<close>

text \<open>The text a part contributes to the key, and the items whose parts can all be formatted.\<close>

definition part_text :: "formatter \<Rightarrow> pyval \<Rightarrow> string" where
  "part_text f v = (case format_part f v of Inr (PyStr s) \<Rightarrow> s | _ \<Rightarrow> [])"

definition formattable :: "(string, formatter) dict \<Rightarrow> row \<Rightarrow> bool" where
  "formattable ps item \<longleftrightarrow> distinct (dkeys ps) \<and>
     (\<forall>(n, f)\<in>set ps. \<exists>v s. dget n item = Some v \<and> format_part f v = Inr (PyStr s))"

definition part_texts :: "(string, formatter) dict \<Rightarrow> row \<Rightarrow> string list" where
  "part_texts ps item = map (\<lambda>(n, f). part_text f (the (dget n item))) ps"

definition wf_composite :: "composite_key \<Rightarrow> bool" where
  "wf_composite ck \<longleftrightarrow> distinct (dkeys (ck_original_parts ck)) \<and>
     ck_attribute ck \<notin> set (dkeys (ck_original_parts ck)) \<and>
     (case ck_injected ck of None \<Rightarrow> True | Some (n, v) \<Rightarrow> (\<exists>s. v = PyStr s))"

definition injected_texts :: "composite_key \<Rightarrow> string list" where
  "injected_texts ck = (case ck_injected ck of Some (n, PyStr s) \<Rightarrow> [s] | _ \<Rightarrow> [])"

definition key_text :: "composite_key \<Rightarrow> row \<Rightarrow> string" where
  "key_text ck item = join_str (ck_delimiter ck)
     (injected_texts ck @ part_texts (ck_original_parts ck) item)"

lemma formattable_Cons:
  "formattable ((n, f) # ps) item \<longleftrightarrow> n \<notin> set (dkeys ps) \<and> formattable ps item \<and>
     (\<exists>v s. dget n item = Some v \<and> format_part f v = Inr (PyStr s))"
  by (auto simp: formattable_def)

lemma formattable_cong:
  "(\<And>n. n \<in> set (dkeys ps) \<Longrightarrow> dget n a = dget n b) \<Longrightarrow> formattable ps a = formattable ps b"
proof (induction ps)
  case Nil
  then show ?case by (simp add: formattable_def)
next
  case (Cons p ps)
  then show ?case by (cases p) (simp add: formattable_Cons)
qed

lemma part_texts_cong:
  "(\<And>n. n \<in> set (dkeys ps) \<Longrightarrow> dget n a = dget n b) \<Longrightarrow> part_texts ps a = part_texts ps b"
proof (induction ps)
  case Nil
  then show ?case by (simp add: part_texts_def)
next
  case (Cons p ps)
  then show ?case by (cases p) (simp add: part_texts_def)
qed

lemma part_values_ok:
  assumes "formattable ps item"
  shows "\<exists>item'. part_values r ps item = Inr (map PyStr (part_texts ps item), item') \<and>
    (\<forall>k. dget k item' = (if r \<and> k \<in> set (dkeys ps) then None else dget k item))"
  using assms
proof (induction ps arbitrary: item)
  case Nil
  then show ?case by (simp add: part_texts_def)
next
  case (Cons p ps)
  obtain n f where p: "p = (n, f)" by fastforce
  from Cons.prems p obtain v s where n: "n \<notin> set (dkeys ps)" "formattable ps item"
    and v: "dget n item = Some v" "format_part f v = Inr (PyStr s)"
    by (auto simp: formattable_Cons)
  let ?i = "if r then ddel n item else item"
  have same: "k \<in> set (dkeys ps) \<Longrightarrow> dget k ?i = dget k item" for k using n by auto
  then have "formattable ps ?i" "part_texts ps ?i = part_texts ps item"
    using n formattable_cong [of ps ?i item] part_texts_cong [of ps ?i item] by auto
  with Cons.IH [of ?i] obtain item' where
    "part_values r ps ?i = Inr (map PyStr (part_texts ps item), item')"
    "\<forall>k. dget k item' = (if r \<and> k \<in> set (dkeys ps) then None else dget k ?i)" by auto
  then show ?case using v by (auto simp: p dreq_def part_texts_def part_text_def)
qed

lemma strings_of_map [simp]: "strings_of (map PyStr ss) = Inr ss"
  by (induction ss) auto

lemma strings_of_injected:
  "wf_composite ck \<Longrightarrow> strings_of (injected_values ck @ map PyStr ss) = Inr (injected_texts ck @ ss)"
  by (auto simp: wf_composite_def injected_values_def injected_texts_def split: option.splits)

lemma build_key_ok:
  assumes "wf_composite ck" "formattable (ck_original_parts ck) item"
  shows "\<exists>item'. build_key ck item r = Inr (key_text ck item, item') \<and>
    (\<forall>k. dget k item' = (if r \<and> k \<in> set (dkeys (ck_original_parts ck)) then None else dget k item))"
  using part_values_ok [OF assms(2), of r] strings_of_injected [OF assms(1)]
  by (auto simp: build_key_def key_text_def)

lemma ck_prep_ok:
  assumes "wf_composite ck" "formattable (ck_original_parts ck) item"
  shows "\<exists>item'. ck_prep_for_serialization ck item = Inr item' \<and>
    (\<forall>k. dget k item' = (if k = ck_attribute ck then Some (PyStr (key_text ck item))
       else if k \<in> set (dkeys (ck_original_parts ck)) then None else dget k item))"
  using build_key_ok [OF assms, of True] by (auto simp: ck_prep_for_serialization_def)

subsection \<open>Reading a key back\<close>

text \<open>Values whose text can be cut out of the key again: no delimiter, no padding character, no sign under zero padding.\<close>

fun part_ok :: "char \<Rightarrow> formatter \<Rightarrow> pyval \<Rightarrow> bool" where
  "part_ok d (StringFormatter None) (PyStr s) = (d \<notin> set s)"
| "part_ok d (StringFormatter (Some n)) (PyStr s) = (d \<notin> set s \<and> CHR ''~'' \<notin> set s)"
| "part_ok d (IntFormatter None) (PyInt i) = True"
| "part_ok d (IntFormatter (Some n)) (PyInt i) = (0 \<le> i)"
| "part_ok d _ _ = False"

definition delim_ok :: "char \<Rightarrow> bool" where
  "delim_ok d \<longleftrightarrow> d \<noteq> CHR ''~'' \<and> d \<noteq> CHR ''-'' \<and> \<not> is_digit d"

definition item_ok :: "char \<Rightarrow> (string, formatter) dict \<Rightarrow> row \<Rightarrow> bool" where
  "item_ok d ps item \<longleftrightarrow> distinct (dkeys ps) \<and>
     (\<forall>(n, f)\<in>set ps. \<exists>v. dget n item = Some v \<and> part_ok d f v)"

definition injected_ok :: "char \<Rightarrow> composite_key \<Rightarrow> bool" where
  "injected_ok d ck \<longleftrightarrow> (\<forall>s\<in>set (injected_texts ck). d \<notin> set s)"

lemma delim_tab: "delim_ok (CHR 0x09)"
  by (simp add: delim_ok_def is_digit_def)

lemma format_extract:
  assumes "part_ok d f v" "delim_ok d"
  shows "\<exists>s. format_part f v = Inr (PyStr s) \<and> d \<notin> set s \<and> extract_part f s = Inr v"
  using assms
proof (induction d f v rule: part_ok.induct)
  case (2 d n s)
  show ?case
  proof (cases "n \<le> length s")
    case True
    then show ?thesis using 2 by (simp add: ljust_def find_char_none)
  next
    case False
    then obtain m where "n - length s = Suc m" by (metis Suc_diff_Suc not_le)
    then show ?thesis using 2
      by (auto simp: ljust_def delim_ok_def find_char)
  qed
next
  case (3 d i)
  then show ?case using int_str_chars [of d i] by (auto simp: delim_ok_def int_of_int_str)
next
  case (4 d n i)
  then have "int_of_str (rjust n (CHR ''0'') (int_str i)) = Inr i"
    by (simp add: int_of_rjust_int_str)
  moreover have "d \<notin> set (rjust n (CHR ''0'') (int_str i))"
    using int_str_chars [of d i] 4 by (auto simp: rjust_def delim_ok_def is_digit_def)
  ultimately show ?case by simp
qed auto

lemma item_ok_formattable: "item_ok d ps item \<Longrightarrow> delim_ok d \<Longrightarrow> formattable ps item"
  unfolding item_ok_def formattable_def using format_extract by fastforce

lemma part_text_ok:
  "part_ok d f v \<Longrightarrow> delim_ok d \<Longrightarrow> d \<notin> set (part_text f v) \<and> extract_part f (part_text f v) = Inr v"
  using format_extract [of d f v] by (auto simp: part_text_def)

lemma item_ok_Cons: "item_ok d ((n, f) # ps) item \<longleftrightarrow>
    n \<notin> set (dkeys ps) \<and> item_ok d ps item \<and> (\<exists>v. dget n item = Some v \<and> part_ok d f v)"
  by (auto simp: item_ok_def)

lemma extract_parts_ok:
  assumes "item_ok d ps item" "delim_ok d"
  shows "\<exists>it'. extract_parts ps (part_texts ps item) it = Inr it' \<and>
    (\<forall>k. dget k it' = (if k \<in> set (dkeys ps) then dget k item else dget k it))"
  using assms
proof (induction ps arbitrary: it)
  case Nil
  then show ?case by simp
next
  case (Cons p ps)
  obtain n f where p: "p = (n, f)" by fastforce
  from Cons.prems p obtain v where n: "n \<notin> set (dkeys ps)" "item_ok d ps item"
    and v: "dget n item = Some v" "part_ok d f v" by (auto simp: item_ok_Cons)
  from Cons.IH [OF n(2) Cons.prems(2), of "dset n v it"] obtain it' where
    "extract_parts ps (part_texts ps item) (dset n v it) = Inr it'"
    "\<forall>k. dget k it' = (if k \<in> set (dkeys ps) then dget k item else dget k (dset n v it))" by auto
  moreover have "extract_part f (part_text f v) = Inr v" using v Cons.prems part_text_ok by blast
  ultimately show ?case using v n by (auto simp: p part_texts_def)
qed

lemma split_key_text:
  assumes "ck_delimiter ck = [d]" "item_ok d (ck_original_parts ck) item" "injected_ok d ck"
    "delim_ok d" "part_texts (ck_original_parts ck) item \<noteq> []"
  shows "split_str (ck_delimiter ck) (key_text ck item) =
    injected_texts ck @ part_texts (ck_original_parts ck) item"
proof -
  have "\<forall>s\<in>set (part_texts (ck_original_parts ck) item). d \<notin> set s"
    using assms(2,4) part_text_ok by (fastforce simp: part_texts_def item_ok_def)
  then show ?thesis
    using assms by (auto simp: key_text_def injected_ok_def intro!: split_join)
qed

text \<open>
  C24 (roundtrip). Writing a row under a composite key and reading it back restores every
  attribute of the row: \<open>prep_for_deserialization\<close> undoes \<open>prep_for_serialization\<close>, when no part
  holds the delimiter (or the padding character of a sized text, or a negative number under zero
  padding).
\<close>

theorem composite_key_roundtrip:
  assumes "wf_composite ck" "ck_delimiter ck = [d]" "delim_ok d" "injected_ok d ck"
    and "ck_original_parts ck \<noteq> []" "item_ok d (ck_original_parts ck) item"
    and "dget (ck_attribute ck) item = None"
  shows "\<exists>stored back. ck_prep_for_serialization ck item = Inr stored \<and>
    ck_prep_for_deserialization ck stored = Inr back \<and> dict_eq back item"
proof -
  let ?ps = "ck_original_parts ck"
  have f: "formattable ?ps item" using assms item_ok_formattable by blast
  from ck_prep_ok [OF assms(1) f] obtain st where st: "ck_prep_for_serialization ck item = Inr st"
    "\<forall>k. dget k st = (if k = ck_attribute ck then Some (PyStr (key_text ck item))
       else if k \<in> set (dkeys ?ps) then None else dget k item)" by auto
  have ne: "part_texts ?ps item \<noteq> []" using assms(5) by (simp add: part_texts_def)
  have sp: "split_str (ck_delimiter ck) (key_text ck item) = injected_texts ck @ part_texts ?ps item"
    using split_key_text [OF assms(2,6,4,3)] ne by simp
  have tl: "(if ck_injected ck \<noteq> None then tl (injected_texts ck @ part_texts ?ps item)
      else injected_texts ck @ part_texts ?ps item) = part_texts ?ps item"
    using assms(1) by (auto simp: wf_composite_def injected_texts_def split: option.splits)
  from extract_parts_ok [OF assms(6,3), of "ddel (ck_attribute ck) st"] obtain bk where bk:
    "extract_parts ?ps (part_texts ?ps item) (ddel (ck_attribute ck) st) = Inr bk"
    "\<forall>k. dget k bk = (if k \<in> set (dkeys ?ps) then dget k item else dget k (ddel (ck_attribute ck) st))"
    by auto
  have "ck_prep_for_deserialization ck st = Inr bk"
    using st(2) bk(1) sp tl by (simp add: ck_prep_for_deserialization_def dreq_def Let_def)
  moreover have "dict_eq bk item" using bk(2) st(2) assms(7) by (auto simp: dict_eq_iff)
  ultimately show ?thesis using st(1) by blast
qed

text \<open>
  Different rows have different composite keys: two rows with the same key text
  agree on every attribute the key is built from.
\<close>

lemma composite_key_injective:
  assumes "wf_composite ck" "ck_delimiter ck = [d]" "delim_ok d" "injected_ok d ck"
    and "ck_original_parts ck \<noteq> []"
    and "item_ok d (ck_original_parts ck) a" "item_ok d (ck_original_parts ck) b"
    and "build_key ck a False = Inr (k, a')" "build_key ck b False = Inr (k, b')"
    and "n \<in> set (dkeys (ck_original_parts ck))"
  shows "dget n a = dget n b"
proof -
  let ?ps = "ck_original_parts ck"
  have "key_text ck a = k" "key_text ck b = k"
    using build_key_ok [OF assms(1) item_ok_formattable [OF assms(6,3)], of False]
      build_key_ok [OF assms(1) item_ok_formattable [OF assms(7,3)], of False] assms(8,9) by auto
  moreover have "part_texts ?ps a \<noteq> []" "part_texts ?ps b \<noteq> []"
    using assms(5) by (simp_all add: part_texts_def)
  ultimately have "part_texts ?ps a = part_texts ?ps b"
    using split_key_text [OF assms(2,6,4,3)] split_key_text [OF assms(2,7,4,3)] by simp
  moreover obtain x where x: "extract_parts ?ps (part_texts ?ps a) [] = Inr x"
    and xa: "\<forall>k. dget k x = (if k \<in> set (dkeys ?ps) then dget k a else dget k [])"
    using extract_parts_ok [OF assms(6,3)] by blast
  moreover obtain y where y: "extract_parts ?ps (part_texts ?ps b) [] = Inr y"
    and yb: "\<forall>k. dget k y = (if k \<in> set (dkeys ?ps) then dget k b else dget k [])"
    using extract_parts_ok [OF assms(7,3)] by blast
  ultimately have "x = y" by simp
  with xa yb assms(10) show ?thesis by (metis (no_types))
qed

text \<open>The range key of the pending events, and two of its rows.\<close>

definition example_key :: composite_key where
  "example_key = \<lparr>ck_attribute = ''rangeKey'',
     ck_parts = [(''activeAt'', IntFormatter (Some 19)), (''sessionId'', StringFormatter None)],
     ck_original_parts = [(''activeAt'', IntFormatter (Some 19)), (''sessionId'', StringFormatter None)],
     ck_delimiter = [CHR 0x09], ck_injected = None\<rparr>"

definition example_row :: row where
  "example_row = [(''activeAt'', PyInt 1700), (''sessionId'', PyStr ''s1''), (''x'', PyInt 1)]"

lemma example_key_ok: "wf_composite example_key" "ck_delimiter example_key = [CHR 0x09]"
    "delim_ok (CHR 0x09)" "injected_ok (CHR 0x09) example_key" "ck_original_parts example_key \<noteq> []"
    "item_ok (CHR 0x09) (ck_original_parts example_key) example_row"
    "dget (ck_attribute example_key) example_row = None"
  by (simp_all add: delim_tab example_key_def example_row_def wf_composite_def injected_ok_def
      injected_texts_def item_ok_def)

lemma composite_key_roundtrip_witness:
  "\<exists>stored back. ck_prep_for_serialization example_key example_row = Inr stored \<and>
    ck_prep_for_deserialization example_key stored = Inr back \<and> dict_eq back example_row"
  by (rule composite_key_roundtrip [OF example_key_ok])

lemma composite_key_injective_witness:
  "\<exists>k a'. build_key example_key example_row False = Inr (k, a') \<and>
    dget ''sessionId'' example_row = dget ''sessionId'' example_row"
proof -
  note ok = example_key_ok(1-6)
  obtain k a' where k: "build_key example_key example_row False = Inr (k, a')"
    using build_key_ok [OF ok(1) item_ok_formattable [OF ok(6,3)], of False] by blast
  have "''sessionId'' \<in> set (dkeys (ck_original_parts example_key))" by (simp add: example_key_def)
  from composite_key_injective [OF ok ok(6) k k this] k show ?thesis by blast
qed

end
