(* ===== verification/Ddb_Requests.thy ===== *)
theory Ddb_Requests
  imports Ddb_Keys
begin

text \<open>
  The requests of \<open>aws/dynamodb.py\<close> and the expression texts they are sent with:
  \<open>_process_condition\<close>, \<open>_merge_key_condition\<close>, \<open>_merge_key_attributes\<close>, \<open>_merge_attributes\<close>,
  \<open>_build_filter_expression\<close>, and the \<open>to_ddb_request\<close> of each request class. The second half
  gives the expressions their documented meaning as lists of atoms over a row, and shows that the
  texts that are sent mean what the caller asked for: no two bind names collide, and no condition
  is lost when the conditions are merged.
\<close>

section \<open>Conditions\<close>

datatype condition = CondDict row | CondStmt string row

record expr_params =
  ep_cond :: "string option"
  ep_vals :: "ddb_item option"

definition bind_name :: "string \<Rightarrow> nat \<Rightarrow> string" where
  "bind_name pre n = CHR '':'' # pre @ nat_str n"

fun condition_loop :: "nat \<Rightarrow> string \<Rightarrow> ddb_item \<Rightarrow> ddb_item \<Rightarrow> string \<times> ddb_item" where
  "condition_loop counter expr binds [] = (expr, binds)"
| "condition_loop counter expr binds ((k, v) # r) =
     (let e = (if counter > 1 then expr @ '' AND '' else expr); b = bind_name ''c'' counter
      in condition_loop (Suc counter) (e @ k @ '' = '' @ b) (dset b v binds) r)"

definition process_condition :: "condition \<Rightarrow> expr_params \<Rightarrow> exn + expr_params" where
  "process_condition c params = (case c of
     CondStmt stmt vars \<Rightarrow> rbind (to_ddb_item vars) (\<lambda>bv.
       Inr (params\<lparr>ep_cond := Some stmt, ep_vals := Some bv\<rparr>))
   | CondDict d \<Rightarrow> rbind (to_ddb_item d) (\<lambda>item.
       let (expr, bv) = condition_loop 1 [] [] item
       in Inr (params\<lparr>ep_cond := Some expr, ep_vals := Some bv\<rparr>)))"

fun merge_key_condition_loop :: "string list \<Rightarrow> string \<Rightarrow> string" where
  "merge_key_condition_loop [] statement = statement"
| "merge_key_condition_loop (k # ks) statement =
     merge_key_condition_loop ks
       ((if statement \<noteq> [] then statement @ '' AND '' else statement) @ ''attribute_exists('' @ k @ '')'')"

definition merge_key_condition :: "string list \<Rightarrow> expr_params \<Rightarrow> expr_params" where
  "merge_key_condition keys params =
     params\<lparr>ep_cond := Some (merge_key_condition_loop keys
       (case ep_cond params of None \<Rightarrow> [] | Some s \<Rightarrow> s))\<rparr>"

fun merge_key_attributes_loop :: "ddb_item \<Rightarrow> string \<Rightarrow> ddb_item \<Rightarrow> string \<times> ddb_item" where
  "merge_key_attributes_loop [] statement binds = (statement, binds)"
| "merge_key_attributes_loop ((k, v) # r) statement binds =
     (let s = (if statement \<noteq> [] then statement @ '' AND '' else statement);
          b = bind_name ''k'' (length binds)
      in merge_key_attributes_loop r (s @ k @ '' = '' @ b) (dset b v binds))"

definition merge_key_attributes :: "ddb_item \<Rightarrow> expr_params \<Rightarrow> expr_params" where
  "merge_key_attributes keys params =
     (let (s, b) = merge_key_attributes_loop keys
        (case ep_cond params of None \<Rightarrow> [] | Some s \<Rightarrow> s)
        (case ep_vals params of None \<Rightarrow> [] | Some b \<Rightarrow> b)
      in params\<lparr>ep_cond := Some s, ep_vals := Some b\<rparr>)"

definition merge_attributes :: "expr_params \<Rightarrow> ddb_item \<Rightarrow> expr_params" where
  "merge_attributes params attributes =
     params\<lparr>ep_vals := Some (dupdate (case ep_vals params of None \<Rightarrow> [] | Some b \<Rightarrow> b) attributes)\<rparr>"

fun not_exists_loop :: "string list \<Rightarrow> string \<Rightarrow> string" where
  "not_exists_loop [] expr = expr"
| "not_exists_loop (a # as) expr =
     not_exists_loop as ((if expr \<noteq> [] then expr @ '' AND '' else expr) @ ''attribute_not_exists('' @ a @ '')'')"

text \<open>The \<open>SET\<close> expression: every attribute of the item that is not part of the key.\<close>

fun update_expression_loop ::
  "string list \<Rightarrow> ddb_item \<Rightarrow> string option \<Rightarrow> ddb_item \<Rightarrow> nat \<Rightarrow> string option \<times> ddb_item" where
  "update_expression_loop keys [] expr vals counter = (expr, vals)"
| "update_expression_loop keys ((k, v) # r) expr vals counter =
     (if k \<in> set keys then update_expression_loop keys r expr vals counter
      else let e = (case expr of None \<Rightarrow> ''SET '' | Some e \<Rightarrow> e @ '', ''); b = bind_name ''v'' counter
           in update_expression_loop keys r (Some (e @ k @ '' = '' @ b)) (dset b v vals) (Suc counter))"

section \<open>Filters\<close>

record filter_operation =
  fo_name :: "string option"
  fo_value :: pyval
  fo_operation :: string

definition eq_filter :: "string option \<Rightarrow> pyval \<Rightarrow> filter_operation" where
  "eq_filter n v = \<lparr>fo_name = n, fo_value = v, fo_operation = ''=''\<rparr>"

definition le_filter :: "string option \<Rightarrow> pyval \<Rightarrow> filter_operation" where
  "le_filter n v = \<lparr>fo_name = n, fo_value = v, fo_operation = ''<=''\<rparr>"

definition not_exists_filter :: "string \<Rightarrow> filter_operation" where
  "not_exists_filter n = \<lparr>fo_name = Some n, fo_value = PyNone, fo_operation = ''!exists''\<rparr>"

definition name_text :: "string option \<Rightarrow> string" where
  "name_text n = (case n of None \<Rightarrow> ''None'' | Some s \<Rightarrow> s)"

text \<open>The result is the expression, the bind values and the attribute names it refers to.\<close>

fun build_filter_expression :: "filter_operation list \<Rightarrow> string \<Rightarrow> nat \<Rightarrow> ddb_item \<Rightarrow>
    (string, string option) dict \<Rightarrow> exn + string \<times> ddb_item \<times> (string, string option) dict" where
  "build_filter_expression [] io counter atts names = Inr (io, atts, names)"
| "build_filter_expression (fo # fos) io counter atts names =
     (let io' = (if io \<noteq> [] then io @ '' AND '' else io)
      in if fo_operation fo = ''!exists''
         then build_filter_expression fos
           (io' @ ''attribute_not_exists('' @ name_text (fo_name fo) @ '')'') counter atts names
         else let key = bind_name ''f'' counter; nk = ''#e'' @ nat_str counter
              in rbind (to_attribute_value_dict (fo_value fo)) (\<lambda>av.
                 build_filter_expression fos (io' @ nk @ '' '' @ fo_operation fo @ '' '' @ key)
                   (Suc counter) (dset key av atts) (dset nk (fo_name fo) names)))"

section \<open>Requests\<close>

record get_params =
  gp_table :: string
  gp_key :: ddb_item
  gp_attributes :: "string list option"
  gp_consistent :: bool

record put_params =
  pp_table :: string
  pp_item :: ddb_item
  pp_expr :: expr_params
  pp_return_old :: bool

record update_params =
  up_table :: string
  up_key :: ddb_item
  up_update :: "string option"
  up_expr :: expr_params

record delete_params =
  dp_table :: string
  dp_key :: ddb_item
  dp_expr :: expr_params
  dp_return_old :: bool

datatype write_params = WPut put_params | WUpdate update_params | WDelete delete_params

definition no_expr :: expr_params where
  "no_expr = \<lparr>ep_cond = None, ep_vals = None\<rparr>"

record get_item_request =
  gr_table :: string
  gr_keys :: row
  gr_consistent :: bool
  gr_ddb_keys :: ddb_item
  gr_attributes :: "string list option"

definition new_get_item_request ::
  "string \<Rightarrow> row \<Rightarrow> bool \<Rightarrow> string list option \<Rightarrow> exn + get_item_request" where
  "new_get_item_request table keys consistent atts = rbind (to_ddb_item keys) (\<lambda>dk.
     Inr \<lparr>gr_table = table, gr_keys = keys, gr_consistent = consistent, gr_ddb_keys = dk,
          gr_attributes = (if atts = Some [] then None else atts)\<rparr>)"

record put_request =
  pr_table :: string
  pr_item :: row
  pr_key_attributes :: "string list option"
  pr_condition :: "condition option"
  pr_virtual :: "string option"

record update_request =
  ur_table :: string
  ur_keys :: row
  ur_item :: row
  ur_condition :: "condition option"
  ur_must_exist :: bool
  ur_virtual :: "string option"

record delete_request =
  dr_table :: string
  dr_keys :: row
  dr_condition :: "condition option"
  dr_must_exist :: bool
  dr_virtual :: "string option"

datatype transaction_request =
  PutItem put_request | UpdateItem update_request | DeleteItem delete_request

text \<open>The condition part of a put, shared by \<open>put_item\<close> and \<open>PutItemRequest\<close>.\<close>

definition put_expr :: "string list option \<Rightarrow> condition option \<Rightarrow> exn + expr_params" where
  "put_expr katts cond =
     (let p = no_expr in
      rbind (case katts of
               Some (a # as) \<Rightarrow>
                 (if cond = None then Inr (p\<lparr>ep_cond := Some (not_exists_loop (a # as) [])\<rparr>)
                  else Inl AssertionError)
             | _ \<Rightarrow> Inr p)
        (\<lambda>p. case cond of None \<Rightarrow> Inr p | Some c \<Rightarrow> process_condition c p))"

definition put_to_ddb_request :: "put_request \<Rightarrow> exn + put_params" where
  "put_to_ddb_request r =
     rbind (to_ddb_item (pr_item r)) (\<lambda>item.
     rbind (put_expr (pr_key_attributes r) (pr_condition r)) (\<lambda>e.
     Inr \<lparr>pp_table = pr_table r, pp_item = item, pp_expr = e, pp_return_old = False\<rparr>))"

definition update_to_ddb_request :: "update_request \<Rightarrow> exn + update_params" where
  "update_to_ddb_request r =
     rbind (to_ddb_item (ur_item r)) (\<lambda>item.
     rbind (to_ddb_item (ur_keys r)) (\<lambda>key.
     let (upd, vals) = update_expression_loop (dkeys (ur_keys r)) item None [] 1 in
     rbind (case ur_condition r of None \<Rightarrow> Inr no_expr | Some c \<Rightarrow> process_condition c no_expr) (\<lambda>e.
     let e = (if ur_must_exist r then merge_key_attributes key e else e)
     in Inr \<lparr>up_table = ur_table r, up_key = key, up_update = upd, up_expr = merge_attributes e vals\<rparr>)))"

definition delete_to_ddb_request :: "delete_request \<Rightarrow> exn + delete_params" where
  "delete_to_ddb_request r =
     rbind (to_ddb_item (dr_keys r)) (\<lambda>key.
     rbind (case dr_condition r of None \<Rightarrow> Inr no_expr | Some c \<Rightarrow> process_condition c no_expr) (\<lambda>e.
     Inr \<lparr>dp_table = dr_table r, dp_key = key,
          dp_expr = (if dr_must_exist r then merge_key_condition (dkeys (dr_keys r)) e else e),
          dp_return_old = False\<rparr>))"

fun to_ddb_request :: "transaction_request \<Rightarrow> exn + write_params" where
  "to_ddb_request (PutItem r) = rbind (put_to_ddb_request r) (\<lambda>p. Inr (WPut p))"
| "to_ddb_request (UpdateItem r) = rbind (update_to_ddb_request r) (\<lambda>p. Inr (WUpdate p))"
| "to_ddb_request (DeleteItem r) = rbind (delete_to_ddb_request r) (\<lambda>p. Inr (WDelete p))"

datatype batch_request = PutRequest ddb_item | DeleteRequest ddb_item

text \<open>An update is not a \<open>BatchCapableRequest\<close>: it has no \<open>to_ddb_batch_request\<close>.\<close>

fun to_ddb_batch_request :: "transaction_request \<Rightarrow> exn + batch_request" where
  "to_ddb_batch_request (PutItem r) = (if pr_condition r = None
     then rbind (to_ddb_item (pr_item r)) (\<lambda>i. Inr (PutRequest i)) else Inl AssertionError)"
| "to_ddb_batch_request (DeleteItem r) = rbind (to_ddb_item (dr_keys r)) (\<lambda>k. Inr (DeleteRequest k))"
| "to_ddb_batch_request (UpdateItem r) = Inl AttributeError"

fun request_table :: "transaction_request \<Rightarrow> string" where
  "request_table (PutItem r) = pr_table r"
| "request_table (UpdateItem r) = ur_table r"
| "request_table (DeleteItem r) = dr_table r"

definition cancel_reason_str :: "cancel_reason \<Rightarrow> string" where
  "cancel_reason_str r =
     (let a = (case cr_code r of None \<Rightarrow> [] | Some c \<Rightarrow> ''Code='' @ c)
      in case cr_message r of None \<Rightarrow> a
         | Some m \<Rightarrow> (if a \<noteq> [] then a @ '' '' else a) @ ''Message='' @ m)"

text \<open>\<open>describe\<close>; the cancel reason is the one set on the request by a cancelled transaction.\<close>

definition describe_request :: "transaction_request \<Rightarrow> cancel_reason option \<Rightarrow> string" where
  "describe_request q reason =
     (let (cls, tbl) = (case q of
         PutItem r \<Rightarrow> (''PutItemRequest'', case pr_virtual r of None \<Rightarrow> pr_table r | Some v \<Rightarrow> v)
       | UpdateItem r \<Rightarrow> (''UpdateItemRequest'', case ur_virtual r of None \<Rightarrow> ur_table r | Some v \<Rightarrow> v)
       | DeleteItem r \<Rightarrow> (''DeleteItemRequest'', case dr_virtual r of None \<Rightarrow> dr_table r | Some v \<Rightarrow> v));
        m = cls @ ''('' @ tbl @ '')''
      in case reason of None \<Rightarrow> m | Some c \<Rightarrow> m @ '' - '' @ cancel_reason_str c)"

section \<open>What the expressions mean\<close>

datatype cond = CExists string | CNotExists string | CEq string string

fun render_cond :: "cond \<Rightarrow> string" where
  "render_cond (CExists n) = ''attribute_exists('' @ n @ '')''"
| "render_cond (CNotExists n) = ''attribute_not_exists('' @ n @ '')''"
| "render_cond (CEq n b) = n @ '' = '' @ b"

definition render_conds :: "cond list \<Rightarrow> string" where
  "render_conds cs = join_str '' AND '' (map render_cond cs)"

definition render_sets :: "(string \<times> string) list \<Rightarrow> string" where
  "render_sets nbs = ''SET '' @ join_str '', '' (map (\<lambda>(n, b). n @ '' = '' @ b) nbs)"

definition ident_char :: "char \<Rightarrow> bool" where
  "ident_char c \<longleftrightarrow> is_digit c \<or> c = CHR ''_'' \<or>
     (65 \<le> (of_char c :: nat) \<and> (of_char c :: nat) \<le> 90) \<or> (97 \<le> (of_char c :: nat) \<and> (of_char c :: nat) \<le> 122)"

definition ident :: "string \<Rightarrow> bool" where
  "ident n \<longleftrightarrow> n \<noteq> [] \<and> list_all ident_char n"

definition bind_ok :: "string \<Rightarrow> bool" where
  "bind_ok b \<longleftrightarrow> b \<noteq> [] \<and> hd b = CHR '':'' \<and> ident (tl b)"

fun cond_ok :: "cond \<Rightarrow> bool" where
  "cond_ok (CExists n) = ident n"
| "cond_ok (CNotExists n) = ident n"
| "cond_ok (CEq n b) = (ident n \<and> bind_ok b)"

text \<open>An atom is a condition with its bind name replaced by the value bound to it.\<close>

datatype atom = HasAttr string | NoAttr string | AttrIs string attr

type_synonym ddb_row = "string \<rightharpoonup> attr"

fun sat :: "atom \<Rightarrow> ddb_row \<Rightarrow> bool" where
  "sat (HasAttr n) m = (m n \<noteq> None)"
| "sat (NoAttr n) m = (m n = None)"
| "sat (AttrIs n v) m = (m n = Some v)"

fun resolve :: "ddb_item \<Rightarrow> cond \<Rightarrow> atom option" where
  "resolve vals (CExists n) = Some (HasAttr n)"
| "resolve vals (CNotExists n) = Some (NoAttr n)"
| "resolve vals (CEq n b) = map_option (AttrIs n) (dget b vals)"

definition vals_of :: "expr_params \<Rightarrow> ddb_item" where
  "vals_of e = (case ep_vals e of None \<Rightarrow> [] | Some b \<Rightarrow> b)"

definition cond_means :: "expr_params \<Rightarrow> atom list \<Rightarrow> bool" where
  "cond_means e as \<longleftrightarrow> (case ep_cond e of None \<Rightarrow> as = []
     | Some s \<Rightarrow> (\<exists>cs. cs \<noteq> [] \<and> s = render_conds cs \<and> list_all cond_ok cs \<and>
          map (resolve (vals_of e)) cs = map Some as))"

definition update_means :: "string option \<Rightarrow> ddb_item \<Rightarrow> (string \<times> attr) list \<Rightarrow> bool" where
  "update_means upd vals us \<longleftrightarrow> (\<exists>bs. us \<noteq> [] \<and> length bs = length us \<and>
     upd = Some (render_sets (zip (map fst us) bs)) \<and> list_all bind_ok bs \<and>
     list_all ident (map fst us) \<and> distinct (map fst us) \<and>
     map (\<lambda>b. dget b vals) bs = map (Some \<circ> snd) us)"

record write_sem =
  ws_table :: string
  ws_key :: "attr option list"
  ws_atoms :: "atom list"
  ws_effect :: "ddb_row option \<Rightarrow> ddb_row option"

definition row_map :: "ddb_row option \<Rightarrow> ddb_row" where
  "row_map r = (case r of None \<Rightarrow> Map.empty | Some m \<Rightarrow> m)"

definition key_of :: "(string \<Rightarrow> string list) \<Rightarrow> string \<Rightarrow> ddb_item \<Rightarrow> attr option list" where
  "key_of ka t item = map (\<lambda>a. dget a item) (ka t)"

definition put_effect :: "ddb_item \<Rightarrow> ddb_row option \<Rightarrow> ddb_row option" where
  "put_effect item r = Some (\<lambda>a. dget a item)"

definition update_effect :: "ddb_item \<Rightarrow> (string \<times> attr) list \<Rightarrow> ddb_row option \<Rightarrow> ddb_row option" where
  "update_effect key us r =
     Some ((case r of None \<Rightarrow> (\<lambda>a. dget a key) | Some m \<Rightarrow> m) ++ map_of us)"

text \<open>
  The documented meaning of a write, for a store in which \<open>ka t\<close> are the key attributes of table
  \<open>t\<close>: where it writes, the atoms its condition asks of the row there, and what it makes of it.
\<close>

fun write_means :: "(string \<Rightarrow> string list) \<Rightarrow> write_params \<Rightarrow> write_sem \<Rightarrow> bool" where
  "write_means ka (WPut p) w \<longleftrightarrow>
     ws_table w = pp_table p \<and> ws_key w = key_of ka (pp_table p) (pp_item p) \<and>
     None \<notin> set (ws_key w) \<and> distinct (dkeys (pp_item p)) \<and>
     cond_means (pp_expr p) (ws_atoms w) \<and>
     (ws_atoms w = [] \<or> ws_atoms w = map NoAttr (ka (pp_table p))) \<and>
     ws_effect w = put_effect (pp_item p)"
| "write_means ka (WUpdate p) w \<longleftrightarrow>
     ws_table w = up_table p \<and> ws_key w = key_of ka (up_table p) (up_key p) \<and>
     set (dkeys (up_key p)) = set (ka (up_table p)) \<and> distinct (dkeys (up_key p)) \<and>
     cond_means (up_expr p) (ws_atoms w) \<and>
     (\<exists>us. update_means (up_update p) (vals_of (up_expr p)) us \<and>
        set (map fst us) \<inter> set (dkeys (up_key p)) = {} \<and>
        ws_effect w = update_effect (up_key p) us)"
| "write_means ka (WDelete p) w \<longleftrightarrow>
     ws_table w = dp_table p \<and> ws_key w = key_of ka (dp_table p) (dp_key p) \<and>
     set (dkeys (dp_key p)) = set (ka (dp_table p)) \<and> distinct (dkeys (dp_key p)) \<and>
     cond_means (dp_expr p) (ws_atoms w) \<and> (\<forall>n. NoAttr n \<notin> set (ws_atoms w)) \<and>
     ws_effect w = (\<lambda>_. None)"

subsection \<open>Bind names\<close>

lemma nat_str_inj [simp]: "nat_str m = nat_str n \<longleftrightarrow> m = n"
  by (metis digits_val_nat_str)

lemma bind_name_inj [simp]: "bind_name p m = bind_name p n \<longleftrightarrow> m = n"
  by (simp add: bind_name_def)

lemma bind_name_diff [simp]: "a \<noteq> b \<Longrightarrow> bind_name (a # p) m \<noteq> bind_name (b # q) n"
  by (simp add: bind_name_def)

lemma ident_char_digit [simp]: "is_digit c \<Longrightarrow> ident_char c"
  by (simp add: ident_char_def)

lemma bind_ok_name: "list_all ident_char p \<Longrightarrow> bind_ok (bind_name p n)"
  using nat_str_digits [of n] by (auto simp: bind_ok_def bind_name_def ident_def list_all_iff)

lemma bind_ok_names [simp]: "bind_ok (bind_name ''c'' n)" "bind_ok (bind_name ''k'' n)"
    "bind_ok (bind_name ''v'' n)"
  by (rule bind_ok_name, simp add: ident_char_def)+

subsection \<open>Adding a condition keeps the ones before it\<close>

definition cond_inv :: "string \<Rightarrow> ddb_item \<Rightarrow> cond list \<Rightarrow> atom list \<Rightarrow> bool" where
  "cond_inv s vals cs as \<longleftrightarrow> s = render_conds cs \<and> list_all cond_ok cs \<and>
     map (resolve vals) cs = map Some as"

lemma render_cond_nonempty [simp]: "cond_ok c \<Longrightarrow> render_cond c \<noteq> []"
  by (cases c) (auto simp: ident_def)

lemma render_conds_empty: "list_all cond_ok cs \<Longrightarrow> render_conds cs = [] \<longleftrightarrow> cs = []"
  by (cases cs; cases "tl cs") (auto simp: render_conds_def join_str_Cons)

lemma render_conds_snoc: "render_conds (cs @ [c]) =
    (if cs = [] then render_cond c else render_conds cs @ '' AND '' @ render_cond c)"
  by (simp add: render_conds_def join_str_snoc)

lemma resolve_fresh:
  "resolve vals c = Some a \<Longrightarrow> dget b vals = None \<Longrightarrow> resolve (dset b v vals) c = Some a"
  by (cases c) auto

lemma cond_inv_fresh:
  assumes "cond_inv s vals cs as" "dget b vals = None"
  shows "cond_inv s (dset b v vals) cs as"
proof -
  have "map (resolve (dset b v vals)) cs = map Some as" if "map (resolve vals) cs = map Some as" for as
    using that assms(2) by (induction cs arbitrary: as) (auto simp: Cons_eq_map_conv resolve_fresh)
  with assms(1) show ?thesis by (simp add: cond_inv_def)
qed

lemma cond_inv_snoc:
  assumes "cond_inv s vals cs as" "cond_ok c" "resolve vals c = Some a"
  shows "cond_inv ((if s \<noteq> [] then s @ '' AND '' else s) @ render_cond c) vals (cs @ [c]) (as @ [a])"
  using assms by (auto simp: cond_inv_def render_conds_snoc render_conds_empty) 

lemma cond_inv_empty: "cond_inv [] vals [] []"
  by (simp add: cond_inv_def render_conds_def)

lemma cond_inv_eq:
  assumes "cond_inv s vals cs as" "ident k" "bind_ok b" "dget b vals = None"
  shows "cond_inv ((if s \<noteq> [] then s @ '' AND '' else s) @ k @ '' = '' @ b) (dset b v vals)
    (cs @ [CEq k b]) (as @ [AttrIs k v])"
  using cond_inv_snoc [OF cond_inv_fresh [OF assms(1,4), of v], of "CEq k b" "AttrIs k v"] assms(2,3)
  by simp

subsection \<open>The loops\<close>

definition atoms_of :: "ddb_item \<Rightarrow> atom list" where
  "atoms_of item = map (\<lambda>(k, v). AttrIs k v) item"

lemma condition_loop_inv:
  assumes "cond_inv expr binds cs as" "counter = Suc (length cs)" "list_all ident (dkeys r)"
    "\<forall>b\<in>set (dkeys binds). \<exists>n<counter. b = bind_name ''c'' n"
    "condition_loop counter expr binds r = (s', b')"
  shows "\<exists>cs'. cond_inv s' b' (cs @ cs') (as @ atoms_of r) \<and>
    (\<forall>b\<in>set (dkeys b'). \<exists>n. b = bind_name ''c'' n)"
  using assms
proof (induction counter expr binds r arbitrary: cs as rule: condition_loop.induct)
  case (1 counter expr binds)
  then show ?case by (intro exI [of _ "[]"]) (auto simp: atoms_of_def)
next
  case (2 counter expr binds k v r)
  let ?b = "bind_name ''c'' counter"
  let ?e = "(if counter > 1 then expr @ '' AND '' else expr) @ k @ '' = '' @ ?b"
  have fresh: "dget ?b binds = None" using 2(5) by (auto simp: dget_None_iff)
  have "counter > 1 \<longleftrightarrow> expr \<noteq> []"
    using 2(2,3) by (auto simp: cond_inv_def render_conds_empty)
  then have inv: "cond_inv ?e (dset ?b v binds) (cs @ [CEq k ?b]) (as @ [AttrIs k v])"
    using cond_inv_eq [OF 2(2) _ _ fresh, of k v] 2(4) by (simp split: if_splits)
  have "\<forall>b\<in>set (dkeys (dset ?b v binds)). \<exists>n<Suc counter. b = bind_name ''c'' n"
    using 2(5) by (auto simp: dkeys_dset less_Suc_eq)
  with 2(1) [OF refl refl inv] 2(3,4,6) obtain cs' where
    "cond_inv s' b' ((cs @ [CEq k ?b]) @ cs') ((as @ [AttrIs k v]) @ atoms_of r)"
    "\<forall>b\<in>set (dkeys b'). \<exists>n. b = bind_name ''c'' n"
    by (auto simp: Let_def)
  then show ?case by (intro exI [of _ "CEq k ?b # cs'"]) (simp add: atoms_of_def)
qed

lemma merge_key_attributes_inv:
  assumes "cond_inv s binds cs as" "list_all ident (dkeys keys)"
    "\<forall>b\<in>set (dkeys binds). (\<exists>n. b = bind_name ''c'' n) \<or> (\<exists>n<length binds. b = bind_name ''k'' n)"
    "merge_key_attributes_loop keys s binds = (s', b')"
  shows "\<exists>cs'. cond_inv s' b' (cs @ cs') (as @ atoms_of keys) \<and>
    (\<forall>b\<in>set (dkeys b'). (\<exists>n. b = bind_name ''c'' n) \<or> (\<exists>n. b = bind_name ''k'' n))"
  using assms
proof (induction keys s binds arbitrary: cs as rule: merge_key_attributes_loop.induct)
  case (1 s binds)
  then show ?case by (intro exI [of _ "[]"]) (auto simp: atoms_of_def)
next
  case (2 k v r s binds)
  let ?b = "bind_name ''k'' (length binds)"
  have fresh: "dget ?b binds = None" using 2(4) by (auto simp: dget_None_iff)
  note inv = cond_inv_eq [OF 2(2) _ _ fresh, of k v]
  have "\<forall>b\<in>set (dkeys (dset ?b v binds)).
      (\<exists>n. b = bind_name ''c'' n) \<or> (\<exists>n<length (dset ?b v binds). b = bind_name ''k'' n)"
    using 2(4) by (fastforce simp: dkeys_dset length_dset fresh less_Suc_eq)
  with 2(1) [OF refl refl inv] 2(3,5) obtain cs' where
    "cond_inv s' b' ((cs @ [CEq k ?b]) @ cs') ((as @ [AttrIs k v]) @ atoms_of r)"
    "\<forall>b\<in>set (dkeys b'). (\<exists>n. b = bind_name ''c'' n) \<or> (\<exists>n. b = bind_name ''k'' n)"
    by (auto simp: Let_def)
  then show ?case by (intro exI [of _ "CEq k ?b # cs'"]) (simp add: atoms_of_def)
qed

lemma merge_key_condition_inv:
  assumes "cond_inv s binds cs as" "list_all ident ks"
  shows "cond_inv (merge_key_condition_loop ks s) binds (cs @ map CExists ks) (as @ map HasAttr ks)"
  using assms
proof (induction ks s arbitrary: cs as rule: merge_key_condition_loop.induct)
  case (2 k ks s)
  then show ?case using cond_inv_snoc [OF 2(2), of "CExists k" "HasAttr k"]
      2(1) [of "cs @ [CExists k]" "as @ [HasAttr k]"] by simp
qed simp

lemma not_exists_inv:
  assumes "cond_inv s binds cs as" "list_all ident ks"
  shows "cond_inv (not_exists_loop ks s) binds (cs @ map CNotExists ks) (as @ map NoAttr ks)"
  using assms
proof (induction ks s arbitrary: cs as rule: not_exists_loop.induct)
  case (2 k ks s)
  then show ?case using cond_inv_snoc [OF 2(2), of "CNotExists k" "NoAttr k"]
      2(1) [of "cs @ [CNotExists k]" "as @ [NoAttr k]"] by simp
qed simp

lemma cond_inv_dupdate:
  assumes "cond_inv s vals cs as" "\<forall>b\<in>set (dkeys e). dget b vals = None" "distinct (dkeys e)"
  shows "cond_inv s (dupdate vals e) cs as"
  using assms
proof (induction vals e rule: dupdate.induct)
  case (2 d k v kvs)
  then have "k \<notin> set (dkeys kvs)" "dget k d = None" by auto
  moreover from this have "\<forall>b\<in>set (dkeys kvs). dget b (dset k v d) = None" using 2(3) by auto
  ultimately show ?case using cond_inv_fresh [OF 2(2), of k v] 2(1,4) by simp
qed simp

lemma cond_inv_means:
  "cond_inv s (vals_of e) cs as \<Longrightarrow> ep_cond e = Some s \<Longrightarrow> as \<noteq> [] \<Longrightarrow> cond_means e as"
  by (cases cs) (auto simp: cond_inv_def cond_means_def intro!: exI [of _ cs])

subsection \<open>The update expression\<close>

definition set_list :: "string list \<Rightarrow> ddb_item \<Rightarrow> ddb_item" where
  "set_list keys item = filter (\<lambda>(k, v). k \<notin> set keys) item"

definition v_binds :: "nat \<Rightarrow> nat \<Rightarrow> string list" where
  "v_binds i n = map (bind_name ''v'') [i..<i + n]"

definition set_text :: "(string \<times> string) list \<Rightarrow> string option" where
  "set_text nbs = (if nbs = [] then None else Some (render_sets nbs))"

lemma set_text_snoc:
  "Some ((case set_text nbs of None \<Rightarrow> ''SET '' | Some e \<Rightarrow> e @ '', '') @
      n @ CHR '' '' # CHR ''='' # CHR '' '' # b) = set_text (nbs @ [(n, b)])"
  by (simp add: set_text_def render_sets_def join_str_snoc)

lemma set_list_empty: "set_list keys item = [] \<longleftrightarrow> set (dkeys item) \<subseteq> set keys"
  by (induction item) (auto simp: set_list_def)

lemma v_binds_Suc: "v_binds i (Suc n) = bind_name ''v'' i # v_binds (Suc i) n"
  by (simp add: v_binds_def upt_conv_Cons del: upt_Suc)

lemma length_v_binds [simp]: "length (v_binds i n) = n"
  by (simp add: v_binds_def)

lemma update_loop:
  assumes "\<forall>m\<ge>counter. dget (bind_name ''v'' m) vals = None"
  shows "update_expression_loop keys r (set_text nbs) vals counter =
    (set_text (nbs @ zip (map fst (set_list keys r)) (v_binds counter (length (set_list keys r)))),
     vals @ zip (v_binds counter (length (set_list keys r))) (map snd (set_list keys r)))"
  using assms
proof (induction r arbitrary: nbs vals counter)
  case Nil
  then show ?case by (simp add: set_list_def)
next
  case (Cons p r)
  obtain k v where p: "p = (k, v)" by fastforce
  let ?b = "bind_name ''v'' counter"
  show ?case
  proof (cases "k \<in> set keys")
    case True
    then show ?thesis using Cons by (simp add: p set_list_def)
  next
    case False
    have ap: "dset ?b v vals = vals @ [(?b, v)]" using Cons.prems by (simp add: dset_absent)
    have sl: "set_list keys (p # r) = (k, v) # set_list keys r"
      using False by (simp add: p set_list_def)
    have "\<forall>m\<ge>Suc counter. dget (bind_name ''v'' m) (dset ?b v vals) = None"
      using Cons.prems by auto
    from Cons.IH [OF this, of "nbs @ [(k, ?b)]"] show ?thesis
      using False by (simp add: p sl [unfolded p] ap Let_def set_text_snoc v_binds_Suc)
  qed
qed

lemma distinct_v_binds: "distinct (v_binds i n)"
  by (simp add: v_binds_def distinct_map inj_on_def)

lemma dget_zip_nth:
  "distinct ks \<Longrightarrow> length ks = length vs \<Longrightarrow> map (\<lambda>k. dget k (zip ks vs)) ks = map Some vs"
  by (rule nth_equalityI) (simp_all add: dget_def map_of_zip_nth)

lemma dkeys_zip: "length ks = length vs \<Longrightarrow> dkeys (zip ks vs) = ks"
  by (simp add: dkeys_def)

lemma v_binds_ok: "list_all bind_ok (v_binds i n)"
  by (simp add: v_binds_def list_all_iff)

lemma update_loop_means:
  assumes "update_expression_loop keys item None [] 1 = (upd, vals)" "set_list keys item \<noteq> []"
    "distinct (dkeys item)" "list_all ident (dkeys item)"
  shows "update_means upd (dupdate binds vals) (set_list keys item)"
    and "vals = zip (v_binds 1 (length (set_list keys item))) (map snd (set_list keys item))"
proof -
  let ?us = "set_list keys item"
  let ?bs = "v_binds 1 (length ?us)"
  have l: "upd = set_text (zip (map fst ?us) ?bs)" "vals = zip ?bs (map snd ?us)"
    using update_loop [of 1 "[]" keys item "[]"] assms(1) by (auto simp: set_text_def)
  show "vals = zip ?bs (map snd ?us)" by (fact l(2))
  have "map (\<lambda>b. dget b (dupdate binds vals)) ?bs = map (\<lambda>b. dget b vals) ?bs"
  proof (rule map_cong [OF refl])
    fix b assume b: "b \<in> set ?bs"
    have d: "distinct (dkeys vals)" by (simp add: l dkeys_zip distinct_v_binds)
    have "dget b vals \<noteq> None" using b by (simp add: dget_None_iff l dkeys_zip)
    then show "dget b (dupdate binds vals) = dget b vals"
      using d by (auto simp: dget_dupdate dget_rev split: option.splits)
  qed
  also have "\<dots> = map (Some \<circ> snd) ?us"
    by (simp add: l dget_zip_nth distinct_v_binds)
  finally have v: "map (\<lambda>b. dget b (dupdate binds vals)) ?bs = map (Some \<circ> snd) ?us" .
  have ne: "zip (map fst ?us) ?bs \<noteq> []" using assms(2) by (cases ?us) (auto simp: v_binds_def upt_conv_Cons simp del: upt_Suc)
  have "distinct (map fst ?us)" "list_all ident (map fst ?us)"
    using assms(3,4) by (auto simp: set_list_def dkeys_def list_all_iff distinct_map_filter)
  then show "update_means upd (dupdate binds vals) ?us"
    unfolding update_means_def using v ne assms(2) l(1)
    by (intro exI [of _ ?bs]) (simp add: set_text_def v_binds_ok)
qed

subsection \<open>The requests mean what they were built from\<close>

definition text_of :: "expr_params \<Rightarrow> string" where
  "text_of e = (case ep_cond e of None \<Rightarrow> [] | Some s \<Rightarrow> s)"

text \<open>The condition of \<open>e\<close> asks for the atoms \<open>as\<close>, and its bind names are of the kinds in \<open>ks\<close>.\<close>

definition expr_inv :: "string set \<Rightarrow> expr_params \<Rightarrow> atom list \<Rightarrow> bool" where
  "expr_inv ks e as \<longleftrightarrow> (\<exists>cs. cond_inv (text_of e) (vals_of e) cs as) \<and>
     (\<forall>b\<in>set (dkeys (vals_of e)). \<exists>k\<in>ks. \<exists>n. b = bind_name k n) \<and> (ep_cond e = None \<longrightarrow> as = []) \<and>
     (ep_cond e = Some [] \<longrightarrow> False)"

definition cond_row :: "condition option \<Rightarrow> row" where
  "cond_row c = (case c of Some (CondDict d) \<Rightarrow> d | _ \<Rightarrow> [])"

definition cond_plain :: "condition option \<Rightarrow> bool" where
  "cond_plain c \<longleftrightarrow> (case c of None \<Rightarrow> True | Some (CondDict d) \<Rightarrow> d \<noteq> [] \<and> list_all ident (dkeys d)
     | Some (CondStmt s d) \<Rightarrow> False)"

definition cond_expr :: "condition option \<Rightarrow> exn + expr_params" where
  "cond_expr c = (case c of None \<Rightarrow> Inr no_expr | Some c \<Rightarrow> process_condition c no_expr)"

lemma dkeys_to_map: "to_attribute_value_map d = Inr m \<Longrightarrow> dkeys m = dkeys d"
  by (induction d arbitrary: m) (auto simp: rbind_eq_Inr)

lemma dkeys_to_ddb_item: "to_ddb_item r = Inr i \<Longrightarrow> dkeys i = dkeys r"
  by (simp add: to_ddb_item_def dkeys_to_map)

lemma expr_inv_no_expr [simp]: "expr_inv ks no_expr []"
  by (auto simp: expr_inv_def no_expr_def text_of_def vals_of_def intro: cond_inv_empty)

lemma cond_inv_nonempty: "cond_inv s vals cs as \<Longrightarrow> s = [] \<longleftrightarrow> as = []"
  by (auto simp: cond_inv_def render_conds_empty)

lemma expr_inv_means: "expr_inv ks e as \<Longrightarrow> cond_means e as"
proof (cases "ep_cond e")
  case None
  moreover assume "expr_inv ks e as"
  ultimately show ?thesis by (simp add: expr_inv_def cond_means_def)
next
  case (Some s)
  assume e: "expr_inv ks e as"
  then obtain cs where "cond_inv s (vals_of e) cs as" "s \<noteq> []"
    using Some by (auto simp: expr_inv_def text_of_def)
  then show ?thesis using Some cond_inv_means cond_inv_nonempty by blast
qed

lemma cond_expr_inv:
  assumes "cond_expr c = Inr e" "cond_plain c"
  shows "\<exists>ci. to_ddb_item (cond_row c) = Inr ci \<and> expr_inv {''c''} e (atoms_of ci)"
proof (cases c)
  case None
  then show ?thesis using assms
    by (auto simp: cond_expr_def cond_row_def to_ddb_item_def atoms_of_def)
next
  case (Some c')
  with assms obtain d ci where c: "c = Some (CondDict d)" "d \<noteq> []" "list_all ident (dkeys d)"
    and ci: "to_ddb_item d = Inr ci"
    by (cases c') (auto simp: cond_plain_def cond_expr_def process_condition_def rbind_eq_Inr)
  obtain s b where l: "condition_loop 1 [] [] ci = (s, b)" by fastforce
  then have e: "e = no_expr\<lparr>ep_cond := Some s, ep_vals := Some b\<rparr>"
    using assms(1) c ci by (simp add: cond_expr_def process_condition_def)
  obtain cs where inv: "cond_inv s b cs (atoms_of ci)" "\<forall>b\<in>set (dkeys b). \<exists>n. b = bind_name ''c'' n"
    using condition_loop_inv [OF cond_inv_empty _ _ _ l] c(3) dkeys_to_ddb_item [OF ci] by auto
  have "atoms_of ci \<noteq> []" using c(2) dkeys_to_ddb_item [OF ci] by (cases ci) (auto simp: atoms_of_def dkeys_def)
  then have "s \<noteq> []" using cond_inv_nonempty [OF inv(1)] by blast
  then show ?thesis using c ci inv
    by (auto simp: cond_row_def expr_inv_def e text_of_def vals_of_def)
qed

lemma merge_key_attributes_expr:
  assumes "expr_inv {''c''} e as" "list_all ident (dkeys keys)" "keys \<noteq> []"
  shows "expr_inv {''c'', ''k''} (merge_key_attributes keys e) (as @ atoms_of keys)"
proof -
  obtain cs where inv: "cond_inv (text_of e) (vals_of e) cs as" using assms(1) by (auto simp: expr_inv_def)
  obtain s b where l: "merge_key_attributes_loop keys (text_of e) (vals_of e) = (s, b)" by fastforce
  then have m: "merge_key_attributes keys e = e\<lparr>ep_cond := Some s, ep_vals := Some b\<rparr>"
    by (simp add: merge_key_attributes_def text_of_def vals_of_def)
  obtain cs' where i: "cond_inv s b cs' (as @ atoms_of keys)"
    "\<forall>b\<in>set (dkeys b). (\<exists>n. b = bind_name ''c'' n) \<or> (\<exists>n. b = bind_name ''k'' n)"
    using merge_key_attributes_inv [OF inv assms(2) _ l] assms(1) by (auto simp: expr_inv_def)
  have "s \<noteq> []" using cond_inv_nonempty [OF i(1)] assms(3) by (auto simp: atoms_of_def)
  then show ?thesis using i by (auto simp: m expr_inv_def text_of_def vals_of_def)
qed

lemma merge_key_condition_expr:
  assumes "expr_inv ks e as" "list_all ident keys" "keys \<noteq> []"
  shows "expr_inv ks (merge_key_condition keys e) (as @ map HasAttr keys)"
proof -
  obtain cs where inv: "cond_inv (text_of e) (vals_of e) cs as" using assms(1) by (auto simp: expr_inv_def)
  let ?s = "merge_key_condition_loop keys (text_of e)"
  have i: "cond_inv ?s (vals_of e) (cs @ map CExists keys) (as @ map HasAttr keys)"
    by (rule merge_key_condition_inv [OF inv assms(2)])
  have "?s \<noteq> []" using cond_inv_nonempty [OF i] assms(3) by auto
  then show ?thesis using i assms(1)
    by (auto simp: merge_key_condition_def expr_inv_def text_of_def vals_of_def)
qed

lemma merge_attributes_means:
  assumes "expr_inv ks e as" "\<forall>k\<in>ks. \<forall>n m. bind_name k n \<noteq> bind_name ''v'' m"
    "set (dkeys vals) \<subseteq> range (bind_name ''v'')" "distinct (dkeys vals)"
  shows "cond_means (merge_attributes e vals) as"
proof -
  obtain cs where inv: "cond_inv (text_of e) (vals_of e) cs as" using assms(1) by (auto simp: expr_inv_def)
  have "\<forall>b\<in>set (dkeys vals). dget b (vals_of e) = None"
    using assms(1-3) by (force simp: expr_inv_def dget_None_iff)
  from cond_inv_dupdate [OF inv this assms(4)]
  have i: "cond_inv (text_of e) (vals_of (merge_attributes e vals)) cs as"
    by (simp add: merge_attributes_def vals_of_def)
  show ?thesis
  proof (cases "ep_cond e")
    case None
    then show ?thesis using assms(1) by (simp add: cond_means_def merge_attributes_def expr_inv_def)
  next
    case (Some s)
    then have "as \<noteq> []" using cond_inv_nonempty [OF i] assms(1) by (auto simp: expr_inv_def text_of_def)
    then show ?thesis using Some i
      by (intro cond_inv_means [of s]) (auto simp: merge_attributes_def text_of_def)
  qed
qed

lemma update_merge_means:
  assumes "expr_inv ks e as" "ks \<subseteq> {''c'', ''k''}"
    "update_expression_loop keys item None [] 1 = (upd, vals)" "set_list keys item \<noteq> []"
    "distinct (dkeys item)" "list_all ident (dkeys item)"
  shows "cond_means (merge_attributes e vals) as"
    and "update_means upd (vals_of (merge_attributes e vals)) (set_list keys item)"
proof -
  note l = update_loop_means [OF assms(3-6)]
  have "dkeys vals = v_binds 1 (length (set_list keys item))" using l(2) by (simp add: dkeys_zip)
  then have "set (dkeys vals) \<subseteq> range (bind_name ''v'')" "distinct (dkeys vals)"
    using distinct_v_binds [of 1] by (simp, force simp: v_binds_def, simp)
  then show "cond_means (merge_attributes e vals) as"
    using assms(2) by (intro merge_attributes_means [OF assms(1)]) auto
  show "update_means upd (vals_of (merge_attributes e vals)) (set_list keys item)"
    using l(1) by (simp add: merge_attributes_def vals_of_def)
qed

lemma update_request_table: "update_to_ddb_request r = Inr p \<Longrightarrow> up_table p = ur_table r"
  by (cases "update_expression_loop (dkeys (ur_keys r)) (projr (to_ddb_item (ur_item r))) None [] 1")
     (auto simp: update_to_ddb_request_def rbind_eq_Inr)

definition ident_row :: "row \<Rightarrow> bool" where
  "ident_row r \<longleftrightarrow> distinct (dkeys r) \<and> list_all ident (dkeys r)"

text \<open>
  The update that \<open>UpdateItemRequest.to_ddb_request\<close> sends asks for exactly the
  attributes of its condition, for the key when the row must exist, and sets exactly the
  attributes of its item outside the key: no bind name of one part is used by another.
\<close>

lemma update_request_means:
  assumes "update_to_ddb_request r = Inr p" "cond_plain (ur_condition r)" "ident_row (ur_keys r)"
    "ident_row (ur_item r)" "ur_keys r \<noteq> []" "\<not> set (dkeys (ur_item r)) \<subseteq> set (dkeys (ur_keys r))"
  shows "\<exists>ci ki ii. to_ddb_item (cond_row (ur_condition r)) = Inr ci \<and>
    to_ddb_item (ur_keys r) = Inr ki \<and> to_ddb_item (ur_item r) = Inr ii \<and> up_key p = ki \<and>
    cond_means (up_expr p) (atoms_of ci @ (if ur_must_exist r then atoms_of ki else [])) \<and>
    update_means (up_update p) (vals_of (up_expr p)) (set_list (dkeys (ur_keys r)) ii)"
proof -
  obtain upd vals ii ki e where i: "to_ddb_item (ur_item r) = Inr ii" "to_ddb_item (ur_keys r) = Inr ki"
    and u: "update_expression_loop (dkeys (ur_keys r)) ii None [] 1 = (upd, vals)"
    and e: "cond_expr (ur_condition r) = Inr e"
    and p: "p = \<lparr>up_table = ur_table r, up_key = ki, up_update = upd, up_expr = merge_attributes
      (if ur_must_exist r then merge_key_attributes ki e else e) vals\<rparr>"
    using assms(1)
    by (cases "update_expression_loop (dkeys (ur_keys r)) (projr (to_ddb_item (ur_item r))) None [] 1")
       (auto simp: update_to_ddb_request_def rbind_eq_Inr cond_expr_def)
  obtain ci where c: "to_ddb_item (cond_row (ur_condition r)) = Inr ci" "expr_inv {''c''} e (atoms_of ci)"
    using cond_expr_inv [OF e assms(2)] by blast
  let ?e = "if ur_must_exist r then merge_key_attributes ki e else e"
  note dk = dkeys_to_ddb_item [OF i(1)] dkeys_to_ddb_item [OF i(2)]
  have "ki \<noteq> []" using dk(2) assms(5) by (auto simp: dkeys_def)
  then have "expr_inv (if ur_must_exist r then {''c'', ''k''} else {''c''}) ?e
      (atoms_of ci @ (if ur_must_exist r then atoms_of ki else []))"
    using c(2) merge_key_attributes_expr [OF c(2), of ki] assms(3) dk by (simp add: ident_row_def)
  moreover have "set_list (dkeys (ur_keys r)) ii \<noteq> []"
    using assms(6) dk(1) set_list_empty by metis
  ultimately show ?thesis
    using update_merge_means [OF _ _ u] assms(4) dk c(1) i
    by (intro exI [of _ ci] exI [of _ ki] exI [of _ ii]) (auto simp: p ident_row_def)
qed

subsection \<open>The meaning of a whole request\<close>

definition item_of :: "row \<Rightarrow> ddb_item" where
  "item_of r = (case to_ddb_item r of Inr i \<Rightarrow> i | Inl _ \<Rightarrow> [])"

text \<open>What a request asks of the table, in terms of its rows and not of expression texts.\<close>

fun request_sem :: "(string \<Rightarrow> string list) \<Rightarrow> transaction_request \<Rightarrow> write_sem" where
  "request_sem ka (PutItem r) = \<lparr>ws_table = pr_table r,
     ws_key = key_of ka (pr_table r) (item_of (pr_item r)),
     ws_atoms = (case pr_key_attributes r of None \<Rightarrow> [] | Some as \<Rightarrow> map NoAttr as),
     ws_effect = put_effect (item_of (pr_item r))\<rparr>"
| "request_sem ka (UpdateItem r) = \<lparr>ws_table = ur_table r,
     ws_key = key_of ka (ur_table r) (item_of (ur_keys r)),
     ws_atoms = atoms_of (item_of (cond_row (ur_condition r))) @
       (if ur_must_exist r then atoms_of (item_of (ur_keys r)) else []),
     ws_effect = update_effect (item_of (ur_keys r)) (set_list (dkeys (ur_keys r)) (item_of (ur_item r)))\<rparr>"
| "request_sem ka (DeleteItem r) = \<lparr>ws_table = dr_table r,
     ws_key = key_of ka (dr_table r) (item_of (dr_keys r)),
     ws_atoms = atoms_of (item_of (cond_row (dr_condition r))) @
       (if dr_must_exist r then map HasAttr (dkeys (dr_keys r)) else []),
     ws_effect = (\<lambda>_. None)\<rparr>"

text \<open>The arguments the repositories build requests from.\<close>

fun request_ok :: "(string \<Rightarrow> string list) \<Rightarrow> transaction_request \<Rightarrow> bool" where
  "request_ok ka (PutItem r) \<longleftrightarrow> pr_condition r = None \<and> distinct (dkeys (pr_item r)) \<and>
     list_all ident (ka (pr_table r)) \<and> ka (pr_table r) \<noteq> [] \<and>
     set (ka (pr_table r)) \<subseteq> set (dkeys (pr_item r)) \<and>
     (pr_key_attributes r = None \<or> pr_key_attributes r = Some (ka (pr_table r)))"
| "request_ok ka (UpdateItem r) \<longleftrightarrow> cond_plain (ur_condition r) \<and> ident_row (ur_keys r) \<and>
     set (dkeys (ur_keys r)) = set (ka (ur_table r)) \<and> ka (ur_table r) \<noteq> [] \<and> ident_row (ur_item r) \<and>
     \<not> set (dkeys (ur_item r)) \<subseteq> set (dkeys (ur_keys r))"
| "request_ok ka (DeleteItem r) \<longleftrightarrow> cond_plain (dr_condition r) \<and> ident_row (dr_keys r) \<and>
     set (dkeys (dr_keys r)) = set (ka (dr_table r)) \<and> ka (dr_table r) \<noteq> []"

lemma item_of_Inr [simp]: "to_ddb_item r = Inr i \<Longrightarrow> item_of r = i"
  by (simp add: item_of_def)

lemma put_expr_means:
  assumes "put_expr katts None = Inr e" "list_all ident (case katts of None \<Rightarrow> [] | Some l \<Rightarrow> l)"
  shows "cond_means e (case katts of None \<Rightarrow> [] | Some l \<Rightarrow> map NoAttr l)"
proof (cases "katts = None \<or> katts = Some []")
  case True
  then show ?thesis using assms(1)
    by (auto simp: put_expr_def cond_means_def no_expr_def split: option.splits)
next
  case False
  then obtain l where l: "katts = Some l" "l \<noteq> []" by auto
  then have e: "e = no_expr\<lparr>ep_cond := Some (not_exists_loop l [])\<rparr>"
    using assms(1) by (cases l) (auto simp: put_expr_def)
  have "cond_inv (not_exists_loop l []) (vals_of e) ([] @ map CNotExists l) ([] @ map NoAttr l)"
    using not_exists_inv [OF cond_inv_empty, of l] assms(2) l by simp
  then show ?thesis using cond_inv_means [of _ e] l by (auto simp: e)
qed

lemma key_of_not_None: "set (ka t) \<subseteq> set (dkeys i) \<Longrightarrow> None \<notin> set (key_of ka t i)"
proof
  assume sub: "set (ka t) \<subseteq> set (dkeys i)" and "None \<in> set (key_of ka t i)"
  then obtain a where "a \<in> set (ka t)" "dget a i = None" by (auto simp: key_of_def dest: sym)
  then show False using sub by (auto simp: dget_None_iff)
qed

lemma set_list_disjoint: "set (map fst (set_list ks ii)) \<inter> set ks = {}"
  by (auto simp: set_list_def)

lemma no_NoAttr: "NoAttr n \<notin> set (atoms_of i)"
  by (auto simp: atoms_of_def)

text \<open>
  C23 (refinement). A transaction request turned into DynamoDB parameters means what the request
  says: the texts of its condition and update expressions, with the values bound to their names,
  ask for the atoms of \<open>request_sem\<close> and have its effect, for every kind of request.
\<close>

theorem request_means:
  assumes "to_ddb_request q = Inr w" "request_ok ka q"
  shows "write_means ka w (request_sem ka q)"
proof (cases q)
  case (PutItem r)
  then obtain i e where i: "to_ddb_item (pr_item r) = Inr i" and e: "put_expr (pr_key_attributes r) None = Inr e"
    and w: "w = WPut \<lparr>pp_table = pr_table r, pp_item = i, pp_expr = e, pp_return_old = False\<rparr>"
    using assms by (auto simp: put_to_ddb_request_def rbind_eq_Inr)
  have "list_all ident (case pr_key_attributes r of None \<Rightarrow> [] | Some l \<Rightarrow> l)"
    using assms(2) PutItem by (auto split: option.splits)
  from put_expr_means [OF e this] show ?thesis
    using assms(2) PutItem dkeys_to_ddb_item [OF i] key_of_not_None [of ka "pr_table r" i]
    by (auto simp: w i)
next
  case (UpdateItem r)
  then obtain p where p: "update_to_ddb_request r = Inr p" "w = WUpdate p"
    using assms by (auto simp: rbind_eq_Inr)
  have t: "up_table p = ur_table r" using p(1) by (rule update_request_table)
  have ok: "cond_plain (ur_condition r)" "ident_row (ur_keys r)" "ident_row (ur_item r)" "ur_keys r \<noteq> []"
    "\<not> set (dkeys (ur_item r)) \<subseteq> set (dkeys (ur_keys r))" using assms(2) UpdateItem by auto
  obtain ci ki ii where c: "to_ddb_item (cond_row (ur_condition r)) = Inr ci"
    and k: "to_ddb_item (ur_keys r) = Inr ki" "up_key p = ki" and i: "to_ddb_item (ur_item r) = Inr ii"
    and m: "cond_means (up_expr p) (atoms_of ci @ (if ur_must_exist r then atoms_of ki else []))"
    and u: "update_means (up_update p) (vals_of (up_expr p)) (set_list (dkeys (ur_keys r)) ii)"
    using update_request_means [OF p(1) ok] by blast
  let ?us = "set_list (dkeys (ur_keys r)) ii"
  have "set (map fst ?us) \<inter> set (dkeys ki) = {}"
    using set_list_disjoint [of "dkeys (ur_keys r)" ii] dkeys_to_ddb_item [OF k(1)] by simp
  with u have "\<exists>us. update_means (up_update p) (vals_of (up_expr p)) us \<and>
      set (map fst us) \<inter> set (dkeys (up_key p)) = {} \<and> update_effect ki ?us = update_effect ki us"
    unfolding k(2) by blast
  then show ?thesis using assms(2) UpdateItem m dkeys_to_ddb_item [OF k(1)]
    by (simp add: p(2) t k i c ident_row_def split: if_splits)
next
  case (DeleteItem r)
  then obtain ki e where k: "to_ddb_item (dr_keys r) = Inr ki" and e: "cond_expr (dr_condition r) = Inr e"
    and w: "w = WDelete \<lparr>dp_table = dr_table r, dp_key = ki, dp_expr = (if dr_must_exist r
      then merge_key_condition (dkeys (dr_keys r)) e else e), dp_return_old = False\<rparr>"
    using assms by (auto simp: delete_to_ddb_request_def rbind_eq_Inr cond_expr_def)
  have ok: "cond_plain (dr_condition r)" "ident_row (dr_keys r)" using assms(2) DeleteItem by auto
  obtain ci where c: "to_ddb_item (cond_row (dr_condition r)) = Inr ci" "expr_inv {''c''} e (atoms_of ci)"
    using cond_expr_inv [OF e ok(1)] by blast
  have "dkeys (dr_keys r) \<noteq> []" using assms(2) DeleteItem by auto
  then have "expr_inv {''c''} (dp_expr (case w of WDelete d \<Rightarrow> d))
     (atoms_of ci @ (if dr_must_exist r then map HasAttr (dkeys (dr_keys r)) else []))"
    using c(2) merge_key_condition_expr [OF c(2), of "dkeys (dr_keys r)"] assms(2) DeleteItem
    by (auto simp: w ident_row_def)
  from expr_inv_means [OF this] show ?thesis
    using assms(2) DeleteItem dkeys_to_ddb_item [OF k] no_NoAttr
    by (auto simp: w k c(1) ident_row_def)
qed

text \<open>The update that a session repository sends for a touch.\<close>

definition example_update :: update_request where
  "example_update = \<lparr>ur_table = ''ShimServiceSession'',
     ur_keys = [(''tenantId'', PyInt 1), (''sessionId'', PyStr ''s1'')],
     ur_item = [(''expireTime'', PyInt 99)], ur_condition = Some (CondDict [(''stateCounter'', PyInt 3)]),
     ur_must_exist = True, ur_virtual = None\<rparr>"

lemma example_update_ok:
  "cond_plain (ur_condition example_update)" "ident_row (ur_keys example_update)"
  "ident_row (ur_item example_update)" "ur_keys example_update \<noteq> []"
  "\<not> set (dkeys (ur_item example_update)) \<subseteq> set (dkeys (ur_keys example_update))"
  by (simp_all add: example_update_def cond_plain_def ident_row_def ident_def ident_char_def)

lemma example_update_request: "\<exists>p. update_to_ddb_request example_update = Inr p"
  by (simp add: example_update_def update_to_ddb_request_def to_ddb_item_def process_condition_def
      Let_def split: prod.splits)

lemma update_request_means_witness:
  "\<exists>p. update_to_ddb_request example_update = Inr p \<and>
    (\<exists>ci ki ii. to_ddb_item (cond_row (ur_condition example_update)) = Inr ci \<and>
    to_ddb_item (ur_keys example_update) = Inr ki \<and> to_ddb_item (ur_item example_update) = Inr ii \<and>
    up_key p = ki \<and>
    cond_means (up_expr p) (atoms_of ci @ (if ur_must_exist example_update then atoms_of ki else [])) \<and>
    update_means (up_update p) (vals_of (up_expr p)) (set_list (dkeys (ur_keys example_update)) ii))"
proof -
  obtain p where p: "update_to_ddb_request example_update = Inr p" using example_update_request by blast
  from update_request_means [OF p example_update_ok] p show ?thesis by blast
qed

lemma request_means_witness:
  "\<exists>w. to_ddb_request (UpdateItem example_update) = Inr w \<and>
    write_means (\<lambda>t. [''tenantId'', ''sessionId'']) w
      (request_sem (\<lambda>t. [''tenantId'', ''sessionId'']) (UpdateItem example_update))"
proof -
  obtain p where p: "to_ddb_request (UpdateItem example_update) = Inr (WUpdate p)"
    using example_update_request by auto
  have "request_ok (\<lambda>t. [''tenantId'', ''sessionId'']) (UpdateItem example_update)"
    using example_update_ok by (simp, simp add: example_update_def)
  from request_means [OF p this] p show ?thesis by blast
qed

end
