(* ===== verification/Ddb_Client.thy ===== *)
theory Ddb_Client
  imports Ddb_Requests
begin

text \<open>
  The class \<open>DynamoDb\<close> of \<open>aws/dynamodb.py\<close> over the DynamoDB client of the AWS SDK. The client is
  not part of the repository: it is the record \<open>ddb_client\<close> of the calls the class makes, over a
  state \<open>'d\<close> of its own, and \<open>c_fuel\<close> bounds how often a call is repeated (a throttled call, or a
  batch with unprocessed items); a loop that exceeds it ends in \<open>OutOfFuel\<close>. The time statistics
  kept for \<open>get_last_response\<close> are not modelled.
\<close>

section \<open>Errors of the SDK\<close>

record aws_response =
  ar_http_status :: "int option"
  ar_code :: "string option"
  ar_reasons :: "(string \<times> string option) list"

record aws_error =
  ae_type :: string
  ae_response :: "aws_response option"

definition is_exception :: "aws_error \<Rightarrow> int \<Rightarrow> string \<Rightarrow> bool" where
  "is_exception ex status code = (case ae_response ex of
     None \<Rightarrow> False
   | Some r \<Rightarrow> ar_http_status r = Some status \<and> status = 404 \<or> ar_code r = Some code)"

definition is_not_found_exception :: "aws_error \<Rightarrow> bool" where
  "is_not_found_exception ex = is_exception ex 404 ''ResourceNotFoundException''"

definition is_invalid_request :: "aws_error \<Rightarrow> bool" where
  "is_invalid_request ex = is_exception ex 400 ''InvalidRequestException''"

definition is_conflict_exception :: "aws_error \<Rightarrow> bool" where
  "is_conflict_exception ex = is_exception ex 409 ''ConflictException''"

definition new_cancel_reason :: "string \<times> string option \<Rightarrow> cancel_reason" where
  "new_cancel_reason node =
     \<lparr>cr_code = (if fst node = ''None'' then None else Some (fst node)), cr_message = snd node\<rparr>"

definition handle_client_error :: "aws_error \<Rightarrow> exn" where
  "handle_client_error ex = (case ae_response ex of
     None \<Rightarrow> AttributeError
   | Some r \<Rightarrow> (case ar_code r of
       None \<Rightarrow> KeyError ''Code''
     | Some code \<Rightarrow>
         if code = ''ValidationException'' then DynamoDbValidation
         else if code = ''ThrottlingException'' then Throttling
         else ClientError code))"

definition handle_exception :: "aws_error \<Rightarrow> exn" where
  "handle_exception ex =
     (if is_not_found_exception ex then ResourceNotFound
      else if is_exception ex 400 ''TransactionCanceledException'' then
        TransactionCancelled (case ae_response ex of None \<Rightarrow> [] | Some r \<Rightarrow> map new_cancel_reason (ar_reasons r))
      else if contains_str ''ConditionalCheckFailedException'' (ae_type ex) then PreconditionFailed
      else if find_str ''ResourceNotFoundException'' (ae_type ex) > -1 then ResourceNotFound
      else if find_str ''ClientError'' (ae_type ex) > -1 then handle_client_error ex
      else UnhandledAws (ae_type ex))"

section \<open>The client\<close>

record batch_get_spec =
  bg_keys :: "ddb_item list"
  bg_consistent :: bool
  bg_projection :: "string option"

record query_params =
  qp_table :: string
  qp_select :: "string option"
  qp_projection :: "string list option"
  qp_consistent :: bool
  qp_key_condition :: string
  qp_filter :: "string option"
  qp_values :: ddb_item
  qp_names :: "(string, string option) dict"
  qp_limit :: "int option"
  qp_start_key :: "ddb_item option"

record query_response =
  qr_items :: "ddb_item list option"
  qr_last_key :: "ddb_item option"
  qr_count :: "int option"

record 'd ddb_client =
  c_get_item :: "get_params \<Rightarrow> 'd \<Rightarrow> (aws_error + ddb_item option) \<times> 'd"
  c_put_item :: "put_params \<Rightarrow> 'd \<Rightarrow> (aws_error + ddb_item option) \<times> 'd"
  c_update_item :: "update_params \<Rightarrow> 'd \<Rightarrow> (aws_error + unit) \<times> 'd"
  c_delete_item :: "delete_params \<Rightarrow> 'd \<Rightarrow> (aws_error + ddb_item option) \<times> 'd"
  c_transact_write_items :: "write_params list \<Rightarrow> 'd \<Rightarrow> (aws_error + unit) \<times> 'd"
  c_batch_write_item ::
    "(string, batch_request list) dict \<Rightarrow> 'd \<Rightarrow> (aws_error + (string, batch_request list) dict) \<times> 'd"
  c_batch_get_item :: "(string, batch_get_spec) dict \<Rightarrow> 'd \<Rightarrow>
    (aws_error + (string, ddb_item list) dict \<times> (string, batch_get_spec) dict) \<times> 'd"
  c_scan :: "string \<Rightarrow> string option \<Rightarrow> ddb_item option \<Rightarrow> 'd \<Rightarrow> (aws_error + query_response) \<times> 'd"
  c_query :: "query_params \<Rightarrow> 'd \<Rightarrow> (aws_error + query_response) \<times> 'd"
  c_fuel :: nat

text \<open>\<open>_handle_throttling\<close>: a call is repeated (after a second) as long as it is throttled.\<close>

fun handle_throttling :: "nat \<Rightarrow> ('d \<Rightarrow> (aws_error + 'a) \<times> 'd) \<Rightarrow> ('d, 'a) prog" where
  "handle_throttling 0 f s = (Inl OutOfFuel, s)"
| "handle_throttling (Suc n) f s = (case f s of
     (Inr x, s') \<Rightarrow> (Inr x, s')
   | (Inl ex, s') \<Rightarrow> (if handle_exception ex = Throttling then handle_throttling n f s'
                     else (Inl (handle_exception ex), s')))"

definition execute_and_wrap ::
  "'d ddb_client \<Rightarrow> ('d \<Rightarrow> (aws_error + 'a) \<times> 'd) \<Rightarrow> ('d, 'a) prog" where
  "execute_and_wrap C f = handle_throttling (c_fuel C) f"

section \<open>Single items\<close>

definition get_item :: "'d ddb_client \<Rightarrow> string \<Rightarrow> row \<Rightarrow> bool \<Rightarrow> string list option \<Rightarrow> ('d, row) prog" where
  "get_item C table keys consistent atts =
     bnd (lift_res (to_ddb_item keys)) (\<lambda>ddb_keys.
     bnd (execute_and_wrap C (c_get_item C \<lparr>gp_table = table, gp_key = ddb_keys,
       gp_attributes = (if atts = Some [] then None else atts), gp_consistent = consistent\<rparr>)) (\<lambda>item.
     case item of None \<Rightarrow> raise ResourceNotFound | Some i \<Rightarrow> lift_res (from_ddb_item i)))"

definition find_item ::
  "'d ddb_client \<Rightarrow> string \<Rightarrow> row \<Rightarrow> bool \<Rightarrow> string list option \<Rightarrow> ('d, row option) prog" where
  "find_item C table keys consistent atts =
     catch (bnd (get_item C table keys consistent atts) (\<lambda>r. ret (Some r)))
       (\<lambda>e. if e = ResourceNotFound then Some (ret None) else None)"

definition put_item :: "'d ddb_client \<Rightarrow> string \<Rightarrow> row \<Rightarrow> string list option \<Rightarrow> condition option \<Rightarrow> bool \<Rightarrow>
    ('d, ddb_item option) prog" where
  "put_item C table item katts cond return_old =
     bnd (lift_res (to_ddb_item item)) (\<lambda>ddb_item.
     bnd (lift_res (put_expr katts cond)) (\<lambda>e.
     catch (execute_and_wrap C (c_put_item C
         \<lparr>pp_table = table, pp_item = ddb_item, pp_expr = e, pp_return_old = return_old\<rparr>))
       (\<lambda>ex. if ex = PreconditionFailed
             then Some (raise (if cond = None then PrimaryKeyViolation else ex)) else None)))"

definition delete_item :: "'d ddb_client \<Rightarrow> string \<Rightarrow> row \<Rightarrow> condition option \<Rightarrow> ('d, bool) prog" where
  "delete_item C table keys cond =
     bnd (lift_res (to_ddb_item keys)) (\<lambda>key.
     bnd (lift_res (cond_expr cond)) (\<lambda>e.
     bnd (execute_and_wrap C (c_delete_item C
       \<lparr>dp_table = table, dp_key = key, dp_expr = e, dp_return_old = True\<rparr>)) (\<lambda>old. ret (old \<noteq> None))))"

definition update_item :: "'d ddb_client \<Rightarrow> string \<Rightarrow> row \<Rightarrow> row \<Rightarrow> condition option \<Rightarrow> ('d, unit) prog" where
  "update_item C table keys item cond =
     bnd (lift_res (to_ddb_item item)) (\<lambda>ddb_item.
     let (upd, vals) = update_expression_loop (dkeys keys) ddb_item None [] 1 in
     bnd (lift_res (to_ddb_item keys)) (\<lambda>key.
     bnd (lift_res (cond_expr cond)) (\<lambda>e.
     execute_and_wrap C (c_update_item C \<lparr>up_table = table, up_key = key, up_update = upd,
       up_expr = merge_attributes (merge_key_condition (dkeys keys) e) vals\<rparr>))))"

definition transact_write :: "'d ddb_client \<Rightarrow> transaction_request list \<Rightarrow> ('d, unit) prog" where
  "transact_write C items =
     bnd (lift_res (map_res to_ddb_request items)) (\<lambda>item_list.
     execute_and_wrap C (c_transact_write_items C item_list))"

section \<open>Batches\<close>

fun process_batch_write_loop :: "nat \<Rightarrow> 'd ddb_client \<Rightarrow> (string, batch_request list) dict \<Rightarrow> nat \<Rightarrow>
    ('d, nat) prog" where
  "process_batch_write_loop n C [] count = ret count"
| "process_batch_write_loop 0 C (r # rs) count = raise OutOfFuel"
| "process_batch_write_loop (Suc n) C (r # rs) count =
     bnd (execute_and_wrap C (c_batch_write_item C (r # rs)))
       (\<lambda>unprocessed. process_batch_write_loop n C unprocessed (Suc count))"

definition process_batch_write :: "'d ddb_client \<Rightarrow> (string, batch_request list) dict \<Rightarrow> ('d, nat) prog" where
  "process_batch_write C reqs = process_batch_write_loop (c_fuel C) C reqs 0"

text \<open>\<open>defaultdict(list)[k].append(v)\<close>\<close>

definition append_to :: "string \<Rightarrow> 'v \<Rightarrow> (string, 'v list) dict \<Rightarrow> (string, 'v list) dict" where
  "append_to k v d = dset k ((case dget k d of None \<Rightarrow> [] | Some l \<Rightarrow> l) @ [v]) d"

definition delete_items :: "'d ddb_client \<Rightarrow> string \<Rightarrow> row list \<Rightarrow> ('d, unit) prog" where
  "delete_items C table keys =
     bnd (lift_res (map_res to_ddb_item keys)) (\<lambda>items.
     bnd (execute_and_wrap C (c_batch_write_item C [(table, map DeleteRequest items)])) (\<lambda>_. ret ()))"

definition batch_delete_from_table :: "'d ddb_client \<Rightarrow> string \<Rightarrow> row list \<Rightarrow> ('d, nat) prog" where
  "batch_delete_from_table C table row_keys =
     bnd (lift_res (map_res to_ddb_item row_keys)) (\<lambda>items.
     process_batch_write C [(table, map DeleteRequest items)])"

fun group_batch :: "transaction_request list \<Rightarrow> (string, batch_request list) dict \<Rightarrow>
    exn + (string, batch_request list) dict" where
  "group_batch [] d = Inr d"
| "group_batch (q # qs) d =
     rbind (to_ddb_batch_request q) (\<lambda>b. group_batch qs (append_to (request_table q) b d))"

definition batch_write :: "'d ddb_client \<Rightarrow> transaction_request list \<Rightarrow> ('d, nat) prog" where
  "batch_write C items = bnd (lift_res (group_batch items [])) (process_batch_write C)"

text \<open>One block of \<open>batch_delete\<close>: the keys grouped by table; an error is reported and dropped.\<close>

fun group_deletes :: "(string \<times> row) list \<Rightarrow> (string, batch_request list) dict \<Rightarrow>
    exn + (string, batch_request list) dict" where
  "group_deletes [] d = Inr d"
| "group_deletes ((t, k) # ks) d =
     rbind (to_ddb_item k) (\<lambda>i. group_deletes ks (append_to t (DeleteRequest i) d))"

definition batch_delete_submit :: "'d ddb_client \<Rightarrow> (string \<times> row) list \<Rightarrow> ('d, unit) prog" where
  "batch_delete_submit C keys =
     bnd (lift_res (group_deletes keys [])) (\<lambda>reqs.
     catch (bnd (process_batch_write C reqs) (\<lambda>_. ret ()))
       (\<lambda>e. if e = OutOfFuel then None else Some (ret ())))"

fun build_batch_get :: "get_item_request list \<Rightarrow> (string, batch_get_spec) dict \<Rightarrow>
    (string, batch_get_spec) dict" where
  "build_batch_get [] d = d"
| "build_batch_get (r # rs) d =
     (let spec = (case dget (gr_table r) d of
          None \<Rightarrow> \<lparr>bg_keys = [], bg_consistent = False, bg_projection = None\<rparr> | Some s \<Rightarrow> s);
        spec = spec\<lparr>bg_keys := bg_keys spec @ [gr_ddb_keys r]\<rparr>;
        spec = (if gr_consistent r then spec\<lparr>bg_consistent := True\<rparr> else spec);
        spec = (case gr_attributes r of None \<Rightarrow> spec
                | Some as \<Rightarrow> spec\<lparr>bg_projection := Some (join_str '','' as)\<rparr>)
      in build_batch_get rs (dset (gr_table r) spec d))"

fun extend_results :: "(string, ddb_item list) dict \<Rightarrow> (string, row list) dict \<Rightarrow>
    exn + (string, row list) dict" where
  "extend_results [] results = Inr results"
| "extend_results ((t, items) # r) results =
     rbind (map_res from_ddb_item items) (\<lambda>rows.
     extend_results r (dset t ((case dget t results of None \<Rightarrow> [] | Some l \<Rightarrow> l) @ rows) results))"

fun batch_get_loop :: "nat \<Rightarrow> 'd ddb_client \<Rightarrow> (string, batch_get_spec) dict \<Rightarrow> (string, row list) dict \<Rightarrow>
    ('d, (string, row list) dict) prog" where
  "batch_get_loop n C [] results = ret results"
| "batch_get_loop 0 C (r # rs) results = raise OutOfFuel"
| "batch_get_loop (Suc n) C (r # rs) results =
     bnd (execute_and_wrap C (c_batch_get_item C (r # rs))) (\<lambda>(responses, unprocessed).
     bnd (lift_res (extend_results responses results)) (batch_get_loop n C unprocessed))"

definition batch_get :: "'d ddb_client \<Rightarrow> get_item_request list \<Rightarrow> ('d, (string, row list) dict) prog" where
  "batch_get C requests = batch_get_loop (c_fuel C) C (build_batch_get requests []) []"

section \<open>Queries\<close>

record page =
  pg_items :: "ddb_item list"
  pg_next_key :: "ddb_item option"
  pg_count :: "int option"

text \<open>
  A query function keeps a state of its own (the remaining limit of a query) and asks for the page
  after a key. \<open>ResultSet\<close> is an iterator over its pages.
\<close>

type_synonym ('c, 'd) query_function =
  "ddb_item option \<Rightarrow> 'c \<Rightarrow> 'd \<Rightarrow> (exn + page \<times> 'c) \<times> 'd"

record 'c result_set =
  rs_next_key :: "ddb_item option"
  rs_items :: "ddb_item list option"
  rs_counter :: nat
  rs_done :: bool
  rs_count :: "int option"
  rs_closure :: 'c

definition new_result_set :: "'c \<Rightarrow> 'c result_set" where
  "new_result_set c = \<lparr>rs_next_key = None, rs_items = None, rs_counter = 0, rs_done = False,
     rs_count = None, rs_closure = c\<rparr>"

definition rs_exhausted :: "'c result_set \<Rightarrow> bool" where
  "rs_exhausted r = (case rs_items r of None \<Rightarrow> True | Some l \<Rightarrow> rs_counter r = length l)"

definition rs_fetch :: "('c, 'd) query_function \<Rightarrow> ('c result_set \<times> 'd, bool) prog" where
  "rs_fetch qf = (\<lambda>(r, d). case qf (rs_next_key r) (rs_closure r) d of
     (Inl e, d') \<Rightarrow> (if e = StopIteration then (Inr False, (r\<lparr>rs_done := True\<rparr>, d')) else (Inl e, (r, d')))
   | (Inr (p, c), d') \<Rightarrow>
       (let r = r\<lparr>rs_items := Some (pg_items p), rs_next_key := pg_next_key p,
                  rs_count := pg_count p, rs_closure := c\<rparr>
        in if pg_items p = [] \<and> pg_next_key p = None then (Inr False, (r\<lparr>rs_done := True\<rparr>, d'))
           else if pg_items p \<noteq> [] then (Inr True, (r\<lparr>rs_counter := 0\<rparr>, d'))
           else (case pg_count p of
               None \<Rightarrow> (Inl TypeError, (r, d'))
             | Some n \<Rightarrow> (if n > 0 then (Inr True, (r\<lparr>rs_counter := 0\<rparr>, d'))
                         else (Inr False, (r\<lparr>rs_done := True\<rparr>, d'))))))"

definition has_next :: "('c, 'd) query_function \<Rightarrow> ('c result_set \<times> 'd, bool) prog" where
  "has_next qf = (\<lambda>(r, d).
     if rs_done r then (Inr False, (r, d))
     else if rs_exhausted r then
       (if rs_items r = None \<or> rs_next_key r \<noteq> None then rs_fetch qf (r, d)
        else (Inr False, (r\<lparr>rs_done := True\<rparr>, d)))
     else (Inr True, (r, d)))"

definition rs_next :: "('c, 'd) query_function \<Rightarrow> ('c result_set \<times> 'd, row) prog" where
  "rs_next qf = bnd (has_next qf) (\<lambda>b.
     if \<not> b then raise (PlainException ''No more'')
     else (\<lambda>(r, d). case rs_items r of
         None \<Rightarrow> (Inl TypeError, (r, d))
       | Some l \<Rightarrow> (if rs_counter r < length l
           then (case from_ddb_item (l ! rs_counter r) of
               Inl e \<Rightarrow> (Inl e, (r, d))
             | Inr item \<Rightarrow> (Inr item, (r\<lparr>rs_counter := Suc (rs_counter r)\<rparr>, d)))
           else (Inl IndexError, (r, d)))))"

text \<open>\<open>__next__\<close>: \<open>None\<close> is the end of the iteration.\<close>

definition rs_dunder_next :: "('c, 'd) query_function \<Rightarrow> ('c result_set \<times> 'd, row option) prog" where
  "rs_dunder_next qf = bnd (has_next qf) (\<lambda>b.
     if b then bnd (rs_next qf) (\<lambda>x. ret (Some x)) else ret None)"

text \<open>\<open>list(rset)\<close>, by fuel: an iteration step per row.\<close>

fun rs_list :: "nat \<Rightarrow> ('c, 'd) query_function \<Rightarrow> ('c result_set \<times> 'd, row list) prog" where
  "rs_list 0 qf = raise OutOfFuel"
| "rs_list (Suc n) qf = bnd (rs_dunder_next qf) (\<lambda>x.
     case x of None \<Rightarrow> ret [] | Some i \<Rightarrow> bnd (rs_list n qf) (\<lambda>is. ret (i # is)))"

record range_key_specifier =
  rk_attribute :: string
  rk_value :: pyval
  rk_operation :: string

definition query_page :: "query_response \<Rightarrow> page" where
  "query_page resp = \<lparr>pg_items = (case qr_items resp of None \<Rightarrow> [] | Some l \<Rightarrow> l),
     pg_next_key = qr_last_key resp, pg_count = qr_count resp\<rparr>"

definition query_function :: "'d ddb_client \<Rightarrow> query_params \<Rightarrow> (int option, 'd) query_function" where
  "query_function C props next_key limit d =
     (if (case limit of None \<Rightarrow> False | Some n \<Rightarrow> n < 1) then (Inl StopIteration, d)
      else let props = (case limit of None \<Rightarrow> props | Some n \<Rightarrow> props\<lparr>qp_limit := Some n\<rparr>)
           in if next_key \<noteq> None \<and> qp_start_key props \<noteq> None then (Inl TypeError, d)
              else (case c_query C (case next_key of None \<Rightarrow> props | Some k \<Rightarrow> props\<lparr>qp_start_key := Some k\<rparr>) d of
                (Inl ex, d') \<Rightarrow> (Inl (UnhandledAws (ae_type ex)), d')
              | (Inr resp, d') \<Rightarrow>
                  let p = query_page resp
                  in (Inr (p, map_option (\<lambda>n. n - int (length (pg_items p))) limit), d')))"

text \<open>The attributes to select are sent as they are given, as a list.\<close>

definition query_props :: "string \<Rightarrow> string \<Rightarrow> pyval \<Rightarrow> string list option \<Rightarrow> range_key_specifier option \<Rightarrow>
    ddb_item option \<Rightarrow> bool \<Rightarrow> filter_operation list option \<Rightarrow> bool \<Rightarrow> exn + query_params" where
  "query_props table pk_att pk_value select rkq last_key consistent filters count_only =
     rbind (to_attribute_value_dict pk_value) (\<lambda>v.
     rbind (case rkq of
         None \<Rightarrow> Inr (pk_att @ '' = :keyval'', [('':keyval'', v)])
       | Some q \<Rightarrow> rbind (to_attribute_value_dict (rk_value q)) (\<lambda>rv.
           Inr (pk_att @ '' = :keyval AND '' @ rk_attribute q @ '' '' @ rk_operation q @ '' :rangeval'',
                [('':keyval'', v), ('':rangeval'', rv)]))) (\<lambda>(stmt, atts).
     rbind (case filters of
         None \<Rightarrow> Inr (None, atts, [])
       | Some fos \<Rightarrow> rbind (build_filter_expression fos [] 1 atts []) (\<lambda>(e, a, n). Inr (Some e, a, n)))
       (\<lambda>(filter_expr, atts, names).
     Inr \<lparr>qp_table = table,
          qp_select = (if select = None then Some (if count_only then ''COUNT'' else ''ALL_ATTRIBUTES'') else None),
          qp_projection = select, qp_consistent = consistent, qp_key_condition = stmt,
          qp_filter = filter_expr, qp_values = atts, qp_names = names, qp_limit = None,
          qp_start_key = last_key\<rparr>)))"

definition scan_function :: "'d ddb_client \<Rightarrow> string \<Rightarrow> string option \<Rightarrow> (unit, 'd) query_function" where
  "scan_function C table select next_key u d = (case c_scan C table select next_key d of
     (Inl ex, d') \<Rightarrow> (Inl (UnhandledAws (ae_type ex)), d')
   | (Inr resp, d') \<Rightarrow> (case qr_items resp of
       None \<Rightarrow> (Inl (KeyError ''Items''), d') | Some l \<Rightarrow> (Inr (query_page resp, ()), d')))"

section \<open>What a result set returns\<close>

text \<open>A table whose pages are found by the key they start after, and the chain of its pages.\<close>

definition page_source :: "(ddb_item option \<Rightarrow> page) \<Rightarrow> ('c, 'd) query_function" where
  "page_source pg k c d = (Inr (pg k, c), d)"

fun page_chain :: "(ddb_item option \<Rightarrow> page) \<Rightarrow> ddb_item option \<Rightarrow> page list \<Rightarrow> bool" where
  "page_chain pg k [] = False"
| "page_chain pg k [p] = (pg k = p \<and> pg_next_key p = None)"
| "page_chain pg k (p # q # ps) =
     (pg k = p \<and> pg_next_key p \<noteq> None \<and> page_chain pg (pg_next_key p) (q # ps))"

definition item_row :: "ddb_item \<Rightarrow> row" where
  "item_row i = projr (from_ddb_item i)"

definition readable :: "page \<Rightarrow> bool" where
  "readable p \<longleftrightarrow> (\<forall>i\<in>set (pg_items p). \<exists>r. from_ddb_item i = Inr r)"

definition page_rows :: "page list \<Rightarrow> row list" where
  "page_rows ps = map item_row (concat (map pg_items ps))"

definition rest_chain :: "(ddb_item option \<Rightarrow> page) \<Rightarrow> ddb_item option \<Rightarrow> page list \<Rightarrow> bool" where
  "rest_chain pg k ps \<longleftrightarrow> (if k = None then ps = [] else page_chain pg k ps)"

lemma page_chain_Cons:
  "page_chain pg k (p # ps) \<longleftrightarrow> pg k = p \<and> rest_chain pg (pg_next_key p) ps"
  by (cases ps) (auto simp: rest_chain_def)

lemma rs_list_step:
  assumes "rs_items r = Some l" "rs_counter r < length l" "\<not> rs_done r"
    "from_ddb_item (l ! rs_counter r) = Inr x"
  shows "rs_list (Suc n) qf (r, d) =
    bnd (rs_list n qf) (\<lambda>is. ret (x # is)) (r\<lparr>rs_counter := Suc (rs_counter r)\<rparr>, d)"
  using assms by (simp add: rs_dunder_next_def rs_next_def has_next_def rs_exhausted_def bnd_def)

lemma rs_list_rest:
  assumes "rs_items r = Some l" "rs_counter r \<le> length l" "\<not> rs_done r"
    "rest_chain pg (rs_next_key r) ps" "\<forall>i\<in>set l. \<exists>x. from_ddb_item i = Inr x" "list_all readable ps"
    "\<forall>p\<in>set (butlast ps). pg_items p \<noteq> []"
    "length l - rs_counter r + length (page_rows ps) < n"
  shows "fst (rs_list n (page_source pg) (r, d)) =
    Inr (map item_row (drop (rs_counter r) l) @ page_rows ps)"
  using assms
proof (induction n arbitrary: r l ps d)
  case (Suc n)
  show ?case
  proof (cases "rs_counter r < length l")
    case True
    then obtain x where x: "from_ddb_item (l ! rs_counter r) = Inr x"
      using Suc.prems(5) nth_mem by blast
    let ?r = "r\<lparr>rs_counter := Suc (rs_counter r)\<rparr>"
    have "fst (rs_list n (page_source pg) (?r, d)) = Inr (map item_row (drop (rs_counter ?r) l) @ page_rows ps)"
      by (rule Suc.IH) (use Suc.prems True in simp_all)
    then show ?thesis
      using rs_list_step [OF Suc.prems(1) True Suc.prems(3) x, of n "page_source pg" d] x
      by (auto simp: bnd_def Cons_nth_drop_Suc [OF True, symmetric] item_row_def split: prod.splits sum.splits)
  next
    case False
    then have c: "rs_counter r = length l" using Suc.prems(2) by simp
    show ?thesis
    proof (cases ps)
      case Nil
      then have "rs_next_key r = None" using Suc.prems(4) by (auto simp: rest_chain_def split: if_splits)
      then show ?thesis using Suc.prems(1,3) c Nil
        by (simp add: rs_dunder_next_def has_next_def rs_exhausted_def bnd_def page_rows_def)
    next
      case (Cons p qs)
      then have k: "rs_next_key r \<noteq> None" and pk: "page_chain pg (rs_next_key r) (p # qs)"
        using Suc.prems(4) by (auto simp: rest_chain_def split: if_splits)
      then have p: "pg (rs_next_key r) = p" and rest: "rest_chain pg (pg_next_key p) qs"
        by (simp_all add: page_chain_Cons)
      show ?thesis
      proof (cases "pg_items p = []")
        case True
        then have "qs = []" using Suc.prems(7) Cons by (auto split: if_splits)
        moreover from this rest have "pg_next_key p = None" by (auto simp: rest_chain_def split: if_splits)
        ultimately show ?thesis using Suc.prems(1,3) c k p True Cons
          by (simp add: rs_dunder_next_def has_next_def rs_exhausted_def rs_fetch_def page_source_def
              bnd_def page_rows_def)
      next
        case False
        let ?r = "r\<lparr>rs_items := Some (pg_items p), rs_next_key := pg_next_key p,
          rs_count := pg_count p, rs_counter := 0\<rparr>"
        from False obtain y ys where y: "pg_items p = y # ys" by (cases "pg_items p") auto
        obtain x where x: "from_ddb_item y = Inr x"
          using Suc.prems(6) Cons y by (auto simp: readable_def)
        have "rs_list (Suc n) (page_source pg) (r, d) = rs_list (Suc n) (page_source pg) (?r, d)"
          using Suc.prems(1,3) c k p y
          by (simp add: rs_dunder_next_def rs_next_def has_next_def rs_exhausted_def rs_fetch_def
              page_source_def bnd_def)
        also have "\<dots> = bnd (rs_list n (page_source pg)) (\<lambda>is. ret (x # is)) (?r\<lparr>rs_counter := 1\<rparr>, d)"
          using rs_list_step [of ?r "pg_items p" x n "page_source pg" d] Suc.prems(3) y x by simp
        finally have s: "rs_list (Suc n) (page_source pg) (r, d) =
          bnd (rs_list n (page_source pg)) (\<lambda>is. ret (x # is)) (?r\<lparr>rs_counter := 1\<rparr>, d)" .
        have "fst (rs_list n (page_source pg) (?r\<lparr>rs_counter := 1\<rparr>, d)) =
          Inr (map item_row (drop 1 (pg_items p)) @ page_rows qs)"
          using Suc.IH [of "?r\<lparr>rs_counter := 1\<rparr>" "pg_items p" qs d] Suc.prems Cons rest y c
          by (auto simp: readable_def page_rows_def split: if_splits)
        then show ?thesis using s x y c Cons
          by (auto simp: bnd_def page_rows_def item_row_def split: prod.splits sum.splits)
      qed
    qed
  qed
qed simp

text \<open>
  C26 (functional). Iterating a result set returns the rows of all pages in order, when no page
  before the last is empty; enough fuel is one more than the number of rows.
\<close>

theorem result_set_complete:
  assumes "page_chain pg None ps" "list_all readable ps" "\<forall>p\<in>set (butlast ps). pg_items p \<noteq> []"
    "length (page_rows ps) < n"
  shows "fst (rs_list n (page_source pg) (new_result_set c, d)) = Inr (page_rows ps)"
proof -
  obtain p qs where ps: "ps = p # qs" using assms(1) by (cases ps) auto
  then have p: "pg None = p" and rest: "rest_chain pg (pg_next_key p) qs"
    using assms(1) by (simp_all add: page_chain_Cons)
  obtain m where n: "n = Suc m" using assms(4) by (cases n) auto
  show ?thesis
  proof (cases "pg_items p = []")
    case True
    then have "qs = []" using assms(3) ps by (auto split: if_splits)
    moreover from this rest have "pg_next_key p = None" by (auto simp: rest_chain_def split: if_splits)
    ultimately show ?thesis using p True ps n
      by (simp add: new_result_set_def rs_dunder_next_def has_next_def rs_exhausted_def rs_fetch_def
          page_source_def bnd_def page_rows_def)
  next
    case False
    let ?r = "new_result_set c\<lparr>rs_items := Some (pg_items p), rs_next_key := pg_next_key p,
      rs_count := pg_count p, rs_counter := 0\<rparr>"
    have "rs_list n (page_source pg) (new_result_set c, d) = rs_list n (page_source pg) (?r, d)"
      using p False n
      by (simp add: new_result_set_def rs_dunder_next_def rs_next_def has_next_def rs_exhausted_def
          rs_fetch_def page_source_def bnd_def)
    moreover have "fst (rs_list n (page_source pg) (?r, d)) =
        Inr (map item_row (drop (rs_counter ?r) (pg_items p)) @ page_rows qs)"
      by (rule rs_list_rest)
         (use assms ps rest in \<open>auto simp: new_result_set_def readable_def page_rows_def split: if_splits\<close>)
    ultimately show ?thesis using ps by (simp add: page_rows_def)
  qed
qed

text \<open>
  A page without rows ends the iteration even when more pages follow: a filtered
  query whose first page matches nothing returns no rows at all, whatever the later pages hold.
\<close>

lemma result_set_stops_early:
  assumes "pg_items (pg None) = []" "pg_count (pg None) = Some 0"
  shows "fst (rs_list (Suc n) (page_source pg) (new_result_set c, d)) = Inr []"
  using assms by (simp add: new_result_set_def rs_dunder_next_def has_next_def rs_exhausted_def
      rs_fetch_def page_source_def bnd_def Let_def)

text \<open>
  A counting query (its pages carry a count and no rows) that needs two pages cannot be
  iterated: the first \<open>__next__\<close> raises \<open>No more\<close>, so \<open>count_returned\<close> is never read.
\<close>

lemma count_query_raises:
  assumes "pg_items (pg None) = []" "pg_count (pg None) = Some n" "0 < n"
    "pg_next_key (pg None) = Some k" "pg_items (pg (Some k)) = []" "pg_next_key (pg (Some k)) = None"
  shows "fst (rs_dunder_next (page_source pg) (new_result_set c, d)) = Inl (PlainException ''No more'')"
  using assms by (simp add: new_result_set_def rs_dunder_next_def rs_next_def has_next_def rs_exhausted_def
      rs_fetch_def page_source_def bnd_def Let_def)

text \<open>Two pages of one row each, and the same with their rows filtered out or only counted.\<close>

definition example_item :: ddb_item where
  "example_item = [(''sessionId'', Attr [SV ''s1''])]"

definition example_page :: "ddb_item list \<Rightarrow> int \<Rightarrow> ddb_item option \<Rightarrow> page" where
  "example_page is n k = \<lparr>pg_items = is, pg_next_key = k, pg_count = Some n\<rparr>"

definition example_pages :: "ddb_item list \<Rightarrow> int \<Rightarrow> ddb_item list \<Rightarrow> ddb_item option \<Rightarrow> page" where
  "example_pages first n second k = (case k of
     None \<Rightarrow> example_page first n (Some example_item) | Some _ \<Rightarrow> example_page second 1 None)"

lemmas example_page_defs = example_pages_def example_page_def example_item_def

lemma result_set_complete_witness:
  "fst (rs_list 3 (page_source (example_pages [example_item] 1 [example_item])) (new_result_set (), 0::nat)) =
   Inr (page_rows [example_page [example_item] 1 (Some example_item), example_page [example_item] 1 None])"
  by (rule result_set_complete)
     (simp_all add: example_page_defs readable_def from_ddb_item_def page_rows_def)

lemma result_set_stops_early_witness:
  "fst (rs_list 4 (page_source (example_pages [] 0 [example_item])) (new_result_set (), 0::nat)) = Inr []"
  using result_set_stops_early [of "example_pages [] 0 [example_item]" 3 "()" "0::nat"]
  by (simp add: example_pages_def example_page_def)

lemma count_query_raises_witness:
  "fst (rs_dunder_next (page_source (example_pages [] 7 [])) (new_result_set (), 0::nat)) =
   Inl (PlainException ''No more'')"
  by (rule count_query_raises [where n = 7 and k = example_item])
     (simp_all add: example_pages_def example_page_def)

end
