(* ===== verification/Ddb_Contract.thy ===== *)
theory Ddb_Contract
  imports Ddb_Client
begin

text \<open>
  The contract of the DynamoDB service the repositories rely on, as a locale: a state of the service
  has a view, the row stored at each address (a table and the values of its key attributes); consistent reads
  return the view, a write that succeeds had its conditions satisfied and has exactly its effect,
  a write that is rejected changes nothing, and a transaction is applied as a whole or not at all.
  Below it, what the methods of \<open>DynamoDb\<close> do to the view.
\<close>

type_synonym address = "string \<times> attr option list"
type_synonym ddb_view = "address \<Rightarrow> ddb_row option"

definition ws_addr :: "write_sem \<Rightarrow> address" where
  "ws_addr s = (ws_table s, ws_key s)"

definition sem_ok :: "ddb_view \<Rightarrow> write_sem \<Rightarrow> bool" where
  "sem_ok v s \<longleftrightarrow> list_all (\<lambda>a. sat a (row_map (v (ws_addr s)))) (ws_atoms s)"

definition sem_apply :: "write_sem \<Rightarrow> ddb_view \<Rightarrow> ddb_view" where
  "sem_apply s v = v(ws_addr s := ws_effect s (v (ws_addr s)))"

definition addr_of :: "(string \<Rightarrow> string list) \<Rightarrow> string \<Rightarrow> ddb_item \<Rightarrow> address" where
  "addr_of ka t k = (t, key_of ka t k)"

text \<open>An error that says the service refused the request.\<close>

definition rejected :: "aws_error \<Rightarrow> bool" where
  "rejected e \<longleftrightarrow> (case handle_exception e of
     PreconditionFailed \<Rightarrow> True | Throttling \<Rightarrow> True | TransactionCancelled _ \<Rightarrow> True
   | ResourceNotFound \<Rightarrow> True | DynamoDbValidation \<Rightarrow> True | _ \<Rightarrow> False)"

fun c_write :: "'d ddb_client \<Rightarrow> write_params \<Rightarrow> 'd \<Rightarrow> (aws_error + ddb_item option) \<times> 'd" where
  "c_write C (WPut p) d = c_put_item C p d"
| "c_write C (WUpdate p) d = (case c_update_item C p d of (r, d') \<Rightarrow>
     (case r of Inl e \<Rightarrow> Inl e | Inr _ \<Rightarrow> Inr None, d'))"
| "c_write C (WDelete p) d = c_delete_item C p d"

lemma c_write_put: "c_write C (WPut p) = c_put_item C p"
  and c_write_delete: "c_write C (WDelete q) = c_delete_item C q"
  by (rule ext, simp)+

locale dynamo =
  fixes C :: "'d ddb_client"
    and view :: "'d \<Rightarrow> ddb_view"
    and ka :: "string \<Rightarrow> string list"
    and kok :: "address \<Rightarrow> bool"
  assumes get_view: "\<And>p d r d'. c_get_item C p d = (r, d') \<Longrightarrow> view d' = view d"
    and get_row: "\<And>p d r d'. \<lbrakk>c_get_item C p d = (Inr r, d'); gp_consistent p; gp_attributes p = None;
      set (dkeys (gp_key p)) = set (ka (gp_table p)); kok (addr_of ka (gp_table p) (gp_key p))\<rbrakk>
      \<Longrightarrow> map_option (\<lambda>i a. dget a i) r = view d (addr_of ka (gp_table p) (gp_key p))"
    and view_keys: "\<And>d t k m. view d (t, k) = Some m \<Longrightarrow> kok (t, k) \<Longrightarrow> map m (ka t) = k \<and> None \<notin> set k"
    and write_ok: "\<And>w d r d' s. \<lbrakk>c_write C w d = (Inr r, d'); write_means ka w s; kok (ws_addr s)\<rbrakk>
      \<Longrightarrow> sem_ok (view d) s \<and> view d' = sem_apply s (view d)"
    and write_err: "\<And>w d e d' s. \<lbrakk>c_write C w d = (Inl e, d'); write_means ka w s; kok (ws_addr s)\<rbrakk>
      \<Longrightarrow> (view d' = view d \<or> \<not> rejected e \<and> sem_ok (view d) s \<and> view d' = sem_apply s (view d)) \<and>
          (handle_exception e = PreconditionFailed \<longrightarrow> \<not> sem_ok (view d) s)"
    and delete_old: "\<And>p d r d' s. \<lbrakk>c_delete_item C p d = (Inr r, d'); dp_return_old p; write_means ka (WDelete p) s;
      kok (ws_addr s)\<rbrakk> \<Longrightarrow> r \<noteq> None \<longleftrightarrow> view d (ws_addr s) \<noteq> None"
    and transact_ok: "\<And>ws d r d' ss. \<lbrakk>c_transact_write_items C ws d = (Inr r, d'); list_all2 (write_means ka) ws ss;
      list_all (kok \<circ> ws_addr) ss; distinct (map ws_addr ss)\<rbrakk>
      \<Longrightarrow> list_all (sem_ok (view d)) ss \<and> view d' = fold sem_apply ss (view d)"
    and transact_err: "\<And>ws d e d' ss. \<lbrakk>c_transact_write_items C ws d = (Inl e, d'); list_all2 (write_means ka) ws ss;
      list_all (kok \<circ> ws_addr) ss; distinct (map ws_addr ss)\<rbrakk>
      \<Longrightarrow> view d' = view d \<or> \<not> rejected e \<and> list_all (sem_ok (view d)) ss \<and>
          view d' = fold sem_apply ss (view d)"
    and transact_reasons: "\<And>ws d e d' ss rs. \<lbrakk>c_transact_write_items C ws d = (Inl e, d'); list_all2 (write_means ka) ws ss;
      list_all (kok \<circ> ws_addr) ss; distinct (map ws_addr ss);
      handle_exception e = TransactionCancelled rs\<rbrakk>
      \<Longrightarrow> length rs = length ws \<and> (\<exists>r\<in>set rs. cr_code r \<noteq> None) \<and>
          (\<forall>i<length rs. cr_code (rs ! i) = Some ''ConditionalCheckFailed'' \<longrightarrow> \<not> sem_ok (view d) (ss ! i))"

text \<open>A service on which nothing conflicts: a transaction is only cancelled for a false condition.\<close>

locale calm_dynamo = dynamo +
  assumes cancelled_false: "\<And>ws d e d' ss rs i. \<lbrakk>c_transact_write_items C ws d = (Inl e, d'); list_all2 (write_means ka) ws ss;
      list_all (kok \<circ> ws_addr) ss; distinct (map ws_addr ss);
      handle_exception e = TransactionCancelled rs; i < length rs; cr_code (rs ! i) \<noteq> None\<rbrakk>
      \<Longrightarrow> cr_code (rs ! i) = Some ''ConditionalCheckFailed''"

section \<open>Throttled calls\<close>

lemma handle_throttling_last:
  assumes "handle_throttling n f d = (r, d')" "Q d"
    "\<And>d e d'. Q d \<Longrightarrow> f d = (Inl e, d') \<Longrightarrow> handle_exception e = Throttling \<Longrightarrow> Q d'"
  shows "r = Inl OutOfFuel \<and> Q d' \<or> (\<exists>d0. Q d0 \<and> (case r of
     Inr x \<Rightarrow> f d0 = (Inr x, d')
   | Inl ex \<Rightarrow> (\<exists>e. f d0 = (Inl e, d') \<and> handle_exception e = ex \<and> ex \<noteq> Throttling)))"
  using assms
proof (induction n f d rule: handle_throttling.induct)
  case (2 n f d)
  note step = 2(4)
  show ?case
  proof (cases "f d")
    case (Pair x d1)
    show ?thesis
    proof (cases x)
      case (Inr a)
      then show ?thesis using 2(2,3) Pair by auto
    next
      case (Inl e)
      show ?thesis
      proof (cases "handle_exception e = Throttling")
        case True
        have q: "Q d1" using step [OF 2(3), of e d1] Pair Inl True by simp
        have h: "handle_throttling n f d1 = (r, d')" using 2(2) Pair Inl True by simp
        show ?thesis by (rule 2(1) [OF Pair [symmetric] Inl True h q]) (rule step)
      next
        case False
        then show ?thesis using 2(2,3) Pair Inl by auto
      qed
    qed
  qed
qed simp

text \<open>Attempts that end are attempts that were not throttled: enough fuel gives the answer.\<close>

fun throttled :: "nat \<Rightarrow> ('d \<Rightarrow> (aws_error + 'a) \<times> 'd) \<Rightarrow> 'd \<Rightarrow> bool" where
  "throttled 0 f d = True"
| "throttled (Suc n) f d = (case f d of
     (Inl e, d') \<Rightarrow> handle_exception e = Throttling \<and> throttled n f d' | _ \<Rightarrow> False)"

lemma is_exception_code: "is_exception e s c \<Longrightarrow> ae_response e \<noteq> None"
  by (auto simp: is_exception_def split: option.splits)

lemma handle_client_error_not_fuel [simp]: "handle_client_error e \<noteq> OutOfFuel"
  by (auto simp: handle_client_error_def split: option.splits)

lemma handle_exception_not_fuel [simp]: "handle_exception e \<noteq> OutOfFuel"
  by (simp add: handle_exception_def)


section \<open>The methods of \<open>DynamoDb\<close> under the contract\<close>

lemma to_map_err: "to_attribute_value v = Inl e \<Longrightarrow> \<exists>t. e = PlainException t"
    "to_attr_list l = Inl e \<Longrightarrow> \<exists>t. e = PlainException t"
    "to_attribute_value_map d = Inl e \<Longrightarrow> \<exists>t. e = PlainException t"
  by (induction v and l and d rule: to_attribute_value_to_attr_list_to_attribute_value_map.induct)
     (auto simp: rbind_def split: sum.splits)

lemma to_ddb_item_err: "to_ddb_item r = Inl e \<Longrightarrow> \<exists>t. e = PlainException t"
  by (simp add: to_ddb_item_def to_map_err)

lemma cond_expr_err: "cond_expr c = Inl e \<Longrightarrow> \<exists>t. e = PlainException t"
  by (auto simp: cond_expr_def process_condition_def rbind_def
      split: option.splits condition.splits sum.splits prod.splits dest: to_ddb_item_err)

text \<open>What \<open>update_item\<close>, \<open>put_item\<close> and \<open>delete_item\<close> ask of the store.\<close>

definition update_item_sem ::
  "(string \<Rightarrow> string list) \<Rightarrow> string \<Rightarrow> row \<Rightarrow> row \<Rightarrow> condition option \<Rightarrow> write_sem" where
  "update_item_sem ka table keys item cond = \<lparr>ws_table = table, ws_key = key_of ka table (item_of keys),
     ws_atoms = atoms_of (item_of (cond_row cond)) @ map HasAttr (dkeys keys),
     ws_effect = update_effect (item_of keys) (set_list (dkeys keys) (item_of item))\<rparr>"

definition put_item_sem :: "(string \<Rightarrow> string list) \<Rightarrow> string \<Rightarrow> row \<Rightarrow> string list option \<Rightarrow> write_sem" where
  "put_item_sem ka table item katts = \<lparr>ws_table = table, ws_key = key_of ka table (item_of item),
     ws_atoms = (case katts of None \<Rightarrow> [] | Some as \<Rightarrow> map NoAttr as), ws_effect = put_effect (item_of item)\<rparr>"

definition delete_item_sem :: "(string \<Rightarrow> string list) \<Rightarrow> string \<Rightarrow> row \<Rightarrow> condition option \<Rightarrow> write_sem" where
  "delete_item_sem ka table keys cond = \<lparr>ws_table = table, ws_key = key_of ka table (item_of keys),
     ws_atoms = atoms_of (item_of (cond_row cond)), ws_effect = (\<lambda>_. None)\<rparr>"

definition keys_ok :: "(string \<Rightarrow> string list) \<Rightarrow> string \<Rightarrow> row \<Rightarrow> bool" where
  "keys_ok ka table keys \<longleftrightarrow> ident_row keys \<and> set (dkeys keys) = set (ka table) \<and> ka table \<noteq> []"

definition item_ok_for :: "row \<Rightarrow> row \<Rightarrow> bool" where
  "item_ok_for keys item \<longleftrightarrow> ident_row item \<and> \<not> set (dkeys item) \<subseteq> set (dkeys keys)"

definition put_ok :: "(string \<Rightarrow> string list) \<Rightarrow> string \<Rightarrow> row \<Rightarrow> string list option \<Rightarrow> bool" where
  "put_ok ka table item katts \<longleftrightarrow> distinct (dkeys item) \<and> list_all ident (ka table) \<and> ka table \<noteq> [] \<and>
     set (ka table) \<subseteq> set (dkeys item) \<and> (katts = None \<or> katts = Some (ka table))"

lemma update_item_means:
  assumes "to_ddb_item item = Inr ii" "to_ddb_item keys = Inr ki" "cond_expr cond = Inr e"
    "update_expression_loop (dkeys keys) ii None [] 1 = (upd, vals)"
    "cond_plain cond" "keys_ok ka table keys" "item_ok_for keys item"
  shows "write_means ka (WUpdate \<lparr>up_table = table, up_key = ki, up_update = upd,
      up_expr = merge_attributes (merge_key_condition (dkeys keys) e) vals\<rparr>)
    (update_item_sem ka table keys item cond)"
proof -
  obtain ci where c: "to_ddb_item (cond_row cond) = Inr ci" "expr_inv {''c''} e (atoms_of ci)"
    using cond_expr_inv [OF assms(3,5)] by blast
  note dk = dkeys_to_ddb_item [OF assms(1)] dkeys_to_ddb_item [OF assms(2)]
  have ne: "dkeys keys \<noteq> []" using assms(6) by (auto simp: keys_ok_def)
  have inv: "expr_inv {''c''} (merge_key_condition (dkeys keys) e) (atoms_of ci @ map HasAttr (dkeys keys))"
    by (rule merge_key_condition_expr [OF c(2) _ ne]) (use assms(6) in \<open>simp add: keys_ok_def ident_row_def\<close>)
  have sl: "set_list (dkeys keys) ii \<noteq> []"
    using assms(7) dk(1) by (simp add: item_ok_for_def set_list_empty)
  have "distinct (dkeys ii)" "list_all ident (dkeys ii)"
    using assms(7) dk(1) by (simp_all add: item_ok_for_def ident_row_def)
  note m = update_merge_means [OF inv _ assms(4) sl this]
  have "set (map fst (set_list (dkeys keys) ii)) \<inter> set (dkeys ki) = {}"
    using set_list_disjoint dk(2) by metis
  with m assms(6) show ?thesis
    by (auto simp: update_item_sem_def assms(1,2) c(1) dk(2) keys_ok_def ident_row_def)
qed

lemma put_item_means:
  assumes "to_ddb_item item = Inr ii" "put_expr katts None = Inr e" "put_ok ka table item katts"
  shows "write_means ka (WPut \<lparr>pp_table = table, pp_item = ii, pp_expr = e, pp_return_old = b\<rparr>)
    (put_item_sem ka table item katts)"
proof -
  have "list_all ident (case katts of None \<Rightarrow> [] | Some l \<Rightarrow> l)"
    using assms(3) by (auto simp: put_ok_def)
  from put_expr_means [OF assms(2) this] show ?thesis
    using assms(3) dkeys_to_ddb_item [OF assms(1)] key_of_not_None [of ka table ii]
    by (auto simp: put_item_sem_def assms(1) put_ok_def)
qed

lemma delete_item_means:
  assumes "to_ddb_item keys = Inr ki" "cond_expr cond = Inr e" "cond_plain cond" "keys_ok ka table keys"
  shows "write_means ka (WDelete \<lparr>dp_table = table, dp_key = ki, dp_expr = e, dp_return_old = b\<rparr>)
    (delete_item_sem ka table keys cond)"
proof -
  obtain ci where c: "to_ddb_item (cond_row cond) = Inr ci" "expr_inv {''c''} e (atoms_of ci)"
    using cond_expr_inv [OF assms(2,3)] by blast
  from expr_inv_means [OF c(2)] show ?thesis
    using assms(4) dkeys_to_ddb_item [OF assms(1)] no_NoAttr
    by (auto simp: delete_item_sem_def assms(1) c(1) keys_ok_def ident_row_def)
qed

lemma handle_exception_not_pk [simp]: "handle_exception e \<noteq> PrimaryKeyViolation"
  by (auto simp: handle_exception_def handle_client_error_def split: option.splits)

lemma to_ddb_request_err:
  "to_ddb_request q = Inl e \<Longrightarrow> (\<exists>t. e = PlainException t) \<or> e = AssertionError"
proof (cases q)
  case (PutItem r)
  moreover assume "to_ddb_request q = Inl e"
  ultimately show ?thesis using to_ddb_item_err
    by (auto simp: put_to_ddb_request_def rbind_def put_expr_def process_condition_def
        split: sum.splits option.splits list.splits if_splits condition.splits prod.splits)
next
  case (UpdateItem r)
  moreover assume "to_ddb_request q = Inl e"
  ultimately show ?thesis using to_ddb_item_err
    by (auto simp: update_to_ddb_request_def rbind_def process_condition_def
        split: sum.splits option.splits condition.splits prod.splits)
next
  case (DeleteItem r)
  moreover assume "to_ddb_request q = Inl e"
  ultimately show ?thesis using to_ddb_item_err
    by (auto simp: delete_to_ddb_request_def rbind_def process_condition_def
        split: sum.splits option.splits condition.splits prod.splits)
qed

lemma map_res_not_cancelled: "map_res to_ddb_request qs = Inl e \<Longrightarrow> e \<noteq> TransactionCancelled rs"
  by (induction qs) (auto simp: rbind_def split: sum.splits dest!: to_ddb_request_err)

lemma put_expr_None: "\<exists>e. put_expr katts None = Inr e"
  by (auto simp: put_expr_def split: option.splits list.splits)

text \<open>The outcome of a write that means \<open>s\<close>, \<open>failed\<close> being the exception for a false condition.\<close>

definition write_outcome :: "exn \<Rightarrow> write_sem \<Rightarrow> ddb_view \<Rightarrow> exn + 'a \<Rightarrow> ddb_view \<Rightarrow> bool" where
  "write_outcome failed s v r v' \<longleftrightarrow> (case r of
      Inr _ \<Rightarrow> sem_ok v s \<and> v' = sem_apply s v
    | Inl ex \<Rightarrow> (v' = v \<or> ex \<noteq> failed \<and> sem_ok v s \<and> v' = sem_apply s v) \<and> (ex = failed \<longrightarrow> \<not> sem_ok v s))"

lemma write_outcome_map [simp]:
  "write_outcome x s v (map_sum id f r) v' = write_outcome x s v r v'"
  by (cases r) (simp_all add: write_outcome_def)

lemma write_outcome_unchanged: "ex \<noteq> failed \<Longrightarrow> write_outcome failed s v (Inl ex) v"
  by (simp add: write_outcome_def)

section \<open>The methods of \<open>DynamoDb\<close> under the contract\<close>

context dynamo
begin

lemma row_has_key:
  "view d a = Some m \<Longrightarrow> kok a \<Longrightarrow> n \<in> set (ka (fst a)) \<Longrightarrow> m n \<noteq> None"
  using view_keys [of d "fst a" "snd a" m] by (metis image_eqI list.set_map prod.collapse)

lemma no_row: "kok a \<Longrightarrow> ka (fst a) \<noteq> [] \<Longrightarrow>
    list_all (\<lambda>x. sat x (row_map (view d a))) (map NoAttr (ka (fst a))) \<longleftrightarrow> view d a = None"
proof (cases "view d a")
  case (Some m)
  moreover assume "kok a" "ka (fst a) \<noteq> []"
  ultimately show ?thesis using row_has_key [of d a m "hd (ka (fst a))"]
    by (cases "ka (fst a)") (auto simp: row_map_def)
qed (auto simp: list_all_iff row_map_def)

lemma has_row: "kok a \<Longrightarrow> set ks = set (ka (fst a)) \<Longrightarrow> ka (fst a) \<noteq> [] \<Longrightarrow>
    list_all (\<lambda>x. sat x (row_map (view d a))) (map HasAttr ks) \<longleftrightarrow> view d a \<noteq> None"
proof (cases "view d a")
  case (Some m)
  moreover assume "kok a" "set ks = set (ka (fst a))"
  ultimately show ?thesis using row_has_key [of d a m] by (auto simp: list_all_iff row_map_def)
qed (auto simp: list_all_iff row_map_def)

lemma execute_write:
  assumes "execute_and_wrap C (c_write C w) d = (r, d')" "write_means ka w s" "kok (ws_addr s)"
  shows "write_outcome PreconditionFailed s (view d) r (view d')"
proof -
  have "r = Inl OutOfFuel \<and> view d' = view d \<or> (\<exists>d0. view d0 = view d \<and> (case r of
      Inr x \<Rightarrow> c_write C w d0 = (Inr x, d')
    | Inl ex \<Rightarrow> (\<exists>e. c_write C w d0 = (Inl e, d') \<and> handle_exception e = ex \<and> ex \<noteq> Throttling)))"
  proof (rule handle_throttling_last [OF assms(1) [unfolded execute_and_wrap_def]])
    show "view d = view d" ..
    fix d1 e d2
    assume "view d1 = view d" "c_write C w d1 = (Inl e, d2)" "handle_exception e = Throttling"
    then show "view d2 = view d" using write_err [OF _ assms(2,3)] by (fastforce simp: rejected_def)
  qed
  then show ?thesis
  proof (elim disjE exE conjE)
    fix d0
    assume v: "view d0 = view d" and r: "case r of Inr x \<Rightarrow> c_write C w d0 = (Inr x, d')
      | Inl ex \<Rightarrow> \<exists>e. c_write C w d0 = (Inl e, d') \<and> handle_exception e = ex \<and> ex \<noteq> Throttling"
    show ?thesis
    proof (cases r)
      case (Inr x)
      then show ?thesis using write_ok [OF _ assms(2,3)] r v by (fastforce simp: write_outcome_def)
    next
      case (Inl ex)
      then obtain e where e: "c_write C w d0 = (Inl e, d')" "handle_exception e = ex" using r by auto
      from write_err [OF e(1) assms(2,3)] show ?thesis using e(2) v Inl
        by (auto simp: rejected_def write_outcome_def)
    qed
  qed (simp add: write_outcome_def)
qed

lemma execute_get:
  assumes "execute_and_wrap C (c_get_item C p) d = (r, d')"
  shows "view d' = view d"
    and "\<lbrakk>r = Inr x; gp_consistent p; gp_attributes p = None; set (dkeys (gp_key p)) = set (ka (gp_table p));
      kok (addr_of ka (gp_table p) (gp_key p))\<rbrakk>
      \<Longrightarrow> map_option (\<lambda>i a. dget a i) x = view d (addr_of ka (gp_table p) (gp_key p))"
proof -
  have c: "r = Inl OutOfFuel \<and> view d' = view d \<or> (\<exists>d0. view d0 = view d \<and> (case r of
      Inr x \<Rightarrow> c_get_item C p d0 = (Inr x, d')
    | Inl ex \<Rightarrow> (\<exists>e. c_get_item C p d0 = (Inl e, d') \<and> handle_exception e = ex \<and> ex \<noteq> Throttling)))"
    by (rule handle_throttling_last [OF assms(1) [unfolded execute_and_wrap_def]])
       (auto dest: get_view)
  have u: "view d' = view d" if "view d0 = view d" "c_get_item C p d0 = (r0, d')" for d0 r0
    using get_view [OF that(2)] that(1) by simp
  show "view d' = view d"
  proof (cases r)
    case (Inl ex)
    with c have "view d' = view d \<or> (\<exists>d0 e. view d0 = view d \<and> c_get_item C p d0 = (Inl e, d'))"
      by auto
    with u show ?thesis by blast
  next
    case (Inr x)
    with c have "\<exists>d0. view d0 = view d \<and> c_get_item C p d0 = (Inr x, d')" by auto
    with u show ?thesis by blast
  qed
  show "\<lbrakk>r = Inr x; gp_consistent p; gp_attributes p = None; set (dkeys (gp_key p)) = set (ka (gp_table p));
      kok (addr_of ka (gp_table p) (gp_key p))\<rbrakk>
      \<Longrightarrow> map_option (\<lambda>i a. dget a i) x = view d (addr_of ka (gp_table p) (gp_key p))"
    using c get_row [of p _ x d'] by auto
qed

lemma update_item_spec:
  assumes "update_item C table keys item cond d = (r, d')" "cond_plain cond" "keys_ok ka table keys"
    "item_ok_for keys item" "kok (ws_addr (update_item_sem ka table keys item cond))"
  shows "write_outcome PreconditionFailed (update_item_sem ka table keys item cond) (view d) r (view d')"
proof (cases "to_ddb_item item")
  case (Inl ex)
  then show ?thesis using assms(1) to_ddb_item_err [OF Inl]
    by (auto simp: update_item_def bnd_def write_outcome_def)
next
  case ii: (Inr ii)
  obtain upd vals where u: "update_expression_loop (dkeys keys) ii None [] 1 = (upd, vals)" by fastforce
  show ?thesis
  proof (cases "to_ddb_item keys")
    case (Inl ex)
    then show ?thesis using assms(1) to_ddb_item_err [OF Inl] ii u
      by (auto simp: update_item_def bnd_def write_outcome_def)
  next
    case ki: (Inr ki)
    show ?thesis
    proof (cases "cond_expr cond")
      case (Inl ex)
      then show ?thesis using assms(1) cond_expr_err [OF Inl] ii u ki
        by (auto simp: update_item_def bnd_def write_outcome_def)
    next
      case e: (Inr e)
      let ?w = "WUpdate \<lparr>up_table = table, up_key = ki, up_update = upd,
        up_expr = merge_attributes (merge_key_condition (dkeys keys) e) vals\<rparr>"
      note m = update_item_means [OF ii ki e u assms(2-4)]
      have "execute_and_wrap C (c_write C ?w) d = (map_sum id (\<lambda>_. None) r, d')"
      proof -
        have "handle_throttling n (c_write C ?w) d0 = (case handle_throttling n (c_update_item C (case ?w of WUpdate p \<Rightarrow> p)) d0 of
          (x, d1) \<Rightarrow> (map_sum id (\<lambda>_. None) x, d1))" for n d0
          by (induction n "c_write C ?w" d0 rule: handle_throttling.induct)
             (auto split: prod.splits sum.splits)
        then show ?thesis using assms(1) ii ki e u by (simp add: update_item_def execute_and_wrap_def)
      qed
      from execute_write [OF this m assms(5)] show ?thesis
        by (cases r) (simp_all add: write_outcome_def)
    qed
  qed
qed

lemma put_item_spec:
  assumes "put_item C table item katts None ro d = (r, d')" "put_ok ka table item katts"
    "kok (ws_addr (put_item_sem ka table item katts))"
  shows "write_outcome PrimaryKeyViolation (put_item_sem ka table item katts) (view d) r (view d')"
proof (cases "to_ddb_item item")
  case (Inl ex)
  then show ?thesis using assms(1) to_ddb_item_err [OF Inl]
    by (auto simp: put_item_def bnd_def write_outcome_def)
next
  case ii: (Inr ii)
  obtain e where e: "put_expr katts None = Inr e" using put_expr_None by blast
  let ?w = "WPut \<lparr>pp_table = table, pp_item = ii, pp_expr = e, pp_return_old = ro\<rparr>"
  obtain x d1 where x: "execute_and_wrap C (c_write C ?w) d = (x, d1)" by fastforce
  note o = execute_write [OF x put_item_means [OF ii e assms(2)] assms(3)]
  have r: "d' = d1" "r = (case x of Inl ex \<Rightarrow> Inl (if ex = PreconditionFailed then PrimaryKeyViolation else ex) | Inr y \<Rightarrow> Inr y)"
    using assms(1) x ii e
    by (auto simp: put_item_def catch_def c_write_put split: sum.splits if_splits)
  have "x \<noteq> Inl PrimaryKeyViolation"
  proof
    assume "x = Inl PrimaryKeyViolation"
    then have "handle_throttling (c_fuel C) (c_write C ?w) d = (Inl PrimaryKeyViolation, d1)"
      using x by (simp add: execute_and_wrap_def)
    from handle_throttling_last [OF this, of "\<lambda>_. True"] show False
      using handle_exception_not_pk by auto
  qed
  with o r show ?thesis by (auto simp: write_outcome_def split: sum.splits if_splits)
qed

lemma delete_item_spec:
  assumes "delete_item C table keys cond d = (r, d')" "cond_plain cond" "keys_ok ka table keys"
    "kok (ws_addr (delete_item_sem ka table keys cond))"
  shows "write_outcome PreconditionFailed (delete_item_sem ka table keys cond) (view d) r (view d')"
    and "r = Inr b \<Longrightarrow> b \<longleftrightarrow> view d (ws_addr (delete_item_sem ka table keys cond)) \<noteq> None"
proof -
  let ?s = "delete_item_sem ka table keys cond"
  have "write_outcome PreconditionFailed ?s (view d) r (view d') \<and>
    (r = Inr b \<longrightarrow> (b \<longleftrightarrow> view d (ws_addr ?s) \<noteq> None))"
  proof (cases "to_ddb_item keys")
    case (Inl ex)
    then show ?thesis using assms(1) to_ddb_item_err [OF Inl]
      by (auto simp: delete_item_def bnd_def write_outcome_def)
  next
    case ki: (Inr ki)
    show ?thesis
    proof (cases "cond_expr cond")
      case (Inl ex)
      then show ?thesis using assms(1) cond_expr_err [OF Inl] ki
        by (auto simp: delete_item_def bnd_def write_outcome_def)
    next
      case e: (Inr e)
      let ?p = "\<lparr>dp_table = table, dp_key = ki, dp_expr = e, dp_return_old = True\<rparr>"
      note m = delete_item_means [OF ki e assms(2,3), of True]
      obtain x where x: "execute_and_wrap C (c_write C (WDelete ?p)) d = (x, d')"
        "r = map_sum id (\<lambda>old. old \<noteq> None) x"
        using assms(1) ki e
        by (cases "execute_and_wrap C (c_delete_item C ?p) d")
           (auto simp: delete_item_def bnd_def c_write_delete split: sum.splits)
      have o: "write_outcome PreconditionFailed ?s (view d) x (view d')"
        by (rule execute_write [OF x(1) m assms(4)])
      have "b \<longleftrightarrow> view d (ws_addr ?s) \<noteq> None" if rb: "r = Inr b"
      proof -
        obtain y where y: "x = Inr y" "b \<longleftrightarrow> y \<noteq> None" using x(2) rb by (cases x) auto
        have "x = Inl OutOfFuel \<and> view d' = view d \<or> (\<exists>d0. view d0 = view d \<and> (case x of
            Inr x \<Rightarrow> c_write C (WDelete ?p) d0 = (Inr x, d')
          | Inl ex \<Rightarrow> (\<exists>e. c_write C (WDelete ?p) d0 = (Inl e, d') \<and> handle_exception e = ex \<and> ex \<noteq> Throttling)))"
        proof (rule handle_throttling_last [OF x(1) [unfolded execute_and_wrap_def]])
          show "view d = view d" ..
          fix d1 e d2
          assume "view d1 = view d" "c_write C (WDelete ?p) d1 = (Inl e, d2)" "handle_exception e = Throttling"
          then show "view d2 = view d" using write_err [OF _ m assms(4)] by (fastforce simp: rejected_def)
        qed
        then obtain d0 where "view d0 = view d" "c_delete_item C ?p d0 = (Inr y, d')" using y by auto
        from delete_old [OF this(2) _ m assms(4)] this(1) show ?thesis using y by simp
      qed
      with o x(2) show ?thesis by (cases x) (auto simp: write_outcome_def)
    qed
  qed
  then show "write_outcome PreconditionFailed ?s (view d) r (view d')"
    "r = Inr b \<Longrightarrow> b \<longleftrightarrow> view d (ws_addr ?s) \<noteq> None" by auto
qed

lemma get_item_spec:
  assumes "get_item C table keys consistent None d = (r, d')" "keys_ok ka table keys"
    "kok (addr_of ka table (item_of keys))"
  shows "view d' = view d"
    and "r = Inr row \<Longrightarrow> consistent \<Longrightarrow> \<exists>i. from_ddb_item i = Inr row \<and>
      view d (addr_of ka table (item_of keys)) = Some (\<lambda>a. dget a i)"
proof -
  let ?a = "addr_of ka table (item_of keys)"
  have "view d' = view d \<and>
    (r = Inr row \<longrightarrow> consistent \<longrightarrow> (\<exists>i. from_ddb_item i = Inr row \<and> view d ?a = Some (\<lambda>a. dget a i)))"
  proof (cases "to_ddb_item keys")
    case (Inl ex)
    then show ?thesis using assms(1) by (auto simp: get_item_def)
  next
    case ki: (Inr ki)
    let ?p = "\<lparr>gp_table = table, gp_key = ki, gp_attributes = None, gp_consistent = consistent\<rparr>"
    obtain x d1 where x: "execute_and_wrap C (c_get_item C ?p) d = (x, d1)" by fastforce
    note g = execute_get [OF x]
    have k: "set (dkeys ki) = set (ka table)"
      using assms(2) dkeys_to_ddb_item [OF ki] by (simp add: keys_ok_def)
    show ?thesis
    proof (cases x)
      case (Inl ex)
      then have "r = Inl ex" "d' = d1" using assms(1) x ki by (simp_all add: get_item_def bnd_def)
      then show ?thesis using g(1) by simp
    next
      case (Inr old)
      then have v: "consistent \<Longrightarrow> map_option (\<lambda>i a. dget a i) old = view d ?a"
        using g(2) [OF Inr] k assms(3) ki by simp
      have "d' = d1" "r = (case old of None \<Rightarrow> Inl ResourceNotFound | Some i \<Rightarrow> from_ddb_item i)"
        using assms(1) x ki Inr by (auto simp: get_item_def bnd_def split: option.splits)
      then show ?thesis using g(1) v by (auto split: option.splits)
    qed
  qed
  then show "view d' = view d"
    "r = Inr row \<Longrightarrow> consistent \<Longrightarrow> \<exists>i. from_ddb_item i = Inr row \<and> view d ?a = Some (\<lambda>a. dget a i)" by auto
qed

lemma find_item_spec:
  assumes "find_item C table keys consistent None d = (r, d')" "keys_ok ka table keys"
    "kok (addr_of ka table (item_of keys))"
  shows "view d' = view d"
    and "r = Inr (Some row) \<Longrightarrow> consistent \<Longrightarrow> \<exists>i. from_ddb_item i = Inr row \<and>
      view d (addr_of ka table (item_of keys)) = Some (\<lambda>a. dget a i)"
proof -
  obtain x d1 where x: "get_item C table keys consistent None d = (x, d1)" by fastforce
  note g = get_item_spec [OF x assms(2,3)]
  have r: "d' = d1" "r = (case x of Inl e \<Rightarrow> (if e = ResourceNotFound then Inr None else Inl e) | Inr y \<Rightarrow> Inr (Some y))"
    using assms(1) x by (auto simp: find_item_def catch_def bnd_def split: sum.splits if_splits)
  show "view d' = view d" using g(1) r by simp
  show "r = Inr (Some row) \<Longrightarrow> consistent \<Longrightarrow> \<exists>i. from_ddb_item i = Inr row \<and>
      view d (addr_of ka table (item_of keys)) = Some (\<lambda>a. dget a i)"
    using g(2) r by (auto split: sum.splits if_splits)
qed

lemma map_res_means:
  "map_res to_ddb_request qs = Inr ws \<Longrightarrow> list_all (request_ok ka) qs \<Longrightarrow>
   list_all2 (write_means ka) ws (map (request_sem ka) qs)"
  by (induction qs arbitrary: ws) (auto simp: rbind_eq_Inr request_means)

lemma map_res_length: "map_res f xs = Inr ys \<Longrightarrow> length ys = length xs"
  by (induction xs arbitrary: ys) (auto simp: rbind_eq_Inr)

definition tx_ok :: "transaction_request list \<Rightarrow> bool" where
  "tx_ok qs \<longleftrightarrow> list_all (request_ok ka) qs \<and> list_all (\<lambda>q. kok (ws_addr (request_sem ka q))) qs \<and>
     distinct (map (\<lambda>q. ws_addr (request_sem ka q)) qs)"

text \<open>A transaction is applied as a whole or not at all.\<close>

lemma transact_write_spec:
  assumes "transact_write C qs d = (r, d')" "tx_ok qs"
  shows "case r of
      Inr _ \<Rightarrow> list_all (\<lambda>q. sem_ok (view d) (request_sem ka q)) qs \<and>
        view d' = fold sem_apply (map (request_sem ka) qs) (view d)
    | Inl ex \<Rightarrow> view d' = view d \<or>
        (\<forall>rs. ex \<noteq> TransactionCancelled rs) \<and>
        list_all (\<lambda>q. sem_ok (view d) (request_sem ka q)) qs \<and> view d' = fold sem_apply (map (request_sem ka) qs) (view d)"
    and "r = Inl (TransactionCancelled rs) \<Longrightarrow> length rs = length qs \<and> (\<exists>r\<in>set rs. cr_code r \<noteq> None) \<and>
      (\<forall>i<length rs. cr_code (rs ! i) = Some ''ConditionalCheckFailed'' \<longrightarrow>
         \<not> sem_ok (view d) (request_sem ka (qs ! i)))"
proof -
  let ?ss = "map (request_sem ka) qs"
  have "(case r of
      Inr _ \<Rightarrow> list_all (\<lambda>q. sem_ok (view d) (request_sem ka q)) qs \<and> view d' = fold sem_apply ?ss (view d)
    | Inl ex \<Rightarrow> view d' = view d \<or>
        (\<forall>rs. ex \<noteq> TransactionCancelled rs) \<and>
        list_all (\<lambda>q. sem_ok (view d) (request_sem ka q)) qs \<and> view d' = fold sem_apply ?ss (view d)) \<and>
    (r = Inl (TransactionCancelled rs) \<longrightarrow> length rs = length qs \<and> (\<exists>r\<in>set rs. cr_code r \<noteq> None) \<and>
      (\<forall>i<length rs. cr_code (rs ! i) = Some ''ConditionalCheckFailed'' \<longrightarrow>
         \<not> sem_ok (view d) (request_sem ka (qs ! i))))"
  proof (cases "map_res to_ddb_request qs")
    case (Inl ex)
    then have "r = Inl ex" "d' = d" using assms(1) by (simp_all add: transact_write_def)
    moreover have "ex \<noteq> TransactionCancelled rs" using map_res_not_cancelled [OF Inl] by simp
    ultimately show ?thesis by simp
  next
    case ws: (Inr ws)
    then have x: "handle_throttling (c_fuel C) (c_transact_write_items C ws) d = (r, d')"
      using assms(1) by (simp add: transact_write_def execute_and_wrap_def)
    have m: "list_all2 (write_means ka) ws ?ss" using map_res_means [OF ws] assms(2) by (simp add: tx_ok_def)
    have k: "list_all (kok \<circ> ws_addr) ?ss" "distinct (map ws_addr ?ss)"
      using assms(2) by (auto simp: tx_ok_def list_all_iff o_def)
    have "r = Inl OutOfFuel \<and> view d' = view d \<or> (\<exists>d0. view d0 = view d \<and> (case r of
        Inr x \<Rightarrow> c_transact_write_items C ws d0 = (Inr x, d')
      | Inl ex \<Rightarrow> (\<exists>e. c_transact_write_items C ws d0 = (Inl e, d') \<and> handle_exception e = ex \<and> ex \<noteq> Throttling)))"
    proof (rule handle_throttling_last [OF x])
      show "view d = view d" ..
      fix d1 e d2
      assume "view d1 = view d" "c_transact_write_items C ws d1 = (Inl e, d2)" "handle_exception e = Throttling"
      then show "view d2 = view d" using transact_err [OF _ m k] by (fastforce simp: rejected_def)
    qed
    then show ?thesis
    proof (elim disjE exE conjE)
      fix d0
      assume v: "view d0 = view d" and r: "case r of Inr x \<Rightarrow> c_transact_write_items C ws d0 = (Inr x, d')
        | Inl ex \<Rightarrow> \<exists>e. c_transact_write_items C ws d0 = (Inl e, d') \<and> handle_exception e = ex \<and> ex \<noteq> Throttling"
      show ?thesis
      proof (cases r)
        case (Inr y)
        then have "c_transact_write_items C ws d0 = (Inr y, d')" using r by simp
        from transact_ok [OF this m k] show ?thesis using v Inr by (simp add: list_all_iff)
      next
        case (Inl ex)
        then obtain e where e: "c_transact_write_items C ws d0 = (Inl e, d')" "handle_exception e = ex"
          using r by auto
        show ?thesis
        proof (cases "ex = TransactionCancelled rs")
          case True
          then show ?thesis
            using transact_err [OF e(1) m k] transact_reasons [OF e(1) m k, of rs] e(2) v Inl
              map_res_length [OF ws] by (auto simp: rejected_def)
        next
          case False
          then show ?thesis using transact_err [OF e(1) m k] e(2) v Inl
            by (auto simp: rejected_def list_all_iff split: exn.splits)
        qed
      qed
    qed simp
  qed
  then show "case r of
      Inr _ \<Rightarrow> list_all (\<lambda>q. sem_ok (view d) (request_sem ka q)) qs \<and> view d' = fold sem_apply ?ss (view d)
    | Inl ex \<Rightarrow> view d' = view d \<or>
        (\<forall>rs. ex \<noteq> TransactionCancelled rs) \<and>
        list_all (\<lambda>q. sem_ok (view d) (request_sem ka q)) qs \<and> view d' = fold sem_apply ?ss (view d)"
    "r = Inl (TransactionCancelled rs) \<Longrightarrow> length rs = length qs \<and> (\<exists>r\<in>set rs. cr_code r \<noteq> None) \<and>
      (\<forall>i<length rs. cr_code (rs ! i) = Some ''ConditionalCheckFailed'' \<longrightarrow>
         \<not> sem_ok (view d) (request_sem ka (qs ! i)))" by auto
qed

end

end
