(* ===== verification/World.thy ===== *)
theory World
  imports Ddb_Contract
begin

text \<open>
  The world the repositories run in, and the functions of \<open>utils/date_utils.py\<close>. Beside the state
  of the DynamoDB service the world has a clock, whose readings in milliseconds are given by their
  number, a source of UUIDs, and the list of calls made to other services. A world is a parameter
  of every property: nothing is assumed of the clock but what a property says.
\<close>

datatype out_event = OutEvent string "pyval list"

record 'd world =
  w_db :: 'd
  w_clock :: "nat \<Rightarrow> int"
  w_ticks :: nat
  w_uuid :: "nat \<Rightarrow> string"
  w_uuids :: nat
  w_out :: "out_event list"

type_synonym ('d, 'a) io = "('d world, 'a) prog"

definition with_db :: "('d, 'a) prog \<Rightarrow> ('d, 'a) io" where
  "with_db p w = (case p (w_db w) of (r, d) \<Rightarrow> (r, w\<lparr>w_db := d\<rparr>))"

definition emit :: "out_event \<Rightarrow> ('d, unit) io" where
  "emit e w = (Inr (), w\<lparr>w_out := w_out w @ [e]\<rparr>)"

definition new_uuid :: "('d, string) io" where
  "new_uuid w = (Inr (w_uuid w (w_uuids w)), w\<lparr>w_uuids := Suc (w_uuids w)\<rparr>)"

section \<open>Time\<close>

definition get_system_time_in_millis :: "('d, int) io" where
  "get_system_time_in_millis w = (Inr (w_clock w (w_ticks w)), w\<lparr>w_ticks := Suc (w_ticks w)\<rparr>)"

definition get_system_time_in_seconds :: "('d, int) io" where
  "get_system_time_in_seconds = bnd get_system_time_in_millis (\<lambda>ms. ret (ms div 1000))"

definition round_to_next_minute :: "int \<Rightarrow> int" where
  "round_to_next_minute stamp = (stamp div 60) * 60 + (60 - stamp mod 60)"

definition seconds_left_in_minute :: "int \<Rightarrow> int" where
  "seconds_left_in_minute stamp = stamp mod 60"

definition epoch_seconds_after :: "int \<Rightarrow> int \<Rightarrow> bool \<Rightarrow> int" where
  "epoch_seconds_after current seconds round_to_minute =
     (let c = (current + 500) div 1000 + seconds
      in if round_to_minute then round_to_next_minute c else c)"

definition get_epoch_seconds_in_future :: "int \<Rightarrow> int option \<Rightarrow> bool \<Rightarrow> ('d, int) io" where
  "get_epoch_seconds_in_future seconds from_time round_to_minute =
     bnd (case from_time of None \<Rightarrow> get_system_time_in_millis | Some t \<Rightarrow> ret t)
       (\<lambda>current. ret (epoch_seconds_after current seconds round_to_minute))"

definition next_minute_time :: "int \<Rightarrow> int \<Rightarrow> int \<Rightarrow> int" where
  "next_minute_time now seconds_in_future flex_seconds =
     (let now_seconds = (now + 500) div 1000;
          left = 60 - now_seconds mod 60;
          seconds_in_future = seconds_in_future - left;
          now_seconds = now_seconds + left
      in if seconds_in_future \<le> 0 then now_seconds
         else let future_time = now_seconds + seconds_in_future;
                  diff = future_time - now_seconds;
                  seconds_left = diff mod 60;
                  minutes = diff div 60;
                  minutes = (if seconds_left > flex_seconds then minutes + 1 else minutes)
              in now_seconds + minutes * 60)"

definition determine_next_minute_time :: "int \<Rightarrow> int option \<Rightarrow> int \<Rightarrow> ('d, int) io" where
  "determine_next_minute_time seconds_in_future from_time flex_seconds =
     bnd (case from_time of Some t \<Rightarrow> ret t | None \<Rightarrow> get_system_time_in_millis)
       (\<lambda>now. ret (next_minute_time now seconds_in_future flex_seconds))"

text \<open>Differences of two times given in milliseconds; \<open>int\<close> cuts towards zero.\<close>

definition get_difference_in_seconds :: "int \<Rightarrow> int \<Rightarrow> int" where
  "get_difference_in_seconds a b = sgn (a - b) * (\<bar>a - b\<bar> div 1000)"

definition get_difference_in_minutes :: "int \<Rightarrow> int \<Rightarrow> int" where
  "get_difference_in_minutes a b = (a - b) div 60000"

definition get_difference_in_hours :: "int \<Rightarrow> int \<Rightarrow> int" where
  "get_difference_in_hours a b = (a - b) div 3600000"

text \<open>
  \<open>round_to_next_minute\<close> does not round: it gives a full minute only for a full minute
  (the one after it), and a time before its argument for every time in the second half of a minute.
\<close>

lemma round_to_next_minute_value:
  "round_to_next_minute s = s + 60 - 2 * (s mod 60) \<and>
   (round_to_next_minute s mod 60 = 0 \<longleftrightarrow> s mod 60 = 0) \<and>
   (round_to_next_minute s < s \<longleftrightarrow> 30 < s mod 60)"
proof -
  define q r where "q = s div 60" and "r = s mod 60"
  have s: "s = 60 * q + r" "0 \<le> r" "r < 60" by (simp_all add: q_def r_def)
  have e: "round_to_next_minute s = 60 * q + (60 - r)"
    by (simp add: round_to_next_minute_def q_def r_def)
  have "(60 * q + (60 - r)) mod 60 = (60 - r) mod 60" by simp
  then have "(60 * q + (60 - r)) mod 60 = 0 \<longleftrightarrow> r = 0"
    using s(2,3) mod_pos_pos_trivial [of "60 - r" 60] by (cases "r = 0") auto
  moreover have "60 * q + (60 - r) = s + 60 - 2 * r" using s(1) by simp
  moreover have "60 * q + (60 - r) < s \<longleftrightarrow> 30 < r" using s(1) by linarith
  ultimately show ?thesis unfolding e r_def [symmetric] by blast
qed

text \<open>
  C28 (bounds). The time \<open>determine_next_minute_time\<close> gives is a full minute after now; it is at
  most \<open>flex_seconds\<close> before the time asked for, so never before it when no flexibility is allowed,
  and at most a minute after the later of now and that time.
\<close>

theorem next_minute_time_bounds:
  assumes "0 \<le> flex"
  shows "next_minute_time now secs flex mod 60 = 0 \<and>
    (now + 500) div 1000 < next_minute_time now secs flex \<and>
    (now + 500) div 1000 + secs - flex \<le> next_minute_time now secs flex \<and>
    next_minute_time now secs flex \<le> (now + 500) div 1000 + max 0 secs + 60"
proof -
  define n where "n = (now + 500) div 1000"
  define q where "q = n div 60"
  define m where "m = n mod 60"
  have n: "n = 60 * q + m" "0 \<le> m" "m < 60" by (simp_all add: q_def m_def)
  define x where "x = secs - (60 - m)"
  define y where "y = x div 60"
  define z where "z = x mod 60"
  have x: "x = 60 * y + z" "0 \<le> z" "z < 60" by (simp_all add: y_def z_def)
  have e: "next_minute_time now secs flex =
    (if x \<le> 0 then 60 * q + 60 else 60 * q + 60 + (if z > flex then y + 1 else y) * 60)"
  proof -
    have "next_minute_time now secs flex = (if x \<le> 0 then n + (60 - m)
        else n + (60 - m) + (if z > flex then y + 1 else y) * 60)"
      unfolding next_minute_time_def Let_def n_def [symmetric] m_def [symmetric] x_def [symmetric]
      by (simp add: y_def z_def)
    then show ?thesis using n(1) by simp
  qed
  have y: "0 \<le> y" if "\<not> x \<le> 0" using that by (simp add: y_def pos_imp_zdiv_nonneg_iff)
  have "next_minute_time now secs flex mod 60 = 0" by (simp add: e)
  moreover have "n < next_minute_time now secs flex"
  proof (cases "x \<le> 0")
    case False
    have "60 * q + m < 60 * q + 60 + (if z > flex then y + 1 else y) * 60"
      using n(3) y [OF False] by simp
    then show ?thesis unfolding e n(1) using False by simp
  qed (use n in \<open>simp add: e\<close>)
  moreover have "n + secs - flex \<le> next_minute_time now secs flex"
    using n x assms by (simp add: e x_def)
  moreover have "next_minute_time now secs flex \<le> n + max 0 secs + 60"
    using n x assms by (simp add: e x_def)
  ultimately show ?thesis by (simp add: n_def)
qed

lemma next_minute_time_bounds_witness:
  "next_minute_time 45000 30 0 mod 60 = 0 \<and> (45000 + 500) div 1000 < next_minute_time 45000 30 0 \<and>
   (45000 + 500) div 1000 + 30 - 0 \<le> next_minute_time 45000 30 0 \<and>
   next_minute_time 45000 30 0 \<le> (45000 + 500) div 1000 + max 0 30 + 60"
  by (rule next_minute_time_bounds) simp

end
