(* ===== verification/Aws_Repo.thy ===== *)
theory Aws_Repo
  imports World
begin

text \<open>
  The base class of all repositories, \<open>repos/aws/abstract_repo.py\<close> and \<open>abstract_table_repo.py\<close>.
  A repository is a record of the class attributes that matter: the table, the key, the names of the
  state counter and the update time, and the virtual table. An entry is the row its \<open>to_record\<close>
  gives; reading returns the row a repository's initializer is applied to.
\<close>

record repo_class =
  rc_keys :: key_attrs
  rc_table :: "string option"
  rc_state_counter :: "pyval option"
  rc_update_time :: "pyval option"

record virtual_table =
  vt_name :: string
  vt_type :: string

record repo =
  r_table :: string
  r_key :: compound_key
  r_state_counter :: "pyval option"
  r_update_time :: "pyval option"
  r_virtual :: "virtual_table option"

definition find_attribute :: "pyval option \<Rightarrow> pyval option \<Rightarrow> pyval option" where
  "find_attribute v default_if_true =
     (if v = Some (PyBool True) \<and> default_if_true \<noteq> None then default_if_true else v)"

definition new_repo :: "repo_class \<Rightarrow> virtual_table option \<Rightarrow> exn + repo" where
  "new_repo c vt =
     (let keys = (case vt of None \<Rightarrow> rc_keys c
        | Some t \<Rightarrow> (rc_keys c)\<lparr>inject_hash_attribute := Some (''tableType'', PyStr (vt_type t))\<rparr>)
      in case rc_table c of None \<Rightarrow> Inl AttributeError
         | Some t \<Rightarrow> rbind (create_primary_key keys) (\<lambda>pk.
             Inr \<lparr>r_table = t, r_key = pk,
                  r_state_counter = find_attribute (rc_state_counter c) (Some (PyStr ''stateCounter'')),
                  r_update_time = find_attribute (rc_update_time c) (Some (PyStr ''updateTime'')),
                  r_virtual = vt\<rparr>))"

definition virtual_name :: "repo \<Rightarrow> string option" where
  "virtual_name r = map_option vt_name (r_virtual r)"

definition prepare_item :: "repo \<Rightarrow> row \<Rightarrow> exn + row" where
  "prepare_item r entry = prep_for_serialization (r_key r) entry"

definition deserialize_record :: "repo \<Rightarrow> row \<Rightarrow> exn + row" where
  "deserialize_record r item = prep_for_deserialization (r_key r) item"

section \<open>Writing entries\<close>

definition create :: "'d ddb_client \<Rightarrow> repo \<Rightarrow> row \<Rightarrow> ('d, bool) io" where
  "create C r entry = bnd (lift_res (prepare_item r entry)) (\<lambda>item.
     catch (bnd (with_db (put_item C (r_table r) item (Some (key_attributes (r_key r))) None False))
              (\<lambda>_. ret True))
       (\<lambda>e. if e = PrimaryKeyViolation then Some (ret False) else None))"

definition succ_val :: "pyval \<Rightarrow> exn + pyval" where
  "succ_val v = (case v of PyInt i \<Rightarrow> Inr (PyInt (i + 1)) | _ \<Rightarrow> Inl TypeError)"

text \<open>
  The item, the patches and the condition of an update with a state check. Without patches the item
  itself is updated: the dictionary is the same object.
\<close>

definition state_check_parts ::
  "repo \<Rightarrow> row \<Rightarrow> row option \<Rightarrow> ('d, row \<times> row \<times> row) io" where
  "state_check_parts r entry patches =
     (case r_state_counter r of
        None \<Rightarrow> raise AssertionError
      | Some (PyStr sc) \<Rightarrow>
          bnd (lift_res (prepare_item r entry)) (\<lambda>item.
          bnd (lift_res (dreq sc item)) (\<lambda>cur.
          bnd (lift_res (succ_val cur)) (\<lambda>nxt.
          let p = dset sc nxt (case patches of None \<Rightarrow> item | Some p \<Rightarrow> p) in
          bnd (case r_update_time r of
                 Some (PyStr ut) \<Rightarrow> bnd get_system_time_in_millis (\<lambda>t. ret (dset ut (PyInt t) p))
               | _ \<Rightarrow> ret p) (\<lambda>p.
          let item = (if patches = None then p else item) in
          bnd (lift_res (build_key_as_dict (r_key r) item False)) (\<lambda>keys.
          ret (keys, p, [(sc, cur)]))))))
      | Some _ \<Rightarrow> raise TypeError)"

definition update_with_state_check :: "'d ddb_client \<Rightarrow> repo \<Rightarrow> row \<Rightarrow> row option \<Rightarrow> ('d, unit) io" where
  "update_with_state_check C r entry patches =
     bnd (state_check_parts r entry patches) (\<lambda>(keys, p, cond).
     catch (with_db (update_item C (r_table r) keys p (Some (CondDict cond))))
       (\<lambda>e. if e = PreconditionFailed then Some (raise OptimisticLock) else None))"

definition create_state_check_request :: "repo \<Rightarrow> row \<Rightarrow> row option \<Rightarrow> ('d, transaction_request) io" where
  "create_state_check_request r entry patches =
     bnd (state_check_parts r entry patches) (\<lambda>(keys, p, cond).
     ret (UpdateItem \<lparr>ur_table = r_table r, ur_keys = keys, ur_item = p,
       ur_condition = Some (CondDict cond), ur_must_exist = True, ur_virtual = virtual_name r\<rparr>))"

definition update_or_false :: "('d, unit) io \<Rightarrow> ('d, bool) io" where
  "update_or_false p = catch (bnd p (\<lambda>_. ret True))
     (\<lambda>e. if e = PreconditionFailed then Some (ret False) else None)"

definition patch :: "'d ddb_client \<Rightarrow> repo \<Rightarrow> row \<Rightarrow> row \<Rightarrow> ('d, bool) io" where
  "patch C r entry patches = bnd (lift_res (prepare_item r entry)) (\<lambda>item.
     update_or_false (bnd (lift_res (build_key_as_dict (r_key r) item True)) (\<lambda>keys.
       with_db (update_item C (r_table r) keys patches None))))"

definition patch_from_args :: "'d ddb_client \<Rightarrow> repo \<Rightarrow> pyval list \<Rightarrow> row \<Rightarrow> ('d, bool) io" where
  "patch_from_args C r args patches = bnd (lift_res (build_key_from_args (r_key r) args)) (\<lambda>(key, _).
     update_or_false (with_db (update_item C (r_table r) key patches None)))"

definition create_patch_from_args_request :: "repo \<Rightarrow> pyval list \<Rightarrow> row \<Rightarrow> bool \<Rightarrow> exn + transaction_request" where
  "create_patch_from_args_request r args patches must_exist =
     rbind (build_key_from_args (r_key r) args) (\<lambda>(key, _).
     Inr (UpdateItem \<lparr>ur_table = r_table r, ur_keys = key, ur_item = patches, ur_condition = None,
       ur_must_exist = must_exist, ur_virtual = virtual_name r\<rparr>))"

definition patch_with_condition ::
  "'d ddb_client \<Rightarrow> repo \<Rightarrow> row \<Rightarrow> string \<Rightarrow> pyval \<Rightarrow> row option \<Rightarrow> ('d, unit) io" where
  "patch_with_condition C r entry att new_value patches =
     bnd (lift_res (prepare_item r entry)) (\<lambda>item.
     bnd (lift_res (dreq att item)) (\<lambda>cur.
     let p = dset att new_value (case patches of None \<Rightarrow> [] | Some p \<Rightarrow> p) in
     catch (bnd (lift_res (build_key_as_dict (r_key r) item True)) (\<lambda>keys.
              with_db (update_item C (r_table r) keys p (Some (CondDict [(att, cur)])))))
       (\<lambda>e. if e = PreconditionFailed then Some (raise OptimisticLock) else None)))"

definition patch_with_condition_bool ::
  "'d ddb_client \<Rightarrow> repo \<Rightarrow> row \<Rightarrow> string \<Rightarrow> pyval \<Rightarrow> row option \<Rightarrow> ('d, bool) io" where
  "patch_with_condition_bool C r entry att new_value patches =
     catch (bnd (patch_with_condition C r entry att new_value patches) (\<lambda>_. ret True))
       (\<lambda>e. if e = OptimisticLock then Some (ret False) else None)"

definition replace_entry :: "'d ddb_client \<Rightarrow> repo \<Rightarrow> row \<Rightarrow> ('d, bool) io" where
  "replace_entry C r entry = bnd (lift_res (prepare_item r entry)) (\<lambda>item.
     bnd (with_db (put_item C (r_table r) item None None True)) (\<lambda>old. ret (old = None)))"

definition delete_entry :: "'d ddb_client \<Rightarrow> repo \<Rightarrow> row \<Rightarrow> ('d, bool) io" where
  "delete_entry C r entry = bnd (lift_res (prepare_item r entry)) (\<lambda>item.
     bnd (lift_res (build_key_as_dict (r_key r) item True)) (\<lambda>key.
     with_db (delete_item C (r_table r) key None)))"

definition delete :: "'d ddb_client \<Rightarrow> repo \<Rightarrow> pyval list \<Rightarrow> ('d, bool) io" where
  "delete C r args = bnd (lift_res (build_key_from_args (r_key r) args)) (\<lambda>(key, _).
     with_db (delete_item C (r_table r) key None))"

definition delete_with_condition :: "'d ddb_client \<Rightarrow> repo \<Rightarrow> row \<Rightarrow> string \<Rightarrow> pyval \<Rightarrow> ('d, unit) io" where
  "delete_with_condition C r entry att v = bnd (lift_res (prepare_item r entry)) (\<lambda>item.
     catch (bnd (lift_res (build_key_as_dict (r_key r) item True)) (\<lambda>key.
              bnd (with_db (delete_item C (r_table r) key (Some (CondDict [(att, v)])))) (\<lambda>_. ret ())))
       (\<lambda>e. if e = PreconditionFailed then Some (raise OptimisticLock) else None))"

section \<open>Reading entries\<close>

definition find :: "'d ddb_client \<Rightarrow> repo \<Rightarrow> pyval list \<Rightarrow> bool \<Rightarrow> ('d, row option) io" where
  "find C r args consistent = bnd (lift_res (build_key_from_args (r_key r) args)) (\<lambda>(key, _).
     bnd (with_db (find_item C (r_table r) key consistent None)) (\<lambda>item.
     case item of None \<Rightarrow> ret None
     | Some i \<Rightarrow> bnd (lift_res (deserialize_record r i)) (\<lambda>e. ret (Some e))))"

text \<open>The projected attributes always include the key; their order is immaterial.\<close>

definition create_get_item_request_from_args ::
  "repo \<Rightarrow> pyval list \<Rightarrow> bool \<Rightarrow> string list option \<Rightarrow> exn + get_item_request" where
  "create_get_item_request_from_args r args consistent atts =
     rbind (build_key_from_args (r_key r) args) (\<lambda>(key, _).
     if r_virtual r \<noteq> None \<and> atts \<noteq> None \<and> atts \<noteq> Some [] then Inl NotImplementedError
     else new_get_item_request (r_table r) key consistent
            (map_option (\<lambda>as. remdups (as @ dkeys key)) atts))"

definition key_matches :: "row \<Rightarrow> row \<Rightarrow> bool" where
  "key_matches row_key tracker_key = list_all (\<lambda>(k, v). dget k row_key = Some v) tracker_key"

type_synonym tracked = "(get_item_request \<times> repo) \<times> nat"

fun find_match :: "string \<Rightarrow> row \<Rightarrow> tracked list \<Rightarrow> (tracked \<times> tracked list) option" where
  "find_match table row [] = None"
| "find_match table row (t # ts) =
     (if gr_table (fst (fst t)) = table \<and> key_matches row (gr_keys (fst (fst t))) then Some (t, ts)
      else map_option (\<lambda>(m, rest). (m, t # rest)) (find_match table row ts))"

record batch_get_result =
  bgr_entries :: "row option list"
  bgr_row_count :: nat
  bgr_index :: nat

fun match_rows :: "string \<Rightarrow> row list \<Rightarrow> tracked list \<Rightarrow> row option list \<Rightarrow> nat \<Rightarrow>
    exn + tracked list \<times> row option list \<times> nat" where
  "match_rows table [] ts res n = Inr (ts, res, n)"
| "match_rows table (row # rows) ts res n = (case find_match table row ts of
     None \<Rightarrow> match_rows table rows ts res n
   | Some (((req, r), i), ts') \<Rightarrow>
       rbind (if gr_attributes req = None then deserialize_record r row else Inr row) (\<lambda>e.
       match_rows table rows ts' (res[i := Some e]) (Suc n)))"

fun match_tables :: "(string, row list) dict \<Rightarrow> tracked list \<Rightarrow> row option list \<Rightarrow> nat \<Rightarrow>
    exn + row option list \<times> nat" where
  "match_tables [] ts res n = Inr (res, n)"
| "match_tables ((table, rows) # r) ts res n =
     rbind (match_rows table rows ts res n) (\<lambda>(ts', res', n'). match_tables r ts' res' n')"

definition repo_batch_get ::
  "'d ddb_client \<Rightarrow> (get_item_request \<times> repo) list \<Rightarrow> ('d, batch_get_result) io" where
  "repo_batch_get C requests = bnd (with_db (batch_get C (map fst requests))) (\<lambda>results.
     bnd (lift_res (match_tables results (zip requests [0..<length requests])
            (replicate (length requests) None) 0)) (\<lambda>(entries, n).
     ret \<lparr>bgr_entries = entries, bgr_row_count = n, bgr_index = 0\<rparr>))"

definition get_entry_at :: "batch_get_result \<Rightarrow> nat \<Rightarrow> exn + row option" where
  "get_entry_at b i = (if i < length (bgr_entries b) then Inr (bgr_entries b ! i) else Inl IndexError)"

definition has_entry :: "batch_get_result \<Rightarrow> nat \<Rightarrow> exn + bool" where
  "has_entry b i = rbind (get_entry_at b i) (\<lambda>e. Inr (e \<noteq> None))"

definition get_next_entry :: "batch_get_result \<Rightarrow> exn + row option \<times> batch_get_result" where
  "get_next_entry b =
     (if bgr_index b = bgr_row_count b then Inl IndexError
      else rbind (get_entry_at b (bgr_index b)) (\<lambda>e. Inr (e, b\<lparr>bgr_index := Suc (bgr_index b)\<rparr>)))"

text \<open>\<open>query_set\<close>: the parameters of the query; the rows of its result set are deserialized.\<close>

datatype start_or_filter = NoRange | StartAfter pyval | RangeFilter "pyval list" string

definition query_set_props :: "repo \<Rightarrow> pyval list \<Rightarrow> bool \<Rightarrow> start_or_filter \<Rightarrow> ddb_item option \<Rightarrow>
    filter_operation list option \<Rightarrow> string list option \<Rightarrow> bool \<Rightarrow> exn + query_params" where
  "query_set_props r args consistent rng last_key filters select count_only =
     rbind (build_hash_key_from_args (r_key r) args) (\<lambda>(att, v).
     rbind (case rng of
         NoRange \<Rightarrow> Inr None
       | StartAfter s \<Rightarrow> rbind (build_range_key_from_args (r_key r) [s]) (\<lambda>(ra, rv).
           Inr (Some \<lparr>rk_attribute = ra, rk_value = rv, rk_operation = ''>''\<rparr>))
       | RangeFilter vs op \<Rightarrow> rbind (build_range_key_from_args (r_key r) vs) (\<lambda>(ra, rv).
           Inr (Some \<lparr>rk_attribute = ra, rk_value = rv, rk_operation = op\<rparr>))) (\<lambda>rq.
     query_props (r_table r) att v select rq last_key
       consistent filters count_only))"

text \<open>\<open>query\<close>: all rows of the query and the key to go on from.\<close>

definition repo_query :: "'d ddb_client \<Rightarrow> repo \<Rightarrow> pyval list \<Rightarrow> bool \<Rightarrow> start_or_filter \<Rightarrow> int option \<Rightarrow>
    ddb_item option \<Rightarrow> filter_operation list option \<Rightarrow> ('d, row list \<times> ddb_item option) io" where
  "repo_query C r args consistent rng limit last_key filters =
     bnd (lift_res (query_set_props r args consistent rng last_key filters None False)) (\<lambda>props.
     bnd (\<lambda>w. case rs_list (c_fuel C) (query_function C props) (new_result_set limit, w_db w) of
            (res, (rs, d)) \<Rightarrow> (map_sum id (\<lambda>rows. (rows, rs_next_key rs)) res, w\<lparr>w_db := d\<rparr>))
       (\<lambda>(rows, k). bnd (lift_res (map_res (deserialize_record r) rows)) (\<lambda>es. ret (es, k))))"

section \<open>Requests for transactions\<close>

definition create_put_item_request ::
  "repo \<Rightarrow> (row \<Rightarrow> ('d, row) io) \<Rightarrow> row \<Rightarrow> row \<Rightarrow> ('d, transaction_request) io" where
  "create_put_item_request r prepare_put entry kwargs =
     bnd (lift_res (prepare_item r entry)) (\<lambda>item.
     bnd (prepare_put (if kwargs \<noteq> [] then dupdate item kwargs else item)) (\<lambda>item.
     ret (PutItem \<lparr>pr_table = r_table r, pr_item = item,
       pr_key_attributes = Some (key_attributes (r_key r)), pr_condition = None,
       pr_virtual = virtual_name r\<rparr>)))"

definition create_update_item_request_from_args ::
  "repo \<Rightarrow> row \<Rightarrow> pyval list \<Rightarrow> bool \<Rightarrow> exn + transaction_request" where
  "create_update_item_request_from_args r patches args must_exist =
     rbind (build_key_from_args (r_key r) args) (\<lambda>(key, _).
     Inr (UpdateItem \<lparr>ur_table = r_table r, ur_keys = key, ur_item = patches, ur_condition = None,
       ur_must_exist = must_exist, ur_virtual = virtual_name r\<rparr>))"

definition create_update_item_request :: "repo \<Rightarrow> row \<Rightarrow> row \<Rightarrow> bool \<Rightarrow> exn + transaction_request" where
  "create_update_item_request r entry patches must_exist =
     rbind (prepare_item r entry) (\<lambda>item.
     rbind (build_key_as_dict (r_key r) item True) (\<lambda>key.
     Inr (UpdateItem \<lparr>ur_table = r_table r, ur_keys = key, ur_item = patches, ur_condition = None,
       ur_must_exist = must_exist, ur_virtual = virtual_name r\<rparr>)))"

definition create_delete_item_request_from_args ::
  "repo \<Rightarrow> pyval list \<Rightarrow> bool \<Rightarrow> exn + transaction_request" where
  "create_delete_item_request_from_args r args must_exist =
     rbind (build_key_from_args (r_key r) args) (\<lambda>(key, _).
     Inr (DeleteItem \<lparr>dr_table = r_table r, dr_keys = key, dr_condition = None,
       dr_must_exist = must_exist, dr_virtual = virtual_name r\<rparr>))"

definition create_delete_item_request :: "repo \<Rightarrow> row \<Rightarrow> bool \<Rightarrow> exn + transaction_request" where
  "create_delete_item_request r entry must_exist =
     rbind (prepare_item r entry) (\<lambda>item.
     rbind (build_key_as_dict (r_key r) item True) (\<lambda>key.
     Inr (DeleteItem \<lparr>dr_table = r_table r, dr_keys = key, dr_condition = None,
       dr_must_exist = must_exist, dr_virtual = virtual_name r\<rparr>)))"

text \<open>
  \<open>transact_write\<close> returns the first request with a cancel reason, here with its position in the
  list, which stands for its identity.
\<close>

fun first_reason :: "cancel_reason list \<Rightarrow> nat \<Rightarrow> (nat \<times> cancel_reason) option" where
  "first_reason [] i = None"
| "first_reason (r # rs) i = (if cr_code r \<noteq> None then Some (i, r) else first_reason rs (Suc i))"

definition repo_transact_write ::
  "'d ddb_client \<Rightarrow> transaction_request list \<Rightarrow> ('d, (nat \<times> cancel_reason) option) io" where
  "repo_transact_write C requests =
     catch (bnd (with_db (transact_write C requests)) (\<lambda>_. ret None))
       (\<lambda>e. case e of
          TransactionCancelled rs \<Rightarrow> Some (case first_reason rs 0 of
              None \<Rightarrow> raise e
            | Some (i, r) \<Rightarrow> if i < length requests then ret (Some (i, r)) else raise IndexError)
        | _ \<Rightarrow> None)"

definition repo_batch_write :: "'d ddb_client \<Rightarrow> transaction_request list \<Rightarrow> ('d, unit) io" where
  "repo_batch_write C requests = bnd (with_db (batch_write C requests)) (\<lambda>_. ret ())"

section \<open>What the operations guarantee\<close>

definition repo_ok :: "(string \<Rightarrow> string list) \<Rightarrow> repo \<Rightarrow> bool" where
  "repo_ok ka r \<longleftrightarrow> ka (r_table r) = key_attributes (r_key r) \<and> key_attributes (r_key r) \<noteq> [] \<and>
     list_all ident (key_attributes (r_key r))"

definition stored_item_ok :: "repo \<Rightarrow> row \<Rightarrow> bool" where
  "stored_item_ok r item \<longleftrightarrow> distinct (dkeys item) \<and> set (key_attributes (r_key r)) \<subseteq> set (dkeys item)"

lemma with_db_app: "with_db p w = (fst (p (w_db w)), w\<lparr>w_db := snd (p (w_db w))\<rparr>)"
  by (simp add: with_db_def split: prod.splits)

lemma clock_keeps_db [simp]: "w_db (snd (get_system_time_in_millis w)) = w_db w"
  by (simp add: get_system_time_in_millis_def)

lemma sem_addr [simp]:
  "ws_addr (put_item_sem ka t item katts) = addr_of ka t (item_of item)"
  "ws_addr (update_item_sem ka t keys item' cond) = addr_of ka t (item_of keys)"
  "ws_addr (delete_item_sem ka t keys cond) = addr_of ka t (item_of keys)"
  by (simp_all add: ws_addr_def put_item_sem_def update_item_sem_def delete_item_sem_def addr_of_def)

context dynamo
begin

lemma create_outcome:
  assumes "create C r entry w = (res, w')" "prepare_item r entry = Inr item" "repo_ok ka r"
    "stored_item_ok r item" "kok (addr_of ka (r_table r) (item_of item))"
  defines "a \<equiv> addr_of ka (r_table r) (item_of item)" and "v \<equiv> view (w_db w)"
  shows "case res of
      Inr True \<Rightarrow> v a = None \<and> view (w_db w') = v(a \<mapsto> \<lambda>n. dget n (item_of item))
    | Inr False \<Rightarrow> v a \<noteq> None \<and> view (w_db w') = v
    | Inl e \<Rightarrow> view (w_db w') = v \<or> v a = None \<and> view (w_db w') = v(a \<mapsto> \<lambda>n. dget n (item_of item))"
proof -
  let ?t = "r_table r" and ?k = "Some (key_attributes (r_key r))"
  obtain x d where x: "put_item C ?t item ?k None False (w_db w) = (x, d)" by fastforce
  have "put_ok ka ?t item ?k" using assms(3,4) by (auto simp: put_ok_def repo_ok_def stored_item_ok_def)
  from put_item_spec [OF x this] assms(5)
  have out: "write_outcome PrimaryKeyViolation (put_item_sem ka ?t item ?k) v x (view d)"
    by (simp add: v_def)
  have ka: "ka (fst a) = key_attributes (r_key r)" "ka (fst a) \<noteq> []" "kok a"
    using assms(3,5) by (simp_all add: repo_ok_def addr_of_def a_def)
  have ok: "sem_ok v (put_item_sem ka ?t item ?k) \<longleftrightarrow> v a = None"
    using no_row [OF ka(3,2), of "w_db w"] ka(1) by (simp add: sem_ok_def a_def v_def put_item_sem_def
        ws_addr_def addr_of_def)
  have ap: "sem_apply (put_item_sem ka ?t item ?k) v = v(a \<mapsto> \<lambda>n. dget n (item_of item))"
    by (simp add: sem_apply_def a_def) (simp add: put_item_sem_def put_effect_def)
  have w': "w_db w' = d" "res = (case x of Inr y \<Rightarrow> Inr True
      | Inl e \<Rightarrow> if e = PrimaryKeyViolation then Inr False else Inl e)"
    using assms(1,2) x by (auto simp: create_def with_db_def bnd_def catch_def split: sum.splits if_splits)
  show ?thesis using out ok ap w' by (auto simp: write_outcome_def split: sum.splits if_splits)
qed

end

text \<open>
  C11 (safety). \<open>create\<close> never touches a row that exists: it returns \<open>True\<close> only when there was no row
  with the key, which then holds the entry; it returns \<open>False\<close> only when there was one; and
  whatever it raises, a row that existed is as it was.
\<close>

theorem create_never_overwrites:
  assumes "dynamo C view ka kok" "create C r entry w = (res, w')" "prepare_item r entry = Inr item"
    "repo_ok ka r" "stored_item_ok r item" "kok (addr_of ka (r_table r) (item_of item))"
  shows "let a = addr_of ka (r_table r) (item_of item); v = view (w_db w); v' = view (w_db w') in
    (v a \<noteq> None \<longrightarrow> v' = v) \<and> (res = Inr False \<longrightarrow> v a \<noteq> None) \<and>
    (res = Inr True \<longrightarrow> v a = None \<and> v' = v(a \<mapsto> \<lambda>n. dget n (item_of item)))"
  using dynamo.create_outcome [OF assms] by (auto simp: Let_def split: sum.splits bool.splits)

subsection \<open>Conditional updates\<close>

text \<open>The attribute value a Python value is stored as.\<close>

definition val_attr :: "pyval \<Rightarrow> attr" where
  "val_attr v = (case to_attribute_value v of Inr a \<Rightarrow> Attr [a] | Inl _ \<Rightarrow> Attr [])"

lemma handle_exception_no_lock [simp]: "handle_exception e \<noteq> OptimisticLock"
  by (auto simp: handle_exception_def handle_client_error_def split: option.splits)

lemma handle_throttling_no_lock [simp]: "fst (handle_throttling n f s) \<noteq> Inl OptimisticLock"
  by (induction n f s rule: handle_throttling.induct) (auto split: prod.splits sum.splits)

lemma handle_throttling_no_lockD [dest]: "handle_throttling n f s = (Inl OptimisticLock, t) \<Longrightarrow> False"
  by (metis fst_conv handle_throttling_no_lock)

lemma update_item_no_lock: "update_item C t keys p c d = (x, d') \<Longrightarrow> x \<noteq> Inl OptimisticLock"
proof -
  assume "update_item C t keys p c d = (x, d')"
  then have "x = fst (update_item C t keys p c d)" by simp
  also have "\<dots> \<noteq> Inl OptimisticLock"
  proof (cases "to_ddb_item p")
    case (Inl e)
    then show ?thesis using to_ddb_item_err [OF Inl] by (auto simp: update_item_def)
  next
    case i: (Inr i)
    show ?thesis
    proof (cases "to_ddb_item keys")
      case (Inl e)
      then show ?thesis using to_ddb_item_err [OF Inl] i by (auto simp: update_item_def split: prod.splits)
    next
      case (Inr k)
      then show ?thesis using cond_expr_err [of c] i
        by (cases "cond_expr c")
           (auto simp: update_item_def execute_and_wrap_def handle_throttling_no_lock split: prod.splits)
    qed
  qed
  finally show ?thesis .
qed

lemma delete_item_no_lock: "delete_item C t keys c d = (x, d') \<Longrightarrow> x \<noteq> Inl OptimisticLock"
proof -
  assume "delete_item C t keys c d = (x, d')"
  then have "x = fst (delete_item C t keys c d)" by simp
  also have "\<dots> \<noteq> Inl OptimisticLock"
  proof (cases "to_ddb_item keys")
    case (Inl e)
    then show ?thesis using to_ddb_item_err [OF Inl] by (auto simp: delete_item_def)
  next
    case k: (Inr k)
    show ?thesis
    proof (cases "cond_expr c")
      case (Inl e)
      then show ?thesis using cond_expr_err [OF Inl] k by (auto simp: delete_item_def)
    next
      case (Inr e)
      then show ?thesis using k
        by (auto simp: delete_item_def execute_and_wrap_def bnd_def split: prod.splits sum.splits)
    qed
  qed
  finally show ?thesis .
qed

lemma to_map_get: "to_attribute_value_map d = Inr m \<Longrightarrow> dget k d = Some v \<Longrightarrow> dget k m = Some (val_attr v)"
  by (induction d arbitrary: m) (auto simp: rbind_eq_Inr val_attr_def split: if_splits)

lemma to_ddb_item_get: "to_ddb_item d = Inr m \<Longrightarrow> dget k d = Some v \<Longrightarrow> dget k m = Some (val_attr v)"
  by (simp add: to_ddb_item_def to_map_get)

lemma set_list_get: "k \<notin> set keys \<Longrightarrow> map_of (set_list keys i) k = dget k i"
  by (induction i) (auto simp: set_list_def)

text \<open>
  The outcome of an update of the row at \<open>a\<close> under the condition that its attribute \<open>att\<close> is \<open>cur\<close>.
\<close>

definition holds_at :: "ddb_view \<Rightarrow> address \<Rightarrow> string \<Rightarrow> pyval \<Rightarrow> bool" where
  "holds_at v a att cur \<longleftrightarrow> (\<exists>m. v a = Some m \<and> m att = Some (val_attr cur))"

definition set_at :: "ddb_view \<Rightarrow> address \<Rightarrow> ddb_item \<Rightarrow> ddb_view" where
  "set_at v a us = v(a \<mapsto> row_map (v a) ++ map_of us)"

definition patched ::
  "exn \<Rightarrow> ddb_view \<Rightarrow> address \<Rightarrow> string \<Rightarrow> pyval \<Rightarrow> ddb_item \<Rightarrow> exn + 'a \<Rightarrow> ddb_view \<Rightarrow> bool" where
  "patched failed v a att cur us r v' \<longleftrightarrow> (case r of
      Inr _ \<Rightarrow> holds_at v a att cur \<and> v' = set_at v a us
    | Inl e \<Rightarrow> (v' = v \<or> e \<noteq> failed \<and> holds_at v a att cur \<and> v' = set_at v a us) \<and>
        (e = failed \<longrightarrow> \<not> holds_at v a att cur))"

lemma to_ddb_item_single: "to_attribute_value cur = Inr c \<Longrightarrow> to_ddb_item [(att, cur)] = Inr [(att, val_attr cur)]"
  by (simp add: to_ddb_item_def val_attr_def)

context dynamo
begin

lemma sem_ok_update:
  assumes "keys_ok ka t keys" "kok (addr_of ka t (item_of keys))" "to_attribute_value cur = Inr c"
  shows "sem_ok (view d) (update_item_sem ka t keys p (Some (CondDict [(att, cur)]))) \<longleftrightarrow>
    holds_at (view d) (addr_of ka t (item_of keys)) att cur"
proof -
  let ?a = "addr_of ka t (item_of keys)"
  have "list_all (\<lambda>x. sat x (row_map (view d ?a))) (map HasAttr (dkeys keys)) \<longleftrightarrow> view d ?a \<noteq> None"
    by (rule has_row [OF assms(2)]) (use assms(1) in \<open>auto simp: keys_ok_def addr_of_def\<close>)
  then show ?thesis using to_ddb_item_single [OF assms(3), of att]
    by (auto simp: sem_ok_def holds_at_def)
       (auto simp: update_item_sem_def atoms_of_def cond_row_def row_map_def split: option.splits)
qed

lemma cond_update_item:
  assumes "update_item C t keys p (Some (CondDict [(att, cur)])) d = (r, d')" "ident att"
    "to_attribute_value cur = Inr c" "keys_ok ka t keys" "item_ok_for keys p"
    "kok (addr_of ka t (item_of keys))"
  shows "patched PreconditionFailed (view d) (addr_of ka t (item_of keys)) att cur
    (set_list (dkeys keys) (item_of p)) r (view d')"
proof -
  let ?a = "addr_of ka t (item_of keys)" and ?c = "Some (CondDict [(att, cur)])"
  have "cond_plain ?c" using assms(2) by (simp add: cond_plain_def)
  from update_item_spec [OF assms(1) this assms(4,5)] assms(6)
  have out: "write_outcome PreconditionFailed (update_item_sem ka t keys p ?c) (view d) r (view d')" by simp
  have ap: "holds_at (view d) ?a att cur \<Longrightarrow> sem_apply (update_item_sem ka t keys p ?c) (view d) =
    set_at (view d) ?a (set_list (dkeys keys) (item_of p))"
    by (auto simp: sem_apply_def set_at_def holds_at_def)
       (simp add: update_item_sem_def update_effect_def row_map_def)
  show ?thesis using out ap unfolding write_outcome_def patched_def sem_ok_update [OF assms(4,6,3)]
    by (auto split: sum.splits)
qed

lemma patch_with_condition_outcome:
  assumes "patch_with_condition C r entry att new_value patches w = (res, w')"
    "prepare_item r entry = Inr item" "dget att item = Some cur" "to_attribute_value cur = Inr c"
    "build_key_as_dict (r_key r) item True = Inr keys" "ident att" "keys_ok ka (r_table r) keys"
    "item_ok_for keys (dset att new_value (case patches of None \<Rightarrow> [] | Some p \<Rightarrow> p))"
    "kok (addr_of ka (r_table r) (item_of keys))"
  shows "patched OptimisticLock (view (w_db w)) (addr_of ka (r_table r) (item_of keys)) att cur
    (set_list (dkeys keys) (item_of (dset att new_value (case patches of None \<Rightarrow> [] | Some p \<Rightarrow> p)))) res (view (w_db w'))"
proof -
  let ?p = "dset att new_value (case patches of None \<Rightarrow> [] | Some p \<Rightarrow> p)"
  obtain x d where x: "update_item C (r_table r) keys ?p (Some (CondDict [(att, cur)])) (w_db w) = (x, d)"
    by fastforce
  note out = cond_update_item [OF x assms(6,4,7,8,9)]
  have w': "w_db w' = d" "res = (case x of Inr y \<Rightarrow> Inr y | Inl e \<Rightarrow> if e = PreconditionFailed then Inl OptimisticLock else Inl e)"
    using assms(1) x by (auto simp: patch_with_condition_def assms(2,3,5) dreq_def with_db_def catch_def Let_def
        split: sum.splits if_splits)
  have "x \<noteq> Inl OptimisticLock" using update_item_no_lock [OF x] .
  then show ?thesis using out w' by (auto simp: patched_def split: sum.splits if_splits)
qed

lemma update_with_state_check_outcome:
  assumes "update_with_state_check C r entry patches w = (res, w')"
    "state_check_parts r entry patches w = (Inr (keys, p, [(att, cur)]), w1)"
    "to_attribute_value cur = Inr c" "ident att" "keys_ok ka (r_table r) keys" "item_ok_for keys p"
    "kok (addr_of ka (r_table r) (item_of keys))"
  shows "patched OptimisticLock (view (w_db w1)) (addr_of ka (r_table r) (item_of keys)) att cur
    (set_list (dkeys keys) (item_of p)) res (view (w_db w'))"
proof -
  obtain x d where x: "update_item C (r_table r) keys p (Some (CondDict [(att, cur)])) (w_db w1) = (x, d)"
    by fastforce
  note out = cond_update_item [OF x assms(4,3,5-7)]
  have w': "w_db w' = d" "res = (case x of Inr y \<Rightarrow> Inr y | Inl e \<Rightarrow> if e = PreconditionFailed then Inl OptimisticLock else Inl e)"
    using assms(1) x by (auto simp: update_with_state_check_def assms(2) bnd_def with_db_def catch_def
        split: sum.splits if_splits)
  have "x \<noteq> Inl OptimisticLock" using update_item_no_lock [OF x] .
  then show ?thesis using out w' by (auto simp: patched_def split: sum.splits if_splits)
qed

lemma delete_with_condition_outcome:
  assumes "delete_with_condition C r entry att cur w = (res, w')" "prepare_item r entry = Inr item"
    "build_key_as_dict (r_key r) item True = Inr keys" "ident att" "to_attribute_value cur = Inr c"
    "keys_ok ka (r_table r) keys" "kok (addr_of ka (r_table r) (item_of keys))"
  defines "a \<equiv> addr_of ka (r_table r) (item_of keys)" and "v \<equiv> view (w_db w)"
  shows "case res of
      Inr _ \<Rightarrow> holds_at v a att cur \<and> view (w_db w') = v(a := None)
    | Inl e \<Rightarrow> (view (w_db w') = v \<or> e \<noteq> OptimisticLock \<and> holds_at v a att cur \<and> view (w_db w') = v(a := None)) \<and>
        (e = OptimisticLock \<longrightarrow> \<not> holds_at v a att cur)"
proof -
  let ?c = "Some (CondDict [(att, cur)])"
  let ?s = "delete_item_sem ka (r_table r) keys ?c"
  obtain x d where x: "delete_item C (r_table r) keys ?c (w_db w) = (x, d)" by fastforce
  have "cond_plain ?c" using assms(4) by (simp add: cond_plain_def)
  from delete_item_spec(1) [OF x this assms(6)] assms(7)
  have out: "write_outcome PreconditionFailed ?s v x (view d)" by (simp add: v_def)
  have ok: "sem_ok v ?s \<longleftrightarrow> holds_at v a att cur" using to_ddb_item_single [OF assms(5), of att]
    by (auto simp: sem_ok_def holds_at_def a_def)
       (auto simp: delete_item_sem_def atoms_of_def cond_row_def row_map_def split: option.splits)
  have ap: "sem_apply ?s v = v(a := None)" by (simp add: sem_apply_def a_def) (simp add: delete_item_sem_def)
  have w': "w_db w' = d" "res = (case x of Inr y \<Rightarrow> Inr () | Inl e \<Rightarrow> if e = PreconditionFailed then Inl OptimisticLock else Inl e)"
    using assms(1) x by (auto simp: delete_with_condition_def assms(2,3) bnd_def with_db_def catch_def
        split: sum.splits if_splits)
  have "x \<noteq> Inl OptimisticLock" using delete_item_no_lock [OF x] .
  then show ?thesis using out ok ap w' by (auto simp: write_outcome_def split: sum.splits if_splits)
qed

lemma first_reason_Some:
  "first_reason rs i = Some (j, r) \<Longrightarrow> i \<le> j \<and> j < i + length rs \<and> r = rs ! (j - i) \<and> cr_code r \<noteq> None"
  by (induction rs i rule: first_reason.induct) (auto simp: nth_Cons' split: if_splits)

lemma first_reason_None: "first_reason rs i = None \<longleftrightarrow> (\<forall>r\<in>set rs. cr_code r = None)"
  by (induction rs i rule: first_reason.induct) auto

text \<open>A transaction of a repository: done, refused because of one request, or failed.\<close>

lemma repo_transact_outcome:
  assumes "repo_transact_write C qs w = (res, w')" "tx_ok qs"
  defines "v \<equiv> view (w_db w)" and "held \<equiv> list_all (\<lambda>q. sem_ok (view (w_db w)) (request_sem ka q)) qs"
    and "done \<equiv> fold sem_apply (map (request_sem ka) qs) (view (w_db w))"
  shows "case res of
      Inr None \<Rightarrow> held \<and> view (w_db w') = done
    | Inr (Some (i, r)) \<Rightarrow> view (w_db w') = v \<and> i < length qs \<and> cr_code r \<noteq> None \<and>
        (cr_code r = Some ''ConditionalCheckFailed'' \<longrightarrow> \<not> sem_ok v (request_sem ka (qs ! i)))
    | Inl e \<Rightarrow> view (w_db w') = v \<or> held \<and> view (w_db w') = done"
proof -
  obtain x d where x: "transact_write C qs (w_db w) = (x, d)" by fastforce
  note sp = transact_write_spec [OF x assms(2)]
  show ?thesis
  proof (cases "\<exists>rs. x = Inl (TransactionCancelled rs)")
    case True
    then obtain rs where rs: "x = Inl (TransactionCancelled rs)" by blast
    then have l: "length rs = length qs" "\<exists>r\<in>set rs. cr_code r \<noteq> None" "view d = v"
      using sp by (auto simp: v_def)
    then obtain i r where f: "first_reason rs 0 = Some (i, r)"
      using first_reason_None [of rs 0] by (cases "first_reason rs 0") auto
    from first_reason_Some [OF f] have i: "i < length rs" "r = rs ! i" "cr_code r \<noteq> None" by auto
    have "res = Inr (Some (i, r))" "w_db w' = d"
      using assms(1) x rs f i l(1)
      by (auto simp: repo_transact_write_def catch_def bnd_def with_db_def)
    then show ?thesis using sp(2) [OF rs] i l by (auto simp: v_def)
  next
    case False
    then have "res = map_sum id (\<lambda>_. None) x" "w_db w' = d"
      using assms(1) x by (auto simp: repo_transact_write_def catch_def bnd_def with_db_def
          split: sum.splits exn.splits)
    then show ?thesis using sp(1) False
      by (cases x) (auto simp: v_def held_def done_def)
  qed
qed

end


end
