(* ===== verification/Mem_Dynamo.thy ===== *)
theory Mem_Dynamo
  imports Aws_Repo
begin

text \<open>
  A DynamoDB service in memory, as the test suite has one (\<open>tests/botomocks/dynamodb_mock.py\<close>): it
  parses the expression texts, checks the conditions, and applies a transaction item by item or
  not at all. It differs from the test mock in finding rows by the values of their key attributes
  instead of a text built from them, and in checking the conditions of a put like all others. It
  satisfies the contract \<open>dynamo\<close>, which is thereby not empty, and is the service of the witnesses.
\<close>

section \<open>Expression texts\<close>

datatype parsed_cond = PEqual string string | PExists string | PNotExists string

definition check_keyword :: "string list \<Rightarrow> string \<Rightarrow> bool" where
  "check_keyword reserved a \<longleftrightarrow> lower a \<in> set reserved"

text \<open>\<open>_parse_condition_expression\<close>; \<open>None\<close> stands for the exceptions it raises.\<close>

definition parse_condition :: "string list \<Rightarrow> string \<Rightarrow> parsed_cond option" where
  "parse_condition reserved expr = (case split_str '' '' expr of
     [l, oper, r] \<Rightarrow> (if check_keyword reserved (strip l) \<or> strip oper \<noteq> ''='' then None
                     else Some (PEqual (strip l) (strip r)))
   | [v] \<Rightarrow> (let i = find_str ''('' v; e = find_str '')'' v in
       if i > 0 \<and> e > 0 then
         (let oper = take (nat i) v; att = drop (nat i + 1) (take (nat e) v) in
          if check_keyword reserved att then None
          else if oper = ''attribute_exists'' then Some (PExists att)
          else if oper = ''attribute_not_exists'' then Some (PNotExists att) else None)
       else None)
   | _ \<Rightarrow> None)"

fun parse_all :: "('a \<Rightarrow> 'b option) \<Rightarrow> 'a list \<Rightarrow> 'b list option" where
  "parse_all f [] = Some []"
| "parse_all f (x # xs) = (case f x of None \<Rightarrow> None | Some y \<Rightarrow> map_option ((#) y) (parse_all f xs))"

definition parse_conditions :: "string list \<Rightarrow> string option \<Rightarrow> parsed_cond list option" where
  "parse_conditions reserved expr = (case expr of None \<Rightarrow> Some []
     | Some e \<Rightarrow> parse_all (parse_condition reserved) (split_str '' AND '' e))"

text \<open>\<open>Condition.check\<close>; a name that is not bound is an error.\<close>

fun check_cond :: "ddb_item \<Rightarrow> ddb_item \<Rightarrow> parsed_cond \<Rightarrow> bool option" where
  "check_cond record vals (PEqual n b) = (case dget b vals of None \<Rightarrow> None
     | Some v \<Rightarrow> Some (dget n record = Some v))"
| "check_cond record vals (PExists n) = Some (dget n record \<noteq> None)"
| "check_cond record vals (PNotExists n) = Some (dget n record = None)"

fun validate :: "ddb_item \<Rightarrow> ddb_item \<Rightarrow> parsed_cond list \<Rightarrow> bool option" where
  "validate record vals [] = Some True"
| "validate record vals (c # cs) = (case check_cond record vals c of
     None \<Rightarrow> None | Some False \<Rightarrow> Some False | Some True \<Rightarrow> validate record vals cs)"

definition parse_assignment :: "string list \<Rightarrow> ddb_item \<Rightarrow> string \<Rightarrow> (string \<times> attr) option" where
  "parse_assignment reserved vals v = (case split_str '' = '' v of
     l # r # _ \<Rightarrow> (if check_keyword reserved (strip l) then None
                   else map_option (Pair (strip l)) (dget (strip r) vals))
   | _ \<Rightarrow> None)"

definition collect_updates :: "string list \<Rightarrow> string option \<Rightarrow> ddb_item \<Rightarrow> ddb_item option" where
  "collect_updates reserved expr vals = (case expr of None \<Rightarrow> None
     | Some e \<Rightarrow> (if \<not> prefix ''SET '' e then None
         else map_option (dupdate []) (parse_all (parse_assignment reserved vals) (split_str '','' (drop 3 e)))))"

section \<open>The service\<close>

record mem_config =
  mc_keys :: "string \<Rightarrow> string list"
  mc_reserved :: "string list"

type_synonym mem_db = "(string \<times> ddb_item) list"

definition mem_matches :: "mem_config \<Rightarrow> address \<Rightarrow> string \<times> ddb_item \<Rightarrow> bool" where
  "mem_matches cf a ti \<longleftrightarrow> addr_of (mc_keys cf) (fst ti) (snd ti) = a"

definition mem_lookup :: "mem_config \<Rightarrow> address \<Rightarrow> mem_db \<Rightarrow> ddb_item option" where
  "mem_lookup cf a db = map_option snd (List.find (mem_matches cf a) db)"

definition mem_store :: "mem_config \<Rightarrow> address \<Rightarrow> ddb_item option \<Rightarrow> mem_db \<Rightarrow> mem_db" where
  "mem_store cf a i db =
     (case i of None \<Rightarrow> [] | Some i \<Rightarrow> [(fst a, i)]) @ filter (\<lambda>ti. \<not> mem_matches cf a ti) db"

definition cond_failed :: aws_error where
  "cond_failed = \<lparr>ae_type = ''ConditionalCheckFailedException'', ae_response =
     Some \<lparr>ar_http_status = Some 409, ar_code = Some ''ConditionalCheckFailed'', ar_reasons = []\<rparr>\<rparr>"

definition validation_error :: aws_error where
  "validation_error = \<lparr>ae_type = ''ClientError'', ae_response =
     Some \<lparr>ar_http_status = Some 400, ar_code = Some ''ValidationException'', ar_reasons = []\<rparr>\<rparr>"

definition transaction_cancelled :: "string list \<Rightarrow> aws_error" where
  "transaction_cancelled codes = \<lparr>ae_type = ''TransactionCanceledException'', ae_response =
     Some \<lparr>ar_http_status = Some 400, ar_code = Some ''TransactionCanceledException'',
           ar_reasons = map (\<lambda>c. (c, None)) codes\<rparr>\<rparr>"

text \<open>The address, the condition and the new row of a write; \<open>None\<close> is a validation error.\<close>

fun mem_plan :: "mem_config \<Rightarrow> write_params \<Rightarrow> mem_db \<Rightarrow> (address \<times> expr_params \<times> ddb_item option) option" where
  "mem_plan cf (WPut p) db = Some (addr_of (mc_keys cf) (pp_table p) (pp_item p), pp_expr p, Some (pp_item p))"
| "mem_plan cf (WDelete p) db = Some (addr_of (mc_keys cf) (dp_table p) (dp_key p), dp_expr p, None)"
| "mem_plan cf (WUpdate p) db =
     (let a = addr_of (mc_keys cf) (up_table p) (up_key p) in
      map_option (\<lambda>us. (a, up_expr p, Some (case mem_lookup cf a db of
          None \<Rightarrow> dupdate (dupdate [] us) (up_key p) | Some i \<Rightarrow> dupdate i us)))
        (collect_updates (mc_reserved cf) (up_update p) (vals_of (up_expr p))))"

definition mem_write :: "mem_config \<Rightarrow> write_params \<Rightarrow> mem_db \<Rightarrow> (aws_error + ddb_item option) \<times> mem_db" where
  "mem_write cf w db = (case mem_plan cf w db of
     None \<Rightarrow> (Inl validation_error, db)
   | Some (a, e, new) \<Rightarrow>
      (if None \<in> set (snd a) then (Inl validation_error, db)
       else case parse_conditions (mc_reserved cf) (ep_cond e) of
         None \<Rightarrow> (Inl validation_error, db)
       | Some cs \<Rightarrow> (case validate (case mem_lookup cf a db of None \<Rightarrow> [] | Some i \<Rightarrow> i) (vals_of e) cs of
           None \<Rightarrow> (Inl validation_error, db)
         | Some False \<Rightarrow> (Inl cond_failed, db)
         | Some True \<Rightarrow> (Inr (mem_lookup cf a db), mem_store cf a new db))))"

text \<open>
  The items of a transaction one after the other, up to the first that fails; the reasons then say
  \<open>None\<close> for all the others, and the tables are as before.
\<close>

fun mem_transact :: "mem_config \<Rightarrow> write_params list \<Rightarrow> mem_db \<Rightarrow> (aws_error \<times> nat) + mem_db" where
  "mem_transact cf [] db = Inr db"
| "mem_transact cf (w # ws) db = (case mem_write cf w db of
     (Inl e, _) \<Rightarrow> Inl (e, 0)
   | (Inr _, db') \<Rightarrow> map_sum (\<lambda>(e, i). (e, Suc i)) id (mem_transact cf ws db'))"

definition mem_transact_write ::
  "mem_config \<Rightarrow> write_params list \<Rightarrow> mem_db \<Rightarrow> (aws_error + unit) \<times> mem_db" where
  "mem_transact_write cf ws db = (case mem_transact cf ws db of
     Inr db' \<Rightarrow> (Inr (), db')
   | Inl (e, i) \<Rightarrow> (if e = cond_failed
       then (Inl (transaction_cancelled ((replicate (length ws) ''None'')[i := ''ConditionalCheckFailed''])), db)
       else (Inl e, db)))"

definition mem_get :: "mem_config \<Rightarrow> get_params \<Rightarrow> mem_db \<Rightarrow> (aws_error + ddb_item option) \<times> mem_db" where
  "mem_get cf p db = (Inr (map_option (\<lambda>i. case gp_attributes p of None \<Rightarrow> i
       | Some as \<Rightarrow> filter (\<lambda>kv. fst kv \<in> set as) i)
     (mem_lookup cf (addr_of (mc_keys cf) (gp_table p) (gp_key p)) db)), db)"

fun mem_batch :: "mem_config \<Rightarrow> (string \<times> batch_request) list \<Rightarrow> mem_db \<Rightarrow> mem_db" where
  "mem_batch cf [] db = db"
| "mem_batch cf ((t, PutRequest i) # rs) db = mem_batch cf rs (mem_store cf (addr_of (mc_keys cf) t i) (Some i) db)"
| "mem_batch cf ((t, DeleteRequest k) # rs) db = mem_batch cf rs (mem_store cf (addr_of (mc_keys cf) t k) None db)"

definition mem_client :: "mem_config \<Rightarrow> mem_db ddb_client" where
  "mem_client cf = \<lparr>
     c_get_item = mem_get cf,
     c_put_item = (\<lambda>p. mem_write cf (WPut p)),
     c_update_item = (\<lambda>p db. case mem_write cf (WUpdate p) db of (r, db') \<Rightarrow> (map_sum id (\<lambda>_. ()) r, db')),
     c_delete_item = (\<lambda>p. mem_write cf (WDelete p)),
     c_transact_write_items = mem_transact_write cf,
     c_batch_write_item = (\<lambda>reqs db. (Inr [], mem_batch cf (concat (map (\<lambda>(t, rs). map (Pair t) rs) reqs)) db)),
     c_batch_get_item = (\<lambda>reqs db. (Inr (map (\<lambda>(t, s). (t, concat (map (\<lambda>k.
         case mem_lookup cf (addr_of (mc_keys cf) t k) db of None \<Rightarrow> [] | Some i \<Rightarrow> [i]) (bg_keys s)))) reqs, []), db)),
     c_scan = (\<lambda>t _ _ db. (Inr \<lparr>qr_items = Some (map snd (filter (\<lambda>ti. fst ti = t) db)),
         qr_last_key = None, qr_count = None\<rparr>, db)),
     c_query = (\<lambda>p db. (Inl validation_error, db)),
     c_fuel = 3\<rparr>"

definition mem_view :: "mem_config \<Rightarrow> mem_db \<Rightarrow> ddb_view" where
  "mem_view cf db a = (if None \<in> set (snd a) then None else map_option (\<lambda>i n. dget n i) (mem_lookup cf a db))"

definition mem_kok :: "mem_config \<Rightarrow> address \<Rightarrow> bool" where
  "mem_kok cf a \<longleftrightarrow> None \<notin> set (snd a)"

section \<open>Parsing what the service renders\<close>

lemma ident_char_plain: "ident_char c \<Longrightarrow> c \<noteq> CHR '' '' \<and> c \<noteq> CHR ''='' \<and> c \<noteq> CHR '','' \<and> c \<noteq> CHR ''('' \<and>
    c \<noteq> CHR '')'' \<and> c \<noteq> CHR '':'' \<and> \<not> is_space c"
  by (auto simp: ident_char_def is_space_def is_digit_def Let_def)

lemma ident_plain:
  assumes "ident n"
  shows "CHR '' '' \<notin> set n" "CHR ''='' \<notin> set n" "CHR '','' \<notin> set n" "CHR ''('' \<notin> set n"
    "CHR '')'' \<notin> set n" "n \<noteq> []" "strip n = n"
proof -
  have all: "\<And>c. c \<in> set n \<Longrightarrow> ident_char c" and ne: "n \<noteq> []"
    using assms by (auto simp: ident_def list_all_iff)
  then show "CHR '' '' \<notin> set n" "CHR ''='' \<notin> set n" "CHR '','' \<notin> set n" "CHR ''('' \<notin> set n"
    "CHR '')'' \<notin> set n" "n \<noteq> []" using ident_char_plain by blast+
  show "strip n = n" using all [of "hd n"] all [of "last n"] ne ident_char_plain by (intro strip_no_space) auto
qed

lemma bind_plain:
  assumes "bind_ok b"
  shows "CHR '' '' \<notin> set b" "CHR ''='' \<notin> set b" "CHR '','' \<notin> set b" "b \<noteq> []" "strip b = b" "hd b = CHR '':''"
proof -
  obtain n where b: "b = CHR '':'' # n" "ident n" using assms by (cases b) (auto simp: bind_ok_def)
  note n = ident_plain [OF b(2)]
  show "CHR '' '' \<notin> set b" "CHR ''='' \<notin> set b" "CHR '','' \<notin> set b" "b \<noteq> []" "hd b = CHR '':''"
    using n b by auto
  have "\<not> is_space (last n)" using b(2) ident_char_plain n(6) by (auto simp: ident_def list_all_iff)
  then show "strip b = b" using n(6) b(1) by (intro strip_no_space) (auto simp: is_space_def)
qed

lemma split_from_step: "\<not> prefix sep (c # s) \<Longrightarrow> split_from sep acc (c # s) = split_from sep (c # acc) s"
  by simp

lemma split_and_skip:
  assumes "cond_ok c"
  shows "split_from '' AND '' acc (render_cond c @ s) = split_from '' AND '' (rev (render_cond c) @ acc) s"
proof (cases c)
  case (CExists n)
  then have "CHR '' '' \<notin> set (render_cond c)" using assms ident_plain [of n] by auto
  then show ?thesis using split_from_skip [of "CHR '' ''" "render_cond c" "''AND ''" acc s] by simp
next
  case (CNotExists n)
  then have "CHR '' '' \<notin> set (render_cond c)" using assms ident_plain [of n] by auto
  then show ?thesis using split_from_skip [of "CHR '' ''" "render_cond c" "''AND ''" acc s] by simp
next
  case (CEq n b)
  then have n: "CHR '' '' \<notin> set n" and b: "CHR '' '' \<notin> set b" "b \<noteq> []" "hd b = CHR '':''"
    using assms ident_plain [of n] bind_plain [of b] by auto
  obtain bt where bt: "b = CHR '':'' # bt" using b by (cases b) auto
  have "split_from '' AND '' acc (n @ '' = '' @ b @ s) =
      split_from '' AND '' (rev n @ acc) ('' = '' @ b @ s)"
    using split_from_skip [OF n, of "''AND ''" acc "'' = '' @ b @ s"] by simp
  also have "\<dots> = split_from '' AND '' (rev '' = '' @ rev n @ acc) (b @ s)"
    using bt by simp
  also have "\<dots> = split_from '' AND '' (rev b @ rev '' = '' @ rev n @ acc) s"
    using split_from_skip [OF b(1), of "''AND ''" "rev '' = '' @ rev n @ acc" s] by simp
  finally show ?thesis using CEq by simp
qed

lemma split_conds:
  "cs \<noteq> [] \<Longrightarrow> list_all cond_ok cs \<Longrightarrow> split_str '' AND '' (render_conds cs) = map render_cond cs"
proof (induction cs)
  case (Cons c cs)
  show ?case
  proof (cases cs)
    case Nil
    then show ?thesis using split_and_skip [of c "[]" "[]"] Cons.prems
      by (simp add: render_conds_def split_str_def)
  next
    case (Cons d ds)
    have "render_conds (c # cs) = render_cond c @ '' AND '' @ render_conds cs"
      using Cons by (simp add: render_conds_def)
    then show ?thesis using split_and_skip [of c "[]" "'' AND '' @ render_conds cs"] Cons.prems Cons.IH Cons
        split_from_sep [of "'' AND ''" "rev (render_cond c)" "render_conds cs"]
      by (simp add: split_str_def)
  qed
qed simp

fun to_parsed :: "cond \<Rightarrow> parsed_cond" where
  "to_parsed (CExists n) = PExists n"
| "to_parsed (CNotExists n) = PNotExists n"
| "to_parsed (CEq n b) = PEqual n b"

lemma parse_call:
  assumes "ident n" "CHR ''('' \<notin> set f" "CHR '')'' \<notin> set f" "CHR '' '' \<notin> set f" "f \<noteq> []"
  shows "split_str '' '' (f @ ''('' @ n @ '')'') = [f @ ''('' @ n @ '')'']"
    "find_str ''('' (f @ ''('' @ n @ '')'') = int (length f)"
    "find_str '')'' (f @ ''('' @ n @ '')'') = int (length f + 1 + length n)"
    "take (length f) (f @ ''('' @ n @ '')'') = f"
    "drop (length f + 1) (take (length f + 1 + length n) (f @ ''('' @ n @ '')'')) = n"
proof -
  note n = ident_plain [OF assms(1)]
  show "split_str '' '' (f @ ''('' @ n @ '')'') = [f @ ''('' @ n @ '')'']"
    using assms(4) n by (intro split_str_no_sep) auto
  show "find_str ''('' (f @ ''('' @ n @ '')'') = int (length f)" using find_char [OF assms(2)] by simp
  show "find_str '')'' (f @ ''('' @ n @ '')'') = int (length f + 1 + length n)"
    using find_char [of "CHR '')''" "f @ ''('' @ n" "[]"] assms(3) n by simp
qed simp_all

lemma parse_call_cond:
  assumes "ident n" "CHR ''('' \<notin> set f" "CHR '')'' \<notin> set f" "CHR '' '' \<notin> set f" "f \<noteq> []"
  shows "parse_condition r (f @ ''('' @ n @ '')'') = (if check_keyword r n then None
    else if f = ''attribute_exists'' then Some (PExists n)
    else if f = ''attribute_not_exists'' then Some (PNotExists n) else None)"
proof -
  note q = parse_call [OF assms]
  show ?thesis unfolding parse_condition_def q(1) list.case Let_def q(2,3) nat_int q(4,5)
    using assms(5) by auto
qed

lemma parse_exists: "ident n \<Longrightarrow> parse_condition r (render_cond (CExists n)) =
    (if check_keyword r n then None else Some (PExists n))"
  and parse_not_exists: "ident n \<Longrightarrow> parse_condition r (render_cond (CNotExists n)) =
    (if check_keyword r n then None else Some (PNotExists n))"
  using parse_call_cond [of n "''attribute_exists''" r] parse_call_cond [of n "''attribute_not_exists''" r]
  by simp_all

lemma parse_render:
  assumes "cond_ok c" "parse_condition r (render_cond c) = Some p"
  shows "p = to_parsed c"
proof (cases c)
  case (CExists n)
  then show ?thesis using assms parse_exists [of n r] by (auto simp del: render_cond.simps split: if_splits)
next
  case (CNotExists n)
  then show ?thesis using assms parse_not_exists [of n r] by (auto simp del: render_cond.simps split: if_splits)
next
  case (CEq n b)
  then have i: "ident n" "bind_ok b" using assms(1) by auto
  have "split_str '' '' (join_str '' '' [n, ''='', b]) = [n, ''='', b]"
    using ident_plain [OF i(1)] bind_plain [OF i(2)] by (intro split_join) auto
  then have "split_str '' '' (render_cond c) = [n, ''='', b]" using CEq by simp
  moreover have "strip ''='' = ''=''" by (rule strip_no_space) (simp_all add: is_space_def)
  ultimately show ?thesis using assms(2) CEq ident_plain [OF i(1)] bind_plain [OF i(2)]
    by (auto simp: parse_condition_def split: if_splits)
qed

lemma parse_all_render:
  "list_all cond_ok cs \<Longrightarrow> parse_all (parse_condition r) (map render_cond cs) = Some ps \<Longrightarrow> ps = map to_parsed cs"
  by (induction cs arbitrary: ps) (auto simp: parse_render split: option.splits)

lemma validate_parsed:
  "map (resolve vals) cs = map Some as \<Longrightarrow>
   validate rec vals (map to_parsed cs) = Some (list_all (\<lambda>a. sat a (\<lambda>n. dget n rec)) as)"
proof (induction cs arbitrary: as)
  case (Cons c cs)
  then obtain a as' where a: "as = a # as'" "resolve vals c = Some a" "map (resolve vals) cs = map Some as'"
    by (cases as) auto
  have "check_cond rec vals (to_parsed c) = Some (sat a (\<lambda>n. dget n rec))"
    using a(2) by (cases c) auto
  then show ?case using Cons.IH [OF a(3)] a(1) by (auto split: bool.splits)
qed simp

lemma mem_validate:
  assumes "cond_means e as" "parse_conditions r (ep_cond e) = Some ps"
  shows "validate rec (vals_of e) ps = Some (list_all (\<lambda>a. sat a (\<lambda>n. dget n rec)) as)"
proof (cases "ep_cond e")
  case None
  then show ?thesis using assms by (simp add: cond_means_def parse_conditions_def)
next
  case (Some s)
  then obtain cs where cs: "cs \<noteq> []" "s = render_conds cs" "list_all cond_ok cs"
    "map (resolve (vals_of e)) cs = map Some as" using assms(1) by (auto simp: cond_means_def)
  then have "ps = map to_parsed cs" using assms(2) Some split_conds parse_all_render
    by (simp add: parse_conditions_def)
  then show ?thesis using validate_parsed [OF cs(4)] by simp
qed

lemma join_spaced: "ps \<noteq> [] \<Longrightarrow> '' '' @ join_str '', '' ps = join_str '','' (map ((@) '' '') ps)"
proof (induction ps)
  case (Cons p ps)
  then show ?case by (cases ps) auto
qed simp

lemma split_assignment:
  assumes "ident n" "bind_ok b"
  shows "split_str '' = '' ('' '' @ n @ '' = '' @ b) = ['' '' @ n, b]"
proof -
  note n = ident_plain [OF assms(1)] and b = bind_plain [OF assms(2)]
  obtain c m where c: "n = c # m" "c \<noteq> CHR ''=''" using n by (cases n) auto
  have "split_from '' = '' [] ('' '' @ n @ '' = '' @ b) = split_from '' = '' '' '' (n @ '' = '' @ b)"
    using c by simp
  also have "\<dots> = split_from '' = '' (rev n @ '' '') ('' = '' @ b)"
    using split_from_skip [OF n(1), of "''= ''" "'' ''" "'' = '' @ b"] by simp
  also have "\<dots> = ('' '' @ n) # split_from '' = '' [] b"
    using split_from_sep [of "'' = ''" "rev n @ '' ''" b] by simp
  also have "split_from '' = '' [] b = [b]"
    using split_from_skip [OF b(1), of "''= ''" "[]" "[]"] by simp
  finally show ?thesis by (simp add: split_str_def)
qed

lemma strip_space: "strip ('' '' @ n) = strip n"
  by (simp add: strip_def is_space_def)

lemma parse_assignment_render:
  assumes "ident n" "bind_ok b" "dget b vals = Some v" "parse_assignment r vals ('' '' @ n @ '' = '' @ b) = Some x"
  shows "x = (n, v)"
  using assms(3,4) ident_plain(7) [OF assms(1)] bind_plain(5) [OF assms(2)]
  unfolding parse_assignment_def split_assignment [OF assms(1,2)] list.case strip_space
  by (simp split: if_splits)

lemma collect_render:
  assumes "update_means upd vals us" "collect_updates r upd vals = Some u"
  shows "u = us"
proof -
  obtain bs where bs: "us \<noteq> []" "length bs = length us" "upd = Some (render_sets (zip (map fst us) bs))"
    "list_all bind_ok bs" "list_all ident (map fst us)" "distinct (map fst us)"
    "map (\<lambda>b. dget b vals) bs = map (Some \<circ> snd) us"
    using assms(1) by (auto simp: update_means_def)
  let ?f = "\<lambda>(n, b). n @ '' = '' @ b"
  let ?ps = "map ?f (zip (map fst us) bs)"
  have ne: "?ps \<noteq> []" using bs(1,2) by (cases us; cases bs) auto
  have nb: "ident n \<and> bind_ok b" if "(n, b) \<in> set (zip (map fst us) bs)" for n b
    using that bs(4,5) set_zip_leftD set_zip_rightD by (fastforce simp: list_all_iff)
  have "drop 3 (render_sets (zip (map fst us) bs)) = join_str '','' (map ((@) '' '') ?ps)"
    using join_spaced [OF ne] by (simp add: render_sets_def)
  moreover have "split_str '','' (join_str '','' (map ((@) '' '') ?ps)) = map ((@) '' '') ?ps"
    using ne nb ident_plain(3) bind_plain(3) by (intro split_join) fastforce+
  moreover have "prefix ''SET '' (render_sets (zip (map fst us) bs))" by (simp add: render_sets_def)
  ultimately obtain u0 where u0: "parse_all (parse_assignment r vals) (map ((@) '' '') ?ps) = Some u0" "u = dupdate [] u0"
    using assms(2) by (auto simp: collect_updates_def bs(3))
  let ?g = "\<lambda>(n, b). '' '' @ n @ '' = '' @ b"
  have g: "map ((@) '' '') ?ps = map ?g (zip (map fst us) bs)" by auto
  have "parse_all (parse_assignment r vals) (map ?g (zip (map fst us) bs)) = Some u0"
    using u0(1) unfolding g .
  then have "u0 = us" using bs(2,4,5,7)
  proof (induction us arbitrary: bs u0)
    case (Cons p us)
    obtain b bs' where b: "bs = b # bs'" using Cons.prems(2) by (cases bs) auto
    obtain n v where p: "p = (n, v)" by fastforce
    have i: "ident n" "bind_ok b" "dget b vals = Some v" using Cons.prems by (auto simp: b p)
    obtain x u1 where x: "parse_assignment r vals ('' '' @ n @ '' = '' @ b) = Some x" "u0 = x # u1"
      "parse_all (parse_assignment r vals) (map ?g (zip (map fst us) bs')) = Some u1"
      using Cons.prems(1) by (simp add: b p split: option.splits) blast
    have "x = (n, v)" by (rule parse_assignment_render [OF i x(1)])
    moreover have "u1 = us" by (rule Cons.IH [OF x(3)]) (use Cons.prems in \<open>auto simp: b\<close>)
    ultimately show ?case using x(2) p by simp
  qed simp
  moreover have "dupdate [] us = us" using dupdate_fresh [of us "[]"] bs(6) by (simp add: dkeys_def)
  ultimately show ?thesis using u0(2) by simp
qed

section \<open>The service satisfies the contract\<close>

lemma find_filter_other:
  "(\<And>x. P x \<Longrightarrow> Q x) \<Longrightarrow> List.find P (filter Q xs) = List.find P xs"
  by (induction xs) auto

lemma find_filter_not: "List.find P (filter (\<lambda>x. \<not> P x) xs) = None"
  by (induction xs) auto

lemma mem_lookup_store:
  assumes "case i of None \<Rightarrow> True | Some x \<Rightarrow> addr_of (mc_keys cf) (fst a) x = a"
  shows "mem_lookup cf b (mem_store cf a i db) = (if b = a then i else mem_lookup cf b db)"
proof (cases i)
  case None
  then show ?thesis
    by (auto simp: mem_lookup_def mem_store_def find_filter_not)
       (auto simp: mem_matches_def intro!: arg_cong [of _ _ "map_option snd"] find_filter_other)
next
  case (Some x)
  then have "List.find (mem_matches cf b) (filter (\<lambda>ti. \<not> mem_matches cf a ti) db) = List.find (mem_matches cf b) db"
    if "b \<noteq> a" using that by (intro find_filter_other) (auto simp: mem_matches_def)
  then show ?thesis using Some assms
    by (auto simp: mem_lookup_def mem_store_def mem_matches_def)
qed

lemma mem_lookup_addr: "mem_lookup cf a db = Some i \<Longrightarrow> addr_of (mc_keys cf) (fst a) i = a"
proof -
  assume "mem_lookup cf a db = Some i"
  then obtain ti where "List.find (mem_matches cf a) db = Some ti" "i = snd ti"
    by (auto simp: mem_lookup_def)
  then have "mem_matches cf a ti" by (auto simp: find_Some_iff)
  then show ?thesis using \<open>i = snd ti\<close> by (auto simp: mem_matches_def addr_of_def)
qed

lemma mem_view_store:
  assumes "case i of None \<Rightarrow> True | Some x \<Rightarrow> addr_of (mc_keys cf) (fst a) x = a" "None \<notin> set (snd a)"
  shows "mem_view cf (mem_store cf a i db) = (mem_view cf db)(a := map_option (\<lambda>i n. dget n i) i)"
  by (rule ext) (use assms(2) in \<open>simp add: mem_view_def mem_lookup_store [OF assms(1)]\<close>)

lemma key_of_eq: "\<forall>n\<in>set (ka t). dget n i = dget n j \<Longrightarrow> key_of ka t i = key_of ka t j"
  by (simp add: key_of_def)

lemma addr_ofI: "key_of ka t i = key_of ka t j \<Longrightarrow> addr_of ka t i = addr_of ka t j"
  by (simp add: addr_of_def)

lemma mem_plan_means:
  assumes "write_means (mc_keys cf) w s" "mem_plan cf w db = Some (a, e, new)" "None \<notin> set (ws_key s)"
  shows "a = ws_addr s" "cond_means e (ws_atoms s)"
    "case new of None \<Rightarrow> True | Some x \<Rightarrow> addr_of (mc_keys cf) (fst a) x = a"
    "map_option (\<lambda>i n. dget n i) new = ws_effect s (mem_view cf db a)"
proof -
  have "a = ws_addr s \<and> cond_means e (ws_atoms s) \<and>
    (case new of None \<Rightarrow> True | Some x \<Rightarrow> addr_of (mc_keys cf) (fst a) x = a) \<and>
    map_option (\<lambda>i n. dget n i) new = ws_effect s (mem_view cf db a)"
  proof (cases w)
    case (WPut p)
    then show ?thesis using assms(1,2) by (auto simp: ws_addr_def addr_of_def put_effect_def)
  next
    case (WDelete p)
    then show ?thesis using assms(1,2) by (auto simp: ws_addr_def addr_of_def)
  next
    case (WUpdate p)
    let ?t = "up_table p" and ?k = "up_key p" and ?ka = "mc_keys cf"
    let ?a = "addr_of ?ka ?t ?k"
    obtain us where us: "collect_updates (mc_reserved cf) (up_update p) (vals_of (up_expr p)) = Some us"
      and pl: "a = ?a" "e = up_expr p" "new = Some (case mem_lookup cf ?a db of
        None \<Rightarrow> dupdate (dupdate [] us) ?k | Some i \<Rightarrow> dupdate i us)"
      using assms(2) WUpdate by (auto simp: Let_def)
    obtain us' where u: "update_means (up_update p) (vals_of (up_expr p)) us'"
      "set (map fst us') \<inter> set (dkeys ?k) = {}" "ws_effect s = update_effect ?k us'"
      and w: "ws_table s = ?t" "ws_key s = key_of ?ka ?t ?k" "set (dkeys ?k) = set (?ka ?t)" "distinct (dkeys ?k)"
      "cond_means (up_expr p) (ws_atoms s)"
      using assms(1) WUpdate by auto
    have eq: "us = us'" using collect_render [OF u(1) us] by simp
    have dus: "distinct (dkeys us)" using u(1) eq by (auto simp: update_means_def dkeys_def)
    have rus: "dget n (rev us) = dget n us" for n using dget_rev [OF dus] .
    have fresh: "dget n us = None" if "n \<in> set (?ka ?t)" for n
      using that u(2) w(3) eq by (auto simp: dget_None_iff dkeys_def)
    have kk: "dget n (rev ?k) = dget n ?k" for n using dget_rev [OF w(4)] .
    have a: "ws_addr s = ?a" using w by (simp add: ws_addr_def addr_of_def)
    have v: "mem_view cf db ?a = map_option (\<lambda>i n. dget n i) (mem_lookup cf ?a db)"
      using assms(3) w(2) by (simp add: mem_view_def addr_of_def)
    show ?thesis
    proof (cases "mem_lookup cf ?a db")
      case None
      let ?n = "dupdate (dupdate [] us) ?k"
      have g: "dget n ?n = (case dget n ?k of None \<Rightarrow> dget n us | Some x \<Rightarrow> Some x)" for n
        by (simp add: dget_dupdate kk rus split: option.splits)
      have "key_of ?ka ?t ?n = key_of ?ka ?t ?k"
        using fresh by (intro key_of_eq) (auto simp: g split: option.splits)
      moreover have "(\<lambda>n. dget n ?n) = (\<lambda>n. dget n ?k) ++ map_of us"
      proof
        fix n show "dget n ?n = ((\<lambda>n. dget n ?k) ++ map_of us) n"
          using fresh [of n] w(3) dget_None_iff [of n ?k]
          by (auto simp: g map_add_def dget_def [of n us, symmetric] split: option.splits)
      qed
      ultimately show ?thesis using None pl a w(5) u(3) eq v
        by (auto simp: update_effect_def addr_of_def)
    next
      case (Some i)
      let ?n = "dupdate i us"
      have g: "dget n ?n = (case dget n us of None \<Rightarrow> dget n i | Some x \<Rightarrow> Some x)" for n
        by (simp add: dget_dupdate rus)
      have "key_of ?ka ?t i = key_of ?ka ?t ?k" using mem_lookup_addr [OF Some] by (simp add: addr_of_def)
      moreover have "key_of ?ka ?t ?n = key_of ?ka ?t i" using fresh by (intro key_of_eq) (simp add: g)
      moreover have "(\<lambda>n. dget n ?n) = (\<lambda>n. dget n i) ++ map_of us"
        by (rule ext) (simp add: g map_add_def dget_def [of _ us, symmetric] split: option.splits)
      ultimately show ?thesis using Some pl a w(5) u(3) eq v
        by (auto simp: update_effect_def addr_of_def)
    qed
  qed
  then show "a = ws_addr s" "cond_means e (ws_atoms s)"
    "case new of None \<Rightarrow> True | Some x \<Rightarrow> addr_of (mc_keys cf) (fst a) x = a"
    "map_option (\<lambda>i n. dget n i) new = ws_effect s (mem_view cf db a)" by auto
qed

lemma mem_sem_ok: "None \<notin> set (snd (ws_addr s)) \<Longrightarrow>
  sem_ok (mem_view cf db) s \<longleftrightarrow> list_all (\<lambda>a. sat a (\<lambda>n. dget n (case mem_lookup cf (ws_addr s) db of None \<Rightarrow> [] | Some i \<Rightarrow> i))) (ws_atoms s)"
  by (simp add: sem_ok_def mem_view_def row_map_def split: option.splits)

lemma mem_write_means:
  assumes "mem_write cf w db = (r, db')" "write_means (mc_keys cf) w s" "mem_kok cf (ws_addr s)"
  shows "case r of
      Inr old \<Rightarrow> sem_ok (mem_view cf db) s \<and> mem_view cf db' = sem_apply s (mem_view cf db) \<and>
        old = mem_lookup cf (ws_addr s) db
    | Inl e \<Rightarrow> db' = db \<and> (e = validation_error \<or> e = cond_failed \<and> \<not> sem_ok (mem_view cf db) s)"
proof (cases "mem_plan cf w db")
  case None
  then show ?thesis using assms(1) by (auto simp: mem_write_def)
next
  case (Some x)
  obtain a e new where x: "x = (a, e, new)" by (cases x)
  have k: "None \<notin> set (snd (ws_addr s))" "None \<notin> set (ws_key s)"
    using assms(3) by (simp_all add: mem_kok_def ws_addr_def)
  note m = mem_plan_means [OF assms(2) Some [unfolded x] k(2)]
  show ?thesis
  proof (cases "parse_conditions (mc_reserved cf) (ep_cond e)")
    case None
    then show ?thesis using assms(1) Some x k(1) m(1) by (auto simp: mem_write_def)
  next
    case (Some cs)
    note v = mem_validate [OF m(2) Some, of "case mem_lookup cf (ws_addr s) db of None \<Rightarrow> [] | Some i \<Rightarrow> i"]
    have st: "mem_view cf (mem_store cf a new db) = sem_apply s (mem_view cf db)"
      using mem_view_store [OF m(3), of db] k(1) m(1,4) by (simp add: sem_apply_def)
    show ?thesis using assms(1) Some x \<open>mem_plan cf w db = Some x\<close> k(1) m(1) v st mem_sem_ok [OF k(1), of cf db]
      by (auto simp: mem_write_def split: bool.splits)
  qed
qed

lemma mem_errors:
  "handle_exception cond_failed = PreconditionFailed" "handle_exception validation_error = DynamoDbValidation"
  "handle_exception (transaction_cancelled codes) = TransactionCancelled (map (\<lambda>c. new_cancel_reason (c, None)) codes)"
  by code_simp (code_simp, simp add: handle_exception_def is_not_found_exception_def is_exception_def
      transaction_cancelled_def)

lemma sem_ok_other: "ws_addr s \<noteq> ws_addr s' \<Longrightarrow> sem_ok (sem_apply s v) s' = sem_ok v s'"
  by (simp add: sem_ok_def sem_apply_def)

lemma mem_transact_means:
  assumes "list_all2 (write_means (mc_keys cf)) ws ss" "list_all (mem_kok cf \<circ> ws_addr) ss" "distinct (map ws_addr ss)"
  shows "case mem_transact cf ws db of
      Inr db' \<Rightarrow> list_all (sem_ok (mem_view cf db)) ss \<and> mem_view cf db' = fold sem_apply ss (mem_view cf db)
    | Inl (e, i) \<Rightarrow> i < length ws \<and> (e = validation_error \<or> e = cond_failed \<and> \<not> sem_ok (mem_view cf db) (ss ! i))"
  using assms
proof (induction arbitrary: db rule: list_all2_induct)
  case (Cons w ws s ss)
  obtain r db1 where r: "mem_write cf w db = (r, db1)" by fastforce
  have k: "mem_kok cf (ws_addr s)" using Cons.prems by simp
  note m = mem_write_means [OF r Cons.hyps(1) k]
  show ?case
  proof (cases r)
    case (Inl e)
    then show ?thesis using m r by auto
  next
    case (Inr x)
    then have v: "mem_view cf db1 = sem_apply s (mem_view cf db)" and ok: "sem_ok (mem_view cf db) s"
      using m by auto
    have o: "sem_ok (mem_view cf db1) s' = sem_ok (mem_view cf db) s'" if "s' \<in> set ss" for s'
      unfolding v using Cons.prems that by (intro sem_ok_other) auto
    have IH: "case mem_transact cf ws db1 of
        Inr db' \<Rightarrow> list_all (sem_ok (mem_view cf db1)) ss \<and> mem_view cf db' = fold sem_apply ss (mem_view cf db1)
      | Inl (e, i) \<Rightarrow> i < length ws \<and> (e = validation_error \<or> e = cond_failed \<and> \<not> sem_ok (mem_view cf db1) (ss ! i))"
      using Cons.IH Cons.prems by simp
    have len: "length ss = length ws" using Cons.hyps(2) by (simp add: list_all2_lengthD)
    show ?thesis
    proof (cases "mem_transact cf ws db1")
      case (Inl ei)
      then show ?thesis using IH r Inr o len by (cases ei) auto
    next
      case (Inr db2)
      then show ?thesis using IH r \<open>r = Inr x\<close> v ok o by (auto simp: list_all_iff)
    qed
  qed
qed simp

lemma mem_transact_reasons:
  assumes "c_transact_write_items (mem_client cf) ws db = (Inl e, db')" "handle_exception e = TransactionCancelled rs"
    "case mem_transact cf ws db of Inr _ \<Rightarrow> True | Inl (e, i) \<Rightarrow> i < length ws \<and> (e = validation_error \<or> e = cond_failed \<and> P i)"
  shows "length rs = length ws \<and> (\<exists>r\<in>set rs. cr_code r \<noteq> None) \<and>
    (\<forall>i<length rs. cr_code (rs ! i) \<noteq> None \<longrightarrow> cr_code (rs ! i) = Some ''ConditionalCheckFailed'' \<and> P i)"
proof -
  let ?codes = "\<lambda>i. (replicate (length ws) ''None'')[i := ''ConditionalCheckFailed'']"
  obtain i where i: "mem_transact cf ws db = Inl (cond_failed, i)" "i < length ws" "P i"
    and e: "e = transaction_cancelled (?codes i)"
    using assms mem_errors by (auto simp: mem_client_def mem_transact_write_def split: sum.splits if_splits)
  have rs: "rs = map (\<lambda>c. new_cancel_reason (c, None)) (?codes i)"
    using assms(2) unfolding e mem_errors by simp
  have "\<forall>j<length ws. cr_code (rs ! j) = (if j = i then Some ''ConditionalCheckFailed'' else None)"
    by (simp add: rs new_cancel_reason_def)
  moreover have len: "length rs = length ws" by (simp add: rs)
  moreover have "rs ! i \<in> set rs" using i(2) len by simp
  ultimately show ?thesis using i(2,3) by (intro conjI bexI [of _ "rs ! i"]) auto
qed

lemma mem_c_write: "c_write (mem_client cf) w db = (r, db') \<Longrightarrow>
    (\<exists>r0. mem_write cf w db = (r0, db') \<and> ((\<forall>e. r = Inl e \<longleftrightarrow> r0 = Inl e) \<and> ((\<exists>x. r = Inr x) \<longleftrightarrow> (\<exists>x. r0 = Inr x))))"
  by (cases w) (auto simp: mem_client_def map_sum_id_Inr split: prod.splits sum.splits)

lemma mem_transact_bad:
  assumes "list_all2 (write_means (mc_keys cf)) ws ss" "list_all (mem_kok cf \<circ> ws_addr) ss" "distinct (map ws_addr ss)"
  shows "case mem_transact cf ws db of Inr _ \<Rightarrow> True | Inl (e, i) \<Rightarrow> i < length ws \<and>
    (e = validation_error \<or> e = cond_failed \<and> \<not> sem_ok (mem_view cf db) (ss ! i))"
proof (cases "mem_transact cf ws db")
  case (Inl ei)
  then show ?thesis using mem_transact_means [OF assms, of db] by (cases ei) simp
qed simp

interpretation mem: calm_dynamo "mem_client cf" "mem_view cf" "mc_keys cf" "mem_kok cf" for cf
proof (unfold_locales, goal_cases)
  case (1 p d r d')
  then show ?case by (simp add: mem_client_def mem_get_def)
next
  case (2 p d r d')
  let ?a = "addr_of (mc_keys cf) (gp_table p) (gp_key p)"
  have "r = mem_lookup cf ?a d" using 2(1,3)
    by (cases "mem_lookup cf ?a d") (auto simp: mem_client_def mem_get_def)
  then show ?case using 2(5) by (simp add: mem_view_def mem_kok_def)
next
  case (3 d t k m)
  then obtain i where i: "mem_lookup cf (t, k) d = Some i" "m = (\<lambda>n. dget n i)"
    by (auto simp: mem_view_def split: if_splits)
  have "key_of (mc_keys cf) t i = k" using mem_lookup_addr [OF i(1)] by (simp add: addr_of_def)
  then show ?case using 3(2) i(2) by (simp add: key_of_def mem_kok_def)
next
  case (4 w d r d' s)
  from mem_c_write [OF 4(1)] obtain x where "mem_write cf w d = (Inr x, d')" by auto
  from mem_write_means [OF this 4(2,3)] show ?case by simp
next
  case (5 w d e d' s)
  from mem_c_write [OF 5(1)] have "mem_write cf w d = (Inl e, d')" by auto
  from mem_write_means [OF this 5(2,3)] show ?case by (auto simp: mem_errors)
next
  case (6 p d r d' s)
  then have "mem_write cf (WDelete p) d = (Inr r, d')" by (simp add: mem_client_def)
  from mem_write_means [OF this 6(3,4)] show ?case using 6(4)
    by (auto simp: mem_view_def mem_kok_def)
next
  case (7 ws d r d' ss)
  then show ?case using mem_transact_means [OF 7(2-4), of d]
    by (auto simp: mem_client_def mem_transact_write_def split: sum.splits if_splits)
next
  case (8 ws d e d' ss)
  then show ?case using mem_transact_means [OF 8(2-4), of d]
    by (auto simp: mem_client_def mem_transact_write_def split: sum.splits if_splits)
next
  case (9 ws d e d' ss rs)
  note P = mem_transact_bad [OF 9(2-4), of d]
  from mem_transact_reasons [OF 9(1,5) P] show ?case by (metis option.distinct(1))
next
  case (10 ws d e d' ss rs i)
  note P = mem_transact_bad [OF 10(2-4), of d]
  from mem_transact_reasons [OF 10(1,5) P] 10(6,7) show ?case by blast
qed

end
