(* ===== verification/Mem_Examples.thy ===== *)
theory Mem_Examples
  imports Mem_Dynamo
begin

text \<open>
  A repository on the service in memory: the witnesses of the properties of \<open>Aws_Repo\<close>.
\<close>

definition example_config :: mem_config where
  "example_config = \<lparr>mc_keys = (\<lambda>_. [''id'']), mc_reserved = [''name'']\<rparr>"

definition example_repo :: repo where
  "example_repo = \<lparr>r_table = ''T'', r_key = [PlainKey ''id''],
     r_state_counter = Some (PyStr ''stateCounter''), r_update_time = None, r_virtual = None\<rparr>"

definition example_world :: "mem_db \<Rightarrow> mem_db world" where
  "example_world d = \<lparr>w_db = d, w_clock = (\<lambda>n. 1700000000000 + int n), w_ticks = 0,
     w_uuid = (\<lambda>n. ''u'' @ int_str (int n)), w_uuids = 0, w_out = []\<rparr>"

definition example_entry :: row where
  "example_entry = [(''id'', PyInt 7), (''stateCounter'', PyInt 1), (''x'', PyStr ''a'')]"

definition example_stored :: "nat \<Rightarrow> ddb_item" where
  "example_stored n = [(''id'', Attr [NV ''7'']), (''stateCounter'', Attr [NV (int_str (int n))]), (''x'', Attr [SV ''a''])]"

definition example_client :: "mem_db ddb_client" where
  "example_client = mem_client example_config"

lemma example_dynamo: "dynamo example_client (mem_view example_config) (mc_keys example_config) (mem_kok example_config)"
  unfolding example_client_def by (rule mem.dynamo_axioms)

lemma example_create:
  "fst (create example_client example_repo example_entry (example_world [])) = Inr True"
  by code_simp

lemma example_prepare: "prepare_item example_repo example_entry = Inr example_entry"
  by code_simp

lemma example_ok: "repo_ok (mc_keys example_config) example_repo" "stored_item_ok example_repo example_entry"
    "mem_kok example_config (addr_of (mc_keys example_config) (r_table example_repo) (item_of example_entry))"
  by code_simp+

lemma create_never_overwrites_witness:
  "mem_view example_config [] (''T'', [Some (Attr [NV ''7''])]) = None \<and>
   mem_view example_config (w_db (snd (create example_client example_repo example_entry (example_world []))))
     (''T'', [Some (Attr [NV ''7''])]) \<noteq> None"
proof -
  let ?c = "create example_client example_repo example_entry (example_world [])"
  have a: "addr_of (mc_keys example_config) (r_table example_repo) (item_of example_entry) =
      (''T'', [Some (Attr [NV ''7''])])"
    by code_simp
  have "?c = (Inr True, snd ?c)" using example_create by (metis prod.collapse)
  from create_never_overwrites [OF example_dynamo this example_prepare example_ok]
  show ?thesis unfolding a Let_def by (simp add: example_world_def)
qed

text \<open>Two updates that start from the same counter: the second one is refused.\<close>

definition example_world1 :: "mem_db world" where
  "example_world1 = example_world [(''T'', example_stored 1)]"

definition example_patch :: row where
  "example_patch = [(''x'', PyStr ''b'')]"

definition example_parts :: "row \<times> row \<times> row" where
  "example_parts = ([(''id'', PyInt 7)], [(''x'', PyStr ''b''), (''stateCounter'', PyInt 2)], [(''stateCounter'', PyInt 1)])"

lemma example_parts_eq: "state_check_parts example_repo example_entry (Some example_patch) w = (Inr example_parts, w)"
  by (simp add: state_check_parts_def example_repo_def example_entry_def prepare_item_def example_patch_def
      succ_val_def dreq_def build_key_as_dict_def example_parts_def)

abbreviation example_update_run :: "mem_db world \<Rightarrow> (exn + unit) \<times> mem_db world" where
  "example_update_run \<equiv> update_with_state_check example_client example_repo example_entry (Some example_patch)"

lemma example_update: "fst (example_update_run example_world1) = Inr ()"
  by code_simp


end
