(* ===== verification/Http_Errors.thy ===== *)
theory Http_Errors
  imports Py_Strings
begin

text \<open>
  The HTTP exceptions of \<open>lambda_web_framework/web_exceptions.py\<close>, one definition per class (a
  class is the status code and the message its constructor gives), and the response they become.
\<close>

definition http_exception :: "int \<Rightarrow> string \<Rightarrow> string option \<Rightarrow> exn" where
  "http_exception code msg ec = HttpExn \<lparr>status_code = code, message = msg, http_headers = None,
     error_code = ec, http_body = None\<rparr>"

definition forbidden :: "string \<Rightarrow> exn" where
  "forbidden msg = http_exception 403 (''Forbidden: '' @ msg) None"

definition not_authorized :: "string \<Rightarrow> exn" where
  "not_authorized msg = http_exception 401 (''Not Authorized: '' @ msg) None"

definition not_found :: "string option \<Rightarrow> exn" where
  "not_found resource = http_exception 404 (''Resource Not Found'' @ (case resource of
     None \<Rightarrow> [] | Some r \<Rightarrow> if r \<noteq> [] then '': '' @ r else [])) None"

definition gone :: "string \<Rightarrow> exn" where
  "gone msg = http_exception 410 msg None"

definition method_not_allowed :: exn where
  "method_not_allowed = http_exception 415 ''Method not allowed'' None"

definition bad_request :: "string \<Rightarrow> string option \<Rightarrow> exn" where
  "bad_request msg ec = http_exception 400 msg ec"

definition conflict :: "string \<Rightarrow> string option \<Rightarrow> exn" where
  "conflict msg ec = http_exception 409 msg ec"

definition entity_exists :: "string \<Rightarrow> exn" where
  "entity_exists msg = http_exception 409 msg None"

definition quoted :: "string \<Rightarrow> string" where
  "quoted s = [CHR 0x27] @ s @ [CHR 0x27]"

definition missing_parameter :: "string \<Rightarrow> string \<Rightarrow> exn" where
  "missing_parameter parameter parameter_type =
     bad_request (''Missing '' @ parameter_type @ '' '' @ quoted parameter @ ''.'') None"

definition invalid_parameter :: "string \<Rightarrow> string \<Rightarrow> exn" where
  "invalid_parameter parameter msg =
     bad_request (quoted parameter @ '' is invalid: '' @ msg) (Some ''InvalidParameter'')"

definition http_to_response :: "http_error \<Rightarrow> row" where
  "http_to_response e =
     (let body = (case error_code e of
          Some c \<Rightarrow> [(''code'', PyStr c), (''message'', PyStr (message e)), (''errorMessage'', PyStr (message e))]
        | None \<Rightarrow> [(''errorMessage'', PyStr (message e))]);
        body = (case http_body e of None \<Rightarrow> body | Some b \<Rightarrow> dset ''response'' b body);
        result = [(''statusCode'', PyInt (status_code e)), (''body'', PyDict body)]
      in case http_headers e of
           Some h \<Rightarrow> if h \<noteq> [] then dset ''headers'' (PyDict (map (\<lambda>(k, v). (k, PyStr v)) h)) result else result
         | None \<Rightarrow> result)"

lemmas http_errors = http_exception_def forbidden_def not_authorized_def not_found_def gone_def
  method_not_allowed_def bad_request_def conflict_def entity_exists_def missing_parameter_def
  invalid_parameter_def

text \<open>The status of a response.\<close>

definition response_status :: "row \<Rightarrow> int option" where
  "response_status r = (case dget ''statusCode'' r of Some (PyInt i) \<Rightarrow> Some i | _ \<Rightarrow> None)"

lemma http_response_status: "response_status (http_to_response e) = Some (status_code e)"
  by (auto simp: response_status_def http_to_response_def Let_def split: option.splits)

end
