(* ===== verification/Entities.thy ===== *)
theory Entities
  imports World Http_Errors
begin

text \<open>
  The entities of the service (\<open>session/__init__.py\<close>, \<open>events/\<close>, \<open>pending_event/\<close>, \<open>tenant/\<close>,
  \<open>platform_channels.py\<close>), each with the row \<open>to_record\<close> writes and \<open>from_record\<close> reads. The
  classes annotate the types of their attributes, which the rows are taken to respect: an attribute
  of another type is a \<open>TypeError\<close> here, where Python would carry it on.
\<close>

section \<open>Reading the attributes of a row\<close>

definition int_at :: "string \<Rightarrow> row \<Rightarrow> exn + int" where
  "int_at k r = rbind (dreq k r) (\<lambda>v. case v of PyInt i \<Rightarrow> Inr i | _ \<Rightarrow> Inl TypeError)"

definition str_at :: "string \<Rightarrow> row \<Rightarrow> exn + string" where
  "str_at k r = rbind (dreq k r) (\<lambda>v. case v of PyStr s \<Rightarrow> Inr s | _ \<Rightarrow> Inl TypeError)"

definition bytes_at :: "string \<Rightarrow> row \<Rightarrow> exn + bytes" where
  "bytes_at k r = rbind (dreq k r) (\<lambda>v. case v of PyBytes b \<Rightarrow> Inr b | _ \<Rightarrow> Inl TypeError)"

definition opt_str :: "pyval option \<Rightarrow> exn + string option" where
  "opt_str v = (case v of None \<Rightarrow> Inr None | Some PyNone \<Rightarrow> Inr None | Some (PyStr s) \<Rightarrow> Inr (Some s) | _ \<Rightarrow> Inl TypeError)"

definition opt_int :: "pyval option \<Rightarrow> exn + int option" where
  "opt_int v = (case v of None \<Rightarrow> Inr None | Some PyNone \<Rightarrow> Inr None | Some (PyInt i) \<Rightarrow> Inr (Some i) | _ \<Rightarrow> Inl TypeError)"

definition val_str :: "string option \<Rightarrow> pyval" where
  "val_str v = (case v of None \<Rightarrow> PyNone | Some s \<Rightarrow> PyStr s)"

definition val_int :: "int option \<Rightarrow> pyval" where
  "val_int v = (case v of None \<Rightarrow> PyNone | Some s \<Rightarrow> PyInt s)"

definition set_if_not_none :: "string \<Rightarrow> string option \<Rightarrow> row \<Rightarrow> row" where
  "set_if_not_none k v r = (case v of None \<Rightarrow> r | Some s \<Rightarrow> dset k (PyStr s) r)"

text \<open>\<open>t or get_system_time_in_millis()\<close>\<close>

definition time_or_now :: "int option \<Rightarrow> ('d, int) io" where
  "time_or_now t = (case t of None \<Rightarrow> get_system_time_in_millis
     | Some i \<Rightarrow> if i = 0 then get_system_time_in_millis else ret i)"

definition time_or :: "int option \<Rightarrow> int \<Rightarrow> int" where
  "time_or t d = (case t of None \<Rightarrow> d | Some i \<Rightarrow> if i = 0 then d else i)"

lemmas at_defs = int_at_def str_at_def bytes_at_def opt_str_def opt_int_def dreq_def

lemma opt_str_val [simp]: "opt_str (Some (val_str v)) = Inr v"
  and opt_int_val [simp]: "opt_int (Some (val_int i)) = Inr i"
  by (auto simp: opt_str_def opt_int_def val_str_def val_int_def split: option.splits)

lemma at_Inr: "int_at k r = Inr i \<longleftrightarrow> dget k r = Some (PyInt i)"
    "str_at k r = Inr t \<longleftrightarrow> dget k r = Some (PyStr t)"
    "bytes_at k r = Inr b \<longleftrightarrow> dget k r = Some (PyBytes b)"
  by (auto simp: at_defs rbind_def split: option.splits pyval.splits)

section \<open>Enumerations\<close>

datatype session_status = PENDING | ACTIVE | FAILED

fun status_value :: "session_status \<Rightarrow> string" where
  "status_value PENDING = ''P''"
| "status_value ACTIVE = ''A''"
| "status_value FAILED = ''F''"

definition map_session_status :: "string \<Rightarrow> exn + session_status" where
  "map_session_status s = (if s = ''P'' then Inr PENDING else if s = ''A'' then Inr ACTIVE
     else if s = ''F'' then Inr FAILED else Inl NotImplementedError)"

datatype context_type = WEB | LIVE_AGENT | PUSH_NOTIFIER

fun context_value :: "context_type \<Rightarrow> string" where
  "context_value WEB = ''W''"
| "context_value LIVE_AGENT = ''L''"
| "context_value PUSH_NOTIFIER = ''P''"

datatype event_type = SESSION_CREATED | SESSION_ACTIVATED | SESSION_UPDATED | SESSION_TOUCHED
  | SESSION_DELETED | PUSH_NOTIFICATION | PRESENCE_STATUS_SET | WORK_ACCEPTED | WORK_DECLINED
  | WORK_CLOSED | MESSAGE_SENT

fun event_type_value :: "event_type \<Rightarrow> string" where
  "event_type_value SESSION_CREATED = ''SC''"
| "event_type_value SESSION_ACTIVATED = ''SA''"
| "event_type_value SESSION_UPDATED = ''SU''"
| "event_type_value SESSION_TOUCHED = ''ST''"
| "event_type_value SESSION_DELETED = ''SD''"
| "event_type_value PUSH_NOTIFICATION = ''PN''"
| "event_type_value PRESENCE_STATUS_SET = ''SS''"
| "event_type_value WORK_ACCEPTED = ''WA''"
| "event_type_value WORK_DECLINED = ''WD''"
| "event_type_value WORK_CLOSED = ''WC''"
| "event_type_value MESSAGE_SENT = ''MS''"

datatype tenant_context_type = X1440

fun tenant_context_value :: "tenant_context_type \<Rightarrow> string" where
  "tenant_context_value X1440 = ''X''"

text \<open>
  \<open>utils/enum_utils.py\<close>: the reverse table of an enumeration, and the lookup in it. The table is
  built once and kept in the class, which does not show.
\<close>

definition build_value_table :: "('e \<Rightarrow> string) \<Rightarrow> 'e list \<Rightarrow> (string, 'e) dict" where
  "build_value_table value members = fold (\<lambda>v. dset (value v) v) members []"

definition value_of_enum :: "('e \<Rightarrow> string) \<Rightarrow> 'e list \<Rightarrow> string \<Rightarrow> string option \<Rightarrow> exn + 'e option" where
  "value_of_enum value members s thing = (case dget s (build_value_table value members) of
     Some v \<Rightarrow> Inr (Some v)
   | None \<Rightarrow> (case thing of None \<Rightarrow> Inr None
      | Some t \<Rightarrow> Inl (ValueError (''Invalid '' @ t @ '': '' @ quoted s @ ''.''))))"

definition member_of :: "exn + 'e option \<Rightarrow> exn + 'e" where
  "member_of r = rbind r (\<lambda>v. case v of None \<Rightarrow> Inl AttributeError | Some e \<Rightarrow> Inr e)"

definition context_type_of :: "string \<Rightarrow> exn + context_type" where
  "context_type_of s = member_of (value_of_enum context_value [WEB, LIVE_AGENT, PUSH_NOTIFIER] s (Some ''context type''))"

definition event_types :: "event_type list" where
  "event_types = [SESSION_CREATED, SESSION_ACTIVATED, SESSION_UPDATED, SESSION_TOUCHED,
     SESSION_DELETED, PUSH_NOTIFICATION, PRESENCE_STATUS_SET, WORK_ACCEPTED, WORK_DECLINED,
     WORK_CLOSED, MESSAGE_SENT]"

definition event_type_of :: "string \<Rightarrow> exn + event_type" where
  "event_type_of s = member_of (value_of_enum event_type_value event_types s (Some ''Event Type''))"

definition tenant_context_type_of :: "string \<Rightarrow> exn + tenant_context_type" where
  "tenant_context_type_of s = member_of (value_of_enum tenant_context_value [X1440] s (Some ''Tenant context type''))"

lemma build_value_table_get:
  "inj_on value (set members) \<Longrightarrow> v \<in> set members \<Longrightarrow> dget (value v) (build_value_table value members) = Some v"
proof (induction members rule: rev_induct)
  case (snoc m ms)
  then show ?case by (cases "v = m") (auto simp: build_value_table_def inj_on_def)
qed simp

lemma value_of_value [simp]:
  "map_session_status (status_value st) = Inr st" "context_type_of (context_value c) = Inr c"
  "event_type_of (event_type_value e) = Inr e" "tenant_context_type_of (tenant_context_value t) = Inr t"
proof -
  show "map_session_status (status_value st) = Inr st" by (cases st) (simp_all add: map_session_status_def)
  have "inj_on context_value (set [WEB, LIVE_AGENT, PUSH_NOTIFIER])" "c \<in> set [WEB, LIVE_AGENT, PUSH_NOTIFIER]"
    by (simp_all add: inj_on_def, cases c, simp_all)
  from build_value_table_get [OF this] show "context_type_of (context_value c) = Inr c"
    by (simp add: context_type_of_def value_of_enum_def member_of_def)
  have "inj_on event_type_value (set event_types)" "e \<in> set event_types"
    by (simp_all add: inj_on_def event_types_def, cases e, simp_all)
  from build_value_table_get [OF this] show "event_type_of (event_type_value e) = Inr e"
    by (simp add: event_type_of_def value_of_enum_def member_of_def)
  show "tenant_context_type_of (tenant_context_value t) = Inr t"
    by (cases t) (simp add: tenant_context_type_of_def value_of_enum_def build_value_table_def member_of_def)
qed

section \<open>Platform channels\<close>

text \<open>The keys of \<open>_CHANNELS\<close>: the two channels the module makes.\<close>

definition channels :: "string list" where
  "channels = [''omni'', ''x1440'']"

definition omni_platform :: string where
  "omni_platform = ''omni''"

definition get_platform_channel :: "string \<Rightarrow> exn + string" where
  "get_platform_channel name = (if lower name \<in> set channels then Inr (lower name)
     else Inl (bad_request (''Channel type '' @ quoted name @ '' is invalid. Must be one of ''
            @ join_str '', '' channels @ ''.'') None))"

definition assert_valid_platform_channel :: "string \<Rightarrow> exn + bool" where
  "assert_valid_platform_channel name = rbind (get_platform_channel name) (\<lambda>_. Inr True)"

definition deserialize_platform_channels :: "row \<Rightarrow> string list" where
  "deserialize_platform_channels record =
     filter (\<lambda>c. case dget (''pt_'' @ c) record of None \<Rightarrow> False | Some v \<Rightarrow> truthy v) channels"

definition serialize_platform_channels :: "string list \<Rightarrow> row \<Rightarrow> row" where
  "serialize_platform_channels types record = fold (\<lambda>pt. dset (''pt_'' @ pt) (PyBool True)) types record"

lemma dget_serialize:
  "dget k (serialize_platform_channels ts r) =
     (if \<exists>t\<in>set ts. k = ''pt_'' @ t then Some (PyBool True) else dget k r)"
proof (induction ts rule: rev_induct)
  case (snoc t ts)
  then show ?case by (auto simp: serialize_platform_channels_def)
qed (simp add: serialize_platform_channels_def)

section \<open>Sessions\<close>

record user_session =
  us_tenant_id :: int
  us_user_id :: string
  us_session_id :: string
  us_fcm_device_token :: "string option"
  us_time_created :: int

definition user_session_to_record :: "user_session \<Rightarrow> row" where
  "user_session_to_record u = [(''tenantId'', PyInt (us_tenant_id u)), (''userId'', PyStr (us_user_id u)),
     (''sessionId'', PyStr (us_session_id u)), (''fcmDeviceToken'', val_str (us_fcm_device_token u)),
     (''timeCreated'', PyInt (us_time_created u))]"

definition user_session_from_record :: "row \<Rightarrow> exn + user_session" where
  "user_session_from_record r =
     rbind (int_at ''tenantId'' r) (\<lambda>t. rbind (str_at ''userId'' r) (\<lambda>u. rbind (str_at ''sessionId'' r) (\<lambda>s.
     rbind (rbind (dreq ''fcmDeviceToken'' r) (\<lambda>v. opt_str (Some v))) (\<lambda>f. rbind (int_at ''timeCreated'' r) (\<lambda>c.
     Inr \<lparr>us_tenant_id = t, us_user_id = u, us_session_id = s, us_fcm_device_token = f, us_time_created = c\<rparr>)))))"

record session_key =
  k_tenant_id :: int
  k_session_id :: string

definition session_key_str :: "session_key \<Rightarrow> string" where
  "session_key_str k = int_str (k_tenant_id k) @ ''#'' @ k_session_id k"

definition to_key_dict :: "session_key \<Rightarrow> row" where
  "to_key_dict k = [(''tenantId'', PyInt (k_tenant_id k)), (''sessionId'', PyStr (k_session_id k))]"

definition key_of_args :: "int \<Rightarrow> string \<Rightarrow> session_key" where
  "key_of_args t s = \<lparr>k_tenant_id = t, k_session_id = s\<rparr>"

definition key_from_dict :: "row \<Rightarrow> exn + session_key" where
  "key_from_dict r = rbind (int_at ''tenantId'' r) (\<lambda>t. rbind (str_at ''sessionId'' r) (\<lambda>s. Inr (key_of_args t s)))"

record session =
  s_org_id :: string
  s_tenant_id :: int
  s_session_id :: string
  s_time_created :: int
  s_user_id :: string
  s_instance_url :: string
  s_access_token :: string
  s_fcm_device_token :: "string option"
  s_expiration_seconds :: int
  s_channel_platform_types :: "string list"
  s_state_counter :: int
  s_update_time :: int
  s_status :: session_status
  s_failure_message :: "string option"
  s_expiration_time :: "int option"

definition new_session :: "session \<Rightarrow> int option \<Rightarrow> int option \<Rightarrow> ('d, session) io" where
  "new_session s time_created update_time = bnd (time_or_now time_created) (\<lambda>tc.
     ret (s\<lparr>s_time_created := tc, s_update_time := time_or update_time tc\<rparr>))"

definition key_of_session :: "session \<Rightarrow> session_key" where
  "key_of_session s = key_of_args (s_tenant_id s) (s_session_id s)"

definition has_live_agent_polling :: "session \<Rightarrow> bool" where
  "has_live_agent_polling s \<longleftrightarrow> omni_platform \<in> set (s_channel_platform_types s)"

definition session_set_failed :: "session \<Rightarrow> string \<Rightarrow> session" where
  "session_set_failed s msg = s\<lparr>s_status := FAILED, s_failure_message := Some msg\<rparr>"

definition can_replace_session :: "session \<Rightarrow> session \<Rightarrow> bool" where
  "can_replace_session s new \<longleftrightarrow> s_tenant_id s = s_tenant_id new \<and> s_user_id s = s_user_id new \<and>
     s_fcm_device_token s = s_fcm_device_token new"

definition should_replace_session :: "session \<Rightarrow> session \<Rightarrow> exn + bool" where
  "should_replace_session s new = (if can_replace_session s new then Inr (s_access_token s \<noteq> s_access_token new)
     else Inl AssertionError)"

definition session_to_record :: "session \<Rightarrow> row" where
  "session_to_record s = set_if_not_none ''failureMessage'' (s_failure_message s)
     (set_if_not_none ''fcmDeviceToken'' (s_fcm_device_token s)
       (serialize_platform_channels (s_channel_platform_types s)
         [(''orgId'', PyStr (s_org_id s)), (''tenantId'', PyInt (s_tenant_id s)), (''sessionId'', PyStr (s_session_id s)),
          (''timeCreated'', PyInt (s_time_created s)), (''userId'', PyStr (s_user_id s)),
          (''instanceUrl'', PyStr (s_instance_url s)), (''accessToken'', PyStr (s_access_token s)),
          (''expSeconds'', PyInt (s_expiration_seconds s)), (''stateCounter'', PyInt (s_state_counter s)),
          (''updateTime'', PyInt (s_update_time s)), (''sessionStatus'', PyStr (status_value (s_status s))),
          (''expireTime'', val_int (s_expiration_time s))]))"

definition to_user_session :: "session \<Rightarrow> user_session" where
  "to_user_session s = \<lparr>us_tenant_id = s_tenant_id s, us_user_id = s_user_id s, us_session_id = s_session_id s,
     us_fcm_device_token = s_fcm_device_token s, us_time_created = s_time_created s\<rparr>"

definition session_from_record :: "row \<Rightarrow> ('d, session) io" where
  "session_from_record r =
     bnd (lift_res (rbind (str_at ''orgId'' r) (\<lambda>org. rbind (int_at ''tenantId'' r) (\<lambda>ten.
       rbind (str_at ''sessionId'' r) (\<lambda>sid. rbind (int_at ''timeCreated'' r) (\<lambda>tc.
       rbind (str_at ''userId'' r) (\<lambda>uid. rbind (str_at ''instanceUrl'' r) (\<lambda>url.
       rbind (str_at ''accessToken'' r) (\<lambda>tok. rbind (opt_str (dget ''fcmDeviceToken'' r)) (\<lambda>fcm.
       rbind (int_at ''expSeconds'' r) (\<lambda>ex. rbind (int_at ''stateCounter'' r) (\<lambda>sc.
       rbind (int_at ''updateTime'' r) (\<lambda>ut. rbind (rbind (str_at ''sessionStatus'' r) map_session_status) (\<lambda>st.
       rbind (opt_str (dget ''failureMessage'' r)) (\<lambda>fm. rbind (opt_int (dget ''expireTime'' r)) (\<lambda>et.
       Inr \<lparr>s_org_id = org, s_tenant_id = ten, s_session_id = sid, s_time_created = tc, s_user_id = uid,
         s_instance_url = url, s_access_token = tok, s_fcm_device_token = fcm, s_expiration_seconds = ex,
         s_channel_platform_types = deserialize_platform_channels r, s_state_counter = sc, s_update_time = ut,
         s_status = st, s_failure_message = fm, s_expiration_time = et\<rparr>))))))))))))))))
       (\<lambda>s. new_session s (Some (s_time_created s)) (Some (s_update_time s)))"

definition verify_session_status :: "session \<Rightarrow> bool \<Rightarrow> bool \<Rightarrow> exn + unit" where
  "verify_session_status s pending_ok allow_failure =
     (if s_status s = ACTIVE then Inr ()
      else if s_status s = PENDING \<and> \<not> pending_ok
        then Inl (conflict ''The session is in the process of being created.'' (Some ''SessionCreationInProgress''))
      else if s_status s = FAILED \<and> \<not> allow_failure
        then Inl (conflict (''The session is in a failed state: '' @
               (case s_failure_message s of None \<Rightarrow> ''None'' | Some m \<Rightarrow> m)) (Some ''SessionInFailedState''))
      else Inr ())"

lemma pt_keys: "\<exists>t\<in>ts. k = CHR ''p'' # CHR ''t'' # CHR ''_'' # t \<Longrightarrow> prefix ''pt_'' k"
  by auto

text \<open>
  C29 (roundtrip). A session read back from its row is the session, but for its channels: they come
  back in the order of the channel table, without repetitions and without unknown names.
\<close>

theorem session_record_roundtrip:
  assumes "s_time_created s \<noteq> 0" "s_update_time s \<noteq> 0"
  shows "session_from_record (session_to_record s) w =
    (Inr (s\<lparr>s_channel_platform_types := filter (\<lambda>c. c \<in> set (s_channel_platform_types s)) channels\<rparr>), w)"
proof -
  have d: "deserialize_platform_channels (session_to_record s) =
      filter (\<lambda>c. c \<in> set (s_channel_platform_types s)) channels"
    by (auto simp: deserialize_platform_channels_def session_to_record_def dget_serialize set_if_not_none_def
        channels_def split: option.splits)
  show ?thesis using assms
    by (cases "s_fcm_device_token s"; cases "s_failure_message s")
       (auto simp: session_from_record_def d new_session_def time_or_now_def time_or_def,
        auto simp: at_defs session_to_record_def set_if_not_none_def dget_serialize val_int_def
          split: option.splits)
qed

definition example_session :: session where
  "example_session = \<lparr>s_org_id = ''o'', s_tenant_id = 7, s_session_id = ''s'', s_time_created = 5, s_user_id = ''u'',
     s_instance_url = ''i'', s_access_token = ''t'', s_fcm_device_token = None, s_expiration_seconds = 60,
     s_channel_platform_types = [''x1440'', ''omni'', ''fax''], s_state_counter = 1, s_update_time = 5, s_status = ACTIVE,
     s_failure_message = None, s_expiration_time = Some 9\<rparr>"

lemma session_record_roundtrip_witness:
  "\<forall>w :: unit world. session_from_record (session_to_record example_session) w =
    (Inr (example_session\<lparr>s_channel_platform_types := [''omni'', ''x1440'']\<rparr>), w)"
  by (simp add: session_record_roundtrip example_session_def channels_def)

end
