(* ===== verification/Text_Codec.thy ===== *)
theory Text_Codec
  imports Http_Errors
begin

text \<open>
  UTF-8 and base64 as the standard library has them, and the functions of \<open>utils/string_utils.py\<close>
  over them. Decoding is the state machine of \<open>binascii.a2b_base64\<close> (Python 3.11): it skips
  characters outside of the alphabet and stops at a complete padding; the strict mode refuses what
  the other skips. Code points above 255 are not modelled: \<open>utf8_decode\<close> refuses them.
\<close>

section \<open>UTF-8\<close>

definition byte_of :: "nat \<Rightarrow> byte" where
  "byte_of n = word_of_nat n"

fun utf8_encode :: "string \<Rightarrow> bytes" where
  "utf8_encode [] = []"
| "utf8_encode (c # cs) = (let n = (of_char c :: nat) in
     if n < 128 then byte_of n # utf8_encode cs
     else byte_of (192 + n div 64) # byte_of (128 + n mod 64) # utf8_encode cs)"

fun utf8_decode :: "bytes \<Rightarrow> string option" where
  "utf8_decode [] = Some []"
| "utf8_decode [b] = (if unat b < 128 then Some [char_of (unat b)] else None)"
| "utf8_decode (b # b2 # bs) =
     (if unat b < 128 then map_option ((#) (char_of (unat b))) (utf8_decode (b2 # bs))
      else if (unat b = 194 \<or> unat b = 195) \<and> 128 \<le> unat b2 \<and> unat b2 < 192
        then map_option ((#) (char_of ((unat b - 192) * 64 + (unat b2 - 128)))) (utf8_decode bs)
      else None)"

lemma unat_byte_of [simp]: "n < 256 \<Longrightarrow> unat (byte_of n) = n"
  by (simp add: byte_of_def unat_of_nat)

lemma byte_of_unat [simp]: "byte_of (unat b) = b"
  by (simp add: byte_of_def)

lemma utf8_decode_ascii: "unat b < 128 \<Longrightarrow> utf8_decode (b # bs) = map_option ((#) (char_of (unat b))) (utf8_decode bs)"
  by (cases bs) auto

lemma utf8_roundtrip: "utf8_decode (utf8_encode s) = Some s"
proof (induction s)
  case (Cons c cs)
  let ?n = "of_char c :: nat"
  have n: "?n < 256" using nat_of_char_less_256 [of c] by simp
  show ?case
  proof (cases "?n < 128")
    case True
    then show ?thesis using Cons utf8_decode_ascii [of "byte_of ?n"] n by (simp add: Let_def)
  next
    case False
    have "2 \<le> ?n div 64" "?n div 64 < 4" using n False by (simp_all add: less_mult_imp_div_less)
    then have d: "192 + ?n div 64 = 194 \<or> 192 + ?n div 64 = 195" "192 + ?n div 64 < 256" by linarith+
    have m: "128 + ?n mod 64 < 192" by simp
    have "char_of ((192 + ?n div 64 - 192) * 64 + (128 + ?n mod 64 - 128)) = c"
      by (simp add: div_mult_mod_eq)
    then show ?thesis using Cons False d m by (simp add: Let_def)
  qed
qed simp

section \<open>Base64\<close>

definition b64_char :: "bool \<Rightarrow> nat \<Rightarrow> char" where
  "b64_char url v = (if v < 26 then char_of (65 + v) else if v < 52 then char_of (71 + v)
     else if v < 62 then char_of (v - 4) else if v = 62 then (if url then CHR ''-'' else CHR ''+'')
     else (if url then CHR ''_'' else CHR ''/''))"

fun b64_encode :: "bool \<Rightarrow> bytes \<Rightarrow> string" where
  "b64_encode url [] = []"
| "b64_encode url [a] = (let n = unat a in [b64_char url (n div 4), b64_char url (n mod 4 * 16), CHR ''='', CHR ''=''])"
| "b64_encode url [a, b] = (let n = unat a; m = unat b in [b64_char url (n div 4),
     b64_char url (n mod 4 * 16 + m div 16), b64_char url (m mod 16 * 4), CHR ''=''])"
| "b64_encode url (a # b # c # bs) = (let n = unat a; m = unat b; k = unat c in
     b64_char url (n div 4) # b64_char url (n mod 4 * 16 + m div 16) #
     b64_char url (m mod 16 * 4 + k div 64) # b64_char url (k mod 64) # b64_encode url bs)"

definition b64_value :: "char \<Rightarrow> nat option" where
  "b64_value c = (let n = (of_char c :: nat) in
     if 65 \<le> n \<and> n \<le> 90 then Some (n - 65) else if 97 \<le> n \<and> n \<le> 122 then Some (n - 71)
     else if 48 \<le> n \<and> n \<le> 57 then Some (n + 4) else if c = CHR ''+'' then Some 62
     else if c = CHR ''/'' then Some 63 else None)"

text \<open>The position in the group of four, the number of pads, and the bits left over.\<close>

fun a2b :: "bool \<Rightarrow> string \<Rightarrow> nat \<Rightarrow> nat \<Rightarrow> bool \<Rightarrow> nat \<Rightarrow> bytes option" where
  "a2b strict [] quad pads padding left = (if quad = 0 then Some [] else None)"
| "a2b strict (c # cs) quad pads padding left =
     (if c = CHR ''='' then
        (if 2 \<le> quad \<and> 4 \<le> quad + Suc pads then (if strict \<and> cs \<noteq> [] then None else Some [])
         else a2b strict cs quad (if 2 \<le> quad then Suc pads else pads) True left)
      else (case b64_value c of
         None \<Rightarrow> if strict then None else a2b strict cs quad pads padding left
       | Some v \<Rightarrow>
           if strict \<and> padding then None
           else if quad = 0 then a2b strict cs 1 0 padding v
           else if quad = 1 then map_option ((#) (byte_of (left * 4 + v div 16))) (a2b strict cs 2 0 padding (v mod 16))
           else if quad = 2 then map_option ((#) (byte_of (left * 16 + v div 4))) (a2b strict cs 3 0 padding (v mod 4))
           else map_option ((#) (byte_of (left * 64 + v))) (a2b strict cs 0 0 padding 0)))"

definition b64decode :: "bool \<Rightarrow> string \<Rightarrow> bytes option" where
  "b64decode strict s = (if strict \<and> s \<noteq> [] \<and> hd s = CHR ''='' then None else a2b strict s 0 0 False 0)"

definition urlsafe_b64decode :: "string \<Rightarrow> bytes option" where
  "urlsafe_b64decode s = b64decode False (map (\<lambda>c. if c = CHR ''-'' then CHR ''+'' else if c = CHR ''_'' then CHR ''/'' else c) s)"

text \<open>The functions of \<open>string_utils\<close>; \<open>None\<close> for a value that is \<open>None\<close>.\<close>

definition encode_to_base64string :: "string \<Rightarrow> string" where
  "encode_to_base64string s = b64_encode False (utf8_encode s)"

definition encode_to_urlsafe_base64string :: "bytes \<Rightarrow> string" where
  "encode_to_urlsafe_base64string b = b64_encode True b"

definition decode_base64_to_bytes :: "string option \<Rightarrow> bool \<Rightarrow> exn + bytes option" where
  "decode_base64_to_bytes v fail_on_error = (case v of None \<Rightarrow> Inr None
     | Some s \<Rightarrow> (case b64decode True s of Some b \<Rightarrow> Inr (Some b)
        | None \<Rightarrow> if fail_on_error then Inl (ValueError s) else Inr None))"

definition decode_base64_to_string :: "string option \<Rightarrow> bool \<Rightarrow> exn + string option" where
  "decode_base64_to_string v fail_on_error = (case v of None \<Rightarrow> Inr None
     | Some s \<Rightarrow> (case Option.bind (b64decode True s) utf8_decode of Some b \<Rightarrow> Inr (Some b)
        | None \<Rightarrow> if fail_on_error then Inl (ValueError s) else Inr None))"

definition decode_urlsafe_base64_to_string :: "string option \<Rightarrow> bool \<Rightarrow> exn + string option" where
  "decode_urlsafe_base64_to_string v fail_on_error = (case v of None \<Rightarrow> Inr None
     | Some s \<Rightarrow> (case Option.bind (urlsafe_b64decode s) utf8_decode of Some b \<Rightarrow> Inr (Some b)
        | None \<Rightarrow> if fail_on_error then Inl (ValueError s) else Inr None))"

definition rstrip_char :: "char \<Rightarrow> string \<Rightarrow> string" where
  "rstrip_char c s = rev (dropWhile (\<lambda>x. x = c) (rev s))"

text \<open>\<open>to_json_string\<close>\<close>

fun to_json_string :: "pyval \<Rightarrow> exn + string" where
  "to_json_string PyNone = Inr ''null''"
| "to_json_string (PyStr s) = Inr s"
| "to_json_string (PyInt i) = Inr (int_str i)"
| "to_json_string (PyFloat t) = Inr t"
| "to_json_string (PyBool b) = Inr (if b then ''true'' else ''false'')"
| "to_json_string v = Inl (ValueError ''Unsupported type'')"

section \<open>Decoding what was encoded\<close>

definition std_char :: "char \<Rightarrow> char" where
  "std_char c = (if c = CHR ''-'' then CHR ''+'' else if c = CHR ''_'' then CHR ''/'' else c)"

definition ordc :: "char \<Rightarrow> nat" where
  "ordc c = of_char c"

lemma ordc_inj: "c = d \<longleftrightarrow> ordc c = ordc d"
  by (simp add: ordc_def)

lemma ordc_char_of [simp]: "n < 256 \<Longrightarrow> ordc (char_of n) = n"
  by (simp add: ordc_def)

lemma ordc_literals: "ordc (CHR ''='') = 61" "ordc (CHR ''-'') = 45" "ordc (CHR ''_'') = 95"
    "ordc (CHR ''+'') = 43" "ordc (CHR ''/'') = 47"
  by (simp_all add: ordc_def)

lemma ordc_b64_char:
  assumes "v < 64"
  shows "ordc (b64_char url v) = (if v < 26 then 65 + v else if v < 52 then 71 + v
     else if v < 62 then v - 4 else if v = 62 then (if url then 45 else 43) else (if url then 95 else 47))"
  using assms by (simp add: b64_char_def ordc_literals)

lemma ordc_std_char:
  "ordc (std_char c) = (if ordc c = 45 then 43 else if ordc c = 95 then 47 else ordc c)"
  by (simp add: std_char_def ordc_inj [of c] ordc_literals)

lemma b64_value_ordc: "b64_value c = (if 65 \<le> ordc c \<and> ordc c \<le> 90 then Some (ordc c - 65)
     else if 97 \<le> ordc c \<and> ordc c \<le> 122 then Some (ordc c - 71)
     else if 48 \<le> ordc c \<and> ordc c \<le> 57 then Some (ordc c + 4) else if ordc c = 43 then Some 62
     else if ordc c = 47 then Some 63 else None)"
  by (simp add: b64_value_def Let_def ordc_inj [of c] ordc_literals) (simp add: ordc_def)

lemma b64_char_value:
  assumes "v < 64"
  shows "b64_value (std_char (b64_char url v)) = Some v" "b64_char url v \<noteq> CHR ''=''"
    "std_char (b64_char url v) \<noteq> CHR ''=''" "b64_char False v = std_char (b64_char False v)"
proof -
  show "b64_value (std_char (b64_char url v)) = Some v"
    using assms by (auto simp add: b64_value_ordc ordc_std_char ordc_b64_char)
  show "b64_char url v \<noteq> CHR ''=''" "std_char (b64_char url v) \<noteq> CHR ''=''"
    "b64_char False v = std_char (b64_char False v)"
    using assms by (auto simp add: ordc_inj ordc_literals ordc_std_char ordc_b64_char)
qed

text \<open>The encoding without its padding.\<close>

fun b64_body :: "bool \<Rightarrow> bytes \<Rightarrow> string" where
  "b64_body url [] = []"
| "b64_body url [a] = (let n = unat a in [b64_char url (n div 4), b64_char url (n mod 4 * 16)])"
| "b64_body url [a, b] = (let n = unat a; m = unat b in [b64_char url (n div 4),
     b64_char url (n mod 4 * 16 + m div 16), b64_char url (m mod 16 * 4)])"
| "b64_body url (a # b # c # bs) = (let n = unat a; m = unat b; k = unat c in
     b64_char url (n div 4) # b64_char url (n mod 4 * 16 + m div 16) #
     b64_char url (m mod 16 * 4 + k div 64) # b64_char url (k mod 64) # b64_body url bs)"

lemma sextets:
  fixes a b c :: byte
  shows "unat a div 4 < 64" "unat a mod 4 * 16 < 64" "unat a mod 4 * 16 + unat b div 16 < 64"
    "unat b mod 16 * 4 < 64" "unat b mod 16 * 4 + unat c div 64 < 64" "unat c mod 64 < 64"
proof -
  have "unat a < 256" "unat b < 256" "unat c < 256"
    using unsigned_less [of a] unsigned_less [of b] unsigned_less [of c] by simp_all
  then have d: "unat a div 4 < 64" "unat b div 16 < 16" "unat c div 64 < 4" by (simp_all add: less_mult_imp_div_less)
  have "unat a mod 4 < 4" "unat b mod 16 < 16" by simp_all
  with d show "unat a div 4 < 64" "unat a mod 4 * 16 < 64" "unat a mod 4 * 16 + unat b div 16 < 64"
    "unat b mod 16 * 4 < 64" "unat b mod 16 * 4 + unat c div 64 < 64" "unat c mod 64 < 64" by linarith+
qed

lemma joined_sextets:
  fixes b c :: byte
  shows "unat b div 16 mod 16 = unat b div 16" "unat b div 16 div 16 = 0"
    "unat c div 64 mod 4 = unat c div 64" "unat c div 64 div 4 = 0"
proof -
  have "unat b < 256" "unat c < 256"
    using unsigned_less [of b] unsigned_less [of c] by simp_all
  then have d: "unat b div 16 < 16" "unat c div 64 < 4" by (simp_all add: less_mult_imp_div_less)
  then show "unat b div 16 mod 16 = unat b div 16" "unat b div 16 div 16 = 0"
    "unat c div 64 mod 4 = unat c div 64" "unat c div 64 div 4 = 0"
    by simp_all
qed

lemma a2b_value:
  "v < 64 \<Longrightarrow> a2b strict (std_char (b64_char url v) # cs) 0 pads False left = a2b strict cs 1 0 False v"
  "v < 64 \<Longrightarrow> a2b strict (std_char (b64_char url v) # cs) (Suc 0) pads False left =
     map_option ((#) (byte_of (left * 4 + v div 16))) (a2b strict cs 2 0 False (v mod 16))"
  "v < 64 \<Longrightarrow> a2b strict (std_char (b64_char url v) # cs) 2 pads False left =
     map_option ((#) (byte_of (left * 16 + v div 4))) (a2b strict cs 3 0 False (v mod 4))"
  "v < 64 \<Longrightarrow> a2b strict (std_char (b64_char url v) # cs) 3 pads False left =
     map_option ((#) (byte_of (left * 64 + v))) (a2b strict cs 0 0 False 0)"
  by (simp_all add: b64_char_value)

lemma a2b_body:
  "a2b False (map std_char (b64_body url bs) @ ''=='') 0 0 False 0 = Some bs"
  "a2b strict (map std_char (b64_encode url bs)) 0 0 False 0 = Some bs"
proof (induction url bs rule: b64_body.induct)
  case (1 url)
  { case 1 show ?case by simp next case 2 show ?case by simp }
next
  case (2 url a)
  { case 1 show ?case by (simp add: Let_def a2b_value sextets joined_sextets del: a2b.simps(2)) simp
  next case 2 show ?case
      by (simp add: Let_def a2b_value sextets joined_sextets std_char_def [of "CHR ''=''"] del: a2b.simps(2)) simp }
next
  case (3 url a b)
  { case 1 show ?case by (simp add: Let_def a2b_value sextets joined_sextets del: a2b.simps(2)) simp
  next case 2 show ?case
      by (simp add: Let_def a2b_value sextets joined_sextets std_char_def [of "CHR ''=''"] del: a2b.simps(2)) simp }
next
  case (4 url a b c bs)
  { case 1 show ?case using 4(1) by (simp add: Let_def a2b_value sextets joined_sextets del: a2b.simps(2))
  next case 2 show ?case using 4(2) by (simp add: Let_def a2b_value sextets joined_sextets del: a2b.simps(2)) }
qed

lemma encode_body: "\<exists>n. b64_encode url bs = b64_body url bs @ replicate n (CHR ''='')"
proof (induction url bs rule: b64_body.induct)
  case (2 url a) show ?case by (rule exI [of _ 2]) (simp add: Let_def numeral_2_eq_2)
next
  case (3 url a b) show ?case by (rule exI [of _ 1]) (simp add: Let_def)
qed (auto simp: Let_def)

lemma body_no_pad: "CHR ''='' \<notin> set (b64_body url bs)"
proof -
  have "b64_char url v \<noteq> CHR ''='' \<and> CHR ''='' \<noteq> b64_char url v" if "v < 64" for v
    using b64_char_value(2) [OF that, of url] by metis
  then show ?thesis
    by (induction url bs rule: b64_body.induct) (simp_all add: Let_def sextets)
qed

lemma rstrip_encode: "rstrip_char (CHR ''='') (b64_encode url bs) = b64_body url bs"
proof -
  obtain n where "b64_encode url bs = b64_body url bs @ replicate n (CHR ''='')" using encode_body by blast
  moreover have "dropWhile (\<lambda>x. x = CHR ''='') (replicate n (CHR ''='') @ rev (b64_body url bs)) = rev (b64_body url bs)"
    using body_no_pad [of url bs] by (induction n) (simp_all add: dropWhile_eq_self_iff hd_rev, metis last_in_set)
  ultimately show ?thesis by (simp add: rstrip_char_def)
qed

lemma body_not_padded: "\<not> suffix ''=='' (b64_body url bs)"
  using body_no_pad [of url bs] by (auto simp: suffix_def)

text \<open>A text that was encoded, stripped of its padding and padded again decodes to what it was.\<close>

lemma urlsafe_decode_stripped:
  "urlsafe_b64decode (rstrip_char (CHR ''='') (encode_to_urlsafe_base64string bs) @ ''=='') = Some bs"
proof -
  have "map (\<lambda>c. if c = CHR ''-'' then CHR ''+'' else if c = CHR ''_'' then CHR ''/'' else c) = map std_char"
    by (simp add: std_char_def fun_eq_iff)
  then show ?thesis using a2b_body(1) [of True bs]
    by (simp add: urlsafe_b64decode_def b64decode_def encode_to_urlsafe_base64string_def rstrip_encode std_char_def)
qed

lemma std_plain: "map std_char (b64_encode False bs) = b64_encode False bs"
proof -
  have "std_char (b64_char False v) = b64_char False v" if "v < 64" for v
    using b64_char_value(4) [OF that] by simp
  then show ?thesis
    by (induction False bs rule: b64_encode.induct) (simp_all add: Let_def sextets std_char_def [of "CHR ''=''"])
qed

text \<open>
  A text encoded as base64 decodes to itself, in the strict mode of the standard
  library too, which refuses characters and padding out of place.
\<close>

lemma base64_roundtrip: "decode_base64_to_string (Some (encode_to_base64string s)) b = Inr (Some s)"
proof -
  have "b64decode True (b64_encode False bs) = Some bs" for bs
  proof -
    have "hd (b64_encode False bs) \<noteq> CHR ''=''" if "bs \<noteq> []"
      using that b64_char_value(2) [OF sextets(1), of False]
      by (cases "(False, bs)" rule: b64_encode.cases) (simp_all add: Let_def)
    then show ?thesis using a2b_body(2) [of True False bs]
      by (cases "bs = []") (simp_all add: b64decode_def std_plain)
  qed
  then show ?thesis by (simp add: decode_base64_to_string_def encode_to_base64string_def utf8_roundtrip)
qed

end
