(* ===== verification/Json_Text.thy ===== *)
theory Json_Text
  imports Text_Codec
begin

text \<open>
  JSON as the module \<open>json\<close> of the standard library writes and reads it. Reading keeps the text of
  a number with a fraction or an exponent as it is written, and has no characters above 255: an
  escape for one makes the text unreadable here.
\<close>

section \<open>Writing\<close>

definition hex_char :: "nat \<Rightarrow> char" where
  "hex_char d = (if d < 10 then char_of (48 + d) else char_of (87 + d))"

definition json_char :: "char \<Rightarrow> string" where
  "json_char c = (let n = ordc c; bs = CHR 0x5C in
     if n = 34 then [bs, CHR 0x22] else if n = 92 then [bs, bs]
     else if n = 10 then [bs, CHR ''n''] else if n = 13 then [bs, CHR ''r''] else if n = 9 then [bs, CHR ''t'']
     else if n = 8 then [bs, CHR ''b''] else if n = 12 then [bs, CHR ''f'']
     else if n < 32 \<or> 126 < n then [bs, CHR ''u'', CHR ''0'', CHR ''0'', hex_char (n div 16), hex_char (n mod 16)]
     else [c])"

definition json_str :: "string \<Rightarrow> string" where
  "json_str s = CHR 0x22 # concat (map json_char s) @ [CHR 0x22]"

definition json_float :: "string \<Rightarrow> string" where
  "json_float t = (if t = ''inf'' then ''Infinity'' else if t = ''-inf'' then ''-Infinity''
     else if t = ''nan'' then ''NaN'' else t)"

text \<open>\<open>json.dumps\<close> with its default separators.\<close>

fun json_dumps :: "pyval \<Rightarrow> exn + string"
  and json_items :: "pyval list \<Rightarrow> exn + string list"
  and json_members :: "(string \<times> pyval) list \<Rightarrow> exn + string list"
where
  "json_dumps PyNone = Inr ''null''"
| "json_dumps (PyBool b) = Inr (if b then ''true'' else ''false'')"
| "json_dumps (PyInt i) = Inr (int_str i)"
| "json_dumps (PyFloat t) = Inr (json_float t)"
| "json_dumps (PyStr s) = Inr (json_str s)"
| "json_dumps (PyBytes b) = Inl TypeError"
| "json_dumps (PyOther t) = Inl TypeError"
| "json_dumps (PyList l) = rbind (json_items l) (\<lambda>xs. Inr (''['' @ join_str '', '' xs @ '']''))"
| "json_dumps (PyDict d) = rbind (json_members d) (\<lambda>xs. Inr (''{'' @ join_str '', '' xs @ ''}''))"
| "json_items [] = Inr []"
| "json_items (x # xs) = rbind (json_dumps x) (\<lambda>v. rbind (json_items xs) (\<lambda>vs. Inr (v # vs)))"
| "json_members [] = Inr []"
| "json_members ((k, x) # kxs) = rbind (json_dumps x) (\<lambda>v. rbind (json_members kxs) (\<lambda>vs. Inr ((json_str k @ '': '' @ v) # vs)))"

section \<open>Reading\<close>

definition skip_ws :: "string \<Rightarrow> string" where
  "skip_ws s = dropWhile (\<lambda>c. c \<in> {CHR '' '', CHR 0x09, CHR 0x0A, CHR 0x0D}) s"

definition json_hex :: "char \<Rightarrow> nat option" where
  "json_hex c = (let n = ordc c in
     if 48 \<le> n \<and> n \<le> 57 then Some (n - 48) else if 65 \<le> n \<and> n \<le> 70 then Some (n - 55)
     else if 97 \<le> n \<and> n \<le> 102 then Some (n - 87) else None)"

definition simple_escape :: "char \<Rightarrow> char option" where
  "simple_escape c = (if c = CHR 0x22 \<or> c = CHR 0x5C \<or> c = CHR ''/'' then Some c
     else if c = CHR ''b'' then Some (CHR 0x08) else if c = CHR ''f'' then Some (CHR 0x0C)
     else if c = CHR ''n'' then Some (CHR 0x0A) else if c = CHR ''r'' then Some (CHR 0x0D)
     else if c = CHR ''t'' then Some (CHR 0x09) else None)"

definition cons_first :: "'a \<Rightarrow> ('a list \<times> 'b) option \<Rightarrow> ('a list \<times> 'b) option" where
  "cons_first x r = map_option (\<lambda>(xs, b). (x # xs, b)) r"

text \<open>The rest of a string after its opening quote.\<close>

fun read_str :: "string \<Rightarrow> (string \<times> string) option" where
  "read_str [] = None"
| "read_str (c # cs) =
     (if c = CHR 0x22 then Some ([], cs)
      else if ordc c < 32 then None
      else if c = CHR 0x5C then (case cs of
          e # h1 # h2 # h3 # h4 # r \<Rightarrow>
            (if e = CHR ''u'' then (case (json_hex h1, json_hex h2, json_hex h3, json_hex h4) of
               (Some 0, Some 0, Some a, Some b) \<Rightarrow> cons_first (char_of (16 * a + b)) (read_str r) | _ \<Rightarrow> None)
             else (case simple_escape e of None \<Rightarrow> None
               | Some x \<Rightarrow> cons_first x (read_str (h1 # h2 # h3 # h4 # r))))
        | e # r \<Rightarrow> (case simple_escape e of None \<Rightarrow> None | Some x \<Rightarrow> cons_first x (read_str r))
        | [] \<Rightarrow> None)
      else cons_first c (read_str cs))"

text \<open>A number: digits without a leading zero, a fraction, an exponent.\<close>

definition read_number :: "string \<Rightarrow> (pyval \<times> string) option" where
  "read_number s =
     (let neg = prefix ''-'' s; t = (if neg then tl s else s);
          ip = (if prefix ''0'' t then ''0'' else takeWhile is_digit t); r = drop (length ip) t;
          fp = (if prefix ''.'' r then takeWhile is_digit (tl r) else []);
          frac = (if fp \<noteq> [] then CHR ''.'' # fp else []); r1 = drop (length frac) r;
          e = (if r1 \<noteq> [] \<and> (hd r1 = CHR ''e'' \<or> hd r1 = CHR ''E'') then
                 (let sg = (if tl r1 \<noteq> [] \<and> (hd (tl r1) = CHR ''-'' \<or> hd (tl r1) = CHR ''+'') then [hd (tl r1)] else []);
                      ds = takeWhile is_digit (drop (length sg) (tl r1))
                  in if ds \<noteq> [] then hd r1 # sg @ ds else []) else []);
          r2 = drop (length e) r1; minus = (if neg then ''-'' else [])
      in if ip = [] then None
         else if frac = [] \<and> e = [] then (case int_of_str (minus @ ip) of Inr i \<Rightarrow> Some (PyInt i, r2) | Inl _ \<Rightarrow> None)
         else Some (PyFloat (minus @ ip @ frac @ e), r2))"

text \<open>A value, with fuel for every character and every level of nesting.\<close>

fun read_value :: "nat \<Rightarrow> string \<Rightarrow> (pyval \<times> string) option"
  and read_items :: "nat \<Rightarrow> string \<Rightarrow> (pyval list \<times> string) option"
  and read_members :: "nat \<Rightarrow> string \<Rightarrow> ((string \<times> pyval) list \<times> string) option"
where
  "read_value 0 s = None"
| "read_value (Suc n) s =
     (if prefix [CHR 0x22] s then map_option (\<lambda>(t, r). (PyStr t, r)) (read_str (tl s))
      else if prefix ''{'' s then (let t = skip_ws (tl s) in
        if prefix ''}'' t then Some (PyDict [], tl t)
        else map_option (\<lambda>(m, r). (PyDict (dupdate [] m), r)) (read_members n t))
      else if prefix ''['' s then (let t = skip_ws (tl s) in
        if prefix '']'' t then Some (PyList [], tl t)
        else map_option (\<lambda>(l, r). (PyList l, r)) (read_items n t))
      else if prefix ''null'' s then Some (PyNone, drop 4 s)
      else if prefix ''true'' s then Some (PyBool True, drop 4 s)
      else if prefix ''false'' s then Some (PyBool False, drop 5 s)
      else if prefix ''NaN'' s then Some (PyFloat ''nan'', drop 3 s)
      else if prefix ''Infinity'' s then Some (PyFloat ''inf'', drop 8 s)
      else if prefix ''-Infinity'' s then Some (PyFloat ''-inf'', drop 9 s)
      else read_number s)"
| "read_items 0 s = None"
| "read_items (Suc n) s = (case read_value n s of None \<Rightarrow> None
     | Some (v, r) \<Rightarrow> (let t = skip_ws r in
         if prefix '']'' t then Some ([v], tl t)
         else if prefix '','' t then cons_first v (read_items n (skip_ws (tl t))) else None))"
| "read_members 0 s = None"
| "read_members (Suc n) s = (if \<not> prefix [CHR 0x22] s then None else (case read_str (tl s) of None \<Rightarrow> None
     | Some (k, r) \<Rightarrow> (let t = skip_ws r in if \<not> prefix '':'' t then None
         else (case read_value n (skip_ws (tl t)) of None \<Rightarrow> None
           | Some (v, r') \<Rightarrow> (let t' = skip_ws r' in
               if prefix ''}'' t' then Some ([(k, v)], tl t')
               else if prefix '','' t' then cons_first (k, v) (read_members n (skip_ws (tl t'))) else None)))))"

definition json_loads :: "string \<Rightarrow> pyval option" where
  "json_loads s = (case read_value (Suc (2 * length s)) (skip_ws s) of
     Some (v, r) \<Rightarrow> (if skip_ws r = [] then Some v else None) | None \<Rightarrow> None)"

section \<open>Reading what was written\<close>

lemma read_escape: "simple_escape e = Some x \<Longrightarrow> e \<noteq> CHR ''u'' \<Longrightarrow>
    read_str (CHR 0x5C # e # r) = cons_first x (read_str r)"
  by (cases r; cases "tl r"; cases "tl (tl r)"; cases "tl (tl (tl r))") (auto simp: ordc_def)

lemma read_unicode: "json_hex a = Some h \<Longrightarrow> json_hex b = Some l \<Longrightarrow>
    read_str (CHR 0x5C # CHR ''u'' # CHR ''0'' # CHR ''0'' # a # b # r) = cons_first (char_of (16 * h + l)) (read_str r)"
  by (simp add: ordc_def json_hex_def [of "CHR ''0''"])

lemma json_hex_char: "d < 16 \<Longrightarrow> json_hex (hex_char d) = Some d"
  by (auto simp: json_hex_def hex_char_def Let_def)

lemma ordc_eqI: "ordc c = ordc d \<Longrightarrow> c = d"
  by (simp add: ordc_inj)

lemma simple_escapes: "simple_escape (CHR 0x22) = Some (CHR 0x22)" "simple_escape (CHR 0x5C) = Some (CHR 0x5C)"
    "simple_escape (CHR ''n'') = Some (CHR 0x0A)" "simple_escape (CHR ''r'') = Some (CHR 0x0D)"
    "simple_escape (CHR ''t'') = Some (CHR 0x09)" "simple_escape (CHR ''b'') = Some (CHR 0x08)"
    "simple_escape (CHR ''f'') = Some (CHR 0x0C)"
  by (simp_all add: simple_escape_def)

lemma read_json_char: "read_str (json_char c @ r) = cons_first c (read_str r)"
proof -
  consider "ordc c \<in> {34, 92, 10, 13, 9, 8, 12}" | "ordc c \<notin> {34, 92, 10, 13, 9, 8, 12}" "ordc c < 32 \<or> 126 < ordc c"
    | "ordc c \<notin> {34, 92, 10, 13, 9, 8, 12}" "32 \<le> ordc c" "ordc c \<le> 126" by linarith
  then show ?thesis
  proof cases
    case 1
    have "ordc (CHR 0x22) = 34" "ordc (CHR 0x5C) = 92" "ordc (CHR 0x0A) = 10" "ordc (CHR 0x0D) = 13"
      "ordc (CHR 0x09) = 9" "ordc (CHR 0x08) = 8" "ordc (CHR 0x0C) = 12" by (simp_all add: ordc_def)
    then have "c \<in> {CHR 0x22, CHR 0x5C, CHR 0x0A, CHR 0x0D, CHR 0x09, CHR 0x08, CHR 0x0C}"
      using 1 by (auto simp: ordc_inj)
    moreover have "read_str (json_char c @ r) = cons_first c (read_str r)" if "json_char c = [CHR 0x5C, e]"
        "simple_escape e = Some c" "e \<noteq> CHR ''u''" for e
      using that read_escape [OF that(2,3)] by simp
    ultimately show ?thesis by (auto simp: json_char_def Let_def ordc_def read_escape simple_escapes simp del: read_str.simps)
  next
    case 2
    have n: "ordc c div 16 < 16" using nat_of_char_less_256 [of c] by (simp add: ordc_def less_mult_imp_div_less)
    have "json_char c = [CHR 0x5C, CHR ''u'', CHR ''0'', CHR ''0'', hex_char (ordc c div 16), hex_char (ordc c mod 16)]"
      using 2 by (auto simp: json_char_def Let_def)
    then show ?thesis using read_unicode [OF json_hex_char [OF n] json_hex_char [of "ordc c mod 16"], of r]
      by (simp add: ordc_def del: read_str.simps)
  next
    case 3
    then have "json_char c = [c]" by (auto simp: json_char_def Let_def)
    moreover have "c \<noteq> CHR 0x22" "c \<noteq> CHR 0x5C" using 3 by (auto simp: ordc_def)
    ultimately show ?thesis using 3 by simp
  qed
qed

lemma read_json_str: "read_str (concat (map json_char s) @ CHR 0x22 # r) = Some (s, r)"
proof (induction s)
  case (Cons c s)
  have "read_str (json_char c @ concat (map json_char s) @ CHR 0x22 # r) = Some (c # s, r)"
    unfolding read_json_char Cons by (simp add: cons_first_def)
  then show ?case by simp
qed simp

text \<open>What may follow a value: the end, or one of the characters that end it.\<close>

definition ends_value :: "string \<Rightarrow> bool" where
  "ends_value r \<longleftrightarrow> r = [] \<or> hd r \<in> {CHR '','', CHR '']'', CHR ''}''}"

lemma ends_value_simps [simp]: "ends_value []" "ends_value (CHR '','' # r)" "ends_value (CHR '']'' # r)" "ends_value (CHR ''}'' # r)"
  by (simp_all add: ends_value_def)

lemma nat_str_0 [simp]: "nat_str 0 = ''0''"
  by code_simp

lemma nat_str_leading: "0 < n \<Longrightarrow> hd (nat_str n) \<noteq> CHR ''0''"
proof (induction n rule: nat_str.induct)
  case (1 n)
  show ?case
  proof (cases "n < 10")
    case True
    have "digit_char n \<noteq> CHR ''0''" using 1(2) True digit_val_digit_char [of n] by (auto simp: digit_val_def)
    then show ?thesis using True by (subst nat_str.simps) simp
  next
    case False
    have "hd (nat_str n) = hd (nat_str (n div 10))" using False by (subst nat_str.simps) (simp add: hd_append)
    then show ?thesis using 1(1) False by simp
  qed
qed

lemma takeWhile_nat_str: "ends_value r \<Longrightarrow> takeWhile is_digit (nat_str n @ r) = nat_str n"
proof -
  assume r: "ends_value r"
  have "takeWhile is_digit r = []" using r by (cases r) (auto simp: ends_value_def is_digit_def Let_def)
  then show ?thesis using nat_str_digits [of n] by (simp add: takeWhile_append)
qed

lemma nat_str_prefix_0: "prefix ''0'' (nat_str n @ r) \<longleftrightarrow> n = 0"
proof (cases "n = 0")
  case False
  then have "hd (nat_str n) \<noteq> CHR ''0''" using nat_str_leading by simp
  then show ?thesis using False nat_str_nonempty [of n] by (cases "nat_str n") auto
qed simp

lemma nat_str_no_minus: "\<not> prefix ''-'' (nat_str n @ r)"
proof -
  have "is_digit (hd (nat_str n))" using nat_str_digits [of n] nat_str_nonempty [of n] by simp
  then show ?thesis using nat_str_nonempty [of n] by (cases "nat_str n") (auto dest: digit_not_sign)
qed

lemma read_number_int: "ends_value r \<Longrightarrow> read_number (int_str i @ r) = Some (PyInt i, r)"
proof -
  assume r: "ends_value r"
  define n where "n = nat (if i < 0 then - i else i)"
  define neg where "neg = (if i < 0 then ''-'' else [])"
  have s: "int_str i = neg @ nat_str n" by (simp add: int_str_def n_def neg_def)
  have neg: "prefix ''-'' (int_str i @ r) = (neg \<noteq> [])" "(if neg \<noteq> [] then tl (int_str i @ r) else int_str i @ r) = nat_str n @ r"
    using nat_str_no_minus [of n r] by (auto simp: s neg_def)
  have ip: "(if prefix ''0'' (nat_str n @ r) then ''0'' else takeWhile is_digit (nat_str n @ r)) = nat_str n"
    using takeWhile_nat_str [OF r] by (simp add: nat_str_prefix_0)
  have nd: "\<not> prefix ''.'' r" using r by (cases r) (auto simp: ends_value_def)
  have f2: "(r \<noteq> [] \<and> (hd r = CHR ''e'' \<or> hd r = CHR ''E'')) = False"
    using r by (cases r) (auto simp: ends_value_def)
  have i: "int_of_str ((if neg \<noteq> [] then ''-'' else []) @ nat_str n) = Inr i"
    using int_of_int_str [of i] by (simp add: s neg_def split: if_splits)
  show ?thesis unfolding read_number_def Let_def neg ip by (simp add: nd f2 i)
qed

lemma int_str_first: "hd (int_str i) = CHR ''-'' \<or> is_digit (hd (int_str i))"
  using int_str_chars [of "hd (int_str i)" i] int_str_nonempty [of i] hd_in_set by fastforce

lemma read_value_int:
  assumes "ends_value r"
  shows "read_value (Suc n) (int_str i @ r) = Some (PyInt i, r)"
proof -
  obtain c cs where c: "int_str i = c # cs" using int_str_nonempty [of i] by (cases "int_str i") auto
  have f: "c = CHR ''-'' \<or> is_digit c" using int_str_first [of i] c by simp
  then have p: "\<forall>x\<in>{CHR 0x22, CHR ''{'', CHR ''['', CHR ''n'', CHR ''t'', CHR ''f'', CHR ''N'', CHR ''I''}. x \<noteq> c"
    by (auto simp: is_digit_def)
  have "\<not> prefix ''-Infinity'' (int_str i @ r)"
  proof (cases "i < 0")
    case True
    then obtain d ds where "int_str i = CHR ''-'' # d # ds" "is_digit d"
      using nat_str_nonempty [of "nat (- i)"] nat_str_digits [of "nat (- i)"]
      by (cases "nat_str (nat (- i))") (auto simp: int_str_def)
    then show ?thesis by (auto simp: is_digit_def)
  next
    case False
    then show ?thesis using nat_str_no_minus [of "nat i" r] by (auto simp: int_str_def prefix_def)
  qed
  then show ?thesis using p c read_number_int [OF assms, of i] by (simp add: Let_def)
qed

text \<open>Values without floats and bytes, with dictionaries that have each key once.\<close>

fun json_plain :: "pyval \<Rightarrow> bool" where
  "json_plain (PyFloat t) = False"
| "json_plain (PyBytes b) = False"
| "json_plain (PyOther t) = False"
| "json_plain (PyList l) = list_all json_plain l"
| "json_plain (PyDict d) = (distinct (dkeys d) \<and> list_all (\<lambda>p. json_plain (snd p)) d)"
| "json_plain v = True"

lemma skip_ws_ends [simp]: "skip_ws (CHR '','' # r) = CHR '','' # r" "skip_ws (CHR '']'' # r) = CHR '']'' # r"
    "skip_ws (CHR ''}'' # r) = CHR ''}'' # r" "skip_ws (CHR '':'' # r) = CHR '':'' # r" "skip_ws [] = []"
  by (simp_all add: skip_ws_def)

text \<open>A written value begins with none of the characters that would end a list.\<close>

lemma dumps_first:
  assumes "json_dumps v = Inr t" "json_plain v"
  obtains c cs where "t = c # cs" "\<And>z. skip_ws (c # z) = c # z" "\<And>z. skip_ws (CHR '' '' # c # z) = c # z"
    "c \<noteq> CHR '']''" "c \<noteq> CHR ''}''"
proof -
  obtain c cs where c: "t = c # cs" "c = CHR 0x22 \<or> c = CHR ''{'' \<or> c = CHR ''['' \<or> c \<in> set ''ntf'' \<or> c = CHR ''-'' \<or> is_digit c"
  proof (cases v)
    case (PyInt i)
    then show ?thesis using assms int_str_nonempty [of i] int_str_first [of i] that
      by (cases "int_str i") auto
  qed (use assms in \<open>auto simp: json_str_def rbind_eq_Inr split: if_splits intro: that\<close>)
  have "c \<notin> {CHR '' '', CHR 0x09, CHR 0x0A, CHR 0x0D}" "c \<noteq> CHR '']''" "c \<noteq> CHR ''}''"
    using c(2) by (auto simp: is_digit_def)
  then show ?thesis using c(1) that by (auto simp: skip_ws_def)
qed

lemma json_items_Nil: "json_items l = Inr [] \<longleftrightarrow> l = []"
  by (cases l) (auto simp: rbind_eq_Inr)

lemma json_members_Nil: "json_members m = Inr [] \<longleftrightarrow> m = []"
  by (cases m rule: json_members.cases) (auto simp: rbind_eq_Inr)

lemma read_dumps:
  "json_dumps v = Inr t \<Longrightarrow> json_plain v \<Longrightarrow> 2 * length t < n \<Longrightarrow> ends_value r \<Longrightarrow> read_value n (t @ r) = Some (v, r)"
  "json_items l = Inr ts \<Longrightarrow> list_all json_plain l \<Longrightarrow> l \<noteq> [] \<Longrightarrow> 2 * length (join_str '', '' ts) + 1 < n \<Longrightarrow>
     read_items n (join_str '', '' ts @ CHR '']'' # r) = Some (l, r)"
  "json_members m = Inr ts \<Longrightarrow> list_all (\<lambda>p. json_plain (snd p)) m \<Longrightarrow> m \<noteq> [] \<Longrightarrow> 2 * length (join_str '', '' ts) + 1 < n \<Longrightarrow>
     read_members n (join_str '', '' ts @ CHR ''}'' # r) = Some (m, r)"
proof (induction v and l and m arbitrary: t n r and ts n r and ts n r rule: json_dumps_json_items_json_members.induct)
  case (3 i)
  then show ?case by (cases n) (auto simp: read_value_int simp del: read_value.simps)
next
  case (5 s)
  then show ?case by (cases n) (auto simp: json_str_def read_json_str)
next
  case (8 l)
  then obtain xs where xs: "json_items l = Inr xs" "t = ''['' @ join_str '', '' xs @ '']''" by (auto simp: rbind_eq_Inr)
  obtain k where n: "n = Suc k" using 8(4) by (cases n) auto
  show ?case
  proof (cases l)
    case Nil
    then show ?thesis using xs n by simp
  next
    case (Cons a l')
    obtain x xs' where x: "xs = x # xs'" "json_dumps a = Inr x" using xs Cons by (auto simp: rbind_eq_Inr)
    have "json_plain a" using 8(3) Cons by simp
    obtain c cs where c: "x = c # cs" "\<And>z. skip_ws (c # z) = c # z" "c \<noteq> CHR '']''"
      by (rule dumps_first [OF x(2) \<open>json_plain a\<close>]) blast
    have j: "\<exists>z. join_str '', '' xs = c # z" using x c by (cases xs') auto
    then have s: "skip_ws (join_str '', '' xs @ CHR '']'' # r) = join_str '', '' xs @ CHR '']'' # r"
      using c by auto
    have "read_items k (join_str '', '' xs @ CHR '']'' # r) = Some (l, r)"
      using 8(1) [OF xs(1), of k r] 8(3,4) xs(2) n Cons by simp
    then show ?thesis using xs(2) n s j c(3) by (auto simp: Let_def)
  qed
next
  case (9 d)
  then obtain xs where xs: "json_members d = Inr xs" "t = ''{'' @ join_str '', '' xs @ ''}''" by (auto simp: rbind_eq_Inr)
  obtain k where n: "n = Suc k" using 9(4) by (cases n) auto
  show ?case
  proof (cases d)
    case Nil
    then show ?thesis using xs n by simp
  next
    case (Cons a l')
    obtain x xs' where x: "xs = x # xs'" "\<exists>z. x = CHR 0x22 # z" using xs Cons
      by (cases a) (auto simp: rbind_eq_Inr json_str_def)
    then have j: "\<exists>z. join_str '', '' xs = CHR 0x22 # z" by (cases xs') auto
    then have s: "skip_ws (join_str '', '' xs @ CHR ''}'' # r) = join_str '', '' xs @ CHR ''}'' # r"
      by (auto simp: skip_ws_def)
    have "read_members k (join_str '', '' xs @ CHR ''}'' # r) = Some (d, r)"
      using 9(1) [OF xs(1), of k r] 9(3,4) xs(2) n Cons by simp
    moreover have "dupdate [] d = d" using 9(3) by (simp add: dupdate_fresh)
    ultimately show ?thesis using xs(2) n s j by (auto simp: Let_def)
  qed
next
  case (11 x xs)
  then obtain y ys where y: "json_dumps x = Inr y" "json_items xs = Inr ys" "ts = y # ys" by (auto simp: rbind_eq_Inr)
  have p: "json_plain x" "list_all json_plain xs" using 11(4) by simp_all
  obtain k where n: "n = Suc k" using 11(6) by (cases n) auto
  show ?case
  proof (cases xs)
    case Nil
    then have "ys = []" using y by simp
    have "read_value k (y @ CHR '']'' # r) = Some (x, CHR '']'' # r)"
      using 11(1) [OF y(1) p(1), of k] 11(6) y(3) n \<open>ys = []\<close> by simp
    then show ?thesis using n y(3) Nil \<open>ys = []\<close> by simp
  next
    case (Cons x' xs')
    then obtain y' ys' where ys: "ys = y' # ys'" "json_dumps x' = Inr y'" using y(2) by (auto simp: rbind_eq_Inr)
    have "json_plain x'" using p Cons by simp
    obtain c cs where c: "y' = c # cs" "\<And>z. skip_ws (CHR '' '' # c # z) = c # z"
      by (rule dumps_first [OF ys(2) \<open>json_plain x'\<close>]) blast
    have j: "\<exists>z. join_str '', '' ys = c # z" using ys c by (cases ys') auto
    have s: "skip_ws (CHR '' '' # join_str '', '' ys @ CHR '']'' # r) = join_str '', '' ys @ CHR '']'' # r"
      using c j by auto
    have ts: "join_str '', '' ts = y @ CHR '','' # CHR '' '' # join_str '', '' ys" using y(3) ys by simp
    have "read_value k (y @ CHR '','' # CHR '' '' # join_str '', '' ys @ CHR '']'' # r) =
        Some (x, CHR '','' # CHR '' '' # join_str '', '' ys @ CHR '']'' # r)"
      using 11(1) [OF y(1) p(1), of k] 11(6) ts n by simp
    moreover have "read_items k (join_str '', '' ys @ CHR '']'' # r) = Some (xs, r)"
      using 11(2) [OF y(2) p(2), of k r] Cons 11(6) ts n y by simp
    ultimately show ?thesis using n s ts by (simp add: cons_first_def)
  qed
next
  case (13 key x xs)
  then obtain y ys where y: "json_dumps x = Inr y" "json_members xs = Inr ys" "ts = (json_str key @ '': '' @ y) # ys"
    by (auto simp: rbind_eq_Inr)
  have p: "json_plain x" "list_all (\<lambda>p. json_plain (snd p)) xs" using 13(4) by simp_all
  obtain k where n: "n = Suc k" using 13(6) by (cases n) auto
  have w: "skip_ws (CHR '' '' # y @ q) = y @ q" for q
    by (rule dumps_first [OF y(1) p(1)]) simp
  show ?case
  proof (cases xs)
    case Nil
    then have e: "ys = []" using y by simp
    have "read_value k (y @ CHR ''}'' # r) = Some (x, CHR ''}'' # r)"
      using 13(1) [OF y(1) p(1), of k] 13(6) y(3) n e by simp
    then show ?thesis using n y(3) Nil e w [of "CHR ''}'' # r"] by (simp add: json_str_def read_json_str)
  next
    case (Cons x' xs')
    then obtain y' ys' z where ys: "ys = (CHR 0x22 # z) # ys'" using y(2)
      by (cases x') (auto simp: rbind_eq_Inr json_str_def)
    have j: "\<exists>z. join_str '', '' ys = CHR 0x22 # z" using ys by (cases ys') auto
    have s: "skip_ws (CHR '' '' # join_str '', '' ys @ CHR ''}'' # r) = join_str '', '' ys @ CHR ''}'' # r"
      using j by (auto simp: skip_ws_def)
    have ts: "join_str '', '' ts = json_str key @ '': '' @ y @ CHR '','' # CHR '' '' # join_str '', '' ys" using y(3) ys by simp
    have "read_value k (y @ CHR '','' # CHR '' '' # join_str '', '' ys @ CHR ''}'' # r) =
        Some (x, CHR '','' # CHR '' '' # join_str '', '' ys @ CHR ''}'' # r)"
      using 13(1) [OF y(1) p(1), of k] 13(6) ts n by simp
    moreover have "read_members k (join_str '', '' ys @ CHR ''}'' # r) = Some (xs, r)"
      using 13(2) [OF y(2) p(2), of k r] Cons 13(6) ts n y by simp
    ultimately show ?thesis using n s ts w by (simp add: cons_first_def json_str_def read_json_str)
  qed
next
  case 1
  then obtain k where "n = Suc k" by (cases n) auto
  moreover have "t = ''null''" using 1 by simp
  ultimately show ?case by simp
next
  case (2 b)
  then obtain k where "n = Suc k" by (cases n) auto
  moreover have "t = (if b then ''true'' else ''false'')" using 2 by simp
  ultimately show ?case by (cases b) simp_all
qed simp_all



end
