(* ===== verification/Event_Entities.thy ===== *)
theory Event_Entities
  imports Entities Json_Text
begin

text \<open>
  The entities beside the session: session contexts, events with their data as JSON text, pending
  events, tenant events and contexts, and session tokens.
\<close>

section \<open>Session contexts\<close>

record session_context =
  sc_tenant_id :: int
  sc_session_id :: string
  sc_user_id :: string
  sc_context_type :: context_type
  sc_data :: bytes
  sc_update_time :: int

definition new_session_context ::
  "int \<Rightarrow> string \<Rightarrow> string \<Rightarrow> context_type \<Rightarrow> bytes \<Rightarrow> int option \<Rightarrow> ('d, session_context) io" where
  "new_session_context t s u ct data update_time = bnd (time_or_now update_time) (\<lambda>ut.
     ret \<lparr>sc_tenant_id = t, sc_session_id = s, sc_user_id = u, sc_context_type = ct, sc_data = data, sc_update_time = ut\<rparr>)"

definition context_to_record :: "session_context \<Rightarrow> row" where
  "context_to_record c = [(''tenantId'', PyInt (sc_tenant_id c)), (''sessionId'', PyStr (sc_session_id c)),
     (''userId'', PyStr (sc_user_id c)), (''contextType'', PyStr (context_value (sc_context_type c))),
     (''sessionData'', PyBytes (sc_data c)), (''updateTime'', PyInt (sc_update_time c))]"

definition context_from_record :: "row \<Rightarrow> ('d, session_context) io" where
  "context_from_record r = bnd (lift_res (
     rbind (int_at ''tenantId'' r) (\<lambda>t. rbind (str_at ''sessionId'' r) (\<lambda>s. rbind (str_at ''userId'' r) (\<lambda>u.
     rbind (rbind (str_at ''contextType'' r) context_type_of) (\<lambda>ct. rbind (bytes_at ''sessionData'' r) (\<lambda>d.
     rbind (int_at ''updateTime'' r) (\<lambda>ut. Inr (t, s, u, ct, d, ut)))))))))
     (\<lambda>(t, s, u, ct, d, ut). new_session_context t s u ct d (Some ut))"

definition set_session_data :: "session_context \<Rightarrow> bytes \<Rightarrow> ('d, session_context) io" where
  "set_session_data c data = (if data = sc_data c then ret c
     else bnd get_system_time_in_millis (\<lambda>now.
       new_session_context (sc_tenant_id c) (sc_session_id c) (sc_user_id c) (sc_context_type c) data (Some now)))"

definition context_type_to_platform_channel :: "context_type \<Rightarrow> exn + string" where
  "context_type_to_platform_channel c = (if c = LIVE_AGENT then Inr omni_platform
     else Inl (ValueError (''No platform for '' @ context_value c)))"

section \<open>Events\<close>

datatype event_payload = NoData | TextData string | DictData row

record event =
  ev_tenant_id :: int
  ev_seq_no :: int
  ev_type :: event_type
  ev_id :: string
  ev_data_record :: "row option"
  ev_data :: "string option"
  ev_created_time :: int

definition new_event ::
  "int \<Rightarrow> int \<Rightarrow> event_type \<Rightarrow> string \<Rightarrow> event_payload \<Rightarrow> int option \<Rightarrow> ('d, event) io" where
  "new_event t n et i data created =
     bnd (lift_res (case data of NoData \<Rightarrow> Inr (None, None) | TextData s \<Rightarrow> Inr (None, Some s)
       | DictData d \<Rightarrow> rbind (json_dumps (PyDict d)) (\<lambda>s. Inr (Some d, Some s)))) (\<lambda>(dr, s).
     bnd (case created of None \<Rightarrow> get_system_time_in_millis | Some c \<Rightarrow> ret c) (\<lambda>c.
     ret \<lparr>ev_tenant_id = t, ev_seq_no = n, ev_type = et, ev_id = i, ev_data_record = dr, ev_data = s, ev_created_time = c\<rparr>))"

definition event_to_record :: "event \<Rightarrow> row" where
  "event_to_record e = [(''tenantId'', PyInt (ev_tenant_id e)), (''seqNo'', PyInt (ev_seq_no e)),
     (''eventType'', PyStr (event_type_value (ev_type e))), (''eventId'', PyStr (ev_id e)),
     (''createdTime'', PyInt (ev_created_time e)), (''eventData'', val_str (ev_data e))]"

definition event_from_record :: "row \<Rightarrow> ('d, event) io" where
  "event_from_record r = bnd (lift_res (
     rbind (int_at ''tenantId'' r) (\<lambda>t. rbind (int_at ''seqNo'' r) (\<lambda>n.
     rbind (rbind (str_at ''eventType'' r) event_type_of) (\<lambda>et. rbind (str_at ''eventId'' r) (\<lambda>i.
     rbind (opt_str (dget ''eventData'' r)) (\<lambda>d. rbind (int_at ''createdTime'' r) (\<lambda>c.
     Inr (t, n, et, i, d, c))))))))
     ) (\<lambda>(t, n, et, i, d, c). new_event t n et i (case d of None \<Rightarrow> NoData | Some s \<Rightarrow> TextData s) (Some c))"

definition event_eq :: "event \<Rightarrow> event \<Rightarrow> bool" where
  "event_eq a b \<longleftrightarrow> ev_tenant_id a = ev_tenant_id b \<and> ev_seq_no a = ev_seq_no b \<and> ev_type a = ev_type b \<and>
     ev_id a = ev_id b \<and> ev_data a = ev_data b \<and> ev_created_time a = ev_created_time b"

text \<open>\<open>get_event_key\<close>: the parsed data is kept in the event, which does not show.\<close>

definition get_event_key :: "event \<Rightarrow> string \<Rightarrow> exn + pyval option" where
  "get_event_key e key = (case ev_data e of None \<Rightarrow> Inl TypeError
     | Some s \<Rightarrow> (case json_loads s of None \<Rightarrow> Inl (ValueError s)
        | Some (PyDict d) \<Rightarrow> Inr (dget key d) | Some _ \<Rightarrow> Inl AttributeError))"

datatype pending_event_type = LIVE_AGENT_POLL

definition pending_type_value :: "pending_event_type \<Rightarrow> string" where
  "pending_type_value t = ''lap''"

definition pending_type_of :: "string \<Rightarrow> exn + pending_event_type" where
  "pending_type_of s = (if s = ''lap'' then Inr LIVE_AGENT_POLL
     else Inl (ValueError (''Invalid pending event type: '' @ s @ ''.'')))"

record pending_event =
  pe_type :: pending_event_type
  pe_event_time :: int
  pe_tenant_id :: int
  pe_session_id :: string
  pe_user_id :: "string option"
  pe_active_at :: int
  pe_update_time :: int

definition new_pending_event :: "pending_event_type \<Rightarrow> int \<Rightarrow> string \<Rightarrow> string option \<Rightarrow> int option \<Rightarrow>
    int option \<Rightarrow> int option \<Rightarrow> ('d, pending_event) io" where
  "new_pending_event ty t s u event_time active_at update_time = bnd (time_or_now event_time) (\<lambda>et.
     ret \<lparr>pe_type = ty, pe_event_time = et, pe_tenant_id = t, pe_session_id = s, pe_user_id = u,
       pe_active_at = time_or active_at et, pe_update_time = time_or update_time et\<rparr>)"

definition pending_event_to_record :: "pending_event \<Rightarrow> row" where
  "pending_event_to_record e = [(''eventType'', PyStr (pending_type_value (pe_type e))), (''eventTime'', PyInt (pe_event_time e)),
     (''tenantId'', PyInt (pe_tenant_id e)), (''sessionId'', PyStr (pe_session_id e)), (''userId'', val_str (pe_user_id e)),
     (''activeAt'', PyInt (pe_active_at e)), (''updateTime'', PyInt (pe_update_time e))]"

definition pending_event_from_record :: "row \<Rightarrow> ('d, pending_event) io" where
  "pending_event_from_record r = bnd (lift_res (
     rbind (rbind (str_at ''eventType'' r) pending_type_of) (\<lambda>ty. rbind (int_at ''tenantId'' r) (\<lambda>t.
     rbind (str_at ''sessionId'' r) (\<lambda>s. rbind (opt_str (dget ''userId'' r)) (\<lambda>u.
     rbind (int_at ''eventTime'' r) (\<lambda>et. rbind (int_at ''activeAt'' r) (\<lambda>aa.
     rbind (opt_int (dget ''updateTime'' r)) (\<lambda>ut. Inr (ty, t, s, u, et, aa, ut)))))))))
     ) (\<lambda>(ty, t, s, u, et, aa, ut). new_pending_event ty t s u (Some et) (Some aa) ut)"

section \<open>Tenants\<close>

datatype pending_tenant_event_type = X1440_POLL

definition pending_tenant_type_value :: "pending_tenant_event_type \<Rightarrow> string" where
  "pending_tenant_type_value t = ''x1440''"

definition pending_tenant_type_of :: "string \<Rightarrow> exn + pending_tenant_event_type" where
  "pending_tenant_type_of s = (if s = ''x1440'' then Inr X1440_POLL
     else Inl (ValueError (''Invalid pending tenant event type: '' @ s @ ''.'')))"

record pending_tenant_event =
  pt_type :: pending_tenant_event_type
  pt_org_id :: string
  pt_tenant_id :: int
  pt_access_token :: string
  pt_instance_url :: string
  pt_event_time :: int
  pt_active_at :: int
  pt_state_counter :: int

definition new_pending_tenant_event :: "pending_tenant_event_type \<Rightarrow> string \<Rightarrow> int \<Rightarrow> string \<Rightarrow> string \<Rightarrow>
    int option \<Rightarrow> int option \<Rightarrow> int \<Rightarrow> ('d, pending_tenant_event) io" where
  "new_pending_tenant_event ty org t tok url event_time active_at sc = bnd (time_or_now event_time) (\<lambda>et.
     ret \<lparr>pt_type = ty, pt_org_id = org, pt_tenant_id = t, pt_access_token = tok, pt_instance_url = url,
       pt_event_time = et, pt_active_at = time_or active_at et, pt_state_counter = sc\<rparr>)"

definition pending_tenant_event_to_record :: "pending_tenant_event \<Rightarrow> row" where
  "pending_tenant_event_to_record e = [(''eventType'', PyStr (pending_tenant_type_value (pt_type e))),
     (''orgId'', PyStr (pt_org_id e)), (''tenantId'', PyInt (pt_tenant_id e)), (''accessToken'', PyStr (pt_access_token e)),
     (''instanceUrl'', PyStr (pt_instance_url e)), (''eventTime'', PyInt (pt_event_time e)),
     (''activeAt'', PyInt (pt_active_at e)), (''stateCounter'', PyInt (pt_state_counter e))]"

definition pending_tenant_event_from_record :: "row \<Rightarrow> ('d, pending_tenant_event) io" where
  "pending_tenant_event_from_record r = bnd (lift_res (
     rbind (rbind (str_at ''eventType'' r) pending_tenant_type_of) (\<lambda>ty. rbind (str_at ''orgId'' r) (\<lambda>org.
     rbind (int_at ''tenantId'' r) (\<lambda>t. rbind (str_at ''accessToken'' r) (\<lambda>tok. rbind (str_at ''instanceUrl'' r) (\<lambda>url.
     rbind (int_at ''eventTime'' r) (\<lambda>et. rbind (int_at ''activeAt'' r) (\<lambda>aa. rbind (int_at ''stateCounter'' r) (\<lambda>sc.
     Inr (ty, org, t, tok, url, et, aa, sc))))))))))
     ) (\<lambda>(ty, org, t, tok, url, et, aa, sc). new_pending_tenant_event ty org t tok url (Some et) (Some aa) sc)"

record tenant_context =
  tc_type :: tenant_context_type
  tc_tenant_id :: int
  tc_state_counter :: int
  tc_data :: bytes

definition tenant_context_to_record :: "tenant_context \<Rightarrow> row" where
  "tenant_context_to_record c = [(''contextType'', PyStr (tenant_context_value (tc_type c))), (''tenantId'', PyInt (tc_tenant_id c)),
     (''stateCounter'', PyInt (tc_state_counter c)), (''contextData'', PyBytes (tc_data c))]"

definition tenant_context_from_record :: "row \<Rightarrow> exn + tenant_context" where
  "tenant_context_from_record r =
     rbind (rbind (str_at ''contextType'' r) tenant_context_type_of) (\<lambda>ty. rbind (int_at ''tenantId'' r) (\<lambda>t.
     rbind (int_at ''stateCounter'' r) (\<lambda>sc. rbind (bytes_at ''contextData'' r) (\<lambda>d.
     Inr \<lparr>tc_type = ty, tc_tenant_id = t, tc_state_counter = sc, tc_data = d\<rparr>))))"

end
