(* ===== verification/Web_Paths.thy ===== *)
theory Web_Paths
  imports Text_Codec
begin

text \<open>
  URL texts: \<open>utils/path_utils.py\<close>, the part of \<open>utils/uri_utils.py\<close> that builds URLs and
  \<open>utils/http_utils.py\<close>, over percent encoding as \<open>urllib.parse\<close> does it. Where Python decodes
  bytes to a character above 255 or replaces ill-formed bytes, the model puts \<open>CHR 0x1A\<close>.
\<close>

section \<open>Percent encoding\<close>

definition hex_digit :: "nat \<Rightarrow> char" where
  "hex_digit d = (if d < 10 then char_of (48 + d) else char_of (55 + d))"

definition hex_value :: "char \<Rightarrow> nat option" where
  "hex_value c = (let n = ordc c in
     if 48 \<le> n \<and> n \<le> 57 then Some (n - 48) else if 65 \<le> n \<and> n \<le> 70 then Some (n - 55)
     else if 97 \<le> n \<and> n \<le> 102 then Some (n - 87) else None)"

definition unreserved :: "char \<Rightarrow> bool" where
  "unreserved c \<longleftrightarrow> (let n = ordc c in (48 \<le> n \<and> n \<le> 57) \<or> (65 \<le> n \<and> n \<le> 90) \<or> (97 \<le> n \<and> n \<le> 122)) \<or>
     c \<in> set ''_.-~''"

definition quote_byte :: "string \<Rightarrow> byte \<Rightarrow> string" where
  "quote_byte safe b = (let c = char_of (unat b) in
     if unat b < 128 \<and> (unreserved c \<or> c \<in> set safe) then [c]
     else [CHR ''%'', hex_digit (unat b div 16), hex_digit (unat b mod 16)])"

definition quote :: "string \<Rightarrow> string \<Rightarrow> string" where
  "quote safe s = concat (map (quote_byte safe) (utf8_encode s))"

definition quote_plus :: "string \<Rightarrow> string" where
  "quote_plus s = map (\<lambda>c. if c = CHR '' '' then CHR ''+'' else c) (quote '' '' s)"

text \<open>The bytes of a text of ASCII characters, with its escapes resolved.\<close>

fun unquote_to_bytes :: "string \<Rightarrow> bytes" where
  "unquote_to_bytes [] = []"
| "unquote_to_bytes [c] = [byte_of (ordc c)]"
| "unquote_to_bytes [c, d] = [byte_of (ordc c), byte_of (ordc d)]"
| "unquote_to_bytes (c # d # e # cs) =
     (case (if c = CHR ''%'' then (hex_value d, hex_value e) else (None, None)) of
        (Some h, Some l) \<Rightarrow> byte_of (16 * h + l) # unquote_to_bytes cs
      | _ \<Rightarrow> byte_of (ordc c) # unquote_to_bytes (d # e # cs))"

fun utf8_decode_replace :: "bytes \<Rightarrow> string" where
  "utf8_decode_replace [] = []"
| "utf8_decode_replace [b] = [if unat b < 128 then char_of (unat b) else CHR 0x1A]"
| "utf8_decode_replace (b # b2 # bs) =
     (if unat b < 128 then char_of (unat b) # utf8_decode_replace (b2 # bs)
      else if (unat b = 194 \<or> unat b = 195) \<and> 128 \<le> unat b2 \<and> unat b2 < 192
        then char_of ((unat b - 192) * 64 + (unat b2 - 128)) # utf8_decode_replace bs
      else CHR 0x1A # utf8_decode_replace (b2 # bs))"

definition is_ascii :: "char \<Rightarrow> bool" where
  "is_ascii c \<longleftrightarrow> ordc c < 128"

function unquote_runs :: "string \<Rightarrow> string" where
  "unquote_runs [] = []"
| "unquote_runs (c # cs) = (if is_ascii c
     then utf8_decode_replace (unquote_to_bytes (takeWhile is_ascii (c # cs))) @ unquote_runs (dropWhile is_ascii (c # cs))
     else c # unquote_runs cs)"
  by pat_completeness auto
termination by (relation "measure length") (auto simp: le_imp_less_Suc length_dropWhile_le)

definition decode_from_url :: "string \<Rightarrow> string" where
  "decode_from_url s = (if CHR ''%'' \<in> set s then unquote_runs s else s)"

definition encode_for_url :: "string \<Rightarrow> string" where
  "encode_for_url s = quote [] s"

definition encode_query_component :: "string \<Rightarrow> string" where
  "encode_query_component s = quote_plus s"

section \<open>Paths\<close>

definition replace_str :: "string \<Rightarrow> string \<Rightarrow> string \<Rightarrow> string" where
  "replace_str old new s = join_str new (split_str old s)"

definition split_path :: "string \<Rightarrow> string list" where
  "split_path path = filter (\<lambda>p. p \<noteq> []) (split_str ''/'' path)"

definition join_step :: "string \<Rightarrow> string \<Rightarrow> string" where
  "join_step path arg = (if path \<noteq> [] \<and> \<not> suffix ''/'' path \<and> \<not> prefix ''/'' arg then path @ ''/'' @ arg else path @ arg)"

definition join_paths :: "string list \<Rightarrow> bool \<Rightarrow> string" where
  "join_paths args allow_trailing_slash =
     (let path = replace_str ''//'' ''/'' (foldl join_step [] args)
      in if \<not> allow_trailing_slash \<and> suffix ''/'' path then butlast path else path)"

definition join_base_path :: "string list \<Rightarrow> string" where
  "join_base_path args = (let path = join_paths args False;
     path = (if suffix ''/'' path then path else path @ ''/'') in replace_str ''//'' ''/'' path)"

text \<open>A path pattern: its parts, \<open>?\<close> for a variable, and the variables by name and by position.\<close>

record path_pattern =
  pp_path :: string
  pp_parts :: "string list"
  pp_names :: "(string, nat) dict"
  pp_indices :: "(nat, string) dict"

definition is_variable :: "string \<Rightarrow> bool" where
  "is_variable p \<longleftrightarrow> prefix ''{'' p \<and> suffix ''}'' p"

definition variable_name :: "string \<Rightarrow> string" where
  "variable_name p = drop 1 (take (length p - 1) p)"

fun add_parts :: "string \<Rightarrow> string list \<Rightarrow> nat \<Rightarrow> path_pattern \<Rightarrow> exn + path_pattern" where
  "add_parts path [] i pat = Inr pat"
| "add_parts path (p # ps) i pat =
     (if is_variable p then
        (if dget (variable_name p) (pp_names pat) \<noteq> None
         then Inl (ValueError (''Duplicate path variable name '' @ variable_name p @ '' in '' @ path))
         else add_parts path ps (Suc i) (pat\<lparr>pp_parts := pp_parts pat @ [''?''],
           pp_names := dset (variable_name p) i (pp_names pat), pp_indices := dset i (variable_name p) (pp_indices pat)\<rparr>))
      else add_parts path ps (Suc i) (pat\<lparr>pp_parts := pp_parts pat @ [p]\<rparr>))"

definition new_path :: "string \<Rightarrow> exn + path_pattern" where
  "new_path path = add_parts path (split_path path) 0 \<lparr>pp_path = path, pp_parts = [], pp_names = [], pp_indices = []\<rparr>"

definition has_path_variable :: "path_pattern \<Rightarrow> string \<Rightarrow> bool" where
  "has_path_variable pat name \<longleftrightarrow> dget name (pp_names pat) \<noteq> None"

fun match_parts :: "path_pattern \<Rightarrow> (string \<times> string) list \<Rightarrow> nat \<Rightarrow> (string, string) dict \<Rightarrow>
    exn + (string, string) dict option" where
  "match_parts pat [] i vars = Inr (Some vars)"
| "match_parts pat ((our, that) # ps) i vars =
     (if our = ''?'' then (case dget i (pp_indices pat) of
          None \<Rightarrow> Inl (KeyError (int_str (int i)))
        | Some n \<Rightarrow> match_parts pat ps (Suc i) (dset n (decode_from_url that) vars))
      else if our \<noteq> that then Inr None
      else match_parts pat ps (Suc i) vars)"

definition path_matches :: "path_pattern \<Rightarrow> string \<Rightarrow> string list option \<Rightarrow> exn + (string, string) dict option" where
  "path_matches pat path parts =
     (if pp_names pat = [] \<and> pp_path pat = path then Inr (Some [])
      else (let parts = (case parts of None \<Rightarrow> split_path path | Some ps \<Rightarrow> ps)
        in if length parts \<noteq> length (pp_parts pat) then Inr None
           else match_parts pat (zip (pp_parts pat) parts) 0 []))"

text \<open>\<open>parse_query_string\<close> on a text is \<open>parse_qs\<close>, which is given; only the joining is the code's.\<close>

datatype query_input = QNone | QText string | QDict "(string, pyval) dict"

definition parse_query_string ::
  "(string \<Rightarrow> (string, string list) dict) \<Rightarrow> query_input \<Rightarrow> (string, pyval) dict option" where
  "parse_query_string parse_qs q = (case q of QNone \<Rightarrow> None
     | QText s \<Rightarrow> Some (if s = [] then [] else map (\<lambda>(k, vs). (k, PyStr (join_str '','' vs))) (parse_qs s))
     | QDict d \<Rightarrow> Some d)"

section \<open>URLs\<close>

datatype query_params = RawQuery string | QueryDict "(string, string) dict"

definition urlencode :: "(string, string) dict \<Rightarrow> string" where
  "urlencode d = join_str ''&'' (map (\<lambda>(k, v). quote_plus k @ ''='' @ quote_plus v) d)"

definition build_origin :: "string option \<Rightarrow> string option \<Rightarrow> int option \<Rightarrow> string option" where
  "build_origin scheme host port = (case (scheme, host) of
     (Some s, Some h) \<Rightarrow> Some (s @ ''://'' @ (case port of None \<Rightarrow> h | Some p \<Rightarrow> h @ '':'' @ int_str p))
   | _ \<Rightarrow> None)"

record uri =
  u_scheme :: "string option"
  u_netloc :: "string option"
  u_host :: "string option"
  u_port :: "int option"
  u_path :: "string option"
  u_query :: "query_params option"

definition uri_origin :: "uri \<Rightarrow> string option" where
  "uri_origin u = build_origin (u_scheme u) (u_host u) (u_port u)"

definition uri_eq :: "uri \<Rightarrow> uri \<Rightarrow> bool" where
  "uri_eq a b \<longleftrightarrow> u_scheme a = u_scheme b \<and> u_netloc a = u_netloc b \<and> u_host a = u_host b \<and> u_port a = u_port b \<and>
     u_path a = u_path b \<and> (case (u_query a, u_query b) of
        (Some (QueryDict d), Some (QueryDict e)) \<Rightarrow> dict_eq d e | (x, y) \<Rightarrow> x = y)"

definition form_uri :: "string \<Rightarrow> string \<Rightarrow> string \<Rightarrow> query_params option \<Rightarrow> exn + uri" where
  "form_uri scheme host path q = (case split_str '':'' host of
     h # p # _ \<Rightarrow> rbind (int_of_str p) (\<lambda>port. Inr \<lparr>u_scheme = Some scheme, u_netloc = Some host, u_host = Some h,
        u_port = Some port, u_path = Some path, u_query = q\<rparr>)
   | _ \<Rightarrow> Inr \<lparr>u_scheme = Some scheme, u_netloc = Some host, u_host = Some host, u_port = None,
        u_path = Some path, u_query = q\<rparr>)"

definition form_https_uri :: "string \<Rightarrow> string \<Rightarrow> query_params option \<Rightarrow> exn + uri" where
  "form_https_uri host path q = form_uri ''https'' host path q"

text \<open>\<open>urlunparse\<close> for the schemes with a network location.\<close>

definition urlunparse :: "string \<Rightarrow> string \<Rightarrow> string \<Rightarrow> string \<Rightarrow> string" where
  "urlunparse scheme netloc url query =
     scheme @ ''://'' @ netloc @ (if url \<noteq> [] \<and> \<not> prefix ''/'' url then ''/'' @ url else url) @
     (if query \<noteq> [] then ''?'' @ query else [])"

definition form_url :: "string \<Rightarrow> string \<Rightarrow> string \<Rightarrow> query_params option \<Rightarrow> string" where
  "form_url scheme host path q = (case q of
     None \<Rightarrow> urlunparse scheme host path []
   | Some (RawQuery s) \<Rightarrow> urlunparse scheme host (path @ ''?'' @ s) []
   | Some (QueryDict d) \<Rightarrow> urlunparse scheme host path (urlencode d))"

definition form_https_url :: "string \<Rightarrow> string \<Rightarrow> query_params option \<Rightarrow> string" where
  "form_https_url host path q = form_url ''https'' host path q"

definition uri_to_url :: "uri \<Rightarrow> exn + string" where
  "uri_to_url u = (case (u_scheme u, u_netloc u, u_path u) of
     (Some s, Some n, Some p) \<Rightarrow> Inr (form_url s n p (u_query u)) | _ \<Rightarrow> Inl TypeError)"

definition form_url_from_endpoint :: "(string \<Rightarrow> uri) \<Rightarrow> string \<Rightarrow> string option \<Rightarrow> query_params option \<Rightarrow> exn + string" where
  "form_url_from_endpoint parse endpoint path q = (let u = parse endpoint in
     case (uri_origin u, u_path u) of (Some origin, Some up) \<Rightarrow>
       (let url = (case path of None \<Rightarrow> origin | Some p \<Rightarrow> origin @ join_paths [up, p] False)
        in Inr (case q of None \<Rightarrow> url | Some (RawQuery s) \<Rightarrow> url @ ''?'' @ s | Some (QueryDict d) \<Rightarrow> url @ ''?'' @ urlencode d))
     | _ \<Rightarrow> Inl TypeError)"

datatype form_value = Raw string | Plain string

definition encode_form_data :: "(string, form_value) dict \<Rightarrow> string" where
  "encode_form_data entries = foldl (\<lambda>b (k, v). b @ (if b \<noteq> [] then ''&'' else []) @ k @ ''='' @
     (case v of Raw c \<Rightarrow> c | Plain t \<Rightarrow> encode_query_component t)) [] entries"

section \<open>Decoding what was encoded\<close>

lemma hex_value_digit: "d < 16 \<Longrightarrow> hex_value (hex_digit d) = Some d"
  by (auto simp: hex_value_def hex_digit_def Let_def)

lemma ordc_less: "ordc c < 256"
  by (simp add: ordc_def nat_of_char_less_256)

lemma char_of_ordc [simp]: "char_of (ordc c) = c"
  by (simp add: ordc_def)

lemma percent_reserved: "\<not> unreserved (CHR ''%'')"
  by (simp add: unreserved_def ordc_def)

lemma unquote_plain: "c \<noteq> CHR ''%'' \<Longrightarrow> unquote_to_bytes (c # cs) = byte_of (ordc c) # unquote_to_bytes cs"
  by (cases cs; cases "tl cs") auto

lemma byte_nibbles:
  fixes b :: byte
  shows "16 * (unat b div 16) + unat b mod 16 = unat b" "unat b div 16 < 16" "unat b < 256"
proof -
  show *: "unat b < 256" using unsigned_less [of b] by simp
  show "unat b div 16 < 16" using * by (simp add: less_mult_imp_div_less)
qed simp

lemma unquote_quote_byte: "unquote_to_bytes (quote_byte [] b @ cs) = b # unquote_to_bytes cs"
proof (cases "unat b < 128 \<and> unreserved (char_of (unat b))")
  case True
  then have "quote_byte [] b = [char_of (unat b)]" by (simp add: quote_byte_def)
  moreover have "char_of (unat b) \<noteq> CHR ''%''" using True percent_reserved by metis
  ultimately show ?thesis using unquote_plain [of "char_of (unat b)" cs] byte_nibbles(3) [of b] by simp
next
  case False
  then have q: "quote_byte [] b = [CHR ''%'', hex_digit (unat b div 16), hex_digit (unat b mod 16)]"
    by (auto simp: quote_byte_def Let_def)
  then show ?thesis
    using hex_value_digit [OF byte_nibbles(2) [of b]] hex_value_digit [of "unat b mod 16"] byte_nibbles(1) [of b]
    by simp
qed

lemma unquote_quote: "unquote_to_bytes (concat (map (quote_byte []) bs)) = bs"
  by (induction bs) (simp_all add: unquote_quote_byte)

lemma decode_replace_encode: "utf8_decode bs = Some s \<Longrightarrow> utf8_decode_replace bs = s"
  by (induction bs arbitrary: s rule: utf8_decode.induct) (auto split: if_splits)

lemma quote_byte_ascii: "list_all is_ascii (quote_byte [] b)"
proof -
  have "ordc (hex_digit d) < 128" if "d < 16" for d using that by (simp add: hex_digit_def)
  then show ?thesis using byte_nibbles(2) [of b] by (auto simp: quote_byte_def is_ascii_def Let_def ordc_def)
qed

lemma quote_ascii: "list_all is_ascii (quote [] s)"
  using quote_byte_ascii by (auto simp: quote_def list_all_iff)

lemma quote_plain: "CHR ''%'' \<notin> set (quote [] s) \<Longrightarrow> quote [] s = s"
proof (induction s)
  case (Cons c cs)
  let ?n = "of_char c :: nat"
  show ?case
  proof (cases "?n < 128")
    case True
    then have e: "quote [] (c # cs) = quote_byte [] (byte_of ?n) @ quote [] cs" by (simp add: quote_def Let_def)
    have q: "quote_byte [] (byte_of ?n) = [c]"
      using Cons.prems True unfolding e by (auto simp: quote_byte_def Let_def split: if_splits)
    then show ?thesis using Cons e by simp
  next
    case False
    have "?n div 64 < 4" using ordc_less [of c] by (simp add: ordc_def less_mult_imp_div_less)
    then have "192 + ?n div 64 < 256" by simp
    then have "CHR ''%'' \<in> set (quote_byte [] (byte_of (192 + ?n div 64)))"
      by (simp add: quote_byte_def Let_def)
    then have "CHR ''%'' \<in> set (quote [] (c # cs))" using False by (simp add: quote_def Let_def)
    then show ?thesis using Cons.prems by blast
  qed
qed (simp add: quote_def)

text \<open>
  A path variable written with \<open>encode_for_url\<close> is read back as it was.
\<close>

lemma url_roundtrip: "decode_from_url (encode_for_url s) = s"
proof (cases "CHR ''%'' \<in> set (quote [] s)")
  case True
  have "unquote_runs (quote [] s) = utf8_decode_replace (unquote_to_bytes (quote [] s))"
    using quote_ascii [of s] by (cases "quote [] s") (auto simp: list_all_iff takeWhile_eq_all_conv [THEN iffD2] dropWhile_eq_Nil_conv [THEN iffD2] unquote_to_bytes.simps(1) simp del: unquote_to_bytes.simps(2-))
  then show ?thesis using True unquote_quote [of "utf8_encode s"] decode_replace_encode [OF utf8_roundtrip [of s]]
    by (simp add: decode_from_url_def encode_for_url_def quote_def)
next
  case False
  then show ?thesis using quote_plain [OF False] by (simp add: decode_from_url_def encode_for_url_def)
qed

text \<open>The parts of a path built from a pattern and values for its variables.\<close>

fun fill_parts :: "string list \<Rightarrow> (string \<Rightarrow> string) \<Rightarrow> string list" where
  "fill_parts [] vals = []"
| "fill_parts (p # ps) vals = (if is_variable p then encode_for_url (vals (variable_name p)) else p) # fill_parts ps vals"

definition pattern_names :: "string list \<Rightarrow> string list" where
  "pattern_names ps = map variable_name (filter is_variable ps)"

definition fill_dict :: "string list \<Rightarrow> (string \<Rightarrow> string) \<Rightarrow> (string, string) dict" where
  "fill_dict ps vals = map (\<lambda>n. (n, vals n)) (pattern_names ps)"

lemma add_parts_length: "add_parts path ps i pat = Inr pat' \<Longrightarrow>
    length (pp_parts pat') = length (pp_parts pat) + length ps \<and> pp_path pat' = pp_path pat"
  by (induction path ps i pat rule: add_parts.induct) (auto split: if_splits)

lemma add_parts_indices: "add_parts path ps i pat = Inr pat' \<Longrightarrow> j < i \<Longrightarrow> dget j (pp_indices pat') = dget j (pp_indices pat)"
  by (induction path ps i pat rule: add_parts.induct) (auto split: if_splits)

lemma add_parts_prefix: "add_parts path ps i pat = Inr pat' \<Longrightarrow> prefix (pp_parts pat) (pp_parts pat')"
  by (induction path ps i pat rule: add_parts.induct) (auto split: if_splits dest: append_prefixD)

lemma match_filled:
  assumes "add_parts path ps i pat = Inr pat'" "i = length (pp_parts pat)" "''?'' \<notin> set ps"
    "set (dkeys vars) = set (dkeys (pp_names pat))"
  shows "match_parts pat' (zip (drop i (pp_parts pat')) (fill_parts ps vals)) i vars = Inr (Some (vars @ fill_dict ps vals))"
  using assms
proof (induction path ps i pat arbitrary: vars rule: add_parts.induct)
  case (1 path i pat)
  then show ?case by (simp add: fill_dict_def pattern_names_def)
next
  case (2 path p ps i pat)
  show ?case
  proof (cases "is_variable p")
    case True
    let ?n = "variable_name p"
    let ?pat = "pat\<lparr>pp_parts := pp_parts pat @ [''?''], pp_names := dset ?n i (pp_names pat), pp_indices := dset i ?n (pp_indices pat)\<rparr>"
    have n: "dget ?n (pp_names pat) = None" and add: "add_parts path ps (Suc i) ?pat = Inr pat'"
      using 2(3) True by (auto split: if_splits)
    have len: "length (pp_parts pat') = Suc i + length ps" using add_parts_length [OF add] 2(4) by simp
    obtain r where r: "pp_parts pat' = (pp_parts pat @ [''?'']) @ r" using add_parts_prefix [OF add] by (auto simp: prefix_def)
    have d: "drop i (pp_parts pat') = ''?'' # drop (Suc i) (pp_parts pat')" using r 2(4) by simp
    have ix: "dget i (pp_indices pat') = Some ?n" using add_parts_indices [OF add, of i] by simp
    have fresh: "dget ?n vars = None" using n 2(6) by (simp add: dget_None_iff)
    have v: "dset ?n (vals ?n) vars = vars @ [(?n, vals ?n)]" using dset_absent [OF fresh] by simp
    have "set (dkeys (dset ?n (vals ?n) vars)) = set (dkeys (pp_names ?pat))" using 2(6) by (simp add: dkeys_dset)
    from 2(1) [OF True _ add _ _ this] n 2(4,5)
    have "match_parts pat' (zip (drop (Suc i) (pp_parts pat')) (fill_parts ps vals)) (Suc i) (dset ?n (vals ?n) vars) =
        Inr (Some (dset ?n (vals ?n) vars @ fill_dict ps vals))" by simp
    then show ?thesis using True by (simp add: d ix url_roundtrip v fill_dict_def pattern_names_def)
  next
    case False
    let ?pat = "pat\<lparr>pp_parts := pp_parts pat @ [p]\<rparr>"
    have add: "add_parts path ps (Suc i) ?pat = Inr pat'" using 2(3) False by simp
    obtain r where r: "pp_parts pat' = (pp_parts pat @ [p]) @ r" using add_parts_prefix [OF add] by (auto simp: prefix_def)
    have d: "drop i (pp_parts pat') = p # drop (Suc i) (pp_parts pat')" using r 2(4) by simp
    have "p \<noteq> ''?''" using 2(5) by auto
    moreover have "match_parts pat' (zip (drop (Suc i) (pp_parts pat')) (fill_parts ps vals)) (Suc i) vars =
        Inr (Some (vars @ fill_dict ps vals))"
      using 2(2) [OF False add] 2(4-6) by simp
    ultimately show ?thesis using False by (simp add: d fill_dict_def pattern_names_def)
  qed
qed

lemma length_fill_parts [simp]: "length (fill_parts ps vals) = length ps"
  by (induction ps) auto



end
