(* ===== verification/Web_Request.thy ===== *)
theory Web_Request
  imports Event_Entities Web_Paths
begin

text \<open>
  HTTP requests: credentials and session tokens (\<open>auth/__init__.py\<close>, \<open>cs_client\<close>,
  \<open>session/token.py\<close>), the request object and the access to its parameters
  (\<open>lambda_web_framework/request.py\<close>), the validation of identifiers
  (\<open>utils/validation_utils.py\<close>). The cryptography (a hash, a keyed hash, the Fernet cipher) is a
  parameter, a record of functions.
\<close>

section \<open>Credentials\<close>

record crypto =
  cy_sha512_hex :: "string \<Rightarrow> string"
  cy_sha256_hex :: "string \<Rightarrow> string"
  cy_hmac_hex :: "string \<Rightarrow> bytes \<Rightarrow> string"
  cy_obfuscate :: "bytes \<Rightarrow> string \<Rightarrow> string \<Rightarrow> bytes \<Rightarrow> bytes"
  cy_clarify :: "bytes \<Rightarrow> string \<Rightarrow> string \<Rightarrow> bytes \<Rightarrow> bytes option"

record credentials =
  cr_name :: string
  cr_client_id :: string
  cr_password :: bytes
  cr_tenant_ids :: "pyval list option"

record sign_result =
  sr_signing_string :: string
  sr_signature :: string

definition creds_sign :: "crypto \<Rightarrow> credentials \<Rightarrow> string \<Rightarrow> string \<Rightarrow> int \<Rightarrow> string option \<Rightarrow> sign_result" where
  "creds_sign cy cr meth path request_time body =
     (let sig = join_str '':'' [cr_name cr, cr_client_id cr, path, meth, int_str request_time];
          sig = (case body of None \<Rightarrow> sig | Some b \<Rightarrow> sig @ '':'' @ cy_sha512_hex cy b)
      in \<lparr>sr_signing_string = sig, sr_signature = cy_hmac_hex cy sig (cr_password cr)\<rparr>)"

definition sign_string :: "crypto \<Rightarrow> credentials \<Rightarrow> string \<Rightarrow> string" where
  "sign_string cy cr s = cy_hmac_hex cy s (cr_password cr)"

definition has_access_to_tenant :: "credentials \<Rightarrow> int \<Rightarrow> bool" where
  "has_access_to_tenant cr t \<longleftrightarrow> (case cr_tenant_ids cr of None \<Rightarrow> False | Some ids \<Rightarrow> PyInt t \<in> set ids)"

definition assert_tenant_access :: "credentials \<Rightarrow> int \<Rightarrow> exn + unit" where
  "assert_tenant_access cr t = (if has_access_to_tenant cr t then Inr ()
     else Inl (forbidden ''Access to organization not allowed.''))"

definition obfuscate_data :: "crypto \<Rightarrow> credentials \<Rightarrow> string \<Rightarrow> string" where
  "obfuscate_data cy cr s = rstrip_char (CHR ''='') (encode_to_urlsafe_base64string
     (cy_obfuscate cy (cr_password cr) (cr_name cr) (cr_client_id cr) (utf8_encode s)))"

definition clarify_data :: "crypto \<Rightarrow> credentials \<Rightarrow> string \<Rightarrow> exn + string" where
  "clarify_data cy cr token =
     (let token = (if suffix ''=='' token then token else token @ ''=='')
      in case urlsafe_b64decode token of None \<Rightarrow> Inl (ValueError token)
         | Some b \<Rightarrow> (case cy_clarify cy (cr_password cr) (cr_name cr) (cr_client_id cr) b of
             None \<Rightarrow> Inl (PlainException ''InvalidToken'')
           | Some d \<Rightarrow> (case utf8_decode d of None \<Rightarrow> Inl (ValueError token) | Some s \<Rightarrow> Inr s)))"

section \<open>Session tokens\<close>

record session_token =
  st_tenant_id :: int
  st_session_id :: string
  st_user_id :: string

definition token_serialize :: "crypto \<Rightarrow> credentials \<Rightarrow> session_token \<Rightarrow> string" where
  "token_serialize cy cr t = obfuscate_data cy cr
     (join_str ''~'' [''e40'', int_str (st_tenant_id t), st_session_id t, st_user_id t])"

definition invalid_token :: exn where
  "invalid_token = not_authorized ''Invalid session token.''"

definition token_deserialize :: "crypto \<Rightarrow> credentials \<Rightarrow> string \<Rightarrow> exn + session_token" where
  "token_deserialize cy cr token = (case clarify_data cy cr token of
     Inl e \<Rightarrow> Inl invalid_token
   | Inr data \<Rightarrow> (case split_str ''~'' data of
       [v0, v1, v2, v3] \<Rightarrow> (if v0 = ''e40'' then (case int_of_str v1 of
            Inr i \<Rightarrow> Inr \<lparr>st_tenant_id = i, st_session_id = v2, st_user_id = v3\<rparr> | Inl e \<Rightarrow> Inl invalid_token)
          else Inl invalid_token)
     | _ \<Rightarrow> Inl invalid_token))"

definition cipher_ok :: "crypto \<Rightarrow> bool" where
  "cipher_ok cy \<longleftrightarrow> (\<forall>p n i d. cy_clarify cy p n i (cy_obfuscate cy p n i d) = Some d)"

lemma clarify_obfuscate: "cipher_ok cy \<Longrightarrow> clarify_data cy cr (obfuscate_data cy cr s) = Inr s"
proof -
  assume c: "cipher_ok cy"
  let ?b = "cy_obfuscate cy (cr_password cr) (cr_name cr) (cr_client_id cr) (utf8_encode s)"
  have "\<not> suffix ''=='' (obfuscate_data cy cr s)"
    by (simp add: obfuscate_data_def encode_to_urlsafe_base64string_def rstrip_encode body_not_padded)
  then show ?thesis using c urlsafe_decode_stripped [of ?b]
    by (simp add: clarify_data_def obfuscate_data_def cipher_ok_def utf8_roundtrip)
qed

text \<open>
  C32 (roundtrip). A session token comes back from its text exactly when neither of its identifiers
  contains a tilde; with one, the token that was issued is refused as invalid.
\<close>

theorem session_token_roundtrip:
  assumes "cipher_ok cy"
  shows "token_deserialize cy cr (token_serialize cy cr t) =
    (if CHR ''~'' \<in> set (st_session_id t) \<or> CHR ''~'' \<in> set (st_user_id t) then Inl invalid_token else Inr t)"
proof -
  let ?i = "int_str (st_tenant_id t)" and ?s = "st_session_id t" and ?u = "st_user_id t"
  let ?split = "split_str ''~'' (join_str ''~'' [''e40'', ?i, ?s, ?u])"
  have i: "CHR ''~'' \<notin> set ?i" using int_str_chars [of "CHR ''~''" "st_tenant_id t"] by (auto simp: is_digit_def)
  have eq: "token_deserialize cy cr (token_serialize cy cr t) = (case ?split of
       [v0, v1, v2, v3] \<Rightarrow> (if v0 = ''e40'' then (case int_of_str v1 of
            Inr i \<Rightarrow> Inr \<lparr>st_tenant_id = i, st_session_id = v2, st_user_id = v3\<rparr> | Inl e \<Rightarrow> Inl invalid_token)
          else Inl invalid_token)
     | _ \<Rightarrow> Inl invalid_token)"
    unfolding token_deserialize_def token_serialize_def clarify_obfuscate [OF assms] by simp
  show ?thesis
  proof (cases "CHR ''~'' \<in> set ?s \<or> CHR ''~'' \<in> set ?u")
    case True
    have "length ?split \<noteq> 4"
    proof
      assume "length ?split = 4"
      then have nc: "\<forall>x\<in>set ?split. CHR ''~'' \<notin> set x" using split_str_no_char by blast
      obtain a b c d where p: "?split = [a, b, c, d]" using \<open>length ?split = 4\<close> by (auto simp: length_Suc_conv numeral_eq_Suc)
      have n: "CHR ''~'' \<notin> set a" "CHR ''~'' \<notin> set b" "CHR ''~'' \<notin> set c" "CHR ''~'' \<notin> set d"
        using nc unfolding p by simp_all
      have "join_str ''~'' [a, b, c, d] = join_str ''~'' [''e40'', ?i, ?s, ?u]"
        using join_split [of "CHR ''~''" "join_str ''~'' [''e40'', ?i, ?s, ?u]"] p by simp
      then have "a @ CHR ''~'' # b @ CHR ''~'' # c @ CHR ''~'' # d = ''e40'' @ CHR ''~'' # ?i @ CHR ''~'' # ?s @ CHR ''~'' # ?u"
        by simp
      then have "count_list (a @ CHR ''~'' # b @ CHR ''~'' # c @ CHR ''~'' # d) (CHR ''~'') =
        count_list (''e40'' @ CHR ''~'' # ?i @ CHR ''~'' # ?s @ CHR ''~'' # ?u) (CHR ''~'')" by simp
      then have "count_list ?s (CHR ''~'') + count_list ?u (CHR ''~'') = 0"
        using n i by (simp add: count_list_0_iff)
      then show False using True by (simp add: count_list_0_iff)
    qed
    then show ?thesis using True unfolding eq by (auto split: list.splits)
  next
    case False
    then have "?split = [''e40'', ?i, ?s, ?u]" using i by (intro split_join) auto
    then show ?thesis using False unfolding eq by (simp add: int_of_int_str)
  qed
qed

definition example_crypto :: crypto where
  "example_crypto = \<lparr>cy_sha512_hex = id, cy_sha256_hex = id, cy_hmac_hex = (\<lambda>s _. s), cy_obfuscate = (\<lambda>_ _ _. rev),
    cy_clarify = (\<lambda>_ _ _ d. Some (rev d))\<rparr>"

definition example_credentials :: credentials where
  "example_credentials = \<lparr>cr_name = ''service'', cr_client_id = ''c1'', cr_password = [1, 2], cr_tenant_ids = Some [PyInt 7]\<rparr>"

lemma session_token_roundtrip_witness:
  "token_deserialize example_crypto example_credentials (token_serialize example_crypto example_credentials
     \<lparr>st_tenant_id = 7, st_session_id = ''s1'', st_user_id = ''005A''\<rparr>) =
     Inr \<lparr>st_tenant_id = 7, st_session_id = ''s1'', st_user_id = ''005A''\<rparr>"
proof -
  have c: "cipher_ok example_crypto" by (simp add: cipher_ok_def example_crypto_def)
  show ?thesis by (simp add: session_token_roundtrip [OF c])
qed

section \<open>Parameters\<close>

datatype py_type = StrType | DictType | IntType | BoolType | ListType | AnyType

fun has_type :: "pyval \<Rightarrow> py_type \<Rightarrow> bool" where
  "has_type (PyStr s) StrType = True"
| "has_type (PyDict d) DictType = True"
| "has_type (PyInt i) IntType = True"
| "has_type (PyBool b) BoolType = True"
| "has_type (PyList l) ListType = True"
| "has_type v t = False"

definition assert_empty :: "row \<Rightarrow> exn + unit" where
  "assert_empty event = (if event \<noteq> [] then Inl (bad_request (''The following properties are not recognized: '' @
     join_str '','' (dkeys event) @ ''.'') None) else Inr ())"

text \<open>The value and the dictionary, from which the value is removed on demand.\<close>

record param_opts =
  po_remove :: bool
  po_none_if_empty :: bool
  po_none_ok :: bool
  po_max_length :: "nat option"

definition default_opts :: param_opts where
  "default_opts = \<lparr>po_remove = False, po_none_if_empty = False, po_none_ok = True, po_max_length = None\<rparr>"

definition check_max_length :: "string \<Rightarrow> nat option \<Rightarrow> string \<Rightarrow> exn + unit" where
  "check_max_length name limit s = (case limit of
     Some m \<Rightarrow> (if m < length s then Inl (invalid_parameter name (''length of '' @ int_str (int (length s)) @
        '' exceeds maximum allowed of '' @ int_str (int m) @ ''.'')) else Inr ())
   | None \<Rightarrow> Inr ())"

definition get_parameter :: "param_opts \<Rightarrow> row \<Rightarrow> string \<Rightarrow> py_type \<Rightarrow> exn + pyval option \<times> row" where
  "get_parameter po event name ty =
     (let event' = (if po_remove po then ddel name event else event) in
      case dget name event of
        None \<Rightarrow> Inr (None, event')
      | Some v \<Rightarrow>
          if v = PyNone then (if \<not> po_none_ok po then Inl (invalid_parameter name ''parameter cannot be null.'')
                              else Inr (None, event'))
          else if ty = AnyType then Inr (Some v, event')
          else if \<not> has_type v ty then Inl (invalid_parameter name ''invalid type.'')
          else (case v of
              PyStr s \<Rightarrow>
                (let t = (if po_none_if_empty po then strip s else s) in
                 if po_none_if_empty po \<and> t = [] then
                   (if \<not> po_none_ok po then Inl (invalid_parameter name ''value cannot be empty.'') else Inr (None, event'))
                 else rbind (check_max_length name (po_max_length po) t) (\<lambda>_. Inr (Some (PyStr t), event')))
            | _ \<Rightarrow> Inr (Some v, event')))"

definition get_required_parameter :: "row \<Rightarrow> string \<Rightarrow> py_type \<Rightarrow> string \<Rightarrow> bool \<Rightarrow> bool \<Rightarrow> nat option \<Rightarrow> exn + pyval \<times> row" where
  "get_required_parameter event name ty kind remove empty_ok max_length =
     (let use_name = (if kind \<noteq> ''header'' then name else lower name) in
      rbind (get_parameter (default_opts\<lparr>po_remove := remove, po_max_length := max_length\<rparr>) event use_name ty) (\<lambda>(v, event').
      case v of None \<Rightarrow> Inl (missing_parameter name kind)
      | Some v \<Rightarrow> if \<not> empty_ok \<and> ty = StrType \<and> v = PyStr [] then Inl (bad_request (quoted name @ '' cannot be empty.'') None)
          else Inr (v, event')))"

definition required :: "row \<Rightarrow> string \<Rightarrow> py_type \<Rightarrow> exn + pyval \<times> row" where
  "required event name ty = get_required_parameter event name ty ''parameter'' True False None"

definition get_required_header :: "row \<Rightarrow> string \<Rightarrow> exn + pyval" where
  "get_required_header event name = rbind (get_required_parameter event name StrType ''header'' False False None) (\<lambda>(v, _). Inr v)"

definition get_or_not_found :: "row \<Rightarrow> string \<Rightarrow> py_type \<Rightarrow> exn + pyval" where
  "get_or_not_found event name ty = (case get_required_parameter event name ty ''parameter'' False False None of
     Inl e \<Rightarrow> Inl (not_found None) | Inr (v, _) \<Rightarrow> Inr v)"

definition as_str :: "pyval \<Rightarrow> exn + string" where
  "as_str v = (case v of PyStr s \<Rightarrow> Inr s | _ \<Rightarrow> Inl TypeError)"

definition as_dict :: "pyval \<Rightarrow> exn + row" where
  "as_dict v = (case v of PyDict d \<Rightarrow> Inr d | _ \<Rightarrow> Inl TypeError)"

text \<open>
  \<open>from_json\<close>. The callers take the result for a dictionary: on a list they fail with a
  \<open>TypeError\<close>, on other values with an \<open>AttributeError\<close>.
\<close>

definition from_json :: "pyval option \<Rightarrow> exn + row" where
  "from_json data = (case data of
     Some (PyDict d) \<Rightarrow> Inr d
   | Some (PyStr s) \<Rightarrow> (case json_loads s of None \<Rightarrow> Inl (bad_request ''Malformed JSON.'' None)
       | Some (PyDict d) \<Rightarrow> Inr d | Some (PyList l) \<Rightarrow> Inl TypeError | Some _ \<Rightarrow> Inl AttributeError)
   | _ \<Rightarrow> Inl (bad_request ''Malformed JSON.'' None))"

section \<open>Requests and responses\<close>

record http_request =
  rq_path :: string
  rq_method :: string
  rq_source_ip :: string
  rq_headers :: row
  rq_body :: "pyval option"
  rq_query :: "pyval option"
  rq_creds :: "credentials option"
  rq_session :: "session option"
  rq_params :: "(string, string) dict option"

definition lower_headers :: "row \<Rightarrow> row" where
  "lower_headers hs = foldl (\<lambda>d (k, v). dset (lower k) v d) [] hs"

definition get_dict :: "row \<Rightarrow> string \<Rightarrow> exn + row" where
  "get_dict event name = rbind (get_or_not_found event name DictType) as_dict"

definition get_str :: "row \<Rightarrow> string \<Rightarrow> exn + string" where
  "get_str event name = rbind (get_or_not_found event name StrType) as_str"

definition required_headers :: "row \<Rightarrow> exn + row" where
  "required_headers event = rbind (get_required_parameter event ''headers'' DictType ''parameter'' False False None)
     (\<lambda>(v, _). as_dict v)"

definition make_request :: "row \<Rightarrow> string \<Rightarrow> string \<Rightarrow> string \<Rightarrow> row \<Rightarrow> http_request" where
  "make_request event path meth ip headers = \<lparr>rq_path = path, rq_method = meth, rq_source_ip = ip, rq_headers = headers,
     rq_body = dget ''body'' event, rq_query = dget ''queryStringParameters'' event, rq_creds = None, rq_session = None,
     rq_params = None\<rparr>"

definition new_request :: "row \<Rightarrow> exn + http_request" where
  "new_request event = (case dget ''rawPath'' event of
     Some p \<Rightarrow>
       rbind (as_str p) (\<lambda>path. rbind (get_dict event ''requestContext'') (\<lambda>rc. rbind (get_dict rc ''http'') (\<lambda>http.
       rbind (get_str http ''sourceIp'') (\<lambda>ip. rbind (get_str http ''method'') (\<lambda>meth.
       rbind (required_headers event) (\<lambda>hs. Inr (make_request event path meth ip hs)))))))
   | None \<Rightarrow>
       rbind (get_str event ''path'') (\<lambda>path. rbind (get_str event ''httpMethod'') (\<lambda>meth.
       rbind (get_dict event ''requestContext'') (\<lambda>rc.
       rbind (case dget ''path'' rc of None \<Rightarrow> Inr path | Some v \<Rightarrow> as_str v) (\<lambda>path.
       rbind (get_dict rc ''identity'') (\<lambda>ident. rbind (get_str ident ''sourceIp'') (\<lambda>ip.
       rbind (required_headers event) (\<lambda>hs. Inr (make_request event path meth ip (lower_headers hs))))))))))"

definition is_web_event :: "row \<Rightarrow> bool" where
  "is_web_event event \<longleftrightarrow> dget ''rawPath'' event \<noteq> None \<or> dget ''path'' event \<noteq> None"

definition get_header :: "http_request \<Rightarrow> string \<Rightarrow> pyval option" where
  "get_header rq name = dget name (rq_headers rq)"

definition get_credentials :: "http_request \<Rightarrow> exn + credentials" where
  "get_credentials rq = (case rq_creds rq of None \<Rightarrow> Inl (KeyError ''creds'') | Some c \<Rightarrow> Inr c)"

definition get_request_session :: "http_request \<Rightarrow> exn + session" where
  "get_request_session rq = (case rq_session rq of None \<Rightarrow> Inl (KeyError ''session'') | Some s \<Rightarrow> Inr s)"

definition get_url_parameter :: "http_request \<Rightarrow> string \<Rightarrow> string option" where
  "get_url_parameter rq name = (case rq_params rq of None \<Rightarrow> None | Some d \<Rightarrow> dget name d)"

record http_response =
  rs_code :: int
  rs_body :: "pyval option"
  rs_headers :: "(string, string) dict option"

definition response_to_dict :: "http_response \<Rightarrow> row" where
  "response_to_dict r = [(''statusCode'', PyInt (rs_code r))] @
     (case rs_body r of None \<Rightarrow> [] | Some b \<Rightarrow> [(''body'', b)]) @
     (case rs_headers r of None \<Rightarrow> [] | Some h \<Rightarrow> [(''headers'', PyDict (map (\<lambda>(k, v). (k, PyStr v)) h))])"

definition response_ok :: "pyval option \<Rightarrow> http_response" where
  "response_ok b = \<lparr>rs_code = 200, rs_body = b, rs_headers = None\<rparr>"

definition response_no_content :: http_response where
  "response_no_content = \<lparr>rs_code = 204, rs_body = None, rs_headers = None\<rparr>"

section \<open>Validation\<close>

definition is_alnum :: "char \<Rightarrow> bool" where
  "is_alnum c \<longleftrightarrow> (let n = ordc c in (48 \<le> n \<and> n \<le> 57) \<or> (65 \<le> n \<and> n \<le> 90) \<or> (97 \<le> n \<and> n \<le> 122))"

text \<open>\<open>re.match\<close> anchors only the start: what follows the repetition does not matter.\<close>

definition matches_prefixed :: "string \<Rightarrow> nat \<Rightarrow> string \<Rightarrow> bool" where
  "matches_prefixed pre n s \<longleftrightarrow> prefix pre s \<and> n \<le> length (takeWhile is_alnum (drop (length pre) s))"

definition request_id_ok :: "string \<Rightarrow> bool" where
  "request_id_ok s \<longleftrightarrow> (let t = (if s \<noteq> [] \<and> last s = CHR 0x0A then butlast s else s) in
     t \<noteq> [] \<and> list_all (\<lambda>c. is_alnum c \<or> c = CHR ''-'') t)"

definition assert_valid_event_id :: "string \<Rightarrow> exn + unit" where
  "assert_valid_event_id s = (if request_id_ok s then Inr () else Inl (bad_request ''Malformed event id'' None))"

definition get_with_regex :: "row \<Rightarrow> string \<Rightarrow> (string \<Rightarrow> bool) \<Rightarrow> string \<Rightarrow> exn + string \<times> row" where
  "get_with_regex body key matches pattern =
     rbind (required body key StrType) (\<lambda>(v, body'). rbind (as_str v) (\<lambda>s.
     if \<not> matches s then Inl (invalid_parameter key (''value '' @ quoted s @ '' is malformed - regex='' @ quoted pattern @ ''.''))
     else Inr (s, body')))"

definition get_user_id :: "row \<Rightarrow> string \<Rightarrow> exn + string \<times> row" where
  "get_user_id body key = get_with_regex body key (matches_prefixed ''005'' 15) ''^005[a-zA-Z0-9]{15,18}''"

definition get_work_id :: "row \<Rightarrow> string \<Rightarrow> exn + string \<times> row" where
  "get_work_id body key = get_with_regex body key (matches_prefixed ''0Bz'' 12) ''^0Bz[a-zA-Z0-9]{12,15}''"

definition validate_work_target_id :: "string \<Rightarrow> string \<Rightarrow> bool \<Rightarrow> exn + unit" where
  "validate_work_target_id v key in_path = (if length v \<noteq> 15 \<and> length v \<noteq> 18 then
      (if in_path then Inl (not_found (Some ''Unable to find specified workTargetId.''))
       else Inl (invalid_parameter key (''value '' @ quoted v @ '' has invalid length of '' @ int_str (int (length v)) @
         '', must be 15 or 18.'')))
    else Inr ())"

definition get_work_target_id :: "row \<Rightarrow> string \<Rightarrow> exn + string \<times> row" where
  "get_work_target_id body key = rbind (required body key StrType) (\<lambda>(v, body'). rbind (as_str v) (\<lambda>s.
     rbind (validate_work_target_id s key False) (\<lambda>_. Inr (s, body'))))"

definition get_decline_reason :: "row \<Rightarrow> string \<Rightarrow> exn + pyval option \<times> row" where
  "get_decline_reason record key = get_parameter
     \<lparr>po_remove = True, po_none_if_empty = True, po_none_ok = True, po_max_length = Some 250\<rparr> record key StrType"

text \<open>The scheme of a URL as \<open>urlparse\<close> sees it; it raises for brackets that do not match.\<close>

definition strip_url :: "string \<Rightarrow> string" where
  "strip_url s = filter (\<lambda>c. c \<notin> {CHR 0x09, CHR 0x0A, CHR 0x0D}) (dropWhile (\<lambda>c. ordc c \<le> 32) s)"

definition scheme_char :: "char \<Rightarrow> bool" where
  "scheme_char c \<longleftrightarrow> is_alnum c \<or> c \<in> set ''+-.''"

definition split_scheme :: "string \<Rightarrow> string \<times> string" where
  "split_scheme s = (let h = takeWhile (\<lambda>c. c \<noteq> CHR '':'') s in
     if length h < length s \<and> h \<noteq> [] \<and> is_alnum (hd h) \<and> \<not> is_digit (hd h) \<and> list_all scheme_char h
     then (lower h, drop (Suc (length h)) s) else ([], s))"

definition url_scheme :: "string \<Rightarrow> string option" where
  "url_scheme url = (let (scheme, r) = split_scheme (strip_url url);
     netloc = (if prefix ''//'' r then takeWhile (\<lambda>c. c \<notin> set ''/?#'') (drop 2 r) else [])
   in if (CHR ''['' \<in> set netloc) \<noteq> (CHR '']'' \<in> set netloc) then None else Some scheme)"

definition get_url :: "row \<Rightarrow> string \<Rightarrow> exn + string \<times> row" where
  "get_url body key = rbind (required body key StrType) (\<lambda>(v, body'). rbind (as_str v) (\<lambda>url.
     case url_scheme url of
       None \<Rightarrow> Inl (bad_request (key @ '' value of '' @ quoted url @ '' is not a valid URL.'') None)
     | Some sch \<Rightarrow> if sch \<noteq> ''https'' then Inl (bad_request (key @ '': Only URLs with https are allowed. URL is '' @ url) None)
         else Inr (url, body')))"

end
