(* ===== verification/Repo_Tables.thy ===== *)
theory Repo_Tables
  imports Aws_Repo Event_Entities
begin

text \<open>
  The tables and repositories of the service: the table names and virtual tables of
  \<open>repos/aws/__init__.py\<close>, the class attributes of every repository under \<open>repos/aws\<close> and
  \<open>tenant/repo\<close>, and the keys they build. Two rows of different repositories never share an address:
  the virtual tables inject their type into the hash key.
\<close>

section \<open>Tables\<close>

definition virtual_range_table :: string where "virtual_range_table = ''ShimServiceVirtualRangeTable''"
definition virtual_hash_table :: string where "virtual_hash_table = ''ShimServiceVirtualTable''"
definition event_table :: string where "event_table = ''ShimServiceEvent''"
definition session_table :: string where "session_table = ''ShimServiceSession''"

lemmas table_defs = virtual_range_table_def virtual_hash_table_def event_table_def session_table_def

definition sequence_vt :: virtual_table where "sequence_vt = \<lparr>vt_name = ''Sequence'', vt_type = ''a''\<rparr>"
definition sfdc_session_vt :: virtual_table where "sfdc_session_vt = \<lparr>vt_name = ''SfdcSession'', vt_type = ''b''\<rparr>"
definition user_session_vt :: virtual_table where "user_session_vt = \<lparr>vt_name = ''UserSession'', vt_type = ''c''\<rparr>"
definition session_context_vt :: virtual_table where "session_context_vt = \<lparr>vt_name = ''SessionContext'', vt_type = ''d''\<rparr>"
definition push_notification_vt :: virtual_table where "push_notification_vt = \<lparr>vt_name = ''PushNotification'', vt_type = ''e''\<rparr>"
definition resource_lock_vt :: virtual_table where "resource_lock_vt = \<lparr>vt_name = ''ResourceLock'', vt_type = ''f''\<rparr>"
definition pending_event_vt :: virtual_table where "pending_event_vt = \<lparr>vt_name = ''PendingEvent'', vt_type = ''g''\<rparr>"
definition work_id_map_vt :: virtual_table where "work_id_map_vt = \<lparr>vt_name = ''WorkIdMap'', vt_type = ''h''\<rparr>"
definition pending_tenant_event_vt :: virtual_table where "pending_tenant_event_vt = \<lparr>vt_name = ''PendingTenantEvent'', vt_type = ''i''\<rparr>"
definition tenant_context_vt :: virtual_table where "tenant_context_vt = \<lparr>vt_name = ''TenantContext'', vt_type = ''j''\<rparr>"

lemmas vt_defs = sequence_vt_def sfdc_session_vt_def user_session_vt_def session_context_vt_def
  push_notification_vt_def resource_lock_vt_def pending_event_vt_def work_id_map_vt_def
  pending_tenant_event_vt_def tenant_context_vt_def

text \<open>The key attributes of each table, in its schema.\<close>

definition table_keys :: "string \<Rightarrow> string list" where
  "table_keys t = (if t = virtual_range_table then [''hashKey'', ''rangeKey'']
     else if t = virtual_hash_table then [''hashKey'']
     else if t = event_table then [''tenantId'', ''seqNo'']
     else if t = session_table then [''tenantId'', ''sessionId''] else [])"

section \<open>Repositories\<close>

type_synonym key_types = "(string, attribute_type \<times> nat option) dict"

text \<open>\<open>AwsVirtualTableRepo\<close>, \<open>AwsVirtualRangeTableRepo\<close>, which asks for a range key, and plain tables.\<close>

definition virtual_table_repo :: "virtual_table \<Rightarrow> key_types \<Rightarrow> exn + repo" where
  "virtual_table_repo vt hash = new_repo
     \<lparr>rc_keys = \<lparr>hash_key = Some ''hashKey'', hash_key_attributes = Some hash, range_key = None,
        range_key_attributes = None, inject_hash_attribute = None\<rparr>,
      rc_table = Some virtual_hash_table, rc_state_counter = None, rc_update_time = None\<rparr> (Some vt)"

definition virtual_range_repo :: "virtual_table \<Rightarrow> key_types \<Rightarrow> key_types \<Rightarrow> exn + repo" where
  "virtual_range_repo vt hash rng = rbind (new_repo
     \<lparr>rc_keys = \<lparr>hash_key = Some ''hashKey'', hash_key_attributes = Some hash, range_key = Some ''rangeKey'',
        range_key_attributes = Some rng, inject_hash_attribute = None\<rparr>,
      rc_table = Some virtual_range_table, rc_state_counter = None, rc_update_time = None\<rparr> (Some vt))
     (\<lambda>r. if length (key_attributes (r_key r)) = 2 then Inr r else Inl AssertionError)"

definition sequence_repo :: repo where
  "sequence_repo = projr (virtual_table_repo sequence_vt [(''tenantId'', (TInt, None)), (''sequenceName'', (TStr, None))])"

definition events_repo :: repo where
  "events_repo = projr (new_repo
     \<lparr>rc_keys = \<lparr>hash_key = Some ''tenantId'', hash_key_attributes = None, range_key = Some ''seqNo'',
        range_key_attributes = None, inject_hash_attribute = None\<rparr>,
      rc_table = Some event_table, rc_state_counter = None, rc_update_time = None\<rparr> None)"

definition sessions_repo :: repo where
  "sessions_repo = projr (new_repo
     \<lparr>rc_keys = \<lparr>hash_key = Some ''tenantId'', hash_key_attributes = None, range_key = Some ''sessionId'',
        range_key_attributes = None, inject_hash_attribute = None\<rparr>,
      rc_table = Some session_table, rc_state_counter = Some (PyBool True), rc_update_time = Some (PyBool True)\<rparr> None)"

definition user_sessions_repo :: repo where
  "user_sessions_repo = projr (virtual_range_repo user_session_vt [(''tenantId'', (TInt, None))] [(''userId'', (TStr, None))])"

definition sfdc_sessions_repo :: repo where
  "sfdc_sessions_repo = projr (virtual_range_repo sfdc_session_vt [(''tenantId'', (TInt, None))] [(''sessionId'', (TStr, None))])"

definition contexts_repo :: repo where
  "contexts_repo = projr (virtual_range_repo session_context_vt [(''tenantId'', (TInt, None))]
     [(''sessionId'', (TStr, None)), (''contextType'', (TStr, None))])"

definition push_repo :: repo where
  "push_repo = projr (virtual_range_repo push_notification_vt [(''tenantId'', (TInt, None)), (''sessionId'', (TStr, None))]
     [(''seqNo'', (TInt, Some 16))])"

definition lock_repo :: repo where
  "lock_repo = projr (virtual_table_repo resource_lock_vt [(''resourceName'', (TStr, None))])"

definition pending_repo :: repo where
  "pending_repo = projr (virtual_range_repo pending_event_vt [(''eventType'', (TStr, None))]
     [(''activeAt'', (TInt, Some 19)), (''tenantId'', (TInt, Some 12)), (''sessionId'', (TStr, None))])"

definition work_id_repo :: repo where
  "work_id_repo = projr (virtual_table_repo work_id_map_vt [(''tenantId'', (TInt, None)), (''workTargetId'', (TStr, None))])"

definition tenant_event_repo :: repo where
  "tenant_event_repo = projr (virtual_range_repo pending_tenant_event_vt [(''eventType'', (TStr, None))] [(''tenantId'', (TInt, Some 12))])"

definition tenant_context_repo :: repo where
  "tenant_context_repo = projr (virtual_table_repo tenant_context_vt [(''contextType'', (TStr, None)), (''tenantId'', (TInt, None))])"

section \<open>What the repositories are\<close>

definition composite :: "string \<Rightarrow> (string, formatter) dict \<Rightarrow> string option \<Rightarrow> key" where
  "composite att parts vt = CompositeK \<lparr>ck_attribute = att,
     ck_parts = (case vt of None \<Rightarrow> parts | Some t \<Rightarrow> (''tableType'', StringFormatter None) # parts),
     ck_original_parts = parts, ck_delimiter = default_delimiter,
     ck_injected = map_option (\<lambda>t. (''tableType'', PyStr t)) vt\<rparr>"

definition virtual_repo :: "virtual_table \<Rightarrow> (string, formatter) dict \<Rightarrow> (string, formatter) dict option \<Rightarrow> repo" where
  "virtual_repo vt hash rng = \<lparr>r_table = (if rng = None then virtual_hash_table else virtual_range_table),
     r_key = composite ''hashKey'' hash (Some (vt_type vt)) #
       (case rng of None \<Rightarrow> [] | Some ps \<Rightarrow> [composite ''rangeKey'' ps None]),
     r_state_counter = None, r_update_time = None, r_virtual = Some vt\<rparr>"

lemma repo_eqs:
  "sequence_repo = virtual_repo sequence_vt [(''tenantId'', IntFormatter None), (''sequenceName'', StringFormatter None)] None"
  "lock_repo = virtual_repo resource_lock_vt [(''resourceName'', StringFormatter None)] None"
  "work_id_repo = virtual_repo work_id_map_vt [(''tenantId'', IntFormatter None), (''workTargetId'', StringFormatter None)] None"
  "tenant_context_repo = virtual_repo tenant_context_vt [(''contextType'', StringFormatter None), (''tenantId'', IntFormatter None)] None"
  "user_sessions_repo = virtual_repo user_session_vt [(''tenantId'', IntFormatter None)] (Some [(''userId'', StringFormatter None)])"
  "sfdc_sessions_repo = virtual_repo sfdc_session_vt [(''tenantId'', IntFormatter None)] (Some [(''sessionId'', StringFormatter None)])"
  "contexts_repo = virtual_repo session_context_vt [(''tenantId'', IntFormatter None)]
     (Some [(''sessionId'', StringFormatter None), (''contextType'', StringFormatter None)])"
  "push_repo = virtual_repo push_notification_vt [(''tenantId'', IntFormatter None), (''sessionId'', StringFormatter None)]
     (Some [(''seqNo'', IntFormatter (Some 16))])"
  "pending_repo = virtual_repo pending_event_vt [(''eventType'', StringFormatter None)]
     (Some [(''activeAt'', IntFormatter (Some 19)), (''tenantId'', IntFormatter (Some 12)), (''sessionId'', StringFormatter None)])"
  "tenant_event_repo = virtual_repo pending_tenant_event_vt [(''eventType'', StringFormatter None)]
     (Some [(''tenantId'', IntFormatter (Some 12))])"
  "events_repo = \<lparr>r_table = event_table, r_key = [PlainKey ''tenantId'', PlainKey ''seqNo''],
     r_state_counter = None, r_update_time = None, r_virtual = None\<rparr>"
  "sessions_repo = \<lparr>r_table = session_table, r_key = [PlainKey ''tenantId'', PlainKey ''sessionId''],
     r_state_counter = Some (PyStr ''stateCounter''), r_update_time = Some (PyStr ''updateTime''), r_virtual = None\<rparr>"
  by code_simp+

end
