(* ===== verification/Service_Env.thy ===== *)
theory Service_Env
  imports Repo_Tables
begin

text \<open>
  What the repositories are given when the service starts: the configuration (\<open>config.py\<close>), the
  DynamoDB client, the listeners of events, and the functions of packages outside the repository:
  the decorator \<open>retry\<close> and \<open>zlib\<close>. The retry decorator is a parameter at each type it is used at;
  \<open>retry_ok\<close> is its documented behaviour.
\<close>

section \<open>Configuration\<close>

record config =
  cf_pubsub_poll_session_seconds :: int
  cf_sessions_per_pubsub_poll_processor :: int
  cf_session_expiration_seconds :: int
  cf_worker_timeout_seconds :: int
  cf_max_create_session_retries :: nat
  cf_max_polling_seconds :: int
  cf_idle_polling_seconds :: int
  cf_sessions_per_live_agent_poll_processor :: int
  cf_live_agent_poll_session_seconds :: int
  cf_max_work_id_map_seconds :: int
  cf_max_push_notification_seconds :: int
  cf_max_context_ttl_seconds :: int

definition default_config :: config where
  "default_config = \<lparr>cf_pubsub_poll_session_seconds = 60, cf_sessions_per_pubsub_poll_processor = 20,
     cf_session_expiration_seconds = 18 * 60, cf_worker_timeout_seconds = 30, cf_max_create_session_retries = 10,
     cf_max_polling_seconds = 890, cf_idle_polling_seconds = 300, cf_sessions_per_live_agent_poll_processor = 20,
     cf_live_agent_poll_session_seconds = 60, cf_max_work_id_map_seconds = 3600 * 24 * 10,
     cf_max_push_notification_seconds = 3600 * 24 * 7, cf_max_context_ttl_seconds = 3600 * 24 * 7\<rparr>"

section \<open>The environment of the repositories\<close>

record sequence =
  sq_tenant_id :: int
  sq_name :: string
  sq_next_value :: int
  sq_timeout_at :: "int option"

record resource_lock =
  lk_name :: string
  lk_timeout_at :: int
  lk_refresh_seconds :: int
  lk_release_result :: "bool option"

type_synonym 'd event_listener = "event \<Rightarrow> transaction_request list \<Rightarrow> ('d, transaction_request list) io"

record 'd env =
  en_client :: "'d ddb_client"
  en_config :: config
  en_listeners :: "'d event_listener list option"
  en_retry_sequence :: "nat \<Rightarrow> ('d, sequence) io \<Rightarrow> ('d, sequence) io"
  en_retry_lock :: "nat \<Rightarrow> ('d, resource_lock option) io \<Rightarrow> ('d, resource_lock option) io"
  en_retry_unit :: "nat \<Rightarrow> ('d, unit) io \<Rightarrow> ('d, unit) io"
  en_deflate :: "bytes \<Rightarrow> bytes"
  en_inflate :: "bytes \<Rightarrow> bytes option"

text \<open>
  \<open>@retry(exceptions=OptimisticLockException, tries=n)\<close>: the call is repeated after an optimistic lock
  exception, at most \<open>n\<close> times, and the last exception is raised. The waiting does not show: a
  clock may give any times.
\<close>

fun attempts :: "nat \<Rightarrow> ('s, 'a) prog \<Rightarrow> ('s, 'a) prog" where
  "attempts 0 p = p"
| "attempts (Suc n) p = (if n = 0 then p
     else catch p (\<lambda>e. if e = OptimisticLock then Some (attempts n p) else None))"

definition retry_ok :: "(nat \<Rightarrow> ('s, 'a) prog \<Rightarrow> ('s, 'a) prog) \<Rightarrow> bool" where
  "retry_ok rt \<longleftrightarrow> (\<forall>n p s. 0 < n \<longrightarrow> rt n p s = attempts n p s)"

text \<open>An invariant that each attempt keeps when it is refused holds for the attempt that counts.\<close>

lemma attempts_last:
  assumes "attempts n p s = (r, t)" "I s" "\<And>s e t. I s \<Longrightarrow> p s = (Inl e, t) \<Longrightarrow> I t"
  obtains s' where "I s'" "p s' = (r, t)"
  using assms
proof (induction n arbitrary: s)
  case (Suc n)
  show ?case
  proof (cases "n = 0")
    case False
    obtain x u where x: "p s = (x, u)" by fastforce
    show ?thesis
    proof (cases "x = Inl OptimisticLock")
      case True
      then have "attempts n p u = (r, t)" using Suc.prems(2) False x by (simp add: catch_def)
      moreover have "I u" using Suc.prems(4) [OF Suc.prems(3)] x True by blast
      ultimately show ?thesis using Suc.IH Suc.prems by metis
    next
      case no: False
      then have "p s = (r, t)" using Suc.prems(2) False x by (auto simp: catch_def split: sum.splits if_splits)
      then show ?thesis using Suc.prems(1,3) by blast
    qed
  qed (use Suc.prems in auto)
qed auto

lemma retry_last:
  assumes "retry_ok rt" "0 < n" "rt n p s = (r, t)" "I s" "\<And>s e t. I s \<Longrightarrow> p s = (Inl e, t) \<Longrightarrow> I t"
  obtains s' where "I s'" "p s' = (r, t)"
proof -
  have "attempts n p s = (r, t)" using assms(1-3) by (simp add: retry_ok_def)
  then show thesis by (rule attempts_last [where I = I]) (use assms(4,5) that in blast)+
qed

lemma retry_ok_attempts [simp]: "retry_ok attempts"
  by (simp add: retry_ok_def)

text \<open>\<open>byte_utils.compress\<close> and \<open>decompress\<close>; \<open>zlib.error\<close> is an exception of its own.\<close>

definition compress_bytes :: "'d env \<Rightarrow> bytes \<Rightarrow> bytes" where
  "compress_bytes E b = (if b = [] then b else en_deflate E b)"

definition decompress_bytes :: "'d env \<Rightarrow> bytes \<Rightarrow> exn + bytes" where
  "decompress_bytes E b = (if b = [] then Inr b
     else case en_inflate E b of None \<Rightarrow> Inl (PlainException ''zlib.error'') | Some d \<Rightarrow> Inr d)"

text \<open>\<open>string_utils.compress\<close> and \<open>decompress\<close>.\<close>

definition compress_str :: "'d env \<Rightarrow> string \<Rightarrow> bytes" where
  "compress_str E s = en_deflate E (utf8_encode s)"

definition decompress_str :: "'d env \<Rightarrow> bytes \<Rightarrow> exn + string" where
  "decompress_str E b = (case en_inflate E b of None \<Rightarrow> Inl (PlainException ''zlib.error'')
     | Some d \<Rightarrow> (case utf8_decode d of None \<Rightarrow> Inl (ValueError ''utf-8'') | Some s \<Rightarrow> Inr s))"

definition zlib_ok :: "'d env \<Rightarrow> bool" where
  "zlib_ok E \<longleftrightarrow> (\<forall>b. en_inflate E (en_deflate E b) = Some b \<and> (b \<noteq> [] \<longrightarrow> en_deflate E b \<noteq> []))"

lemma decompress_compress: "zlib_ok E \<Longrightarrow> decompress_bytes E (compress_bytes E b) = Inr b"
    "zlib_ok E \<Longrightarrow> decompress_str E (compress_str E s) = Inr s"
  by (auto simp: zlib_ok_def decompress_bytes_def compress_bytes_def decompress_str_def compress_str_def utf8_roundtrip)

end
