(* ===== verification/Repo_Frames.thy ===== *)
theory Repo_Frames
  imports Service_Env
begin

text \<open>
  What the operations of the repositories leave alone: a program \<open>keeps\<close> the rows outside a set of
  addresses. The rules follow the program text, so the frame of a method is found by applying them.
  \<open>store\<close> is the contract of the service for the tables of this program.
\<close>

definition keeps :: "('d \<Rightarrow> ddb_view) \<Rightarrow> address set \<Rightarrow> ('d, 'a) io \<Rightarrow> bool" where
  "keeps view A p \<longleftrightarrow> (\<forall>w r w'. p w = (r, w') \<longrightarrow> (\<forall>b. b \<notin> A \<longrightarrow> view (w_db w') b = view (w_db w) b))"

named_theorems frame_rules \<open>rules for the rows a program keeps\<close>

lemma keepsD: "keeps view A p \<Longrightarrow> p w = (r, w') \<Longrightarrow> b \<notin> A \<Longrightarrow> view (w_db w') b = view (w_db w) b"
  unfolding keeps_def by blast

lemma keeps_noneD: "keeps view {} p \<Longrightarrow> p w = (r, w') \<Longrightarrow> view (w_db w') = view (w_db w)"
  by (auto simp: keeps_def)

lemma keepsI: "(\<And>w r w' b. p w = (r, w') \<Longrightarrow> b \<notin> A \<Longrightarrow> view (w_db w') b = view (w_db w) b) \<Longrightarrow> keeps view A p"
  by (auto simp: keeps_def)

lemma keeps_mono: "keeps view A p \<Longrightarrow> A \<subseteq> B \<Longrightarrow> keeps view B p"
  unfolding keeps_def by blast

lemma keeps_basic [frame_rules]:
  "keeps view A (ret x)" "keeps view A (raise e)" "keeps view A (lift_res r)" "keeps view A get_system_time_in_millis"
  "keeps view A new_uuid" "keeps view A (emit v)" "keeps view A (assert_that b)" "keeps view A (gets f)"
  by (auto simp: keeps_def get_system_time_in_millis_def new_uuid_def emit_def)

lemma keeps_bnd [frame_rules]: "keeps view A m \<Longrightarrow> (\<And>x. keeps view A (f x)) \<Longrightarrow> keeps view A (bnd m f)"
  unfolding keeps_def by (smt (verit, ccfv_threshold) bnd_cases)

lemma keeps_bnd_result:
  "keeps view A m \<Longrightarrow> (\<And>w x w'. m w = (Inr x, w') \<Longrightarrow> keeps view A (f x)) \<Longrightarrow> keeps view A (bnd m f)"
  unfolding keeps_def by (smt (verit, ccfv_threshold) bnd_cases)

lemma keeps_catch [frame_rules]:
  assumes "keeps view A m" "\<And>e p. h e = Some p \<Longrightarrow> keeps view A p"
  shows "keeps view A (catch m h)"
proof (rule keepsI)
  fix w r w' b assume c: "catch m h w = (r, w')" and b: "b \<notin> A"
  obtain x u where x: "m w = (x, u)" by fastforce
  have "view (w_db u) b = view (w_db w) b" using keepsD [OF assms(1) x b] .
  moreover have "view (w_db w') b = view (w_db u) b"
    using c x keepsD [OF assms(2) _ b] by (auto simp: catch_def split: sum.splits option.splits)
  ultimately show "view (w_db w') b = view (w_db w) b" by simp
qed

lemma keeps_finally [frame_rules]:
  assumes "keeps view A m" "keeps view A f"
  shows "keeps view A (finally_do m f)"
proof (rule keepsI)
  fix w r w' b assume c: "finally_do m f w = (r, w')" and b: "b \<notin> A"
  obtain x u where x: "m w = (x, u)" by fastforce
  obtain y t where y: "f u = (y, t)" by fastforce
  have "t = w'" using c x y by (auto simp: finally_do_def split: sum.splits)
  then show "view (w_db w') b = view (w_db w) b" using keepsD [OF assms(1) x b] keepsD [OF assms(2) y b] by simp
qed

lemma keeps_if [frame_rules]: "keeps view A p \<Longrightarrow> keeps view A q \<Longrightarrow> keeps view A (if b then p else q)"
  by simp

lemma keeps_option [frame_rules]:
  "keeps view A p \<Longrightarrow> (\<And>x. keeps view A (q x)) \<Longrightarrow> keeps view A (case v of None \<Rightarrow> p | Some x \<Rightarrow> q x)"
  by (cases v) auto

lemma keeps_sum [frame_rules]:
  "(\<And>x. keeps view A (p x)) \<Longrightarrow> (\<And>x. keeps view A (q x)) \<Longrightarrow> keeps view A (case v of Inl x \<Rightarrow> p x | Inr x \<Rightarrow> q x)"
  by (cases v) auto

lemma keeps_prod [frame_rules]: "(\<And>a b. keeps view A (p a b)) \<Longrightarrow> keeps view A (case v of (a, b) \<Rightarrow> p a b)"
  by (cases v) auto

lemma keeps_retry:
  assumes "retry_ok rt" "0 < n" "keeps view A p"
  shows "keeps view A (rt n p)"
proof (rule keepsI)
  fix w r w' b assume c: "rt n p w = (r, w')" and b: "b \<notin> A"
  obtain s where s: "view (w_db s) b = view (w_db w) b" "p s = (r, w')"
    by (rule retry_last [OF assms(1,2) c, where I = "\<lambda>s. view (w_db s) b = view (w_db w) b"])
       (use keepsD [OF assms(3) _ b] in auto)
  show "view (w_db w') b = view (w_db w) b" using keepsD [OF assms(3) s(2) b] s(1) by simp
qed

lemma keeps_for_each [frame_rules]: "(\<And>x. keeps view A (f x)) \<Longrightarrow> keeps view A (for_each f xs)"
  by (induction xs) (auto intro: frame_rules)

lemma keeps_time [frame_rules]:
  "keeps view A get_system_time_in_seconds" "keeps view A (get_epoch_seconds_in_future s f r)"
  "keeps view A (time_or_now t)" "keeps view A (session_from_record row)" "keeps view A (context_from_record row)"
  "keeps view A (new_event tn n ty i d c)" "keeps view A (pending_event_from_record row)"
  "keeps view A (new_pending_event pt tn sid u et aa ut)"
  unfolding get_system_time_in_seconds_def get_epoch_seconds_in_future_def time_or_now_def session_from_record_def
    new_session_def context_from_record_def new_session_context_def new_event_def pending_event_from_record_def
    new_pending_event_def
  by (intro frame_rules)+

lemma ident_row_dset: "ident_row p \<Longrightarrow> ident k \<Longrightarrow> ident_row (dset k v p)"
  by (auto simp: ident_row_def list_all_iff dkeys_dset)

lemma ident_names [simp]: "ident ''timeoutAt''" "ident ''nextValue''" "ident ''expireAt''" "ident ''stateCounter''"
    "ident ''activeAt''" "ident ''hashKey''" "ident ''rangeKey''" "ident ''tenantId''" "ident ''sessionId''" "ident ''seqNo''"
    "ident ''expireTime''" "ident ''updateTime''" "ident ''sessionStatus''" "ident ''failureMessage''" "ident ''sessionData''"
    "ident ''workId''" "ident ''userId''" "ident ''contextData''" "ident ''accessToken''" "ident ''sent''"
  by code_simp+

section \<open>The store\<close>

locale store = dynamo C view table_keys kok for C :: "'d ddb_client" and view kok +
  assumes keys_accepted: "None \<notin> set k \<Longrightarrow> kok (t, k)"

lemmas key_simps = repo_eqs virtual_repo_def composite_def build_key_from_args_def ck_prep_for_serialization_def
  build_key_def injected_values_def dreq_def prepare_item_def build_key_as_dict_def key_attributes_def vt_defs

definition vaddr :: "virtual_table \<Rightarrow> string list \<Rightarrow> string list option \<Rightarrow> address" where
  "vaddr vt hs rs = (if rs = None then virtual_hash_table else virtual_range_table,
     map (\<lambda>ss. Some (Attr [SV (join_str default_delimiter ss)])) ((vt_type vt # hs) # (case rs of None \<Rightarrow> [] | Some r \<Rightarrow> [r])))"

context store
begin

lemma key_accepted: "None \<notin> set (snd a) \<Longrightarrow> kok a"
  using keys_accepted [of "snd a" "fst a"] by simp

lemma find_item_keeps: "find_item C t keys c atts d = (r, d') \<Longrightarrow> view d' = view d"
proof -
  assume f: "find_item C t keys c atts d = (r, d')"
  obtain x d1 where x: "get_item C t keys c atts d = (x, d1)" by fastforce
  have "view d1 = view d" using x execute_get(1)
    by (auto simp: get_item_def bnd_def split: sum.splits prod.splits option.splits)
  then show ?thesis using f x by (auto simp: find_item_def catch_def bnd_def split: sum.splits if_splits)
qed

lemma find_keeps [frame_rules]: "keeps view A (find C r args c)"
  unfolding find_def by (intro frame_rules) (auto simp: keeps_def with_db_app find_item_keeps [OF surjective_pairing])

lemma sem_apply_other: "b \<noteq> ws_addr s \<Longrightarrow> sem_apply s v b = v b"
  by (simp add: sem_apply_def)

lemma update_item_keeps:
  assumes "cond_plain c" "keys_ok table_keys t keys" "item_ok_for keys item"
    "kok (addr_of table_keys t (item_of keys))"
  shows "keeps view {addr_of table_keys t (item_of keys)} (with_db (update_item C t keys item c))"
proof (rule keepsI)
  fix w r w' b assume e: "with_db (update_item C t keys item c) w = (r, w')" and b: "b \<notin> {addr_of table_keys t (item_of keys)}"
  have "update_item C t keys item c (w_db w) = (r, w_db w')" using e by (auto simp: with_db_def split: prod.splits)
  from update_item_spec [OF this assms(1-3)] assms(4) b show "view (w_db w') b = view (w_db w) b"
    by (auto simp: write_outcome_def sem_apply_other split: sum.splits)
qed

lemma delete_item_keeps:
  assumes "cond_plain c" "keys_ok table_keys t keys" "kok (addr_of table_keys t (item_of keys))"
  shows "keeps view {addr_of table_keys t (item_of keys)} (with_db (delete_item C t keys c))"
proof (rule keepsI)
  fix w r w' b assume e: "with_db (delete_item C t keys c) w = (r, w')" and b: "b \<notin> {addr_of table_keys t (item_of keys)}"
  have "delete_item C t keys c (w_db w) = (r, w_db w')" using e by (auto simp: with_db_def split: prod.splits)
  from delete_item_spec(1) [OF this assms(1,2)] assms(3) b show "view (w_db w') b = view (w_db w) b"
    by (auto simp: write_outcome_def sem_apply_other split: sum.splits)
qed

lemma patch_with_condition_keeps:
  assumes "prepare_item r entry = Inr item" "build_key_as_dict (r_key r) item True = Inr keys" "ident att"
    "keys_ok table_keys (r_table r) keys" "item_ok_for keys (dset att v (case patches of None \<Rightarrow> [] | Some p \<Rightarrow> p))"
    "kok (addr_of table_keys (r_table r) (item_of keys))"
  shows "keeps view {addr_of table_keys (r_table r) (item_of keys)} (patch_with_condition C r entry att v patches)"
  unfolding patch_with_condition_def assms(1,2) bnd_lift_Inr Let_def
  by (intro frame_rules update_item_keeps assms) (use assms(3) in \<open>auto simp: cond_plain_def intro: frame_rules split: if_splits\<close>)

lemma create_keeps:
  assumes "prepare_item r entry = Inr item" "repo_ok table_keys r" "stored_item_ok r item"
    "kok (addr_of table_keys (r_table r) (item_of item))"
  shows "keeps view {addr_of table_keys (r_table r) (item_of item)} (create C r entry)"
proof (rule keepsI)
  fix w x w' b assume e: "create C r entry w = (x, w')" and b: "b \<notin> {addr_of table_keys (r_table r) (item_of item)}"
  from create_outcome [OF e assms] b show "view (w_db w') b = view (w_db w) b"
    by (auto split: sum.splits bool.splits)
qed

text \<open>The same rows outside an address: what a transaction elsewhere does with them.\<close>

lemma sem_apply_cong: "\<lbrakk>\<And>b. b \<noteq> a \<Longrightarrow> v b = v' b; ws_addr s \<noteq> a; b \<noteq> a\<rbrakk> \<Longrightarrow> sem_apply s v b = sem_apply s v' b"
  by (simp add: sem_apply_def)

lemma fold_apply_cong:
  "\<lbrakk>\<And>b. b \<noteq> a \<Longrightarrow> v b = v' b; \<forall>s\<in>set ss. ws_addr s \<noteq> a; b \<noteq> a\<rbrakk> \<Longrightarrow> fold sem_apply ss v b = fold sem_apply ss v' b"
proof (induction ss arbitrary: v v')
  case (Cons s ss)
  have "sem_apply s v c = sem_apply s v' c" if "c \<noteq> a" for c
    using sem_apply_cong [where s = s, OF Cons.prems(1) _ that] Cons.prems(2) by simp
  from Cons.IH [OF this _ Cons.prems(3)] Cons.prems(2) show ?case by simp
qed simp

lemma sem_ok_cong: "(\<And>b. b \<noteq> a \<Longrightarrow> v b = v' b) \<Longrightarrow> ws_addr s \<noteq> a \<Longrightarrow> sem_ok v s = sem_ok v' s"
  by (simp add: sem_ok_def)

text \<open>A row that is found has the key it was asked for.\<close>

lemma from_ddb_get: "from_ddb_item i = Inr row \<Longrightarrow> dget k i = Some a \<Longrightarrow> \<exists>v. convert_value a = Inr v \<and> dget k row = Some v"
  by (induction i arbitrary: row) (auto simp: from_ddb_item_def rbind_eq_Inr split: if_splits)

lemma find_item_row:
  assumes "find_item C t keys True None d = (Inr (Some row), d')" "keys_ok table_keys t keys" "kok (addr_of table_keys t (item_of keys))"
  obtains i where "from_ddb_item i = Inr row" "view d (addr_of table_keys t (item_of keys)) = Some (\<lambda>a. dget a i)"
    "map (\<lambda>a. dget a i) (table_keys t) = key_of table_keys t (item_of keys)"
proof -
  from find_item_spec(2) [OF assms refl TrueI] obtain i where i: "from_ddb_item i = Inr row"
    "view d (addr_of table_keys t (item_of keys)) = Some (\<lambda>a. dget a i)" by blast
  from view_keys [OF i(2) [unfolded addr_of_def]] assms(3) i that show ?thesis by (simp add: addr_of_def)
qed

lemma find_entry:
  assumes "find C r args True w = (Inr (Some e), w')" "build_key_from_args (r_key r) args = Inr (keys, rest)"
    "keys_ok table_keys (r_table r) keys" "kok (addr_of table_keys (r_table r) (item_of keys))"
  obtains i row where "from_ddb_item i = Inr row" "deserialize_record r row = Inr e"
    "view (w_db w) (addr_of table_keys (r_table r) (item_of keys)) = Some (\<lambda>a. dget a i)"
    "map (\<lambda>a. dget a i) (table_keys (r_table r)) = key_of table_keys (r_table r) (item_of keys)"
proof -
  obtain x d where x: "find_item C (r_table r) keys True None (w_db w) = (x, d)" by fastforce
  with assms(1,2) obtain row where row: "x = Inr (Some row)" "deserialize_record r row = Inr e"
    by (auto simp: find_def bnd_def with_db_app split: sum.splits option.splits)
  show ?thesis by (rule find_item_row [OF x [unfolded row(1)] assms(3,4)]) (use that row(2) in blast)
qed

end

end
