(* ===== verification/Sequence_Repo.thy ===== *)
theory Sequence_Repo
  imports Repo_Frames
begin

text \<open>
  The repositories of events and of sequences (\<open>repos/aws/aws_events.py\<close>, \<open>aws_sequence.py\<close>) and the map of
  work identifiers, which listens to events (\<open>aws_work_id_map_repo.py\<close>). A tenant's events are numbered:
  the writer locks the row of the sequence, takes the next number, writes its requests and the event
  in one transaction, and unlocks the row.
\<close>

section \<open>Sequences\<close>

definition sequence_to_record :: "sequence \<Rightarrow> row" where
  "sequence_to_record s = [(''tenantId'', PyInt (sq_tenant_id s)), (''sequenceName'', PyStr (sq_name s)),
     (''nextValue'', PyInt (sq_next_value s)), (''timeoutAt'', val_int (sq_timeout_at s))]"

definition sequence_from_record :: "row \<Rightarrow> exn + sequence" where
  "sequence_from_record r = rbind (int_at ''tenantId'' r) (\<lambda>t. rbind (str_at ''sequenceName'' r) (\<lambda>n.
     rbind (int_at ''nextValue'' r) (\<lambda>v. rbind (opt_int (dget ''timeoutAt'' r)) (\<lambda>o'.
     Inr \<lparr>sq_tenant_id = t, sq_name = n, sq_next_value = v, sq_timeout_at = o'\<rparr>))))"

text \<open>\<open>find\<close> of a repository, with its initializer.\<close>

definition find_as :: "(row \<Rightarrow> ('d, 'a) io) \<Rightarrow> 'd env \<Rightarrow> repo \<Rightarrow> pyval list \<Rightarrow> bool \<Rightarrow> ('d, 'a option) io" where
  "find_as init E r args consistent = bnd (find (en_client E) r args consistent) (\<lambda>row.
     case row of None \<Rightarrow> ret None | Some x \<Rightarrow> bnd (init x) (\<lambda>v. ret (Some v)))"

text \<open>One attempt of \<open>__get_current_sequence\<close>, and the method with its retries.\<close>

definition current_sequence_once :: "'d env \<Rightarrow> int \<Rightarrow> string \<Rightarrow> int \<Rightarrow> bool \<Rightarrow> ('d, sequence) io" where
  "current_sequence_once E tenant name max_lock_seconds auto_increment =
     bnd (find_as (\<lambda>r. lift_res (sequence_from_record r)) E sequence_repo [PyInt tenant, PyStr name] True) (\<lambda>current.
     bnd (get_epoch_seconds_in_future max_lock_seconds None False) (\<lambda>next_timeout.
     case current of
       None \<Rightarrow>
         bnd (create (en_client E) sequence_repo (sequence_to_record
                \<lparr>sq_tenant_id = tenant, sq_name = name, sq_next_value = 2, sq_timeout_at = Some next_timeout\<rparr>)) (\<lambda>ok.
         if \<not> ok then raise OptimisticLock
         else ret \<lparr>sq_tenant_id = tenant, sq_name = name, sq_next_value = (if auto_increment then 1 else 0),
                sq_timeout_at = Some next_timeout\<rparr>)
     | Some cur \<Rightarrow> (case sq_timeout_at cur of
           None \<Rightarrow> raise TypeError
         | Some t \<Rightarrow>
             bnd (if t > 0 then bnd get_system_time_in_seconds (\<lambda>now. ret (now < t)) else ret False) (\<lambda>locked.
             if locked then raise OptimisticLock
             else bnd (patch_with_condition (en_client E) sequence_repo (sequence_to_record cur) ''timeoutAt''
                    (PyInt next_timeout)
                    (Some (if auto_increment then [(''nextValue'', PyInt (sq_next_value cur + 1))] else []))) (\<lambda>_.
                  ret \<lparr>sq_tenant_id = tenant, sq_name = name, sq_next_value = sq_next_value cur,
                       sq_timeout_at = Some next_timeout\<rparr>)))))"

definition get_current_sequence :: "'d env \<Rightarrow> int \<Rightarrow> string \<Rightarrow> int \<Rightarrow> bool \<Rightarrow> ('d, sequence) io" where
  "get_current_sequence E tenant name max_lock_seconds auto_increment =
     en_retry_sequence E 20 (current_sequence_once E tenant name max_lock_seconds auto_increment)"

definition unlock_sequence :: "'d env \<Rightarrow> sequence \<Rightarrow> ('d, unit) io" where
  "unlock_sequence E s = patch_with_condition (en_client E) sequence_repo (sequence_to_record s) ''timeoutAt'' (PyInt 0) None"

definition execute :: "'d env \<Rightarrow> int \<Rightarrow> string \<Rightarrow> int \<Rightarrow> (int \<Rightarrow> ('d, 'a) io) \<Rightarrow> ('d, 'a) io" where
  "execute E tenant name max_lock_seconds caller =
     bnd (get_current_sequence E tenant name max_lock_seconds True) (\<lambda>s.
     finally_do (caller (sq_next_value s)) (unlock_sequence E s))"

section \<open>Events\<close>

text \<open>\<open>create_put_item_request\<close> of a repository that does not override \<open>prepare_put\<close>.\<close>

definition make_put_request :: "repo \<Rightarrow> row \<Rightarrow> row \<Rightarrow> ('d, transaction_request) io" where
  "make_put_request r entry kwargs = create_put_item_request r ret entry kwargs"

fun examine_listeners :: "'d event_listener list \<Rightarrow> event \<Rightarrow> transaction_request list \<Rightarrow> ('d, transaction_request list) io" where
  "examine_listeners [] e reqs = ret reqs"
| "examine_listeners (l # ls) e reqs = bnd (l e reqs) (examine_listeners ls e)"

definition examine_event :: "'d env \<Rightarrow> event \<Rightarrow> ('d, transaction_request list option) io" where
  "examine_event E e = (case en_listeners E of None \<Rightarrow> ret None
     | Some ls \<Rightarrow> bnd (examine_listeners ls e []) (\<lambda>reqs. ret (if reqs \<noteq> [] then Some reqs else None)))"

definition query_events :: "'d env \<Rightarrow> int \<Rightarrow> int option \<Rightarrow> int option \<Rightarrow> ddb_item option \<Rightarrow> ('d, row list \<times> ddb_item option) io" where
  "query_events E tenant limit last_seq_no last_key = repo_query (en_client E) events_repo [PyInt tenant] False
     (case last_seq_no of None \<Rightarrow> NoRange | Some n \<Rightarrow> StartAfter (PyInt n)) limit last_key None"

text \<open>
  \<open>execute_with_event\<close>. A listener for the number makes the requests that depend on it; they take the
  place the caller kept for them in front of the event.
\<close>

definition with_event :: "'d env \<Rightarrow> event \<Rightarrow> transaction_request list \<Rightarrow> transaction_request list option \<Rightarrow>
    (int \<Rightarrow> ('d, transaction_request list) io) option \<Rightarrow> int \<Rightarrow> ('d, (nat \<times> cancel_reason) option) io" where
  "with_event E event reqs additional listener seq_no =
     bnd (make_put_request events_repo (event_to_record (event\<lparr>ev_seq_no := seq_no\<rparr>)) []) (\<lambda>event_put.
     bnd (case listener of None \<Rightarrow> ret reqs | Some l \<Rightarrow> l seq_no) (\<lambda>reqs.
     repo_transact_write (en_client E) (reqs @ [event_put] @ (case additional of None \<Rightarrow> [] | Some as \<Rightarrow> as))))"

definition execute_with_event :: "'d env \<Rightarrow> int \<Rightarrow> transaction_request list \<Rightarrow> event_type \<Rightarrow> event_payload \<Rightarrow>
    string option \<Rightarrow> int \<Rightarrow> (int \<Rightarrow> ('d, transaction_request list) io) option \<Rightarrow> ('d, (nat \<times> cancel_reason) option) io" where
  "execute_with_event E tenant reqs ty data event_id max_lock_seconds listener =
     bnd (case event_id of None \<Rightarrow> new_uuid | Some i \<Rightarrow> ret i) (\<lambda>i.
     bnd (new_event tenant 0 ty i data None) (\<lambda>event.
     bnd (examine_event E event) (\<lambda>additional.
     execute E tenant ''EventSeq'' max_lock_seconds (with_event E event reqs additional listener))))"

text \<open>\<open>execute_with_events\<close>: the numbers are counted up from the one taken; the creator makes a request for each.\<close>

fun events_requests :: "'d env \<Rightarrow> int \<Rightarrow> event_type \<Rightarrow> (int \<Rightarrow> ('d, transaction_request \<times> row) io) \<Rightarrow> nat \<Rightarrow> int \<Rightarrow>
    ('d, transaction_request list) io" where
  "events_requests E tenant ty creator 0 n = ret []"
| "events_requests E tenant ty creator (Suc k) n =
     bnd (creator (n + 1)) (\<lambda>(req, data).
     bnd new_uuid (\<lambda>i. bnd (new_event tenant (n + 1) ty i (DictData data) None) (\<lambda>event.
     bnd (make_put_request events_repo (event_to_record event) []) (\<lambda>event_put.
     bnd (events_requests E tenant ty creator k (n + 1)) (\<lambda>rest. ret (event_put # req # rest))))))"

definition execute_with_events :: "'d env \<Rightarrow> int \<Rightarrow> event_type \<Rightarrow> nat \<Rightarrow> (int \<Rightarrow> ('d, transaction_request \<times> row) io) \<Rightarrow>
    int \<Rightarrow> ('d, (nat \<times> cancel_reason) option) io" where
  "execute_with_events E tenant ty num creator max_lock_seconds =
     bnd (assert_that (num < 50)) (\<lambda>_.
     bnd (get_current_sequence E tenant ''EventSeq'' max_lock_seconds True) (\<lambda>s.
     finally_do (bnd (events_requests E tenant ty creator num (sq_next_value s)) (repo_transact_write (en_client E)))
       (unlock_sequence E s)))"

section \<open>The map of work identifiers\<close>

record work_id_map =
  wm_tenant_id :: int
  wm_user_id :: string
  wm_work_id :: string
  wm_work_target_id :: string
  wm_session_id :: string

definition work_to_record :: "work_id_map \<Rightarrow> row" where
  "work_to_record w = [(''tenantId'', PyInt (wm_tenant_id w)), (''userId'', PyStr (wm_user_id w)),
     (''workId'', PyStr (wm_work_id w)), (''workTargetId'', PyStr (wm_work_target_id w)), (''sessionId'', PyStr (wm_session_id w))]"

definition work_from_record :: "row \<Rightarrow> exn + work_id_map" where
  "work_from_record r = rbind (int_at ''tenantId'' r) (\<lambda>t. rbind (str_at ''userId'' r) (\<lambda>u. rbind (str_at ''workId'' r) (\<lambda>w.
     rbind (str_at ''workTargetId'' r) (\<lambda>g. rbind (str_at ''sessionId'' r) (\<lambda>s.
     Inr \<lparr>wm_tenant_id = t, wm_user_id = u, wm_work_id = w, wm_work_target_id = g, wm_session_id = s\<rparr>)))))"

definition find_work :: "'d env \<Rightarrow> int \<Rightarrow> string \<Rightarrow> ('d, work_id_map option) io" where
  "find_work E tenant target = find_as (\<lambda>r. lift_res (work_from_record r)) E work_id_repo [PyInt tenant, PyStr target] False"

definition get_work_id_of :: "'d env \<Rightarrow> int \<Rightarrow> string \<Rightarrow> string \<Rightarrow> bool \<Rightarrow> ('d, string) io" where
  "get_work_id_of E tenant user target in_path = bnd (find_work E tenant target) (\<lambda>w. case w of
     None \<Rightarrow> if in_path then raise (not_found (Some ''Unable to find specified workTargetId.''))
             else raise (invalid_parameter ''workTargetId'' ''Unable to find workId for given workTargetId'')
   | Some m \<Rightarrow> if wm_user_id m \<noteq> user then raise (invalid_parameter ''workTargetId'' ''workTargetId is not owned by the given user.'')
             else ret (wm_work_id m))"

definition work_request_of_event :: "config \<Rightarrow> event \<Rightarrow> ('d, transaction_request) io" where
  "work_request_of_event cf event = (case ev_data_record event of
     None \<Rightarrow> raise TypeError
   | Some data \<Rightarrow>
     bnd (lift_res (rbind (str_at ''userId'' data) (\<lambda>u. rbind (str_at ''workId'' data) (\<lambda>w. rbind (str_at ''workTargetId'' data) (\<lambda>g.
        rbind (str_at ''sessionId'' data) (\<lambda>s.
        Inr \<lparr>wm_tenant_id = ev_tenant_id event, wm_user_id = u, wm_work_id = w, wm_work_target_id = g, wm_session_id = s\<rparr>)))))) (\<lambda>entry.
     bnd get_system_time_in_seconds (\<lambda>now.
     lift_res (create_update_item_request work_id_repo (work_to_record entry)
       [(''workId'', PyStr (wm_work_id entry)), (''userId'', PyStr (wm_user_id entry)), (''sessionId'', PyStr (wm_session_id entry)),
        (''expireTime'', PyInt (now + cf_max_work_id_map_seconds cf))] False))))"

definition work_event_received :: "config \<Rightarrow> 'd event_listener" where
  "work_event_received cf event reqs = (if ev_type event = WORK_ACCEPTED
     then bnd (work_request_of_event cf event) (\<lambda>q. ret (reqs @ [q])) else ret reqs)"

section \<open>What the sequence guarantees\<close>

definition sequence_addr :: "int \<Rightarrow> string \<Rightarrow> address" where
  "sequence_addr tenant name = vaddr sequence_vt [int_str tenant, name] None"

definition sequence_key :: "int \<Rightarrow> string \<Rightarrow> row" where
  "sequence_key tenant name = [(''hashKey'', PyStr (join_str default_delimiter [''a'', int_str tenant, name]))]"

lemma sequence_key_args: "build_key_from_args (r_key sequence_repo) [PyInt t, PyStr n] = Inr (sequence_key t n, [])"
  by (simp add: key_simps sequence_key_def)

lemma sequence_item:
  "prepare_item sequence_repo (sequence_to_record s) = Inr ([(''nextValue'', PyInt (sq_next_value s)),
     (''timeoutAt'', val_int (sq_timeout_at s))] @ sequence_key (sq_tenant_id s) (sq_name s))"
  by (simp add: key_simps sequence_key_def sequence_to_record_def)

lemma sequence_repo_ok: "repo_ok table_keys sequence_repo" "r_table sequence_repo = virtual_hash_table"
    "table_keys virtual_hash_table = [''hashKey'']" "r_virtual sequence_repo = Some sequence_vt"
  by code_simp+

lemma sequence_key_addr:
  "addr_of table_keys (r_table sequence_repo) (item_of (sequence_key t n)) = sequence_addr t n"
  "keys_ok table_keys (r_table sequence_repo) (sequence_key t n)"
  by (simp_all add: sequence_repo_ok sequence_key_def sequence_addr_def vaddr_def addr_of_def key_of_def item_of_def
      to_ddb_item_def vt_defs keys_ok_def ident_row_def)

lemma sequence_from_record_key: "sequence_from_record r = Inr s \<Longrightarrow> dget ''tenantId'' r = Some (PyInt (sq_tenant_id s)) \<and>
    dget ''sequenceName'' r = Some (PyStr (sq_name s))"
  by (auto simp: sequence_from_record_def rbind_eq_Inr at_Inr)

lemma split_sequence_key:
  assumes "CHR 0x09 \<notin> set n"
  shows "split_str [CHR 0x09] (join_str [CHR 0x09] [''a'', int_str t, n]) = [''a'', int_str t, n]"
  by (rule split_join) (use assms int_str_chars [of "CHR 0x09" t] in \<open>auto simp: is_digit_def\<close>)

lemma deserialize_sequence:
  assumes "deserialize_record sequence_repo row = Inr e"
    "dget ''hashKey'' row = Some (PyStr (join_str default_delimiter [''a'', int_str t, n]))" "CHR 0x09 \<notin> set n"
  shows "dget ''tenantId'' e = Some (PyInt t) \<and> dget ''sequenceName'' e = Some (PyStr n)"
  using assms split_sequence_key [OF assms(3), of t]
  by (simp add: deserialize_record_def key_simps ck_prep_for_deserialization_def default_delimiter_def int_of_int_str
      del: join_str.simps) auto

context store
begin

lemma sequence_kok: "kok (sequence_addr t n)"
  by (auto simp: sequence_addr_def vaddr_def intro: keys_accepted)

lemma found_sequence:
  assumes "find_as (\<lambda>r. lift_res (sequence_from_record r)) E sequence_repo [PyInt t, PyStr n] True w = (Inr (Some s), w')"
    "en_client E = C" "CHR 0x09 \<notin> set n"
  shows "sq_tenant_id s = t \<and> sq_name s = n"
proof -
  from assms(1,2) obtain e w1 where f: "find C sequence_repo [PyInt t, PyStr n] True w = (Inr (Some e), w1)"
      and s: "sequence_from_record e = Inr s"
    by (auto simp: find_as_def elim!: bnd_InrE split: option.splits)
  obtain i row where i: "from_ddb_item i = Inr row" "deserialize_record sequence_repo row = Inr e"
      "map (\<lambda>a. dget a i) (table_keys (r_table sequence_repo)) = key_of table_keys (r_table sequence_repo) (item_of (sequence_key t n))"
    by (rule find_entry [OF f sequence_key_args sequence_key_addr(2)]) (auto simp: sequence_key_addr sequence_kok)
  from i(3) have "dget ''hashKey'' i = Some (Attr [SV (join_str default_delimiter [''a'', int_str t, n])])"
    by (simp add: sequence_repo_ok key_of_def sequence_key_def item_of_def to_ddb_item_def)
  from from_ddb_get [OF i(1) this] have "dget ''hashKey'' row = Some (PyStr (join_str default_delimiter [''a'', int_str t, n]))"
    by simp
  from deserialize_sequence [OF i(2) this assms(3)] sequence_from_record_key [OF s] show ?thesis by simp
qed

lemma patch_sequence_keeps:
  assumes "ident_row (case patches of None \<Rightarrow> [] | Some p \<Rightarrow> p)"
  shows "keeps view {sequence_addr (sq_tenant_id s) (sq_name s)}
    (patch_with_condition C sequence_repo (sequence_to_record s) ''timeoutAt'' v patches)"
proof -
  let ?k = "sequence_key (sq_tenant_id s) (sq_name s)"
  have k: "build_key_as_dict (r_key sequence_repo) ([(''nextValue'', PyInt (sq_next_value s)),
     (''timeoutAt'', val_int (sq_timeout_at s))] @ ?k) True = Inr ?k"
    by (simp add: key_simps sequence_key_def)
  have "item_ok_for ?k (dset ''timeoutAt'' v (case patches of None \<Rightarrow> [] | Some p \<Rightarrow> p))"
    using assms by (auto simp: item_ok_for_def sequence_key_def dkeys_dset intro: ident_row_dset)
  from patch_with_condition_keeps [OF sequence_item k _ sequence_key_addr(2) this] show ?thesis
    by (simp only: sequence_key_addr sequence_kok ident_names)
qed

definition same_but :: "address \<Rightarrow> 'd world \<Rightarrow> 'd world \<Rightarrow> bool" where
  "same_but a w w' \<longleftrightarrow> (\<forall>b. b \<noteq> a \<longrightarrow> view (w_db w') b = view (w_db w) b)"

lemma keeps_same_but: "keeps view {a} p \<Longrightarrow> p w = (r, w') \<Longrightarrow> same_but a w w'"
  unfolding same_but_def keeps_def by blast

lemma same_but_trans: "same_but a u v \<Longrightarrow> same_but a v w \<Longrightarrow> same_but a u w"
  unfolding same_but_def by simp

lemma current_once_keeps:
  assumes "en_client E = C" "CHR 0x09 \<notin> set n"
  shows "keeps view {sequence_addr t n} (current_sequence_once E t n secs inc)"
  unfolding current_sequence_once_def
proof (rule keeps_bnd_result)
  show "keeps view {sequence_addr t n} (find_as (\<lambda>r. lift_res (sequence_from_record r)) E sequence_repo [PyInt t, PyStr n] True)"
    unfolding find_as_def assms(1) by (intro frame_rules)
  fix w cur w'
  assume f: "find_as (\<lambda>r. lift_res (sequence_from_record r)) E sequence_repo [PyInt t, PyStr n] True w = (Inr cur, w')"
  have c: "keeps view {sequence_addr t n} (create (en_client E) sequence_repo (sequence_to_record
      \<lparr>sq_tenant_id = t, sq_name = n, sq_next_value = 2, sq_timeout_at = Some x\<rparr>))" for x
  proof -
    let ?item = "[(''nextValue'', PyInt 2), (''timeoutAt'', PyInt x)] @ sequence_key t n"
    have i: "prepare_item sequence_repo (sequence_to_record
      \<lparr>sq_tenant_id = t, sq_name = n, sq_next_value = 2, sq_timeout_at = Some x\<rparr>) = Inr ?item"
      by (simp add: sequence_item val_int_def)
    have a: "addr_of table_keys (r_table sequence_repo) (item_of ?item) = sequence_addr t n"
      by (simp add: sequence_repo_ok sequence_key_def sequence_addr_def vaddr_def addr_of_def key_of_def item_of_def
          to_ddb_item_def vt_defs)
    have "stored_item_ok sequence_repo ?item"
      by (simp add: stored_item_ok_def sequence_key_def key_simps)
    from create_keeps [OF i sequence_repo_ok(1) this] show ?thesis by (simp only: a sequence_kok assms(1))
  qed
  have p: "keeps view {sequence_addr t n} (patch_with_condition (en_client E) sequence_repo (sequence_to_record s) ''timeoutAt'' v
      (Some ps))" if "cur = Some s" "ident_row ps" for s v ps
    using patch_sequence_keeps [of "Some ps" s v] f found_sequence [OF _ assms] that assms(1) by auto
  have ps: "ident_row []" "ident_row [(''nextValue'', v)]" for v by (simp_all add: ident_row_def)
  show "keeps view {sequence_addr t n} (bnd (get_epoch_seconds_in_future secs None False) (\<lambda>next_timeout. case cur of
       None \<Rightarrow>
         bnd (create (en_client E) sequence_repo (sequence_to_record
                \<lparr>sq_tenant_id = t, sq_name = n, sq_next_value = 2, sq_timeout_at = Some next_timeout\<rparr>)) (\<lambda>ok.
         if \<not> ok then raise OptimisticLock
         else ret \<lparr>sq_tenant_id = t, sq_name = n, sq_next_value = (if inc then 1 else 0), sq_timeout_at = Some next_timeout\<rparr>)
     | Some cur \<Rightarrow> (case sq_timeout_at cur of
           None \<Rightarrow> raise TypeError
         | Some u \<Rightarrow>
             bnd (if u > 0 then bnd get_system_time_in_seconds (\<lambda>now. ret (now < u)) else ret False) (\<lambda>locked.
             if locked then raise OptimisticLock
             else bnd (patch_with_condition (en_client E) sequence_repo (sequence_to_record cur) ''timeoutAt''
                    (PyInt next_timeout) (Some (if inc then [(''nextValue'', PyInt (sq_next_value cur + 1))] else []))) (\<lambda>_.
                  ret \<lparr>sq_tenant_id = t, sq_name = n, sq_next_value = sq_next_value cur,
                       sq_timeout_at = Some next_timeout\<rparr>)))))"
    by (cases cur; cases "sq_timeout_at (the cur)") (auto intro!: frame_rules c p ps)
qed

lemma current_once_result:
  "current_sequence_once E t n secs inc w = (Inr s, w') \<Longrightarrow> sq_tenant_id s = t \<and> sq_name s = n"
  by (auto simp: current_sequence_once_def elim!: bnd_InrE split: option.splits if_splits)

lemma execute_outcome:
  assumes "execute E t n secs caller w = (res, w')" "en_client E = C" "CHR 0x09 \<notin> set n" "retry_ok (en_retry_sequence E)"
  shows "(\<exists>e. res = Inl e \<and> same_but (sequence_addr t n) w w') \<or>
    (\<exists>i u v x. same_but (sequence_addr t n) w u \<and> caller i u = (x, v) \<and> same_but (sequence_addr t n) v w' \<and>
       (res = x \<or> (\<exists>e. res = Inl e)))"
proof -
  let ?g = "get_current_sequence E t n secs True"
  have k: "keeps view {sequence_addr t n} ?g"
    unfolding get_current_sequence_def by (rule keeps_retry [OF assms(4) _ current_once_keeps [OF assms(2,3)]]) simp
  from assms(1) [unfolded execute_def] show ?thesis
  proof (cases rule: bnd_cases)
    case (err e)
    then show ?thesis using keeps_same_but [OF k err(1)] by blast
  next
    case (ok s u)
    obtain u' where "current_sequence_once E t n secs True u' = (Inr s, u)"
      using ok(1) retry_last [OF assms(4), of 20 _ w "Inr s" u "\<lambda>_. True"] unfolding get_current_sequence_def by auto
    then have s: "sq_tenant_id s = t" "sq_name s = n" using current_once_result by blast+
    obtain x v where x: "caller (sq_next_value s) u = (x, v)" by fastforce
    obtain y v' where y: "unlock_sequence E s v = (y, v')" by fastforce
    have "keeps view {sequence_addr t n} (unlock_sequence E s)"
      using patch_sequence_keeps [of None s "PyInt 0"] s assms(2) by (simp add: unlock_sequence_def ident_row_def)
    from keeps_same_but [OF this y] have "same_but (sequence_addr t n) v v'" .
    moreover have "v' = w'" "res = x \<or> (\<exists>e. res = Inl e)"
      using ok(2) x y by (auto simp: finally_do_def split: sum.splits)
    ultimately show ?thesis using keeps_same_but [OF k ok(1)] x by blast
  qed
qed

end

section \<open>An event and its requests\<close>

text \<open>The put of an event, with its condition that there is no event with its number.\<close>

definition event_put :: "event \<Rightarrow> transaction_request" where
  "event_put e = PutItem \<lparr>pr_table = event_table, pr_item = event_to_record e,
     pr_key_attributes = Some [''tenantId'', ''seqNo''], pr_condition = None, pr_virtual = None\<rparr>"

definition event_addr :: "int \<Rightarrow> int \<Rightarrow> address" where
  "event_addr tenant n = (event_table, [Some (Attr [NV (int_str tenant)]), Some (Attr [NV (int_str n)])])"

lemma put_event: "make_put_request events_repo (event_to_record e) [] w = (Inr (event_put e), w)"
  by (simp add: make_put_request_def create_put_item_request_def key_simps virtual_name_def event_put_def)

lemma event_put_ok:
  "request_ok table_keys (event_put e)" "ws_addr (request_sem table_keys (event_put e)) = event_addr (ev_tenant_id e) (ev_seq_no e)"
  by (cases "ev_data e"; simp add: event_put_def table_keys_def table_defs event_to_record_def ws_addr_def event_addr_def
      key_of_def item_of_def to_ddb_item_def val_str_def)+

text \<open>The listeners of the service: the map of work identifiers, which adds requests for accepted work only.\<close>

definition service_listeners :: "'d env \<Rightarrow> bool" where
  "service_listeners E \<longleftrightarrow> en_listeners E = None \<or> en_listeners E = Some [work_event_received (en_config E)]"

lemma examine_quiet: "service_listeners E \<Longrightarrow> ev_type e \<noteq> WORK_ACCEPTED \<Longrightarrow> examine_event E e w = (Inr None, w)"
  by (auto simp: service_listeners_def examine_event_def work_event_received_def bnd_def)

definition requests_ok :: "int \<Rightarrow> transaction_request list \<Rightarrow> bool" where
  "requests_ok tenant reqs \<longleftrightarrow> list_all (request_ok table_keys) reqs \<and>
     distinct (map (\<lambda>q. ws_addr (request_sem table_keys q)) reqs) \<and>
     (\<forall>q\<in>set reqs. let a = ws_addr (request_sem table_keys q) in
        a \<noteq> sequence_addr tenant ''EventSeq'' \<and> fst a \<noteq> event_table \<and> None \<notin> set (snd a))"

text \<open>
  The outcome of requests written with an event, outside the row of the sequence: all of them were
  allowed and done, or nothing was.
\<close>

definition event_outcome :: "int \<Rightarrow> ddb_view \<Rightarrow> transaction_request list \<Rightarrow> exn + (nat \<times> cancel_reason) option \<Rightarrow> ddb_view \<Rightarrow> bool" where
  "event_outcome tenant v qs res v' \<longleftrightarrow>
     (let same = (\<lambda>u. \<forall>b. b \<noteq> sequence_addr tenant ''EventSeq'' \<longrightarrow> v' b = u b);
          held = list_all (\<lambda>q. sem_ok v (request_sem table_keys q)) qs;
          after = fold sem_apply (map (request_sem table_keys) qs) v
      in case res of
           Inr None \<Rightarrow> held \<and> same after
         | Inr (Some (i, r)) \<Rightarrow> same v \<and> i < length qs \<and> cr_code r \<noteq> None \<and>
             (cr_code r = Some ''ConditionalCheckFailed'' \<longrightarrow> \<not> sem_ok v (request_sem table_keys (qs ! i)))
         | Inl e \<Rightarrow> same v \<or> held \<and> same after)"

context store
begin

lemma transact_with_event:
  assumes "repo_transact_write C (reqs @ [event_put ev]) u = (x, v)" "same_but (sequence_addr tenant ''EventSeq'') w u"
    "same_but (sequence_addr tenant ''EventSeq'') v w'" "res = x \<or> (\<exists>e. res = Inl e)" "requests_ok tenant reqs"
    "ev_tenant_id ev = tenant"
  shows "event_outcome tenant (view (w_db w)) (reqs @ [event_put ev]) res (view (w_db w'))"
proof -
  let ?qs = "reqs @ [event_put ev]" and ?a = "sequence_addr tenant ''EventSeq''"
  let ?ss = "map (request_sem table_keys) ?qs"
  have d: "event_addr tenant n \<noteq> ?a" for n
    by (simp add: event_addr_def sequence_addr_def vaddr_def table_defs)
  have away: "\<forall>s\<in>set ?ss. ws_addr s \<noteq> ?a" using assms(5,6) d by (auto simp: requests_ok_def event_put_ok Let_def)
  have ev: "ws_addr (request_sem table_keys (event_put ev)) = event_addr tenant (ev_seq_no ev)"
    using assms(6) by (simp add: event_put_ok)
  have r: "fst (ws_addr (request_sem table_keys q)) \<noteq> event_table \<and> kok (ws_addr (request_sem table_keys q))"
    if "q \<in> set reqs" for q
    using assms(5) that key_accepted by (simp add: requests_ok_def Let_def)
  have tx: "tx_ok ?qs"
    unfolding tx_ok_def using assms(5) r
    by (auto simp: list_all_iff requests_ok_def event_put_ok(1) ev event_addr_def image_iff intro!: keys_accepted)
       (metis fst_conv)
  have u: "b \<noteq> ?a \<Longrightarrow> view (w_db w) b = view (w_db u) b" for b using assms(2) unfolding same_but_def by metis
  have w': "b \<noteq> ?a \<Longrightarrow> view (w_db w') b = view (w_db v) b" for b using assms(3) unfolding same_but_def by metis
  have ok: "sem_ok (view (w_db u)) (request_sem table_keys q) = sem_ok (view (w_db w)) (request_sem table_keys q)" if "q \<in> set ?qs" for q
    using sem_ok_cong [of ?a "view (w_db w)" "view (w_db u)", OF u] away that by auto
  have held: "list_all (\<lambda>q. sem_ok (view (w_db u)) (request_sem table_keys q)) ?qs =
      list_all (\<lambda>q. sem_ok (view (w_db w)) (request_sem table_keys q)) ?qs"
    using ok by (auto simp: list_all_iff)
  have done': "b \<noteq> ?a \<Longrightarrow> view (w_db v) = fold sem_apply ?ss (view (w_db u)) \<Longrightarrow>
      view (w_db w') b = fold sem_apply ?ss (view (w_db w)) b" for b
    using w' [of b] fold_apply_cong [of ?a "view (w_db w)" "view (w_db u)" ?ss b, OF u away] by simp
  have undone: "b \<noteq> ?a \<Longrightarrow> view (w_db v) = view (w_db u) \<Longrightarrow> view (w_db w') b = view (w_db w) b" for b
    using w' [of b] u [of b] by simp
  note out = repo_transact_outcome [OF assms(1) tx, unfolded held]
  show ?thesis
  proof (cases x)
    case (Inl e)
    then obtain e' where "res = Inl e'" using assms(4) by blast
    then show ?thesis using out Inl done' undone unfolding event_outcome_def Let_def by auto
  next
    case (Inr o')
    show ?thesis
    proof (cases o')
      case None
      then show ?thesis using out Inr assms(4) done' unfolding event_outcome_def Let_def by auto
    next
      case (Some ir)
      obtain i r where ir: "ir = (i, r)" by fastforce
      have "view (w_db v) = view (w_db u)" "i < length ?qs" "cr_code r \<noteq> None"
        "cr_code r = Some ''ConditionalCheckFailed'' \<longrightarrow> \<not> sem_ok (view (w_db u)) (request_sem table_keys (?qs ! i))"
        using out Inr Some ir by auto
      moreover from this(2) have "?qs ! i \<in> set ?qs" by (rule nth_mem)
      ultimately show ?thesis using Inr Some ir assms(4) undone ok unfolding event_outcome_def Let_def by auto
    qed
  qed
qed

lemma execute_with_event_listener:
  assumes "execute_with_event E tenant reqs ty data event_id secs listener w = (res, w')" "en_client E = C"
    "retry_ok (en_retry_sequence E)" "service_listeners E" "ty \<noteq> WORK_ACCEPTED" "\<And>n. requests_ok tenant (rs n)"
    "\<And>n u. (case listener of None \<Rightarrow> ret reqs | Some l \<Rightarrow> l n) u = (Inr (rs n), u)"
  shows "\<exists>ev. ev_tenant_id ev = tenant \<and> ev_type ev = ty \<and>
    event_outcome tenant (view (w_db w)) (rs (ev_seq_no ev) @ [event_put ev]) res (view (w_db w'))"
proof -
  let ?a = "sequence_addr tenant ''EventSeq''"
  have refl: "event_outcome tenant (view (w_db w)) qs (Inl e) (view (w_db w'))" if "same_but ?a w w'" for qs e
    using that unfolding event_outcome_def same_but_def Let_def by auto
  have any: "\<exists>ev :: event. ev_tenant_id ev = tenant \<and> ev_type ev = ty"
    by (rule exI [of _ "\<lparr>ev_tenant_id = tenant, ev_seq_no = 0, ev_type = ty, ev_id = [], ev_data_record = None, ev_data = None, ev_created_time = 0\<rparr>"]) simp
  let ?id = "case event_id of None \<Rightarrow> new_uuid | Some i \<Rightarrow> ret i"
  have k: "keeps view {?a} ?id" "keeps view {?a} (new_event tenant 0 ty i data None)" for i
    by (auto intro!: frame_rules)
  from assms(1) [unfolded execute_with_event_def] show ?thesis
  proof (cases rule: bnd_cases)
    case (err e)
    then show ?thesis using keeps_same_but [OF k(1) err(1)] refl any by blast
  next
    case (ok i w1)
    note s1 = keeps_same_but [OF k(1) ok(1)]
    from ok(2) show ?thesis
    proof (cases rule: bnd_cases)
      case (err e)
      then show ?thesis using s1 keeps_same_but [OF k(2) err(1)] same_but_trans refl any by blast
    next
      case ev: (ok ev w2)
      note s2 = same_but_trans [OF s1 keeps_same_but [OF k(2) ev(1)]]
      have e: "ev_tenant_id ev = tenant" "ev_type ev = ty"
        using ev(1) by (auto simp: new_event_def elim!: bnd_InrE split: event_payload.splits)
      have x: "execute E tenant ''EventSeq'' secs (with_event E ev reqs None listener) w2 = (res, w')"
        using ev(2) examine_quiet [OF assms(4), of ev w2] e(2) assms(5) by (simp add: bnd_def)
      have "CHR 0x09 \<notin> set ''EventSeq''" by simp
      from execute_outcome [OF x assms(2) this assms(3)]
      consider (failed) e where "res = Inl e" "same_but ?a w2 w'"
        | (called) n u v y where "same_but ?a w2 u" "with_event E ev reqs None listener n u = (y, v)" "same_but ?a v w'"
            "res = y \<or> (\<exists>e. res = Inl e)"
        by blast
      then show ?thesis
      proof cases
        case failed
        then show ?thesis using s2 same_but_trans refl any by blast
      next
        case called
        have "repo_transact_write C (rs n @ [event_put (ev\<lparr>ev_seq_no := n\<rparr>)]) u = (y, v)"
          using called(2) assms(2) by (simp add: with_event_def put_event bnd_def assms(7))
        from transact_with_event [OF this same_but_trans [OF s2 called(1)] called(3,4) assms(6)] e
        show ?thesis by (intro exI [of _ "ev\<lparr>ev_seq_no := n\<rparr>"]) auto
      qed
    qed
  qed
qed

lemma execute_with_event_outcome:
  assumes "execute_with_event E tenant reqs ty data event_id secs None w = (res, w')" "en_client E = C"
    "retry_ok (en_retry_sequence E)" "service_listeners E" "ty \<noteq> WORK_ACCEPTED" "requests_ok tenant reqs"
  shows "\<exists>ev. ev_tenant_id ev = tenant \<and> ev_type ev = ty \<and>
    event_outcome tenant (view (w_db w)) (reqs @ [event_put ev]) res (view (w_db w'))"
  using execute_with_event_listener [OF assms(1-5), of "\<lambda>_. reqs"] assms(6) by simp

text \<open>What each of the requests did, once they were done together.\<close>

lemma fold_apply_other: "a \<notin> ws_addr ` set ss \<Longrightarrow> fold sem_apply ss v a = v a"
  by (induction ss arbitrary: v) (auto simp: sem_apply_def)

lemma fold_apply_at: "distinct (map ws_addr ss) \<Longrightarrow> s \<in> set ss \<Longrightarrow> fold sem_apply ss v (ws_addr s) = ws_effect s (v (ws_addr s))"
proof (induction ss arbitrary: v)
  case (Cons x xs)
  show ?case
  proof (cases "s = x")
    case True
    have "fold sem_apply (x # xs) v (ws_addr s) = sem_apply s v (ws_addr s)"
      using True Cons.prems(1) fold_apply_other [of "ws_addr s" xs "sem_apply s v"] by simp
    moreover have "sem_apply s v (ws_addr s) = ws_effect s (v (ws_addr s))" by (simp add: sem_apply_def)
    ultimately show ?thesis by (simp only:)
  next
    case False
    then have m: "s \<in> set xs" "ws_addr s \<noteq> ws_addr x" using Cons.prems by (auto simp: image_iff)
    have "fold sem_apply (x # xs) v (ws_addr s) = ws_effect s (sem_apply x v (ws_addr s))"
      using Cons.IH [of "sem_apply x v"] m(1) Cons.prems(1) by simp
    moreover have "sem_apply x v (ws_addr s) = v (ws_addr s)" using m(2) by (simp add: sem_apply_def)
    ultimately show ?thesis by (simp only:)
  qed
qed simp

lemma event_done:
  assumes "event_outcome tenant v (reqs @ [event_put ev]) (Inr None) v'" "requests_ok tenant reqs" "q \<in> set reqs"
  defines "a \<equiv> ws_addr (request_sem table_keys q)"
  shows "sem_ok v (request_sem table_keys q) \<and> v' a = ws_effect (request_sem table_keys q) (v a)"
proof -
  let ?ss = "map (request_sem table_keys) (reqs @ [event_put ev])"
  have d: "distinct (map ws_addr ?ss)"
    using assms(2) by (auto simp: requests_ok_def Let_def event_put_ok event_addr_def comp_def image_iff) (metis fst_conv)
  have "request_sem table_keys q \<in> set ?ss" "a \<noteq> sequence_addr tenant ''EventSeq''"
    using assms(2,3) by (auto simp: requests_ok_def Let_def a_def)
  moreover have "sem_ok v (request_sem table_keys q)" using assms(1,3) by (auto simp: event_outcome_def Let_def list_all_iff)
  moreover obtain t k where "a = (t, k)" by fastforce
  ultimately show ?thesis using assms(1) fold_apply_at [OF d, of "request_sem table_keys q" v]
    unfolding event_outcome_def Let_def a_def by simp
qed

lemma event_not_done:
  "event_outcome tenant v qs (Inr (Some r)) v' \<Longrightarrow> b \<noteq> sequence_addr tenant ''EventSeq'' \<Longrightarrow> v' b = v b"
  unfolding event_outcome_def Let_def by (cases r; cases b) simp

end

end
