(* ===== verification/Sessions_Repo.thy ===== *)
theory Sessions_Repo
  imports Sequence_Repo
begin

text \<open>
  The repositories of sessions, user sessions and Salesforce sessions (\<open>repos/aws/aws_sessions.py\<close>,
  \<open>aws_user_sessions.py\<close>, \<open>aws_sfdc_sessions_repo.py\<close> and the abstract classes over them). Creating,
  updating, touching and deleting a session each write several rows and an event in one transaction.
\<close>

section \<open>User sessions\<close>

definition find_user_session :: "'d env \<Rightarrow> int \<Rightarrow> string \<Rightarrow> ('d, user_session option) io" where
  "find_user_session E tenant user =
     find_as (\<lambda>r. lift_res (user_session_from_record r)) E user_sessions_repo [PyInt tenant, PyStr user] False"

definition find_by_session :: "'d env \<Rightarrow> session \<Rightarrow> ('d, user_session option) io" where
  "find_by_session E s = find_user_session E (s_tenant_id s) (s_user_id s)"

definition delete_user_session :: "'d env \<Rightarrow> int \<Rightarrow> string \<Rightarrow> ('d, bool) io" where
  "delete_user_session E tenant user = delete (en_client E) user_sessions_repo [PyInt tenant, PyStr user]"

section \<open>Salesforce sessions\<close>

record sfdc_record =
  sf_tenant_id :: int
  sf_session_id :: string
  sf_expire_time :: int
  sf_session_data :: bytes

definition sfdc_to_record :: "sfdc_record \<Rightarrow> row" where
  "sfdc_to_record r = [(''tenantId'', PyInt (sf_tenant_id r)), (''sessionId'', PyStr (sf_session_id r)),
     (''expireTime'', PyInt (sf_expire_time r)), (''sessionData'', PyBytes (sf_session_data r))]"

definition sfdc_from_record :: "row \<Rightarrow> exn + sfdc_record" where
  "sfdc_from_record r = rbind (int_at ''tenantId'' r) (\<lambda>t. rbind (str_at ''sessionId'' r) (\<lambda>s.
     rbind (int_at ''expireTime'' r) (\<lambda>e. rbind (bytes_at ''sessionData'' r) (\<lambda>d.
     Inr \<lparr>sf_tenant_id = t, sf_session_id = s, sf_expire_time = e, sf_session_data = d\<rparr>))))"

definition create_put_request :: "'d env \<Rightarrow> session_key \<Rightarrow> bytes \<Rightarrow> int \<Rightarrow> ('d, transaction_request) io" where
  "create_put_request E k data expire_time = make_put_request sfdc_sessions_repo (sfdc_to_record
     \<lparr>sf_tenant_id = k_tenant_id k, sf_session_id = k_session_id k, sf_expire_time = expire_time,
      sf_session_data = compress_bytes E data\<rparr>) []"

definition create_patch_request :: "int \<Rightarrow> string \<Rightarrow> row \<Rightarrow> bool \<Rightarrow> exn + transaction_request" where
  "create_patch_request tenant sid patches must_exist =
     create_update_item_request_from_args sfdc_sessions_repo patches [PyInt tenant, PyStr sid] must_exist"

definition load_data :: "'d env \<Rightarrow> session_key \<Rightarrow> ('d, bytes option) io" where
  "load_data E k = bnd (find_as (\<lambda>r. lift_res (sfdc_from_record r)) E sfdc_sessions_repo
       [PyInt (k_tenant_id k), PyStr (k_session_id k)] False) (\<lambda>r. case r of
     None \<Rightarrow> ret None
   | Some x \<Rightarrow> bnd (lift_res (decompress_bytes E (sf_session_data x))) (\<lambda>d. ret (Some d)))"

text \<open>The session's expiration, its Salesforce data and its context, read in one batch.\<close>

definition load_data_and_context :: "'d env \<Rightarrow> session_key \<Rightarrow> context_type \<Rightarrow> bool \<Rightarrow>
    ('d, (int \<times> bytes \<times> session_context) option) io" where
  "load_data_and_context E k ct consistent = (let ids = [PyInt (k_tenant_id k), PyStr (k_session_id k)] in
     bnd (lift_res (create_get_item_request_from_args sessions_repo ids consistent (Some [''sessionStatus'', ''expSeconds'']))) (\<lambda>session_req.
     bnd (lift_res (create_get_item_request_from_args sfdc_sessions_repo ids consistent None)) (\<lambda>our_req.
     bnd (lift_res (create_get_item_request_from_args contexts_repo (ids @ [PyStr (context_value ct)]) consistent None)) (\<lambda>context_req.
     bnd (repo_batch_get (en_client E) [(session_req, sessions_repo), (our_req, sfdc_sessions_repo), (context_req, contexts_repo)]) (\<lambda>result.
     if bgr_row_count result \<noteq> 3 then ret None
     else bnd (lift_res (get_next_entry result)) (\<lambda>(sess, result).
       bnd (case sess of None \<Rightarrow> raise TypeError | Some r \<Rightarrow> ret r) (\<lambda>sess.
       bnd (lift_res (dreq ''sessionStatus'' sess)) (\<lambda>st.
       if st \<noteq> PyStr (status_value ACTIVE) then raise SessionNotActive
       else bnd (lift_res (get_next_entry result)) (\<lambda>(ours, result).
         bnd (case ours of None \<Rightarrow> raise AttributeError | Some r \<Rightarrow> lift_res (sfdc_from_record r)) (\<lambda>ours.
         bnd (lift_res (get_next_entry result)) (\<lambda>(ctx, result).
         bnd (case ctx of None \<Rightarrow> raise AttributeError | Some r \<Rightarrow> context_from_record r) (\<lambda>ctx.
         bnd (lift_res (int_at ''expSeconds'' sess)) (\<lambda>secs.
         bnd (lift_res (decompress_bytes E (sf_session_data ours))) (\<lambda>data.
         ret (Some (secs, data, ctx))))))))))))))))"

section \<open>Sessions\<close>

definition find_session :: "'d env \<Rightarrow> session_key \<Rightarrow> ('d, session option) io" where
  "find_session E k = find_as session_from_record E sessions_repo [PyInt (k_tenant_id k), PyStr (k_session_id k)] True"

definition get_session :: "'d env \<Rightarrow> session_key \<Rightarrow> bool \<Rightarrow> bool \<Rightarrow> bool \<Rightarrow> ('d, session) io" where
  "get_session E k in_path allow_pending allow_failure = bnd (find_session E k) (\<lambda>s. case s of
     None \<Rightarrow> raise (if in_path then gone ''Session is gone.'' else bad_request ''Session is gone.'' None)
   | Some s \<Rightarrow> if s_status s \<noteq> ACTIVE
       then bnd (lift_res (verify_session_status s allow_pending allow_failure)) (\<lambda>_. ret s) else ret s)"

text \<open>
  \<open>create_session\<close> first sets the expiration time of the session it is given, whatever follows; the
  caller sees the session it returns.
\<close>

definition with_expiration :: "session \<Rightarrow> ('d, session) io" where
  "with_expiration s = bnd get_system_time_in_seconds (\<lambda>now.
     ret (s\<lparr>s_expiration_time := Some (now + s_expiration_seconds s)\<rparr>))"

definition session_event_data :: "session \<Rightarrow> event_payload" where
  "session_event_data s = DictData [(''sessionId'', PyStr (s_session_id s)), (''userId'', PyStr (s_user_id s))]"

definition create_session_of :: "'d env \<Rightarrow> session \<Rightarrow> ('d, unit) io" where
  "create_session_of E s =
     bnd (make_put_request sessions_repo (session_to_record s) []) (\<lambda>session_put.
     bnd (make_put_request user_sessions_repo (user_session_to_record (to_user_session s)) [(''expireTime'', val_int (s_expiration_time s))]) (\<lambda>user_session_put.
     bnd (execute_with_event E (s_tenant_id s) [session_put, user_session_put] SESSION_CREATED (session_event_data s) None 30 None) (\<lambda>bad.
     case bad of
       None \<Rightarrow> ret ()
     | Some (i, _) \<Rightarrow>
         bnd (if i = 1 then find_by_session E s else ret None) (\<lambda>sess.
         case sess of Some u \<Rightarrow> raise (UserSessionExists (us_session_id u))
                    | None \<Rightarrow> raise (entity_exists ''Session already exists.'')))))"

definition create_session :: "'d env \<Rightarrow> session \<Rightarrow> ('d, unit) io" where
  "create_session E s = bnd (with_expiration s) (create_session_of E)"

definition update_session :: "'d env \<Rightarrow> session \<Rightarrow> ('d, bool) io" where
  "update_session E s =
     bnd (create_state_check_request sessions_repo (session_to_record s) None) (\<lambda>q.
     bnd (execute_with_event E (s_tenant_id s) [q] SESSION_UPDATED (session_event_data s) None 30 None) (\<lambda>bad.
     ret (bad = None)))"

definition touch_requests :: "session_key \<Rightarrow> string \<Rightarrow> row \<Rightarrow> exn + transaction_request list" where
  "touch_requests k user patches =
     rbind (create_update_item_request_from_args sessions_repo patches [PyInt (k_tenant_id k), PyStr (k_session_id k)] True) (\<lambda>a.
     rbind (create_update_item_request_from_args user_sessions_repo patches [PyInt (k_tenant_id k), PyStr user] True) (\<lambda>b.
     rbind (create_patch_request (k_tenant_id k) (k_session_id k) patches True) (\<lambda>c. Inr [a, b, c])))"

definition touch_with_event :: "'d env \<Rightarrow> session_key \<Rightarrow> string \<Rightarrow> int \<Rightarrow> event_type \<Rightarrow> row option \<Rightarrow> ('d, int option) io" where
  "touch_with_event E k user seconds ty data =
     bnd get_system_time_in_seconds (\<lambda>now. let expiration = now + seconds in
     bnd (lift_res (touch_requests k user [(''expireTime'', PyInt expiration)])) (\<lambda>reqs.
     bnd (execute_with_event E (k_tenant_id k) reqs ty
        (DictData (dupdate (case data of None \<Rightarrow> [] | Some d \<Rightarrow> d)
           [(''sessionId'', PyStr (k_session_id k)), (''userId'', PyStr user)])) None 30 None) (\<lambda>bad.
     ret (if bad \<noteq> None then None else Some expiration))))"

definition touch :: "'d env \<Rightarrow> session \<Rightarrow> ('d, int option) io" where
  "touch E s = touch_with_event E (key_of_session s) (s_user_id s) (s_expiration_seconds s) SESSION_TOUCHED None"

definition store_event :: "'d env \<Rightarrow> session_key \<Rightarrow> string \<Rightarrow> int \<Rightarrow> event_type \<Rightarrow> row option \<Rightarrow> ('d, int option) io" where
  "store_event E k user seconds ty data = touch_with_event E k user seconds ty data"

definition delete_requests :: "session \<Rightarrow> exn + transaction_request list" where
  "delete_requests s =
     rbind (create_delete_item_request_from_args sessions_repo [PyInt (s_tenant_id s), PyStr (s_session_id s)] True) (\<lambda>a.
     rbind (create_delete_item_request_from_args user_sessions_repo [PyInt (s_tenant_id s), PyStr (s_user_id s)] False) (\<lambda>b. Inr [a, b]))"

definition delete_session :: "'d env \<Rightarrow> session \<Rightarrow> ('d, bool) io" where
  "delete_session E s = bnd (lift_res (delete_requests s)) (\<lambda>reqs.
     bnd (execute_with_event E (s_tenant_id s) reqs SESSION_DELETED (session_event_data s) None 30 None) (\<lambda>bad. ret (bad = None)))"

text \<open>The batch write returns nothing; the method is declared to return a boolean.\<close>

definition fix_orphaned_user_session :: "'d env \<Rightarrow> session \<Rightarrow> ('d, unit) io" where
  "fix_orphaned_user_session E s =
     bnd (lift_res (create_delete_item_request_from_args user_sessions_repo [PyInt (s_tenant_id s), PyStr (s_user_id s)] False)) (\<lambda>q.
     repo_batch_write (en_client E) [q])"

definition fix_orphaned_session :: "'d env \<Rightarrow> session \<Rightarrow> string \<Rightarrow> ('d, unit) io" where
  "fix_orphaned_session E s sid = fix_orphaned_user_session E (s\<lparr>s_session_id := sid\<rparr>)"

definition create_get_item_request_from_key :: "session_key \<Rightarrow> bool \<Rightarrow> string list option \<Rightarrow> exn + get_item_request" where
  "create_get_item_request_from_key k consistent atts =
     create_get_item_request_from_args sessions_repo [PyInt (k_tenant_id k), PyStr (k_session_id k)] consistent atts"

text \<open>The active sessions of a tenant with a channel: whether there are any, by a counting query, and their identifiers.\<close>

definition channel_filters :: "string \<Rightarrow> filter_operation list" where
  "channel_filters channel = [eq_filter (Some ''sessionStatus'') (PyStr (status_value ACTIVE)), eq_filter (Some (''pt_'' @ channel)) (PyBool True)]"

definition has_sessions_with_platform_channel_type :: "'d env \<Rightarrow> int \<Rightarrow> string \<Rightarrow> ('d, bool) io" where
  "has_sessions_with_platform_channel_type E tenant channel =
     bnd (lift_res (query_set_props sessions_repo [PyInt tenant] True NoRange None (Some (channel_filters channel)) None True)) (\<lambda>props.
     bnd (\<lambda>w. case rs_dunder_next (query_function (en_client E) props) (new_result_set None, w_db w) of
            (res, (rs, d)) \<Rightarrow> (map_sum id (\<lambda>row. (row, rs_count rs)) res, w\<lparr>w_db := d\<rparr>)) (\<lambda>(row, count).
     bnd (case row of None \<Rightarrow> ret () | Some r \<Rightarrow> bnd (lift_res (deserialize_record sessions_repo r)) (\<lambda>e. bnd (session_from_record e) (\<lambda>_. ret ()))) (\<lambda>_.
     case count of None \<Rightarrow> raise TypeError | Some n \<Rightarrow> ret (n > 0))))"

definition query_session_ids_with_platform_channel_type :: "'d env \<Rightarrow> int \<Rightarrow> string \<Rightarrow> ('d, pyval list) io" where
  "query_session_ids_with_platform_channel_type E tenant channel =
     bnd (lift_res (query_set_props sessions_repo [PyInt tenant] True NoRange None (Some (channel_filters channel)) (Some [''sessionId'']) False)) (\<lambda>props.
     bnd (\<lambda>w. case rs_list (c_fuel (en_client E)) (query_function (en_client E) props) (new_result_set None, w_db w) of
            (res, (rs, d)) \<Rightarrow> (res, w\<lparr>w_db := d\<rparr>)) (\<lambda>rows.
     lift_res (map_res (dreq ''sessionId'') rows)))"

section \<open>Creating a session is all or nothing\<close>

definition session_addr :: "int \<Rightarrow> string \<Rightarrow> address" where
  "session_addr tenant sid = (session_table, [Some (Attr [NV (int_str tenant)]), Some (Attr [SV sid])])"

definition user_addr :: "int \<Rightarrow> string \<Rightarrow> address" where
  "user_addr tenant user = vaddr user_session_vt [int_str tenant] (Some [user])"

definition sfdc_addr :: "int \<Rightarrow> string \<Rightarrow> address" where
  "sfdc_addr tenant sid = vaddr sfdc_session_vt [int_str tenant] (Some [sid])"

lemma addrs_differ [simp]:
  "session_addr t x \<noteq> user_addr t' y" "user_addr t' y \<noteq> session_addr t x" "session_addr t x \<noteq> sequence_addr t' y"
  "user_addr t x \<noteq> sequence_addr t' y" "event_addr t n \<noteq> session_addr t' y" "event_addr t n \<noteq> user_addr t' y"
  "session_addr t' y \<noteq> event_addr t n" "user_addr t' y \<noteq> event_addr t n" "event_addr t n \<noteq> sequence_addr t' y"
  "sfdc_addr t x \<noteq> user_addr t' y" "user_addr t' y \<noteq> sfdc_addr t x" "sfdc_addr t x \<noteq> session_addr t' y"
  "session_addr t' y \<noteq> sfdc_addr t x" "sfdc_addr t x \<noteq> sequence_addr t' y" "sfdc_addr t x \<noteq> event_addr t' n"
  "event_addr t' n \<noteq> sfdc_addr t x"
  by (simp_all add: session_addr_def user_addr_def sfdc_addr_def sequence_addr_def event_addr_def vaddr_def table_defs vt_defs)

lemma addr_tables [simp]: "fst (session_addr t x) = session_table" "fst (user_addr t y) = virtual_range_table"
    "fst (sfdc_addr t y) = virtual_range_table" "None \<notin> set (snd (session_addr t x))" "None \<notin> set (snd (user_addr t y))"
    "None \<notin> set (snd (sfdc_addr t y))" "session_table \<noteq> event_table" "virtual_range_table \<noteq> event_table"
  by (auto simp: session_addr_def user_addr_def sfdc_addr_def vaddr_def table_defs)

definition row_of :: "row \<Rightarrow> ddb_row" where
  "row_of r = (\<lambda>a. dget a (item_of r))"

text \<open>The item of a user session: its key, and the time it expires.\<close>

definition user_item :: "session \<Rightarrow> row" where
  "user_item s = [(''sessionId'', PyStr (s_session_id s)), (''fcmDeviceToken'', val_str (s_fcm_device_token s)),
     (''timeCreated'', PyInt (s_time_created s)),
     (''hashKey'', PyStr (join_str default_delimiter [''c'', int_str (s_tenant_id s)])), (''rangeKey'', PyStr (s_user_id s)),
     (''expireTime'', val_int (s_expiration_time s))]"

definition session_put :: "session \<Rightarrow> transaction_request" where
  "session_put s = PutItem \<lparr>pr_table = session_table, pr_item = session_to_record s,
     pr_key_attributes = Some [''tenantId'', ''sessionId''], pr_condition = None, pr_virtual = None\<rparr>"

definition user_put :: "session \<Rightarrow> transaction_request" where
  "user_put s = PutItem \<lparr>pr_table = virtual_range_table, pr_item = user_item s,
     pr_key_attributes = Some [''hashKey'', ''rangeKey''], pr_condition = None, pr_virtual = Some ''UserSession''\<rparr>"

lemma put_session: "make_put_request sessions_repo (session_to_record s) [] w = (Inr (session_put s), w)"
  by (simp add: make_put_request_def create_put_item_request_def key_simps virtual_name_def session_put_def)

lemma put_user: "make_put_request user_sessions_repo (user_session_to_record (to_user_session s))
    [(''expireTime'', val_int (s_expiration_time s))] w = (Inr (user_put s), w)"
  by (simp add: make_put_request_def create_put_item_request_def key_simps virtual_name_def user_put_def user_item_def
      user_session_to_record_def to_user_session_def)

lemma storable_item: "storable_row r \<Longrightarrow> \<exists>i. to_ddb_item r = Inr i \<and> dkeys i = dkeys r"
  using convert_to_attribute(3) [of r] by (auto simp: storable_row_def to_ddb_item_def)

lemma storable_dset: "storable_row r \<Longrightarrow> storable v \<Longrightarrow> storable_row (dset k v r)"
  by (induction r) (auto simp: storable_row_def split: if_splits)

lemma storable_serialize: "storable_row r \<Longrightarrow> storable_row (serialize_platform_channels ts r)"
  by (induction ts arbitrary: r) (auto simp: serialize_platform_channels_def storable_dset)

lemma distinct_serialize: "distinct (dkeys r) \<Longrightarrow> distinct (dkeys (serialize_platform_channels ts r))"
  by (induction ts arbitrary: r) (auto simp: serialize_platform_channels_def)

lemma storable_vals [simp]: "storable (val_str v)" "storable (val_int i)"
  by (auto simp: val_str_def val_int_def split: option.splits)

lemma session_record_row: "storable_row (session_to_record s)" "distinct (dkeys (session_to_record s))"
    "dget ''tenantId'' (session_to_record s) = Some (PyInt (s_tenant_id s))"
    "dget ''sessionId'' (session_to_record s) = Some (PyStr (s_session_id s))"
proof -
  let ?r = "[(''orgId'', PyStr (s_org_id s)), (''tenantId'', PyInt (s_tenant_id s)), (''sessionId'', PyStr (s_session_id s)),
          (''timeCreated'', PyInt (s_time_created s)), (''userId'', PyStr (s_user_id s)),
          (''instanceUrl'', PyStr (s_instance_url s)), (''accessToken'', PyStr (s_access_token s)),
          (''expSeconds'', PyInt (s_expiration_seconds s)), (''stateCounter'', PyInt (s_state_counter s)),
          (''updateTime'', PyInt (s_update_time s)), (''sessionStatus'', PyStr (status_value (s_status s))),
          (''expireTime'', val_int (s_expiration_time s))]"
  have "storable_row ?r" "distinct (dkeys ?r)" by (simp_all add: storable_row_def)
  then show "storable_row (session_to_record s)" "distinct (dkeys (session_to_record s))"
    by (auto simp: session_to_record_def set_if_not_none_def split: option.splits
        intro!: storable_dset storable_serialize distinct_dset distinct_serialize)
  show "dget ''tenantId'' (session_to_record s) = Some (PyInt (s_tenant_id s))"
    "dget ''sessionId'' (session_to_record s) = Some (PyStr (s_session_id s))"
    by (auto simp: session_to_record_def set_if_not_none_def dget_serialize split: option.splits)
qed

lemma session_item_get:
  "dget ''tenantId'' (item_of (session_to_record s)) = Some (Attr [NV (int_str (s_tenant_id s))])"
  "dget ''sessionId'' (item_of (session_to_record s)) = Some (Attr [SV (s_session_id s)])"
proof -
  obtain i where i: "to_ddb_item (session_to_record s) = Inr i" using storable_item session_record_row(1) by blast
  show "dget ''tenantId'' (item_of (session_to_record s)) = Some (Attr [NV (int_str (s_tenant_id s))])"
    "dget ''sessionId'' (item_of (session_to_record s)) = Some (Attr [SV (s_session_id s)])"
    using to_ddb_item_get [OF i session_record_row(3)] to_ddb_item_get [OF i session_record_row(4)] i
    by (simp_all add: val_attr_def)
qed

lemma session_put_sem: "request_ok table_keys (session_put s)"
    "request_sem table_keys (session_put s) = \<lparr>ws_table = session_table, ws_key = snd (session_addr (s_tenant_id s) (s_session_id s)),
       ws_atoms = [NoAttr ''tenantId'', NoAttr ''sessionId''], ws_effect = put_effect (item_of (session_to_record s))\<rparr>"
  using session_record_row dget_None_iff [of "''tenantId''" "session_to_record s"] dget_None_iff [of "''sessionId''" "session_to_record s"]
  by (auto simp: session_put_def table_keys_def table_defs key_of_def session_item_get session_addr_def)

lemma user_put_sem: "request_ok table_keys (user_put s)"
    "request_sem table_keys (user_put s) = \<lparr>ws_table = virtual_range_table, ws_key = snd (user_addr (s_tenant_id s) (s_user_id s)),
       ws_atoms = [NoAttr ''hashKey'', NoAttr ''rangeKey''], ws_effect = put_effect (item_of (user_item s))\<rparr>"
  by (auto simp: user_put_def table_keys_def table_defs user_addr_def vaddr_def vt_defs user_item_def key_of_def item_of_def
      to_ddb_item_def val_str_def val_int_def split: option.splits)

text \<open>The rows a created session has: the session, the session of its user, and the event.\<close>

definition created_rows :: "session \<Rightarrow> event \<Rightarrow> ddb_view \<Rightarrow> ddb_view" where
  "created_rows s ev v = v(session_addr (s_tenant_id s) (s_session_id s) \<mapsto> row_of (session_to_record s),
     user_addr (s_tenant_id s) (s_user_id s) \<mapsto> row_of (user_item s),
     event_addr (ev_tenant_id ev) (ev_seq_no ev) \<mapsto> row_of (event_to_record ev))"

definition none_created :: "session \<Rightarrow> event \<Rightarrow> ddb_view \<Rightarrow> bool" where
  "none_created s ev v \<longleftrightarrow> v (session_addr (s_tenant_id s) (s_session_id s)) = None \<and>
     v (user_addr (s_tenant_id s) (s_user_id s)) = None \<and> v (event_addr (ev_tenant_id ev) (ev_seq_no ev)) = None"

definition same_outside :: "address \<Rightarrow> ddb_view \<Rightarrow> ddb_view \<Rightarrow> bool" where
  "same_outside a v v' \<longleftrightarrow> (\<forall>b. b \<noteq> a \<longrightarrow> v' b = v b)"

lemma event_put_sem: "request_sem table_keys (event_put e) = \<lparr>ws_table = event_table, ws_key = snd (event_addr (ev_tenant_id e) (ev_seq_no e)),
    ws_atoms = [NoAttr ''tenantId'', NoAttr ''seqNo''], ws_effect = put_effect (item_of (event_to_record e))\<rparr>"
  using event_put_ok(2) [of e] by (simp add: ws_addr_def event_addr_def) (simp add: event_put_def)

context store
begin

lemma view_rows: "view d a = Some m \<Longrightarrow> map m (table_keys (fst a)) = snd a \<and> None \<notin> set (snd a)" if "None \<notin> set (snd a)"
  using view_keys [of d "fst a" "snd a" m] key_accepted [OF that] by simp

lemma absent:
  assumes "None \<notin> set (snd a)" "table_keys (fst a) \<noteq> []"
  shows "list_all (\<lambda>x. sat x (row_map (view d a))) (map NoAttr (table_keys (fst a))) \<longleftrightarrow> view d a = None"
  using no_row [OF key_accepted [OF assms(1)] assms(2)] by simp

lemma create_requests_ok:
  "requests_ok (s_tenant_id s) [session_put s, user_put s]"
  by (simp add: requests_ok_def session_put_sem user_put_sem ws_addr_def Let_def)
     (simp add: session_addr_def user_addr_def vaddr_def sequence_addr_def table_defs)

lemma held_create:
  "list_all (\<lambda>q. sem_ok (view d) (request_sem table_keys q)) [session_put s, user_put s, event_put ev] \<longleftrightarrow>
   none_created s ev (view d)"
  using absent [of "session_addr (s_tenant_id s) (s_session_id s)" d] absent [of "user_addr (s_tenant_id s) (s_user_id s)" d]
    absent [of "event_addr (ev_tenant_id ev) (ev_seq_no ev)" d]
  by (simp add: sem_ok_def session_put_sem user_put_sem event_put_sem ws_addr_def none_created_def table_keys_def)
     (simp add: session_addr_def user_addr_def vaddr_def event_addr_def table_defs, blast)

lemma apply_create:
  "fold sem_apply (map (request_sem table_keys) [session_put s, user_put s, event_put ev]) v = created_rows s ev v"
  by (simp add: sem_apply_def session_put_sem user_put_sem event_put_sem ws_addr_def created_rows_def put_effect_def row_of_def)
     (simp add: session_addr_def user_addr_def vaddr_def event_addr_def table_defs)

end

lemma create_session_of_eq: "create_session_of E s w =
    bnd (execute_with_event E (s_tenant_id s) [session_put s, user_put s] SESSION_CREATED (session_event_data s) None 30 None)
     (\<lambda>bad. case bad of
       None \<Rightarrow> ret ()
     | Some (i, _) \<Rightarrow>
         bnd (if i = 1 then find_by_session E s else ret None) (\<lambda>sess.
         case sess of Some u \<Rightarrow> raise (UserSessionExists (us_session_id u))
                    | None \<Rightarrow> raise (entity_exists ''Session already exists.''))) w"
  unfolding create_session_of_def bnd_Inr [OF put_session] bnd_Inr [OF put_user] by (rule refl)

text \<open>
  C1 (safety). Creating a session is all or nothing: \<open>create_session\<close> returns only after the session,
  the session of its user and one event were written together where there was none of the three,
  and when it raises, either nothing outside the row of the sequence has changed or all three rows
  are there.
\<close>

theorem create_session_atomic:
  assumes "store C view kok" "en_client E = C" "retry_ok (en_retry_sequence E)" "service_listeners E"
    "create_session E s w = (res, w')"
  shows "\<exists>s' ev. s' = s\<lparr>s_expiration_time := s_expiration_time s'\<rparr> \<and> ev_tenant_id ev = s_tenant_id s \<and>
    (let v = view (w_db w); v' = view (w_db w'); seq = sequence_addr (s_tenant_id s) ''EventSeq'';
         done = none_created s' ev v \<and> same_outside seq (created_rows s' ev v) v'
     in case res of Inr _ \<Rightarrow> done | Inl e \<Rightarrow> same_outside seq v v' \<or> done)"
proof -
  let ?seq = "sequence_addr (s_tenant_id s) ''EventSeq''"
  obtain t w1 where t: "get_system_time_in_seconds w = (Inr t, w1)" "w_db w1 = w_db w"
    by (simp add: get_system_time_in_seconds_def get_system_time_in_millis_def bnd_def)
  define s' where "s' = s\<lparr>s_expiration_time := Some (t + s_expiration_seconds s)\<rparr>"
  have s': "s' = s\<lparr>s_expiration_time := s_expiration_time s'\<rparr>" "s_tenant_id s' = s_tenant_id s" by (simp_all add: s'_def)
  have c: "create_session_of E s' w1 = (res, w')"
    using assms(5) t by (simp add: create_session_def with_expiration_def bnd_def s'_def)
  let ?x = "execute_with_event E (s_tenant_id s) [session_put s', user_put s'] SESSION_CREATED (session_event_data s') None 30 None w1"
  obtain x w2 where x: "?x = (x, w2)" by fastforce
  from store.execute_with_event_outcome [OF assms(1) x assms(2-4) _ store.create_requests_ok [OF assms(1), of s', unfolded s'(2)]]
  obtain ev where ev: "ev_tenant_id ev = s_tenant_id s"
    "event_outcome (s_tenant_id s) (view (w_db w)) [session_put s', user_put s', event_put ev] x (view (w_db w2))"
    using t(2) by auto
  have k: "keeps view {} (if i = 1 then find_by_session E s' else ret None)" for i :: nat
    unfolding find_by_session_def find_user_session_def find_as_def assms(2)
    by (auto intro!: frame_rules store.find_keeps [OF assms(1)])
  have fr: "same_outside ?seq (view (w_db w)) (view (w_db w2)) \<Longrightarrow> res = Inl e \<Longrightarrow> view (w_db w') = view (w_db w2) \<Longrightarrow> ?thesis" for e
    by (intro exI [of _ s'] exI [of _ ev]) (use s'(1) in \<open>simp add: Let_def ev(1)\<close>)
  have dn: "none_created s' ev (view (w_db w)) \<and> same_outside ?seq (created_rows s' ev (view (w_db w))) (view (w_db w2)) \<Longrightarrow>
      w' = w2 \<Longrightarrow> ?thesis"
    by (intro exI [of _ s'] exI [of _ ev]) (use s'(1) in \<open>simp add: Let_def ev(1) split: sum.splits\<close>)
  note out = ev(2) [unfolded event_outcome_def Let_def store.held_create [OF assms(1)] store.apply_create [OF assms(1)]
      same_outside_def [symmetric]]
  show ?thesis
  proof (cases x)
    case (Inl e)
    then have "res = Inl e" "w' = w2" using c x by (simp_all add: create_session_of_eq s'(2) bnd_def)
    then show ?thesis using out Inl fr dn by auto
  next
    case (Inr y)
    show ?thesis
    proof (cases y)
      case None
      then have "w' = w2" using c x Inr by (simp add: create_session_of_eq s'(2) bnd_def)
      then show ?thesis using out Inr None dn by simp
    next
      case (Some ir)
      obtain i r where ir: "ir = (i, r)" by fastforce
      obtain z w3 where z: "(if i = 1 then find_by_session E s' else ret None) w2 = (z, w3)" by fastforce
      have "w' = w3" "\<exists>e. res = Inl e"
        using c x Inr Some ir z by (auto simp: create_session_of_eq s'(2) bnd_def split: sum.splits option.splits)
      then show ?thesis using out Inr Some ir fr keeps_noneD [OF k z] by auto
    qed
  qed
qed

end
