(* ===== verification/Service_Memory.thy ===== *)
theory Service_Memory
  imports Mem_Dynamo Sessions_Repo
begin

text \<open>
  The service on the DynamoDB in memory: its tables, an environment with the documented behaviour of
  the packages it uses, and a world. The contract \<open>store\<close> holds of it, and the witnesses of the
  properties of the repositories run on it.
\<close>

definition service_config :: mem_config where
  "service_config = \<lparr>mc_keys = table_keys, mc_reserved = [''name'', ''status'']\<rparr>"

definition service_client :: "mem_db ddb_client" where
  "service_client = mem_client service_config"

definition service_view :: "mem_db \<Rightarrow> ddb_view" where
  "service_view = mem_view service_config"

definition service_kok :: "address \<Rightarrow> bool" where
  "service_kok = mem_kok service_config"

interpretation mem_store: store service_client service_view service_kok
proof -
  have "mc_keys service_config = table_keys" by (simp add: service_config_def)
  then have "dynamo service_client service_view table_keys service_kok"
    using mem.dynamo_axioms [of service_config] by (simp add: service_client_def service_view_def service_kok_def)
  then show "store service_client service_view service_kok"
    by (intro store.intro) (auto simp: store_axioms_def service_kok_def mem_kok_def)
qed

definition service_env :: "mem_db env" where
  "service_env = \<lparr>en_client = service_client, en_config = default_config,
     en_listeners = Some [work_event_received default_config], en_retry_sequence = attempts, en_retry_lock = attempts,
     en_retry_unit = attempts, en_deflate = (\<lambda>b. 120 # b), en_inflate = (\<lambda>b. case b of [] \<Rightarrow> None | _ # r \<Rightarrow> Some r)\<rparr>"

lemma service_env_ok: "en_client service_env = service_client" "retry_ok (en_retry_sequence service_env)"
    "retry_ok (en_retry_lock service_env)" "retry_ok (en_retry_unit service_env)" "service_listeners service_env" "zlib_ok service_env"
  by (simp_all add: service_env_def service_listeners_def zlib_ok_def)

definition service_world :: "mem_db \<Rightarrow> mem_db world" where
  "service_world d = \<lparr>w_db = d, w_clock = (\<lambda>n. 1000 * int n), w_ticks = 0,
     w_uuid = (\<lambda>n. ''u'' @ int_str (int n)), w_uuids = 0, w_out = []\<rparr>"

section \<open>Sessions\<close>

lemma example_created: "fst (create_session service_env example_session (service_world [])) = Inr ()"
  by code_simp

lemma create_session_atomic_witness:
  "\<exists>s' ev. s' = example_session\<lparr>s_expiration_time := s_expiration_time s'\<rparr> \<and> ev_tenant_id ev = 7 \<and>
     none_created s' ev (service_view []) \<and>
     same_outside (sequence_addr 7 ''EventSeq'') (created_rows s' ev (service_view []))
       (service_view (w_db (snd (create_session service_env example_session (service_world [])))))"
proof -
  let ?w' = "snd (create_session service_env example_session (service_world []))"
  have c: "create_session service_env example_session (service_world []) = (Inr (), ?w')"
    using example_created by (metis prod.collapse)
  have t: "s_tenant_id example_session = 7" "w_db (service_world []) = []"
    by (simp_all add: example_session_def service_world_def)
  from create_session_atomic [OF mem_store.store_axioms service_env_ok(1,2,5) c] show ?thesis
    by (simp add: Let_def t)
qed

end
