(* ===== verification/Resource_Lock.thy ===== *)
theory Resource_Lock
  imports Service_Memory
begin

text \<open>
  Resource locks (\<open>repos/resource_lock.py\<close>, \<open>repos/aws/aws_resource_lock.py\<close>): a lock is a row with the time it
  expires. First the operations of the repository; then the decorators that lock a session; then
  several processes as a step relation whose steps are the reads and conditional writes of the code,
  with the invariant that at most one of them holds a lock that has not expired.
\<close>

section \<open>The repository\<close>

definition lock_to_record :: "string \<Rightarrow> int \<Rightarrow> row" where
  "lock_to_record name timeout = [(''resourceName'', PyStr name), (''expireAt'', PyInt timeout)]"

definition lock_from_record :: "row \<Rightarrow> exn + string \<times> int option" where
  "lock_from_record r = rbind (str_at ''resourceName'' r) (\<lambda>n. rbind (opt_int (dget ''expireAt'' r)) (\<lambda>t. Inr (n, t)))"

definition releaser :: "'d env \<Rightarrow> resource_lock \<Rightarrow> ('d, bool) io" where
  "releaser E l = catch (bnd (delete_with_condition (en_client E) lock_repo (lock_to_record (lk_name l) (lk_timeout_at l))
       ''expireAt'' (PyInt (lk_timeout_at l))) (\<lambda>_. ret True))
     (\<lambda>e. if e = OptimisticLock then Some (ret False) else None)"

definition refresher :: "'d env \<Rightarrow> resource_lock \<Rightarrow> ('d, bool \<times> resource_lock) io" where
  "refresher E l = bnd (get_epoch_seconds_in_future (lk_refresh_seconds l) None False) (\<lambda>target.
     let dto = lock_to_record (lk_name l) (lk_timeout_at l) in
     bnd (catch (bnd (patch_with_condition (en_client E) lock_repo dto ''expireAt'' (PyInt target) None) (\<lambda>_. ret True))
            (\<lambda>e. if e = OptimisticLock then Some (ret False) else None)) (\<lambda>ok.
     if ok then ret (True, l\<lparr>lk_timeout_at := target\<rparr>)
     else bnd (create (en_client E) lock_repo dto) (\<lambda>created.
       if created then ret (True, l\<lparr>lk_timeout_at := target\<rparr>) else ret (False, l))))"

definition lock_refresh :: "'d env \<Rightarrow> resource_lock \<Rightarrow> ('d, bool \<times> resource_lock) io" where
  "lock_refresh E l = bnd (assert_that (lk_release_result l = None)) (\<lambda>_. refresher E l)"

definition lock_release :: "'d env \<Rightarrow> resource_lock \<Rightarrow> ('d, bool \<times> resource_lock) io" where
  "lock_release E l = (case lk_release_result l of
     Some b \<Rightarrow> ret (b, l)
   | None \<Rightarrow> bnd (releaser E l) (\<lambda>b. ret (b, l\<lparr>lk_release_result := Some b\<rparr>)))"

definition try_acquire_once :: "'d env \<Rightarrow> string \<Rightarrow> int \<Rightarrow> ('d, resource_lock option) io" where
  "try_acquire_once E name expire_seconds =
     bnd (assert_that (0 < expire_seconds \<and> expire_seconds < 880)) (\<lambda>_.
     bnd get_system_time_in_seconds (\<lambda>now.
     bnd (get_epoch_seconds_in_future expire_seconds None False) (\<lambda>target.
     let dto = lock_to_record name target;
         lock = \<lparr>lk_name = name, lk_timeout_at = target, lk_refresh_seconds = expire_seconds, lk_release_result = None\<rparr> in
     bnd (create (en_client E) lock_repo dto) (\<lambda>created.
     if created then ret (Some lock)
     else bnd (find_as (\<lambda>r. lift_res (lock_from_record r)) E lock_repo [PyStr name] True) (\<lambda>current.
       case current of
         None \<Rightarrow> bnd (create (en_client E) lock_repo dto) (\<lambda>again. ret (if again then Some lock else None))
       | Some (n, None) \<Rightarrow> raise TypeError
       | Some (n, Some t) \<Rightarrow> if t \<ge> now then ret None
           else bnd (patch_with_condition (en_client E) lock_repo (lock_to_record n t) ''expireAt'' (PyInt target) None) (\<lambda>_.
                ret (Some lock)))))))"

definition try_acquire :: "'d env \<Rightarrow> string \<Rightarrow> int \<Rightarrow> ('d, resource_lock option) io" where
  "try_acquire E name expire_seconds = en_retry_lock E 10 (try_acquire_once E name expire_seconds)"

text \<open>
  \<open>acquire\<close> calls \<open>retry_call\<close> with its default number of tries, which is without a bound: the argument
  \<open>forever\<close> stands for it.
\<close>

definition local_try :: "'d env \<Rightarrow> string \<Rightarrow> int \<Rightarrow> ('d, resource_lock) io" where
  "local_try E name refresh_seconds = bnd (try_acquire E name refresh_seconds) (\<lambda>l.
     case l of None \<Rightarrow> raise OptimisticLock | Some l \<Rightarrow> ret l)"

definition acquire :: "(('d, resource_lock) io \<Rightarrow> ('d, resource_lock) io) \<Rightarrow> 'd env \<Rightarrow> string \<Rightarrow> int \<Rightarrow> int \<Rightarrow> ('d, resource_lock) io" where
  "acquire forever E name refresh_seconds timeout_seconds =
     bnd (assert_that (timeout_seconds > 0)) (\<lambda>_. forever (local_try E name refresh_seconds))"

text \<open>\<open>try: p finally: if not ok: f\<close>\<close>

definition on_failure :: "('s, 'a) prog \<Rightarrow> ('s, unit) prog \<Rightarrow> ('s, 'a) prog" where
  "on_failure p f = (\<lambda>s. case p s of (Inr x, t) \<Rightarrow> (Inr x, t)
     | (Inl e, t) \<Rightarrow> (case f t of (Inl e', u) \<Rightarrow> (Inl e', u) | (Inr _, u) \<Rightarrow> (Inl e, u)))"

definition acquire_and_execute :: "(('d, resource_lock) io \<Rightarrow> ('d, resource_lock) io) \<Rightarrow> 'd env \<Rightarrow> string \<Rightarrow> int \<Rightarrow> int \<Rightarrow>
    ('d, 'a) io \<Rightarrow> ('d, resource_lock \<times> 'a) io" where
  "acquire_and_execute forever E name refresh_seconds timeout_seconds caller =
     bnd (acquire forever E name refresh_seconds timeout_seconds) (\<lambda>l.
     on_failure (bnd caller (\<lambda>v. ret (l, v))) (bnd (lock_release E l) (\<lambda>_. ret ())))"

definition release_on_exception :: "'d env \<Rightarrow> resource_lock \<Rightarrow> ('d, 'a) io \<Rightarrow> ('d, 'a) io" where
  "release_on_exception E l caller = on_failure caller (bnd (lock_release E l) (\<lambda>_. ret ()))"

definition release_on_false :: "'d env \<Rightarrow> resource_lock \<Rightarrow> ('d, bool) io \<Rightarrow> ('d, bool) io" where
  "release_on_false E l caller = bnd (release_on_exception E l caller) (\<lambda>ok.
     if ok then ret ok else bnd (lock_release E l) (\<lambda>_. ret ok))"

section \<open>Locks that refresh themselves\<close>

record auto_lock =
  al_source :: resource_lock
  al_released :: "bool option"
  al_failed :: bool
  al_wait_ms :: int

definition new_auto_lock :: "resource_lock \<Rightarrow> int \<Rightarrow> auto_lock" where
  "new_auto_lock l lock_timeout_seconds = \<lparr>al_source = l, al_released = None, al_failed = False,
     al_wait_ms = lock_timeout_seconds * 1000 - 500\<rparr>"

text \<open>One round of the worker thread; the result says whether it goes on. Every exception fails the lock.\<close>

definition auto_worker_round :: "'d env \<Rightarrow> bool \<Rightarrow> auto_lock \<Rightarrow> ('d, bool \<times> auto_lock) io" where
  "auto_worker_round E signalled a =
     (if al_failed a \<or> signalled \<or> al_released a \<noteq> None then ret (False, a)
      else catch (bnd (lock_refresh E (al_source a)) (\<lambda>(ok, l).
             ret (True, a\<lparr>al_source := l, al_failed := \<not> ok\<rparr>)))
           (\<lambda>e. Some (ret (True, a\<lparr>al_failed := True\<rparr>))))"

definition auto_release :: "'d env \<Rightarrow> auto_lock \<Rightarrow> ('d, bool \<times> auto_lock) io" where
  "auto_release E a = (case al_released a of
     Some b \<Rightarrow> ret (b, a)
   | None \<Rightarrow> bnd (lock_release E (al_source a)) (\<lambda>(b, l). ret (b, a\<lparr>al_source := l, al_released := Some b\<rparr>)))"

definition auto_check :: "auto_lock \<Rightarrow> bool" where
  "auto_check a \<longleftrightarrow> \<not> al_failed a \<and> al_released a = None"

definition try_acquire_auto_refresh_lock :: "(('d, resource_lock) io \<Rightarrow> ('d, resource_lock) io) \<Rightarrow> 'd env \<Rightarrow> string \<Rightarrow> int \<Rightarrow>
    int option \<Rightarrow> ('d, auto_lock option) io" where
  "try_acquire_auto_refresh_lock forever E name refresh_seconds timeout_seconds =
     bnd (case timeout_seconds of
            Some t \<Rightarrow> if t > 0 then bnd (acquire forever E name refresh_seconds t) (\<lambda>l. ret (Some l))
                      else try_acquire E name refresh_seconds
          | None \<Rightarrow> try_acquire E name refresh_seconds) (\<lambda>l.
     ret (map_option (\<lambda>l. new_auto_lock l (max 1 (refresh_seconds - 2))) l))"

text \<open>
  Locking a session around a call: the name of the lock, and the lambda scheduled when it is locked.
  \<open>schedule\<close> is \<open>schedule_lambda_minutes\<close> of the scheduler, \<open>locker\<close> takes the lock.
\<close>

definition schedule_lock_lambda :: "(string \<Rightarrow> int \<Rightarrow> string \<Rightarrow> row \<Rightarrow> ('d, unit) io) \<Rightarrow> string \<Rightarrow> session_key \<Rightarrow>
    string \<Rightarrow> int option \<Rightarrow> ('d, unit) io" where
  "schedule_lock_lambda schedule lock_type k function minutes =
     schedule (join_str ''-'' [''l'', lock_type, int_str (k_tenant_id k), k_session_id k])
       (case minutes of None \<Rightarrow> 1 | Some m \<Rightarrow> m) function (to_key_dict k @ [(''fromSchedule'', PyBool True)])"

definition lock_name :: "string \<Rightarrow> session_key \<Rightarrow> string" where
  "lock_name lock_type k = join_str ''/'' [lock_type, int_str (k_tenant_id k), k_session_id k]"

definition attempt_session_lock :: "(string \<Rightarrow> int \<Rightarrow> string \<Rightarrow> row \<Rightarrow> ('d, unit) io) \<Rightarrow> 'd env \<Rightarrow> string \<Rightarrow>
    (string \<Rightarrow> ('d, auto_lock option) io) \<Rightarrow> string option \<Rightarrow> int option \<Rightarrow> session_key \<Rightarrow> ('d, 'a) io \<Rightarrow> ('d, 'a) io" where
  "attempt_session_lock schedule E lock_type locker lambda_function schedule_minutes k caller =
     bnd (locker (lock_name lock_type k)) (\<lambda>l. case l of
       None \<Rightarrow> bnd (case lambda_function of None \<Rightarrow> ret () | Some f \<Rightarrow> schedule_lock_lambda schedule lock_type k f schedule_minutes)
                 (\<lambda>_. raise SessionLocked)
     | Some a \<Rightarrow> finally_do caller (bnd (auto_release E a) (\<lambda>_. ret ())))"

text \<open>The two decorators check their arguments when they are applied.\<close>

definition session_auto_lock :: "(string \<Rightarrow> int \<Rightarrow> string \<Rightarrow> row \<Rightarrow> ('d, unit) io) \<Rightarrow> (('d, resource_lock) io \<Rightarrow> ('d, resource_lock) io) \<Rightarrow>
    'd env \<Rightarrow> string \<Rightarrow> int \<Rightarrow> int \<Rightarrow> string option \<Rightarrow> int option \<Rightarrow> session_key \<Rightarrow> ('d, 'a) io \<Rightarrow> ('d, 'a) io" where
  "session_auto_lock schedule forever E lock_type timeout_seconds refresh_seconds lambda_function schedule_minutes k caller =
     (if timeout_seconds > 0 \<and> 0 < refresh_seconds \<and> refresh_seconds < timeout_seconds
      then attempt_session_lock schedule E lock_type
        (\<lambda>name. try_acquire_auto_refresh_lock forever E name refresh_seconds (Some timeout_seconds))
        lambda_function schedule_minutes k caller
      else raise AssertionError)"

definition session_try_auto_lock :: "(string \<Rightarrow> int \<Rightarrow> string \<Rightarrow> row \<Rightarrow> ('d, unit) io) \<Rightarrow> (('d, resource_lock) io \<Rightarrow> ('d, resource_lock) io) \<Rightarrow>
    'd env \<Rightarrow> string \<Rightarrow> int \<Rightarrow> string option \<Rightarrow> int option \<Rightarrow> session_key \<Rightarrow> ('d, 'a) io \<Rightarrow> ('d, 'a) io" where
  "session_try_auto_lock schedule forever E lock_type refresh_seconds lambda_function schedule_minutes k caller =
     (if refresh_seconds > 0
      then attempt_session_lock schedule E lock_type
        (\<lambda>name. try_acquire_auto_refresh_lock forever E name refresh_seconds None)
        lambda_function schedule_minutes k caller
      else raise AssertionError)"

section \<open>Several processes\<close>

text \<open>
  The row of one lock as the processes see it, its conditional writes, and what each process is about to
  do: the lines of \<open>try_acquire\<close>, \<open>__refresher\<close> and \<open>__releaser\<close> between two accesses of the row.
\<close>

type_synonym lock_row = "int option"

definition row_create :: "int \<Rightarrow> lock_row \<Rightarrow> bool \<times> lock_row" where
  "row_create t r = (if r = None then (True, Some t) else (False, r))"

definition row_patch :: "int \<Rightarrow> int \<Rightarrow> lock_row \<Rightarrow> bool \<times> lock_row" where
  "row_patch old t r = (if r = Some old then (True, Some t) else (False, r))"

definition row_delete :: "int \<Rightarrow> lock_row \<Rightarrow> bool \<times> lock_row" where
  "row_delete t r = (if r = Some t then (True, None) else (False, r))"

datatype lock_pc =
    Idle
  | Timed int int
  | Creating int int int
  | Finding int int int
  | Recreating int int
  | Stealing int int int
  | Holding int int
  | Refreshing int int int
  | Restoring int int int

record lock_state =
  ls_row :: lock_row
  ls_ms :: int
  ls_pc :: "nat \<Rightarrow> lock_pc"

definition ls_now :: "lock_state \<Rightarrow> int" where
  "ls_now s = ls_ms s div 1000"

definition ls_future :: "lock_state \<Rightarrow> int \<Rightarrow> int" where
  "ls_future s e = epoch_seconds_after (ls_ms s) e False"

definition goto :: "nat \<Rightarrow> lock_pc \<Rightarrow> lock_state \<Rightarrow> lock_state" where
  "goto p c s = s\<lparr>ls_pc := (ls_pc s)(p := c)\<rparr>"

definition write_row :: "bool \<times> lock_row \<Rightarrow> nat \<Rightarrow> lock_pc \<Rightarrow> lock_pc \<Rightarrow> lock_state \<Rightarrow> lock_state" where
  "write_row res p yes no s = goto p (if fst res then yes else no) (s\<lparr>ls_row := snd res\<rparr>)"

text \<open>
  Every step but the last of \<open>__refresher\<close>, which puts the row back when it is gone: that one is
  \<open>restore_step\<close>. The lease \<open>e\<close> a process asks for travels with it.
\<close>

inductive lock_step :: "lock_state \<Rightarrow> lock_state \<Rightarrow> bool" where
  tick: "0 \<le> d \<Longrightarrow> lock_step s (s\<lparr>ls_ms := ls_ms s + d\<rparr>)"
| start: "ls_pc s p = Idle \<Longrightarrow> 0 < e \<Longrightarrow> e < 880 \<Longrightarrow> lock_step s (goto p (Timed (ls_now s) e) s)"
| timed: "ls_pc s p = Timed n e \<Longrightarrow> lock_step s (goto p (Creating n (ls_future s e) e) s)"
| creating: "ls_pc s p = Creating n t e \<Longrightarrow>
    lock_step s (write_row (row_create t (ls_row s)) p (Holding t e) (Finding n t e) s)"
| find_none: "ls_pc s p = Finding n t e \<Longrightarrow> ls_row s = None \<Longrightarrow> lock_step s (goto p (Recreating t e) s)"
| find_held: "ls_pc s p = Finding n t e \<Longrightarrow> ls_row s = Some c \<Longrightarrow> c \<ge> n \<Longrightarrow> lock_step s (goto p Idle s)"
| find_expired: "ls_pc s p = Finding n t e \<Longrightarrow> ls_row s = Some c \<Longrightarrow> c < n \<Longrightarrow> lock_step s (goto p (Stealing c t e) s)"
| recreating: "ls_pc s p = Recreating t e \<Longrightarrow>
    lock_step s (write_row (row_create t (ls_row s)) p (Holding t e) Idle s)"
| stealing: "ls_pc s p = Stealing c t e \<Longrightarrow>
    lock_step s (write_row (row_patch c t (ls_row s)) p (Holding t e) Idle s)"
| refresh: "ls_pc s p = Holding t e \<Longrightarrow> lock_step s (goto p (Refreshing t (ls_future s e) e) s)"
| refreshing: "ls_pc s p = Refreshing t g e \<Longrightarrow>
    lock_step s (write_row (row_patch t g (ls_row s)) p (Holding g e) (Restoring t g e) s)"
| restore_fails: "ls_pc s p = Restoring t g e \<Longrightarrow> ls_row s \<noteq> None \<Longrightarrow> lock_step s (goto p (Holding t e) s)"
| release: "ls_pc s p = Holding t e \<Longrightarrow> lock_step s (write_row (row_delete t (ls_row s)) p Idle Idle s)"

inductive restore_step :: "lock_state \<Rightarrow> lock_state \<Rightarrow> bool" where
  restore: "ls_pc s p = Restoring t g e \<Longrightarrow> ls_row s = None \<Longrightarrow>
    restore_step s (write_row (row_create t None) p (Holding g e) (Holding t e) s)"

text \<open>A process that believes to hold the lock, and whose lease has not run out.\<close>

fun lease :: "lock_pc \<Rightarrow> int option" where
  "lease (Holding t e) = Some t"
| "lease (Refreshing t g e) = Some t"
| "lease (Restoring t g e) = Some t"
| "lease c = None"

definition live :: "lock_state \<Rightarrow> nat \<Rightarrow> bool" where
  "live s p \<longleftrightarrow> (case lease (ls_pc s p) of None \<Rightarrow> False | Some t \<Rightarrow> t \<ge> ls_now s)"

lemma live_iff: "live s p \<longleftrightarrow> (\<exists>t. lease (ls_pc s p) = Some t \<and> t \<ge> ls_now s)"
  by (simp add: live_def split: option.splits)

definition lock_init :: "lock_row \<Rightarrow> int \<Rightarrow> lock_state" where
  "lock_init r ms = \<lparr>ls_row = r, ls_ms = ms, ls_pc = (\<lambda>_. Idle)\<rparr>"

fun pc_ok :: "int \<Rightarrow> lock_pc \<Rightarrow> bool" where
  "pc_ok now (Timed n e) = (n \<le> now)"
| "pc_ok now (Creating n t e) = (n \<le> now)"
| "pc_ok now (Finding n t e) = (n \<le> now)"
| "pc_ok now (Stealing c t e) = (c < now)"
| "pc_ok now c = True"

definition lock_inv :: "lock_state \<Rightarrow> bool" where
  "lock_inv s \<longleftrightarrow> (\<forall>p. pc_ok (ls_now s) (ls_pc s p)) \<and> (\<forall>p. live s p \<longrightarrow> ls_row s = lease (ls_pc s p)) \<and>
     (\<forall>p q. live s p \<longrightarrow> live s q \<longrightarrow> p = q)"

lemma pc_ok_mono: "pc_ok m c \<Longrightarrow> m \<le> n \<Longrightarrow> pc_ok n c"
  by (cases c) auto

lemma inv_tick: "lock_inv s \<Longrightarrow> 0 \<le> d \<Longrightarrow> lock_inv (s\<lparr>ls_ms := ls_ms s + d\<rparr>)"
proof -
  assume i: "lock_inv s" and d: "0 \<le> d"
  let ?s = "s\<lparr>ls_ms := ls_ms s + d\<rparr>"
  have n: "ls_now s \<le> ls_now ?s" using d by (simp add: ls_now_def zdiv_mono1)
  have l: "live ?s p \<Longrightarrow> live s p" for p using n by (auto simp: live_iff)
  show ?thesis using i l pc_ok_mono [OF _ n] by (auto simp: lock_inv_def)
qed

text \<open>A step that leaves the row, and gives the process no new lease, keeps the invariant.\<close>

lemma inv_goto:
  assumes "lock_inv s" "pc_ok (ls_now s) c" "lease c = None \<or> lease c = lease (ls_pc s p)"
  shows "lock_inv (goto p c s)"
proof -
  have n: "ls_now (goto p c s) = ls_now s" "ls_row (goto p c s) = ls_row s"
    "ls_pc (goto p c s) = (ls_pc s)(p := c)" by (simp_all add: goto_def ls_now_def)
  have l: "live (goto p c s) q \<Longrightarrow> live s q \<and> lease (ls_pc (goto p c s) q) = lease (ls_pc s q)" for q
    using assms(3) by (auto simp: live_iff n split: if_splits)
  show ?thesis using assms(1,2) l unfolding lock_inv_def n by auto
qed

text \<open>A process that writes its lease into the row while no other process is live keeps the invariant.\<close>

lemma inv_take:
  assumes "lock_inv s" "\<And>q. q \<noteq> p \<Longrightarrow> \<not> live s q"
  shows "lock_inv (goto p (Holding t e) (s\<lparr>ls_row := Some t\<rparr>))"
proof -
  let ?s = "goto p (Holding t e) (s\<lparr>ls_row := Some t\<rparr>)"
  have n: "ls_now ?s = ls_now s" "ls_row ?s = Some t" "ls_pc ?s = (ls_pc s)(p := Holding t e)"
    by (simp_all add: goto_def ls_now_def)
  have l: "live ?s q \<Longrightarrow> q = p" for q using assms(2) [of q] by (auto simp: live_iff n split: if_splits)
  have "live ?s q \<Longrightarrow> ls_row ?s = lease (ls_pc ?s q)" for q using l [of q] by (simp add: n)
  moreover have "pc_ok (ls_now ?s) (ls_pc ?s q)" for q using assms(1) by (simp add: n lock_inv_def)
  moreover have "live ?s q \<Longrightarrow> live ?s q' \<Longrightarrow> q = q'" for q q' using l by metis
  ultimately show ?thesis unfolding lock_inv_def by blast
qed

lemma inv_drop:
  assumes "lock_inv s" "\<And>q. q \<noteq> p \<Longrightarrow> \<not> live s q"
  shows "lock_inv (goto p Idle (s\<lparr>ls_row := r\<rparr>))"
proof -
  let ?s = "goto p Idle (s\<lparr>ls_row := r\<rparr>)"
  have n: "ls_now ?s = ls_now s" "ls_pc ?s = (ls_pc s)(p := Idle)" by (simp_all add: goto_def ls_now_def)
  have l: "\<not> live ?s q" for q using assms(2) [of q] by (auto simp: live_iff n split: if_splits)
  show ?thesis unfolding lock_inv_def using assms(1) l by (auto simp: n lock_inv_def)
qed

lemma not_live: "lock_inv s \<Longrightarrow> ls_row s = None \<or> (\<exists>c. ls_row s = Some c \<and> c < ls_now s) \<Longrightarrow> \<not> live s q"
  by (auto simp: lock_inv_def live_iff)

lemma not_live_other:
  "lock_inv s \<Longrightarrow> ls_row s = Some t \<Longrightarrow> lease (ls_pc s p) = Some t \<Longrightarrow> q \<noteq> p \<Longrightarrow> \<not> live s q"
  by (auto simp: lock_inv_def live_iff)

lemma write_row_simps: "write_row (True, r) p y n s = goto p y (s\<lparr>ls_row := r\<rparr>)"
    "write_row (False, ls_row s) p y n s = goto p n s"
  by (simp_all add: write_row_def)

lemma row_create_taken: "ls_row s = Some r \<Longrightarrow> row_create t (ls_row s) = (False, ls_row s)"
  by (simp add: row_create_def)

lemma inv_pc: "lock_inv s \<Longrightarrow> pc_ok (ls_now s) (ls_pc s p)"
  by (simp add: lock_inv_def)

lemma lock_step_inv: "lock_step s s' \<Longrightarrow> lock_inv s \<Longrightarrow> lock_inv s'"
proof (induction rule: lock_step.induct)
  case (creating s p n t e)
  show ?case
  proof (cases "ls_row s")
    case None
    then show ?thesis using creating.prems not_live by (simp add: row_create_def write_row_simps inv_take)
  next
    case (Some r)
    have "pc_ok (ls_now s) (Finding n t e)" using inv_pc [OF creating.prems, of p] creating.hyps by simp
    then show ?thesis unfolding row_create_taken [OF Some] write_row_simps(2)
      using inv_goto [OF creating.prems] by simp
  qed
next
  case (recreating s p t e)
  show ?case
  proof (cases "ls_row s")
    case None
    then show ?thesis using recreating.prems not_live by (simp add: row_create_def write_row_simps inv_take)
  next
    case (Some r)
    show ?thesis unfolding row_create_taken [OF Some] write_row_simps(2)
      using inv_goto [OF recreating.prems] by simp
  qed
next
  case (stealing s p c t e)
  show ?case
  proof (cases "ls_row s = Some c")
    case True
    have "c < ls_now s" using inv_pc [OF stealing.prems, of p] stealing.hyps by simp
    then have "\<not> live s q" for q using not_live [OF stealing.prems] True by auto
    then show ?thesis using stealing.prems True by (simp add: row_patch_def write_row_simps inv_take)
  next
    case False
    then show ?thesis using stealing inv_goto [of s Idle p] by (simp add: row_patch_def write_row_simps)
  qed
next
  case (refreshing s p t g e)
  show ?case
  proof (cases "ls_row s = Some t")
    case True
    have "q \<noteq> p \<Longrightarrow> \<not> live s q" for q
      using not_live_other [OF refreshing.prems True, of p q] refreshing.hyps by simp
    then show ?thesis using refreshing.prems True by (simp add: row_patch_def write_row_simps inv_take)
  next
    case False
    then show ?thesis using refreshing inv_goto [of s "Restoring t g e" p] by (simp add: row_patch_def write_row_simps)
  qed
next
  case (release s p t e)
  show ?case
  proof (cases "ls_row s = Some t")
    case True
    have "q \<noteq> p \<Longrightarrow> \<not> live s q" for q
      using not_live_other [OF release.prems True, of p q] release.hyps by simp
    then show ?thesis using release.prems True by (simp add: row_delete_def write_row_simps inv_drop)
  next
    case False
    then show ?thesis using release inv_goto [of s Idle p] by (simp add: row_delete_def write_row_simps)
  qed
next
  case (find_expired s p n t e c)
  then show ?case using inv_pc [of s p] inv_goto [of s "Stealing c t e" p] by simp
next
  case (timed s p n e)
  then show ?case using inv_pc [of s p] inv_goto [of s "Creating n (ls_future s e) e" p] by simp
qed (auto intro!: inv_tick inv_goto)

lemma lock_init_inv: "lock_inv (lock_init r ms)"
  by (simp add: lock_inv_def live_iff lock_init_def)

text \<open>
  The steps as a function of an action, so that a schedule can be run: \<open>Go p\<close> is the next access of
  process \<open>p\<close>.
\<close>

datatype lock_action = Tick int | Start nat int | Go nat | Refresh nat | Release nat

fun lock_exec :: "lock_action \<Rightarrow> lock_state \<Rightarrow> lock_state option" where
  "lock_exec (Tick d) s = (if 0 \<le> d then Some (s\<lparr>ls_ms := ls_ms s + d\<rparr>) else None)"
| "lock_exec (Start p e) s = (if ls_pc s p = Idle \<and> 0 < e \<and> e < 880 then Some (goto p (Timed (ls_now s) e) s) else None)"
| "lock_exec (Go p) s = (case ls_pc s p of
     Timed n e \<Rightarrow> Some (goto p (Creating n (ls_future s e) e) s)
   | Creating n t e \<Rightarrow> Some (write_row (row_create t (ls_row s)) p (Holding t e) (Finding n t e) s)
   | Finding n t e \<Rightarrow> (case ls_row s of None \<Rightarrow> Some (goto p (Recreating t e) s)
       | Some c \<Rightarrow> Some (goto p (if c \<ge> n then Idle else Stealing c t e) s))
   | Recreating t e \<Rightarrow> Some (write_row (row_create t (ls_row s)) p (Holding t e) Idle s)
   | Stealing c t e \<Rightarrow> Some (write_row (row_patch c t (ls_row s)) p (Holding t e) Idle s)
   | Refreshing t g e \<Rightarrow> Some (write_row (row_patch t g (ls_row s)) p (Holding g e) (Restoring t g e) s)
   | Restoring t g e \<Rightarrow> (case ls_row s of None \<Rightarrow> Some (write_row (row_create t (ls_row s)) p (Holding g e) (Holding t e) s)
       | Some _ \<Rightarrow> Some (goto p (Holding t e) s))
   | _ \<Rightarrow> None)"
| "lock_exec (Refresh p) s = (case ls_pc s p of Holding t e \<Rightarrow> Some (goto p (Refreshing t (ls_future s e) e) s) | _ \<Rightarrow> None)"
| "lock_exec (Release p) s = (case ls_pc s p of
     Holding t e \<Rightarrow> Some (write_row (row_delete t (ls_row s)) p Idle Idle s) | _ \<Rightarrow> None)"

definition any_step :: "lock_state \<Rightarrow> lock_state \<Rightarrow> bool" where
  "any_step s s' \<longleftrightarrow> lock_step s s' \<or> restore_step s s'"

lemma lock_exec_step: "lock_exec a s = Some s' \<Longrightarrow> any_step s s'"
  unfolding any_step_def
  by (induction a s rule: lock_exec.induct)
     (auto intro: lock_step.intros restore_step.intros split: if_splits lock_pc.splits option.splits)

fun lock_run :: "lock_action list \<Rightarrow> lock_state \<Rightarrow> lock_state option" where
  "lock_run [] s = Some s"
| "lock_run (a # as) s = (case lock_exec a s of None \<Rightarrow> None | Some t \<Rightarrow> lock_run as t)"

lemma lock_run_steps: "lock_run as s = Some s' \<Longrightarrow> any_step\<^sup>*\<^sup>* s s'"
  by (induction as arbitrary: s) (auto dest: lock_exec_step intro: converse_rtranclp_into_rtranclp split: option.splits)

text \<open>A schedule in which a refresh never restores the row takes ordinary steps only.\<close>

fun restores :: "lock_action \<Rightarrow> lock_state \<Rightarrow> bool" where
  "restores (Go p) s = (case ls_pc s p of Restoring t g e \<Rightarrow> ls_row s = None | _ \<Rightarrow> False)"
| "restores _ s = False"

fun quiet_run :: "lock_action list \<Rightarrow> lock_state \<Rightarrow> bool" where
  "quiet_run [] s = True"
| "quiet_run (a # as) s = (\<not> restores a s \<and> (case lock_exec a s of None \<Rightarrow> False | Some t \<Rightarrow> quiet_run as t))"

lemma lock_exec_quiet: "lock_exec a s = Some s' \<Longrightarrow> \<not> restores a s \<Longrightarrow> lock_step s s'"
  by (induction a s rule: lock_exec.induct)
     (auto intro: lock_step.intros split: if_splits lock_pc.splits option.splits)

lemma quiet_run_steps: "quiet_run as s \<Longrightarrow> lock_run as s = Some s' \<Longrightarrow> lock_step\<^sup>*\<^sup>* s s'"
  by (induction as arbitrary: s) (auto dest: lock_exec_quiet intro: converse_rtranclp_into_rtranclp split: option.splits)

text \<open>
  C2 (invariant). Mutual exclusion: whatever the order in which processes take, refresh and release a
  lock and the time passes, two of them never hold leases that have not run out, as long as no
  refresh puts back a row that is gone; and the row of the lock then has the lease of the holder.
\<close>

theorem lock_exclusive:
  assumes "lock_step\<^sup>*\<^sup>* (lock_init r ms) s" "live s p"
  shows "ls_row s = lease (ls_pc s p) \<and> (live s q \<longrightarrow> q = p)"
proof -
  have "lock_inv s" using assms(1) by (induction rule: rtranclp_induct) (auto simp: lock_init_inv lock_step_inv)
  then show ?thesis using assms(2) by (auto simp: lock_inv_def)
qed

definition example_schedule :: "lock_action list" where
  "example_schedule = [Start 0 10, Go 0, Go 0, Tick 15000, Start 1 20, Go 1, Go 1, Go 1, Go 1, Refresh 0, Go 0]"

definition example_lock_state :: lock_state where
  "example_lock_state = the (lock_run example_schedule (lock_init None 5000))"

lemma lock_exclusive_witness:
  "live example_lock_state 1 \<and> ls_row example_lock_state = Some 40 \<and> \<not> live example_lock_state 0"
proof -
  have "quiet_run example_schedule (lock_init None 5000)" by code_simp
  moreover have "\<not> Option.is_none (lock_run example_schedule (lock_init None 5000))" by code_simp
  ultimately have s: "lock_step\<^sup>*\<^sup>* (lock_init None 5000) example_lock_state"
    using quiet_run_steps unfolding example_lock_state_def by (auto simp: Option.is_none_def)
  have l: "live example_lock_state 1" "lease (ls_pc example_lock_state 1) = Some 40" by code_simp+
  show ?thesis using lock_exclusive [OF s l(1), of 0] l by auto
qed

text \<open>
  C33 (safety). The restriction is needed: \<open>__refresher\<close> puts a row back that is gone with the expiry time
  of before the refresh, and believes in the new one. A third process finds the old time and takes the lock,
  and two processes hold leases that have not run out.
\<close>

definition restoring_schedule :: "lock_action list" where
  "restoring_schedule = [Start 0 10, Go 0, Go 0, Tick 15000, Start 1 20, Go 1, Go 1, Go 1, Go 1, Release 1,
     Refresh 0, Go 0, Go 0, Start 2 20, Go 2, Go 2, Go 2, Go 2]"

theorem refresh_breaks_exclusion:
  "\<exists>s. any_step\<^sup>*\<^sup>* (lock_init None 5000) s \<and> live s 0 \<and> live s 2"
proof -
  let ?s = "the (lock_run restoring_schedule (lock_init None 5000))"
  have "\<not> Option.is_none (lock_run restoring_schedule (lock_init None 5000))" by code_simp
  then have "lock_run restoring_schedule (lock_init None 5000) = Some ?s" by (auto simp: Option.is_none_def)
  from lock_run_steps [OF this] have "any_step\<^sup>*\<^sup>* (lock_init None 5000) ?s" .
  moreover have "live ?s 0" "live ?s 2" by code_simp+
  ultimately show ?thesis by blast
qed

end
