(* ===== verification/Lock_Refinement.thy ===== *)
theory Lock_Refinement
  imports Resource_Lock
begin

text \<open>
  The row of a lock in the store and the abstract row of \<open>Resource_Lock\<close>: each conditional write of the
  repository is an atomic step on the abstract row, and an undisturbed \<open>try_acquire\<close> takes the lock
  exactly when it is free or has expired.
\<close>

definition lock_addr :: "string \<Rightarrow> address" where
  "lock_addr name = vaddr resource_lock_vt [name] None"

definition lock_row_at :: "ddb_view \<Rightarrow> string \<Rightarrow> lock_row \<Rightarrow> bool" where
  "lock_row_at v name r \<longleftrightarrow> (case r of None \<Rightarrow> v (lock_addr name) = None
     | Some t \<Rightarrow> holds_at v (lock_addr name) ''expireAt'' (PyInt t))"

datatype lock_write = RowCreate int | RowPatch int int | RowDelete int

fun abstract_write :: "lock_write \<Rightarrow> lock_row \<Rightarrow> bool \<times> lock_row" where
  "abstract_write (RowCreate t) r = row_create t r"
| "abstract_write (RowPatch old t) r = row_patch old t r"
| "abstract_write (RowDelete t) r = row_delete t r"

fun lock_call :: "'d ddb_client \<Rightarrow> string \<Rightarrow> lock_write \<Rightarrow> ('d, bool) io" where
  "lock_call C name (RowCreate t) = create C lock_repo (lock_to_record name t)"
| "lock_call C name (RowPatch old t) =
     catch (bnd (patch_with_condition C lock_repo (lock_to_record name old) ''expireAt'' (PyInt t) None) (\<lambda>_. ret True))
       (\<lambda>e. if e = OptimisticLock then Some (ret False) else None)"
| "lock_call C name (RowDelete t) =
     catch (bnd (delete_with_condition C lock_repo (lock_to_record name t) ''expireAt'' (PyInt t)) (\<lambda>_. ret True))
       (\<lambda>e. if e = OptimisticLock then Some (ret False) else None)"

section \<open>Keys and items\<close>

definition lock_key :: "string \<Rightarrow> row" where
  "lock_key name = [(''hashKey'', PyStr (join_str default_delimiter [''f'', name]))]"

lemma lock_item: "prepare_item lock_repo (lock_to_record n t) = Inr ((''expireAt'', PyInt t) # lock_key n)"
  by (simp add: key_simps lock_key_def lock_to_record_def)

lemma lock_item_key: "build_key_as_dict (r_key lock_repo) ((''expireAt'', PyInt t) # lock_key n) True = Inr (lock_key n)"
  by (simp add: key_simps lock_key_def)

lemma lock_args: "build_key_from_args (r_key lock_repo) [PyStr n] = Inr (lock_key n, [])"
  by (simp add: key_simps lock_key_def)

lemma lock_repo_ok: "repo_ok table_keys lock_repo" "r_table lock_repo = virtual_hash_table"
    "table_keys virtual_hash_table = [''hashKey'']"
  by code_simp+

lemma lock_key_addr:
  "addr_of table_keys (r_table lock_repo) (item_of (lock_key n)) = lock_addr n"
  "addr_of table_keys (r_table lock_repo) (item_of ((''expireAt'', PyInt t) # lock_key n)) = lock_addr n"
  "keys_ok table_keys (r_table lock_repo) (lock_key n)"
  by (simp_all add: lock_repo_ok lock_key_def lock_addr_def vaddr_def addr_of_def key_of_def item_of_def
      to_ddb_item_def vt_defs keys_ok_def ident_row_def)

lemma lock_stored: "stored_item_ok lock_repo ((''expireAt'', PyInt t) # lock_key n)"
  by (simp add: stored_item_ok_def lock_key_def key_simps)

lemma lock_patch_ok: "item_ok_for (lock_key n) [(''expireAt'', v)]"
  by (simp add: item_ok_for_def lock_key_def ident_row_def)

lemma lock_set_list: "set_list (dkeys (lock_key n)) (item_of [(''expireAt'', PyInt t)]) = [(''expireAt'', val_attr (PyInt t))]"
  by (simp add: lock_key_def item_of_def to_ddb_item_def val_attr_def set_list_def)

lemma lock_row_unique: "lock_row_at v n r \<Longrightarrow> lock_row_at v n q \<Longrightarrow> r = q"
  by (auto simp: lock_row_at_def holds_at_def val_attr_def int_str_inj split: option.splits)

lemma lock_row_holds: "lock_row_at v n r \<Longrightarrow> holds_at v (lock_addr n) ''expireAt'' (PyInt t) \<longleftrightarrow> r = Some t"
  by (auto simp: lock_row_at_def holds_at_def val_attr_def int_str_inj split: option.splits)

lemma lock_row_none: "lock_row_at v n r \<Longrightarrow> v (lock_addr n) = None \<longleftrightarrow> r = None"
  by (auto simp: lock_row_at_def holds_at_def split: option.splits)

lemma lock_row_written:
  "lock_row_at (v(lock_addr n \<mapsto> \<lambda>a. dget a (item_of ((''expireAt'', PyInt t) # lock_key n)))) n (Some t)"
  "lock_row_at (set_at v (lock_addr n) [(''expireAt'', val_attr (PyInt t))]) n (Some t)"
  "lock_row_at (v(lock_addr n := None)) n None"
  by (simp_all add: lock_row_at_def holds_at_def set_at_def item_of_def to_ddb_item_def val_attr_def lock_key_def)

section \<open>The writes\<close>

definition lock_simulates :: "(address \<Rightarrow> ddb_row option) \<Rightarrow> string \<Rightarrow> lock_write \<Rightarrow> lock_row \<Rightarrow> exn + bool \<Rightarrow> ddb_view \<Rightarrow> bool" where
  "lock_simulates v name c r res v' \<longleftrightarrow> (case res of
       Inr b \<Rightarrow> b = fst (abstract_write c r) \<and> lock_row_at v' name (snd (abstract_write c r))
     | Inl e \<Rightarrow> lock_row_at v' name r \<or> lock_row_at v' name (snd (abstract_write c r))) \<and>
   (\<forall>a. a \<noteq> lock_addr name \<longrightarrow> v' a = v a)"

context store
begin

lemma lock_kok: "kok (lock_addr n)"
  by (auto simp: lock_addr_def vaddr_def intro: keys_accepted)

lemma lock_create:
  assumes "create C lock_repo (lock_to_record n t) w = (res, w')" "lock_row_at (view (w_db w)) n r"
  shows "lock_simulates (view (w_db w)) n (RowCreate t) r res (view (w_db w'))"
  using create_outcome [OF assms(1) lock_item lock_repo_ok(1) lock_stored, unfolded lock_key_addr, OF lock_kok]
    lock_row_none [OF assms(2)] assms(2) lock_row_written(1) [of "view (w_db w)" n t]
  by (auto simp: lock_simulates_def row_create_def split: sum.splits bool.splits)

lemma lock_patch:
  assumes "lock_call C n (RowPatch old t) w = (res, w')" "lock_row_at (view (w_db w)) n r"
  shows "lock_simulates (view (w_db w)) n (RowPatch old t) r res (view (w_db w'))"
proof -
  obtain x u where x: "patch_with_condition C lock_repo (lock_to_record n old) ''expireAt'' (PyInt t) None w = (x, u)"
    by fastforce
  have r: "w' = u" "res = (case x of Inl e \<Rightarrow> if e = OptimisticLock then Inr False else Inl e | Inr _ \<Rightarrow> Inr True)"
    using assms(1) x by (auto simp: catch_def bnd_def split: sum.splits if_splits)
  have p: "patched OptimisticLock (view (w_db w)) (lock_addr n) ''expireAt'' (PyInt old) [(''expireAt'', val_attr (PyInt t))] x (view (w_db u))"
    using patch_with_condition_outcome [OF x lock_item _ _ lock_item_key ident_names(3) lock_key_addr(3)]
    by (simp add: lock_patch_ok lock_key_addr lock_kok lock_set_list dget_def)
  show ?thesis using p lock_row_holds [OF assms(2), of old] assms(2) lock_row_written(2) [of "view (w_db w)" n t]
    unfolding r patched_def lock_simulates_def
    by (auto simp: row_patch_def set_at_def split: sum.splits if_splits)
qed

lemma lock_delete:
  assumes "lock_call C n (RowDelete t) w = (res, w')" "lock_row_at (view (w_db w)) n r"
  shows "lock_simulates (view (w_db w)) n (RowDelete t) r res (view (w_db w'))"
proof -
  obtain x u where x: "delete_with_condition C lock_repo (lock_to_record n t) ''expireAt'' (PyInt t) w = (x, u)"
    by fastforce
  have r: "w' = u" "res = (case x of Inl e \<Rightarrow> if e = OptimisticLock then Inr False else Inl e | Inr _ \<Rightarrow> Inr True)"
    using assms(1) x by (auto simp: catch_def bnd_def split: sum.splits if_splits)
  note p = delete_with_condition_outcome [OF x lock_item lock_item_key ident_names(3) _ lock_key_addr(3), unfolded lock_key_addr, OF _ lock_kok]
  show ?thesis using p lock_row_holds [OF assms(2), of t] assms(2) lock_row_written(3) [of "view (w_db w)" n]
    unfolding r lock_simulates_def
    by (auto simp: row_delete_def split: sum.splits if_splits)
qed

lemma lock_call_simulates:
  assumes "lock_call C n c w = (res, w')" "lock_row_at (view (w_db w)) n r"
  shows "lock_simulates (view (w_db w)) n c r res (view (w_db w'))"
  using assms lock_create lock_patch lock_delete by (cases c) auto

end

section \<open>Taking a lock\<close>

text \<open>The documented error of a missing table, which \<open>find_item\<close> does not tell from a missing row.\<close>

definition table_there :: "'d ddb_client \<Rightarrow> bool" where
  "table_there C \<longleftrightarrow> (\<forall>p d e d'. c_get_item C p d = (Inl e, d') \<longrightarrow> handle_exception e \<noteq> ResourceNotFound)"

lemma execute_get_there:
  assumes "execute_and_wrap C (c_get_item C p) d = (Inl ex, d')" "table_there C"
  shows "ex \<noteq> ResourceNotFound"
proof -
  from handle_throttling_last [OF assms(1) [unfolded execute_and_wrap_def], where Q = "\<lambda>_. True"]
  have "ex = OutOfFuel \<or> (\<exists>d0 e. c_get_item C p d0 = (Inl e, d') \<and> handle_exception e = ex)" by auto
  then show ?thesis using assms(2) unfolding table_there_def by (metis exn.distinct(1) exn.simps)
qed

lemma convert_there:
  "convert_value a \<noteq> Inl ResourceNotFound" "convert_typed v \<noteq> Inl ResourceNotFound"
  "build_list l \<noteq> Inl ResourceNotFound" "build_map m \<noteq> Inl ResourceNotFound"
  by (induction a and v and l and m rule: convert_value_convert_typed_build_list_build_map.induct)
     (auto simp: rbind_def number_of_text_def int_of_str_def Let_def split: sum.splits option.splits)

context store
begin

lemma find_item_none:
  assumes "find_item C t keys True None d = (Inr None, d')" "table_there C" "keys_ok table_keys t keys"
    "kok (addr_of table_keys t (item_of keys))"
  shows "view d (addr_of table_keys t (item_of keys)) = None"
proof (cases "to_ddb_item keys")
  case (Inl e)
  then show ?thesis using assms(1) to_ddb_item_err [OF Inl]
    by (auto simp: find_item_def get_item_def catch_def bnd_def split: if_splits)
next
  case (Inr ki)
  let ?p = "\<lparr>gp_table = t, gp_key = ki, gp_attributes = None, gp_consistent = True\<rparr>"
  obtain x d1 where x: "execute_and_wrap C (c_get_item C ?p) d = (x, d1)" by fastforce
  have "x = Inr None"
  proof (cases x)
    case (Inl e)
    then show ?thesis using assms(1) x Inr execute_get_there [OF x [unfolded Inl] assms(2)]
      by (auto simp: find_item_def get_item_def catch_def bnd_def split: if_splits)
  next
    case r: (Inr y)
    then show ?thesis using assms(1) x Inr
      by (cases y) (auto simp: find_item_def get_item_def catch_def bnd_def from_ddb_item_def convert_there split: if_splits sum.splits)
  qed
  moreover have "set (dkeys ki) = set (table_keys t)"
    using assms(3) dkeys_to_ddb_item [OF Inr] by (simp add: keys_ok_def)
  ultimately show ?thesis using execute_get(2) [OF x, of None] assms(4) Inr by simp
qed

lemma deserialize_lock:
  assumes "deserialize_record lock_repo row = Inr e" "CHR 0x09 \<notin> set n"
    "dget ''hashKey'' row = Some (PyStr (join_str default_delimiter [''f'', n]))"
  shows "dget ''resourceName'' e = Some (PyStr n) \<and> dget ''expireAt'' e = dget ''expireAt'' row"
proof -
  have "split_str [CHR 0x09] (join_str [CHR 0x09] [''f'', n]) = [''f'', n]"
    by (rule split_join) (use assms(2) in auto)
  then show ?thesis using assms(1,3)
    by (simp add: deserialize_record_def key_simps ck_prep_for_deserialization_def default_delimiter_def
        del: join_str.simps) auto
qed

lemma found_lock:
  assumes "find_as (\<lambda>r. lift_res (lock_from_record r)) E lock_repo [PyStr n] True w = (Inr x, w')" "en_client E = C"
    "CHR 0x09 \<notin> set n" "lock_row_at (view (w_db w)) n r" "table_there C"
  shows "x = map_option (\<lambda>t. (n, Some t)) r"
proof -
  from assms(1,2) obtain y w1 where y: "find C lock_repo [PyStr n] True w = (Inr y, w1)"
    and x: "case y of None \<Rightarrow> x = None | Some e \<Rightarrow> \<exists>v. lock_from_record e = Inr v \<and> x = Some v"
    by (auto simp: find_as_def elim!: bnd_InrE split: option.splits)
  show ?thesis
  proof (cases y)
    case None
    obtain z d where z: "find_item C (r_table lock_repo) (lock_key n) True None (w_db w) = (z, d)" by fastforce
    have "z = Inr None" using y None z by (auto simp: find_def lock_args bnd_def with_db_app split: sum.splits option.splits)
    from find_item_none [OF z [unfolded this] assms(5) lock_key_addr(3)] show ?thesis
      using lock_row_none [OF assms(4)] x None by (simp add: lock_key_addr lock_kok)
  next
    case (Some e)
    obtain i row where i: "from_ddb_item i = Inr row" "deserialize_record lock_repo row = Inr e"
      "view (w_db w) (lock_addr n) = Some (\<lambda>a. dget a i)"
      "map (\<lambda>a. dget a i) (table_keys (r_table lock_repo)) = key_of table_keys (r_table lock_repo) (item_of (lock_key n))"
      by (rule find_entry [OF y [unfolded Some] lock_args lock_key_addr(3)]) (auto simp: lock_key_addr lock_kok)
    have "dget ''hashKey'' i = Some (Attr [SV (join_str default_delimiter [''f'', n])])"
      using i(4) by (simp add: lock_repo_ok key_of_def lock_key_def item_of_def to_ddb_item_def)
    from from_ddb_get [OF i(1) this] have k: "dget ''hashKey'' row = Some (PyStr (join_str default_delimiter [''f'', n]))"
      by simp
    obtain t where t: "r = Some t" "dget ''expireAt'' i = Some (val_attr (PyInt t))"
      using assms(4) i(3) by (auto simp: lock_row_at_def holds_at_def split: option.splits)
    from from_ddb_get [OF i(1) t(2)] have "dget ''expireAt'' row = Some (PyInt t)"
      by (auto simp: val_attr_def number_of_int_str)
    with deserialize_lock [OF i(2) assms(3) k] have "lock_from_record e = Inr (n, Some t)"
      by (simp add: lock_from_record_def str_at_def opt_int_def dreq_def)
    then show ?thesis using x Some t(1) by simp
  qed
qed

end

definition try_acquire_result :: "int \<Rightarrow> int \<Rightarrow> int \<Rightarrow> string \<Rightarrow> ddb_view \<Rightarrow> lock_row \<Rightarrow> exn + resource_lock option \<Rightarrow> ddb_view \<Rightarrow> bool" where
  "try_acquire_result now target e n v r res v' \<longleftrightarrow>
     (let free = (case r of None \<Rightarrow> True | Some c \<Rightarrow> c < now)
      in case res of
           Inr (Some l) \<Rightarrow> free \<and> lock_row_at v' n (Some target) \<and>
             l = \<lparr>lk_name = n, lk_timeout_at = target, lk_refresh_seconds = e, lk_release_result = None\<rparr>
         | Inr None \<Rightarrow> \<not> free \<and> lock_row_at v' n r
         | Inl ex \<Rightarrow> lock_row_at v' n r \<or> free \<and> lock_row_at v' n (Some target)) \<and>
     (\<forall>a. a \<noteq> lock_addr n \<longrightarrow> v' a = v a)"

context store
begin

lemma find_as_keeps: "en_client E = C \<Longrightarrow> keeps view A (find_as (\<lambda>r. lift_res (f r)) E rp args c)"
  unfolding find_as_def by (simp) (intro frame_rules)

lemma time_run:
  "bnd get_system_time_in_seconds f w = f (w_clock w (w_ticks w) div 1000) (w\<lparr>w_ticks := Suc (w_ticks w)\<rparr>)"
  "bnd (get_epoch_seconds_in_future s None b) f w =
     f (epoch_seconds_after (w_clock w (w_ticks w)) s b) (w\<lparr>w_ticks := Suc (w_ticks w)\<rparr>)"
  by (simp_all add: get_system_time_in_seconds_def get_epoch_seconds_in_future_def get_system_time_in_millis_def bnd_def)

lemma try_acquire_outcome:
  assumes "try_acquire_once E n e w = (res, w')" "en_client E = C" "CHR 0x09 \<notin> set n" "lock_row_at (view (w_db w)) n r"
    "table_there C" "0 < e" "e < 880"
  shows "try_acquire_result (w_clock w (w_ticks w) div 1000) (epoch_seconds_after (w_clock w (Suc (w_ticks w))) e False)
    e n (view (w_db w)) r res (view (w_db w'))"
proof -
  define now where "now = w_clock w (w_ticks w) div 1000"
  define target where "target = epoch_seconds_after (w_clock w (Suc (w_ticks w))) e False"
  define l where "l = \<lparr>lk_name = n, lk_timeout_at = target, lk_refresh_seconds = e, lk_release_result = None\<rparr>"
  define u where "u = w\<lparr>w_ticks := Suc (Suc (w_ticks w))\<rparr>"
  note sim = lock_simulates_def row_create_def row_patch_def try_acquire_result_def
  let ?find = "find_as (\<lambda>r. lift_res (lock_from_record r)) E lock_repo [PyStr n] True"
  have u: "w_db u = w_db w" by (simp add: u_def)
  have run: "bnd (create C lock_repo (lock_to_record n target)) (\<lambda>created.
     if created then ret (Some l)
     else bnd ?find (\<lambda>current.
       case current of
         None \<Rightarrow> bnd (create C lock_repo (lock_to_record n target)) (\<lambda>again. ret (if again then Some l else None))
       | Some (n', None) \<Rightarrow> raise TypeError
       | Some (n', Some t) \<Rightarrow> if t \<ge> now then ret None
           else bnd (patch_with_condition C lock_repo (lock_to_record n' t) ''expireAt'' (PyInt target) None) (\<lambda>_.
                ret (Some l)))) u = (res, w')"
    using assms(1,6,7) unfolding try_acquire_once_def assms(2) l_def target_def now_def u_def
    by (simp add: time_run assert_that_def Let_def cong: if_cong)
  obtain b v where b: "create C lock_repo (lock_to_record n target) u = (b, v)" by fastforce
  have s1: "lock_simulates (view (w_db w)) n (RowCreate target) r b (view (w_db v))"
    using lock_create [OF b] assms(4) u by simp
  have ?thesis if "b = Inl ex" for ex
  proof -
    have "res = Inl ex" "w' = v" using run b that by (simp_all add: bnd_def)
    then show ?thesis unfolding now_def [symmetric] target_def [symmetric]
      using s1 that by (cases r) (auto simp: sim)
  qed
  moreover have ?thesis if "b = Inr True"
  proof -
    have "res = Inr (Some l)" "w' = v" using run b that by (simp_all add: bnd_def)
    then show ?thesis unfolding now_def [symmetric] target_def [symmetric]
      using s1 that by (cases r) (auto simp: sim l_def)
  qed
  moreover have ?thesis if no: "b = Inr False"
  proof -
    obtain c where c: "r = Some c" using s1 no by (cases r) (auto simp: sim)
    have r: "lock_row_at (view (w_db v)) n r" "\<And>a. a \<noteq> lock_addr n \<Longrightarrow> view (w_db v) a = view (w_db w) a"
      using s1 no c by (auto simp: sim)
    obtain x f where f: "?find v = (x, f)" by fastforce
    have vf: "view (w_db f) = view (w_db v)" using keeps_noneD [OF find_as_keeps [OF assms(2)] f] .
    show ?thesis
    proof (cases x)
      case (Inl ex)
      then have "res = Inl ex" "w' = f" using run b no f by (simp_all add: bnd_def)
      then show ?thesis unfolding now_def [symmetric] target_def [symmetric] using r vf by (auto simp: sim)
    next
      case (Inr y)
      have y: "y = Some (n, Some c)" using found_lock [OF f [unfolded Inr] assms(2,3) r(1) assms(5)] c by simp
      show ?thesis
      proof (cases "c \<ge> now")
        case True
        then have "res = Inr None" "w' = f" using run b no f Inr y by (simp_all add: bnd_def)
        then show ?thesis unfolding now_def [symmetric] target_def [symmetric] using r vf True c by (auto simp: sim)
      next
        case False
        obtain p g where p: "patch_with_condition C lock_repo (lock_to_record n c) ''expireAt'' (PyInt target) None f = (p, g)"
          by fastforce
        have q: "lock_call C n (RowPatch c target) f = (case p of Inr _ \<Rightarrow> Inr True
            | Inl ex \<Rightarrow> if ex = OptimisticLock then Inr False else Inl ex, g)"
          using p by (auto simp: catch_def bnd_def split: sum.splits)
        have "res = (case p of Inl ex \<Rightarrow> Inl ex | Inr _ \<Rightarrow> Inr (Some l))" "w' = g"
          using run b no f Inr y False p by (simp_all add: bnd_def split: sum.splits)
        then show ?thesis unfolding now_def [symmetric] target_def [symmetric]
          using lock_patch [OF q, of r] r vf c False
          by (cases p) (auto simp: sim l_def split: if_splits)
      qed
    qed
  qed
  ultimately show ?thesis by (metis (full_types) sum.exhaust)
qed

end

text \<open>
  C34 (refinement). Each conditional write of the lock repository on the store is one atomic step on the
  abstract row of the lock, with the same answer; a call that fails has done the whole step or nothing; and no
  other row of the store changes.
\<close>

theorem lock_write_refines:
  assumes "store C view kok" "lock_call C n c w = (res, w')" "lock_row_at (view (w_db w)) n r"
  shows "lock_simulates (view (w_db w)) n c r res (view (w_db w'))"
  by (rule store.lock_call_simulates [OF assms])

lemma empty_lock_row: "lock_row_at (service_view (w_db (service_world []))) n None"
  by (simp add: lock_row_at_def service_view_def service_world_def mem_view_def mem_lookup_def)

lemma lock_write_refines_witness:
  "lock_simulates (service_view []) ''a'' (RowCreate 5) None
     (fst (lock_call service_client ''a'' (RowCreate 5) (service_world [])))
     (service_view (w_db (snd (lock_call service_client ''a'' (RowCreate 5) (service_world [])))))"
  using lock_write_refines [OF mem_store.store_axioms prod.collapse [symmetric] empty_lock_row, of "''a''" "RowCreate 5"]
  by (simp add: service_world_def)

text \<open>
  C35 (functional). One undisturbed attempt of \<open>try_acquire\<close>: it gives a lock with the new expiry time, written
  into the row, exactly when there was no row or the row had expired before the call, and \<open>None\<close>, changing nothing,
  otherwise; it touches no other row, also when a call to the store fails.
\<close>

theorem try_acquire_takes_expired:
  assumes "store C view kok" "try_acquire_once E n e w = (res, w')" "en_client E = C" "CHR 0x09 \<notin> set n"
    "lock_row_at (view (w_db w)) n r" "table_there C" "0 < e" "e < 880"
  shows "try_acquire_result (w_clock w (w_ticks w) div 1000) (epoch_seconds_after (w_clock w (Suc (w_ticks w))) e False)
    e n (view (w_db w)) r res (view (w_db w'))"
  by (rule store.try_acquire_outcome [OF assms])

lemma service_table_there: "table_there service_client"
  by (simp add: table_there_def service_client_def mem_client_def mem_get_def)

lemma try_acquire_takes_expired_witness:
  "fst (try_acquire_once service_env ''a'' 20 (service_world [])) \<noteq> Inr None \<and>
   try_acquire_result 0 21 20 ''a'' (service_view []) None (fst (try_acquire_once service_env ''a'' 20 (service_world [])))
     (service_view (w_db (snd (try_acquire_once service_env ''a'' 20 (service_world [])))))"
proof -
  have c: "w_clock (service_world []) 0 div 1000 = 0" "epoch_seconds_after (w_clock (service_world []) (Suc 0)) 20 False = 21"
    "w_ticks (service_world []) = 0" "w_db (service_world []) = []" by code_simp+
  have t: "CHR 0x09 \<notin> set ''a''" "(0::int) < 20" "(20::int) < 880" by simp_all
  from try_acquire_takes_expired [OF mem_store.store_axioms prod.collapse [symmetric] service_env_ok(1) t(1) empty_lock_row
      service_table_there t(2,3)]
  have "try_acquire_result 0 21 20 ''a'' (service_view []) None (fst (try_acquire_once service_env ''a'' 20 (service_world [])))
     (service_view (w_db (snd (try_acquire_once service_env ''a'' 20 (service_world [])))))" unfolding c by simp
  then show ?thesis by (auto simp: try_acquire_result_def)
qed

end
