(* ===== verification/Collections.thy ===== *)
theory Collections
  imports Py_Base
begin

text \<open>
  The collections of \<open>utils/collection_utils.py\<close>, and the group of \<open>utils/threading_utils.py\<close> that works on
  blocks of a list. An iterable is the list of what it yields; \<open>is_list\<close> says whether the object is a list, for
  the methods that ask.
\<close>

section \<open>Functions on collections\<close>

definition to_non_none_tuple :: "'a option list \<Rightarrow> 'a list" where
  "to_non_none_tuple args = map the (filter (\<lambda>n. n \<noteq> None) args)"

datatype 'a thing = One 'a | Many "'a list"

fun to_flat_list :: "'a thing list \<Rightarrow> 'a list" where
  "to_flat_list [] = []"
| "to_flat_list (Many xs # args) = xs @ to_flat_list args"
| "to_flat_list (One x # args) = x # to_flat_list args"

fun find_first_match :: "('a \<Rightarrow> bool) \<Rightarrow> 'a list \<Rightarrow> 'a option" where
  "find_first_match p [] = None"
| "find_first_match p (x # xs) = (if p x then Some x else find_first_match p xs)"

fun to_collection :: "'a thing option \<Rightarrow> 'a list option" where
  "to_collection None = None"
| "to_collection (Some (One x)) = Some [x]"
| "to_collection (Some (Many xs)) = (if xs = [] then None else Some xs)"

text \<open>\<open>partition\<close>: by slices of a list, or page by page.\<close>

definition slices :: "nat \<Rightarrow> 'a list \<Rightarrow> 'a list list" where
  "slices n xs = map (\<lambda>i. take n (drop i xs)) (filter (\<lambda>i. i mod n = 0) [0..<length xs])"

fun pages :: "nat \<Rightarrow> ('a \<Rightarrow> 'b) \<Rightarrow> 'a list \<Rightarrow> 'b list \<Rightarrow> 'b list list \<Rightarrow> 'b list list" where
  "pages n f [] page acc = (if page \<noteq> [] then acc @ [page] else acc)"
| "pages n f (x # xs) page acc =
     (if length page = n then pages n f xs [f x] (acc @ [page]) else pages n f xs (page @ [f x]) acc)"

definition partition_of :: "bool \<Rightarrow> 'a list \<Rightarrow> int \<Rightarrow> ('a \<Rightarrow> 'a) option \<Rightarrow> exn + 'a list list" where
  "partition_of is_list collection partition_size transformer =
     (if partition_size \<le> 0 then Inl AssertionError
      else let n = nat partition_size in
        if is_list \<and> length collection \<le> n then Inr [collection]
        else if is_list \<and> transformer = None then Inr (slices n collection)
        else Inr (pages n (case transformer of None \<Rightarrow> (\<lambda>x. x) | Some f \<Rightarrow> f) collection [] []))"

text \<open>A list comprehension over a method that may raise.\<close>

fun map_prog :: "('a \<Rightarrow> ('s, 'b) prog) \<Rightarrow> 'a list \<Rightarrow> ('s, 'b list) prog" where
  "map_prog f [] = ret []"
| "map_prog f (x # xs) = bnd (f x) (\<lambda>y. bnd (map_prog f xs) (\<lambda>ys. ret (y # ys)))"

section \<open>Buffered lists\<close>

text \<open>
  A \<open>BufferedList\<close> is its source beside the state of the flusher; a flusher that raises leaves the source.
\<close>

definition buffer_flush :: "('a list \<Rightarrow> ('s, unit) prog) \<Rightarrow> ('a list \<times> 's, unit) prog" where
  "buffer_flush flusher = (\<lambda>(src, s). if src \<noteq> []
     then case flusher src s of (Inl e, s') \<Rightarrow> (Inl e, (src, s')) | (Inr _, s') \<Rightarrow> (Inr (), ([], s'))
     else (Inr (), (src, s)))"

definition flush_if_full :: "nat \<Rightarrow> ('a list \<Rightarrow> ('s, unit) prog) \<Rightarrow> ('a list \<times> 's, unit) prog" where
  "flush_if_full max_size flusher = (\<lambda>(src, s). if length src = max_size then buffer_flush flusher (src, s) else (Inr (), (src, s)))"

definition buffer_add :: "nat \<Rightarrow> ('a list \<Rightarrow> ('s, unit) prog) \<Rightarrow> 'a \<Rightarrow> ('a list \<times> 's, unit) prog" where
  "buffer_add max_size flusher x = bnd (flush_if_full max_size flusher) (\<lambda>_. modify (\<lambda>(src, s). (src @ [x], s)))"

text \<open>
  The loop of \<open>add_all\<close> on a list, with fuel; what is left to add is the list itself. The count may be
  negative in Python, when the source is longer than its maximum, which never happens; \<open>nat\<close> subtraction gives 0.
\<close>

fun add_all_loop :: "nat \<Rightarrow> nat \<Rightarrow> ('a list \<Rightarrow> ('s, unit) prog) \<Rightarrow> 'a list \<Rightarrow> ('a list \<times> 's, unit) prog" where
  "add_all_loop fuel max_size flusher [] = ret ()"
| "add_all_loop 0 max_size flusher xs = raise OutOfFuel"
| "add_all_loop (Suc fuel) max_size flusher xs =
     bnd (flush_if_full max_size flusher) (\<lambda>_.
     bnd (gets (\<lambda>(src, s). min (length xs) (max_size - length src))) (\<lambda>count.
     bnd (modify (\<lambda>(src, s). (src @ take count xs, s))) (\<lambda>_.
     add_all_loop fuel max_size flusher (drop count xs))))"

definition buffer_add_all :: "nat \<Rightarrow> nat \<Rightarrow> ('a list \<Rightarrow> ('s, unit) prog) \<Rightarrow> bool \<Rightarrow> 'a list \<Rightarrow> ('a list \<times> 's, unit) prog" where
  "buffer_add_all fuel max_size flusher is_list xs =
     (if is_list then add_all_loop fuel max_size flusher xs else for_each (buffer_add max_size flusher) xs)"

section \<open>Blocks in parallel\<close>

text \<open>
  \<open>AsyncProcessorGroup\<close> hands every block to a thread, which reports an exception and goes on (running out of fuel is no exception of Python's); the rest of the
  buffer is done by \<open>join\<close>. The threads are taken to work one after the other, in the order of the queue.
\<close>

definition execute_block :: "('a list \<Rightarrow> ('s, unit) prog) \<Rightarrow> 'a list \<Rightarrow> ('s, unit) prog" where
  "execute_block processor xs = catch (processor xs) (\<lambda>e. if e = OutOfFuel then None else Some (ret ()))"

definition group_join :: "('a list \<Rightarrow> ('s, unit) prog) \<Rightarrow> ('a list \<times> 's, unit) prog" where
  "group_join processor = (\<lambda>(src, s). if src \<noteq> [] then (case execute_block processor src s of (r, s') \<Rightarrow> (r, (src, s')))
     else (Inr (), (src, s)))"

definition submit_blocks_in_parallel :: "nat \<Rightarrow> bool \<Rightarrow> 'a list \<Rightarrow> nat \<Rightarrow> ('a list \<Rightarrow> ('s, unit) prog) \<Rightarrow> ('s, unit) prog" where
  "submit_blocks_in_parallel fuel is_list object_list partition_size processor =
     (if is_list \<and> length object_list \<le> partition_size then processor object_list
      else (\<lambda>s. case bnd (buffer_add_all fuel partition_size (execute_block processor) is_list object_list)
           (\<lambda>_. group_join processor) ([], s) of (r, (_, s')) \<Rightarrow> (r, s')))"

text \<open>
  The same for a \<open>flat_iterator\<close>, whose entries are made, and may fail to be made, while the blocks are filled.
\<close>

definition submit_transformed :: "('a \<Rightarrow> exn + 'b list) \<Rightarrow> 'a list \<Rightarrow> nat \<Rightarrow> ('b list \<Rightarrow> ('s, unit) prog) \<Rightarrow> ('s, unit) prog" where
  "submit_transformed transform xs partition_size processor = (\<lambda>s.
     case bnd (for_each (\<lambda>x. bnd (lift_res (transform x)) (for_each (buffer_add partition_size (execute_block processor)))) xs)
       (\<lambda>_. group_join processor) ([], s) of (r, (_, s')) \<Rightarrow> (r, s'))"

section \<open>Flat iterators\<close>

text \<open>
  One \<open>__next__\<close> of a \<open>flat_iterator\<close>: the rest of the source, and the rest of the collection being walked.
\<close>

function flat_next :: "('a \<Rightarrow> 'b list) \<Rightarrow> 'a list \<times> 'b list option \<Rightarrow> ('b \<times> 'a list \<times> 'b list option) option" where
  "flat_next f (src, Some (y # ys)) = Some (y, src, Some ys)"
| "flat_next f ([], Some []) = None"
| "flat_next f ([], None) = None"
| "flat_next f (x # xs, Some []) = flat_next f (xs, Some (f x))"
| "flat_next f (x # xs, None) = flat_next f (xs, Some (f x))"
  by pat_completeness auto
termination by (relation "measure (\<lambda>(f, src, c). length src)") auto

definition flat_left :: "('a \<Rightarrow> 'b list) \<Rightarrow> 'a list \<times> 'b list option \<Rightarrow> 'b list" where
  "flat_left f = (\<lambda>(src, c). (case c of None \<Rightarrow> [] | Some ys \<Rightarrow> ys) @ concat (map f src))"

fun flat_iterate :: "nat \<Rightarrow> ('a \<Rightarrow> 'b list) \<Rightarrow> 'a list \<times> 'b list option \<Rightarrow> 'b list" where
  "flat_iterate 0 f it = []"
| "flat_iterate (Suc n) f it = (case flat_next f it of None \<Rightarrow> [] | Some (y, it') \<Rightarrow> y # flat_iterate n f it')"

definition flat_list :: "('a \<Rightarrow> 'b list) \<Rightarrow> 'a list \<Rightarrow> 'b list" where
  "flat_list f src = flat_iterate (length (concat (map f src))) f (src, None)"

lemma flat_next_None: "flat_next f it = None \<longleftrightarrow> flat_left f it = []"
  by (induction f it rule: flat_next.induct) (auto simp: flat_left_def)

lemma flat_next_Some: "flat_next f it = Some (y, it') \<Longrightarrow> flat_left f it = y # flat_left f it'"
  by (induction f it rule: flat_next.induct) (auto simp: flat_left_def)

lemma flat_iterate_left: "length (flat_left f it) \<le> n \<Longrightarrow> flat_iterate n f it = flat_left f it"
proof (induction n arbitrary: it)
  case (Suc n)
  show ?case
  proof (cases "flat_next f it")
    case None
    then show ?thesis using flat_next_None [of f it] by simp
  next
    case (Some p)
    then obtain y it' where p: "p = (y, it')" by (cases p) auto
    from flat_next_Some [OF Some [unfolded p]] Suc show ?thesis by (simp add: Some p)
  qed
qed simp

lemma flat_list_concat [simp]: "flat_list f src = concat (map f src)"
  using flat_iterate_left [of f "(src, None)"] by (simp add: flat_list_def flat_left_def)

section \<open>Partitions\<close>

lemma pages_acc: "pages n f xs page acc = acc @ pages n f xs page []"
proof (induction xs arbitrary: page acc)
  case (Cons x xs)
  show ?case using Cons [of "[f x]" "acc @ [page]"] Cons [of "page @ [f x]" acc] Cons [of "[f x]" "[page]"]
    by (simp split: if_splits)
qed simp

lemma pages_concat: "concat (pages n f xs page acc) = concat acc @ page @ map f xs"
  by (induction n f xs page acc rule: pages.induct) auto

lemma pages_sizes: "0 < n \<Longrightarrow> length page \<le> n \<Longrightarrow>
    (\<forall>p\<in>set (pages n f xs page []). length p \<le> n) \<and> (\<forall>p\<in>set (butlast (pages n f xs page [])). length p = n)"
proof (induction xs arbitrary: page)
  case (Cons x xs)
  show ?case
  proof (cases "length page = n")
    case True
    let ?q = "pages n f xs [f x] []"
    have "?q \<noteq> []" using pages_concat [of n f xs "[f x]" "[]"] by (intro notI) simp
    moreover have "pages n f (x # xs) page [] = page # ?q" using True pages_acc [of n f xs "[f x]" "[page]"] by simp
    ultimately show ?thesis using Cons.prems Cons.IH [of "[f x]"] True by simp
  next
    case False
    then have eq: "pages n f (x # xs) page [] = pages n f xs (page @ [f x]) []" by simp
    have "length (page @ [f x]) \<le> n" using False Cons.prems(2) by simp
    from Cons.IH [OF Cons.prems(1) this] show ?thesis unfolding eq .
  qed
qed simp

lemma upt_split: "[0..<m + d] = [0..<m] @ map (\<lambda>i. i + m) [0..<d]"
  by (metis add.commute le0 map_add_upt upt_add_eq_append)

lemma slices_step:
  assumes "0 < n" "xs \<noteq> []"
  shows "slices n xs = take n xs # slices n (drop n xs)"
proof -
  let ?L = "length xs" and ?P = "\<lambda>i. i mod n = 0"
  let ?m = "min n ?L"
  have split: "[0..<?L] = [0..<?m] @ map (\<lambda>i. i + ?m) [0..<?L - ?m]"
    using upt_split [of ?m "?L - ?m"] by simp
  have first: "filter ?P [0..<k] = [0]" if "0 < k" "k \<le> n" for k
    using that by (induction k rule: nat_induct_non_zero) simp_all
  have "?L - ?m = length (drop n xs)" by simp
  moreover have "filter ?P (map (\<lambda>i. i + ?m) [0..<?L - ?m]) = map (\<lambda>i. i + n) (filter ?P [0..<?L - ?m])"
    by (cases "n \<le> ?L") (simp_all add: filter_map comp_def)
  moreover have "filter ?P [0..<?m] = [0]" using first [of ?m] assms by simp
  ultimately show ?thesis unfolding slices_def split
    by (simp add: filter_append drop_drop comp_def)
qed

lemma pages_first: "length page + length xs \<le> n \<Longrightarrow> page @ xs \<noteq> [] \<Longrightarrow> pages n f xs page [] = [page @ map f xs]"
  by (induction xs arbitrary: page) auto

lemma pages_step: "length page \<le> n \<Longrightarrow> n < length page + length xs \<Longrightarrow> 0 < n \<Longrightarrow>
    pages n f xs page [] = (page @ map f (take (n - length page) xs)) # pages n f (drop (n - length page) xs) [] []"
proof (induction xs arbitrary: page)
  case (Cons x xs)
  show ?case
  proof (cases "length page = n")
    case True
    have "pages n f (x # xs) [] [] = pages n f xs [f x] []" using Cons.prems(3) by simp
    then show ?thesis using True pages_acc [of n f xs "[f x]" "[page]"] by simp
  next
    case False
    then obtain k where k: "n = length page + Suc k" using Cons.prems(1) less_iff_Suc_add [of "length page" n] by auto
    then show ?thesis using False Cons.prems Cons.IH [of "page @ [f x]"] by simp
  qed
qed simp

lemma slices_pages: "0 < n \<Longrightarrow> slices n xs = pages n (\<lambda>x. x) xs [] []"
proof (induction xs rule: length_induct)
  case (1 xs)
  show ?case
  proof (cases "xs = []")
    case False
    note step = slices_step [OF 1(2) False]
    show ?thesis
    proof (cases "length xs \<le> n")
      case True
      then show ?thesis using False pages_first [of "[]" xs n "\<lambda>x. x"] step by (simp add: slices_def)
    next
      case no: False
      then have "slices n (drop n xs) = pages n (\<lambda>x. x) (drop n xs) [] []" using 1 by auto
      then show ?thesis using no pages_step [of "[]" n xs "\<lambda>x. x"] step 1(2) by simp
    qed
  qed (simp add: slices_def)
qed

text \<open>
  \<open>partition\<close> loses nothing and keeps the order: the pages in a row are the transformed
  collection, every page has at most \<open>partition_size\<close> entries and every page but the last exactly so many.
  A list that fits in one page is returned as it is, though: its entries are not transformed.
\<close>

lemma partition_pages:
  assumes "partition_of is_list xs n tr = Inr ps"
  shows "0 < n \<and> concat ps = (if is_list \<and> length xs \<le> nat n then xs else map (case tr of None \<Rightarrow> (\<lambda>x. x) | Some f \<Rightarrow> f) xs) \<and>
    (\<forall>p\<in>set ps. length p \<le> nat n) \<and> (\<forall>p\<in>set (butlast ps). length p = nat n)"
proof -
  have n: "0 < n" using assms by (auto simp: partition_of_def split: if_splits)
  have pg: "(\<forall>p\<in>set (pages (nat n) f xs [] []). length p \<le> nat n) \<and> (\<forall>p\<in>set (butlast (pages (nat n) f xs [] [])). length p = nat n)" for f :: "'a \<Rightarrow> 'a"
    using pages_sizes [of "nat n" "[]" f xs] n by simp
  show ?thesis using assms n pg
    by (auto simp: partition_of_def Let_def pages_concat slices_pages split: if_splits option.splits)
qed

lemma partition_pages_witness:
  "partition_of False [1, 2, 3 :: int] 2 (Some (\<lambda>x. x + 1)) = Inr [[2, 3], [4]] \<and> concat [[2, 3], [4 :: int]] = map (\<lambda>x. x + 1) [1, 2, 3]"
proof -
  have p: "partition_of False [1, 2, 3 :: int] 2 (Some (\<lambda>x. x + 1)) = Inr [[2, 3], [4]]" by code_simp
  show ?thesis using partition_pages [OF p] p by simp
qed

lemma flush_if_full_room:
  assumes "flush_if_full m fl (src, s) = (Inr u, (src', s'))" "length src \<le> m" "0 < m"
  shows "length src' < m"
  using assms by (auto simp: flush_if_full_def buffer_flush_def split: if_splits prod.splits sum.splits)

lemma for_each_append: "for_each f (xs @ ys) = bnd (for_each f xs) (\<lambda>_. for_each f ys)"
  by (induction xs) (simp_all add: bnd_assoc del: ret_app)

lemma add_room: "length src + length xs \<le> m \<Longrightarrow> for_each (buffer_add m fl) xs (src, s) = (Inr (), (src @ xs, s))"
proof (induction xs arbitrary: src)
  case (Cons x xs)
  have "buffer_add m fl x (src, s) = (Inr (), (src @ [x], s))"
    using Cons.prems by (simp add: buffer_add_def flush_if_full_def bnd_def)
  then show ?case using Cons.IH [of "src @ [x]"] Cons.prems by (simp add: bnd_def)
qed simp

lemma buffer_add_all_eq:
  assumes "0 < m" "length src \<le> m" "length xs \<le> fuel"
  shows "buffer_add_all fuel m fl is_list xs (src, s) = for_each (buffer_add m fl) xs (src, s)"
proof -
  have "add_all_loop fuel m fl xs (src, s) = for_each (buffer_add m fl) xs (src, s)"
    using assms(2,3)
  proof (induction fuel arbitrary: xs src s)
    case (Suc fuel)
    show ?case
    proof (cases xs)
      case (Cons y ys)
      obtain r src' s' where f: "flush_if_full m fl (src, s) = (r, (src', s'))" by (metis prod.exhaust)
      show ?thesis
      proof (cases r)
        case (Inl e)
        then show ?thesis using f Cons by (simp add: bnd_def buffer_add_def)
      next
        case (Inr u)
        let ?c = "min (length xs) (m - length src')"
        have room: "length src' < m" using flush_if_full_room [OF f [unfolded Inr] Suc.prems(1) assms(1)] .
        have c: "0 < ?c" "length src' + length (take ?c xs) \<le> m" using room Cons by auto
        have nf: "flush_if_full m fl (src', s') = (Inr (), (src', s'))" using room by (simp add: flush_if_full_def)
        have "for_each (buffer_add m fl) xs (src, s) = for_each (buffer_add m fl) xs (src', s')"
          using f Inr nf by (simp add: Cons bnd_def buffer_add_def)
        also have "\<dots> = bnd (for_each (buffer_add m fl) (take ?c xs)) (\<lambda>_. for_each (buffer_add m fl) (drop ?c xs)) (src', s')"
          by (simp flip: for_each_append)
        also have "\<dots> = for_each (buffer_add m fl) (drop ?c xs) (src' @ take ?c xs, s')"
          using add_room [OF c(2), of fl s'] by (simp add: bnd_def)
        also have "\<dots> = add_all_loop fuel m fl (drop ?c xs) (src' @ take ?c xs, s')"
          using Suc.IH [of "src' @ take ?c xs" "drop ?c xs" s'] c Suc.prems(2) by auto
        finally show ?thesis using f Inr by (simp add: Cons bnd_def)
      qed
    qed simp
  qed simp
  then show ?thesis by (simp add: buffer_add_all_def)
qed

text \<open>
  Adding a whole list to a buffer with room for something is adding its entries one by one:
  the same blocks are flushed in the same states, and a flusher that raises leaves the same buffer behind. The loop ends
  after at most as many rounds as the list has entries.
\<close>

lemma add_all_is_add_each:
  assumes "0 < m" "length src \<le> m" "length xs \<le> fuel"
  shows "buffer_add_all fuel m fl is_list xs (src, s) = for_each (buffer_add m fl) xs (src, s)"
  by (rule buffer_add_all_eq [OF assms])

lemma add_all_is_add_each_witness:
  "buffer_add_all 3 2 (\<lambda>b. modify (\<lambda>l. l @ [b])) True [1, 2, 3 :: int] ([], []) =
   for_each (buffer_add 2 (\<lambda>b. modify (\<lambda>l. l @ [b]))) [1, 2, 3] ([], []) \<and>
   buffer_add_all 3 2 (\<lambda>b. modify (\<lambda>l. l @ [b])) True [1, 2, 3 :: int] ([], []) = (Inr (), ([3], [[1, 2]]))"
proof -
  have "buffer_add_all 3 2 (\<lambda>b. modify (\<lambda>l. l @ [b])) True [1, 2, 3 :: int] ([], []) = (Inr (), ([3], [[1, 2]]))" by code_simp
  then show ?thesis using add_all_is_add_each [of 2 "[]" "[1, 2, 3 :: int]" 3 "\<lambda>b. modify (\<lambda>l. l @ [b])" True "[]"] by simp
qed

text \<open>
  A buffer whose maximum is 0 never takes a list in: the loop of \<open>add_all\<close> goes round
  without adding anything, however long it runs.
\<close>

lemma add_all_without_room:
  "xs \<noteq> [] \<Longrightarrow> buffer_add_all fuel 0 fl True xs ([], s) = (Inl OutOfFuel, ([], s))"
proof -
  assume "xs \<noteq> []"
  then obtain y ys where xs: "xs = y # ys" by (cases xs) auto
  have "add_all_loop fuel 0 fl (y # ys) ([], s) = (Inl OutOfFuel, ([], s))"
    by (induction fuel) (simp_all add: flush_if_full_def buffer_flush_def bnd_def)
  then show ?thesis by (simp add: buffer_add_all_def xs)
qed

lemma add_all_without_room_witness:
  "buffer_add_all 1000 0 (\<lambda>b. modify (\<lambda>l. l @ [b])) True [7 :: int] ([], []) = (Inl OutOfFuel, ([], []))"
  using add_all_without_room [of "[7 :: int]" 1000 "\<lambda>b. modify (\<lambda>l. l @ [b])" "[]"] by simp

lemma blocks_in_order:
  "0 < m \<Longrightarrow> length src \<le> m \<Longrightarrow>
   (\<exists>l. bnd (for_each (buffer_add m (execute_block p)) xs) (\<lambda>_. group_join p) (src, s) =
     (let (r, t) = for_each (execute_block p) (pages m (\<lambda>x. x) xs src []) s in (r, (l, t))))"
proof (induction xs arbitrary: src s)
  case Nil
  obtain r t where "execute_block p src s = (r, t)" by fastforce
  then show ?case by (cases r) (auto simp: group_join_def bnd_def)
next
  case (Cons x xs)
  show ?case
  proof (cases "length src = m")
    case False
    then have "buffer_add m (execute_block p) x (src, s) = (Inr (), (src @ [x], s))"
      by (simp add: buffer_add_def flush_if_full_def bnd_def)
    moreover have "length (src @ [x]) \<le> m" using False Cons.prems(2) by simp
    ultimately show ?thesis using Cons.IH [OF Cons.prems(1), of "src @ [x]" s] False by (simp add: bnd_assoc bnd_Inr)
  next
    case True
    obtain r t where t: "execute_block p src s = (r, t)" by fastforce
    have add: "buffer_add m (execute_block p) x (src, s) = (case r of Inl e \<Rightarrow> (Inl e, (src, t)) | Inr _ \<Rightarrow> (Inr (), ([x], t)))"
      using True Cons.prems(1) t by (auto simp: buffer_add_def flush_if_full_def buffer_flush_def bnd_def split: sum.splits)
    have pg: "pages m (\<lambda>x. x) (x # xs) src [] = src # pages m (\<lambda>x. x) xs [x] []"
      using True pages_acc [of m "\<lambda>x. x" xs "[x]" "[src]"] by simp
    show ?thesis
    proof (cases r)
      case (Inl e)
      then show ?thesis using add t pg by (simp add: bnd_assoc bnd_Inl)
    next
      case (Inr u)
      then show ?thesis using add t pg Cons.IH [OF Cons.prems(1), of "[x]" t] Cons.prems(1)
        by (simp add: bnd_assoc bnd_Inr)
    qed
  qed
qed

lemma submit_blocks_eq:
  assumes "0 < m" "length xs \<le> fuel" "\<not> (is_list \<and> length xs \<le> m)"
  shows "submit_blocks_in_parallel fuel is_list xs m p s = for_each (execute_block p) (pages m (\<lambda>x. x) xs [] []) s"
proof -
  have "bnd (buffer_add_all fuel m (execute_block p) is_list xs) (\<lambda>_. group_join p) ([], s) =
      bnd (for_each (buffer_add m (execute_block p)) xs) (\<lambda>_. group_join p) ([], s)"
    using buffer_add_all_eq [OF assms(1) _ assms(2), of "[]" "execute_block p" is_list s] by (simp add: bnd_def)
  moreover obtain r t where "for_each (execute_block p) (pages m (\<lambda>x. x) xs [] []) s = (r, t)" by fastforce
  ultimately show ?thesis using assms(3) blocks_in_order [OF assms(1), of "[]" p xs s]
    by (auto simp: submit_blocks_in_parallel_def)
qed

end
