(* ===== verification/Contexts_Repo.thy ===== *)
theory Contexts_Repo
  imports Service_Memory Collections
begin

text \<open>
  The repositories of session contexts (\<open>repos/aws/aws_session_contexts.py\<close>), pending events
  (\<open>aws_pending_events_repo.py\<close>) and push notifications (\<open>aws_session_push_notifications.py\<close>). Activating a session and
  submitting a notification are transactions with an event; failing a session is one without.
\<close>

section \<open>Pending events\<close>

definition max_tenant_id :: int where
  "max_tenant_id = 999999999999"

definition active_filter :: "int \<Rightarrow> start_or_filter" where
  "active_filter now = RangeFilter [PyInt now, PyInt max_tenant_id, PyStr ''X''] ''<=''"

definition query_pending_events :: "'d env \<Rightarrow> pending_event_type \<Rightarrow> int \<Rightarrow> ddb_item option \<Rightarrow>
    ('d, pending_event list \<times> ddb_item option) io" where
  "query_pending_events E ty limit next_token =
     bnd (assert_that (0 < limit \<and> limit < 100000)) (\<lambda>_.
     bnd get_system_time_in_millis (\<lambda>now.
     bnd (repo_query (en_client E) pending_repo [PyStr (pending_type_value ty)] True (active_filter now) (Some limit) next_token None)
       (\<lambda>(rows, token). bnd (map_prog pending_event_from_record rows) (\<lambda>es. ret (es, token)))))"

definition update_pending_action_time :: "'d env \<Rightarrow> pending_event \<Rightarrow> int \<Rightarrow> ('d, bool \<times> pending_event) io" where
  "update_pending_action_time E event seconds_in_future =
     bnd get_system_time_in_millis (\<lambda>now.
     let new_event = event\<lparr>pe_active_at := now + seconds_in_future * 1000, pe_update_time := now\<rparr> in
     bnd (lift_res (create_delete_item_request pending_repo (pending_event_to_record event) True)) (\<lambda>del_req.
     bnd (make_put_request pending_repo (pending_event_to_record new_event) []) (\<lambda>put_req.
     bnd (repo_transact_write (en_client E) [del_req, put_req]) (\<lambda>bad_req.
     ret (if bad_req \<noteq> None then (False, event) else (True, new_event))))))"

text \<open>The patch of \<open>update_action_times\<close> comes after the key was built, which keeps the old time.\<close>

definition update_pending_action_times :: "'d env \<Rightarrow> pending_event list \<Rightarrow> int \<Rightarrow> ('d, unit) io" where
  "update_pending_action_times E events seconds_in_future =
     bnd get_system_time_in_millis (\<lambda>now.
     bnd (map_prog (\<lambda>e. make_put_request pending_repo (pending_event_to_record e)
            [(''activeAt'', PyInt (now + seconds_in_future * 1000))]) events) (\<lambda>requests.
     if requests \<noteq> [] then repo_batch_write (en_client E) requests else ret ()))"

definition delete_pending_event :: "'d env \<Rightarrow> pending_event \<Rightarrow> ('d, bool) io" where
  "delete_pending_event E event = delete_entry (en_client E) pending_repo (pending_event_to_record event)"

section \<open>Session contexts\<close>

definition create_session_context :: "'d env \<Rightarrow> session_context \<Rightarrow> ('d, bool) io" where
  "create_session_context E c = create (en_client E) contexts_repo (context_to_record c)"

definition context_prepare_put :: "'d env \<Rightarrow> row \<Rightarrow> ('d, row) io" where
  "context_prepare_put E item = bnd get_system_time_in_seconds (\<lambda>now.
     ret (dset ''expireTime'' (PyInt (now + cf_max_context_ttl_seconds (en_config E))) item))"

definition context_put_request :: "'d env \<Rightarrow> session_context \<Rightarrow> ('d, transaction_request) io" where
  "context_put_request E c = create_put_item_request contexts_repo (context_prepare_put E) (context_to_record c) []"

definition construct_create_requests :: "'d env \<Rightarrow> session \<Rightarrow> bytes \<Rightarrow> session_context list \<Rightarrow> ('d, transaction_request list) io" where
  "construct_create_requests E s session_data contexts =
     bnd (map_prog (context_put_request E) contexts) (\<lambda>puts.
     bnd get_system_time_in_seconds (\<lambda>now.
     bnd (create_put_request E (key_of_session s) session_data (now + s_expiration_seconds s)) (\<lambda>sfdc_put.
     bnd (create_state_check_request sessions_repo (session_to_record s)
            (Some [(''sessionStatus'', PyStr (status_value ACTIVE))])) (\<lambda>activate.
     bnd (if has_live_agent_polling s
          then bnd (new_pending_event LIVE_AGENT_POLL (s_tenant_id s) (s_session_id s) (Some (s_user_id s)) None None None)
            (\<lambda>e. bnd (make_put_request pending_repo (pending_event_to_record e) []) (\<lambda>q. ret [q]))
          else ret []) (\<lambda>polls.
     ret (puts @ [sfdc_put, activate] @ polls))))))"

definition activation_data :: "session \<Rightarrow> event_payload" where
  "activation_data s = DictData [(''sessionId'', PyStr (s_session_id s)), (''userId'', PyStr (s_user_id s)),
     (''channelPlatformTypes'', PyList (map PyStr (s_channel_platform_types s)))]"

definition create_session_contexts :: "'d env \<Rightarrow> session \<Rightarrow> bytes \<Rightarrow> session_context list \<Rightarrow> ('d, bool) io" where
  "create_session_contexts E s session_data contexts =
     bnd (construct_create_requests E s session_data contexts) (\<lambda>requests.
     bnd (execute_with_event E (s_tenant_id s) requests SESSION_ACTIVATED (activation_data s) None 30 None) (\<lambda>bad_req.
     ret (bad_req = None)))"

definition context_args :: "session_key \<Rightarrow> context_type \<Rightarrow> pyval list" where
  "context_args k ct = [PyInt (k_tenant_id k), PyStr (k_session_id k), PyStr (context_value ct)]"

definition find_session_context :: "'d env \<Rightarrow> session_key \<Rightarrow> context_type \<Rightarrow> ('d, session_context option) io" where
  "find_session_context E k ct = find_as context_from_record E contexts_repo (context_args k ct) False"

text \<open>The token may be missing in the session, and then reading it raises.\<close>

definition find_session_context_with_fcm_token ::
    "'d env \<Rightarrow> session_key \<Rightarrow> context_type \<Rightarrow> ('d, (session_context \<times> string option) option) io" where
  "find_session_context_with_fcm_token E k ct =
     bnd (lift_res (create_get_item_request_from_args contexts_repo (context_args k ct) False None)) (\<lambda>ctx_req.
     bnd (lift_res (create_get_item_request_from_args sessions_repo [PyInt (k_tenant_id k), PyStr (k_session_id k)] True
            (Some [''sessionStatus'', ''fcmDeviceToken'']))) (\<lambda>sess_req.
     bnd (repo_batch_get (en_client E) [(ctx_req, contexts_repo), (sess_req, sessions_repo)]) (\<lambda>results.
     if bgr_row_count results > 0 then
       bnd (lift_res (get_entry_at results 0)) (\<lambda>ctx. case ctx of
         None \<Rightarrow> ret None
       | Some row \<Rightarrow>
           bnd (context_from_record row) (\<lambda>ctx.
           bnd (lift_res (get_entry_at results 1)) (\<lambda>atts. case atts of
             None \<Rightarrow> ret (Some (ctx, None))
           | Some a \<Rightarrow> bnd (lift_res (dreq ''sessionStatus'' a)) (\<lambda>st.
               if st = PyStr (status_value FAILED) then ret (Some (ctx, None))
               else bnd (lift_res (dreq ''fcmDeviceToken'' a)) (\<lambda>tok. bnd (lift_res (opt_str (Some tok))) (\<lambda>tok.
                    ret (Some (ctx, tok))))))))
     else ret None)))"

definition update_session_context :: "'d env \<Rightarrow> session_context \<Rightarrow> bytes option \<Rightarrow> ('d, bool) io" where
  "update_session_context E c new_data =
     (if new_data = Some (sc_data c) then ret True
      else bnd get_system_time_in_millis (\<lambda>now.
        patch (en_client E) contexts_repo (context_to_record c)
          [(''sessionData'', PyBytes (case new_data of None \<Rightarrow> sc_data c | Some d \<Rightarrow> d)), (''updateTime'', PyInt now)]))"

definition delete_session_context :: "'d env \<Rightarrow> session_key \<Rightarrow> context_type \<Rightarrow> ('d, bool) io" where
  "delete_session_context E k ct = delete (en_client E) contexts_repo (context_args k ct)"

definition context_types :: "context_type list" where
  "context_types = [WEB, LIVE_AGENT, PUSH_NOTIFIER]"

definition set_failed_requests :: "session_context \<Rightarrow> string \<Rightarrow> pending_event option \<Rightarrow> exn + transaction_request list" where
  "set_failed_requests c msg pending =
     rbind (create_patch_from_args_request sessions_repo [PyInt (sc_tenant_id c), PyStr (sc_session_id c)]
        [(''sessionStatus'', PyStr (status_value FAILED)), (''failureMessage'', PyStr msg)] False) (\<lambda>sess_req.
     rbind (map_res (\<lambda>ct. create_delete_item_request_from_args contexts_repo
        [PyInt (sc_tenant_id c), PyStr (sc_session_id c), PyStr (context_value ct)] False) context_types) (\<lambda>dels.
     rbind (case pending of None \<Rightarrow> Inr [] | Some e \<Rightarrow>
        rbind (create_delete_item_request pending_repo (pending_event_to_record e) False) (\<lambda>q. Inr [q])) (\<lambda>pes.
     Inr (sess_req # dels @ pes))))"

definition set_failed :: "'d env \<Rightarrow> session_context \<Rightarrow> string \<Rightarrow> pending_event option \<Rightarrow> ('d, bool) io" where
  "set_failed E c msg pending = bnd (lift_res (set_failed_requests c msg pending)) (\<lambda>requests.
     bnd (repo_transact_write (en_client E) requests) (\<lambda>bad. ret (bad = None)))"

definition create_patch_session_data_request :: "session_context \<Rightarrow> exn + transaction_request" where
  "create_patch_session_data_request c =
     create_update_item_request contexts_repo (context_to_record c) [(''sessionData'', PyBytes (sc_data c))] True"

text \<open>\<open>delete_by_row_keys\<close>: the keys come from the stream of the session table; one delete for each type of context.\<close>

definition context_keys_of :: "ddb_item \<Rightarrow> exn + (string \<times> row) list" where
  "context_keys_of row = rbind (from_ddb_item row) (\<lambda>key.
     map_res (\<lambda>ct. rbind (build_key_as_dict (r_key contexts_repo) (dset ''contextType'' (PyStr (context_value ct)) key) False)
       (\<lambda>k. Inr (r_table contexts_repo, k))) context_types)"

definition delete_by_row_keys :: "'d env \<Rightarrow> ddb_item list \<Rightarrow> ('d, unit) io" where
  "delete_by_row_keys E row_keys = with_db (submit_transformed context_keys_of row_keys 25 (batch_delete_submit (en_client E)))"

section \<open>Failing a session that is gone\<close>

definition example_context :: session_context where
  "example_context = \<lparr>sc_tenant_id = 7, sc_session_id = ''s'', sc_user_id = ''u'', sc_context_type = LIVE_AGENT, sc_data = [],
     sc_update_time = 5\<rparr>"


end
