(* ===== verification/Lambdas.thy ===== *)
theory Lambdas
  imports Service_Memory
begin

text \<open>
  The Lambda functions of the service, how they are invoked and scheduled: \<open>lambda_pkg/params.py\<close>,
  \<open>functions.py\<close>, \<open>aws/aws_lambda_invoker.py\<close>, \<open>lambda_scheduler.py\<close>, \<open>scheduler/\<close>. The environment
  variables and the clients of the SDK are parameters; a call of the SDK answers a status or an error.
\<close>

section \<open>Functions\<close>

datatype lambda_function = WebFn | LiveAgentPollerFn | PubSubPollerFn | PushNotifierFn | SchedulerFn

record function_params =
  fp_name :: string
  fp_default_bean :: string
  fp_group_env :: "string option"

fun function_value :: "lambda_function \<Rightarrow> function_params" where
  "function_value WebFn = \<lparr>fp_name = ''ShimServiceWeb'', fp_default_bean = ''SESSION_CONNECTOR'', fp_group_env = None\<rparr>"
| "function_value LiveAgentPollerFn =
     \<lparr>fp_name = ''ShimServiceLiveAgentPoller'', fp_default_bean = ''LIVE_AGENT_PROCESSOR'', fp_group_env = None\<rparr>"
| "function_value PubSubPollerFn =
     \<lparr>fp_name = ''ShimServicePubSubPoller'', fp_default_bean = ''PUBSUB_POLLER_PROCESSOR'', fp_group_env = None\<rparr>"
| "function_value PushNotifierFn =
     \<lparr>fp_name = ''ShimServiceNotificationPublisher'', fp_default_bean = ''PUSH_NOTIFIER_PROCESSOR'', fp_group_env = Some ''PUSH_NOTIFIER_GROUP''\<rparr>"
| "function_value SchedulerFn =
     \<lparr>fp_name = ''ShimServiceLambdaScheduler'', fp_default_bean = ''LAMBDA_SCHEDULER_PROCESSOR'', fp_group_env = None\<rparr>"

definition lambda_functions :: "lambda_function list" where
  "lambda_functions = [WebFn, LiveAgentPollerFn, PubSubPollerFn, PushNotifierFn, SchedulerFn]"

definition lambda_function_of :: "string \<Rightarrow> exn + lambda_function" where
  "lambda_function_of s = member_of (value_of_enum (\<lambda>f. fp_name (function_value f)) lambda_functions s (Some ''lambda function''))"

type_synonym environ = "string \<Rightarrow> string option"

definition environ_at :: "environ \<Rightarrow> string \<Rightarrow> exn + string" where
  "environ_at env k = (case env k of None \<Rightarrow> Inl (KeyError k) | Some v \<Rightarrow> Inr v)"

definition effective_name :: "environ \<Rightarrow> function_params \<Rightarrow> string" where
  "effective_name env p = (if env ''AWS_LAMBDA_FUNCTION_NAME'' = Some (fp_name p)
     then (case env ''MIRROR_FUNCTION_NAME'' of None \<Rightarrow> fp_name p | Some m \<Rightarrow> m) else fp_name p)"

definition scheduler_role_arn :: "environ \<Rightarrow> function_params \<Rightarrow> exn + string" where
  "scheduler_role_arn env p = (case fp_group_env p of None \<Rightarrow> Inl AssertionError | Some g \<Rightarrow> environ_at env (g @ ''_ROLE_ARN''))"

definition scheduler_group :: "environ \<Rightarrow> function_params \<Rightarrow> exn + string option" where
  "scheduler_group env p = (case fp_group_env p of None \<Rightarrow> Inl AssertionError | Some g \<Rightarrow> Inr (env g))"

section \<open>Invocation\<close>

text \<open>The clients: what \<open>invoke\<close> answers (a status and a function error), and the calls of the scheduler.\<close>

record 'd lambda_env =
  le_environ :: environ
  le_invoke :: "string \<Rightarrow> string \<Rightarrow> ('d, int \<times> string option) io"
  le_create_schedule :: "row \<Rightarrow> 'd world \<Rightarrow> (aws_error + unit) \<times> 'd world"
  le_delete_schedule :: "string \<Rightarrow> string \<Rightarrow> 'd world \<Rightarrow> (aws_error + unit) \<times> 'd world"
  le_function_arn :: "string \<Rightarrow> ('d, string) io"
  le_utc_offset :: int

definition manual_invoke :: "'d lambda_env \<Rightarrow> string \<Rightarrow> row \<Rightarrow> ('d, unit) io" where
  "manual_invoke L name parameters =
     bnd (lift_res (json_dumps (PyDict parameters))) (\<lambda>payload.
     bnd (le_invoke L name payload) (\<lambda>(status, err).
     if status div 100 \<noteq> 2
     then raise (PlainException (int_str status @ '': '' @ (case err of None \<Rightarrow> ''None'' | Some e \<Rightarrow> e)))
     else ret ()))"

text \<open>Inside a Lambda function the invocation goes through the scheduler function, which makes it over HTTP.\<close>

definition invocation :: "environ \<Rightarrow> lambda_function \<Rightarrow> row \<Rightarrow> string option \<Rightarrow> string \<times> row" where
  "invocation env f parameters bean =
     (let p = function_value f;
          record = [(''bean'', PyStr (case bean of None \<Rightarrow> fp_default_bean p | Some b \<Rightarrow> b)), (''parameters'', PyDict parameters)];
          name = effective_name env p
      in if (case env ''AWS_LAMBDA_FUNCTION_NAME'' of None \<Rightarrow> False | Some n \<Rightarrow> n \<noteq> [])
         then (fp_name (function_value SchedulerFn),
               [(''bean'', PyStr ''LAMBDA_SCHEDULER_PROCESSOR''), (''parameters'', PyDict (dset ''targetFunction'' (PyStr name) record))])
         else (name, record))"

definition invoke_function :: "'d lambda_env \<Rightarrow> lambda_function \<Rightarrow> row \<Rightarrow> string option \<Rightarrow> ('d, unit) io" where
  "invoke_function L f parameters bean =
     (case invocation (le_environ L) f parameters bean of (name, record) \<Rightarrow> manual_invoke L name record)"

definition invoke_connect_session :: "'d lambda_env \<Rightarrow> session_key \<Rightarrow> ('d, unit) io" where
  "invoke_connect_session L k = invoke_function L WebFn (to_key_dict k) None"

definition invoke_live_agent_poller :: "'d lambda_env \<Rightarrow> ('d, unit) io" where
  "invoke_live_agent_poller L = invoke_function L LiveAgentPollerFn [] None"

definition invoke_sfdc_pubsub_poller :: "'d lambda_env \<Rightarrow> ('d, unit) io" where
  "invoke_sfdc_pubsub_poller L = invoke_function L PubSubPollerFn [] None"

definition invoke_notification_poller :: "'d lambda_env \<Rightarrow> session_key \<Rightarrow> ('d, unit) io" where
  "invoke_notification_poller L k = invoke_function L PushNotifierFn (to_key_dict k) None"

text \<open>
  The scheduler function: the target is taken out of the parameters, and the rest is posted to it. \<open>post\<close> is the signed
  request over HTTP; its status is only logged.
\<close>

definition lambda_scheduler_invoke :: "(string \<Rightarrow> string \<Rightarrow> ('d, int) io) \<Rightarrow> row \<Rightarrow> ('d, unit) io" where
  "lambda_scheduler_invoke post parameters =
     bnd (lift_res (str_at ''targetFunction'' parameters)) (\<lambda>target.
     bnd (lift_res (json_dumps (PyDict (ddel ''targetFunction'' parameters)))) (\<lambda>body.
     bnd (post target body) (\<lambda>code. ret ())))"

section \<open>Schedules\<close>

datatype schedule_target = AtTime int | AtRate int

definition minutes_in_future_target :: "int \<Rightarrow> ('d, schedule_target) io" where
  "minutes_in_future_target minutes = bnd (assert_that (minutes > 0)) (\<lambda>_.
     bnd (get_epoch_seconds_in_future (minutes * 60) None True) (\<lambda>t. ret (AtTime t)))"

text \<open>\<open>datetime.fromtimestamp\<close> in a time zone of a fixed offset: the date in the proleptic Gregorian calendar.\<close>

definition civil_of_days :: "int \<Rightarrow> int \<times> int \<times> int" where
  "civil_of_days days =
     (let z = days + 719468; era = z div 146097; doe = z mod 146097;
          yoe = (doe - doe div 1460 + doe div 36524 - doe div 146096) div 365;
          doy = doe - (365 * yoe + yoe div 4 - yoe div 100);
          mp = (5 * doy + 2) div 153;
          d = doy - (153 * mp + 2) div 5 + 1;
          m = (if mp < 10 then mp + 3 else mp - 9)
      in (yoe + era * 400 + (if m \<le> 2 then 1 else 0), m, d))"

definition zero_padded :: "nat \<Rightarrow> int \<Rightarrow> string" where
  "zero_padded n i = rjust n (CHR ''0'') (int_str i)"

definition format_at :: "int \<Rightarrow> string" where
  "format_at t = (case civil_of_days (t div 86400) of (y, m, d) \<Rightarrow>
     ''at('' @ zero_padded 4 y @ ''-'' @ zero_padded 2 m @ ''-'' @ zero_padded 2 d @ ''T'' @
       zero_padded 2 (t mod 86400 div 3600) @ '':'' @ zero_padded 2 (t mod 3600 div 60) @ '')'')"

definition format_rate :: "int \<Rightarrow> string" where
  "format_rate minutes = ''rate('' @ int_str minutes @ '' minute'' @ (if minutes > 1 then ''s'' else []) @ '')''"

definition fill_schedule_params :: "int \<Rightarrow> schedule_target \<Rightarrow> row \<Rightarrow> row" where
  "fill_schedule_params offset target r = (case target of
     AtTime t \<Rightarrow> dset ''ScheduleExpression'' (PyStr (format_at (t + offset))) (dset ''ActionAfterCompletion'' (PyStr ''DELETE'') r)
   | AtRate m \<Rightarrow> dset ''ScheduleExpression'' (PyStr (format_rate m)) r)"

definition build_schedule_params :: "int \<Rightarrow> string \<Rightarrow> string \<Rightarrow> string option \<Rightarrow> string \<Rightarrow> row \<Rightarrow> schedule_target \<Rightarrow> exn + row" where
  "build_schedule_params offset arn role grp name payload target =
     rbind (json_dumps (PyDict payload)) (\<lambda>input.
     Inr (fill_schedule_params offset target
       [(''Name'', PyStr name), (''GroupName'', val_str grp),
        (''Target'', PyDict [(''RoleArn'', PyStr role), (''Arn'', PyStr arn), (''Input'', PyStr input)]),
        (''FlexibleTimeWindow'', PyDict [(''Mode'', PyStr ''OFF'')])]))"

definition aws_false_if :: "(aws_error \<Rightarrow> bool) \<Rightarrow> ('d world \<Rightarrow> (aws_error + unit) \<times> 'd world) \<Rightarrow> ('d, bool) io" where
  "aws_false_if refused p = (\<lambda>w. case p w of
     (Inr _, w') \<Rightarrow> (Inr True, w')
   | (Inl e, w') \<Rightarrow> (if refused e then Inr False else Inl (UnhandledAws (ae_type e)), w'))"

definition create_schedule :: "'d lambda_env \<Rightarrow> string option \<Rightarrow> string \<Rightarrow> string \<Rightarrow> string \<Rightarrow> row \<Rightarrow> schedule_target \<Rightarrow> ('d, bool) io" where
  "create_schedule L grp name arn role payload target =
     bnd (lift_res (build_schedule_params (le_utc_offset L) arn role grp name payload target)) (\<lambda>params.
     aws_false_if is_conflict_exception (le_create_schedule L params))"

definition get_arn :: "'d lambda_env \<Rightarrow> lambda_function \<Rightarrow> ('d, string) io" where
  "get_arn L f = (let name = effective_name (le_environ L) (function_value f) in
     case le_environ L ''THIS_FUNCTION_ARN'' of
       Some our \<Rightarrow> (let values = split_str '':'' our in
          if length values \<le> 6 then raise IndexError else ret (join_str '':'' (values[6 := name])))
     | None \<Rightarrow> le_function_arn L name)"

definition schedule_lambda :: "'d lambda_env \<Rightarrow> string \<Rightarrow> schedule_target \<Rightarrow> lambda_function \<Rightarrow> row \<Rightarrow> ('d, bool) io" where
  "schedule_lambda L name target f parameters =
     bnd (get_arn L f) (\<lambda>arn.
     let p = function_value f in
     bnd (lift_res (scheduler_group (le_environ L) p)) (\<lambda>grp.
     bnd (lift_res (scheduler_role_arn (le_environ L) p)) (\<lambda>role.
     create_schedule L grp name arn role
       [(''bean'', PyStr (fp_default_bean p)), (''parameters'', PyDict parameters)] target)))"

definition schedule_lambda_minutes :: "'d lambda_env \<Rightarrow> string \<Rightarrow> int \<Rightarrow> lambda_function \<Rightarrow> row \<Rightarrow> ('d, bool) io" where
  "schedule_lambda_minutes L name minutes f event =
     bnd (minutes_in_future_target minutes) (\<lambda>target. schedule_lambda L name target f event)"

definition delete_schedule :: "'d lambda_env \<Rightarrow> string \<Rightarrow> string \<Rightarrow> ('d, bool) io" where
  "delete_schedule L grp name = aws_false_if is_not_found_exception (le_delete_schedule L name grp)"

section \<open>When a schedule runs\<close>

text \<open>The expression of a schedule has no seconds: it runs at the start of the minute of its target.\<close>

definition schedule_minute :: "int \<Rightarrow> int" where
  "schedule_minute t = t div 60"

text \<open>
  A call scheduled \<open>m\<close> minutes from now runs at a full minute after now, never before it: at the
  \<open>m\<close>-th minute after the current one, so up to 59 seconds early, and a minute later than that when now is a full minute.
\<close>

lemma schedule_runs_after_now:
  assumes "0 < m" "minutes_in_future_target m w = (Inr (AtTime t), w')"
  defines "now \<equiv> (w_clock w (w_ticks w) + 500) div 1000"
  shows "schedule_minute t = now div 60 + m + (if now mod 60 = 0 then 1 else 0) \<and> now < 60 * schedule_minute t"
proof -
  have t: "t = round_to_next_minute (now + m * 60)"
    using assms(1,2) by (simp add: minutes_in_future_target_def get_epoch_seconds_in_future_def get_system_time_in_millis_def
        bnd_def epoch_seconds_after_def now_def Let_def)
  define q r where "q = now div 60" and "r = now mod 60"
  have n: "now = 60 * q + r" "0 \<le> r" "r < 60" by (simp_all add: q_def r_def)
  have "(now + m * 60) div 60 = q + m" "(now + m * 60) mod 60 = r" by (simp_all add: q_def r_def)
  then have "t = 60 * (q + m) + (60 - r)" by (simp add: t round_to_next_minute_def)
  then have "schedule_minute t = q + m + (if r = 0 then 1 else 0)"
    using n(2,3) unfolding schedule_minute_def by (cases "r = 0") (simp_all add: div_pos_pos_trivial)
  then show ?thesis using n assms(1) unfolding q_def [symmetric] r_def [symmetric] by auto
qed

lemma schedule_runs_after_now_witness:
  "fst (minutes_in_future_target 1 (service_world [])) = Inr (AtTime 120) \<and> schedule_minute 120 = 0 + 1 + 1 \<and> 0 < 60 * schedule_minute 120"
proof -
  have r: "fst (minutes_in_future_target 1 (service_world [])) = Inr (AtTime 120)" by code_simp
  then obtain w' where t: "minutes_in_future_target 1 (service_world []) = (Inr (AtTime 120), w')"
    by (metis prod.collapse)
  have c: "(w_clock (service_world []) (w_ticks (service_world [])) + 500) div 1000 = 0" by (simp add: service_world_def)
  from schedule_runs_after_now [OF _ t] show ?thesis unfolding c using r by simp
qed

end
