(* ===== verification/Push_Repo.thy ===== *)
theory Push_Repo
  imports Contexts_Repo Lambdas
begin

text \<open>
  Push notifications of sessions (\<open>push_notification/\<close>, \<open>repos/aws/aws_session_push_notifications.py\<close>): submitting
  one is an event whose number is the key of the notification, in one transaction.
\<close>

record push_notification =
  pn_tenant_id :: int
  pn_session_id :: string
  pn_seq_no :: int
  pn_channel_type :: string
  pn_message_type :: "string option"
  pn_message :: "string option"
  pn_time_created :: int
  pn_sent :: bool

text \<open>\<open>LocalRecord\<close>, the notification as it is stored: its message is compressed.\<close>

record push_record =
  lr_tenant_id :: int
  lr_session_id :: string
  lr_seq_no :: int
  lr_channel_type :: string
  lr_message_type :: "string option"
  lr_message_data :: "bytes option"
  lr_time_created :: int
  lr_sent :: bool
  lr_expire_time :: "int option"

definition to_notification :: "'d env \<Rightarrow> push_record \<Rightarrow> exn + push_notification" where
  "to_notification E r =
     rbind (case lr_message_data r of None \<Rightarrow> Inr None
       | Some b \<Rightarrow> rbind (decompress_str E b) (\<lambda>m. Inr (Some m))) (\<lambda>m.
     Inr \<lparr>pn_tenant_id = lr_tenant_id r, pn_session_id = lr_session_id r, pn_seq_no = lr_seq_no r,
          pn_channel_type = lr_channel_type r, pn_message_type = lr_message_type r, pn_message = m,
          pn_time_created = lr_time_created r, pn_sent = lr_sent r\<rparr>)"

definition push_to_record :: "push_record \<Rightarrow> row" where
  "push_to_record r =
     (let d = [(''tenantId'', PyInt (lr_tenant_id r)), (''sessionId'', PyStr (lr_session_id r)), (''seqNo'', PyInt (lr_seq_no r)),
        (''channelType'', PyStr (lr_channel_type r)), (''timeCreated'', PyInt (lr_time_created r)), (''expireTime'', val_int (lr_expire_time r))];
          d = set_if_not_none ''messageType'' (lr_message_type r) d;
          d = (case lr_message_data r of None \<Rightarrow> d | Some b \<Rightarrow> dset ''messageData'' (PyBytes b) d)
      in if lr_sent r then dset ''sent'' (PyBool True) d else d)"

definition opt_bytes :: "pyval option \<Rightarrow> exn + bytes option" where
  "opt_bytes v = (case v of None \<Rightarrow> Inr None | Some PyNone \<Rightarrow> Inr None | Some (PyBytes b) \<Rightarrow> Inr (Some b) | _ \<Rightarrow> Inl TypeError)"

definition push_from_record :: "row \<Rightarrow> exn + push_record" where
  "push_from_record r =
     rbind (int_at ''tenantId'' r) (\<lambda>t. rbind (str_at ''sessionId'' r) (\<lambda>s. rbind (int_at ''seqNo'' r) (\<lambda>n.
     rbind (str_at ''channelType'' r) (\<lambda>c. rbind (opt_str (dget ''messageType'' r)) (\<lambda>mt.
     rbind (opt_bytes (dget ''messageData'' r)) (\<lambda>md. rbind (int_at ''timeCreated'' r) (\<lambda>tc.
     rbind (opt_int (dget ''expireTime'' r)) (\<lambda>e.
     Inr \<lparr>lr_tenant_id = t, lr_session_id = s, lr_seq_no = n, lr_channel_type = c, lr_message_type = mt, lr_message_data = md,
          lr_time_created = tc, lr_sent = (case dget ''sent'' r of None \<Rightarrow> False | Some v \<Rightarrow> truthy v), lr_expire_time = e\<rparr>))))))))"

definition push_from_entry :: "'d env \<Rightarrow> push_notification \<Rightarrow> exn + push_record" where
  "push_from_entry E n =
     rbind (case pn_message n of None \<Rightarrow> Inl AttributeError | Some m \<Rightarrow> Inr (compress_str E m)) (\<lambda>b.
     Inr \<lparr>lr_tenant_id = pn_tenant_id n, lr_session_id = pn_session_id n, lr_seq_no = pn_seq_no n, lr_channel_type = pn_channel_type n,
          lr_message_type = pn_message_type n, lr_message_data = Some b, lr_time_created = pn_time_created n,
          lr_sent = pn_sent n, lr_expire_time = None\<rparr>)"

text \<open>\<open>submit\<close>: the record is finished by the listener that gets its number, then the poller is invoked.\<close>

definition new_push_record :: "'d env \<Rightarrow> session_key \<Rightarrow> string \<Rightarrow> string \<Rightarrow> string \<Rightarrow> ('d, push_record) io" where
  "new_push_record E k channel ty text =
     (let data = compress_str E text in
      bnd get_system_time_in_millis (\<lambda>created.
      bnd get_system_time_in_seconds (\<lambda>now.
      ret \<lparr>lr_tenant_id = k_tenant_id k, lr_session_id = k_session_id k, lr_seq_no = 0, lr_channel_type = channel,
           lr_message_type = Some ty, lr_message_data = Some data, lr_time_created = created, lr_sent = False,
           lr_expire_time = Some (now + cf_max_push_notification_seconds (en_config E))\<rparr>)))"

definition push_put_request :: "push_record \<Rightarrow> int \<Rightarrow> ('d, transaction_request list) io" where
  "push_put_request r seq_no =
     bnd (make_put_request push_repo (push_to_record (r\<lparr>lr_seq_no := seq_no\<rparr>)) []) (\<lambda>q. ret [q])"

definition submit_push :: "'d env \<Rightarrow> 'd lambda_env \<Rightarrow> session_key \<Rightarrow> string \<Rightarrow> string \<Rightarrow> string \<Rightarrow> string \<Rightarrow> ('d, unit) io" where
  "submit_push E L k user channel ty text =
     bnd (new_push_record E k channel ty text) (\<lambda>r.
     bnd (execute_with_event E (k_tenant_id k) [] PUSH_NOTIFICATION
       (DictData [(''sessionId'', PyStr (k_session_id k)), (''userId'', PyStr user), (''platformChannelType'', PyStr channel),
          (''messageType'', PyStr ty)]) None 30 (Some (push_put_request r))) (\<lambda>bad.
     case bad of Some (i, reason) \<Rightarrow>
         raise (conflict (''Failed to submit push notification: '' @ cancel_reason_str reason) None)
     | None \<Rightarrow> invoke_notification_poller L k))"

definition query_notifications_props :: "session_key \<Rightarrow> int option \<Rightarrow> exn + query_params" where
  "query_notifications_props k previous = query_set_props push_repo [PyInt (k_tenant_id k), PyStr (k_session_id k)] True
     (case previous of None \<Rightarrow> NoRange | Some n \<Rightarrow> StartAfter (PyInt n)) None (Some [not_exists_filter ''sent'']) None False"

text \<open>The rows are fetched and turned into notifications while the caller iterates; here all at once.\<close>

definition query_notifications :: "'d env \<Rightarrow> session_key \<Rightarrow> int option \<Rightarrow> ('d, push_notification list) io" where
  "query_notifications E k previous =
     bnd (repo_query (en_client E) push_repo [PyInt (k_tenant_id k), PyStr (k_session_id k)] True
       (case previous of None \<Rightarrow> NoRange | Some n \<Rightarrow> StartAfter (PyInt n)) None None (Some [not_exists_filter ''sent''])) (\<lambda>(rows, k).
     lift_res (map_res (\<lambda>r. rbind (push_from_record r) (to_notification E)) rows))"

definition set_sent :: "'d env \<Rightarrow> push_notification \<Rightarrow> session_context option \<Rightarrow> ('d, bool) io" where
  "set_sent E n context =
     bnd (lift_res (push_from_entry E n)) (\<lambda>r.
     let patches = [(''sent'', PyBool True)] in
     case context of
       None \<Rightarrow> patch (en_client E) push_repo (push_to_record r) patches
     | Some c \<Rightarrow>
         bnd (lift_res (create_update_item_request push_repo (push_to_record r) patches True)) (\<lambda>req.
         bnd (lift_res (create_patch_session_data_request c)) (\<lambda>context_req.
         bnd (repo_transact_write (en_client E) [req, context_req]) (\<lambda>bad. ret (bad = None)))))"

text \<open>
  A notification read back from the record that was stored for it is the notification, text and
  all, whatever its message; only \<open>sent\<close> is taken from the record.
\<close>

lemma push_record_roundtrip:
  assumes "zlib_ok E" "push_from_entry E n = Inr r"
  shows "rbind (push_from_record (push_to_record r)) (to_notification E) = Inr n"
proof -
  obtain m where m: "pn_message n = Some m" using assms(2) by (auto simp: push_from_entry_def split: option.splits)
  then have r: "r = \<lparr>lr_tenant_id = pn_tenant_id n, lr_session_id = pn_session_id n, lr_seq_no = pn_seq_no n,
      lr_channel_type = pn_channel_type n, lr_message_type = pn_message_type n, lr_message_data = Some (compress_str E m),
      lr_time_created = pn_time_created n, lr_sent = pn_sent n, lr_expire_time = None\<rparr>"
    using assms(2) by (simp add: push_from_entry_def)
  have "push_from_record (push_to_record r) = Inr r" unfolding r
    by (cases "pn_message_type n"; cases "pn_sent n")
       (auto simp: push_from_record_def push_to_record_def set_if_not_none_def at_defs opt_bytes_def val_int_def)
  then show ?thesis using m decompress_compress(2) [OF assms(1)] by (simp add: to_notification_def r)
qed

lemma push_record_roundtrip_witness:
  "\<exists>r. push_from_entry service_env \<lparr>pn_tenant_id = 7, pn_session_id = ''s'', pn_seq_no = 3, pn_channel_type = ''omni'', pn_message_type = None,
      pn_message = Some ''hi'', pn_time_created = 5, pn_sent = False\<rparr> = Inr r \<and>
    rbind (push_from_record (push_to_record r)) (to_notification service_env) =
      Inr \<lparr>pn_tenant_id = 7, pn_session_id = ''s'', pn_seq_no = 3, pn_channel_type = ''omni'', pn_message_type = None,
      pn_message = Some ''hi'', pn_time_created = 5, pn_sent = False\<rparr>"
proof -
  let ?n = "\<lparr>pn_tenant_id = 7, pn_session_id = ''s'', pn_seq_no = 3, pn_channel_type = ''omni'', pn_message_type = None,
      pn_message = Some ''hi'', pn_time_created = 5, pn_sent = False\<rparr>"
  obtain r where r: "push_from_entry service_env ?n = Inr r" by (simp add: push_from_entry_def)
  show ?thesis using push_record_roundtrip [OF service_env_ok(6) r] r by blast
qed

end
