(* ===== verification/Key_Order.thy ===== *)
theory Key_Order
  imports Contexts_Repo
begin

text \<open>
  The order of range keys. DynamoDB compares texts byte by byte, and the keys of pending events and push
  notifications start with numbers: padded with zeros they compare as the numbers do, which the
  queries for events that are due, and for notifications after a number, rely on.
\<close>

definition padded :: "nat \<Rightarrow> int \<Rightarrow> string" where
  "padded n i = rjust n (CHR ''0'') (int_str i)"

lemma padded_digits: "0 \<le> i \<Longrightarrow> \<forall>c\<in>set (padded n i). is_digit c"
  using nat_str_digits by (auto simp: padded_def rjust_def int_str_def is_digit_def)

lemma padded_length: "0 \<le> i \<Longrightarrow> i < 10 ^ n \<Longrightarrow> 0 < n \<Longrightarrow> length (padded n i) = n"
proof -
  assume a: "0 \<le> i" "i < 10 ^ n" "0 < n"
  have "nat i < 10 ^ n" using a by (simp add: nat_less_iff)
  from length_nat_str_less [OF this a(3)] a(1) show ?thesis by (simp add: padded_def int_str_def)
qed

lemma padded_val: "0 \<le> i \<Longrightarrow> digits_val 0 (padded n i) = nat i"
  by (simp add: padded_def rjust_def int_str_def digits_val_nat_str)

lemma padded_less:
  assumes "0 \<le> i" "i < 10 ^ n" "0 \<le> j" "j < 10 ^ n" "0 < n"
  shows "padded n i < padded n j \<longleftrightarrow> i < j" "padded n i = padded n j \<longleftrightarrow> i = j"
proof -
  show "padded n i < padded n j \<longleftrightarrow> i < j"
    using digits_lex [of "padded n i" "padded n j"] assms by (auto simp: padded_length padded_digits padded_val)
  show "padded n i = padded n j \<longleftrightarrow> i = j" using padded_val assms by (metis nat_0_le)
qed

lemma append_less: "length p = length q \<Longrightarrow> (p @ x :: string) < q @ y \<longleftrightarrow> p < q \<or> p = q \<and> x < y"
  by (induction p q rule: list_induct2) auto

lemma append_le: "length p = length q \<Longrightarrow> (p @ x :: string) \<le> q @ y \<longleftrightarrow> p < q \<or> p = q \<and> x \<le> y"
  by (induction p q rule: list_induct2) auto

section \<open>Events that are due\<close>

definition pending_range_text :: "int \<Rightarrow> int \<Rightarrow> string \<Rightarrow> string" where
  "pending_range_text active_at tenant sid = join_str default_delimiter [padded 19 active_at, padded 12 tenant, sid]"

lemma pending_range_args: "build_range_key_from_args (r_key pending_repo) [PyInt a, PyInt t, PyStr s] =
    Inr (''rangeKey'', PyStr (pending_range_text a t s))"
  by (simp add: build_range_key_from_args_def key_simps pending_range_text_def padded_def)

lemma pending_item: "prepare_item pending_repo (pending_event_to_record e) = Inr ([(''eventTime'', PyInt (pe_event_time e)),
    (''userId'', val_str (pe_user_id e)), (''updateTime'', PyInt (pe_update_time e)),
    (''hashKey'', PyStr (join_str default_delimiter [''g'', pending_type_value (pe_type e)])),
    (''rangeKey'', PyStr (pending_range_text (pe_active_at e) (pe_tenant_id e) (pe_session_id e)))])"
  by (simp add: key_simps pending_event_to_record_def pending_range_text_def padded_def)

text \<open>
  C36 (bounds). The condition of \<open>query_events\<close> on the composite key selects the events that are due: with the
  times within 19 digits and the tenants within 12, the key of an event is at most the key the query asks for exactly
  when the event was to be active before now, or right now and the tenant is not the largest or the session at most \<open>X\<close>.
\<close>

theorem pending_query_selects_due:
  assumes "0 \<le> pe_active_at e" "pe_active_at e < 10 ^ 19" "0 \<le> now" "now < 10 ^ 19" "0 \<le> pe_tenant_id e"
    "pe_tenant_id e \<le> max_tenant_id"
  shows "\<exists>item k vs q. prepare_item pending_repo (pending_event_to_record e) = Inr item \<and> dget ''rangeKey'' item = Some (PyStr k) \<and>
    active_filter now = RangeFilter vs ''<='' \<and> build_range_key_from_args (r_key pending_repo) vs = Inr (''rangeKey'', PyStr q) \<and>
    (k \<le> q \<longleftrightarrow> pe_active_at e < now \<or>
       pe_active_at e = now \<and> (pe_tenant_id e < max_tenant_id \<or> pe_tenant_id e = max_tenant_id \<and> pe_session_id e \<le> ''X''))"
proof -
  let ?k = "pending_range_text (pe_active_at e) (pe_tenant_id e) (pe_session_id e)"
  let ?q = "pending_range_text now max_tenant_id ''X''"
  have t: "pe_tenant_id e < 10 ^ 12" "max_tenant_id < 10 ^ 12" "0 \<le> max_tenant_id" using assms(6) by (simp_all add: max_tenant_id_def)
  have l: "length (padded 19 (pe_active_at e)) = length (padded 19 now)"
    "length (padded 12 (pe_tenant_id e)) = length (padded 12 max_tenant_id)"
    using assms t by (simp_all add: padded_length)
  have "?k \<le> ?q \<longleftrightarrow> pe_active_at e < now \<or>
       pe_active_at e = now \<and> (pe_tenant_id e < max_tenant_id \<or> pe_tenant_id e = max_tenant_id \<and> pe_session_id e \<le> ''X'')"
    unfolding pending_range_text_def default_delimiter_def
    by (simp add: append_le [OF l(1)] append_le [OF l(2)] padded_less [OF assms(1-4)] padded_less [OF assms(5) t(1,3,2)])
  then show ?thesis
    by (intro exI [of _ ?k] exI [of _ ?q] exI conjI) (auto simp: pending_item pending_range_args active_filter_def)
qed

lemma pending_query_selects_due_witness:
  "\<exists>item k vs q. prepare_item pending_repo (pending_event_to_record
     \<lparr>pe_type = LIVE_AGENT_POLL, pe_event_time = 5, pe_tenant_id = 7, pe_session_id = ''s'', pe_user_id = None, pe_active_at = 5, pe_update_time = 5\<rparr>) = Inr item \<and>
    dget ''rangeKey'' item = Some (PyStr k) \<and> active_filter 9 = RangeFilter vs ''<='' \<and>
    build_range_key_from_args (r_key pending_repo) vs = Inr (''rangeKey'', PyStr q) \<and> k \<le> q"
  using pending_query_selects_due [of "\<lparr>pe_type = LIVE_AGENT_POLL, pe_event_time = 5, pe_tenant_id = 7, pe_session_id = ''s'',
    pe_user_id = None, pe_active_at = 5, pe_update_time = 5\<rparr>" 9] by (auto simp: max_tenant_id_def)

end
