(* ===== verification/Caches.thy ===== *)
theory Caches
  imports Service_Env
begin

text \<open>
  The caches of \<open>utils/concurrent_cache.py\<close> and \<open>utils/cache.py\<close>. A cache is its size, the time its entries live,
  and a dictionary of entries with the time each expires; its operations read the clock of the world, in milliseconds.
  A thread holds the mutex of its key's shard for a whole operation on it, so operations are taken one after the
  other. The contract both classes share, bounded room and no value but the last one stored, is the locale
  \<open>bounded_store\<close>.
\<close>

section \<open>What a bounded store promises\<close>

datatype ('k, 'e) store_step = SPut 'k 'e | SDrop 'k | SClear

fun store_run :: "('k \<Rightarrow> 'e \<Rightarrow> 'c \<Rightarrow> 'c) \<Rightarrow> ('k \<Rightarrow> 'c \<Rightarrow> 'c) \<Rightarrow> ('c \<Rightarrow> 'c) \<Rightarrow> ('k, 'e) store_step list \<Rightarrow> 'c \<Rightarrow> 'c" where
  "store_run put del clear [] c = c"
| "store_run put del clear (SPut k e # ss) c = store_run put del clear ss (put k e c)"
| "store_run put del clear (SDrop k # ss) c = store_run put del clear ss (del k c)"
| "store_run put del clear (SClear # ss) c = store_run put del clear ss (clear c)"

fun puts_key :: "'k \<Rightarrow> ('k, 'e) store_step \<Rightarrow> bool" where
  "puts_key k (SPut k' e) = (k = k')"
| "puts_key k s = False"

lemma store_run_append: "store_run put del clear (xs @ ys) c = store_run put del clear ys (store_run put del clear xs c)"
proof (induction xs arbitrary: c)
  case (Cons x xs)
  then show ?case by (cases x) simp_all
qed simp

locale bounded_store =
  fixes ok :: "'c \<Rightarrow> bool" and size_of :: "'c \<Rightarrow> nat" and cap :: "'c \<Rightarrow> nat" and entry :: "'c \<Rightarrow> 'k \<Rightarrow> 'e option"
    and put :: "'k \<Rightarrow> 'e \<Rightarrow> 'c \<Rightarrow> 'c" and del :: "'k \<Rightarrow> 'c \<Rightarrow> 'c" and clear :: "'c \<Rightarrow> 'c"
  assumes bounded: "ok c \<Longrightarrow> size_of c \<le> cap c"
    and ok_put: "ok c \<Longrightarrow> ok (put k e c) \<and> cap (put k e c) = cap c"
    and ok_del: "ok c \<Longrightarrow> ok (del k c) \<and> cap (del k c) = cap c"
    and ok_clear: "ok c \<Longrightarrow> ok (clear c) \<and> cap (clear c) = cap c"
    and put_same: "ok c \<Longrightarrow> entry (put k e c) k = Some e"
    and put_other: "ok c \<Longrightarrow> j \<noteq> k \<Longrightarrow> entry (put k e c) j = None \<or> entry (put k e c) j = entry c j"
    and del_entry: "entry (del k c) j = (if j = k then None else entry c j)"
    and clear_entry: "entry (clear c) j = None"
begin

lemma run_ok: "ok c \<Longrightarrow> ok (store_run put del clear ss c) \<and> cap (store_run put del clear ss c) = cap c"
proof (induction ss arbitrary: c)
  case (Cons s ss)
  show ?case by (cases s) (use Cons ok_put ok_del ok_clear in auto)
qed simp

lemma run_bounded: "ok c \<Longrightarrow> size_of (store_run put del clear ss c) \<le> cap c"
  using run_ok bounded by metis

lemma run_keeps_entry:
  "ok c \<Longrightarrow> entry c k = None \<or> entry c k = Some e \<Longrightarrow> \<not> list_ex (puts_key k) ss \<Longrightarrow>
   entry (store_run put del clear ss c) k = None \<or> entry (store_run put del clear ss c) k = Some e"
proof (induction ss arbitrary: c)
  case (Cons s ss)
  show ?case
  proof (cases s)
    case (SPut j x)
    then have "k \<noteq> j" using Cons.prems(3) by simp
    then have "entry (put j x c) k = None \<or> entry (put j x c) k = Some e" using put_other [OF Cons.prems(1), of k j x] Cons.prems(2) by auto
    then show ?thesis using Cons.IH [OF ok_put [THEN conjunct1, OF Cons.prems(1)]] Cons.prems(3) SPut by simp
  next
    case (SDrop j)
    then show ?thesis using Cons ok_del by (simp add: del_entry)
  next
    case SClear
    then show ?thesis using Cons ok_clear by (simp add: clear_entry)
  qed
qed simp

end

section \<open>The concurrent cache\<close>

record ('k, 'v) ttl_cache =
  tc_maxsize :: nat
  tc_ttl_seconds :: int
  tc_cache :: "('k, 'v \<times> int) dict"

type_synonym ('k, 'v, 'd, 'a) cache_prog = "(('k, 'v) ttl_cache \<times> 'd world, 'a) prog"

definition new_ttl_cache :: "nat \<Rightarrow> int \<Rightarrow> exn + ('k, 'v) ttl_cache" where
  "new_ttl_cache maxsize ttl = (if maxsize > 1 \<and> ttl > 0
     then Inr \<lparr>tc_maxsize = maxsize, tc_ttl_seconds = ttl, tc_cache = []\<rparr> else Inl AssertionError)"

text \<open>The shard of a key is found from its hash, a parameter.\<close>

definition shard_size :: "nat \<Rightarrow> nat" where
  "shard_size maxsize = max 0 (maxsize div 4) + 1"

definition shard_index :: "nat \<Rightarrow> int \<Rightarrow> int" where
  "shard_index maxsize h = (if h < 0 then - h else h) mod int (shard_size maxsize)"

lemma shard_in_range: "0 \<le> shard_index n h \<and> shard_index n h < int (shard_size n)"
  by (simp add: shard_index_def shard_size_def)

definition in_world :: "('d, 'a) io \<Rightarrow> ('c \<times> 'd world, 'a) prog" where
  "in_world p = (\<lambda>(c, w). case p w of (r, w') \<Rightarrow> (r, (c, w')))"

definition on_cache :: "('c \<Rightarrow> 'c) \<Rightarrow> ('c \<times> 'd world, unit) prog" where
  "on_cache f = modify (\<lambda>(c, w). (f c, w))"

text \<open>\<open>min\<close> with a key: the first of the entries whose key is least.\<close>

fun first_min :: "('a \<Rightarrow> 'b::linorder) \<Rightarrow> 'a \<Rightarrow> 'a list \<Rightarrow> 'a" where
  "first_min f x [] = x"
| "first_min f x (y # ys) = first_min f (if f y < f x then y else x) ys"

definition min_key :: "('a \<Rightarrow> 'b::linorder) \<Rightarrow> ('k \<times> 'a) list \<Rightarrow> 'k option" where
  "min_key f es = (case es of [] \<Rightarrow> None | e # es \<Rightarrow> Some (fst (first_min (\<lambda>x. f (snd x)) e es)))"

definition remove_oldest :: "('a \<Rightarrow> 'b::linorder) \<Rightarrow> ('k, 'a) dict \<Rightarrow> ('k, 'a) dict" where
  "remove_oldest f es = (case min_key f es of None \<Rightarrow> es | Some k \<Rightarrow> ddel k es)"

definition tc_put :: "'k \<Rightarrow> 'v \<times> int \<Rightarrow> ('k, 'v) ttl_cache \<Rightarrow> ('k, 'v) ttl_cache" where
  "tc_put k e c = (let es = (if dget k (tc_cache c) = None \<and> length (tc_cache c) = tc_maxsize c
       then remove_oldest snd (tc_cache c) else tc_cache c) in c\<lparr>tc_cache := dset k e es\<rparr>)"

definition tc_pop :: "'k \<Rightarrow> ('k, 'v) ttl_cache \<Rightarrow> ('k, 'v) ttl_cache" where
  "tc_pop k c = c\<lparr>tc_cache := ddel k (tc_cache c)\<rparr>"

definition cache_find :: "'k \<Rightarrow> ('k, 'v, 'd, 'v option) cache_prog" where
  "cache_find k = bnd (gets (\<lambda>(c, w). dget k (tc_cache c))) (\<lambda>current. case current of
     None \<Rightarrow> ret None
   | Some (v, expire_at) \<Rightarrow> bnd (in_world get_system_time_in_millis) (\<lambda>now.
       if expire_at > now then ret (Some v) else bnd (on_cache (tc_pop k)) (\<lambda>_. ret None)))"

definition cache_set :: "'k \<Rightarrow> 'v \<Rightarrow> ('k, 'v, 'd, unit) cache_prog" where
  "cache_set k v = bnd (in_world get_system_time_in_millis) (\<lambda>now.
     on_cache (\<lambda>c. tc_put k (v, now + tc_ttl_seconds c * 1000) c))"

text \<open>The loader that is given comes before the one of the cache.\<close>

definition cache_load :: "('k \<Rightarrow> ('d, 'v option) io) option \<Rightarrow> 'k \<Rightarrow> ('d, 'v option) io option \<Rightarrow> ('d, 'v option) io" where
  "cache_load own k loader = (case loader of
     Some l \<Rightarrow> l
   | None \<Rightarrow> (case own of Some l \<Rightarrow> l k | None \<Rightarrow> ret None))"

definition cache_get :: "('k \<Rightarrow> ('d, 'v option) io) option \<Rightarrow> 'k \<Rightarrow> ('d, 'v option) io option \<Rightarrow> ('k, 'v, 'd, 'v option) cache_prog" where
  "cache_get own k loader =
     bnd (gets (\<lambda>(c, w). dget k (tc_cache c))) (\<lambda>current.
     bnd (case current of None \<Rightarrow> ret None | Some (v, expire_at) \<Rightarrow>
        bnd (in_world get_system_time_in_millis) (\<lambda>now. ret (if expire_at > now then Some v else None))) (\<lambda>fresh.
     case fresh of Some v \<Rightarrow> ret (Some v)
     | None \<Rightarrow> bnd (in_world (cache_load own k loader)) (\<lambda>value. case value of
         None \<Rightarrow> ret None
       | Some v \<Rightarrow> bnd (cache_set k v) (\<lambda>_. ret (Some v)))))"

definition cache_invalidate :: "'k \<Rightarrow> ('v \<Rightarrow> ('d, unit) io) option \<Rightarrow> ('k, 'v, 'd, 'v option) cache_prog" where
  "cache_invalidate k action = bnd (gets (\<lambda>(c, w). dget k (tc_cache c))) (\<lambda>entry.
     bnd (on_cache (tc_pop k)) (\<lambda>_. case entry of
       None \<Rightarrow> ret None
     | Some (v, _) \<Rightarrow> bnd (case action of None \<Rightarrow> ret () | Some a \<Rightarrow> in_world (a v)) (\<lambda>_. ret (Some v))))"

definition tc_clear :: "('k, 'v) ttl_cache \<Rightarrow> ('k, 'v) ttl_cache" where
  "tc_clear c = c\<lparr>tc_cache := []\<rparr>"

definition cache_clear :: "('k, 'v, 'd, unit) cache_prog" where
  "cache_clear = on_cache tc_clear"

definition cache_len :: "('k, 'v) ttl_cache \<Rightarrow> nat" where
  "cache_len c = length (tc_cache c)"

section \<open>The older cache\<close>

text \<open>
  \<open>TTLCache\<close> keeps the time before the value in an entry, and takes the entry of the least value for the oldest.
\<close>

record ('k, 'v) old_cache =
  oc_maxsize :: nat
  oc_ttl_seconds :: int
  oc_cache :: "('k, int \<times> 'v) dict"

type_synonym ('k, 'v, 'd, 'a) old_prog = "(('k, 'v) old_cache \<times> 'd world, 'a) prog"

definition new_old_cache :: "nat \<Rightarrow> int \<Rightarrow> exn + ('k, 'v) old_cache" where
  "new_old_cache maxsize ttl = (if maxsize > 1 \<and> ttl > 0
     then Inr \<lparr>oc_maxsize = maxsize, oc_ttl_seconds = ttl, oc_cache = []\<rparr> else Inl AssertionError)"

definition oc_put :: "'k \<Rightarrow> int \<times> 'v::linorder \<Rightarrow> ('k, 'v) old_cache \<Rightarrow> ('k, 'v) old_cache" where
  "oc_put k e c = (let es = (if dget k (oc_cache c) = None \<and> length (oc_cache c) = oc_maxsize c
       then remove_oldest snd (oc_cache c) else oc_cache c) in c\<lparr>oc_cache := dset k e es\<rparr>)"

definition oc_del :: "'k \<Rightarrow> ('k, 'v) old_cache \<Rightarrow> ('k, 'v) old_cache" where
  "oc_del k c = c\<lparr>oc_cache := ddel k (oc_cache c)\<rparr>"

definition old_set :: "'k \<Rightarrow> 'v::linorder \<Rightarrow> ('k, 'v, 'd, unit) old_prog" where
  "old_set k v = bnd (in_world get_system_time_in_millis) (\<lambda>now.
     on_cache (\<lambda>c. oc_put k (now + oc_ttl_seconds c * 1000, v) c))"

definition old_get :: "'k \<Rightarrow> ('d, 'v::linorder option) io option \<Rightarrow> ('k, 'v, 'd, 'v option) old_prog" where
  "old_get k loader =
     bnd (gets (\<lambda>(c, w). dget k (oc_cache c))) (\<lambda>v.
     bnd (case v of None \<Rightarrow> ret None | Some (expire_at, x) \<Rightarrow>
        bnd (in_world get_system_time_in_millis) (\<lambda>now.
          if now > expire_at then bnd (on_cache (oc_del k)) (\<lambda>_. ret None) else ret (Some x))) (\<lambda>found.
     case found of Some x \<Rightarrow> ret (Some x)
     | None \<Rightarrow> (case loader of None \<Rightarrow> ret None
         | Some l \<Rightarrow> bnd (in_world l) (\<lambda>result. case result of
             None \<Rightarrow> ret None
           | Some x \<Rightarrow> bnd (old_set k x) (\<lambda>_. ret (Some x))))))"

definition old_pop :: "'k \<Rightarrow> ('k, 'v, 'd, 'v option) old_prog" where
  "old_pop k = bnd (gets (\<lambda>(c, w). dget k (oc_cache c))) (\<lambda>v. case v of
     None \<Rightarrow> ret None
   | Some (_, x) \<Rightarrow> bnd (on_cache (oc_del k)) (\<lambda>_. ret (Some x)))"

definition old_len :: "('k, 'v) old_cache \<Rightarrow> nat" where
  "old_len c = length (oc_cache c)"

section \<open>Both keep the contract\<close>

lemma first_min_in: "first_min f x xs \<in> set (x # xs)"
  by (induction xs arbitrary: x) fastforce+

lemma min_key_in: "min_key f es = Some k \<Longrightarrow> k \<in> set (dkeys es)"
proof -
  assume m: "min_key f es = Some k"
  then obtain e t where e: "es = e # t" "k = fst (first_min (\<lambda>x. f (snd x)) e t)" by (cases es) (auto simp: min_key_def)
  from first_min_in [of "\<lambda>x. f (snd x)" e t] show ?thesis unfolding e(2) unfolding e(1) dkeys_def by (metis image_eqI image_set)
qed

lemma ddel_length: "distinct (dkeys d) \<Longrightarrow> k \<in> set (dkeys d) \<Longrightarrow> length (ddel k d) < length d"
proof (induction d)
  case (Cons p d)
  obtain a b where p: "p = (a, b)" by fastforce
  have "length (ddel k d) \<le> length d" by (simp add: ddel_def length_delete_le)
  then show ?case using Cons by (auto simp: p)
qed simp

lemma remove_oldest_keeps: "distinct (dkeys es) \<Longrightarrow> distinct (dkeys (remove_oldest f es))"
    "dget j (remove_oldest f es) = None \<or> dget j (remove_oldest f es) = dget j es"
  by (auto simp: remove_oldest_def split: option.splits)

lemma remove_oldest_room: "distinct (dkeys es) \<Longrightarrow> es \<noteq> [] \<Longrightarrow> length (remove_oldest f es) < length es"
  by (cases "min_key f es") (auto simp: remove_oldest_def ddel_length min_key_in min_key_def split: list.splits)

text \<open>The two puts are the same function of the entries.\<close>

definition put_entry :: "('e \<Rightarrow> 'b::linorder) \<Rightarrow> nat \<Rightarrow> 'k \<Rightarrow> 'e \<Rightarrow> ('k, 'e) dict \<Rightarrow> ('k, 'e) dict" where
  "put_entry f n k e es = dset k e (if dget k es = None \<and> length es = n then remove_oldest f es else es)"

definition entries_ok :: "nat \<Rightarrow> ('k, 'e) dict \<Rightarrow> bool" where
  "entries_ok n es \<longleftrightarrow> 1 < n \<and> distinct (dkeys es) \<and> length es \<le> n"

lemma put_entry_ok:
  assumes "entries_ok n es"
  shows "entries_ok n (put_entry f n k e es)"
proof -
  have d: "distinct (dkeys es)" and l: "length es \<le> n" "1 < n" using assms by (simp_all add: entries_ok_def)
  have "length (remove_oldest f es) < n" if "length es = n"
    using remove_oldest_room [OF d, of f] that l(2) by (cases es) auto
  then show ?thesis using d l remove_oldest_keeps [of es f]
    by (auto simp: entries_ok_def put_entry_def length_dset)
qed

lemma put_entry_get: "dget k (put_entry f n k e es) = Some e"
    "j \<noteq> k \<Longrightarrow> dget j (put_entry f n k e es) = None \<or> dget j (put_entry f n k e es) = dget j es"
  using remove_oldest_keeps(2) [of j f es] by (auto simp: put_entry_def)

lemma ddel_ok: "entries_ok n es \<Longrightarrow> entries_ok n (ddel k es)"
  using length_delete_le [of k es] by (auto simp: entries_ok_def) (simp add: ddel_def)

definition tc_ok :: "('k, 'v) ttl_cache \<Rightarrow> bool" where
  "tc_ok c \<longleftrightarrow> entries_ok (tc_maxsize c) (tc_cache c)"

definition oc_ok :: "('k, 'v) old_cache \<Rightarrow> bool" where
  "oc_ok c \<longleftrightarrow> entries_ok (oc_maxsize c) (oc_cache c)"

lemma puts_eq: "tc_put k e c = c\<lparr>tc_cache := put_entry snd (tc_maxsize c) k e (tc_cache c)\<rparr>"
    "oc_put k e' c' = c'\<lparr>oc_cache := put_entry snd (oc_maxsize c') k e' (oc_cache c')\<rparr>"
  by (simp_all add: tc_put_def oc_put_def put_entry_def Let_def)

interpretation tc: bounded_store tc_ok cache_len tc_maxsize "\<lambda>c k. dget k (tc_cache c)" tc_put tc_pop tc_clear
proof unfold_locales
  show "dget j (tc_cache (tc_put k e c)) = None \<or> dget j (tc_cache (tc_put k e c)) = dget j (tc_cache c)" if "j \<noteq> k"
    for j k :: 'a and e and c :: "('a, 'b) ttl_cache"
    using put_entry_get(2) [OF that, of snd "tc_maxsize c" e "tc_cache c"] by (simp add: puts_eq)
qed (simp_all add: tc_ok_def cache_len_def puts_eq put_entry_ok put_entry_get(1) tc_pop_def tc_clear_def ddel_ok, simp_all add: entries_ok_def)

interpretation oc: bounded_store oc_ok old_len oc_maxsize "\<lambda>c k. dget k (oc_cache c)" oc_put oc_del "\<lambda>c. c\<lparr>oc_cache := []\<rparr>"
proof unfold_locales
  show "dget j (oc_cache (oc_put k e c)) = None \<or> dget j (oc_cache (oc_put k e c)) = dget j (oc_cache c)" if "j \<noteq> k"
    for j k :: 'a and e and c :: "('a, 'b::linorder) old_cache"
    using put_entry_get(2) [OF that, of snd "oc_maxsize c" e "oc_cache c"] by (simp add: puts_eq)
qed (simp_all add: oc_ok_def old_len_def puts_eq put_entry_ok put_entry_get(1) oc_del_def ddel_ok, simp_all add: entries_ok_def)

section \<open>Runs of operations\<close>

datatype ('k, 'v, 'd) cache_op =
    FindOp 'k
  | GetOp 'k "('d, 'v option) io option"
  | SetOp 'k 'v
  | InvalidateOp 'k
  | ClearOp

fun cache_step :: "('k \<Rightarrow> ('d, 'v option) io) option \<Rightarrow> ('k, 'v, 'd) cache_op \<Rightarrow> ('k, 'v, 'd, 'v option) cache_prog" where
  "cache_step own (FindOp k) = cache_find k"
| "cache_step own (GetOp k loader) = cache_get own k loader"
| "cache_step own (SetOp k v) = bnd (cache_set k v) (\<lambda>_. ret None)"
| "cache_step own (InvalidateOp k) = cache_invalidate k None"
| "cache_step own ClearOp = bnd cache_clear (\<lambda>_. ret None)"

fun cache_run :: "('k \<Rightarrow> ('d, 'v option) io) option \<Rightarrow> ('k, 'v, 'd) cache_op list \<Rightarrow> ('k, 'v) ttl_cache \<times> 'd world \<Rightarrow>
    ('k, 'v) ttl_cache \<times> 'd world" where
  "cache_run own [] s = s"
| "cache_run own (x # xs) s = cache_run own xs (snd (cache_step own x s))"

fun stores_key :: "'k \<Rightarrow> ('k, 'v, 'd) cache_op \<Rightarrow> bool" where
  "stores_key k (SetOp k' v) = (k = k')"
| "stores_key k (GetOp k' l) = (k = k')"
| "stores_key k x = False"

definition stepped :: "'k \<Rightarrow> bool \<Rightarrow> ('k, 'v) ttl_cache \<Rightarrow> ('k, 'v) ttl_cache \<Rightarrow> bool" where
  "stepped k stores c c' \<longleftrightarrow>
     (\<exists>ss. c' = store_run tc_put tc_pop tc_clear ss c \<and> (list_ex (puts_key k) ss \<longrightarrow> stores))"

lemma stepped_intros: "stepped k b c c" "stepped k (k = j) c (tc_put j e c)" "stepped k b c (tc_pop j c)" "stepped k b c (tc_clear c)"
  unfolding stepped_def
  by (rule exI [of _ "[]"], simp) (rule exI [of _ "[SPut j e]"], simp, rule exI [of _ "[SDrop j]"], simp, rule exI [of _ "[SClear]"], simp)

lemma stepped_trans: "stepped k b c c' \<Longrightarrow> stepped k b' c' c'' \<Longrightarrow> stepped k (b \<or> b') c c''"
proof -
  assume "stepped k b c c'" "stepped k b' c' c''"
  then obtain xs ys where "c' = store_run tc_put tc_pop tc_clear xs c" "list_ex (puts_key k) xs \<longrightarrow> b"
    "c'' = store_run tc_put tc_pop tc_clear ys c'" "list_ex (puts_key k) ys \<longrightarrow> b'" unfolding stepped_def by blast
  then show "stepped k (b \<or> b') c c''" unfolding stepped_def by (intro exI [of _ "xs @ ys"]) (auto simp: store_run_append)
qed

lemmas cache_defs = cache_find_def cache_set_def cache_get_def cache_invalidate_def cache_clear_def in_world_def on_cache_def bnd_def

lemma cache_step_steps: "stepped k (stores_key k x) (fst s) (fst (snd (cache_step own x s)))"
proof -
  obtain c w where s: "s = (c, w)" by fastforce
  show ?thesis unfolding s
    by (cases x) (auto simp: cache_defs get_system_time_in_millis_def stepped_intros split: option.splits prod.splits sum.splits)
qed

lemma cache_run_steps: "stepped k (list_ex (stores_key k) xs) (fst s) (fst (cache_run own xs s))"
proof (induction xs arbitrary: s)
  case (Cons x xs)
  from stepped_trans [OF cache_step_steps [of k x s own] Cons.IH] show ?case by simp
qed (simp add: stepped_intros)

text \<open>
  C38 (invariant). A cache never holds more entries than its size, nor two for a key, whatever operations it goes through.
\<close>

theorem cache_bounded:
  assumes "new_ttl_cache n ttl = Inr c"
  shows "let c' = fst (cache_run own xs (c, w)) in cache_len c' \<le> n \<and> distinct (dkeys (tc_cache c')) \<and> tc_maxsize c' = n"
proof -
  have c: "tc_ok c" "tc_maxsize c = n"
    using assms by (auto simp: new_ttl_cache_def tc_ok_def entries_ok_def split: if_splits)
  obtain ss where "fst (cache_run own xs (c, w)) = store_run tc_put tc_pop tc_clear ss c"
    using cache_run_steps [of undefined xs "(c, w)" own] by (auto simp: stepped_def)
  then show ?thesis using tc.run_ok [OF c(1), of ss] tc.run_bounded [OF c(1), of ss] c(2)
    by (simp add: tc_ok_def entries_ok_def)
qed

definition example_world :: "unit world" where
  "example_world = \<lparr>w_db = (), w_clock = int, w_ticks = 0, w_uuid = (\<lambda>n. []), w_uuids = 0, w_out = []\<rparr>"

lemma cache_bounded_witness:
  "(case new_ttl_cache 2 1 :: exn + (int, int) ttl_cache of Inl e \<Rightarrow> False
    | Inr c \<Rightarrow> cache_len (fst (cache_run None [SetOp 1 1, SetOp 2 2, SetOp 3 3] (c, example_world))) \<le> 2)"
  using cache_bounded [of 2 1 "\<lparr>tc_maxsize = 2, tc_ttl_seconds = 1, tc_cache = []\<rparr> :: (int, int) ttl_cache" None
    "[SetOp 1 1, SetOp 2 2, SetOp 3 3]" example_world] by (simp add: new_ttl_cache_def Let_def)

text \<open>
  C10 (safety). A cache never answers with a stale value: what \<open>find\<close> gives for a key is nothing, or the value that was
  stored last, and that only while its time to live has not passed; other keys, evictions and invalidations in between
  do not matter.
\<close>

theorem cache_never_stale:
  assumes "tc_ok c" "cache_set k v (c, w) = (Inr (), s)" "\<not> list_ex (stores_key k) xs" "cache_run own xs s = (c2, w2)"
    "cache_find k (c2, w2) = (Inr r, s3)"
  shows "r = None \<or> r = Some v \<and> w_clock w2 (w_ticks w2) < w_clock w (w_ticks w) + tc_ttl_seconds c * 1000"
proof -
  let ?e = "(v, w_clock w (w_ticks w) + tc_ttl_seconds c * 1000)"
  have s: "fst s = tc_put k ?e c" using assms(2) by (auto simp: cache_defs get_system_time_in_millis_def)
  obtain ss where ss: "c2 = store_run tc_put tc_pop tc_clear ss (fst s)" "\<not> list_ex (puts_key k) ss"
    using cache_run_steps [of k xs s own] assms(3,4) by (auto simp: stepped_def)
  have "dget k (tc_cache c2) = None \<or> dget k (tc_cache c2) = Some ?e"
    unfolding ss(1) s by (rule tc.run_keeps_entry) (simp_all add: assms(1) tc.ok_put tc.put_same ss(2))
  then show ?thesis using assms(5) by (auto simp: cache_defs get_system_time_in_millis_def split: if_splits)
qed

lemma cache_never_stale_witness:
  "(case cache_set 1 5 (\<lparr>tc_maxsize = 2, tc_ttl_seconds = 1, tc_cache = []\<rparr>, example_world) of (_, s) \<Rightarrow>
    3 < (1000 :: int) \<and> fst (cache_find 1 (cache_run None [SetOp (2::int) (6::int), FindOp 2] s)) = Inr (Some 5))"
proof -
  let ?c = "\<lparr>tc_maxsize = 2, tc_ttl_seconds = 1, tc_cache = []\<rparr> :: (int, int) ttl_cache"
  define s where "s = snd (cache_set 1 5 (?c, example_world))"
  have s: "cache_set 1 5 (?c, example_world) = (Inr (), s)"
    by (simp add: s_def cache_defs get_system_time_in_millis_def)
  obtain c2 w2 where r: "cache_run None [SetOp 2 6, FindOp 2] s = (c2, w2)" by fastforce
  have c2: "tc_cache c2 = [(1, (5, 1000)), (2, (6, 1001))]" "w_clock w2 (w_ticks w2) = 3"
    using r unfolding s_def by (auto simp: cache_defs get_system_time_in_millis_def example_world_def tc_put_def Let_def)
  then obtain s3 where f: "cache_find 1 (c2, w2) = (Inr (Some 5), s3)" by (auto simp: cache_defs get_system_time_in_millis_def)
  have "tc_ok ?c" by (simp add: tc_ok_def entries_ok_def)
  from cache_never_stale [OF this s _ r f] c2 have "(3 :: int) < 1000" by (simp add: example_world_def)
  then show ?thesis unfolding s prod.case r f by simp
qed

text \<open>
  The older cache does not make room by age: with the values 9 and then 5 stored, storing a third removes
  the one stored last, as its value is less, and keeps the oldest.
\<close>

lemma old_cache_evicts_newest:
  "case new_old_cache 2 60 of Inl e \<Rightarrow> False | Inr c \<Rightarrow>
    (case bnd (old_set (1::int) (9::int)) (\<lambda>_. bnd (old_set 2 5) (\<lambda>_. old_set 3 7)) (c, example_world) of (r, (c', w)) \<Rightarrow>
      r = Inr () \<and> dkeys (oc_cache c') = [1, 3])"
  by code_simp

end
