(* ===== verification/Http_Client.thy ===== *)
theory Http_Client
  imports Web_Request Service_Env
begin

text \<open>
  The client side of HTTP: requests and responses (\<open>utils/http_client.py\<close>), cookies (\<open>utils/cookie_utils.py\<close>),
  the parsing of URLs (\<open>utils/uri_utils.py\<close>). The package \<open>requests\<close> is a parameter: a function from the method, the
  URL and the options of a request to a response, and the cookies it keeps. Printing for the log is left out.
\<close>

section \<open>Parsing URLs\<close>

text \<open>\<open>urlparse\<close>: scheme, network location, path and query; parameters and fragment are cut off.\<close>

definition cut_at :: "char \<Rightarrow> string \<Rightarrow> string \<times> string" where
  "cut_at c s = (let h = takeWhile (\<lambda>x. x \<noteq> c) s in (h, drop (Suc (length h)) s))"

definition params_schemes :: "string list" where
  "params_schemes = [[], ''ftp'', ''hdl'', ''prospero'', ''http'', ''https'', ''shttp'', ''rtsp'', ''rtspu'', ''sip'', ''sips'', ''mms'', ''sftp'', ''tel'']"

definition cut_params :: "string \<Rightarrow> string" where
  "cut_params path = (let segs = split_str ''/'' path in join_str ''/'' (butlast segs @ [fst (cut_at (CHR '';'') (last segs))]))"

definition host_of_netloc :: "string \<Rightarrow> string option \<times> string option" where
  "host_of_netloc netloc = (let hostinfo = last (split_str ''@'' netloc);
     (host, port) = (if CHR ''['' \<in> set hostinfo
        then (let r = snd (cut_at (CHR ''['') hostinfo); (h, p) = cut_at (CHR '']'') r in (h, snd (cut_at (CHR '':'') p)))
        else cut_at (CHR '':'') hostinfo)
     in (if host = [] then None else Some (lower host), if port = [] then None else Some port))"

text \<open>A port is decimal digits, at most 65535.\<close>

definition port_number :: "string \<Rightarrow> exn + int" where
  "port_number p = (if list_all is_digit p
     then rbind (int_of_str p) (\<lambda>i. if i \<le> 65535 then Inr i else Inl (ValueError ''Port out of range 0-65535''))
     else Inl (ValueError ''Port could not be cast to integer value''))"

definition parse_qsl :: "string \<Rightarrow> (string \<times> string) list" where
  "parse_qsl q = concat (map (\<lambda>nv. let (n, v) = cut_at (CHR ''='') nv;
        dec = (\<lambda>s. decode_from_url (map (\<lambda>c. if c = CHR ''+'' then CHR '' '' else c) s))
      in if CHR ''='' \<notin> set nv \<or> v = [] then [] else [(dec n, dec v)]) (split_str ''&'' q))"

record parsed_url =
  pu_scheme :: string
  pu_netloc :: string
  pu_path :: string
  pu_query :: string

definition urlparse :: "string \<Rightarrow> exn + parsed_url" where
  "urlparse url = (case url_scheme url of None \<Rightarrow> Inl (ValueError ''Invalid IPv6 URL'')
   | Some sch \<Rightarrow>
     (let r = snd (split_scheme (strip_url url));
          netloc = (if prefix ''//'' r then takeWhile (\<lambda>c. c \<notin> set ''/?#'') (drop 2 r) else []);
          rest = (if prefix ''//'' r then drop (2 + length netloc) r else r);
          (path, query) = cut_at (CHR ''?'') (fst (cut_at (CHR ''#'') rest));
          path = (if sch \<in> set params_schemes \<and> CHR '';'' \<in> set path then cut_params path else path)
      in Inr \<lparr>pu_scheme = sch, pu_netloc = netloc, pu_path = path, pu_query = query\<rparr>))"

definition parse_uri :: "string \<Rightarrow> exn + uri" where
  "parse_uri url = rbind (urlparse url) (\<lambda>p. case host_of_netloc (pu_netloc p) of (host, port) \<Rightarrow>
     rbind (case port of None \<Rightarrow> Inr None | Some n \<Rightarrow> rbind (port_number n) (\<lambda>i. Inr (Some i))) (\<lambda>port.
     Inr \<lparr>u_scheme = Some (pu_scheme p), u_netloc = Some (pu_netloc p), u_host = host, u_port = port,
       u_path = Some (if pu_path p \<noteq> [] then pu_path p else ''/''),
       u_query = (if pu_query p = [] then None else Some (QueryDict (dupdate [] (parse_qsl (pu_query p)))))\<rparr>))"

section \<open>Methods, media types, headers\<close>

datatype http_method = GET | POST | PATCH | PUT | DELETE

fun method_name :: "http_method \<Rightarrow> string" where
  "method_name GET = ''GET''"
| "method_name POST = ''POST''"
| "method_name PATCH = ''PATCH''"
| "method_name PUT = ''PUT''"
| "method_name DELETE = ''DELETE''"

datatype media_type = JSON | X_WWW_FORM_URLENCODED | TEXT_HTML | IMAGE_JPEG | IMAGE_AVIF | GZIPPED | ALL_MEDIA

definition media_texts :: "string list" where
  "media_texts = [''application/json'', ''application/x-www-form-urlencoded'', ''text/html'', ''image/jpeg'', ''image/avif'',
     ''application/gzip'', ''*/*'']"

fun media_value :: "media_type \<Rightarrow> nat" where
  "media_value JSON = 0"
| "media_value X_WWW_FORM_URLENCODED = 1"
| "media_value TEXT_HTML = 2"
| "media_value IMAGE_JPEG = 3"
| "media_value IMAGE_AVIF = 4"
| "media_value GZIPPED = 5"
| "media_value ALL_MEDIA = 6"

definition media_text :: "media_type \<Rightarrow> string" where
  "media_text m = media_texts ! media_value m"

datatype header_value = HStr string | HInt int | HList "string list"

type_synonym headers = "(string, header_value) dict"

section \<open>Responses\<close>

text \<open>What \<open>requests\<close> answers; \<open>ok\<close> is its judgement of the status.\<close>

record raw_response =
  rr_status_code :: int
  rr_ok :: bool
  rr_headers :: headers
  rr_text :: string
  rr_content :: bytes
  rr_is_redirect :: bool

text \<open>The headers of a response of \<open>requests\<close> ignore the case of names; those of a response made from parts do not.\<close>

record http_reply =
  hp_status_code :: int
  hp_headers :: "headers option"
  hp_ignore_case :: bool
  hp_body :: "string option"
  hp_raw_body :: "bytes option"
  hp_is_redirect :: bool
  hp_response :: "raw_response option"

definition reply_of_response :: "raw_response \<Rightarrow> http_reply" where
  "reply_of_response r = \<lparr>hp_status_code = rr_status_code r, hp_headers = Some (rr_headers r), hp_ignore_case = True,
     hp_body = Some (rr_text r), hp_raw_body = Some (rr_content r), hp_is_redirect = rr_is_redirect r, hp_response = Some r\<rparr>"

definition reply_of_parts :: "int \<Rightarrow> headers option \<Rightarrow> string option \<Rightarrow> bytes option \<Rightarrow> http_reply" where
  "reply_of_parts status hs body raw = \<lparr>hp_status_code = status, hp_headers = hs, hp_ignore_case = False,
     hp_body = body, hp_raw_body = raw, hp_is_redirect = (status div 100 = 3), hp_response = None\<rparr>"

definition examine_response :: "raw_response \<Rightarrow> exn + unit" where
  "examine_response r = (if \<not> rr_ok r
     then Inl (if rr_status_code r \<ge> 500 then HttpServerExn (rr_status_code r) (rr_text r) else HttpClientExn (rr_status_code r) (rr_text r))
     else Inr ())"

definition check_exception :: "http_reply \<Rightarrow> exn + unit" where
  "check_exception h = (case hp_response h of None \<Rightarrow> Inl AttributeError | Some r \<Rightarrow> examine_response r)"

definition is_2xx :: "http_reply \<Rightarrow> bool" where
  "is_2xx h \<longleftrightarrow> hp_status_code h div 100 = 2"

definition header_lookup :: "bool \<Rightarrow> string \<Rightarrow> headers \<Rightarrow> header_value option" where
  "header_lookup ignore_case name hs = (if ignore_case
     then dget (lower name) (map (\<lambda>(k, v). (lower k, v)) hs) else dget name hs)"

definition reply_header :: "http_reply \<Rightarrow> string \<Rightarrow> header_value option" where
  "reply_header h name = (case hp_headers h of None \<Rightarrow> None | Some hs \<Rightarrow> header_lookup (hp_ignore_case h) name hs)"

definition reply_location :: "http_reply \<Rightarrow> header_value option" where
  "reply_location h = reply_header h ''location''"

definition reply_header_as_list :: "http_reply \<Rightarrow> string \<Rightarrow> header_value list option" where
  "reply_header_as_list h name = (case reply_header h name of
     None \<Rightarrow> None
   | Some (HList vs) \<Rightarrow> Some (map HStr vs)
   | Some v \<Rightarrow> Some [v])"

section \<open>Requests\<close>

record client_request =
  cq_method :: http_method
  cq_url :: string
  cq_headers :: "headers option"
  cq_body :: "pyval option"
  cq_follow_redirects :: bool
  cq_response_on_error :: bool
  cq_timeout_seconds :: "int option"

definition case_insensitive_headers :: "client_request \<Rightarrow> headers" where
  "case_insensitive_headers q = (case cq_headers q of None \<Rightarrow> []
     | Some hs \<Rightarrow> dupdate [] (map (\<lambda>(k, v). (lower k, v)) hs))"

definition request_header :: "client_request \<Rightarrow> string \<Rightarrow> header_value option" where
  "request_header q name = dget (lower name) (case_insensitive_headers q)"

record send_params =
  sp_headers :: "headers option"
  sp_data :: "pyval option"
  sp_allow_redirects :: "bool option"
  sp_timeout :: "int option"

definition request_params :: "client_request \<Rightarrow> int option \<Rightarrow> send_params" where
  "request_params q default_timeout = \<lparr>
     sp_headers = (case cq_headers q of Some hs \<Rightarrow> if hs \<noteq> [] then Some hs else None | None \<Rightarrow> None),
     sp_data = cq_body q,
     sp_allow_redirects = (if \<not> cq_follow_redirects q then Some False else None),
     sp_timeout = (case cq_timeout_seconds q of Some t \<Rightarrow> Some t | None \<Rightarrow> default_timeout)\<rparr>"

text \<open>The jar keeps its cookies by domain, path and name.\<close>

record cookie =
  ck_name_of :: string
  ck_value_of :: string

type_synonym cookie_jar = "(string, (string, (string, cookie) dict) dict) dict"

record 'd http_client =
  hc_default_timeout :: "int option"
  hc_request :: "string \<Rightarrow> string \<Rightarrow> send_params \<Rightarrow> ('d, raw_response) io"
  hc_jar :: "('d, cookie_jar) io"
  hc_jar_get :: "string \<Rightarrow> string option \<Rightarrow> string option \<Rightarrow> ('d, string option) io"

definition new_http_client :: "'d http_client \<Rightarrow> 'd http_client" where
  "new_http_client C = C\<lparr>hc_default_timeout := Some 30\<rparr>"

definition set_default_timeout :: "int option \<Rightarrow> 'd http_client \<Rightarrow> 'd http_client" where
  "set_default_timeout t C = C\<lparr>hc_default_timeout := t\<rparr>"

definition send_request :: "'d http_client \<Rightarrow> client_request \<Rightarrow> ('d, raw_response) io" where
  "send_request C q = hc_request C (method_name (cq_method q)) (cq_url q) (request_params q (hc_default_timeout C))"

definition exchange :: "'d http_client \<Rightarrow> client_request \<Rightarrow> ('d, http_reply) io" where
  "exchange C q = bnd (send_request C q) (\<lambda>r.
     bnd (if \<not> cq_response_on_error q \<and> (\<not> rr_is_redirect r \<or> cq_follow_redirects q) then lift_res (examine_response r) else ret ()) (\<lambda>_.
     ret (reply_of_response r)))"

definition get_all_cookies :: "cookie_jar \<Rightarrow> cookie list" where
  "get_all_cookies jar = concat (map (\<lambda>domain. concat (map dvalues (dvalues domain))) (dvalues jar))"

definition get_first_cookie_match :: "cookie_jar \<Rightarrow> (cookie \<Rightarrow> bool) \<Rightarrow> cookie option" where
  "get_first_cookie_match jar matcher = List.find matcher (get_all_cookies jar)"

definition find_first_cookie_match :: "'d http_client \<Rightarrow> (cookie \<Rightarrow> bool) \<Rightarrow> ('d, cookie option) io" where
  "find_first_cookie_match C matcher = bnd (hc_jar C) (\<lambda>jar. ret (get_first_cookie_match jar matcher))"

definition find_cookie_value_by_uri :: "'d http_client \<Rightarrow> uri \<Rightarrow> string \<Rightarrow> ('d, string option) io" where
  "find_cookie_value_by_uri C u name = hc_jar_get C name (u_host u) (u_path u)"

section \<open>Building requests\<close>

definition http_join_step :: "string \<Rightarrow> string \<Rightarrow> string" where
  "http_join_step path arg = (if path \<noteq> [] \<and> \<not> suffix ''/'' path \<and> \<not> prefix ''/'' arg then path @ ''/'' @ arg else path @ arg)"

definition http_join_paths :: "string list \<Rightarrow> string" where
  "http_join_paths args = foldl http_join_step [] args"

definition http_join_base_path :: "string list \<Rightarrow> string" where
  "http_join_base_path args = (let path = http_join_paths args in if suffix ''/'' path then path else path @ ''/'')"

record request_builder =
  rb_method :: http_method
  rb_uri :: string
  rb_headers :: headers
  rb_body :: "pyval option"
  rb_allow_redirects :: bool
  rb_response_on_error :: bool
  rb_timeout_seconds :: "int option"

definition new_builder :: "http_method \<Rightarrow> string \<Rightarrow> request_builder" where
  "new_builder m uri = \<lparr>rb_method = m, rb_uri = uri, rb_headers = [], rb_body = None, rb_allow_redirects = True,
     rb_response_on_error = False, rb_timeout_seconds = None\<rparr>"

definition builder_body :: "pyval \<Rightarrow> request_builder \<Rightarrow> exn + request_builder" where
  "builder_body b rb = (if rb_method rb \<in> {GET, DELETE} then Inl (ValueError (''Body not allowed for HttpMethod.'' @ method_name (rb_method rb)))
     else (case b of PyDict d \<Rightarrow> rbind (json_dumps b) (\<lambda>t. Inr (rb\<lparr>rb_body := Some (PyStr t)\<rparr>))
           | PyNone \<Rightarrow> Inr (rb\<lparr>rb_body := None\<rparr>)
           | _ \<Rightarrow> Inr (rb\<lparr>rb_body := Some b\<rparr>)))"

definition builder_header :: "string \<Rightarrow> header_value \<Rightarrow> request_builder \<Rightarrow> request_builder" where
  "builder_header name v rb = rb\<lparr>rb_headers := dset name (case v of HInt i \<Rightarrow> HStr (int_str i) | _ \<Rightarrow> v) (rb_headers rb)\<rparr>"

definition builder_headers :: "headers option \<Rightarrow> request_builder \<Rightarrow> request_builder" where
  "builder_headers hs rb = (case hs of None \<Rightarrow> rb | Some hs \<Rightarrow> fold (\<lambda>(n, v). builder_header n v) hs rb)"

definition builder_authorization :: "string \<Rightarrow> string option \<Rightarrow> request_builder \<Rightarrow> request_builder" where
  "builder_authorization ty token = builder_header ''Authorization'' (HStr (case token of None \<Rightarrow> ty | Some t \<Rightarrow> ty @ '' '' @ t))"

definition builder_accept :: "media_type option \<Rightarrow> request_builder \<Rightarrow> request_builder" where
  "builder_accept m rb = (case m of None \<Rightarrow> rb | Some m \<Rightarrow> builder_header ''Accept'' (HStr (media_text m)) rb)"

datatype content_kind = KnownType media_type | TextType string

definition builder_content_type :: "content_kind \<Rightarrow> request_builder \<Rightarrow> exn + request_builder" where
  "builder_content_type c rb = (if rb_method rb \<in> {GET, DELETE} then Inl (ValueError (''Content-Type not allowed for '' @ method_name (rb_method rb)))
     else Inr (builder_header ''Content-Type'' (HStr (case c of KnownType m \<Rightarrow> media_text m | TextType t \<Rightarrow> t)) rb))"

definition build_request :: "string option \<Rightarrow> request_builder \<Rightarrow> client_request" where
  "build_request base rb = \<lparr>cq_method = rb_method rb,
     cq_url = (case base of None \<Rightarrow> rb_uri rb | Some b \<Rightarrow> http_join_paths [b, rb_uri rb]),
     cq_headers = Some (rb_headers rb), cq_body = rb_body rb, cq_follow_redirects = rb_allow_redirects rb,
     cq_response_on_error = rb_response_on_error rb, cq_timeout_seconds = rb_timeout_seconds rb\<rparr>"

definition builder_send :: "'d http_client \<Rightarrow> string option \<Rightarrow> request_builder \<Rightarrow> ('d, http_reply) io" where
  "builder_send C base rb = exchange C (build_request base rb)"

definition client_get :: "'d http_client \<Rightarrow> string \<Rightarrow> media_type \<Rightarrow> headers option \<Rightarrow> bool \<Rightarrow> ('d, http_reply) io" where
  "client_get C url accept hs allow_redirects =
     builder_send C None (builder_headers hs ((builder_accept (Some accept) (new_builder GET url))\<lparr>rb_allow_redirects := allow_redirects\<rparr>))"

definition client_post :: "'d http_client \<Rightarrow> string \<Rightarrow> media_type \<Rightarrow> media_type \<Rightarrow> pyval \<Rightarrow> ('d, http_reply) io" where
  "client_post C url content accept body =
     bnd (lift_res (rbind (builder_content_type (KnownType content) (builder_accept (Some accept) (new_builder POST url))) (builder_body body)))
       (builder_send C None)"

end
