(* ===== verification/Cs_Client.thy ===== *)
theory Cs_Client
  imports Http_Client Caches
begin

text \<open>
  The client of the configuration service (\<open>cs_client\<close>) and the keys it signs with (\<open>repos/secrets.py\<close>,
  \<open>repos/aws/aws_secrets.py\<close>, \<open>utils/hash_utils.py\<close>). Requests are signed with the key of the service; a status of the
  answer becomes the exception of the web framework for it. The hash functions and the secrets manager are parameters.
\<close>

section \<open>Service keys\<close>

record service_key =
  sk_key_id :: string
  sk_key :: string
  sk_time_created :: pyval

definition service_key_to_record :: "service_key \<Rightarrow> row" where
  "service_key_to_record k = [(''key'', PyStr (sk_key k)), (''timeCreated'', sk_time_created k)]"

definition service_key_sign :: "crypto \<Rightarrow> service_key \<Rightarrow> string \<Rightarrow> string \<Rightarrow> int \<Rightarrow> string option \<Rightarrow> string \<times> string" where
  "service_key_sign cy k meth path request_time body =
     (let sig = join_str '':'' [sk_key_id k, path, meth, int_str request_time];
          sig = (case body of None \<Rightarrow> sig | Some b \<Rightarrow> sig @ '':'' @ cy_sha256_hex cy b)
      in (sig, cy_hmac_hex cy sig (utf8_encode (sk_key k))))"

definition dict_of :: "pyval \<Rightarrow> exn + row" where
  "dict_of v = (case v of PyDict d \<Rightarrow> Inr d | _ \<Rightarrow> Inl AttributeError)"

definition service_keys_of_record :: "row \<Rightarrow> exn + service_key list" where
  "service_keys_of_record r = rbind (rbind (dreq ''keys'' r) dict_of) (map_res (\<lambda>(key_id, v).
     rbind (dict_of v) (\<lambda>d. rbind (str_at ''key'' d) (\<lambda>k. rbind (dreq ''timeCreated'' d) (\<lambda>t.
     Inr \<lparr>sk_key_id = key_id, sk_key = k, sk_time_created = t\<rparr>)))))"

definition load_json :: "string \<Rightarrow> exn + pyval" where
  "load_json s = (case json_loads s of None \<Rightarrow> Inl (ValueError ''JSONDecodeError'') | Some v \<Rightarrow> Inr v)"

definition service_keys_from_json :: "pyval \<Rightarrow> exn + service_key list" where
  "service_keys_from_json v = rbind (case v of PyStr s \<Rightarrow> load_json s | _ \<Rightarrow> Inr v) (\<lambda>v. rbind (dict_of v) service_keys_of_record)"

definition service_keys_to_record :: "service_key list \<Rightarrow> row" where
  "service_keys_to_record ks = [(''keys'', PyDict (dupdate [] (map (\<lambda>k. (sk_key_id k, PyDict (service_key_to_record k))) ks)))]"

definition service_keys_to_json :: "service_key list \<Rightarrow> exn + string" where
  "service_keys_to_json ks = json_dumps (PyDict (service_keys_to_record ks))"

lemma service_keys_record_roundtrip:
  assumes "distinct (map sk_key_id ks)"
  shows "service_keys_of_record (service_keys_to_record ks) = Inr ks"
proof -
  have "dupdate [] (map (\<lambda>k. (sk_key_id k, PyDict (service_key_to_record k))) ks) =
      map (\<lambda>k. (sk_key_id k, PyDict (service_key_to_record k))) ks"
    using assms by (subst dupdate_fresh) (simp_all add: dkeys_def comp_def)
  moreover have "map_res f (map (\<lambda>k. (sk_key_id k, PyDict (service_key_to_record k))) ks) = Inr ks"
    if "\<And>k. f (sk_key_id k, PyDict (service_key_to_record k)) = Inr k" for f
    by (induction ks) (simp_all add: that)
  ultimately show ?thesis
    by (simp add: service_keys_of_record_def service_keys_to_record_def dreq_def dict_of_def service_key_to_record_def str_at_def)
qed

text \<open>The secrets manager answers a secret or an error; a secret that is not there is none.\<close>

type_synonym 'd secrets_client = "string \<Rightarrow> 'd world \<Rightarrow> (aws_error + string) \<times> 'd world"

definition get_secret_value :: "'d secrets_client \<Rightarrow> string \<Rightarrow> ('d, string option) io" where
  "get_secret_value sm name = (\<lambda>w. case sm name w of
     (Inr s, w') \<Rightarrow> (Inr (Some s), w')
   | (Inl e, w') \<Rightarrow> (if is_not_found_exception e \<or> is_invalid_request e then Inr None else Inl (UnhandledAws (ae_type e)), w'))"

definition find_service_keys :: "'d secrets_client \<Rightarrow> ('d, service_key list option) io" where
  "find_service_keys sm = bnd (get_secret_value sm ''shim-service/service-keys'') (\<lambda>v. case v of
     None \<Rightarrow> ret None
   | Some s \<Rightarrow> if s = [] then ret None else bnd (lift_res (service_keys_from_json (PyStr s))) (\<lambda>ks. ret (Some ks)))"

definition get_service_keys :: "'d secrets_client \<Rightarrow> ('d, service_key list) io" where
  "get_service_keys sm = bnd (find_service_keys sm) (\<lambda>ks. case ks of
     None \<Rightarrow> raise (not_authorized ''No service keys.'') | Some ks \<Rightarrow> ret ks)"

definition push_credentials_from_json :: "pyval option \<Rightarrow> exn + row option" where
  "push_credentials_from_json v = (case v of
     None \<Rightarrow> Inr None
   | Some (PyDict d) \<Rightarrow> Inr (Some d)
   | Some (PyStr s) \<Rightarrow> rbind (load_json s) (\<lambda>v. rbind (dict_of v) (\<lambda>d. Inr (Some d)))
   | Some _ \<Rightarrow> Inl TypeError)"

section \<open>Signing requests\<close>

record service_creds =
  sc_service_name :: string
  sc_service_key :: service_key

definition body_text :: "pyval option \<Rightarrow> exn + string option" where
  "body_text b = (case b of None \<Rightarrow> Inr None | Some (PyStr s) \<Rightarrow> Inr (Some s) | Some _ \<Rightarrow> Inl TypeError)"

definition finish_auth :: "service_creds \<Rightarrow> request_builder \<Rightarrow> request_builder" where
  "finish_auth sc b = builder_header ''X-1440-Service-Key''
     (HStr (encode_to_base64string (sc_service_name sc @ [CHR 0x09] @ sk_key_id (sc_service_key sc)))) b"

definition auth_builder :: "crypto \<Rightarrow> service_creds \<Rightarrow> request_builder \<Rightarrow> ('d, request_builder) io" where
  "auth_builder cy sc b = bnd (lift_res (urlparse (rb_uri b))) (\<lambda>u.
     bnd get_system_time_in_millis (\<lambda>req_time.
     bnd (lift_res (body_text (rb_body b))) (\<lambda>body.
     ret (finish_auth sc (builder_authorization ''1440-HMAC-SHA256'' (Some (int_str req_time))
       (builder_header ''X-1440-Signature''
         (HStr (snd (service_key_sign cy (sc_service_key sc) (method_name (rb_method b)) (pu_path u) req_time body))) b))))))"

record auth_details =
  ad_target_id :: string
  ad_signing_string :: string
  ad_signature :: string

definition tokenize_details :: "auth_details \<Rightarrow> string" where
  "tokenize_details d = encode_to_base64string (ad_signing_string d @ '' '' @ ad_signature d)"

record service_secret =
  ss_client_id :: pyval
  ss_client_secret :: pyval
  ss_last_modified :: pyval
  ss_attributes :: "pyval option"

definition none_if_null :: "pyval option \<Rightarrow> pyval option" where
  "none_if_null v = (if v = Some PyNone then None else v)"

definition secret_of_node :: "row \<Rightarrow> exn + service_secret" where
  "secret_of_node r = rbind (dreq ''clientId'' r) (\<lambda>i. rbind (dreq ''clientSecret'' r) (\<lambda>s. rbind (dreq ''lastModified'' r) (\<lambda>l.
     Inr \<lparr>ss_client_id = i, ss_client_secret = s, ss_last_modified = l, ss_attributes = none_if_null (dget ''attributes'' r)\<rparr>)))"

definition secret_to_record :: "service_secret \<Rightarrow> row" where
  "secret_to_record s = [(''clientId'', ss_client_id s), (''clientSecret'', ss_client_secret s), (''lastModified'', ss_last_modified s)] @
     (case ss_attributes s of None \<Rightarrow> [] | Some a \<Rightarrow> [(''attributes'', a)])"

text \<open>The credentials of a client; tenants that are no list are refused here instead of at their first use.\<close>

definition credentials_of_node :: "string \<Rightarrow> row \<Rightarrow> exn + credentials" where
  "credentials_of_node name r = rbind (str_at ''clientId'' r) (\<lambda>i. rbind (str_at ''password'' r) (\<lambda>p.
     rbind (case dget ''tenantIds'' r of None \<Rightarrow> Inr None | Some PyNone \<Rightarrow> Inr None | Some (PyList l) \<Rightarrow> Inr (Some l) | Some _ \<Rightarrow> Inl TypeError) (\<lambda>ts.
     Inr \<lparr>cr_name = name, cr_client_id = i, cr_password = utf8_encode p, cr_tenant_ids = ts\<rparr>)))"

section \<open>The client\<close>

record 'd admin_client =
  ac_http :: "'d http_client"
  ac_crypto :: crypto
  ac_url :: string
  ac_creds :: "service_creds option"

definition base_url :: "'d admin_client \<Rightarrow> string" where
  "base_url A = http_join_base_path [http_join_base_path [ac_url A, ''configuration-service''], ''admin/'']"

definition handle_auth :: "'d admin_client \<Rightarrow> request_builder \<Rightarrow> ('d, request_builder) io" where
  "handle_auth A b = (case ac_creds A of None \<Rightarrow> raise AttributeError | Some sc \<Rightarrow> auth_builder (ac_crypto A) sc b)"

definition cs_error :: "exn \<Rightarrow> ('d, http_reply option) io option" where
  "cs_error e = (case e of HttpClientExn code body \<Rightarrow> Some
      (if code = 404 then ret None
       else raise (if code = 401 then not_authorized body else if code = 403 then forbidden body
         else if code = 400 then bad_request body None else e))
    | _ \<Rightarrow> None)"

definition cs_send :: "'d admin_client \<Rightarrow> request_builder \<Rightarrow> ('d, http_reply option) io" where
  "cs_send A b = bnd (handle_auth A b) (\<lambda>b.
     catch (bnd (builder_send (ac_http A) None b) (\<lambda>r. ret (Some r))) cs_error)"

definition cs_builder :: "'d admin_client \<Rightarrow> http_method \<Rightarrow> string \<Rightarrow> request_builder" where
  "cs_builder A m uri = new_builder m (http_join_paths [base_url A, uri])"

definition cs_get :: "'d admin_client \<Rightarrow> string \<Rightarrow> ('d, http_reply option) io" where
  "cs_get A uri = cs_send A (builder_accept (Some ALL_MEDIA) (cs_builder A GET uri))"

definition cs_get_json :: "'d admin_client \<Rightarrow> string \<Rightarrow> headers option \<Rightarrow> ('d, row option) io" where
  "cs_get_json A uri hs = bnd (cs_send A (builder_headers hs (builder_accept (Some JSON) (cs_builder A GET uri)))) (\<lambda>r. case r of
     None \<Rightarrow> ret None
   | Some r \<Rightarrow> (case hp_body r of None \<Rightarrow> raise TypeError
       | Some t \<Rightarrow> bnd (lift_res (rbind (load_json t) dict_of)) (\<lambda>d. ret (Some d))))"

definition service_id :: "'d admin_client \<Rightarrow> ('d, string) io" where
  "service_id A = (case ac_creds A of None \<Rightarrow> raise AttributeError | Some sc \<Rightarrow> ret (sc_service_name sc))"

definition load_tenant_id :: "'d admin_client \<Rightarrow> string \<Rightarrow> ('d, int option) io" where
  "load_tenant_id A org = bnd (service_id A) (\<lambda>alias.
     bnd (cs_get_json A (''organizations/'' @ encode_for_url org @ ''?service='' @ alias) None) (\<lambda>r. case r of
       None \<Rightarrow> ret None | Some d \<Rightarrow> bnd (lift_res (int_at ''tenantId'' d)) (\<lambda>t. ret (Some t))))"

text \<open>Tenants of organizations are kept in a cache for ten minutes, a missing one is asked for again.\<close>

definition org_cache :: "exn + (string, int) ttl_cache" where
  "org_cache = new_ttl_cache 1000 (10 * 60)"

definition find_tenant_id :: "'d admin_client \<Rightarrow> string \<Rightarrow> (string, int, 'd, int option) cache_prog" where
  "find_tenant_id A org = cache_get (Some (load_tenant_id A)) org None"

definition get_tenant_id :: "'d admin_client \<Rightarrow> string \<Rightarrow> (string, int, 'd, int) cache_prog" where
  "get_tenant_id A org = bnd (find_tenant_id A org) (\<lambda>t. case t of
     None \<Rightarrow> raise (not_found (Some (''Unable to find organization id '' @ quoted org @ ''.''))) | Some t \<Rightarrow> ret t)"

definition invalidate_org_id :: "string \<Rightarrow> (string, int, 'd, unit) cache_prog" where
  "invalidate_org_id org = bnd (cache_invalidate org None) (\<lambda>_. ret ())"

definition user_scopes :: "string \<Rightarrow> string set option" where
  "user_scopes scopes = (if scopes = ''*'' then None else Some (set (map strip (split_str '','' scopes))))"

definition find_user_scopes :: "'d admin_client \<Rightarrow> auth_details \<Rightarrow> ('d, (string \<times> string set option) option) io" where
  "find_user_scopes A d = bnd (service_id A) (\<lambda>name.
     bnd (cs_get_json A (''services/'' @ name @ ''/user-scopes/'' @ ad_target_id d)
        (Some [(''X-1440-User-Request'', HStr (tokenize_details d))])) (\<lambda>r. case r of
       None \<Rightarrow> ret None
     | Some r \<Rightarrow> bnd (lift_res (rbind (dreq ''scopes'' r) (\<lambda>v. case v of PyList l \<Rightarrow> map_res as_str l | _ \<Rightarrow> Inl TypeError))) (\<lambda>l.
         ret (Some (ad_target_id d, user_scopes (join_str '','' l))))))"

definition find_credentials :: "'d admin_client \<Rightarrow> string \<Rightarrow> ('d, credentials option) io" where
  "find_credentials A name = bnd (service_id A) (\<lambda>service_name.
     bnd (cs_get_json A (''services/'' @ service_name @ ''/credentials/'' @ encode_for_url name) None) (\<lambda>r. case r of
       None \<Rightarrow> ret None | Some r \<Rightarrow> bnd (lift_res (credentials_of_node name r)) (\<lambda>c. ret (Some c))))"

definition find_secret :: "'d admin_client \<Rightarrow> string \<Rightarrow> ('d, service_secret option) io" where
  "find_secret A name = bnd (service_id A) (\<lambda>service_name.
     bnd (cs_get_json A (''services/'' @ service_name @ ''/secrets/'' @ encode_for_url name) None) (\<lambda>r. case r of
       None \<Rightarrow> ret None | Some r \<Rightarrow> bnd (lift_res (secret_of_node r)) (\<lambda>c. ret (Some c))))"

section \<open>The instance\<close>

text \<open>
  \<open>Instance.verify_fcm_device_token\<close>: the message of the trial notification, kept for a minute; an empty text stands for none.
\<close>

definition fcm_cache :: "exn + (string option, string) ttl_cache" where
  "fcm_cache = new_ttl_cache 1000 60"

definition load_fcm_device_token :: "(string option \<Rightarrow> ('d, string option) io) \<Rightarrow> string option \<Rightarrow> ('d, string option) io" where
  "load_fcm_device_token test token = bnd (test token) (\<lambda>m. ret (Some (case m of None \<Rightarrow> [] | Some s \<Rightarrow> s)))"

definition verify_fcm_device_token ::
    "(string option \<Rightarrow> ('d, string option) io) \<Rightarrow> string option \<Rightarrow> (string option, string, 'd, string option) cache_prog" where
  "verify_fcm_device_token test token = bnd (cache_get (Some (load_fcm_device_token test)) token None) (\<lambda>message.
     ret (case message of None \<Rightarrow> None | Some m \<Rightarrow> if m = [] then None else Some m))"

end
