(* ===== verification/Aura.thy ===== *)
theory Aura
  imports Cs_Client
begin

text \<open>
  What the service knows of a Salesforce page: the settings of the Aura framework (\<open>services/sfdc/types/aura_context.py\<close>),
  how they are found in links and cookies (\<open>utils/salesforce_utils.py\<close>), the actions loaded first
  (\<open>types/preload_actions.py\<close>), and the channels of an agent (\<open>live_agent/scrt_info.py\<close>). Values that come from JSON and
  are only passed on are Python values.
\<close>

section \<open>Salesforce addresses and links\<close>

definition sub_domain_step :: "string \<Rightarrow> string \<Rightarrow> string" where
  "sub_domain_step previous e = (if e = ''develop'' then previous @ ''.'' @ e else previous)"

definition extract_sf_sub_domain :: "string \<Rightarrow> string" where
  "extract_sf_sub_domain host = (case split_str ''.'' host of [] \<Rightarrow> [] | h # t \<Rightarrow> foldl sub_domain_step h t)"

definition word_char :: "char \<Rightarrow> bool" where
  "word_char c \<longleftrightarrow> is_alnum c \<or> c = CHR ''_'' \<or> c = CHR ''-''"

text \<open>\<open>[A-Za-z0-9_-]+={0,2}\<close>, read from its end: what is left before it.\<close>

definition token_part_rev :: "string \<Rightarrow> string option" where
  "token_part_rev r = (let r' = dropWhile (\<lambda>c. c = CHR ''='') r; w = takeWhile word_char r' in
     if length r - length r' \<le> 2 \<and> w \<noteq> [] then Some (drop (length w) r') else None)"

definition ends_with_token :: "string \<Rightarrow> bool" where
  "ends_with_token s = (case token_part_rev (rev s) of
     Some (a # b # r) \<Rightarrow> a = CHR ''.'' \<and> b = CHR ''.'' \<and> token_part_rev r \<noteq> None
   | _ \<Rightarrow> False)"

text \<open>\<open>$\<close> matches at the end, and before a line feed at the end.\<close>

definition is_aura_token :: "string \<Rightarrow> bool" where
  "is_aura_token s \<longleftrightarrow> ends_with_token s \<or> (s \<noteq> [] \<and> last s = CHR 0x0A \<and> ends_with_token (butlast s))"

definition extract_aura_token :: "'d http_client \<Rightarrow> ('d, string option) io" where
  "extract_aura_token C = bnd (find_first_cookie_match C (\<lambda>c. is_aura_token (ck_value_of c))) (\<lambda>c.
     ret (map_option ck_value_of c))"

text \<open>\<open>re.search(pre + '(.*?)' + post)\<close>: the shortest text between, on one line.\<close>

fun up_to :: "string \<Rightarrow> string \<Rightarrow> string \<Rightarrow> string option" where
  "up_to post acc s = (if prefix post s then Some (rev acc) else
     (case s of [] \<Rightarrow> None | c # cs \<Rightarrow> if c = CHR 0x0A then None else up_to post (c # acc) cs))"

fun between :: "string \<Rightarrow> string \<Rightarrow> string \<Rightarrow> string option" where
  "between pre post [] = (if pre = [] \<and> post = [] then Some [] else None)"
| "between pre post (c # cs) = (case (if prefix pre (c # cs) then up_to post [] (drop (length pre) (c # cs)) else None) of
     Some m \<Rightarrow> Some m | None \<Rightarrow> between pre post cs)"

definition extract_aura_framework_id :: "string \<Rightarrow> string option" where
  "extract_aura_framework_id link = between ''/auraFW/javascript/'' ''/aura_'' link"

definition extract_aura_context_json :: "string \<Rightarrow> string option" where
  "extract_aura_context_json link = map_option decode_from_url (between ''</l/'' ''/app.css'' link)"

section \<open>Aura settings\<close>

record aura_context =
  xc_mode :: pyval
  xc_app :: pyval
  xc_loaded :: pyval
  xc_path_prefix :: pyval
  xc_style_context :: pyval

definition aura_context_to_record :: "aura_context \<Rightarrow> row" where
  "aura_context_to_record c = [(''mode'', xc_mode c), (''app'', xc_app c), (''pathPrefix'', xc_path_prefix c),
     (''loaded'', xc_loaded c), (''styleContext'', xc_style_context c)]"

definition aura_context_fill :: "aura_context \<Rightarrow> row \<Rightarrow> row" where
  "aura_context_fill c r = dset ''app'' (xc_app c) (dset ''loaded'' (xc_loaded c) (dset ''mode'' (xc_mode c) r))"

definition value_or_none :: "pyval option \<Rightarrow> pyval" where
  "value_or_none v = (case v of None \<Rightarrow> PyNone | Some v \<Rightarrow> v)"

definition aura_context_of_dict :: "row \<Rightarrow> exn + aura_context" where
  "aura_context_of_dict r = rbind (dreq ''mode'' r) (\<lambda>m. rbind (dreq ''app'' r) (\<lambda>a. rbind (dreq ''loaded'' r) (\<lambda>l.
     rbind (dreq ''pathPrefix'' r) (\<lambda>p. Inr \<lparr>xc_mode = m, xc_app = a, xc_loaded = l, xc_path_prefix = p,
       xc_style_context = value_or_none (dget ''styleContext'' r)\<rparr>))))"

definition aura_context_from_json :: "string option \<Rightarrow> exn + aura_context option" where
  "aura_context_from_json s = (case s of None \<Rightarrow> Inr None
     | Some t \<Rightarrow> rbind (rbind (load_json t) dict_of) (\<lambda>d. rbind (aura_context_of_dict d) (\<lambda>c. Inr (Some c))))"

lemma aura_context_roundtrip: "aura_context_of_dict (aura_context_to_record c) = Inr c"
  by (simp add: aura_context_of_dict_def aura_context_to_record_def dreq_def value_or_none_def)

record aura_settings =
  xs_fwuid :: "string option"
  xs_context :: "aura_context option"
  xs_app_context_id :: "pyval option"
  xs_uad :: "pyval option"
  xs_density :: "pyval option"
  xs_token :: "string option"

definition new_aura_settings :: aura_settings where
  "new_aura_settings = \<lparr>xs_fwuid = None, xs_context = None, xs_app_context_id = None, xs_uad = None, xs_density = None, xs_token = None\<rparr>"

text \<open>\<open>uad != 0\<close>: of the values only the zeros and \<open>False\<close> are equal to 0.\<close>

definition differs_from_zero :: "pyval \<Rightarrow> bool" where
  "differs_from_zero v = (case v of PyInt i \<Rightarrow> i \<noteq> 0 | PyBool b \<Rightarrow> b | PyFloat s \<Rightarrow> truthy v | _ \<Rightarrow> True)"

definition aura_settings_to_json :: "aura_settings \<Rightarrow> exn + string" where
  "aura_settings_to_json s = (let r = [(''fwuid'', val_str (xs_fwuid s))];
     r = (case xs_context s of None \<Rightarrow> r | Some c \<Rightarrow> aura_context_fill c r);
     r = (case xs_app_context_id s of None \<Rightarrow> r | Some i \<Rightarrow>
        dset ''uad'' (PyBool (differs_from_zero (value_or_none (xs_uad s))))
         (dset ''globals'' (PyDict [(''appContextId'', i), (''density'', value_or_none (xs_density s))]) (dset ''dn'' (PyList []) r)))
   in json_dumps (PyDict r))"

definition header_text :: "header_value \<Rightarrow> exn + string" where
  "header_text v = (case v of HStr s \<Rightarrow> Inr s | _ \<Rightarrow> Inl TypeError)"

fun parse_link_list :: "string list \<Rightarrow> aura_settings \<Rightarrow> exn + aura_settings" where
  "parse_link_list [] s = Inr s"
| "parse_link_list (link # links) s =
     (let s = (if xs_fwuid s = None then s\<lparr>xs_fwuid := extract_aura_framework_id link\<rparr> else s) in
      rbind (if xs_context s = None then rbind (aura_context_from_json (extract_aura_context_json link)) (\<lambda>c. Inr (s\<lparr>xs_context := c\<rparr>)) else Inr s)
       (\<lambda>s. if xs_fwuid s \<noteq> None \<and> xs_context s \<noteq> None then Inr s else parse_link_list links s))"

definition parse_links :: "http_reply \<Rightarrow> aura_settings \<Rightarrow> exn + aura_settings" where
  "parse_links response s = (case reply_header_as_list response ''link'' of
     None \<Rightarrow> Inr s
   | Some vs \<Rightarrow> rbind (map_res header_text vs) (\<lambda>links. parse_link_list links s))"

text \<open>What was found stays: links never change a value that is set.\<close>

lemma parse_link_list_keeps:
  "parse_link_list links s = Inr t \<Longrightarrow> (xs_fwuid s \<noteq> None \<longrightarrow> xs_fwuid t = xs_fwuid s) \<and> (xs_context s \<noteq> None \<longrightarrow> xs_context t = xs_context s) \<and>
   xs_app_context_id t = xs_app_context_id s \<and> xs_uad t = xs_uad s \<and> xs_token t = xs_token s"
proof (induction links arbitrary: s)
  case (Cons link links)
  define s' where "s' = (if xs_fwuid s = None then s\<lparr>xs_fwuid := extract_aura_framework_id link\<rparr> else s)"
  have s': "xs_fwuid s \<noteq> None \<longrightarrow> xs_fwuid s' = xs_fwuid s" "xs_context s' = xs_context s" "xs_app_context_id s' = xs_app_context_id s"
    "xs_uad s' = xs_uad s" "xs_token s' = xs_token s" by (simp_all add: s'_def)
  obtain s2 where s2: "(if xs_context s' = None then rbind (aura_context_from_json (extract_aura_context_json link))
      (\<lambda>c. Inr (s'\<lparr>xs_context := c\<rparr>)) else Inr s') = Inr s2"
    "(if xs_fwuid s2 \<noteq> None \<and> xs_context s2 \<noteq> None then Inr s2 else parse_link_list links s2) = Inr t"
    using Cons.prems unfolding parse_link_list.simps Let_def s'_def [symmetric] rbind_eq_Inr by blast
  have k: "xs_fwuid s2 = xs_fwuid s'" "xs_context s' \<noteq> None \<longrightarrow> xs_context s2 = xs_context s'" "xs_app_context_id s2 = xs_app_context_id s'"
    "xs_uad s2 = xs_uad s'" "xs_token s2 = xs_token s'" using s2(1) by (auto simp: rbind_eq_Inr split: if_splits)
  show ?case
  proof (cases "xs_fwuid s2 \<noteq> None \<and> xs_context s2 \<noteq> None")
    case True
    then show ?thesis using s2(2) k s' by simp
  next
    case False
    then have "parse_link_list links s2 = Inr t" using s2(2) by (auto split: if_splits)
    from Cons.IH [OF this] show ?thesis using k s' by auto
  qed
qed simp

section \<open>The actions loaded first\<close>

record values_provider =
  vp_type :: string
  vp_values :: row

definition provider_of_record :: "row \<Rightarrow> exn + values_provider" where
  "provider_of_record r = rbind (str_at ''type'' r) (\<lambda>t. rbind (rbind (dreq ''values'' r) dict_of) (\<lambda>vs.
     Inr \<lparr>vp_type = t, vp_values = vs\<rparr>))"

definition provider_to_record :: "values_provider \<Rightarrow> row" where
  "provider_to_record p = [(''type'', PyStr (vp_type p)), (''values'', PyDict (vp_values p))]"

definition provider_value :: "values_provider \<Rightarrow> string \<Rightarrow> exn + pyval" where
  "provider_value p key = rbind (rbind (dreq key (vp_values p)) dict_of) (dreq ''value'')"

record preload_context =
  pc_mode :: pyval
  pc_app :: pyval
  pc_path_prefix :: pyval
  pc_fwuid :: pyval
  pc_mlr :: pyval
  pc_uad :: pyval
  pc_descriptor_uids :: pyval
  pc_loaded :: pyval
  pc_providers :: "(string, values_provider) dict"

definition preload_context_of_record :: "row \<Rightarrow> exn + preload_context" where
  "preload_context_of_record r = (let at = (\<lambda>k. value_or_none (dget k r)) in
     rbind (case dget ''globalValueProviders'' r of None \<Rightarrow> Inr []
       | Some (PyList l) \<Rightarrow> rbind (map_res (\<lambda>v. rbind (dict_of v) provider_of_record) l) (\<lambda>ps.
           Inr (dupdate [] (map (\<lambda>p. (vp_type p, p)) ps)))
       | Some _ \<Rightarrow> Inl TypeError) (\<lambda>ps.
     Inr \<lparr>pc_mode = at ''mode'', pc_app = at ''app'', pc_path_prefix = at ''pathPrefix'', pc_fwuid = at ''fwuid'', pc_mlr = at ''mlr'',
       pc_uad = at ''uad'', pc_descriptor_uids = at ''descriptorUids'', pc_loaded = at ''loaded'', pc_providers = ps\<rparr>))"

definition preload_context_to_record :: "preload_context \<Rightarrow> row" where
  "preload_context_to_record c = [(''mode'', pc_mode c), (''app'', pc_app c), (''pathPrefix'', pc_path_prefix c), (''fwuid'', pc_fwuid c),
     (''mlr'', pc_mlr c), (''uad'', pc_uad c), (''descriptorUids'', pc_descriptor_uids c), (''loaded'', pc_loaded c),
     (''globalValueProviders'', PyList (map (\<lambda>p. PyDict (provider_to_record p)) (dvalues (pc_providers c))))]"

record preload_actions =
  pa_uad :: "pyval option"
  pa_app_context_id :: "pyval option"
  pa_density :: "pyval option"

definition opt_value :: "pyval \<Rightarrow> pyval option" where
  "opt_value v = (if v = PyNone then None else Some v)"

definition preload_actions_of_record :: "row \<Rightarrow> exn + preload_actions" where
  "preload_actions_of_record r = rbind (dreq ''actions'' r) (\<lambda>_. rbind (rbind (rbind (dreq ''context'' r) dict_of) preload_context_of_record) (\<lambda>c.
     (case dget ''$Global'' (pc_providers c) of
        None \<Rightarrow> Inr \<lparr>pa_uad = opt_value (pc_uad c), pa_app_context_id = None, pa_density = None\<rparr>
      | Some p \<Rightarrow> rbind (provider_value p ''appContextId'') (\<lambda>i. rbind (provider_value p ''density'') (\<lambda>d.
          Inr \<lparr>pa_uad = opt_value (pc_uad c), pa_app_context_id = opt_value i, pa_density = opt_value d\<rparr>)))))"

definition apply_preload :: "preload_actions \<Rightarrow> aura_settings \<Rightarrow> aura_settings" where
  "apply_preload a s = (let s = (if xs_uad s = None then s\<lparr>xs_uad := pa_uad a\<rparr> else s) in
     if xs_app_context_id s = None then s\<lparr>xs_app_context_id := pa_app_context_id a, xs_density := pa_density a\<rparr> else s)"

definition current_app_query :: string where
  "current_app_query = ''%7B%22actions%22%3A%5B%7B%22descriptor%22%3A%22serviceComponent%3A%2F%2Fui.global.components.one.one.controller.OneController%2FACTION%24getCurrentApp%22%2C%22params%22%3A%7B%7D%2C%22id%22%3A%220%3Bp%22%7D%5D%7D''"

definition token_text :: "aura_settings \<Rightarrow> exn + string" where
  "token_text s = (case xs_token s of None \<Rightarrow> Inl TypeError | Some t \<Rightarrow> Inr t)"

definition body_of_reply :: "http_reply \<Rightarrow> exn + row" where
  "body_of_reply r = (case hp_body r of None \<Rightarrow> Inl TypeError | Some t \<Rightarrow> rbind (load_json t) dict_of)"

definition load_preload_actions :: "'d http_client \<Rightarrow> string \<Rightarrow> aura_settings \<Rightarrow> ('d, aura_settings) io" where
  "load_preload_actions C domain s =
     bnd (lift_res (aura_settings_to_json s)) (\<lambda>ctx.
     bnd (lift_res (rbind (form_https_uri domain ''aura'' (Some (RawQuery ''preloadActions''))) uri_to_url)) (\<lambda>url.
     bnd (lift_res (token_text s)) (\<lambda>token.
     bnd (client_post C url X_WWW_FORM_URLENCODED JSON (PyStr (encode_form_data
        [(''aura.token'', Plain token), (''aura.context'', Plain ctx), (''message'', Raw current_app_query)]))) (\<lambda>resp.
     bnd (lift_res (rbind (body_of_reply resp) preload_actions_of_record)) (\<lambda>a. ret (apply_preload a s))))))"

section \<open>Channels of an agent\<close>

record service_channel_info =
  ci_channel_id :: pyval
  ci_channel_api_name :: pyval
  ci_does_minimize_on_accept :: pyval
  ci_has_auto_accept_enabled :: pyval
  ci_related_entity :: pyval

definition channel_info_to_record :: "service_channel_info \<Rightarrow> row" where
  "channel_info_to_record c = [(''channelId'', ci_channel_id c), (''channelApiName'', ci_channel_api_name c),
     (''doesMinimizeOnAccept'', ci_does_minimize_on_accept c), (''hasAutoAcceptEnabled'', ci_has_auto_accept_enabled c),
     (''relatedEntity'', ci_related_entity c)]"

definition channel_info_from_record :: "row \<Rightarrow> exn + service_channel_info" where
  "channel_info_from_record r = rbind (dreq ''channelId'' r) (\<lambda>a. rbind (dreq ''channelApiName'' r) (\<lambda>b.
     rbind (dreq ''doesMinimizeOnAccept'' r) (\<lambda>c. rbind (dreq ''hasAutoAcceptEnabled'' r) (\<lambda>d. rbind (dreq ''relatedEntity'' r) (\<lambda>e.
     Inr \<lparr>ci_channel_id = a, ci_channel_api_name = b, ci_does_minimize_on_accept = c, ci_has_auto_accept_enabled = d, ci_related_entity = e\<rparr>)))))"

lemma channel_info_roundtrip: "channel_info_from_record (channel_info_to_record c) = Inr c"
  by (simp add: channel_info_from_record_def channel_info_to_record_def dreq_def)

text \<open>The fields of \<open>ScrtInfo\<close> that are read as they stand, in the order of its constructor, are kept by their names.\<close>

definition scrt_names :: "string list" where
  "scrt_names = [''hasLiveAgent'', ''isCIAllowedToUser'', ''hasRecordAction'', ''hasAutoLoginPrompt'', ''isSCVAllowedToUser'',
     ''hasScrt2RoutingConnectEnabled'', ''userId'', ''version'', ''sfdcSessionKey'', ''organizationId'', ''endPoint'',
     ''hasLwcTransferComponent'', ''contentEndPoint'', ''domain'', ''hasLiveMessage'', ''hasSkillsBasedRouting'',
     ''hasACWAllowedPerm'', ''hasScrt2ConversationPerm'', ''isCallCenterUser'']"

record scrt_info =
  si_acw_prefixes :: pyval
  si_service_channels :: "service_channel_info list"
  si_values :: "pyval list"

definition scrt_value :: "scrt_info \<Rightarrow> string \<Rightarrow> pyval" where
  "scrt_value i name = value_or_none (dget name (zip scrt_names (si_values i)))"

definition scrt_to_record :: "scrt_info \<Rightarrow> row" where
  "scrt_to_record i = (''acwSupportedEntitiesKeyPrefix'', si_acw_prefixes i) # take 2 (zip scrt_names (si_values i)) @
     [(''serviceChannelInfo'', PyList (map (\<lambda>c. PyDict (channel_info_to_record c)) (si_service_channels i)))] @
     drop 2 (zip scrt_names (si_values i))"

definition scrt_from_record :: "row \<Rightarrow> exn + scrt_info" where
  "scrt_from_record r =
     rbind (case dget ''serviceChannelInfo'' r of None \<Rightarrow> Inr []
       | Some (PyList l) \<Rightarrow> map_res (\<lambda>v. rbind (dict_of v) channel_info_from_record) l
       | Some _ \<Rightarrow> Inl TypeError) (\<lambda>chs.
     rbind (map_res (\<lambda>n. dreq n r) scrt_names) (\<lambda>vs.
     Inr \<lparr>si_acw_prefixes = (case dget ''acwSupportedEntitiesKeyPrefix'' r of None \<Rightarrow> PyList [] | Some v \<Rightarrow> v),
       si_service_channels = chs, si_values = vs\<rparr>))"

lemma map_res_dict: "map_res (\<lambda>v. rbind (dict_of v) channel_info_from_record) (map (\<lambda>c. PyDict (channel_info_to_record c)) cs) = Inr cs"
  by (induction cs) (simp_all add: dict_of_def channel_info_roundtrip)


end
