(* ===== verification/Live_Agent.thy ===== *)
theory Live_Agent
  imports Aura Push_Repo
begin

text \<open>
  The Live Agent of Salesforce: its statuses, its session and the settings of its pollers
  (\<open>services/sfdc/live_agent/__init__.py\<close>), what a poll brings (\<open>message_data.py\<close>), handing the messages on
  (\<open>message_dispatcher.py\<close>), and how it is set up (\<open>live_agent.py\<close>, \<open>omnichannel.py\<close>). Fields of JSON whose type
  the service relies on are refused where they are read when they have another.
\<close>

section \<open>Statuses\<close>

datatype status_option = ONLINE | BUSY | OFFLINE

fun status_option_value :: "status_option \<Rightarrow> string" where
  "status_option_value ONLINE = ''online''"
| "status_option_value BUSY = ''busy''"
| "status_option_value OFFLINE = ''offline''"

fun status_option_name :: "status_option \<Rightarrow> string" where
  "status_option_name ONLINE = ''ONLINE''"
| "status_option_name BUSY = ''BUSY''"
| "status_option_name OFFLINE = ''OFFLINE''"

record presence_status =
  pz_id :: pyval
  pz_label :: pyval
  pz_option :: status_option

definition presence_to_record :: "presence_status \<Rightarrow> row" where
  "presence_to_record p = [(''id'', pz_id p), (''label'', pz_label p), (''statusOption'', PyStr (status_option_value (pz_option p)))]"

record live_agent_status =
  ls_id :: pyval
  ls_label :: pyval
  ls_css_class :: "pyval option"
  ls_has_channels :: pyval
  ls_is_offline :: pyval

definition status_from_record :: "row \<Rightarrow> exn + live_agent_status" where
  "status_from_record r = rbind (dreq ''id'' r) (\<lambda>i. rbind (dreq ''label'' r) (\<lambda>l. rbind (dreq ''hasChannels'' r) (\<lambda>h.
     rbind (dreq ''isOffline'' r) (\<lambda>off. Inr \<lparr>ls_id = i, ls_label = l, ls_css_class = none_if_null (dget ''cssClass'' r),
       ls_has_channels = h, ls_is_offline = off\<rparr>))))"

definition status_to_record :: "live_agent_status \<Rightarrow> row" where
  "status_to_record s = [(''id'', ls_id s), (''label'', ls_label s), (''hasChannels'', ls_has_channels s), (''isOffline'', ls_is_offline s)] @
     (case ls_css_class s of None \<Rightarrow> [] | Some c \<Rightarrow> [(''cssClass'', c)])"

lemma status_roundtrip: "ls_css_class s \<noteq> Some PyNone \<Longrightarrow> status_from_record (status_to_record s) = Inr s"
  by (auto simp: status_from_record_def status_to_record_def dreq_def none_if_null_def split: option.splits)

definition to_presence_status :: "live_agent_status \<Rightarrow> presence_status" where
  "to_presence_status s = \<lparr>pz_id = ls_id s, pz_label = ls_label s,
     pz_option = (if truthy (ls_is_offline s) then OFFLINE else if truthy (ls_has_channels s) then ONLINE else BUSY)\<rparr>"

section \<open>The session of an agent and the settings of its pollers\<close>

record live_agent_session =
  ln_key :: string
  ln_id :: pyval
  ln_client_poll_timeout :: int
  ln_affinity_token :: string

definition agent_session_to_record :: "live_agent_session \<Rightarrow> row" where
  "agent_session_to_record s = [(''key'', PyStr (ln_key s)), (''id'', ln_id s), (''clientPollTimeout'', PyInt (ln_client_poll_timeout s)),
     (''affinityToken'', PyStr (ln_affinity_token s))]"

definition agent_session_from_record :: "row \<Rightarrow> exn + live_agent_session" where
  "agent_session_from_record r = rbind (str_at ''key'' r) (\<lambda>k. rbind (dreq ''id'' r) (\<lambda>i. rbind (int_at ''clientPollTimeout'' r) (\<lambda>t.
     rbind (str_at ''affinityToken'' r) (\<lambda>a. Inr \<lparr>ln_key = k, ln_id = i, ln_client_poll_timeout = t, ln_affinity_token = a\<rparr>))))"

lemma agent_session_roundtrip: "agent_session_from_record (agent_session_to_record s) = Inr s"
  by (simp add: agent_session_from_record_def agent_session_to_record_def dreq_def str_at_def int_at_def)

definition api_version_string :: string where
  "api_version_string = int_str 58"

definition agent_session_headers :: "live_agent_session \<Rightarrow> request_builder \<Rightarrow> request_builder" where
  "agent_session_headers s rb = builder_header ''X-Liveagent-Session-Key'' (HStr (ln_key s))
     (builder_header ''X-Liveagent-Api-Version'' (HStr api_version_string)
     (builder_header ''X-Liveagent-Affinity'' (HStr (ln_affinity_token s)) rb))"

record web_settings =
  wz_sequence :: int

definition new_web_settings :: web_settings where
  "new_web_settings = \<lparr>wz_sequence = 1\<rparr>"

text \<open>Every request takes the next number of the sequence.\<close>

definition web_settings_headers :: "web_settings \<Rightarrow> request_builder \<Rightarrow> request_builder \<times> web_settings" where
  "web_settings_headers s rb = (builder_header ''X-Liveagent-Sequence'' (HInt (wz_sequence s)) rb, s\<lparr>wz_sequence := wz_sequence s + 1\<rparr>)"

section \<open>Messages\<close>

record message =
  ms_type :: string
  ms_text :: pyval
  ms_record :: "row option"

definition new_message :: "string \<Rightarrow> pyval \<Rightarrow> exn + message" where
  "new_message ty m = (case m of
     PyDict d \<Rightarrow> rbind (json_dumps m) (\<lambda>t. Inr \<lparr>ms_type = ty, ms_text = PyStr t, ms_record = Some d\<rparr>)
   | _ \<Rightarrow> Inr \<lparr>ms_type = ty, ms_text = m, ms_record = None\<rparr>)"

definition message_from_record :: "row \<Rightarrow> exn + message" where
  "message_from_record r = rbind (str_at ''type'' r) (\<lambda>t. rbind (dreq ''message'' r) (new_message t))"

definition message_to_record :: "message \<Rightarrow> row" where
  "message_to_record m = [(''type'', PyStr (ms_type m)), (''message'', case ms_record m of Some d \<Rightarrow> PyDict d | None \<Rightarrow> ms_text m)]"

lemma message_roundtrip: "new_message ty v = Inr m \<Longrightarrow> message_from_record (message_to_record m) = Inr m"
  by (auto simp: new_message_def message_from_record_def message_to_record_def dreq_def str_at_def rbind_eq_Inr split: pyval.splits)

record message_data =
  md_messages :: "message list"
  md_sequence :: int
  md_offset :: "pyval option"

definition shutdown_type :: string where
  "shutdown_type = ''LiveAgentKitShutdown''"

definition is_shutdown_message :: "message_data \<Rightarrow> bool" where
  "is_shutdown_message d = (case md_messages d of [m] \<Rightarrow> ms_type m = shutdown_type | _ \<Rightarrow> False)"

definition matches_ack :: "int \<Rightarrow> message_data \<Rightarrow> bool" where
  "matches_ack ack d \<longleftrightarrow> ack + int (length (md_messages d)) = md_sequence d"

definition message_data_from_record :: "row \<Rightarrow> exn + message_data" where
  "message_data_from_record r = rbind (rbind (dreq ''messages'' r) (\<lambda>v. case v of
       PyList l \<Rightarrow> map_res (\<lambda>v. rbind (dict_of v) message_from_record) l | _ \<Rightarrow> Inl TypeError)) (\<lambda>ms.
     rbind (int_at ''sequence'' r) (\<lambda>s. Inr \<lparr>md_messages = ms, md_sequence = s, md_offset = none_if_null (dget ''offset'' r)\<rparr>))"

definition message_data_to_record :: "message_data \<Rightarrow> row" where
  "message_data_to_record d = [(''messages'', PyList (map (\<lambda>m. PyDict (message_to_record m)) (md_messages d))),
     (''sequence'', PyInt (md_sequence d))] @ (case md_offset d of None \<Rightarrow> [] | Some v \<Rightarrow> [(''offset'', v)])"

definition shutdown_content :: row where
  "shutdown_content = [(''content'', PyStr ''LiveAgentKit timeout'')]"

definition shutdown_data :: "int \<Rightarrow> message_data" where
  "shutdown_data sequence = \<lparr>md_messages = [\<lparr>ms_type = shutdown_type, ms_text = PyStr ''{\"content\": \"LiveAgentKit timeout\"}'',
     ms_record = Some shutdown_content\<rparr>], md_sequence = sequence, md_offset = None\<rparr>"

lemma shutdown_data_made: "new_message shutdown_type (PyDict shutdown_content) = Inr (hd (md_messages (shutdown_data n)))"
    "is_shutdown_message (shutdown_data n)"
  by (simp add: shutdown_data_def, code_simp) (simp add: is_shutdown_message_def shutdown_data_def)

record poller_settings =
  po_ack :: int
  po_pc :: int
  po_message_list :: "message_data list"

definition new_poller_settings :: poller_settings where
  "new_poller_settings = \<lparr>po_ack = -1, po_pc = 0, po_message_list = []\<rparr>"

fun remove_first :: "('a \<Rightarrow> bool) \<Rightarrow> 'a list \<Rightarrow> 'a list" where
  "remove_first P [] = []"
| "remove_first P (x # xs) = (if P x then xs else x # remove_first P xs)"

lemma remove_first_length: "find_first_match P xs = Some x \<Longrightarrow> length (remove_first P xs) < length xs"
  by (induction xs) (auto split: if_splits)

text \<open>The waiting data that follow one another: the results, the last acknowledged number, and what still waits.\<close>

function drain_matching :: "int \<Rightarrow> message_data list \<Rightarrow> message_data list \<times> int \<times> message_data list" where
  "drain_matching ack waiting = (case find_first_match (matches_ack ack) waiting of
     None \<Rightarrow> ([], ack, waiting)
   | Some d \<Rightarrow> (case drain_matching (md_sequence d) (remove_first (matches_ack ack) waiting) of (ds, ack', w) \<Rightarrow> (d # ds, ack', w)))"
  by pat_completeness auto
termination
  by (relation "measure (\<lambda>(a, w). length w)") (auto simp: remove_first_length)

declare drain_matching.simps [simp del]

definition add_message_data :: "poller_settings \<Rightarrow> message_data \<Rightarrow> message_data list \<times> poller_settings" where
  "add_message_data s d = (if matches_ack (po_ack s) d
     then (case drain_matching (md_sequence d) (po_message_list s) of (ds, ack, w) \<Rightarrow> (d # ds, s\<lparr>po_ack := ack, po_message_list := w\<rparr>))
     else ([d], s))"

text \<open>Data that come out of order are handed on as they come, and the acknowledged number stays: the list never fills.\<close>

lemma add_message_data_list: "po_message_list s = [] \<Longrightarrow>
    add_message_data s d = ([d], if matches_ack (po_ack s) d then s\<lparr>po_ack := md_sequence d, po_message_list := []\<rparr> else s)"
  by (simp add: add_message_data_def drain_matching.simps)

text \<open>Pickling is a parameter: the bytes of the settings, and the settings of bytes.\<close>

record pickler =
  pk_web :: "web_settings \<Rightarrow> bytes"
  unpk_web :: "bytes \<Rightarrow> exn + web_settings"
  pk_poller :: "poller_settings \<Rightarrow> bytes"
  unpk_poller :: "bytes \<Rightarrow> exn + poller_settings"
  pk_push :: "int option \<Rightarrow> bytes"
  unpk_push :: "bytes \<Rightarrow> exn + int option"

definition pickle_ok :: "pickler \<Rightarrow> bool" where
  "pickle_ok pk \<longleftrightarrow> (\<forall>s. unpk_web pk (pk_web pk s) = Inr s) \<and> (\<forall>s. unpk_poller pk (pk_poller pk s) = Inr s) \<and>
     (\<forall>s. unpk_push pk (pk_push pk s) = Inr s)"

definition poller_serialize :: "pickler \<Rightarrow> poller_settings \<Rightarrow> bytes" where
  "poller_serialize pk s = pk_poller pk (s\<lparr>po_message_list := []\<rparr>)"

section \<open>Handing messages on\<close>

definition supported_message_types :: "string list" where
  "supported_message_types = [''Agent/LoginResult'', ''Presence/PresenceStatusChanged'', ''Presence/WorkAssigned'', ''Presence/WorkAccepted'',
     ''Conversational/ConversationMessage'', ''LmAgent/ChatRequest'', ''LmAgent/ChatEstablished'', ''AsyncResult'',
     ''Presence/AfterConversationWorkStarted'', ''LiveAgentKitShutdown'']"

definition context_key :: "session_context \<Rightarrow> session_key" where
  "context_key c = key_of_args (sc_tenant_id c) (sc_session_id c)"

type_synonym 'd submitter = "session_context \<Rightarrow> string \<Rightarrow> string \<Rightarrow> pyval \<Rightarrow> ('d, unit) io"

definition examine_message :: "'d submitter \<Rightarrow> session_context \<Rightarrow> message \<Rightarrow> ('d, unit) io" where
  "examine_message submit c m = (if ms_type m \<in> set supported_message_types
     then bnd (lift_res (context_type_to_platform_channel (sc_context_type c))) (\<lambda>ch. submit c ch (ms_type m) (ms_text m))
     else ret ())"

definition push_submitter :: "'d env \<Rightarrow> 'd lambda_env \<Rightarrow> 'd submitter" where
  "push_submitter E L c channel ty text = (case text of
     PyStr s \<Rightarrow> submit_push E L (context_key c) (sc_user_id c) channel ty s | _ \<Rightarrow> raise AttributeError)"

text \<open>Messages are put into a set, so a text that is a list has no hash.\<close>

definition hashable :: "pyval \<Rightarrow> bool" where
  "hashable v = (case v of PyList l \<Rightarrow> False | PyDict d \<Rightarrow> False | _ \<Rightarrow> True)"

fun dispatch_messages :: "'d submitter \<Rightarrow> session_context \<Rightarrow> message list \<Rightarrow> message list \<Rightarrow> ('d, unit) io" where
  "dispatch_messages submit c seen [] = ret ()"
| "dispatch_messages submit c seen (m # ms) =
     (if \<not> hashable (ms_text m) then raise TypeError
      else if m \<in> set seen then dispatch_messages submit c seen ms
      else bnd (examine_message submit c m) (\<lambda>_. dispatch_messages submit c (m # seen) ms))"

definition dispatch_message_data :: "'d submitter \<Rightarrow> session_context \<Rightarrow> message_data \<Rightarrow> ('d, unit) io" where
  "dispatch_message_data submit c d = dispatch_messages submit c [] (md_messages d)"

text \<open>So every message is handed on once, in the order of its first occurrence.\<close>

fun firsts :: "'a list \<Rightarrow> 'a list \<Rightarrow> 'a list" where
  "firsts seen [] = []"
| "firsts seen (x # xs) = (if x \<in> set seen then firsts seen xs else x # firsts (x # seen) xs)"

lemma firsts_props: "distinct (firsts seen xs)" "set (firsts seen xs) = set xs - set seen"
proof (induction xs arbitrary: seen)
  case (Cons x xs)
  { case 1 show ?case using Cons.IH(1) [of seen] Cons.IH(1) [of "x # seen"] Cons.IH(2) [of "x # seen"] by auto }
  { case 2 show ?case using Cons.IH(2) [of seen] Cons.IH(2) [of "x # seen"] by auto }
qed simp_all

lemma dispatch_firsts: "list_all (\<lambda>m. hashable (ms_text m)) ms \<Longrightarrow>
    dispatch_messages submit c seen ms = for_each (examine_message submit c) (firsts seen ms)"
  by (induction ms arbitrary: seen) auto

end
