(* ===== verification/Sfdc_Connection.thy ===== *)
theory Sfdc_Connection
  imports Live_Agent
begin

text \<open>
  Connecting to Salesforce: setting up the Live Agent (\<open>services/sfdc/live_agent/live_agent.py\<close>, \<open>omnichannel.py\<close>) and
  the connection that follows the redirections of the login and collects what identifies the session
  (\<open>services/sfdc/sfdc_connection.py\<close>, \<open>services/sfdc/__init__.py\<close>). The texts of exceptions and pickling are parameters.
\<close>

section \<open>The Live Agent\<close>

record live_agent =
  la_status_options :: "live_agent_status list"
  la_scrt_info :: "scrt_info option"
  la_chat_endpoint :: "string option"
  la_session :: live_agent_session

definition scrt_end_point :: "scrt_info option \<Rightarrow> exn + string" where
  "scrt_end_point i = (case i of None \<Rightarrow> Inl AttributeError
     | Some i \<Rightarrow> (case scrt_value i ''endPoint'' of PyStr s \<Rightarrow> Inr s | _ \<Rightarrow> Inl TypeError))"

definition agent_endpoint :: "live_agent \<Rightarrow> exn + string" where
  "agent_endpoint a = (case la_chat_endpoint a of Some e \<Rightarrow> Inr e | None \<Rightarrow> scrt_end_point (la_scrt_info a))"

definition endpoint_url :: "string \<Rightarrow> string option \<Rightarrow> query_params option \<Rightarrow> exn + string" where
  "endpoint_url endpoint path q = rbind (parse_uri endpoint) (\<lambda>u. form_url_from_endpoint (\<lambda>_. u) endpoint path q)"

definition poll_request_builder :: "live_agent \<Rightarrow> poller_settings \<Rightarrow> exn + request_builder" where
  "poll_request_builder a s = rbind (agent_endpoint a) (\<lambda>e.
     rbind (endpoint_url e (Some ''rest/System/Messages'') (Some (QueryDict [(''ack'', int_str (po_ack s)), (''pc'', int_str (po_pc s))]))) (\<lambda>url.
     Inr (agent_session_headers (la_session a)
       ((new_builder GET url)\<lparr>rb_timeout_seconds := Some (ln_client_poll_timeout (la_session a) + 1)\<rparr>))))"

definition location_uri :: "http_reply \<Rightarrow> exn + uri" where
  "location_uri r = (case reply_location r of Some (HStr s) \<Rightarrow> parse_uri s | _ \<Rightarrow> Inl TypeError)"

definition load_chat_endpoint :: "'d http_client \<Rightarrow> scrt_info option \<Rightarrow> ('d, string option) io" where
  "load_chat_endpoint C i =
     bnd (lift_res (rbind (scrt_end_point i) (\<lambda>e. rbind (parse_uri (e @ ''/rest/cdm?version='' @ int_str 58 @ ''&redirect=true'')) uri_to_url))) (\<lambda>url.
     bnd (client_get C url ALL_MEDIA None False) (\<lambda>resp.
     if hp_is_redirect resp
     then bnd (lift_res (location_uri resp)) (\<lambda>l. ret (Some ((case uri_origin l of None \<Rightarrow> ''None'' | Some o' \<Rightarrow> o') @ ''/chat'')))
     else ret None))"

definition load_agent_session :: "'d http_client \<Rightarrow> string \<Rightarrow> ('d, live_agent_session) io" where
  "load_agent_session C endpoint =
     bnd (lift_res (rbind (parse_uri (endpoint @ ''/rest/System/SessionId?SessionId.ClientType=lightning'')) uri_to_url)) (\<lambda>url.
     bnd (client_get C url ALL_MEDIA (Some [(''X-Liveagent-Affinity'', HStr ''null''), (''X-Liveagent-Api-Version'', HStr api_version_string)]) True) (\<lambda>resp.
     lift_res (rbind (body_of_reply resp) agent_session_from_record)))"

section \<open>Statuses and channels\<close>

definition status_request_id :: string where "status_request_id = ''512;a''"

definition scrt_info_request_id :: string where "scrt_info_request_id = ''5744;a''"

definition omni_action :: "string \<Rightarrow> string \<Rightarrow> row \<Rightarrow> pyval" where
  "omni_action i descriptor params = PyDict [(''id'', PyStr i),
     (''descriptor'', PyStr (''serviceComponent://ui.liveagent.components.aura.controller.'' @ descriptor)),
     (''callingDescriptor'', PyStr ''UNKNOWN''), (''params'', PyDict params)]"

definition message_request :: pyval where
  "message_request = PyDict [(''actions'', PyList [
     omni_action status_request_id ''StatusController/ACTION$getStatuses'' [],
     omni_action ''554;a'' ''OmniWidgetController/ACTION$isBrowserNotificationEnabled'' [],
     omni_action scrt_info_request_id ''OmniWidgetController/ACTION$getSCRTInfo'' [],
     omni_action ''556;a'' ''OmniWidgetController/ACTION$isDeclineReasonEnabled'' [],
     omni_action ''557;a'' ''OmniWidgetController/ACTION$getDeclineReasons'' [],
     omni_action ''558;a'' ''OmniWidgetController/ACTION$getSoundInfo'' [(''id'', PyStr []), (''isServiceChannel'', PyBool False)]])]"

definition message_body :: "exn + string" where
  "message_body = rbind (json_dumps message_request) (\<lambda>t. Inr (encode_query_component t))"

definition omni_query :: string where
  "omni_query = ''r=5&ui-liveagent-components-aura-controller.OmniWidget.getDeclineReasons=1&ui-liveagent-components-aura-controller.OmniWidget.getSCRTInfo=1&ui-liveagent-components-aura-controller.OmniWidget.getSoundInfo=1&ui-liveagent-components-aura-controller.OmniWidget.isBrowserNotificationEnabled=1&ui-liveagent-components-aura-controller.OmniWidget.isDeclineReasonEnabled=1&ui-liveagent-components-aura-controller.Status.getStatuses=1''"

text \<open>The first action with an identifier; the ones before it are looked at too.\<close>

fun find_action :: "string \<Rightarrow> pyval list \<Rightarrow> exn + row option" where
  "find_action i [] = Inr None"
| "find_action i (v # vs) = rbind (dict_of v) (\<lambda>d. rbind (dreq ''id'' d) (\<lambda>x. if x = PyStr i then Inr (Some d) else find_action i vs))"

definition statuses_of_actions :: "pyval list \<Rightarrow> exn + live_agent_status list" where
  "statuses_of_actions actions = rbind (find_action status_request_id actions) (\<lambda>a. case a of
     None \<Rightarrow> Inr []
   | Some d \<Rightarrow> if d = [] then Inr [] else rbind (dreq ''state'' d) (\<lambda>st. if st \<noteq> PyStr ''SUCCESS'' then Inr []
       else rbind (dreq ''returnValue'' d) (\<lambda>v. case v of
          PyList l \<Rightarrow> map_res (\<lambda>v. rbind (dict_of v) status_from_record) l | _ \<Rightarrow> Inl TypeError)))"

definition scrt_of_actions :: "pyval list \<Rightarrow> exn + scrt_info option" where
  "scrt_of_actions actions = rbind (find_action scrt_info_request_id actions) (\<lambda>a. case a of
     None \<Rightarrow> Inr None
   | Some d \<Rightarrow> if d = [] then Inr None else rbind (rbind (rbind (dreq ''returnValue'' d) dict_of) scrt_from_record) (\<lambda>i. Inr (Some i)))"

definition get_statuses_and_scrt_info :: "'d http_client \<Rightarrow> string \<Rightarrow> aura_settings \<Rightarrow> ('d, live_agent_status list \<times> scrt_info option) io" where
  "get_statuses_and_scrt_info C domain s =
     bnd (lift_res (rbind (aura_settings_to_json s) (\<lambda>ctx. rbind message_body (\<lambda>m. rbind (token_text s) (\<lambda>token.
       Inr (encode_form_data [(''message'', Raw m), (''aura.context'', Plain ctx), (''aura.pageURI'', Raw ''%2Flightning''),
         (''aura.token'', Plain token)])))))) (\<lambda>form.
     bnd (client_post C (''https://'' @ domain @ ''/aura?'' @ omni_query) X_WWW_FORM_URLENCODED JSON (PyStr form)) (\<lambda>resp.
     lift_res (rbind (body_of_reply resp) (\<lambda>r. rbind (rbind (dreq ''actions'' r) (\<lambda>v. case v of PyList l \<Rightarrow> Inr l | _ \<Rightarrow> Inl TypeError)) (\<lambda>actions.
       rbind (statuses_of_actions actions) (\<lambda>sts. rbind (scrt_of_actions actions) (\<lambda>i. Inr (sts, i))))))))"

definition load_live_agent :: "'d http_client \<Rightarrow> string \<Rightarrow> aura_settings \<Rightarrow> ('d, live_agent) io" where
  "load_live_agent C domain s =
     bnd (get_statuses_and_scrt_info C domain s) (\<lambda>(options, i).
     bnd (load_chat_endpoint C i) (\<lambda>chat.
     bnd (case chat of Some c \<Rightarrow> ret c | None \<Rightarrow> lift_res (scrt_end_point i)) (\<lambda>endpoint.
     bnd (load_agent_session C endpoint) (\<lambda>sess.
     ret \<lparr>la_status_options = options, la_scrt_info = i, la_chat_endpoint = chat, la_session = sess\<rparr>))))"

section \<open>The connection\<close>

record authenticator =
  au_tenant_id :: int
  au_session_id :: string
  au_user_id :: string
  au_expiration_seconds :: int
  au_instance_uri :: uri
  au_access_token :: string

definition create_authenticator :: "session \<Rightarrow> exn + authenticator" where
  "create_authenticator s = rbind (parse_uri (s_instance_url s)) (\<lambda>u.
     Inr \<lparr>au_tenant_id = s_tenant_id s, au_session_id = s_session_id s, au_user_id = s_user_id s,
       au_expiration_seconds = s_expiration_seconds s, au_instance_uri = u, au_access_token = s_access_token s\<rparr>)"

record sfdc_connection =
  cn_instance_uri :: uri
  cn_session_ids :: "(string, string) dict"
  cn_aura :: "aura_settings option"
  cn_organization_id :: "string option"
  cn_lightning_domain :: string
  cn_my_domain :: string

definition host_text :: "uri \<Rightarrow> exn + string" where
  "host_text u = (case u_host u of None \<Rightarrow> Inl AttributeError | Some h \<Rightarrow> Inr h)"

definition new_connection :: "authenticator \<Rightarrow> exn + sfdc_connection" where
  "new_connection a = rbind (host_text (au_instance_uri a)) (\<lambda>host. let sub = extract_sf_sub_domain host in
     Inr \<lparr>cn_instance_uri = au_instance_uri a, cn_session_ids = [], cn_aura = Some new_aura_settings, cn_organization_id = None,
       cn_lightning_domain = sub @ ''.lightning.force.com'', cn_my_domain = sub @ ''.my.salesforce.com''\<rparr>)"

definition lightning_session_id :: "sfdc_connection \<Rightarrow> string option" where
  "lightning_session_id c = dget (cn_lightning_domain c) (cn_session_ids c)"

definition aura_of :: "sfdc_connection \<Rightarrow> exn + aura_settings" where
  "aura_of c = (case cn_aura c of None \<Rightarrow> Inl AttributeError | Some s \<Rightarrow> Inr s)"

text \<open>The links are no longer read once the framework is known and the context is not.\<close>

definition load_aura_context :: "http_reply \<Rightarrow> aura_settings \<Rightarrow> exn + aura_settings" where
  "load_aura_context response s = (if xs_fwuid s \<noteq> None \<and> xs_context s = None then Inr s else parse_links response s)"

definition visit :: "'d http_client \<Rightarrow> uri \<Rightarrow> http_reply \<Rightarrow> sfdc_connection \<Rightarrow> ('d, sfdc_connection) io" where
  "visit C origin response c =
     bnd (lift_res (aura_of c)) (\<lambda>s.
     bnd (if xs_token s = None then bnd (extract_aura_token C) (\<lambda>t. ret (s\<lparr>xs_token := t\<rparr>)) else ret s) (\<lambda>s.
     bnd (if xs_fwuid s = None \<or> xs_context s = None then lift_res (load_aura_context response s) else ret s) (\<lambda>s.
     bnd (find_cookie_value_by_uri C origin ''sid'') (\<lambda>sid.
     bnd (case sid of None \<Rightarrow> ret (cn_session_ids c) | Some v \<Rightarrow> bnd (lift_res (host_text origin)) (\<lambda>h. ret (dset h v (cn_session_ids c)))) (\<lambda>ids.
     bnd (if cn_organization_id c = None then find_cookie_value_by_uri C origin ''oid'' else ret (cn_organization_id c)) (\<lambda>org.
     ret (c\<lparr>cn_aura := Some s, cn_session_ids := ids, cn_organization_id := org\<rparr>)))))))"

fun invoke_uri :: "nat \<Rightarrow> 'd http_client \<Rightarrow> uri \<Rightarrow> sfdc_connection \<Rightarrow> ('d, sfdc_connection) io" where
  "invoke_uri 0 C u c = raise (http_exception 421 ''Too many re-directs.'' None)"
| "invoke_uri (Suc n) C u c =
     bnd (lift_res (case uri_origin u of None \<Rightarrow> Inl TypeError | Some t \<Rightarrow> parse_uri t)) (\<lambda>origin.
     bnd (lift_res (uri_to_url u)) (\<lambda>url.
     bnd (client_get C url ALL_MEDIA None False) (\<lambda>response.
     bnd (visit C origin response c) (\<lambda>c.
     if \<not> hp_is_redirect response then ret c
     else bnd (lift_res (location_uri response)) (\<lambda>next_uri. invoke_uri n C next_uri c)))))"

definition missing_attributes :: "sfdc_connection \<Rightarrow> string list" where
  "missing_attributes c = (case cn_aura c of None \<Rightarrow> [] | Some s \<Rightarrow>
     (if xs_context s = None then [''Aura Context''] else []) @ (if cn_organization_id c = None then [''Organization Id''] else []) @
     (if xs_fwuid s = None then [''Framework Id''] else [])) @ (if cn_session_ids c = [] then [''Session Id''] else [])"

definition verify_attributes :: "sfdc_connection \<Rightarrow> exn + unit" where
  "verify_attributes c = (if missing_attributes c \<noteq> []
     then Inl (not_authorized (''Salesforce auth failed, unable to find the following attributes: '' @ join_str '', '' (missing_attributes c)))
     else Inr ())"

definition max_redirects :: nat where "max_redirects = 31"

definition login :: "'d http_client \<Rightarrow> string \<Rightarrow> sfdc_connection \<Rightarrow> ('d, sfdc_connection) io" where
  "login C access_token c =
     bnd (lift_res (host_text (cn_instance_uri c))) (\<lambda>host.
     bnd (lift_res (form_https_uri host ''secur/frontdoor.jsp'' (Some (QueryDict [(''sid'', access_token)])))) (\<lambda>u.
     bnd (invoke_uri max_redirects C u c) (\<lambda>c.
     bnd (lift_res (form_https_uri host ''visualforce/session''
        (Some (QueryDict [(''url'', ''https://'' @ cn_lightning_domain c @ ''/one/one.app'')])))) (\<lambda>u.
     bnd (invoke_uri max_redirects C u c) (\<lambda>c.
     bnd (lift_res (verify_attributes c)) (\<lambda>_. ret c))))))"

definition auth_failure :: "exn \<Rightarrow> ('d, 'a) io option" where
  "auth_failure e = (case e of HttpExn h \<Rightarrow> None | OutOfFuel \<Rightarrow> None
     | _ \<Rightarrow> Some (raise (not_authorized ''Salesforce authentication failed.'')))"

definition authenticate_sfdc :: "'d http_client \<Rightarrow> string \<Rightarrow> sfdc_connection \<Rightarrow> ('d, sfdc_connection) io" where
  "authenticate_sfdc C access_token c = catch (login C access_token c) auth_failure"

definition preload_failure :: "(exn \<Rightarrow> string) \<Rightarrow> exn \<Rightarrow> ('d, 'a) io option" where
  "preload_failure text e = (if e = OutOfFuel then None
     else Some (raise (http_exception 502 (''Failed on Salesforce call: '' @ text e) None)))"

definition connection_created :: "(exn \<Rightarrow> string) \<Rightarrow> 'd http_client \<Rightarrow> string \<Rightarrow> sfdc_connection \<Rightarrow> ('d, sfdc_connection) io" where
  "connection_created text C access_token c = bnd (authenticate_sfdc C access_token c) (\<lambda>c.
     catch (bnd (lift_res (aura_of c)) (\<lambda>s. bnd (load_preload_actions C (cn_lightning_domain c) s) (\<lambda>s. ret (c\<lparr>cn_aura := Some s\<rparr>))))
       (preload_failure text))"

definition connection_live_agent :: "'d http_client \<Rightarrow> sfdc_connection \<Rightarrow> ('d, live_agent) io" where
  "connection_live_agent C c = bnd (lift_res (aura_of c)) (load_live_agent C (cn_lightning_domain c))"

definition connection_eq :: "sfdc_connection \<Rightarrow> sfdc_connection \<Rightarrow> bool" where
  "connection_eq a b \<longleftrightarrow> uri_eq (cn_instance_uri a) (cn_instance_uri b) \<and> dict_eq (cn_session_ids a) (cn_session_ids b) \<and>
     cn_organization_id a = cn_organization_id b \<and> cn_lightning_domain a = cn_lightning_domain b \<and> cn_my_domain a = cn_my_domain b"

section \<open>A connection that was made is complete\<close>

lemma auth_failure_raises: "auth_failure e = Some p \<Longrightarrow> fst (p w) \<noteq> Inr x"
  by (auto simp: auth_failure_def split: exn.splits)

lemma preload_failure_raises: "preload_failure text e = Some p \<Longrightarrow> fst (p w) \<noteq> Inr x"
  by (auto simp: preload_failure_def split: if_splits)

lemma catch_Inr: "catch p h w = (Inr x, w') \<Longrightarrow> (\<And>e q w. h e = Some q \<Longrightarrow> fst (q w) \<noteq> Inr x) \<Longrightarrow> p w = (Inr x, w')"
  by (auto simp: catch_def split: prod.splits sum.splits option.splits) (metis fst_conv)

lemma apply_preload_keeps: "xs_fwuid (apply_preload a s) = xs_fwuid s" "xs_context (apply_preload a s) = xs_context s"
    "xs_token (apply_preload a s) = xs_token s"
  by (simp_all add: apply_preload_def Let_def)

definition complete :: "sfdc_connection \<Rightarrow> bool" where
  "complete c \<longleftrightarrow> (\<exists>s. cn_aura c = Some s \<and> xs_fwuid s \<noteq> None \<and> xs_context s \<noteq> None) \<and> cn_organization_id c \<noteq> None \<and> cn_session_ids c \<noteq> []"

lemma missing_none: "cn_aura c = Some s \<Longrightarrow> missing_attributes c = [] \<Longrightarrow> complete c"
  by (auto simp: missing_attributes_def complete_def split: if_splits)

lemma visit_aura: "visit C origin r c w = (Inr c', w') \<Longrightarrow> \<exists>s. cn_aura c' = Some s"
  unfolding visit_def by (elim bnd_InrE) auto

lemma invoke_uri_aura: "invoke_uri n C u c w = (Inr c', w') \<Longrightarrow> \<exists>s. cn_aura c' = Some s"
proof (induction n arbitrary: u c w)
  case (Suc n)
  from Suc.prems show ?case
    by (auto elim!: bnd_InrE dest!: visit_aura Suc.IH split: if_splits)
qed simp

lemma login_complete: "login C token c w = (Inr c', w') \<Longrightarrow> complete c'"
  unfolding login_def
  by (elim bnd_InrE) (auto dest!: invoke_uri_aura intro!: missing_none simp: verify_attributes_def split: if_splits)

lemma connection_complete:
  assumes "connection_created text C token c w = (Inr c', w')"
  shows "complete c'"
proof -
  obtain c1 w1 where a: "authenticate_sfdc C token c w = (Inr c1, w1)"
    "catch (bnd (lift_res (aura_of c1)) (\<lambda>s. bnd (load_preload_actions C (cn_lightning_domain c1) s) (\<lambda>s. ret (c1\<lparr>cn_aura := Some s\<rparr>))))
       (preload_failure text) w1 = (Inr c', w')"
    using assms unfolding connection_created_def by (elim bnd_InrE)
  have c1: "complete c1"
    by (rule login_complete, rule catch_Inr [OF a(1) [unfolded authenticate_sfdc_def]], rule auth_failure_raises)
  have "bnd (lift_res (aura_of c1)) (\<lambda>s. bnd (load_preload_actions C (cn_lightning_domain c1) s) (\<lambda>s. ret (c1\<lparr>cn_aura := Some s\<rparr>))) w1 = (Inr c', w')"
    by (rule catch_Inr [OF a(2)], rule preload_failure_raises)
  then obtain s s' w2 where s: "aura_of c1 = Inr s" "load_preload_actions C (cn_lightning_domain c1) s w1 = (Inr s', w2)"
    "c' = c1\<lparr>cn_aura := Some s'\<rparr>" by (auto elim!: bnd_InrE)
  obtain p where "s' = apply_preload p s"
    using s(2) unfolding load_preload_actions_def by (auto elim!: bnd_InrE)
  then show ?thesis using c1 s by (auto simp: complete_def aura_of_def apply_preload_keeps split: option.splits)
qed

text \<open>The context is lost when a page names the framework only: no later page is read.\<close>

lemma context_never_read: "xs_fwuid s \<noteq> None \<Longrightarrow> xs_context s = None \<Longrightarrow> load_aura_context r s = Inr s"
  by (simp add: load_aura_context_def)

end
