(* ===== verification/Sfdc_Session.thy ===== *)
theory Sfdc_Session
  imports Sfdc_Connection
begin

text \<open>
  A session with Salesforce (\<open>services/sfdc/sfdc_session.py\<close>): creating it, storing and loading it, polling the Live Agent
  and sending it requests. The settings of the requests are an object the caller keeps, so they are a part of the state:
  a request that fails has taken its number all the same.
\<close>

text \<open>
  Pickling is a parameter, as is the builder of HTTP clients; a client that is built has no cookies. The settings and the
  contexts of the sessions are written with the pickler of the theory \<open>Live_Agent\<close>.
\<close>

record 'd sfdc_services =
  sv_env :: "'d env"
  sv_builder :: "('d, 'd http_client) io"
  sv_text :: "exn \<Rightarrow> string"
  sv_pickler :: pickler
  sv_pickle_conn :: "sfdc_connection \<Rightarrow> bytes"
  sv_unpickle_conn :: "bytes \<Rightarrow> exn + sfdc_connection"
  sv_pickle_agent :: "live_agent \<Rightarrow> bytes"
  sv_unpickle_agent :: "bytes \<Rightarrow> exn + live_agent"
  sv_pickle_blob :: "bytes \<times> bytes \<Rightarrow> bytes"
  sv_unpickle_blob :: "bytes \<Rightarrow> exn + bytes \<times> bytes"

definition services_pickle_ok :: "'d sfdc_services \<Rightarrow> bool" where
  "services_pickle_ok S \<longleftrightarrow> pickle_ok (sv_pickler S) \<and> (\<forall>c. sv_unpickle_conn S (sv_pickle_conn S c) = Inr c) \<and>
     (\<forall>a. sv_unpickle_agent S (sv_pickle_agent S a) = Inr a) \<and> (\<forall>b. sv_unpickle_blob S (sv_pickle_blob S b) = Inr b)"

section \<open>Creating and storing\<close>

text \<open>The user and the time to live of a session that was just created are not set to values.\<close>

record 'd sfdc_session =
  sx_tenant_id :: int
  sx_session_id :: string
  sx_client :: "'d http_client"
  sx_conn :: sfdc_connection
  sx_agent :: live_agent
  sx_expiration_seconds :: "int option"
  sx_user_id :: "string option"

definition create_new_connection :: "'d sfdc_services \<Rightarrow> authenticator \<Rightarrow> ('d, 'd http_client \<times> sfdc_connection) io" where
  "create_new_connection S a = bnd (sv_builder S) (\<lambda>C.
     bnd (lift_res (new_connection a)) (\<lambda>c. bnd (connection_created (sv_text S) C (au_access_token a) c) (\<lambda>c. ret (C, c))))"

definition create_sfdc_session :: "'d sfdc_services \<Rightarrow> authenticator \<Rightarrow> ('d, 'd sfdc_session) io" where
  "create_sfdc_session S a = bnd (create_new_connection S a) (\<lambda>(C, c).
     bnd (connection_live_agent C c) (\<lambda>la.
     ret \<lparr>sx_tenant_id = au_tenant_id a, sx_session_id = au_session_id a, sx_client = C, sx_conn = c, sx_agent = la,
       sx_expiration_seconds = None, sx_user_id = None\<rparr>))"

definition create_sfdc_session_from_session :: "'d sfdc_services \<Rightarrow> session \<Rightarrow> ('d, 'd sfdc_session) io" where
  "create_sfdc_session_from_session S s = bnd (lift_res (create_authenticator s)) (create_sfdc_session S)"

definition connection_serialize :: "'d sfdc_services \<Rightarrow> sfdc_connection \<Rightarrow> bytes" where
  "connection_serialize S c = sv_pickle_conn S (c\<lparr>cn_aura := None\<rparr>)"

definition connection_deserialize :: "'d sfdc_services \<Rightarrow> bytes \<Rightarrow> ('d, 'd http_client \<times> sfdc_connection) io" where
  "connection_deserialize S data = bnd (lift_res (sv_unpickle_conn S data)) (\<lambda>c. bnd (sv_builder S) (\<lambda>C. ret (C, c)))"

definition sfdc_serialize :: "'d sfdc_services \<Rightarrow> 'd sfdc_session \<Rightarrow> bytes" where
  "sfdc_serialize S x = sv_pickle_blob S (connection_serialize S (sx_conn x), sv_pickle_agent S (sx_agent x))"

definition sfdc_deserialize :: "'d sfdc_services \<Rightarrow> session_key \<Rightarrow> string \<Rightarrow> bytes \<Rightarrow> int \<Rightarrow> ('d, 'd sfdc_session) io" where
  "sfdc_deserialize S k user data seconds =
     bnd (lift_res (sv_unpickle_blob S data)) (\<lambda>(conn_data, agent_data).
     bnd (connection_deserialize S conn_data) (\<lambda>(C, c).
     bnd (lift_res (sv_unpickle_agent S agent_data)) (\<lambda>la.
     ret \<lparr>sx_tenant_id = k_tenant_id k, sx_session_id = k_session_id k, sx_client = C, sx_conn = c, sx_agent = la,
       sx_expiration_seconds = Some seconds, sx_user_id = Some user\<rparr>)))"

definition load_with_context :: "'d sfdc_services \<Rightarrow> session_key \<Rightarrow> context_type \<Rightarrow> ('d, ('d sfdc_session \<times> session_context) option) io" where
  "load_with_context S k ct = bnd (load_data_and_context (sv_env S) k ct True) (\<lambda>r. case r of
     None \<Rightarrow> ret None
   | Some (seconds, data, c) \<Rightarrow> bnd (sfdc_deserialize S k (sc_user_id c) data seconds) (\<lambda>x. ret (Some (x, c))))"

definition sfdc_presence_statuses :: "'d sfdc_session \<Rightarrow> presence_status list" where
  "sfdc_presence_statuses x = map to_presence_status (la_status_options (sx_agent x))"

definition sfdc_session_eq :: "'d sfdc_session \<Rightarrow> 'd sfdc_session \<Rightarrow> bool" where
  "sfdc_session_eq a b \<longleftrightarrow> sx_tenant_id a = sx_tenant_id b \<and> sx_session_id a = sx_session_id b \<and>
     connection_eq (sx_conn a) (sx_conn b) \<and> sx_agent a = sx_agent b"

definition sfdc_key :: "'d sfdc_session \<Rightarrow> session_key" where
  "sfdc_key x = key_of_args (sx_tenant_id x) (sx_session_id x)"

section \<open>Polling\<close>

text \<open>
  A response other than 200 that comes within five seconds counts as a shutdown; an exception of the request always does.
  \<open>pc\<close> counts the polls that were answered.
\<close>

definition poll_live_agent :: "'d sfdc_session \<Rightarrow> poller_settings \<Rightarrow> ('d, message_data option \<times> poller_settings) io" where
  "poll_live_agent x s =
     bnd (lift_res (poll_request_builder (sx_agent x) s)) (\<lambda>rb.
     bnd get_system_time_in_millis (\<lambda>start.
     bnd (catch (bnd (builder_send (sx_client x) None (rb\<lparr>rb_response_on_error := True\<rparr>)) (\<lambda>r. ret (Some r)))
        (\<lambda>e. if e = OutOfFuel then None else Some (ret None))) (\<lambda>resp.
     case resp of
       None \<Rightarrow> ret (Some (shutdown_data (po_ack s)), s)
     | Some resp \<Rightarrow>
         bnd get_system_time_in_millis (\<lambda>now.
         let s = s\<lparr>po_pc := po_pc s + 1\<rparr> in
         if hp_status_code resp = 200
         then bnd (lift_res (rbind (body_of_reply resp) message_data_from_record)) (\<lambda>d. ret (Some d, s))
         else if now - start < 5000 then ret (Some (shutdown_data (po_ack s)), s)
         else ret (None, s)))))"

section \<open>Sending requests\<close>

type_synonym ('d, 'a) web_prog = "(web_settings \<times> 'd world, 'a) prog"

definition web_io :: "('d, 'a) io \<Rightarrow> ('d, 'a) web_prog" where
  "web_io p = (\<lambda>(z, w). case p w of (r, w') \<Rightarrow> (r, (z, w')))"

definition take_number :: "request_builder \<Rightarrow> ('d, request_builder) web_prog" where
  "take_number rb = (\<lambda>(z, w). case web_settings_headers z rb of (rb', z') \<Rightarrow> (Inr rb', (z', w)))"

definition send_web_request :: "'d sfdc_session \<Rightarrow> http_method \<Rightarrow> string \<Rightarrow> pyval option \<Rightarrow> bool \<Rightarrow> headers option \<Rightarrow> ('d, http_reply) web_prog" where
  "send_web_request x m uri body response_on_error hs =
     (let rb = agent_session_headers (la_session (sx_agent x))
            (builder_headers hs ((new_builder m uri)\<lparr>rb_response_on_error := response_on_error\<rparr>))
      in bnd (take_number rb) (\<lambda>rb.
         bnd (case body of None \<Rightarrow> ret rb | Some b \<Rightarrow> lift_res (builder_body b rb)) (\<lambda>rb.
         bnd (lift_res (agent_endpoint (sx_agent x))) (\<lambda>endpoint.
         web_io (builder_send (sx_client x) (Some endpoint) rb)))))"

definition sent_event_data :: "'d sfdc_session \<Rightarrow> row \<Rightarrow> int \<Rightarrow> int \<Rightarrow> row" where
  "sent_event_data x data status elapsed = dset ''sfdcTime'' (PyInt elapsed) (dset ''sfdcResponse'' (PyInt status)
     (dset ''sessionId'' (PyStr (sx_session_id x)) (dset ''userId'' (val_str (sx_user_id x)) data)))"

text \<open>The event is stored with every answer, also an error; requests are sent by sessions that were loaded, which have a user.\<close>

definition send_web_request_with_event ::
    "'d sfdc_services \<Rightarrow> 'd sfdc_session \<Rightarrow> event_type \<Rightarrow> row \<Rightarrow> http_method \<Rightarrow> string \<Rightarrow> pyval option \<Rightarrow> headers option \<Rightarrow>
     ('d, http_reply) web_prog" where
  "send_web_request_with_event S x ty data m uri body hs =
     bnd (web_io get_system_time_in_millis) (\<lambda>start.
     bnd (send_web_request x m uri body True hs) (\<lambda>resp.
     bnd (web_io get_system_time_in_millis) (\<lambda>now.
     bnd (case (sx_user_id x, sx_expiration_seconds x) of
        (Some user, Some seconds) \<Rightarrow> web_io (store_event (sv_env S) (sfdc_key x) user seconds ty
           (Some (sent_event_data x data (hp_status_code resp) (now - start))))
      | _ \<Rightarrow> raise TypeError) (\<lambda>_.
     bnd (if is_2xx resp then ret () else lift_res (check_exception resp)) (\<lambda>_. ret resp)))))"

section \<open>Loading what was stored\<close>

lemma sfdc_roundtrip:
  assumes "services_pickle_ok S" "sv_builder S w = (Inr C, w')"
  shows "sfdc_deserialize S (sfdc_key x) user (sfdc_serialize S x) seconds w =
    (Inr (x\<lparr>sx_client := C, sx_conn := (sx_conn x)\<lparr>cn_aura := None\<rparr>, sx_expiration_seconds := Some seconds, sx_user_id := Some user\<rparr>), w')"
  using assms by (simp add: services_pickle_ok_def sfdc_deserialize_def sfdc_serialize_def connection_deserialize_def
      connection_serialize_def sfdc_key_def key_of_args_def bnd_def)

end
