(* ===== verification/Session_Manager.thy ===== *)
theory Session_Manager
  imports Sfdc_Session
begin

text \<open>
  The session manager (\<open>session/manager.py\<close>): creating a session or taking over the one its user has, connecting it
  to Salesforce now or in another process, loading the session a request names, keeping it alive, ending it.
\<close>

record 'd manager =
  mg_services :: "'d sfdc_services"
  mg_lambdas :: "'d lambda_env"
  mg_verify_fcm :: "string option \<Rightarrow> ('d, string option) io"
  mg_crypto :: crypto

abbreviation mg_env :: "'d manager \<Rightarrow> 'd env" where
  "mg_env M \<equiv> sv_env (mg_services M)"

section \<open>Creating a session or taking over an existing one\<close>

text \<open>
  \<open>again\<close> is the next attempt. A session that was found is kept when nothing that matters has changed, after a touch when
  it is old enough (the difference is in milliseconds), and else rewritten with the new session under its own identifier.
\<close>

definition check_replace_session :: "'d env \<Rightarrow> session \<Rightarrow> string \<Rightarrow> ('d, session \<times> bool) io \<Rightarrow> ('d, session \<times> bool) io" where
  "check_replace_session E s sid again = bnd (find_session E (key_of_args (s_tenant_id s) sid)) (\<lambda>current. case current of
     None \<Rightarrow> bnd (fix_orphaned_session E s sid) (\<lambda>_. again)
   | Some c \<Rightarrow>
       if s_status c = FAILED then bnd (fix_orphaned_session E s sid) (\<lambda>_. again)
       else if \<not> can_replace_session c s then raise (UserSessionExists sid)
       else bnd (lift_res (should_replace_session c s)) (\<lambda>replace.
         if \<not> replace then
           (if s_update_time s - s_update_time c < 60 then ret (c, False)
            else bnd (touch E c) (\<lambda>t. if t \<noteq> None \<and> t \<noteq> Some 0 then ret (c, False) else again))
         else let copy = s\<lparr>s_state_counter := s_state_counter c, s_session_id := s_session_id c\<rparr> in
           bnd (update_session E copy) (\<lambda>ok. if ok then ret (copy, False) else again)))"

text \<open>The number is what is left of \<open>RetryCounter\<close>; the result says whether the session was created.\<close>

fun create_or_replace :: "'d env \<Rightarrow> nat \<Rightarrow> session \<Rightarrow> ('d, session \<times> bool) io" where
  "create_or_replace E 0 s = bnd (with_expiration s) (\<lambda>s. bnd (create_session_of E s) (\<lambda>_. ret (s, True)))"
| "create_or_replace E (Suc n) s = bnd (with_expiration s) (\<lambda>s.
     catch (bnd (create_session_of E s) (\<lambda>_. ret (s, True)))
       (\<lambda>e. case e of UserSessionExists sid \<Rightarrow> Some (check_replace_session E s sid (create_or_replace E n s)) | _ \<Rightarrow> None))"

definition check_fcm_token :: "'d manager \<Rightarrow> session \<Rightarrow> ('d, unit) io" where
  "check_fcm_token M s = bnd (find_by_session (mg_env M) s) (\<lambda>current.
     if (case current of None \<Rightarrow> False | Some u \<Rightarrow> us_fcm_device_token u = s_fcm_device_token s) then ret ()
     else bnd (mg_verify_fcm M (s_fcm_device_token s)) (\<lambda>m. case m of
       None \<Rightarrow> ret ()
     | Some t \<Rightarrow> raise (bad_request (''FCM device token validation failed: '' @ t) (Some ''InvalidFcmDeviceToken''))))"

section \<open>Connecting\<close>

definition construct_context :: "session \<Rightarrow> context_type \<Rightarrow> bytes \<Rightarrow> ('d, session_context) io" where
  "construct_context s ct data = new_session_context (s_tenant_id s) (s_session_id s) (s_user_id s) ct data None"

definition construct_contexts :: "pickler \<Rightarrow> session \<Rightarrow> ('d, session_context list) io" where
  "construct_contexts pk s =
     bnd (construct_context s WEB (pk_web pk new_web_settings)) (\<lambda>web.
     bnd (construct_context s PUSH_NOTIFIER (pk_push pk None)) (\<lambda>push.
     if has_live_agent_polling s
     then bnd (construct_context s LIVE_AGENT (poller_serialize pk new_poller_settings)) (\<lambda>agent. ret [web, push, agent])
     else ret [web, push]))"

definition connect_to_sfdc :: "'d manager \<Rightarrow> session \<Rightarrow> ('d, 'd sfdc_session) io" where
  "connect_to_sfdc M s = (let S = mg_services M in
     bnd (create_sfdc_session_from_session S s) (\<lambda>x.
     bnd (construct_contexts (sv_pickler S) s) (\<lambda>contexts.
     bnd (create_session_contexts (mg_env M) s (sfdc_serialize S x) contexts) (\<lambda>ok.
     bnd (if ok then ret () else raise OptimisticLock) (\<lambda>_.
     bnd (if has_live_agent_polling s then invoke_live_agent_poller (mg_lambdas M) else ret ()) (\<lambda>_.
     ret x))))))"

definition finish_attempt :: "'d manager \<Rightarrow> session_key \<Rightarrow> ('d, unit) io" where
  "finish_attempt M k = bnd (get_session (mg_env M) k False True False) (\<lambda>s.
     if s_status s = ACTIVE then ret () else bnd (connect_to_sfdc M s) (\<lambda>_. ret ()))"

definition finish_connection :: "'d manager \<Rightarrow> session_key \<Rightarrow> ('d, unit) io" where
  "finish_connection M k = en_retry_unit (mg_env M) 10 (finish_attempt M k)"

definition get_exception_message :: "(exn \<Rightarrow> string) \<Rightarrow> exn \<Rightarrow> string" where
  "get_exception_message text e = (case e of HttpExn h \<Rightarrow> http_error.message h | _ \<Rightarrow> text e)"

definition connect_failed :: "'d manager \<Rightarrow> session \<Rightarrow> string \<Rightarrow> ('d, unit) io" where
  "connect_failed M s msg = bnd (find_session (mg_env M) (key_of_session s)) (\<lambda>current.
     bnd (case current of None \<Rightarrow> ret True | Some c \<Rightarrow> update_session (mg_env M) (session_set_failed c msg)) (\<lambda>_.
     raise (http_exception 502 msg None)))"

definition connect_session_async :: "'d manager \<Rightarrow> session \<Rightarrow> ('d, unit) io" where
  "connect_session_async M s = catch (invoke_connect_session (mg_lambdas M) (key_of_session s))
     (\<lambda>e. if e = OutOfFuel then None else Some (connect_failed M s (get_exception_message (sv_text (mg_services M)) e)))"

record create_result =
  mr_session :: session
  mr_created :: bool
  mr_presence_statuses :: "presence_status list option"

definition manager_create_session :: "'d manager \<Rightarrow> session \<Rightarrow> bool \<Rightarrow> ('d, create_result) io" where
  "manager_create_session M s async_connect =
     bnd (check_fcm_token M s) (\<lambda>_.
     bnd (create_or_replace (mg_env M) (cf_max_create_session_retries (en_config (mg_env M))) s) (\<lambda>(r, created).
     bnd (if created then
            (if async_connect then bnd (connect_session_async M r) (\<lambda>_. ret None)
             else bnd (connect_to_sfdc M r) (\<lambda>x. ret (Some (sfdc_presence_statuses x))))
          else if s_status r = ACTIVE then
            bnd (load_with_context (mg_services M) (key_of_session r) WEB) (\<lambda>sac.
              ret (map_option (\<lambda>(x, c). sfdc_presence_statuses x) sac))
          else ret None) (\<lambda>presence.
     ret \<lparr>mr_session = r, mr_created = created, mr_presence_statuses = presence\<rparr>)))"

section \<open>The session of a request\<close>

definition load_session :: "'d manager \<Rightarrow> http_request \<Rightarrow> credentials option \<Rightarrow> string option \<Rightarrow> bool \<Rightarrow> bool \<Rightarrow> ('d, session) io" where
  "load_session M rq creds token_string allow_pending allow_failure =
     bnd (case token_string of Some t \<Rightarrow> ret (t, True)
       | None \<Rightarrow> (case get_header rq ''x-1440-session-token'' of
            None \<Rightarrow> raise (not_authorized ''Missing X-1440-Session-Token header'')
          | Some v \<Rightarrow> bnd (lift_res (as_str v)) (\<lambda>t. ret (t, False)))) (\<lambda>(t, in_path).
     bnd (lift_res (case creds of Some c \<Rightarrow> Inr c | None \<Rightarrow> get_credentials rq)) (\<lambda>c.
     bnd (lift_res (token_deserialize (mg_crypto M) c t)) (\<lambda>token.
     bnd (lift_res (assert_tenant_access c (st_tenant_id token))) (\<lambda>_.
     bnd (get_session (mg_env M) (key_of_args (st_tenant_id token) (st_session_id token)) in_path True allow_failure) (\<lambda>s.
     bnd (if s_user_id s \<noteq> st_user_id token then raise (not_authorized ''User id mismatch in token.'') else ret ()) (\<lambda>_.
     bnd (if \<not> allow_pending \<or> \<not> allow_failure then lift_res (verify_session_status s allow_pending False) else ret ()) (\<lambda>_.
     ret s)))))))"

definition verify_session :: "'d manager \<Rightarrow> http_request \<Rightarrow> credentials \<Rightarrow> ('d, http_request) io" where
  "verify_session M rq creds = bnd (load_session M rq (Some creds) None False False) (\<lambda>s. ret (rq\<lparr>rq_session := Some s\<rparr>))"

definition manager_keepalive :: "'d manager \<Rightarrow> string \<Rightarrow> http_request \<Rightarrow> ('d, int) io" where
  "manager_keepalive M token rq = bnd (load_session M rq None (Some token) False False) (\<lambda>s.
     bnd (touch (mg_env M) s) (\<lambda>t. case t of None \<Rightarrow> raise (gone ''Session no longer exists.'') | Some t \<Rightarrow> ret t))"

definition delete_session_by_token :: "'d manager \<Rightarrow> string \<Rightarrow> http_request \<Rightarrow> ('d, bool) io" where
  "delete_session_by_token M token rq = bnd (load_session M rq None (Some token) True True) (delete_session (mg_env M))"

section \<open>Whose session it is\<close>

definition stands_for :: "session \<Rightarrow> session \<Rightarrow> bool" where
  "stands_for s r \<longleftrightarrow> s_tenant_id r = s_tenant_id s \<and> s_user_id r = s_user_id s \<and>
     s_fcm_device_token r = s_fcm_device_token s \<and> s_access_token r = s_access_token s"

lemma with_expiration_same:
  "with_expiration s w = (Inr s', w') \<Longrightarrow> stands_for s' = stands_for s \<and> s_session_id s' = s_session_id s"
  by (auto simp: with_expiration_def stands_for_def fun_eq_iff elim!: bnd_InrE)

lemma created_same: "bnd (create_session_of E s) (\<lambda>_. ret (s, True)) w = (Inr (r, c), w') \<Longrightarrow> r = s"
  by (auto elim!: bnd_InrE)

lemma stands_for_refl: "stands_for s s"
  by (simp add: stands_for_def)

lemma check_replace_stands_for:
  assumes "check_replace_session E s sid again w = (Inr (r, created), w')"
    "\<And>w r c w'. again w = (Inr (r, c), w') \<Longrightarrow> stands_for s r \<and> (c \<longrightarrow> s_session_id r = s_session_id s)"
  shows "stands_for s r \<and> (created \<longrightarrow> s_session_id r = s_session_id s)"
  using assms unfolding check_replace_session_def
  by (elim bnd_InrE) (auto simp: stands_for_def should_replace_session_def can_replace_session_def Let_def
      split: option.splits if_splits elim!: bnd_InrE)

lemma attempt_cases:
  assumes "create_or_replace E (Suc n) s w = (Inr rc, w')"
  obtains s1 w1 where "with_expiration s w = (Inr s1, w1)" "rc = (s1, True)"
  | s1 w1 sid w2 where "with_expiration s w = (Inr s1, w1)"
      "check_replace_session E s1 sid (create_or_replace E n s1) w2 = (Inr rc, w')"
proof -
  obtain s1 w1 where s1: "with_expiration s w = (Inr s1, w1)" and
    c: "catch (bnd (create_session_of E s1) (\<lambda>_. ret (s1, True)))
       (\<lambda>e. case e of UserSessionExists sid \<Rightarrow> Some (check_replace_session E s1 sid (create_or_replace E n s1)) | _ \<Rightarrow> None) w1 = (Inr rc, w')"
    using assms by (auto elim: bnd_InrE)
  obtain x w2 where x: "bnd (create_session_of E s1) (\<lambda>_. ret (s1, True)) w1 = (x, w2)" by fastforce
  show thesis
  proof (cases x)
    case (Inl e)
    then show ?thesis using c x that(2) [OF s1] by (auto simp: catch_def split: exn.splits)
  next
    case (Inr y)
    then have "rc = (s1, True)" using c x created_same by (cases y) (auto simp: catch_def elim!: bnd_InrE)
    then show ?thesis by (rule that(1) [OF s1])
  qed
qed

text \<open>
  C7 (safety). The session \<open>create_session\<close> answers with is one of the tenant and the user it was asked for, with the
  same device and access token, however many attempts it took and whatever the other processes did in between; a session
  that was created has the identifier that was asked for.
\<close>

theorem created_or_taken_over:
  assumes "create_or_replace E n s w = (Inr (r, created), w')"
  shows "stands_for s r \<and> (created \<longrightarrow> s_session_id r = s_session_id s)"
  using assms
proof (induction n arbitrary: s w r created w')
  case 0
  then obtain s1 w1 where "with_expiration s w = (Inr s1, w1)" "r = s1" by (auto elim!: bnd_InrE)
  then show ?case using with_expiration_same [of s w s1 w1] stands_for_refl [of s1] by simp
next
  case (Suc n)
  from Suc.prems show ?case
  proof (cases rule: attempt_cases)
    case (1 s1 w1)
    then show ?thesis using with_expiration_same [OF 1(1)] stands_for_refl [of s1] by simp
  next
    case (2 s1 w1 sid w2)
    have "stands_for s1 x \<and> (c \<longrightarrow> s_session_id x = s_session_id s1)" if "create_or_replace E n s1 u = (Inr (x, c), u')" for u u' x c
      using Suc.IH [OF that] .
    from check_replace_stands_for [OF 2(2) this] show ?thesis using with_expiration_same [OF 2(1)] by simp
  qed
qed

end
