(* ===== verification/Scripted.thy ===== *)
theory Scripted
  imports Session_Manager
begin

text \<open>
  A DynamoDB that answers from a list, for the witnesses of properties that hold whatever the database does: every
  call takes the next answer. The sequence of event numbers is given, so that a conversation is short.
\<close>

datatype answer = AItem "ddb_item option" | AOk | ACancelled "string list"

definition answer_error :: "string list \<Rightarrow> aws_error" where
  "answer_error codes = \<lparr>ae_type = ''TransactionCanceledException'', ae_response = Some \<lparr>ar_http_status = Some 400,
     ar_code = Some ''TransactionCanceledException'', ar_reasons = map (\<lambda>c. (c, None)) codes\<rparr>\<rparr>"

fun answer_result :: "answer \<Rightarrow> aws_error + ddb_item option" where
  "answer_result (AItem i) = Inr i"
| "answer_result AOk = Inr None"
| "answer_result (ACancelled cs) = Inl (answer_error cs)"

definition answer_item :: "answer list \<Rightarrow> nat \<Rightarrow> (aws_error + ddb_item option) \<times> nat" where
  "answer_item script n = (if n < length script then answer_result (script ! n) else Inl (answer_error []), Suc n)"

definition answer_unit :: "answer list \<Rightarrow> nat \<Rightarrow> (aws_error + unit) \<times> nat" where
  "answer_unit script n = (case answer_item script n of (r, n') \<Rightarrow> (map_sum id (\<lambda>_. ()) r, n'))"

definition scripted_client :: "answer list \<Rightarrow> nat ddb_client" where
  "scripted_client script = \<lparr>c_get_item = (\<lambda>_. answer_item script), c_put_item = (\<lambda>_. answer_item script),
     c_update_item = (\<lambda>_. answer_unit script), c_delete_item = (\<lambda>_. answer_item script),
     c_transact_write_items = (\<lambda>_. answer_unit script), c_batch_write_item = (\<lambda>_ n. (Inr [], Suc n)),
     c_batch_get_item = (\<lambda>_ n. (Inr ([], []), Suc n)), c_scan = (\<lambda>_ _ _ n. (Inl (answer_error []), n)),
     c_query = (\<lambda>_ n. (Inl (answer_error []), n)), c_fuel = 9\<rparr>"

definition scripted_sequence :: sequence where
  "scripted_sequence = \<lparr>sq_tenant_id = 7, sq_name = ''EventSeq'', sq_next_value = 1, sq_timeout_at = Some 9\<rparr>"

definition scripted_env :: "answer list \<Rightarrow> nat env" where
  "scripted_env script = \<lparr>en_client = scripted_client script, en_config = default_config, en_listeners = Some [],
     en_retry_sequence = (\<lambda>n p. ret scripted_sequence), en_retry_lock = attempts,
     en_retry_unit = attempts, en_deflate = id, en_inflate = Some\<rparr>"

definition scripted_clock :: "nat \<Rightarrow> int" where
  "scripted_clock n = 1000 * int n"

definition scripted_uuid :: "nat \<Rightarrow> string" where
  "scripted_uuid n = ''u'' @ int_str (int n)"

definition scripted_world :: "nat world" where
  "scripted_world = \<lparr>w_db = 0, w_clock = scripted_clock, w_ticks = 0, w_uuid = scripted_uuid, w_uuids = 0, w_out = []\<rparr>"

definition scripted_pickler :: pickler where
  "scripted_pickler = \<lparr>pk_web = (\<lambda>s. []), unpk_web = (\<lambda>b. Inr new_web_settings), pk_poller = (\<lambda>s. []),
     unpk_poller = (\<lambda>b. Inr new_poller_settings), pk_push = (\<lambda>s. []), unpk_push = (\<lambda>b. Inr None)\<rparr>"

definition scripted_services :: "answer list \<Rightarrow> nat sfdc_services" where
  "scripted_services script = \<lparr>sv_env = scripted_env script, sv_builder = raise AssertionError, sv_text = (\<lambda>e. ''error''),
     sv_pickler = scripted_pickler, sv_pickle_conn = (\<lambda>c. []), sv_unpickle_conn = (\<lambda>b. Inl AssertionError), sv_pickle_agent = (\<lambda>a. []),
     sv_unpickle_agent = (\<lambda>b. Inl AssertionError), sv_pickle_blob = fst, sv_unpickle_blob = (\<lambda>b. Inr (b, b))\<rparr>"

definition scripted_lambdas :: "'d lambda_env" where
  "scripted_lambdas = \<lparr>le_environ = (\<lambda>k. None), le_invoke = (\<lambda>n p. ret (202, None)), le_create_schedule = (\<lambda>r w. (Inr (), w)),
     le_delete_schedule = (\<lambda>n g w. (Inr (), w)), le_function_arn = (\<lambda>n. ret n), le_utc_offset = 0\<rparr>"

definition scripted_manager :: "answer list \<Rightarrow> nat manager" where
  "scripted_manager script = \<lparr>mg_services = scripted_services script, mg_lambdas = scripted_lambdas, mg_verify_fcm = (\<lambda>t. ret None),
     mg_crypto = example_crypto\<rparr>"

section \<open>Taking over a session\<close>

definition renewed_session :: session where
  "renewed_session = example_session\<lparr>s_session_id := ''s2'', s_access_token := ''t2'', s_status := PENDING\<rparr>"

text \<open>The user has a session, so the transaction that creates one is refused; the session is rewritten.\<close>

definition take_over_script :: "answer list" where
  "take_over_script = [AItem (Some (item_of (user_item example_session))), ACancelled [''None'', ''ConditionalCheckFailed'', ''None''], AOk,
     AItem (Some (item_of (user_item example_session))), AItem (Some (item_of (session_to_record example_session))), AOk, AOk]"

definition at_step :: "nat \<Rightarrow> nat \<Rightarrow> nat \<Rightarrow> nat world" where
  "at_step n ticks uuids = scripted_world\<lparr>w_db := n, w_ticks := ticks, w_uuids := uuids\<rparr>"

text \<open>An evaluation under any predicate is an equation, also for worlds, which hold functions.\<close>

lemma eval_eq:
  assumes "\<And>Q :: 'a \<Rightarrow> bool. Q a = Q b"
  shows "a = b"
  using assms [of "\<lambda>x. x = b"] by simp

definition script_session :: session where
  "script_session = renewed_session\<lparr>s_expiration_time := Some 60\<rparr>"

definition found_session :: session where
  "found_session = example_session\<lparr>s_channel_platform_types := [''omni'', ''x1440'']\<rparr>"

lemma step_fcm: "Q (check_fcm_token (scripted_manager take_over_script) renewed_session scripted_world) = Q (Inr (), at_step 1 0 0)" for Q :: "_ \<Rightarrow> bool"
  by code_simp

lemma step_create: "Q (create_session_of (scripted_env take_over_script) script_session (at_step 1 1 0)) = Q (Inl (UserSessionExists ''s''), at_step 4 2 1)" for Q :: "_ \<Rightarrow> bool"
  by code_simp

lemma step_find: "Q (find_session (scripted_env take_over_script) (key_of_args 7 ''s'') (at_step 4 2 1)) = Q (Inr (Some found_session), at_step 5 2 1)" for Q :: "_ \<Rightarrow> bool"
  by code_simp

lemma step_update: "Q (update_session (scripted_env take_over_script) (script_session\<lparr>s_session_id := ''s''\<rparr>) (at_step 5 2 1)) = Q (Inr True, at_step 7 4 2)" for Q :: "_ \<Rightarrow> bool"
  by code_simp

lemmas script_steps = step_fcm [THEN eval_eq] step_create [THEN eval_eq] step_find [THEN eval_eq] step_update [THEN eval_eq]
lemmas script_steps' = script_steps [unfolded One_nat_def]

lemma step_expiration: "with_expiration renewed_session (at_step 1 0 0) = (Inr script_session, at_step 1 1 0)"
  by (simp add: with_expiration_def get_system_time_in_seconds_def get_system_time_in_millis_def bnd_def at_step_def
      scripted_world_def scripted_clock_def script_session_def renewed_session_def example_session_def)

lemma take_over_run: "manager_create_session (scripted_manager take_over_script) renewed_session async scripted_world =
    (Inr \<lparr>mr_session = script_session\<lparr>s_session_id := ''s''\<rparr>, mr_created = False, mr_presence_statuses = None\<rparr>, at_step 7 4 2)"
proof -
  have e: "mg_env (scripted_manager take_over_script) = scripted_env take_over_script"
    by (simp add: scripted_manager_def scripted_services_def)
  obtain n where n: "cf_max_create_session_retries (en_config (scripted_env take_over_script)) = Suc n"
    by (simp add: scripted_env_def default_config_def)
  have s: "s_tenant_id script_session = 7" "s_status found_session = ACTIVE" "can_replace_session found_session script_session"
    "should_replace_session found_session script_session = Inr True" "s_status script_session = PENDING"
    "script_session\<lparr>s_state_counter := s_state_counter found_session, s_session_id := s_session_id found_session\<rparr> = script_session\<lparr>s_session_id := ''s''\<rparr>"
    by (simp_all add: script_session_def renewed_session_def found_session_def example_session_def can_replace_session_def
        should_replace_session_def)
  have "check_replace_session (scripted_env take_over_script) script_session ''s'' again (at_step 4 2 1) =
      (Inr (script_session\<lparr>s_session_id := ''s''\<rparr>, False), at_step 7 4 2)" for again
    by (simp add: check_replace_session_def s bnd_def script_steps' Let_def)
  then have "create_or_replace (scripted_env take_over_script) (Suc n) renewed_session (at_step 1 0 0) =
      (Inr (script_session\<lparr>s_session_id := ''s''\<rparr>, False), at_step 7 4 2)"
    by (simp add: bnd_def catch_def step_expiration [unfolded One_nat_def] script_steps')
  then show ?thesis unfolding manager_create_session_def e n
    by (simp add: bnd_def script_steps' s(5) del: create_or_replace.simps)
qed

lemma check_replace_not_created:
  assumes "check_replace_session E s sid again w = (Inr (r, False), w')"
    "\<And>w r w'. again w = (Inr (r, False), w') \<Longrightarrow> P r" "\<And>k w c w'. find_session E k w = (Inr (Some c), w') \<Longrightarrow> P c"
    "\<And>c. s_status c = s_status s \<Longrightarrow> P c"
  shows "P r"
  using assms(1) unfolding check_replace_session_def
  by (elim bnd_InrE) (auto simp: Let_def assms(4) split: option.splits if_splits elim!: bnd_InrE, (blast intro: assms(2,3))+)

lemma not_created:
  assumes "create_or_replace E n s w = (Inr (r, False), w')" "\<And>k w c w'. find_session E k w = (Inr (Some c), w') \<Longrightarrow> P c"
    "\<And>c. s_status c = s_status s \<Longrightarrow> P c"
  shows "P r"
  using assms
proof (induction n arbitrary: s w r w')
  case 0
  then show ?case by (auto elim!: bnd_InrE)
next
  case (Suc n)
  from Suc.prems(1) show ?case
  proof (cases rule: attempt_cases)
    case (2 s1 w1 sid w2)
    have s1: "s_status s1 = s_status s" using 2(1) by (auto simp: with_expiration_def elim!: bnd_InrE)
    show ?thesis
      by (rule check_replace_not_created [OF 2(2)]) (use Suc.IH Suc.prems(2,3) s1 in auto)
  qed simp
qed



text \<open>The same run is an instance of the property of what \<open>create_session\<close> answers with.\<close>

lemma created_or_taken_over_witness:
  "stands_for renewed_session (script_session\<lparr>s_session_id := ''s''\<rparr>)"
proof -
  have s: "s_tenant_id script_session = 7" "s_status found_session = ACTIVE" "can_replace_session found_session script_session"
    "should_replace_session found_session script_session = Inr True"
    "script_session\<lparr>s_state_counter := s_state_counter found_session, s_session_id := s_session_id found_session\<rparr> = script_session\<lparr>s_session_id := ''s''\<rparr>"
    by (simp_all add: script_session_def renewed_session_def found_session_def example_session_def can_replace_session_def
        should_replace_session_def)
  have "create_or_replace (scripted_env take_over_script) (Suc 0) renewed_session (at_step 1 0 0) =
      (Inr (script_session\<lparr>s_session_id := ''s''\<rparr>, False), at_step 7 4 2)"
    by (simp add: bnd_def catch_def step_expiration [unfolded One_nat_def] script_steps' check_replace_session_def s Let_def)
  from created_or_taken_over [OF this] show ?thesis by simp
qed

end
