(* ===== verification/Omni_Api.thy ===== *)
theory Omni_Api
  imports Scripted Lock_Refinement
begin

text \<open>
  The requests of an agent (\<open>services/sfdc/live_agent/omnichannel_api.py\<close>, \<open>api/presence_status.py\<close>): statuses of presence,
  accepting, declining and closing work, messages. The API holds the lock of the session; every request takes a number of
  the sequence, which is written back to the context of the session at the end.
\<close>

section \<open>Messages\<close>

record message_attachment =
  mx_key :: string
  mx_value :: string

definition attachment_to_record :: "message_attachment \<Rightarrow> row" where
  "attachment_to_record a = [(mx_key a, PyStr (mx_value a))]"

record work_message =
  wg_work_target_id :: string
  wg_message_id :: string
  wg_message_body :: pyval
  wg_attachments :: "message_attachment list option"

definition message_to_body :: "work_message \<Rightarrow> string \<Rightarrow> row" where
  "message_to_body m work_id = [(''channelType'', PyStr ''lmagent''), (''workId'', PyStr work_id), (''intent'', PyStr ''HUMAN_AGENT''),
     (''messageId'', PyStr (wg_message_id m))] @
     (case wg_attachments m of
        Some as \<Rightarrow> [(''attachments'', PyList (map (\<lambda>a. PyDict (attachment_to_record a)) as)), (''text'', PyNone)]
      | None \<Rightarrow> [(''text'', wg_message_body m), (''attachments'', PyList [])])"

section \<open>The API of a session\<close>

text \<open>The settings, which change with every request, are the state that the requests run in.\<close>

record 'd omni_api =
  oa_services :: "'d sfdc_services"
  oa_session :: "'d sfdc_session"
  oa_context :: session_context
  oa_initial :: web_settings
  oa_lock :: resource_lock

definition presence_uri :: "string \<Rightarrow> string" where
  "presence_uri resource = ''rest/Presence/'' @ resource"

definition conversation_uri :: "string \<Rightarrow> string" where
  "conversation_uri action = ''rest/Conversational/'' @ action"

definition channel_ids_with_param :: pyval where
  "channel_ids_with_param = PyList [PyDict [(''channelId'', PyStr ''agent'')], PyDict [(''channelId'', PyStr ''conversational'')],
     PyDict [(''channelId'', PyStr ''lmagent'')]]"

definition set_presence_status_body :: "'d sfdc_session \<Rightarrow> pyval \<Rightarrow> row" where
  "set_presence_status_body x status_id = [(''organizationId'', val_str (cn_organization_id (sx_conn x))),
     (''sfdcSessionId'', val_str (lightning_session_id (sx_conn x))), (''statusId'', status_id),
     (''channelIdsWithParam'', channel_ids_with_param), (''domain'', PyStr (cn_lightning_domain (sx_conn x)))]"

definition api_presence_statuses :: "'d omni_api \<Rightarrow> presence_status list" where
  "api_presence_statuses A = sfdc_presence_statuses (oa_session A)"

definition invoke_presence_request :: "'d omni_api \<Rightarrow> string \<Rightarrow> event_type \<Rightarrow> row \<Rightarrow> row \<Rightarrow> ('d, unit) web_prog" where
  "invoke_presence_request A action ty event_data body =
     bnd (send_web_request_with_event (oa_services A) (oa_session A) ty event_data POST (presence_uri action) (Some (PyDict body)) None)
       (\<lambda>_. ret ())"

definition api_post :: "'d omni_api \<Rightarrow> string \<Rightarrow> row \<Rightarrow> ('d, unit) web_prog" where
  "api_post A uri body = bnd (send_web_request (oa_session A) POST uri (Some (PyDict body)) False None) (\<lambda>_. ret ())"

definition set_presence_status :: "'d omni_api \<Rightarrow> string \<Rightarrow> ('d, unit) web_prog" where
  "set_presence_status A status_id =
     (case find_first_match (\<lambda>m. pz_id m = PyStr status_id) (api_presence_statuses A) of
        None \<Rightarrow> raise (invalid_parameter ''id'' (quoted status_id @ '' is invalid.''))
      | Some m \<Rightarrow> invoke_presence_request A (''Presence'' @ (if pz_option m = OFFLINE then ''Logout'' else ''Login'')) PRESENCE_STATUS_SET
          [(''status'', PyStr (status_option_name (pz_option m)))] (set_presence_status_body (oa_session A) (pz_id m)))"

definition work_data :: "string \<Rightarrow> string \<Rightarrow> row" where
  "work_data work_id target = [(''workId'', PyStr work_id), (''workTargetId'', PyStr target)]"

definition accept_work :: "'d omni_api \<Rightarrow> string \<Rightarrow> string \<Rightarrow> ('d, unit) web_prog" where
  "accept_work A work_id target =
     invoke_presence_request A ''AcceptWork'' WORK_ACCEPTED (work_data work_id target) (work_data work_id target)"

definition decline_work :: "'d omni_api \<Rightarrow> string \<Rightarrow> string \<Rightarrow> string option \<Rightarrow> ('d, unit) web_prog" where
  "decline_work A work_id target reason =
     (let data = work_data work_id target @ (case reason of None \<Rightarrow> [] | Some r \<Rightarrow> [(''declineReason'', PyStr r)])
      in invoke_presence_request A ''DeclineWork'' WORK_DECLINED data data)"

text \<open>A session that was loaded has a user.\<close>

definition api_user :: "'d omni_api \<Rightarrow> exn + string" where
  "api_user A = (case sx_user_id (oa_session A) of None \<Rightarrow> Inl TypeError | Some u \<Rightarrow> Inr u)"

definition api_work_id :: "'d omni_api \<Rightarrow> string \<Rightarrow> ('d, string) web_prog" where
  "api_work_id A target = bnd (lift_res (api_user A)) (\<lambda>user.
     web_io (get_work_id_of (sv_env (oa_services A)) (sx_tenant_id (oa_session A)) user target False))"

definition end_conversation :: "'d omni_api \<Rightarrow> string \<Rightarrow> ('d, unit) web_prog" where
  "end_conversation A work_id = api_post A (conversation_uri ''ConversationEnd'')
     [(''channelType'', PyStr ''lmagent''), (''workId'', PyStr work_id)]"

definition start_after_conversation_work :: "'d omni_api \<Rightarrow> string \<Rightarrow> ('d, unit) web_prog" where
  "start_after_conversation_work A work_id = api_post A (presence_uri ''StartAfterConversationWork'') [(''workId'', PyStr work_id)]"

definition close_work :: "'d omni_api \<Rightarrow> string \<Rightarrow> ('d, unit) web_prog" where
  "close_work A target = bnd (api_work_id A target) (\<lambda>work_id.
     bnd (if prefix ''a17'' target then ret ()
          else bnd (end_conversation A target) (\<lambda>_. start_after_conversation_work A work_id)) (\<lambda>_.
     invoke_presence_request A ''CloseWork'' WORK_CLOSED (work_data work_id target)
       (work_data work_id target @ [(''activeTime'', PyInt 1440)])))"

definition send_work_message :: "'d omni_api \<Rightarrow> work_message \<Rightarrow> ('d, unit) web_prog" where
  "send_work_message A m = bnd (api_work_id A (wg_work_target_id m)) (\<lambda>_.
     bnd (send_web_request_with_event (oa_services A) (oa_session A) MESSAGE_SENT [(''messageId'', PyStr (wg_message_id m))] POST
        ''rest/Conversational/ConversationMessage'' (Some (PyDict (message_to_body m (wg_work_target_id m))))
        (Some [(''Accept'', HStr ''*/*''), (''Content-Type'', HStr ''text/plain;charset=UTF-8'')])) (\<lambda>_. ret ()))"

section \<open>Entering and leaving\<close>

definition web_lock_name :: "session_key \<Rightarrow> string" where
  "web_lock_name k = ''web-session/'' @ int_str (k_tenant_id k) @ ''/'' @ k_session_id k"

definition make_api :: "'d sfdc_services \<Rightarrow> resource_lock \<Rightarrow> ('d sfdc_session \<times> session_context) option \<Rightarrow> ('d, 'd omni_api) io" where
  "make_api S l sc = (case sc of None \<Rightarrow> raise AttributeError
     | Some (x, c) \<Rightarrow> bnd (lift_res (unpk_web (sv_pickler S) (sc_data c))) (\<lambda>z.
         ret \<lparr>oa_services = S, oa_session = x, oa_context = c, oa_initial = z, oa_lock = l\<rparr>))"

definition load_api :: "(('d, resource_lock) io \<Rightarrow> ('d, resource_lock) io) \<Rightarrow> 'd sfdc_services \<Rightarrow> session_key \<Rightarrow> ('d, 'd omni_api) io" where
  "load_api forever S k =
     bnd (acquire_and_execute forever (sv_env S) (web_lock_name k) 1 30 (load_with_context S k WEB)) (\<lambda>(l, sc).
     release_on_exception (sv_env S) l (make_api S l sc))"

text \<open>Leaving writes the numbers that were used, and releases the lock in any case.\<close>

definition api_save :: "'d omni_api \<Rightarrow> web_settings \<Rightarrow> ('d, unit) io" where
  "api_save A z = (if z = oa_initial A then ret ()
     else bnd (set_session_data (oa_context A) (pk_web (sv_pickler (oa_services A)) z)) (\<lambda>c.
       bnd (update_session_context (sv_env (oa_services A)) c None) (\<lambda>_. ret ())))"

definition api_exit :: "'d omni_api \<Rightarrow> web_settings \<Rightarrow> ('d, unit) io" where
  "api_exit A z = finally_do (api_save A z) (bnd (lock_release (sv_env (oa_services A)) (oa_lock A)) (\<lambda>_. ret ()))"

text \<open>\<open>with load_api(session) as api: body\<close>\<close>

definition with_api :: "(('d, resource_lock) io \<Rightarrow> ('d, resource_lock) io) \<Rightarrow> 'd sfdc_services \<Rightarrow> session_key \<Rightarrow>
    ('d omni_api \<Rightarrow> ('d, 'a) web_prog) \<Rightarrow> ('d, 'a) io" where
  "with_api forever S k body = bnd (load_api forever S k) (\<lambda>A w.
     case body A (oa_initial A, w) of (r, (z, w')) \<Rightarrow>
     (case api_exit A z w' of (Inl e, w'') \<Rightarrow> (Inl e, w'') | (Inr _, w'') \<Rightarrow> (r, w'')))"

end
