(* ===== verification/Web_App.thy ===== *)
theory Web_App
  imports Omni_Api
begin

text \<open>
  The web application: authentication of requests (\<open>auth/auth_handler.py\<close>), routes (\<open>lambda_web_framework/router.py\<close>,
  \<open>web_router.py\<close>, \<open>resource.py\<close>), the controllers, and the handlers that a Lambda event is offered to
  (\<open>lambda_web_framework/__init__.py\<close>, \<open>app_handler.py\<close>, \<open>bean/loaders/web.py\<close>). The state of the application is the
  caches of tenants and of credentials, and the world.
\<close>

record 'd app_state =
  as_orgs :: "(string, int) ttl_cache"
  as_creds :: "(string, credentials) ttl_cache"
  as_world :: "'d world"

type_synonym ('d, 'a) app = "('d app_state, 'a) prog"

definition app_io :: "('d, 'a) io \<Rightarrow> ('d, 'a) app" where
  "app_io p s = (case p (as_world s) of (r, w) \<Rightarrow> (r, s\<lparr>as_world := w\<rparr>))"

definition on_orgs :: "(string, int, 'd, 'a) cache_prog \<Rightarrow> ('d, 'a) app" where
  "on_orgs p s = (case p (as_orgs s, as_world s) of (r, (c, w)) \<Rightarrow> (r, s\<lparr>as_orgs := c, as_world := w\<rparr>))"

definition on_creds :: "(string, credentials, 'd, 'a) cache_prog \<Rightarrow> ('d, 'a) app" where
  "on_creds p s = (case p (as_creds s, as_world s) of (r, (c, w)) \<Rightarrow> (r, s\<lparr>as_creds := c, as_world := w\<rparr>))"

text \<open>\<open>ap_order\<close> is the order in which the elements of a set are visited.\<close>

record 'd application =
  ap_manager :: "'d manager"
  ap_admin :: "'d admin_client"
  ap_forever :: "('d, resource_lock) io \<Rightarrow> ('d, resource_lock) io"
  ap_order :: "pyval list \<Rightarrow> pyval list"

section \<open>Authentication\<close>

record auth_parts =
  ah_name :: string
  ah_request_time :: int
  ah_signature :: string

definition grace_time_millis :: int where
  "grace_time_millis = 5555"

definition str_body :: "pyval option \<Rightarrow> exn + string option" where
  "str_body b = (case b of None \<Rightarrow> Inr None | Some PyNone \<Rightarrow> Inr None | Some (PyStr s) \<Rightarrow> Inr (Some s) | Some _ \<Rightarrow> Inl TypeError)"

definition validate_auth :: "crypto \<Rightarrow> auth_parts \<Rightarrow> http_request \<Rightarrow> credentials \<Rightarrow> exn + http_request" where
  "validate_auth cy p rq creds = rbind (str_body (rq_body rq)) (\<lambda>body.
     if sr_signature (creds_sign cy creds (rq_method rq) (rq_path rq) (ah_request_time p) body) = ah_signature p
     then Inr (rq\<lparr>rq_creds := Some creds\<rparr>) else Inl (not_authorized ''Signature mismatch.''))"

definition parse_auth_parts :: "string \<Rightarrow> ('d, auth_parts option) io" where
  "parse_auth_parts token = (case decode_base64_to_string (Some token) False of
     Inr (Some decoded) \<Rightarrow> (case split_max '':'' 3 decoded of
        [name, time, signature] \<Rightarrow> (case int_of_str time of
            Inl e \<Rightarrow> ret None
          | Inr t \<Rightarrow> bnd get_system_time_in_millis (\<lambda>now.
              if \<bar>now - t\<bar> \<le> grace_time_millis then ret (Some \<lparr>ah_name = name, ah_request_time = t, ah_signature = signature\<rparr>)
              else ret None))
      | _ \<Rightarrow> ret None)
   | _ \<Rightarrow> ret None)"

definition creds_cache :: "exn + (string, credentials) ttl_cache" where
  "creds_cache = new_ttl_cache 1000 (20 * 60)"

definition get_creds :: "'d application \<Rightarrow> string \<Rightarrow> (string, credentials, 'd, credentials) cache_prog" where
  "get_creds A name = bnd (cache_get (Some (find_credentials (ap_admin A))) name None) (\<lambda>c. case c of
     None \<Rightarrow> raise (not_authorized (''Unable to find '' @ quoted name @ '' credentials.'')) | Some c \<Rightarrow> ret c)"

section \<open>Routes\<close>

datatype request_body =
    SetPresenceBody string
  | AcceptWorkBody string string
  | DeclineWorkBody string string "string option"
  | CloseWorkBody string
  | MessageBody string string "string option" "message_attachment list option"

text \<open>What a route calls its function with: the instance or not, the request or its body, the session, the variables.\<close>

record call_args =
  ca_instance :: bool
  ca_request :: "http_request option"
  ca_body :: "request_body option"
  ca_session :: "session option"
  ca_params :: "(string, string) dict"

datatype 'd endpoint =
    Endpoint "'d application \<Rightarrow> call_args \<Rightarrow> ('d, http_response) app"
  | ApiEndpoint "call_args \<Rightarrow> 'd omni_api \<Rightarrow> ('d, http_response) web_prog"

definition body_allowed :: "http_method \<Rightarrow> bool" where
  "body_allowed m \<longleftrightarrow> m \<in> {POST, PATCH, PUT}"

record 'd route =
  rt_path :: string
  rt_has_query_params :: bool
  rt_pattern :: path_pattern
  rt_method :: http_method
  rt_response_codes :: "int list"
  rt_include_request :: bool
  rt_session_required :: bool
  rt_api_required :: bool
  rt_no_instance :: bool
  rt_transformer :: "(http_request \<Rightarrow> exn + request_body) option"
  rt_caller :: "'d endpoint"

definition new_route :: "string \<Rightarrow> http_method \<Rightarrow> int list \<Rightarrow> bool \<Rightarrow> bool \<Rightarrow> bool \<Rightarrow> bool \<Rightarrow>
    (http_request \<Rightarrow> exn + request_body) option \<Rightarrow> 'd endpoint \<Rightarrow> exn + 'd route" where
  "new_route path m codes inc sess api noinst tr caller =
     (let q = suffix ''?'' path; path = (if q then butlast path else path) in
      rbind (new_path path) (\<lambda>p. Inr \<lparr>rt_path = path, rt_has_query_params = q, rt_pattern = p, rt_method = m, rt_response_codes = codes,
        rt_include_request = inc, rt_session_required = sess, rt_api_required = api, rt_no_instance = noinst, rt_transformer = tr, rt_caller = caller\<rparr>))"

type_synonym 'd routes = "(string, 'd route) dict"

definition route_key :: "http_method \<Rightarrow> string \<Rightarrow> string" where
  "route_key m path = method_name m @ '':'' @ path"

definition add_route :: "string \<Rightarrow> http_method \<Rightarrow> int list \<Rightarrow> bool \<Rightarrow> bool \<Rightarrow> bool \<Rightarrow> bool \<Rightarrow>
    (http_request \<Rightarrow> exn + request_body) option \<Rightarrow> 'd endpoint \<Rightarrow> 'd routes \<Rightarrow> exn + 'd routes" where
  "add_route path m codes inc sess api noinst tr caller rs =
     (if dget (route_key m path) rs \<noteq> None then Inl AssertionError
      else if tr \<noteq> None \<and> \<not> body_allowed m then Inl AssertionError
      else rbind (new_route path m codes inc sess api noinst tr caller) (\<lambda>r. Inr (dset (route_key m path) r rs)))"

definition resource_route :: "string \<Rightarrow> string \<Rightarrow> string \<Rightarrow> string" where
  "resource_route root resource path = join_paths [join_base_path [root, resource], path] False"

text \<open>The first route with the method that matches, its variables with it; any route that matches, for another error.\<close>

fun find_full_route :: "string \<Rightarrow> string \<Rightarrow> 'd route list \<Rightarrow> exn + ('d route \<times> (string, string) dict) option" where
  "find_full_route path m [] = Inr None"
| "find_full_route path m (r # rs) = (if method_name (rt_method r) = m
     then rbind (path_matches (rt_pattern r) path (Some (split_path path))) (\<lambda>v. case v of
        Some vars \<Rightarrow> Inr (Some (r, vars)) | None \<Rightarrow> find_full_route path m rs)
     else find_full_route path m rs)"

fun find_route :: "string \<Rightarrow> 'd route list \<Rightarrow> exn + 'd route option" where
  "find_route path [] = Inr None"
| "find_route path (r # rs) = rbind (path_matches (rt_pattern r) path (Some (split_path path))) (\<lambda>v. case v of
     Some vars \<Rightarrow> Inr (Some r) | None \<Rightarrow> find_route path rs)"

definition authenticate :: "'d application \<Rightarrow> 'd route \<Rightarrow> http_request \<Rightarrow> ('d, http_request) app" where
  "authenticate A r rq = bnd (lift_res (rbind (get_required_header (rq_headers rq) ''Authorization'') as_str)) (\<lambda>header.
     case split_max '' '' 1 header of
       [kind, token] \<Rightarrow>
         if kind = ''1440-HMAC-SHA256-A'' then
           bnd (app_io (parse_auth_parts token)) (\<lambda>parts. case parts of
             None \<Rightarrow> raise (bad_request ''Invalid Authorization header.'' None)
           | Some p \<Rightarrow> bnd (on_creds (get_creds A (ah_name p))) (\<lambda>creds.
               bnd (lift_res (validate_auth (mg_crypto (ap_manager A)) p rq creds)) (\<lambda>rq.
               if rt_session_required r \<or> rt_api_required r then app_io (verify_session (ap_manager A) rq creds) else ret rq)))
         else raise (bad_request ''Invalid Authorization header.'' None)
     | _ \<Rightarrow> raise (bad_request ''Invalid Authorization header.'' None))"

text \<open>An error of Salesforce becomes a bad gateway.\<close>

definition sf_call_failed :: "exn \<Rightarrow> ('s, 'a) prog option" where
  "sf_call_failed e = (case e of
     HttpClientExn code body \<Rightarrow> Some (raise (HttpExn \<lparr>status_code = 502, message = ''SF call failed.'', http_headers = None, error_code = None,
        http_body = Some (PyDict [(''statusCode'', PyInt code), (''body'', PyStr body)])\<rparr>))
   | HttpServerExn code body \<Rightarrow> Some (raise (HttpExn \<lparr>status_code = 502, message = ''SF call failed.'', http_headers = None, error_code = None,
        http_body = Some (PyDict [(''statusCode'', PyInt code), (''body'', PyStr body)])\<rparr>))
   | _ \<Rightarrow> None)"

definition call_endpoint :: "'d application \<Rightarrow> 'd route \<Rightarrow> http_request \<Rightarrow> call_args \<Rightarrow> ('d, http_response) app" where
  "call_endpoint A r rq args = (case rt_caller r of
     Endpoint f \<Rightarrow> if rt_api_required r then raise TypeError else f A args
   | ApiEndpoint f \<Rightarrow> if rt_api_required r
       then bnd (lift_res (get_request_session rq)) (\<lambda>s.
         app_io (with_api (ap_forever A) (mg_services (ap_manager A)) (key_of_session s) (\<lambda>api. catch (f args api) sf_call_failed)))
       else raise TypeError)"

definition invoke_route :: "'d application \<Rightarrow> 'd route \<Rightarrow> http_request \<Rightarrow> (string, string) dict \<Rightarrow> ('d, http_response) app" where
  "invoke_route A r rq params =
     bnd (case rt_transformer r of
        Some tr \<Rightarrow> let rq = rq\<lparr>rq_params := Some params\<rparr> in bnd (lift_res (tr rq)) (\<lambda>b. ret (rq, None, Some b, []))
      | None \<Rightarrow> ret (rq, if rt_include_request r \<or> body_allowed (rt_method r) then Some rq else None, None, params)) (\<lambda>(rq, req, body, params).
     bnd (if rt_session_required r then bnd (lift_res (get_request_session rq)) (\<lambda>s. ret (Some s)) else ret None) (\<lambda>sess.
     call_endpoint A r rq \<lparr>ca_instance = \<not> rt_no_instance r, ca_request = req, ca_body = body, ca_session = sess, ca_params = params\<rparr>))"

definition process_request :: "'d application \<Rightarrow> 'd routes \<Rightarrow> http_request \<Rightarrow> ('d, http_response) app" where
  "process_request A rs rq = bnd (lift_res (find_full_route (rq_path rq) (rq_method rq) (dvalues rs))) (\<lambda>found. case found of
     None \<Rightarrow> bnd (lift_res (find_route (rq_path rq) (dvalues rs))) (\<lambda>r. case r of
        None \<Rightarrow> raise (not_found None) | Some _ \<Rightarrow> raise method_not_allowed)
   | Some (r, params) \<Rightarrow> bnd (authenticate A r rq) (\<lambda>rq. invoke_route A r rq params))"

end
