(* ===== verification/Controllers.thy ===== *)
theory Controllers
  imports Web_App
begin

text \<open>
  The functions of the routes (\<open>controllers/web_sessions.py\<close>, \<open>web_presence.py\<close>, \<open>web_conversations.py\<close>), the table of the
  routes, and the handlers of Lambda events (\<open>lambda_web_framework/__init__.py\<close>, \<open>app_handler.py\<close>, \<open>bean/loaders/web.py\<close>).
\<close>

section \<open>Presence\<close>

definition required_str :: "row \<Rightarrow> string \<Rightarrow> bool \<Rightarrow> nat option \<Rightarrow> exn + string \<times> row" where
  "required_str r name empty_ok limit = rbind (get_required_parameter r name StrType ''parameter'' True empty_ok limit) (\<lambda>(v, r).
     rbind (as_str v) (\<lambda>s. Inr (s, r)))"

definition set_presence_body :: "http_request \<Rightarrow> exn + request_body" where
  "set_presence_body rq = rbind (from_json (rq_body rq)) (\<lambda>r. rbind (required_str r ''id'' True None) (\<lambda>(i, r).
     rbind (assert_empty r) (\<lambda>_. Inr (SetPresenceBody i))))"

definition route_set_presence :: "call_args \<Rightarrow> 'd omni_api \<Rightarrow> ('d, http_response) web_prog" where
  "route_set_presence args api = (case (ca_instance args, ca_body args) of
     (False, Some (SetPresenceBody i)) \<Rightarrow>
        (case find_first_match (\<lambda>m. pz_id m = PyStr i) (api_presence_statuses api) of
           None \<Rightarrow> raise (invalid_parameter ''id'' (quoted i @ '' is invalid.''))
         | Some _ \<Rightarrow> bnd (set_presence_status api i) (\<lambda>_. ret response_no_content))
   | _ \<Rightarrow> raise TypeError)"

definition accept_work_body :: "http_request \<Rightarrow> exn + request_body" where
  "accept_work_body rq = rbind (from_json (rq_body rq)) (\<lambda>r. rbind (get_work_id r ''workId'') (\<lambda>(i, r).
     rbind (get_work_target_id r ''workTargetId'') (\<lambda>(t, r). rbind (assert_empty r) (\<lambda>_. Inr (AcceptWorkBody i t)))))"

definition route_accept_work :: "call_args \<Rightarrow> 'd omni_api \<Rightarrow> ('d, http_response) web_prog" where
  "route_accept_work args api = (case (ca_instance args, ca_body args) of
     (False, Some (AcceptWorkBody i t)) \<Rightarrow> bnd (accept_work api i t) (\<lambda>_. ret response_no_content)
   | _ \<Rightarrow> raise TypeError)"

definition decline_work_body :: "http_request \<Rightarrow> exn + request_body" where
  "decline_work_body rq = rbind (from_json (rq_body rq)) (\<lambda>r. rbind (get_work_id r ''workId'') (\<lambda>(i, r).
     rbind (get_work_target_id r ''workTargetId'') (\<lambda>(t, r). rbind (get_decline_reason r ''declineReason'') (\<lambda>(reason, r).
     rbind (assert_empty r) (\<lambda>_. rbind (case reason of None \<Rightarrow> Inr None | Some v \<Rightarrow> rbind (as_str v) (\<lambda>s. Inr (Some s))) (\<lambda>reason.
     Inr (DeclineWorkBody i t reason)))))))"

definition route_decline_work :: "call_args \<Rightarrow> 'd omni_api \<Rightarrow> ('d, http_response) web_prog" where
  "route_decline_work args api = (case (ca_instance args, ca_body args) of
     (False, Some (DeclineWorkBody i t reason)) \<Rightarrow> bnd (decline_work api i t reason) (\<lambda>_. ret response_no_content)
   | _ \<Rightarrow> raise TypeError)"

definition close_work_body :: "http_request \<Rightarrow> exn + request_body" where
  "close_work_body rq = rbind (from_json (rq_body rq)) (\<lambda>r. rbind (get_work_target_id r ''workTargetId'') (\<lambda>(t, r).
     rbind (assert_empty r) (\<lambda>_. Inr (CloseWorkBody t))))"

definition route_close_work :: "call_args \<Rightarrow> 'd omni_api \<Rightarrow> ('d, http_response) web_prog" where
  "route_close_work args api = (case (ca_instance args, ca_body args) of
     (False, Some (CloseWorkBody t)) \<Rightarrow> bnd (close_work api t) (\<lambda>_. ret response_no_content)
   | _ \<Rightarrow> raise TypeError)"

section \<open>Conversations\<close>

definition attachment_error :: "nat \<Rightarrow> string \<Rightarrow> exn" where
  "attachment_error i text = invalid_parameter (''attachments['' @ int_str (int i) @ '']'') text"

definition transform_attachment :: "pyval \<Rightarrow> string + message_attachment" where
  "transform_attachment a = (case a of
     PyDict d \<Rightarrow> (case value_or_none (dget ''key'' d) of
        PyNone \<Rightarrow> Inl (''Missing '' @ quoted ''key'' @ ''.'')
      | PyStr k \<Rightarrow> (case value_or_none (dget ''value'' d) of
           PyNone \<Rightarrow> Inl (''Missing '' @ quoted ''value'' @ ''.'')
         | PyStr v \<Rightarrow> Inr \<lparr>mx_key = k, mx_value = v\<rparr>
         | _ \<Rightarrow> Inl (quoted ''value'' @ '' must be a string.''))
      | _ \<Rightarrow> Inl (quoted ''key'' @ '' must be a string.''))
   | _ \<Rightarrow> Inl ''invalid type.'')"

fun transform_list :: "nat \<Rightarrow> pyval list \<Rightarrow> exn + message_attachment list" where
  "transform_list i [] = Inr []"
| "transform_list i (a # as) = (case transform_attachment a of
     Inl text \<Rightarrow> Inl (attachment_error i text)
   | Inr m \<Rightarrow> rbind (transform_list (Suc i) as) (\<lambda>ms. Inr (m # ms)))"

definition transform_attachments :: "pyval option \<Rightarrow> exn + message_attachment list option" where
  "transform_attachments v = (case v of
     None \<Rightarrow> Inr None
   | Some (PyList l) \<Rightarrow> rbind (transform_list 0 l) (\<lambda>ms. Inr (if ms \<noteq> [] then Some ms else None))
   | Some _ \<Rightarrow> Inl TypeError)"

definition optional_str :: "row \<Rightarrow> string \<Rightarrow> exn + string option \<times> row" where
  "optional_str r name = rbind (get_parameter (default_opts\<lparr>po_remove := True, po_none_if_empty := True\<rparr>) r name StrType) (\<lambda>(v, r).
     rbind (case v of None \<Rightarrow> Inr None | Some v \<Rightarrow> rbind (as_str v) (\<lambda>s. Inr (Some s))) (\<lambda>s. Inr (s, r)))"

definition message_body_of :: "http_request \<Rightarrow> exn + request_body" where
  "message_body_of rq = rbind (case get_url_parameter rq ''workTargetId'' of None \<Rightarrow> Inl TypeError | Some t \<Rightarrow> Inr t) (\<lambda>target.
     rbind (validate_work_target_id target ''workTargetId'' True) (\<lambda>_.
     rbind (from_json (rq_body rq)) (\<lambda>r.
     rbind (required_str r ''id'' False None) (\<lambda>(i, r).
     rbind (optional_str r ''messageBody'') (\<lambda>(text, r).
     rbind (get_parameter (default_opts\<lparr>po_remove := True\<rparr>) r ''attachments'' ListType) (\<lambda>(l, r).
     rbind (transform_attachments l) (\<lambda>as.
     rbind (assert_empty r) (\<lambda>_.
     if text = None \<and> as = None then Inl (bad_request ''Either messageBody or attachments must be specified.'' None)
     else Inr (MessageBody target i text as)))))))))"

definition route_send_message :: "call_args \<Rightarrow> 'd omni_api \<Rightarrow> ('d, http_response) web_prog" where
  "route_send_message args api = (case (ca_instance args, ca_body args) of
     (False, Some (MessageBody t i text as)) \<Rightarrow>
        bnd (send_work_message api \<lparr>wg_work_target_id = t, wg_message_id = i, wg_message_body = val_str text, wg_attachments = as\<rparr>)
          (\<lambda>_. ret response_no_content)
   | _ \<Rightarrow> raise TypeError)"

section \<open>Sessions\<close>

text \<open>The types become a set, whose elements are checked in the order they are visited in; lists and dictionaries have no hash.\<close>

fun check_channels :: "pyval list \<Rightarrow> exn + string list" where
  "check_channels [] = Inr []"
| "check_channels (v # vs) = (case v of
     PyStr s \<Rightarrow> rbind (assert_valid_platform_channel s) (\<lambda>ok. rbind (check_channels vs) (\<lambda>ss. Inr (if ok then s # ss else ss)))
   | _ \<Rightarrow> Inl AttributeError)"

definition extract_platform_channel_types :: "'d application \<Rightarrow> pyval list \<Rightarrow> exn + string list" where
  "extract_platform_channel_types A source = (if source = [] then Inl (bad_request ''Need at least one channelPlatformType.'' None)
     else if \<not> list_all hashable source then Inl TypeError else check_channels (ap_order A (remdups source)))"

definition request_tenant_id :: "'d application \<Rightarrow> http_request \<Rightarrow> string \<Rightarrow> ('d, int) app" where
  "request_tenant_id A rq org = bnd (on_orgs (get_tenant_id (ap_admin A) org)) (\<lambda>tenant.
     bnd (lift_res (rbind (get_credentials rq) (\<lambda>c. assert_tenant_access c tenant))) (\<lambda>_. ret tenant))"

record session_body =
  sb_user_id :: string
  sb_instance_url :: string
  sb_fcm_device_token :: string
  sb_access_token :: string
  sb_channels :: "string list"

definition session_body_of :: "'d application \<Rightarrow> http_request \<Rightarrow> exn + session_body" where
  "session_body_of A rq = rbind (from_json (rq_body rq)) (\<lambda>r.
     rbind (get_user_id r ''userId'') (\<lambda>(user, r).
     rbind (get_url r ''instanceUrl'') (\<lambda>(url, r).
     rbind (required_str r ''fcmDeviceToken'' False (Some 2048)) (\<lambda>(fcm, r).
     rbind (required_str r ''accessToken'' False (Some 4096)) (\<lambda>(access, r).
     rbind (required r ''channelPlatformTypes'' ListType) (\<lambda>(l, r).
     rbind (case l of PyList l \<Rightarrow> extract_platform_channel_types A l | _ \<Rightarrow> Inl TypeError) (\<lambda>chs.
     rbind (assert_empty r) (\<lambda>_.
     Inr \<lparr>sb_user_id = user, sb_instance_url = url, sb_fcm_device_token = fcm, sb_access_token = access, sb_channels = chs\<rparr>))))))))"

definition build_session :: "'d application \<Rightarrow> http_request \<Rightarrow> string \<Rightarrow> ('d, session) app" where
  "build_session A rq org = bnd (lift_res (session_body_of A rq)) (\<lambda>b.
     bnd (request_tenant_id A rq org) (\<lambda>tenant.
     app_io (bnd new_uuid (\<lambda>i. bnd get_system_time_in_millis (\<lambda>now.
       new_session \<lparr>s_org_id = org, s_tenant_id = tenant, s_session_id = i, s_time_created = now, s_user_id = sb_user_id b,
         s_instance_url = sb_instance_url b, s_access_token = sb_access_token b, s_fcm_device_token = Some (sb_fcm_device_token b),
         s_expiration_seconds = cf_session_expiration_seconds (en_config (mg_env (ap_manager A))),
         s_channel_platform_types = sb_channels b, s_state_counter = 1, s_update_time = now, s_status = PENDING,
         s_failure_message = None, s_expiration_time = None\<rparr> (Some now) None)))))"

text \<open>The headers that are asked for are in lower case, so \<open>Prefer\<close> is found in no request of the first kind.\<close>

definition prefers_async :: "http_request \<Rightarrow> bool" where
  "prefers_async rq \<longleftrightarrow> get_header rq ''Prefer'' = Some (PyStr ''respond-async'')"

definition session_exists :: "crypto \<Rightarrow> credentials \<Rightarrow> session \<Rightarrow> exn \<Rightarrow> ('d, 'a) app option" where
  "session_exists cy creds s e = (case e of
     UserSessionExists sid \<Rightarrow> Some (raise (HttpExn \<lparr>status_code = 409, message = ''User is logged into another session.'',
       http_headers = Some [(''X-1440-Session-Token'', token_serialize cy creds
          \<lparr>st_tenant_id = s_tenant_id s, st_session_id = sid, st_user_id = s_user_id s\<rparr>)], error_code = None, http_body = None\<rparr>))
   | _ \<Rightarrow> None)"

definition session_result_body :: "crypto \<Rightarrow> credentials \<Rightarrow> create_result \<Rightarrow> row" where
  "session_result_body cy creds r = (let s = mr_session r in
     [(''sessionToken'', PyStr (token_serialize cy creds \<lparr>st_tenant_id = s_tenant_id s, st_session_id = s_session_id s, st_user_id = s_user_id s\<rparr>)),
      (''expirationTime'', val_int (s_expiration_time s))] @
     (case mr_presence_statuses r of None \<Rightarrow> []
      | Some ps \<Rightarrow> [(''presenceStatuses'', PyList (map (\<lambda>p. PyDict (presence_to_record p)) ps))]))"

definition start_session :: "'d application \<Rightarrow> call_args \<Rightarrow> ('d, http_response) app" where
  "start_session A args = (case (ca_instance args, ca_request args, ca_params args) of
     (True, Some rq, [(name, org)]) \<Rightarrow> if name \<noteq> ''orgId'' then raise TypeError else
       bnd (lift_res (get_credentials rq)) (\<lambda>creds.
       bnd (build_session A rq org) (\<lambda>s.
       let cy = mg_crypto (ap_manager A) in
       bnd (catch (app_io (manager_create_session (ap_manager A) s (prefers_async rq))) (session_exists cy creds s)) (\<lambda>r.
       ret \<lparr>rs_code = (if mr_created r then (if prefers_async rq then 202 else 201) else 200),
         rs_body = Some (PyDict (session_result_body cy creds r)), rs_headers = None\<rparr>)))
   | _ \<Rightarrow> raise TypeError)"

definition token_params :: "(string, string) dict \<Rightarrow> (string \<times> string) option" where
  "token_params d = (if set (dkeys d) = {''orgId'', ''sessionToken''} then
     (case (dget ''orgId'' d, dget ''sessionToken'' d) of (Some org, Some token) \<Rightarrow> Some (org, token) | _ \<Rightarrow> None) else None)"

definition keepalive :: "'d application \<Rightarrow> call_args \<Rightarrow> ('d, http_response) app" where
  "keepalive A args = (case (ca_instance args, ca_request args, token_params (ca_params args)) of
     (True, Some rq, Some (org, token)) \<Rightarrow>
       bnd (request_tenant_id A rq org) (\<lambda>_.
       bnd (app_io (manager_keepalive (ap_manager A) token rq)) (\<lambda>t.
       ret (response_ok (Some (PyDict [(''expirationTime'', PyInt t)])))))
   | _ \<Rightarrow> raise TypeError)"

definition end_session :: "'d application \<Rightarrow> call_args \<Rightarrow> ('d, http_response) app" where
  "end_session A args = (case (ca_instance args, ca_request args, token_params (ca_params args)) of
     (True, Some rq, Some (org, token)) \<Rightarrow>
       bnd (request_tenant_id A rq org) (\<lambda>_.
       bnd (app_io (delete_session_by_token (ap_manager A) token rq)) (\<lambda>ok.
       if ok then ret response_no_content else raise (gone ''Session no longer exists.'')))
   | _ \<Rightarrow> raise TypeError)"

section \<open>The table of routes\<close>

definition root_url :: string where
  "root_url = ''/shim-service/''"

definition session_route :: "string \<Rightarrow> string" where
  "session_route = resource_route root_url ''organizations/{orgId}/sessions''"

definition presence_route :: "string \<Rightarrow> string" where
  "presence_route = resource_route root_url ''presence/actions''"

definition add_api_route :: "string \<Rightarrow> (http_request \<Rightarrow> exn + request_body) \<Rightarrow>
    (call_args \<Rightarrow> 'd omni_api \<Rightarrow> ('d, http_response) web_prog) \<Rightarrow> 'd routes \<Rightarrow> exn + 'd routes" where
  "add_api_route path tr f = add_route path POST [204] False False True True (Some tr) (ApiEndpoint f)"

definition all_routes :: "exn + 'd routes" where
  "all_routes =
     rbind (add_route (session_route []) PUT [200, 201] False False False False None (Endpoint start_session) []) (\<lambda>rs.
     rbind (add_route (session_route ''{sessionToken}/actions/keep-alive'') POST [204] True False False False None (Endpoint keepalive) rs) (\<lambda>rs.
     rbind (add_route (session_route ''{sessionToken}'') DELETE [204, 410] True False False False None (Endpoint end_session) rs) (\<lambda>rs.
     rbind (add_api_route (presence_route ''set-status'') set_presence_body route_set_presence rs) (\<lambda>rs.
     rbind (add_api_route (presence_route ''accept-work'') accept_work_body route_accept_work rs) (\<lambda>rs.
     rbind (add_api_route (presence_route ''decline-work'') decline_work_body route_decline_work rs) (\<lambda>rs.
     rbind (add_api_route (presence_route ''close-work'') close_work_body route_close_work rs) (\<lambda>rs.
     add_api_route (resource_route root_url [] ''work-conversations/{workTargetId}/messages'') message_body_of route_send_message rs)))))))"

section \<open>Handlers of Lambda events\<close>

text \<open>A bean that can be invoked has a name; it answers a value, or nothing.\<close>

datatype 'd request_handler =
    WebHandler
  | BeanHandler string "pyval option \<Rightarrow> ('d, pyval option) io"

definition success_response :: pyval where
  "success_response = PyDict [(''statusCode'', PyInt 200), (''body'', PyStr ''OK'')]"

definition http_failure :: "exn \<Rightarrow> ('s, pyval option) prog option" where
  "http_failure e = (case e of HttpExn h \<Rightarrow> Some (ret (Some (PyDict (http_to_response h)))) | _ \<Rightarrow> None)"

definition handle_web :: "'d application \<Rightarrow> 'd routes \<Rightarrow> row \<Rightarrow> ('d, pyval option) app" where
  "handle_web A rs event = (if \<not> is_web_event event then ret None
     else catch (bnd (lift_res (new_request event)) (\<lambda>rq. bnd (process_request A rs rq) (\<lambda>r. ret (Some (PyDict (response_to_dict r)))))) http_failure)"

definition handle_bean :: "string \<Rightarrow> (pyval option \<Rightarrow> ('d, pyval option) io) \<Rightarrow> row \<Rightarrow> ('d, pyval option) io" where
  "handle_bean name invoke event = (if dget ''bean'' event = Some (PyStr name)
     then bnd (invoke (none_if_null (dget ''parameters'' event))) (\<lambda>r.
       ret (Some (case r of None \<Rightarrow> success_response | Some v \<Rightarrow> if truthy v then v else success_response)))
     else ret None)"

definition handle_event :: "'d application \<Rightarrow> 'd routes \<Rightarrow> 'd request_handler \<Rightarrow> row \<Rightarrow> ('d, pyval option) app" where
  "handle_event A rs h event = (case h of WebHandler \<Rightarrow> handle_web A rs event | BeanHandler n f \<Rightarrow> app_io (handle_bean n f event))"

fun dispatch_event :: "'d application \<Rightarrow> 'd routes \<Rightarrow> 'd request_handler list \<Rightarrow> row \<Rightarrow> ('d, pyval option) app" where
  "dispatch_event A rs [] event = ret None"
| "dispatch_event A rs (h # hs) event = bnd (handle_event A rs h event) (\<lambda>r. case r of
     Some v \<Rightarrow> ret (Some v) | None \<Rightarrow> dispatch_event A rs hs event)"

definition server_error_response :: pyval where
  "server_error_response = PyDict [(''statusCode'', PyInt 500), (''body'', PyDict [(''errorMessage'', PyStr ''Internal Server Error'')])]"

definition client_error_response :: pyval where
  "client_error_response = PyDict [(''statusCode'', PyInt 400), (''body'', PyDict [(''errorMessage'', PyStr ''Invalid Request'')])]"

definition any_failure :: "exn \<Rightarrow> ('s, pyval option) prog option" where
  "any_failure e = (if e = OutOfFuel then None else Some (ret (Some server_error_response)))"

definition check_event :: "int \<Rightarrow> row \<Rightarrow> pyval option" where
  "check_event start_time event = (if dget ''command'' event = Some (PyStr ''ping'')
     then Some (PyDict [(''statusCode'', PyInt 200), (''body'', PyDict [(''pong'', PyInt start_time)])]) else None)"

text \<open>The body becomes text, except of the answers to a ping and to an event that no handler takes.\<close>

definition finish_response :: "pyval \<Rightarrow> exn + pyval" where
  "finish_response r = (case r of
     PyDict d \<Rightarrow> (let d = dset ''isBase64Encoded'' (PyBool False) d in
       (case dget ''body'' d of
          Some (PyDict b) \<Rightarrow> rbind (json_dumps (PyDict b)) (\<lambda>t. Inr (PyDict (dset ''body'' (PyStr t) d)))
        | _ \<Rightarrow> Inr (PyDict d)))
   | _ \<Rightarrow> Inr r)"

definition handler :: "int \<Rightarrow> 'd application \<Rightarrow> 'd routes \<Rightarrow> 'd request_handler list \<Rightarrow> row \<Rightarrow> ('d, pyval) app" where
  "handler start_time A rs hs event = (case check_event start_time event of
     Some r \<Rightarrow> ret r
   | None \<Rightarrow> bnd (catch (dispatch_event A rs hs event) any_failure) (\<lambda>r. case r of
       None \<Rightarrow> ret client_error_response
     | Some v \<Rightarrow> lift_res (finish_response v)))"

end
