(* ===== verification/Web_Safety.thy ===== *)
theory Web_Safety
  imports Controllers
begin

text \<open>
  What the web application guarantees: a function of a route runs only for requests that carry a fresh and right signature;
  a session that is verified is the one of the token, active, and of a tenant the client may use; every answer to an event
  that a handler takes is a response with a status and a text as its body.
\<close>

section \<open>Authentication\<close>

lemma join_split_from_max: "sep \<noteq> [] \<Longrightarrow> join_str sep (split_from_max n sep acc s) = rev acc @ s"
proof (induction n sep acc s rule: split_from_max.induct)
  case (2 n sep acc c cs)
  have ne: "split_from_max m sep a t \<noteq> []" for m a t by (induction m sep a t rule: split_from_max.induct) auto
  have p: "prefix sep (c # cs) \<Longrightarrow> sep @ drop (length sep) (c # cs) = c # cs" by (auto simp: prefix_def)
  have step: "ps \<noteq> [] \<Longrightarrow> join_str sep (x # ps) = x @ sep @ join_str sep ps" for x ps by (cases ps) auto
  show ?case
  proof (cases "n \<noteq> 0 \<and> prefix sep (c # cs)")
    case True
    then show ?thesis using 2 ne p by (simp add: step)
  qed (use 2 in auto)
qed simp

lemma join_split_max: "sep \<noteq> [] \<Longrightarrow> join_str sep (split_max sep n s) = s"
  by (simp add: split_max_def join_split_from_max)

lemma as_str_Inr: "as_str v = Inr s \<longleftrightarrow> v = PyStr s"
  by (cases v) (auto simp: as_str_def)

text \<open>What was signed, by whom and when: \<open>now\<close> is the reading of the clock that the time of the request is compared with.\<close>

definition signed_request :: "crypto \<Rightarrow> int \<Rightarrow> http_request \<Rightarrow> auth_parts \<Rightarrow> credentials \<Rightarrow> bool" where
  "signed_request cy now rq p creds \<longleftrightarrow> \<bar>now - ah_request_time p\<bar> \<le> 5555 \<and>
     (case str_body (rq_body rq) of Inl e \<Rightarrow> False | Inr body \<Rightarrow>
        ah_signature p = sr_signature (creds_sign cy creds (rq_method rq) (rq_path rq) (ah_request_time p) body))"

text \<open>The parts of a token, as the text that was encoded.\<close>

definition token_of_parts :: "string \<Rightarrow> auth_parts \<Rightarrow> bool" where
  "token_of_parts token p \<longleftrightarrow> (\<exists>time. decode_base64_to_string (Some token) False = Inr (Some (ah_name p @ '':'' @ time @ '':'' @ ah_signature p)) \<and>
     int_of_str time = Inr (ah_request_time p))"

lemma parse_auth_parts_fresh:
  assumes "parse_auth_parts token w = (Inr (Some p), w')"
  shows "\<bar>w_clock w (w_ticks w) - ah_request_time p\<bar> \<le> 5555" "token_of_parts token p"
proof -
  from assms obtain decoded name time signature where d: "decode_base64_to_string (Some token) False = Inr (Some decoded)"
    "split_max '':'' 3 decoded = [name, time, signature]" "int_of_str time = Inr (ah_request_time p)" "ah_name p = name" "ah_signature p = signature"
    and f: "\<bar>w_clock w (w_ticks w) - ah_request_time p\<bar> \<le> 5555"
    unfolding parse_auth_parts_def
    by (auto simp: get_system_time_in_millis_def grace_time_millis_def bnd_def split: sum.splits option.splits list.splits if_splits)
  show "\<bar>w_clock w (w_ticks w) - ah_request_time p\<bar> \<le> 5555" by (rule f)
  show "token_of_parts token p" using join_split_max [of "'':''" 3 decoded] d by (auto simp: token_of_parts_def)
qed

lemma app_ioE: "app_io q s = (r, s') \<Longrightarrow> \<exists>w. q (as_world s) = (r, w) \<and> s' = s\<lparr>as_world := w\<rparr>"
  by (auto simp: app_io_def split: prod.splits)

lemma authenticated:
  assumes "authenticate A r rq s = (Inr rq', s')"
  obtains token p creds s1 s2 where
    "get_required_header (rq_headers rq) ''Authorization'' = Inr (PyStr (''1440-HMAC-SHA256-A '' @ token))" "token_of_parts token p"
    "on_creds (get_creds A (ah_name p)) s1 = (Inr creds, s2)"
    "signed_request (mg_crypto (ap_manager A)) (w_clock (as_world s) (w_ticks (as_world s))) rq p creds"
    "if rt_session_required r \<or> rt_api_required r
       then app_io (verify_session (ap_manager A) (rq\<lparr>rq_creds := Some creds\<rparr>) creds) s2 = (Inr rq', s')
       else rq' = rq\<lparr>rq_creds := Some creds\<rparr> \<and> s' = s2"
proof -
  from assms obtain header where h: "get_required_header (rq_headers rq) ''Authorization'' = Inr (PyStr header)"
    and rest: "(case split_max '' '' 1 header of
       [kind, token] \<Rightarrow>
         if kind = ''1440-HMAC-SHA256-A'' then
           bnd (app_io (parse_auth_parts token)) (\<lambda>parts. case parts of
             None \<Rightarrow> raise (bad_request ''Invalid Authorization header.'' None)
           | Some p \<Rightarrow> bnd (on_creds (get_creds A (ah_name p))) (\<lambda>creds.
               bnd (lift_res (validate_auth (mg_crypto (ap_manager A)) p rq creds)) (\<lambda>rq.
               if rt_session_required r \<or> rt_api_required r then app_io (verify_session (ap_manager A) rq creds) else ret rq)))
         else raise (bad_request ''Invalid Authorization header.'' None)
     | _ \<Rightarrow> raise (bad_request ''Invalid Authorization header.'' None)) s = (Inr rq', s')"
    unfolding authenticate_def
    by (elim bnd_InrE) (auto simp: rbind_eq_Inr as_str_Inr)
  from rest obtain token where t: "split_max '' '' 1 header = [''1440-HMAC-SHA256-A'', token]"
    and rest: "bnd (app_io (parse_auth_parts token)) (\<lambda>parts. case parts of
             None \<Rightarrow> raise (bad_request ''Invalid Authorization header.'' None)
           | Some p \<Rightarrow> bnd (on_creds (get_creds A (ah_name p))) (\<lambda>creds.
               bnd (lift_res (validate_auth (mg_crypto (ap_manager A)) p rq creds)) (\<lambda>rq.
               if rt_session_required r \<or> rt_api_required r then app_io (verify_session (ap_manager A) rq creds) else ret rq))) s = (Inr rq', s')"
    by (auto split: list.splits if_splits)
  have header: "header = ''1440-HMAC-SHA256-A '' @ token" using join_split_max [of "'' ''" 1 header] t by simp
  from rest obtain p s1 creds s2 where p: "app_io (parse_auth_parts token) s = (Inr (Some p), s1)"
    and c: "on_creds (get_creds A (ah_name p)) s1 = (Inr creds, s2)"
    and v: "bnd (lift_res (validate_auth (mg_crypto (ap_manager A)) p rq creds)) (\<lambda>rq.
               if rt_session_required r \<or> rt_api_required r then app_io (verify_session (ap_manager A) rq creds) else ret rq) s2 = (Inr rq', s')"
    by (elim bnd_InrE) (auto elim!: bnd_InrE split: option.splits)
  obtain w where w: "parse_auth_parts token (as_world s) = (Inr (Some p), w)" using app_ioE [OF p] by blast
  have val: "validate_auth (mg_crypto (ap_manager A)) p rq creds = Inr (rq\<lparr>rq_creds := Some creds\<rparr>)"
    and sig: "case str_body (rq_body rq) of Inl e \<Rightarrow> False | Inr body \<Rightarrow> ah_signature p =
        sr_signature (creds_sign (mg_crypto (ap_manager A)) creds (rq_method rq) (rq_path rq) (ah_request_time p) body)"
    using v by (auto simp: validate_auth_def rbind_eq_Inr elim!: bnd_InrE split: if_splits sum.splits)
  show thesis
    by (rule that [OF h [unfolded header] parse_auth_parts_fresh(2) [OF w] c])
      (use parse_auth_parts_fresh(1) [OF w] sig v in \<open>auto simp: signed_request_def val\<close>)
qed


text \<open>A request to a route that does nothing, signed at the start of the clock.\<close>

definition probe_crypto :: crypto where
  "probe_crypto = example_crypto\<lparr>cy_hmac_hex := (\<lambda>s _. filter (\<lambda>c. c \<noteq> CHR '':'') s)\<rparr>"

definition scripted_http :: "nat http_client" where
  "scripted_http = \<lparr>hc_default_timeout = None, hc_request = (\<lambda>m u p. raise AssertionError), hc_jar = ret [], hc_jar_get = (\<lambda>n h p. ret None)\<rparr>"

definition scripted_admin :: "nat admin_client" where
  "scripted_admin = \<lparr>ac_http = scripted_http, ac_crypto = example_crypto, ac_url = ''https://cs'', ac_creds = None\<rparr>"

definition scripted_app :: "answer list \<Rightarrow> nat application" where
  "scripted_app script = \<lparr>ap_manager = (scripted_manager script)\<lparr>mg_crypto := probe_crypto\<rparr>, ap_admin = scripted_admin, ap_forever = id, ap_order = id\<rparr>"

definition probe_routes :: "nat routes" where
  "probe_routes = (case add_route ''/shim-service/probe'' GET [204] False False False True None (Endpoint (\<lambda>A args. ret response_no_content)) [] of
     Inr rs \<Rightarrow> rs | Inl e \<Rightarrow> [])"

definition probe_signature :: string where
  "probe_signature = sr_signature (creds_sign probe_crypto example_credentials ''GET'' ''/shim-service/probe'' 0 None)"

definition probe_request :: http_request where
  "probe_request = \<lparr>rq_path = ''/shim-service/probe'', rq_method = ''GET'', rq_source_ip = [],
     rq_headers = [(''authorization'', PyStr (''1440-HMAC-SHA256-A '' @ encode_to_base64string (''client:0:'' @ probe_signature)))],
     rq_body = None, rq_query = None, rq_creds = None, rq_session = None, rq_params = None\<rparr>"

definition probe_state :: "nat app_state" where
  "probe_state = \<lparr>as_orgs = \<lparr>tc_maxsize = 1000, tc_ttl_seconds = 600, tc_cache = []\<rparr>,
     as_creds = \<lparr>tc_maxsize = 1000, tc_ttl_seconds = 1200, tc_cache = [(''client'', (example_credentials, 9000000))]\<rparr>, as_world = scripted_world\<rparr>"


lemma step_probe: "Q (process_request (scripted_app []) probe_routes probe_request probe_state) =
    Q (Inr response_no_content, probe_state\<lparr>as_world := at_step 0 2 0\<rparr>)" for Q :: "_ \<Rightarrow> bool"
  by code_simp


section \<open>The session of a request\<close>

lemma get_session_found:
  assumes "get_session E k in_path allow_pending allow_failure w = (Inr s, w')"
  shows "find_session E k w = (Inr (Some s), w')"
  using assms unfolding get_session_def by (auto elim!: bnd_InrE split: option.splits if_splits)

lemma verify_status_active:
  "verify_session_status s False b = Inr () \<Longrightarrow> s_status s = ACTIVE \<or> b \<and> s_status s = FAILED"
  by (cases "s_status s") (auto simp: verify_session_status_def split: if_splits)

text \<open>
  C6 (safety). The session that \<open>verify_session\<close> puts into a request is the one its token names, found in the repository: the
  token was made with the credentials, its tenant is one of theirs, its user is the one of the session, and the session is active.
\<close>

theorem verified_session:
  assumes "verify_session M rq creds w = (Inr rq', w')"
  shows "\<exists>t token s. get_header rq ''x-1440-session-token'' = Some (PyStr t) \<and> token_deserialize (mg_crypto M) creds t = Inr token \<and>
    has_access_to_tenant creds (st_tenant_id token) \<and>
    find_session (mg_env M) (key_of_args (st_tenant_id token) (st_session_id token)) w = (Inr (Some s), w') \<and>
    s_user_id s = st_user_id token \<and> s_status s = ACTIVE \<and> rq' = rq\<lparr>rq_session := Some s\<rparr>"
proof -
  from assms obtain s where l: "load_session M rq (Some creds) None False False w = (Inr s, w')" and rq': "rq' = rq\<lparr>rq_session := Some s\<rparr>"
    by (auto simp: verify_session_def elim!: bnd_InrE)
  from l obtain t token where t: "get_header rq ''x-1440-session-token'' = Some (PyStr t)" "token_deserialize (mg_crypto M) creds t = Inr token"
    and a: "assert_tenant_access creds (st_tenant_id token) = Inr ()"
    and g: "get_session (mg_env M) (key_of_args (st_tenant_id token) (st_session_id token)) False True False w = (Inr s, w')"
    and u: "s_user_id s = st_user_id token" and v: "verify_session_status s False False = Inr ()"
    unfolding load_session_def by (auto simp: as_str_Inr elim!: bnd_InrE split: option.splits if_splits)
  have "has_access_to_tenant creds (st_tenant_id token)" using a by (simp add: assert_tenant_access_def split: if_splits)
  then show ?thesis using t get_session_found [OF g] u verify_status_active [OF v] rq' by blast
qed

definition probe_session_request :: http_request where
  "probe_session_request = probe_request\<lparr>rq_headers := [(''x-1440-session-token'', PyStr (token_serialize example_crypto example_credentials
     \<lparr>st_tenant_id = 7, st_session_id = ''s'', st_user_id = ''u''\<rparr>))]\<rparr>"

definition session_script :: "answer list" where
  "session_script = [AItem (Some (item_of (session_to_record example_session)))]"

lemma step_verify: "Q (verify_session (scripted_manager session_script) probe_session_request example_credentials scripted_world) =
    Q (Inr (probe_session_request\<lparr>rq_session := Some found_session\<rparr>), at_step 1 0 0)" for Q :: "_ \<Rightarrow> bool"
  by code_simp

lemma verified_session_witness:
  "\<exists>t token s. get_header probe_session_request ''x-1440-session-token'' = Some (PyStr t) \<and>
    token_deserialize (mg_crypto (scripted_manager session_script)) example_credentials t = Inr token \<and>
    has_access_to_tenant example_credentials (st_tenant_id token) \<and>
    find_session (mg_env (scripted_manager session_script)) (key_of_args (st_tenant_id token) (st_session_id token)) scripted_world =
      (Inr (Some s), at_step 1 0 0) \<and>
    s_user_id s = st_user_id token \<and> s_status s = ACTIVE \<and>
    probe_session_request\<lparr>rq_session := Some found_session\<rparr> = probe_session_request\<lparr>rq_session := Some s\<rparr>"
  by (rule verified_session [OF step_verify [THEN eval_eq]])

section \<open>The answers\<close>

fun text_or_none :: "pyval option \<Rightarrow> bool" where
  "text_or_none None = True"
| "text_or_none (Some (PyStr t)) = True"
| "text_or_none (Some v) = False"

fun dict_or_none :: "pyval option \<Rightarrow> bool" where
  "dict_or_none None = True"
| "dict_or_none (Some (PyDict d)) = True"
| "dict_or_none (Some v) = False"

fun is_int_value :: "pyval option \<Rightarrow> bool" where
  "is_int_value (Some (PyInt i)) = True"
| "is_int_value v = False"

text \<open>What AWS takes for the answer of a function: a status, and a body that is text.\<close>

fun lambda_response :: "pyval \<Rightarrow> bool" where
  "lambda_response (PyDict d) \<longleftrightarrow> is_int_value (dget ''statusCode'' d) \<and> text_or_none (dget ''body'' d) \<and>
     dget ''isBase64Encoded'' d = Some (PyBool False)"
| "lambda_response v \<longleftrightarrow> False"

fun raw_response_ok :: "pyval \<Rightarrow> bool" where
  "raw_response_ok (PyDict d) \<longleftrightarrow> is_int_value (dget ''statusCode'' d) \<and> (dict_or_none (dget ''body'' d) \<or> text_or_none (dget ''body'' d))"
| "raw_response_ok v \<longleftrightarrow> False"

lemma finish_response_type:
  assumes "finish_response v = Inr r" "raw_response_ok v"
  shows "lambda_response r"
proof -
  obtain d where d: "v = PyDict d" using assms(2) by (cases v) auto
  show ?thesis
  proof (cases "dget ''body'' d")
    case (Some b)
    then show ?thesis using assms d by (cases b) (auto simp: finish_response_def rbind_eq_Inr)
  qed (use assms d in \<open>auto simp: finish_response_def\<close>)
qed

definition typed :: "http_response \<Rightarrow> bool" where
  "typed r \<longleftrightarrow> dict_or_none (rs_body r)"

lemma typed_simps [simp]: "typed response_no_content" "typed (response_ok (Some (PyDict d)))"
  "typed \<lparr>rs_code = c, rs_body = Some (PyDict d), rs_headers = h\<rparr>"
  by (simp_all add: typed_def response_no_content_def response_ok_def)

lemma typed_response: "typed r \<Longrightarrow> raw_response_ok (PyDict (response_to_dict r))"
  by (cases "rs_body r"; cases "rs_headers r") (auto simp: typed_def response_to_dict_def)

lemma failure_response: "raw_response_ok (PyDict (http_to_response h))"
  by (auto simp: http_to_response_def Let_def split: option.splits)

text \<open>A function of a route answers typed responses.\<close>

definition endpoint_typed :: "'d endpoint \<Rightarrow> bool" where
  "endpoint_typed e \<longleftrightarrow> (case e of
     Endpoint f \<Rightarrow> \<forall>A args s r s'. f A args s = (Inr r, s') \<longrightarrow> typed r
   | ApiEndpoint f \<Rightarrow> \<forall>args api s r s'. f args api s = (Inr r, s') \<longrightarrow> typed r)"

lemma session_endpoints: "endpoint_typed (Endpoint start_session)" "endpoint_typed (Endpoint keepalive)" "endpoint_typed (Endpoint end_session)"
  by (auto simp: endpoint_typed_def start_session_def keepalive_def end_session_def Let_def elim!: bnd_InrE
      split: prod.splits option.splits list.splits if_splits bool.splits)

lemma presence_endpoints: "endpoint_typed (ApiEndpoint route_set_presence)" "endpoint_typed (ApiEndpoint route_accept_work)"
  "endpoint_typed (ApiEndpoint route_decline_work)" "endpoint_typed (ApiEndpoint route_close_work)" "endpoint_typed (ApiEndpoint route_send_message)"
  by (auto simp: endpoint_typed_def route_set_presence_def route_accept_work_def route_decline_work_def route_close_work_def
      route_send_message_def elim!: bnd_InrE split: prod.splits option.splits bool.splits request_body.splits)

definition routes_typed :: "'d routes \<Rightarrow> bool" where
  "routes_typed rs \<longleftrightarrow> (\<forall>r\<in>set (dvalues rs). endpoint_typed (rt_caller r))"

lemma new_route_caller: "new_route path m codes inc sess api noinst tr caller = Inr r \<Longrightarrow> rt_caller r = caller"
  by (auto simp: new_route_def Let_def rbind_eq_Inr)

lemma add_route_typed:
  assumes "add_route path m codes inc sess api noinst tr caller rs = Inr rs'" "routes_typed rs" "endpoint_typed caller"
  shows "routes_typed rs'"
proof -
  from assms(1) obtain r where r: "rt_caller r = caller" "rs' = dset (route_key m path) r rs" "dget (route_key m path) rs = None"
    by (auto simp: add_route_def rbind_eq_Inr split: if_splits dest: new_route_caller)
  then have "rs' = rs @ [(route_key m path, r)]" by (simp add: dset_absent)
  then show ?thesis using assms(2,3) r(1) by (auto simp: routes_typed_def dvalues_def)
qed

lemma all_routes_typed: "all_routes = Inr rs \<Longrightarrow> routes_typed rs"
  unfolding all_routes_def add_api_route_def rbind_eq_Inr
  by (elim exE conjE) (rule add_route_typed, assumption, (rule add_route_typed, assumption)+,
      simp_all add: session_endpoints presence_endpoints routes_typed_def dvalues_def)

lemma found_route: "find_full_route path m rs = Inr (Some (r, v)) \<Longrightarrow> r \<in> set rs"
  by (induction path m rs rule: find_full_route.induct) (auto simp: rbind_eq_Inr split: if_splits option.splits)

lemma with_api_result:
  assumes "with_api forever S k body w = (Inr r, w')"
  shows "\<exists>A z w1 s'. body A (z, w1) = (Inr r, s')"
  using assms unfolding with_api_def by (auto elim!: bnd_InrE split: prod.splits sum.splits) blast

lemma catch_sf_failed: "catch p sf_call_failed s = (Inr r, s') \<Longrightarrow> p s = (Inr r, s')"
  by (auto simp: catch_def sf_call_failed_def split: prod.splits sum.splits exn.splits option.splits)

lemma process_typed:
  assumes "process_request A rs rq s = (Inr resp, s')" "routes_typed rs"
  shows "typed resp"
proof -
  from assms(1) obtain r params rq1 s1 where f: "find_full_route (rq_path rq) (rq_method rq) (dvalues rs) = Inr (Some (r, params))"
    and i: "invoke_route A r rq1 params s1 = (Inr resp, s')"
    unfolding process_request_def by (elim bnd_InrE) (auto elim!: bnd_InrE split: option.splits)
  have e: "endpoint_typed (rt_caller r)" using found_route [OF f] assms(2) by (simp add: routes_typed_def)
  from i obtain rq2 args s2 where c: "call_endpoint A r rq2 args s2 = (Inr resp, s')"
    unfolding invoke_route_def by (elim bnd_InrE) (auto elim!: bnd_InrE split: prod.splits)
  show ?thesis
  proof (cases "rt_caller r")
    case (Endpoint f)
    then have "f A args s2 = (Inr resp, s')" using c by (simp add: call_endpoint_def split: if_splits)
    moreover have "\<forall>A args s r s'. f A args s = (Inr r, s') \<longrightarrow> typed r" using e unfolding endpoint_typed_def Endpoint endpoint.case .
    ultimately show ?thesis by blast
  next
    case (ApiEndpoint f)
    with c obtain k w w1 where "with_api (ap_forever A) (mg_services (ap_manager A)) k (\<lambda>api. catch (f args api) sf_call_failed) w = (Inr resp, w1)"
      by (auto simp: call_endpoint_def app_io_def elim!: bnd_InrE split: if_splits prod.splits)
    from with_api_result [OF this] obtain api z w2 t where "catch (f args api) sf_call_failed (z, w2) = (Inr resp, t)" by blast
    then have r: "f args api (z, w2) = (Inr resp, t)" by (rule catch_sf_failed)
    have "\<forall>args api s r s'. f args api s = (Inr r, s') \<longrightarrow> typed r" using e unfolding endpoint_typed_def ApiEndpoint endpoint.case .
    then show ?thesis using r by blast
  qed
qed

definition answers_nothing :: "(pyval option \<Rightarrow> ('d, pyval option) io) \<Rightarrow> bool" where
  "answers_nothing f \<longleftrightarrow> (\<forall>p w r w'. f p w = (Inr r, w') \<longrightarrow> r = None)"

fun quiet_handler :: "'d request_handler \<Rightarrow> bool" where
  "quiet_handler WebHandler = True"
| "quiet_handler (BeanHandler n f) = answers_nothing f"

lemma handled_type:
  assumes "handle_event A rs h event s = (Inr (Some v), s')" "routes_typed rs" "quiet_handler h"
  shows "raw_response_ok v"
proof (cases h)
  case WebHandler
  show ?thesis
  proof (cases "bnd (lift_res (new_request event)) (\<lambda>rq. bnd (process_request A rs rq) (\<lambda>r. ret (Some (PyDict (response_to_dict r))))) s")
    case (Pair res t)
    then show ?thesis
    proof (cases res)
      case (Inl e)
      then show ?thesis using assms(1) WebHandler Pair failure_response
        by (cases e) (auto simp: handle_event_def handle_web_def catch_def http_failure_def split: if_splits)
    next
      case (Inr x)
      then have "x = Some v" using assms(1) WebHandler Pair by (auto simp: handle_event_def handle_web_def catch_def split: if_splits)
      then show ?thesis using Pair Inr process_typed [OF _ assms(2)] typed_response by (auto elim!: bnd_InrE)
    qed
  qed
next
  case (BeanHandler n f)
  have n: "answers_nothing f" using assms(3) BeanHandler by simp
  have "v = success_response" using assms(1) BeanHandler
    by (auto simp: handle_event_def handle_bean_def app_io_def elim!: bnd_InrE split: prod.splits if_splits option.splits
        dest: n [unfolded answers_nothing_def, rule_format])
  then show ?thesis by (simp add: success_response_def)
qed

lemma dispatched_type:
  assumes "dispatch_event A rs hs event s = (Inr (Some v), s')" "routes_typed rs" "list_all quiet_handler hs"
  shows "raw_response_ok v"
  using assms
proof (induction hs arbitrary: s)
  case (Cons h hs)
  from Cons.prems(1) obtain r s1 where r: "handle_event A rs h event s = (Inr r, s1)"
    "(case r of Some v \<Rightarrow> ret (Some v) | None \<Rightarrow> dispatch_event A rs hs event) s1 = (Inr (Some v), s')"
    by (auto elim: bnd_InrE)
  show ?case
  proof (cases r)
    case None
    then show ?thesis using Cons r by simp
  next
    case (Some u)
    then show ?thesis using r handled_type Cons.prems(2,3) by fastforce
  qed
qed simp

text \<open>
  C40 (type). With the routes of the application and beans that answer nothing, whatever the event, the answer has a status that is
  an integer, a body that is absent or a text, and says that the body is not encoded; but for the answers to a ping and to an event
  that no handler takes, whose body stays a dictionary.
\<close>

theorem handler_answer_type:
  assumes "all_routes = Inr rs" "list_all quiet_handler hs" "handler start_time A rs hs event s = (Inr v, s')"
  shows "lambda_response v \<or> v = client_error_response \<or>
    dget ''command'' event = Some (PyStr ''ping'') \<and> v = PyDict [(''statusCode'', PyInt 200), (''body'', PyDict [(''pong'', PyInt start_time)])]"
proof (cases "check_event start_time event")
  case (Some r)
  then show ?thesis using assms(3) by (auto simp: handler_def check_event_def split: if_splits)
next
  case None
  from assms(3) obtain r t where r: "catch (dispatch_event A rs hs event) any_failure s = (Inr r, t)"
    "(case r of None \<Rightarrow> ret client_error_response | Some v \<Rightarrow> lift_res (finish_response v)) t = (Inr v, s')"
    unfolding handler_def None option.case by (elim bnd_InrE) blast
  show ?thesis
  proof (cases r)
    case (Some u)
    have "raw_response_ok u"
    proof (cases "dispatch_event A rs hs event s")
      case (Pair res t')
      show ?thesis
      proof (cases res)
        case (Inl e)
        then have "u = server_error_response" using r(1) Some Pair by (auto simp: catch_def any_failure_def split: if_splits)
        then show ?thesis by (simp add: server_error_response_def)
      next
        case (Inr x)
        then have "x = Some u" using r(1) Some Pair by (simp add: catch_def)
        then show ?thesis using dispatched_type [OF _ all_routes_typed [OF assms(1)] assms(2)] Pair Inr by blast
      qed
    qed
    moreover have "finish_response u = Inr v" using r(2) Some by simp
    ultimately show ?thesis using finish_response_type by blast
  qed (use r(2) in simp)
qed

definition missing_path :: row where
  "missing_path = [(''rawPath'', PyStr ''/shim-service/none''), (''headers'', PyDict [(''a'', PyStr ''b'')]),
     (''requestContext'', PyDict [(''http'', PyDict [(''sourceIp'', PyStr ''i''), (''method'', PyStr ''GET'')])])]"

definition app_routes :: "nat routes" where
  "app_routes = (case all_routes of Inr rs \<Rightarrow> rs | Inl e \<Rightarrow> [])"

lemma right_value:
  assumes "case x of Inr y \<Rightarrow> True | Inl e \<Rightarrow> False"
  shows "x = Inr (case x of Inr y \<Rightarrow> y | Inl e \<Rightarrow> d)"
  using assms by (cases x) simp_all

lemma all_routes_there: "all_routes = Inr app_routes"
proof -
  have "case (all_routes :: exn + nat routes) of Inr rs \<Rightarrow> True | Inl e \<Rightarrow> False" by code_simp
  then show ?thesis unfolding app_routes_def by (rule right_value)
qed

definition missing_answer :: pyval where
  "missing_answer = PyDict [(''statusCode'', PyInt 404), (''body'', PyStr ''{\"errorMessage\": \"Resource Not Found\"}''), (''isBase64Encoded'', PyBool False)]"

lemma step_missing: "Q (handler 0 (scripted_app []) app_routes [WebHandler] missing_path probe_state) = Q (Inr missing_answer, probe_state)"
  for Q :: "_ \<Rightarrow> bool"
  by code_simp

lemma handler_answer_type_witness: "lambda_response missing_answer"
  using handler_answer_type [OF all_routes_there _ step_missing [THEN eval_eq]]
  by (simp add: missing_answer_def client_error_response_def missing_path_def)

text \<open>The answers whose body is a dictionary are none that AWS takes.\<close>

lemma client_error_not_text: "\<not> lambda_response client_error_response"
  by (simp add: client_error_response_def)

end
