(* ===== verification/Poll_Group.thy ===== *)
theory Poll_Group
  imports Web_Safety
begin

text \<open>
  Groups that poll sessions (\<open>poll/polling_group.py\<close>, \<open>poll/base_processor.py\<close>): a collector starts a thread for every
  event that is due, as long as there is room; a worker takes the lock of its event, polls once, and asks for another run. The
  platforms give the operations of a group. First the code of one worker and of the collector, then the threads of a group as
  a state machine over the same counters.
\<close>

section \<open>The throttler and the counters\<close>

record throttler =
  th_waiting :: bool
  th_shutdown :: bool
  th_started :: bool

definition new_throttler :: throttler where
  "new_throttler = \<lparr>th_waiting = False, th_shutdown = False, th_started = False\<rparr>"

definition add_invocation :: "throttler \<Rightarrow> exn + throttler" where
  "add_invocation t = (if th_shutdown t then Inl AssertionError else Inr (t\<lparr>th_waiting := True, th_started := True\<rparr>))"

definition throttler_close :: "throttler \<Rightarrow> throttler" where
  "throttler_close t = (if th_shutdown t then t else t\<lparr>th_shutdown := True\<rparr>)"

record poll_counts =
  gp_submit :: int
  gp_working :: int
  gp_signalled :: bool

definition new_counts :: poll_counts where
  "new_counts = \<lparr>gp_submit = 0, gp_working = 0, gp_signalled = False\<rparr>"

definition dec_submit_count :: "poll_counts \<Rightarrow> poll_counts" where
  "dec_submit_count c = c\<lparr>gp_submit := gp_submit c - 1, gp_signalled := True\<rparr>"

definition start_working :: "poll_counts \<Rightarrow> poll_counts" where
  "start_working c = c\<lparr>gp_working := gp_working c + 1, gp_submit := gp_submit c - 1, gp_signalled := True\<rparr>"

text \<open>One round of \<open>is_full\<close>: full, room (taken when \<open>increment\<close> is set), or no answer yet.\<close>

definition full_check :: "int \<Rightarrow> bool \<Rightarrow> poll_counts \<Rightarrow> bool option \<times> poll_counts" where
  "full_check max_working_count increment c =
     (if gp_working c = max_working_count then (Some True, c)
      else if gp_working c + gp_submit c < max_working_count
        then (Some False, if increment then c\<lparr>gp_submit := gp_submit c + 1\<rparr> else c)
      else if \<not> increment then (Some False, c)
      else (None, c))"

text \<open>The list holds what other threads do in each wait; when it ends, the time for collecting is over.\<close>

fun is_full :: "int \<Rightarrow> bool \<Rightarrow> (poll_counts \<Rightarrow> poll_counts) list \<Rightarrow> poll_counts \<Rightarrow> bool \<times> poll_counts" where
  "is_full m increment [] c = (True, c)"
| "is_full m increment (f # fs) c = (case full_check m increment c of
     (Some b, c') \<Rightarrow> (b, c')
   | (None, c') \<Rightarrow> is_full m increment fs ((f c')\<lparr>gp_signalled := False\<rparr>))"

section \<open>A worker\<close>

record ('e, 'u) lock_event =
  le_event :: 'e
  le_lock :: resource_lock
  le_failed :: bool
  le_invoke_again :: bool
  le_update_action_time :: bool
  le_user :: "'u option"

definition new_lock_event :: "'e \<Rightarrow> resource_lock \<Rightarrow> ('e, 'u) lock_event" where
  "new_lock_event e l = \<lparr>le_event = e, le_lock = l, le_failed = False, le_invoke_again = False, le_update_action_time = True, le_user = None\<rparr>"

text \<open>The operations of a platform; events and locked events that they change are returned.\<close>

record ('d, 'e, 'u) group_ops =
  go_invoke_lambda :: "('d, unit) io"
  go_form_lock_name :: "'e \<Rightarrow> string"
  go_update_action_time :: "'e \<Rightarrow> int \<Rightarrow> ('d, bool \<times> 'e) io"
  go_should_poll :: "('e, 'u) lock_event \<Rightarrow> ('d, bool \<times> ('e, 'u) lock_event) io"
  go_poll :: "('e, 'u) lock_event \<Rightarrow> ('d, ('e, 'u) lock_event) io"
  go_query_events :: "int \<Rightarrow> ddb_item option \<Rightarrow> ('d, 'e list \<times> ddb_item option) io"

record ('d, 'e, 'u) poll_setup =
  sp_env :: "'d env"
  sp_ops :: "('d, 'e, 'u) group_ops"
  sp_refresh_seconds :: int
  sp_max_working_count :: int

record 'd poll_state =
  ps_counts :: poll_counts
  ps_throttler :: throttler
  ps_world :: "'d world"

type_synonym ('d, 'a) poll_prog = "('d poll_state, 'a) prog"

definition poll_io :: "('d, 'a) io \<Rightarrow> ('d, 'a) poll_prog" where
  "poll_io p s = (case p (ps_world s) of (r, w) \<Rightarrow> (r, s\<lparr>ps_world := w\<rparr>))"

definition on_counts :: "(poll_counts \<Rightarrow> poll_counts) \<Rightarrow> ('d, unit) poll_prog" where
  "on_counts f = modify (\<lambda>s. s\<lparr>ps_counts := f (ps_counts s)\<rparr>)"

definition invoke_again :: "('d, unit) poll_prog" where
  "invoke_again s = (case add_invocation (ps_throttler s) of Inl e \<Rightarrow> (Inl e, s) | Inr t \<Rightarrow> (Inr (), s\<lparr>ps_throttler := t\<rparr>))"

definition try_lock :: "('d, 'e, 'u) poll_setup \<Rightarrow> 'e \<Rightarrow> ('d, ('e, 'u) lock_event option) io" where
  "try_lock P event =
     bnd (try_acquire (sp_env P) (go_form_lock_name (sp_ops P) event) (sp_refresh_seconds P)) (\<lambda>l. case l of
       None \<Rightarrow> ret None
     | Some l \<Rightarrow>
         bnd (release_on_exception (sp_env P) l (go_update_action_time (sp_ops P) event (sp_refresh_seconds P))) (\<lambda>(ok, event).
         if ok then ret (Some (new_lock_event event l))
         else bnd (lock_release (sp_env P) l) (\<lambda>_. ret None)))"

text \<open>Leaving the block of a locked event releases the lock, then asks for another run when it was told to.\<close>

definition le_release :: "('d, 'e, 'u) poll_setup \<Rightarrow> ('e, 'u) lock_event \<Rightarrow> ('d, unit) poll_prog" where
  "le_release P le = bnd (poll_io (lock_release (sp_env P) (le_lock le))) (\<lambda>_. if le_invoke_again le then invoke_again else ret ())"

definition poll_once :: "('d, 'e, 'u) poll_setup \<Rightarrow> ('e, 'u) lock_event \<Rightarrow> ('d, unit) io" where
  "poll_once P le = catch (bnd (go_poll (sp_ops P) le) (\<lambda>le.
     if le_update_action_time le then bnd (go_update_action_time (sp_ops P) (le_event le) 0) (\<lambda>_. ret ()) else ret ())) (\<lambda>e. Some (ret ()))"

definition worker_body :: "('d, 'e, 'u) poll_setup \<Rightarrow> ('e, 'u) lock_event \<Rightarrow> ('d, unit) poll_prog" where
  "worker_body P le = bnd (poll_io (go_should_poll (sp_ops P) le)) (\<lambda>(yes, le).
     if \<not> yes then on_counts dec_submit_count
     else bnd (on_counts start_working) (\<lambda>_. poll_io (poll_once P le)))"

text \<open>Without a lock the place is given back, also when taking it raises.\<close>

definition lock_for_worker :: "('d, 'e, 'u) poll_setup \<Rightarrow> 'e \<Rightarrow> ('d, ('e, 'u) lock_event option) poll_prog" where
  "lock_for_worker P event s = (case poll_io (try_lock P event) s of
     (Inr (Some le), s') \<Rightarrow> (Inr (Some le), s')
   | (Inr None, s') \<Rightarrow> bnd (on_counts dec_submit_count) (\<lambda>_. ret None) s'
   | (Inl e, s') \<Rightarrow> bnd (on_counts dec_submit_count) (\<lambda>_. raise e) s')"

definition inner_worker :: "('d, 'e, 'u) poll_setup \<Rightarrow> 'e \<Rightarrow> ('d, unit) poll_prog" where
  "inner_worker P event = bnd (lock_for_worker P event) (\<lambda>le. case le of
     None \<Rightarrow> ret ()
   | Some le \<Rightarrow> let le = le\<lparr>le_invoke_again := True\<rparr> in finally_do (worker_body P le) (le_release P le))"

definition worker :: "('d, 'e, 'u) poll_setup \<Rightarrow> 'e \<Rightarrow> ('d, unit) poll_prog" where
  "worker P event = catch (inner_worker P event) (\<lambda>e. Some (ret ()))"

section \<open>The collector\<close>

text \<open>\<open>waits n\<close> is what the other threads do while the n-th call of \<open>is_full\<close> waits. The threads are the events they work on.\<close>

record 'e collector =
  co_calls :: nat
  co_threads :: "'e list"

definition full_now :: "int \<Rightarrow> bool \<Rightarrow> (nat \<Rightarrow> (poll_counts \<Rightarrow> poll_counts) list) \<Rightarrow> 'e collector \<times> poll_counts \<Rightarrow> bool \<times> 'e collector \<times> poll_counts" where
  "full_now m increment waits cc = (case cc of (co, c) \<Rightarrow> (case is_full m increment (waits (co_calls co)) c of
     (b, c') \<Rightarrow> (b, co\<lparr>co_calls := Suc (co_calls co)\<rparr>, c')))"

fun add_events :: "int \<Rightarrow> (nat \<Rightarrow> (poll_counts \<Rightarrow> poll_counts) list) \<Rightarrow> 'e list \<Rightarrow> 'e collector \<times> poll_counts \<Rightarrow>
    bool \<times> 'e collector \<times> poll_counts" where
  "add_events m waits [] cc = (False, cc)"
| "add_events m waits (e # es) cc = (case full_now m True waits cc of
     (True, cc') \<Rightarrow> (True, cc')
   | (False, (co, c)) \<Rightarrow> add_events m waits es (co\<lparr>co_threads := co_threads co @ [e]\<rparr>, c))"

type_synonym ('d, 'e, 'a) collect_prog = "(('e collector \<times> poll_counts) \<times> 'd world, 'a) prog"

text \<open>Pages are asked for until there is no more, or no room; the result says whether another run is needed.\<close>

fun collect_pages :: "nat \<Rightarrow> ('d, 'e, 'u) poll_setup \<Rightarrow> (nat \<Rightarrow> (poll_counts \<Rightarrow> poll_counts) list) \<Rightarrow> ddb_item option \<Rightarrow> ('d, 'e, bool) collect_prog" where
  "collect_pages 0 P waits token = raise OutOfFuel"
| "collect_pages (Suc n) P waits token =
     bnd (\<lambda>(cc, w). case go_query_events (sp_ops P) (sp_max_working_count P) token w of (r, w') \<Rightarrow> (r, (cc, w'))) (\<lambda>(rows, token).
     if rows = [] \<and> token = None then ret False
     else bnd (\<lambda>(cc, w). case add_events (sp_max_working_count P) waits rows cc of (full, cc') \<Rightarrow> (Inr full, (cc', w))) (\<lambda>full.
       if full then ret True
       else if token = None then ret False
       else bnd (\<lambda>(cc, w). case full_now (sp_max_working_count P) False waits cc of (b, cc') \<Rightarrow> (Inr b, (cc', w))) (\<lambda>b.
         if b then ret True else collect_pages n P waits token)))"

definition collect :: "nat \<Rightarrow> ('d, 'e, 'u) poll_setup \<Rightarrow> (nat \<Rightarrow> (poll_counts \<Rightarrow> poll_counts) list) \<Rightarrow> ('d, 'e list) poll_prog" where
  "collect fuel P waits s = (case collect_pages fuel P waits None ((\<lparr>co_calls = 0, co_threads = []\<rparr>, ps_counts s), ps_world s) of
     (r, ((co, c), w)) \<Rightarrow> (case r of
        Inl e \<Rightarrow> (Inl e, s\<lparr>ps_counts := c, ps_world := w\<rparr>)
      | Inr again \<Rightarrow> bnd (if again then invoke_again else ret ()) (\<lambda>_. ret (co_threads co)) (s\<lparr>ps_counts := c, ps_world := w\<rparr>)))"

text \<open>\<open>join\<close>: threads at the front that have ended are dropped; one that lives is waited for, then the round is over.\<close>

fun join_threads :: "('t \<Rightarrow> bool) \<Rightarrow> ('t \<Rightarrow> bool) \<Rightarrow> 't list \<Rightarrow> 't list" where
  "join_threads alive alive_later [] = []"
| "join_threads alive alive_later (t # ts) =
     (if \<not> alive t then join_threads alive alive_later ts else if \<not> alive_later t then ts else t # ts)"

text \<open>\<open>invoke\<close> up to the wait for its threads, which are its result; another collector holds the lock, or there is a group.\<close>

definition poll_invoke :: "nat \<Rightarrow> ('d, 'e, 'u) poll_setup \<Rightarrow> string \<Rightarrow> int \<Rightarrow> (nat \<Rightarrow> (poll_counts \<Rightarrow> poll_counts) list) \<Rightarrow>
    ('d, 'e list) poll_prog" where
  "poll_invoke fuel P name max_collect_seconds waits =
     bnd (poll_io (try_acquire (sp_env P) name (max_collect_seconds + 2))) (\<lambda>l. case l of
       None \<Rightarrow> ret []
     | Some l \<Rightarrow> finally_do (collect fuel P waits) (bnd (poll_io (lock_release (sp_env P) l)) (\<lambda>_. ret ())))"

end
