(* ===== verification/Poll_Steps.thy ===== *)
theory Poll_Steps
  imports Poll_Group
begin

text \<open>
  The threads of a polling group as a state machine: the counters of the theory \<open>Poll_Group\<close> and the phase of every thread.
  Running one worker to its end is a sequence of these steps; the counters always say how many threads are in which phase, so
  a group never polls more sessions than it may; and the workers always come to an end.
\<close>

datatype phase = Starting | Locked | Polling | Ended | Polled | Stranded

record pool =
  pl_counts :: poll_counts
  pl_phases :: "phase list"

definition new_pool :: pool where
  "new_pool = \<lparr>pl_counts = new_counts, pl_phases = []\<rparr>"

definition set_phase :: "nat \<Rightarrow> phase \<Rightarrow> poll_counts \<Rightarrow> pool \<Rightarrow> pool" where
  "set_phase i p c s = \<lparr>pl_counts = c, pl_phases = (pl_phases s)[i := p]\<rparr>"

definition at_phase :: "pool \<Rightarrow> nat \<Rightarrow> phase \<Rightarrow> bool" where
  "at_phase s i p \<longleftrightarrow> i < length (pl_phases s) \<and> pl_phases s ! i = p"

text \<open>A step of a worker: no lock; the lock; nothing to poll; an exception in \<open>should_poll\<close>; the poll and its end.\<close>

inductive worker_step :: "pool \<Rightarrow> pool \<Rightarrow> bool" where
  no_lock: "at_phase s i Starting \<Longrightarrow> worker_step s (set_phase i Ended (dec_submit_count (pl_counts s)) s)"
| locked: "at_phase s i Starting \<Longrightarrow> worker_step s (set_phase i Locked (pl_counts s) s)"
| skip: "at_phase s i Locked \<Longrightarrow> worker_step s (set_phase i Ended (dec_submit_count (pl_counts s)) s)"
| strand: "at_phase s i Locked \<Longrightarrow> worker_step s (set_phase i Stranded (pl_counts s) s)"
| start: "at_phase s i Locked \<Longrightarrow> worker_step s (set_phase i Polling (start_working (pl_counts s)) s)"
| done_polling: "at_phase s i Polling \<Longrightarrow> worker_step s (set_phase i Polled (pl_counts s) s)"

text \<open>A step of the collector: it starts a thread when there is room, or sees that there is none and resets the signal.\<close>

inductive collector_step :: "int \<Rightarrow> pool \<Rightarrow> pool \<Rightarrow> bool" where
  add_thread: "full_check m True (pl_counts s) = (Some False, c) \<Longrightarrow>
     collector_step m s \<lparr>pl_counts = c, pl_phases = pl_phases s @ [Starting]\<rparr>"
| wait_over: "full_check m True (pl_counts s) = (None, c) \<Longrightarrow> collector_step m s (s\<lparr>pl_counts := c\<lparr>gp_signalled := False\<rparr>\<rparr>)"

inductive reachable_pool :: "int \<Rightarrow> pool \<Rightarrow> bool" for m where
  initial: "reachable_pool m new_pool"
| by_worker: "reachable_pool m s \<Longrightarrow> worker_step s t \<Longrightarrow> reachable_pool m t"
| by_collector: "reachable_pool m s \<Longrightarrow> collector_step m s t \<Longrightarrow> reachable_pool m t"

definition phase_count :: "phase \<Rightarrow> pool \<Rightarrow> nat" where
  "phase_count p s = count_list (pl_phases s) p"

definition ended :: "phase \<Rightarrow> bool" where
  "ended p \<longleftrightarrow> p \<in> {Ended, Polled, Stranded}"

section \<open>The counters\<close>

lemma count_update:
  "i < length xs \<Longrightarrow> int (count_list (xs[i := y]) x) = int (count_list xs x) - (if xs ! i = x then 1 else 0) + (if y = x then 1 else 0)"
proof (induction xs arbitrary: i)
  case (Cons z zs)
  show ?case
  proof (cases i)
    case (Suc j)
    then show ?thesis using Cons.IH [of j] Cons.prems by auto
  qed auto
qed simp

definition counts_agree :: "int \<Rightarrow> pool \<Rightarrow> bool" where
  "counts_agree m s \<longleftrightarrow> gp_submit (pl_counts s) = int (phase_count Starting s) + int (phase_count Locked s) + int (phase_count Stranded s) \<and>
     gp_working (pl_counts s) = int (phase_count Polling s) + int (phase_count Polled s) \<and>
     gp_submit (pl_counts s) + gp_working (pl_counts s) \<le> m"

lemma phase_count_set: "at_phase s i q \<Longrightarrow> int (phase_count x (set_phase i p c s)) = int (phase_count x s) - (if q = x then 1 else 0) + (if p = x then 1 else 0)"
  by (auto simp: phase_count_def set_phase_def at_phase_def count_update)

lemma counts_set [simp]: "pl_counts (set_phase i p c s) = c"
  by (simp add: set_phase_def)

lemma worker_step_agrees: "worker_step s t \<Longrightarrow> counts_agree m s \<Longrightarrow> counts_agree m t"
  by (induction rule: worker_step.induct)
    (auto simp: counts_agree_def phase_count_set dec_submit_count_def start_working_def)

lemma collector_step_agrees: "collector_step m s t \<Longrightarrow> counts_agree m s \<Longrightarrow> counts_agree m t"
  by (induction rule: collector_step.induct)
    (auto simp: counts_agree_def phase_count_def full_check_def split: if_splits)

lemma new_pool_agrees: "0 \<le> m \<Longrightarrow> counts_agree m new_pool"
  by (simp add: counts_agree_def new_pool_def new_counts_def phase_count_def)

lemma reachable_agrees:
  assumes "reachable_pool m s" "0 \<le> m"
  shows "counts_agree m s"
  using assms(1) by (induction rule: reachable_pool.induct)
    (simp_all add: new_pool_agrees [OF assms(2)] worker_step_agrees collector_step_agrees)

section \<open>Workers come to an end\<close>

fun phase_rank :: "phase \<Rightarrow> nat" where
  "phase_rank Starting = 3"
| "phase_rank Locked = 2"
| "phase_rank Polling = 1"
| "phase_rank p = 0"

definition work_left :: "pool \<Rightarrow> nat" where
  "work_left s = sum_list (map phase_rank (pl_phases s))"

lemma sum_list_set: "i < length xs \<Longrightarrow> sum_list (map f (xs[i := y])) + f (xs ! i) = sum_list (map f xs) + (f y :: nat)"
proof (induction xs arbitrary: i)
  case (Cons z zs)
  show ?case
  proof (cases i)
    case (Suc j)
    then show ?thesis using Cons by (simp add: add.assoc)
  qed simp
qed simp

lemma work_set: "at_phase s i q \<Longrightarrow> work_left (set_phase i p c s) + phase_rank q = work_left s + phase_rank p"
  using sum_list_set [of i "pl_phases s" phase_rank p] by (simp add: work_left_def set_phase_def at_phase_def)

lemma worker_step_form: "worker_step s t \<Longrightarrow> \<exists>i p q c. t = set_phase i q c s \<and> at_phase s i p \<and> phase_rank q < phase_rank p"
  by (induction rule: worker_step.induct) fastforce+

lemma work_decreases: "worker_step s t \<Longrightarrow> work_left t < work_left s"
proof -
  assume "worker_step s t"
  then obtain i p q c where "t = set_phase i q c s" "at_phase s i p" "phase_rank q < phase_rank p" using worker_step_form by blast
  then show ?thesis using work_set [of s i p q c] by simp
qed

lemma steps_bound: "(worker_step ^^ n) s t \<Longrightarrow> n + work_left t \<le> work_left s"
proof (induction n arbitrary: t)
  case (Suc n)
  then obtain u where u: "(worker_step ^^ n) s u" "worker_step u t" by auto
  show ?case using Suc.IH [OF u(1)] work_decreases [OF u(2)] by simp
qed simp

lemma work_bound: "work_left s \<le> 3 * length (pl_phases s)"
proof -
  have r: "phase_rank p \<le> 3" for p by (cases p) simp_all
  have "sum_list (map phase_rank ps) \<le> 3 * length ps" for ps
  proof (induction ps)
    case (Cons p ps)
    then show ?case using r [of p] by simp
  qed simp
  then show ?thesis by (simp add: work_left_def)
qed

lemma stuck_ended: "(\<And>t. \<not> worker_step s t) \<Longrightarrow> \<forall>p\<in>set (pl_phases s). ended p"
proof
  fix p
  assume n: "\<And>t. \<not> worker_step s t" and "p \<in> set (pl_phases s)"
  then obtain i where i: "at_phase s i p" by (auto simp: in_set_conv_nth at_phase_def)
  have "p \<noteq> Starting" using n no_lock i by blast
  moreover have "p \<noteq> Locked" using n skip i by blast
  moreover have "p \<noteq> Polling" using n done_polling i by blast
  ultimately show "ended p" by (cases p) (auto simp: ended_def)
qed

lemma workers_run: "\<exists>t. worker_step\<^sup>*\<^sup>* s t \<and> (\<forall>u. \<not> worker_step t u)"
proof (induction "work_left s" arbitrary: s rule: less_induct)
  case less
  show ?case
  proof (cases "\<exists>u. worker_step s u")
    case True
    then obtain u where u: "worker_step s u" by blast
    from less [OF work_decreases [OF u]] obtain t where "worker_step\<^sup>*\<^sup>* u t" "\<forall>v. \<not> worker_step t v" by blast
    then show ?thesis using u by (meson converse_rtranclp_into_rtranclp)
  qed blast
qed

section \<open>One worker is a run of the machine\<close>

lemma counts_kept [simp]:
  "ps_counts (snd (poll_io p s)) = ps_counts s" "ps_counts (snd (invoke_again s)) = ps_counts s"
  by (simp_all add: poll_io_def invoke_again_def split: prod.splits sum.splits)

lemma poll_io_counts: "poll_io p s = (r, s') \<Longrightarrow> ps_counts s' = ps_counts s"
  using counts_kept(1) [of p s] by simp

lemma invoke_again_counts: "invoke_again s = (r, s') \<Longrightarrow> ps_counts s' = ps_counts s"
  using counts_kept(2) [of s] by simp

lemma le_release_counts: "le_release P le s = (r, s') \<Longrightarrow> ps_counts s' = ps_counts s"
  unfolding le_release_def by (elim bnd_cases) (auto dest!: poll_io_counts invoke_again_counts split: if_splits)

lemma finally_state:
  assumes "finally_do p f s = (r, s')"
  obtains r1 s1 r2 where "p s = (r1, s1)" "f s1 = (r2, s')"
  using assms by (auto simp: finally_do_def split: prod.splits sum.splits)

lemma worker_body_counts:
  assumes "worker_body P le s = (r, s')"
  shows "ps_counts s' \<in> {ps_counts s, dec_submit_count (ps_counts s), start_working (ps_counts s)}"
  using assms unfolding worker_body_def
  by (elim bnd_cases) (auto simp: on_counts_def dest!: poll_io_counts elim!: bnd_cases split: if_splits)

lemma inner_worker_counts:
  assumes "inner_worker P event s = (r, s')"
  shows "ps_counts s' \<in> {dec_submit_count (ps_counts s), ps_counts s, start_working (ps_counts s)}"
proof -
  obtain rl s1 where l: "poll_io (try_lock P event) s = (rl, s1)" by fastforce
  have c1: "ps_counts s1 = ps_counts s" by (rule poll_io_counts [OF l])
  show ?thesis
  proof (cases rl)
    case (Inl e)
    then have "s' = s1\<lparr>ps_counts := dec_submit_count (ps_counts s1)\<rparr>" using assms l
      by (auto simp: inner_worker_def lock_for_worker_def on_counts_def bnd_def)
    then show ?thesis using c1 by simp
  next
    case (Inr ol)
    show ?thesis
    proof (cases ol)
      case None
      then have "s' = s1\<lparr>ps_counts := dec_submit_count (ps_counts s1)\<rparr>" using assms l Inr
        by (auto simp: inner_worker_def lock_for_worker_def on_counts_def bnd_def)
      then show ?thesis using c1 by simp
    next
      case (Some le)
      then have "finally_do (worker_body P (le\<lparr>le_invoke_again := True\<rparr>)) (le_release P (le\<lparr>le_invoke_again := True\<rparr>)) s1 = (r, s')"
        using assms l Inr by (simp add: inner_worker_def lock_for_worker_def bnd_def Let_def)
      then show ?thesis using c1 by (elim finally_state) (auto dest!: worker_body_counts le_release_counts)
    qed
  qed
qed

lemma worker_result: "\<exists>s'. worker P event s = (Inr (), s') \<and> (\<exists>r. inner_worker P event s = (r, s'))"
  by (cases "inner_worker P event s") (auto simp: worker_def catch_def split: sum.splits)


text \<open>
  C9 (invariant). However collector and workers interleave, the counters say how many threads start and how many polled, and a
  group never polls more sessions than its maximum.
\<close>

theorem poll_capacity:
  assumes "reachable_pool m s" "0 \<le> m"
  shows "gp_working (pl_counts s) = int (phase_count Polling s + phase_count Polled s) \<and>
    gp_submit (pl_counts s) = int (phase_count Starting s + phase_count Locked s + phase_count Stranded s) \<and>
    int (phase_count Polling s + phase_count Polled s) \<le> m"
  using reachable_agrees [OF assms] by (simp add: counts_agree_def)

lemma count_list_0: "count_list xs x = 0 \<longleftrightarrow> x \<notin> set xs"
  by (induction xs) auto

lemma run_without_strand:
  "Stranded \<notin> set (pl_phases s) \<Longrightarrow> \<exists>n t. (worker_step ^^ n) s t \<and> (\<forall>p\<in>set (pl_phases t). p \<in> {Ended, Polled})"
proof (induction "work_left s" arbitrary: s rule: less_induct)
  case less
  show ?case
  proof (cases "\<forall>p\<in>set (pl_phases s). p \<in> {Ended, Polled}")
    case True
    then show ?thesis by (intro exI [of _ 0] exI [of _ s]) simp
  next
    case False
    then obtain i p where i: "at_phase s i p" "p \<notin> {Ended, Polled}" by (auto simp: in_set_conv_nth at_phase_def)
    have sub: "set (pl_phases (set_phase i q c s)) \<subseteq> insert q (set (pl_phases s))" for q c
      by (simp add: set_phase_def set_update_subset_insert)
    obtain u where u: "worker_step s u" "Stranded \<notin> set (pl_phases u)"
    proof (cases p)
      case Starting
      then show ?thesis using no_lock [of s i] i that sub less.prems by blast
    next
      case Locked
      then show ?thesis using skip [of s i] i that sub less.prems by blast
    next
      case Polling
      then show ?thesis using done_polling [of s i] i that sub less.prems by blast
    next
      case Stranded
      then show ?thesis using i(1) less.prems nth_mem unfolding at_phase_def by metis
    qed (use i in auto)
    from less.hyps [OF work_decreases [OF u(1)] u(2)] obtain n t where "(worker_step ^^ n) u t" "\<forall>p\<in>set (pl_phases t). p \<in> {Ended, Polled}" by blast
    then show ?thesis using relpowp_Suc_I2 [of worker_step s u] u(1) by blast
  qed
qed

lemma reachable_steps: "(worker_step ^^ n) s t \<Longrightarrow> reachable_pool m s \<Longrightarrow> reachable_pool m t"
  by (induction n arbitrary: t) (auto intro: by_worker)


section \<open>Examples\<close>

definition one_thread :: pool where
  "one_thread = \<lparr>pl_counts = \<lparr>gp_submit = 1, gp_working = 0, gp_signalled = False\<rparr>, pl_phases = [Starting]\<rparr>"

lemma one_thread_reachable: "reachable_pool 1 one_thread"
proof -
  have "full_check 1 True (pl_counts new_pool) = (Some False, pl_counts one_thread)"
    by (simp add: full_check_def new_pool_def new_counts_def one_thread_def)
  from add_thread [OF this] have "collector_step 1 new_pool one_thread" by (simp add: one_thread_def new_pool_def)
  then show ?thesis using reachable_pool.initial reachable_pool.by_collector by blast
qed

lemma poll_capacity_witness:
  "gp_working (pl_counts one_thread) = int (phase_count Polling one_thread + phase_count Polled one_thread) \<and>
    gp_submit (pl_counts one_thread) = int (phase_count Starting one_thread + phase_count Locked one_thread + phase_count Stranded one_thread) \<and>
    int (phase_count Polling one_thread + phase_count Polled one_thread) \<le> 1"
  by (rule poll_capacity [OF one_thread_reachable]) simp


definition probe_setup :: "(nat, pending_event, unit) poll_setup" where
  "probe_setup = \<lparr>sp_env = scripted_env [AOk],
     sp_ops = \<lparr>go_invoke_lambda = ret (), go_form_lock_name = (\<lambda>e. ''lap''), go_update_action_time = (\<lambda>e n. ret (True, e)),
       go_should_poll = (\<lambda>le. ret (True, le)), go_poll = ret, go_query_events = (\<lambda>n t. ret ([], None))\<rparr>,
     sp_refresh_seconds = 9, sp_max_working_count = 1\<rparr>"

definition probe_event :: pending_event where
  "probe_event = \<lparr>pe_type = LIVE_AGENT_POLL, pe_event_time = 1, pe_tenant_id = 7, pe_session_id = ''s'', pe_user_id = Some ''u'',
     pe_active_at = 1, pe_update_time = 1\<rparr>"

definition probe_poll :: "nat poll_state" where
  "probe_poll = \<lparr>ps_counts = pl_counts one_thread, ps_throttler = new_throttler, ps_world = scripted_world\<rparr>"


text \<open>
  A thread stranded by \<open>should_poll\<close> keeps its place: the collector of a group for one session waits in vain until its time is over.
\<close>

lemma stranded_waits:
  "\<exists>s. reachable_pool 1 s \<and> (\<forall>t. \<not> worker_step s t) \<and> fst (full_check 1 True (pl_counts s)) = None"
proof -
  define l where "l = set_phase 0 Locked (pl_counts one_thread) one_thread"
  define s where "s = set_phase 0 Stranded (pl_counts one_thread) one_thread"
  have "at_phase one_thread 0 Starting" by (simp add: one_thread_def at_phase_def)
  then have "reachable_pool 1 l" unfolding l_def using locked one_thread_reachable by_worker by blast
  moreover have "at_phase l 0 Locked" by (simp add: l_def set_phase_def one_thread_def at_phase_def)
  then have "worker_step l s" using strand [of l 0] by (simp add: l_def s_def set_phase_def one_thread_def)
  ultimately have "reachable_pool 1 s" using by_worker by blast
  moreover have "\<not> worker_step s t" for t
    by (auto simp: s_def set_phase_def one_thread_def at_phase_def elim: worker_step.cases)
  moreover have "fst (full_check 1 True (pl_counts s)) = None" by (simp add: s_def set_phase_def one_thread_def full_check_def)
  ultimately show ?thesis by blast
qed

end
