(* ===== verification/Pollers.thy ===== *)
theory Pollers
  imports Poll_Steps
begin

text \<open>
  The two polling platforms: Live Agent (\<open>poll/live_agent/processor.py\<close>) and the platform events of a tenant
  (\<open>poll/platform_event\<close>, with the repositories of \<open>tenant/repo\<close>). Each gives the operations of a polling group. The stub of
  gRPC and the decoding of Avro are parameters.
\<close>

section \<open>Live Agent\<close>

definition live_lock_name :: "pending_event \<Rightarrow> string" where
  "live_lock_name e = ''lap/'' @ int_str (pe_tenant_id e) @ ''-'' @ (case pe_user_id e of None \<Rightarrow> ''None'' | Some u \<Rightarrow> u)"

definition pending_key :: "pending_event \<Rightarrow> session_key" where
  "pending_key e = key_of_args (pe_tenant_id e) (pe_session_id e)"

type_synonym 'd live_event = "(pending_event, 'd sfdc_session \<times> session_context) lock_event"

definition live_should_poll :: "'d manager \<Rightarrow> 'd live_event \<Rightarrow> ('d, bool \<times> 'd live_event) io" where
  "live_should_poll M le = bnd (load_with_context (mg_services M) (pending_key (le_event le)) LIVE_AGENT) (\<lambda>sc. case sc of
     None \<Rightarrow> bnd (delete_pending_event (mg_env M) (le_event le)) (\<lambda>_. ret (False, le))
   | Some xc \<Rightarrow> ret (True, le\<lparr>le_user := Some xc\<rparr>))"

text \<open>One poll: whether the session goes on, and the settings after it.\<close>

definition live_inner_poll :: "'d manager \<Rightarrow> 'd sfdc_session \<Rightarrow> session_context \<Rightarrow> poller_settings \<Rightarrow> ('d, bool \<times> poller_settings) io" where
  "live_inner_poll M x c z = bnd (poll_live_agent x z) (\<lambda>(md, z). case md of
     None \<Rightarrow> ret (True, z)
   | Some d \<Rightarrow> (case add_message_data z d of (ds, z) \<Rightarrow>
       bnd (for_each (dispatch_message_data (push_submitter (mg_env M) (mg_lambdas M)) c) ds) (\<lambda>_.
       ret (\<not> is_shutdown_message d, z))))"

definition live_finish_poll :: "'d manager \<Rightarrow> session_context \<Rightarrow> 'd live_event \<Rightarrow> bool \<times> poller_settings \<Rightarrow> ('d, 'd live_event) io" where
  "live_finish_poll M c le r = (case r of (goes_on, z) \<Rightarrow>
     if goes_on then bnd (update_session_context (mg_env M) c (Some (poller_serialize (sv_pickler (mg_services M)) z))) (\<lambda>_.
       ret (le\<lparr>le_invoke_again := True\<rparr>))
     else bnd (set_failed (mg_env M) c ''Polling was shutdown.'' None) (\<lambda>_.
       bnd (delete_pending_event (mg_env M) (le_event le)) (\<lambda>_. ret (le\<lparr>le_update_action_time := False\<rparr>))))"

definition live_failed :: "'d manager \<Rightarrow> session_context \<Rightarrow> 'd live_event \<Rightarrow> exn \<Rightarrow> ('d, 'd live_event) io option" where
  "live_failed M c le e = (if e = OutOfFuel then None
     else Some (bnd (set_failed (mg_env M) c (get_exception_message (sv_text (mg_services M)) e) None) (\<lambda>_.
       ret (le\<lparr>le_failed := True, le_update_action_time := False\<rparr>))))"

definition live_poll :: "'d manager \<Rightarrow> 'd live_event \<Rightarrow> ('d, 'd live_event) io" where
  "live_poll M le = (case le_user le of None \<Rightarrow> raise AttributeError
     | Some (x, c) \<Rightarrow>
         bnd (lift_res (unpk_poller (sv_pickler (mg_services M)) (sc_data c))) (\<lambda>z.
         catch (bnd (live_inner_poll M x c z) (live_finish_poll M c le)) (live_failed M c le)))"

definition live_agent_setup :: "'d manager \<Rightarrow> ('d, pending_event, 'd sfdc_session \<times> session_context) poll_setup" where
  "live_agent_setup M = \<lparr>sp_env = mg_env M,
     sp_ops = \<lparr>go_invoke_lambda = invoke_live_agent_poller (mg_lambdas M), go_form_lock_name = live_lock_name,
       go_update_action_time = update_pending_action_time (mg_env M), go_should_poll = live_should_poll M, go_poll = live_poll M,
       go_query_events = query_pending_events (mg_env M) LIVE_AGENT_POLL\<rparr>,
     sp_refresh_seconds = cf_live_agent_poll_session_seconds (en_config (mg_env M)),
     sp_max_working_count = cf_sessions_per_live_agent_poll_processor (en_config (mg_env M))\<rparr>"

definition live_agent_invoke :: "nat \<Rightarrow> 'd manager \<Rightarrow> (nat \<Rightarrow> (poll_counts \<Rightarrow> poll_counts) list) \<Rightarrow> ('d, pending_event list) poll_prog" where
  "live_agent_invoke fuel M = poll_invoke fuel (live_agent_setup M) ''lap-collect'' 10"

section \<open>Repositories of tenants\<close>

definition find_tenant_event :: "'d env \<Rightarrow> pending_tenant_event_type \<Rightarrow> int \<Rightarrow> ('d, pending_tenant_event option) io" where
  "find_tenant_event E ty tenant =
     find_as pending_tenant_event_from_record E tenant_event_repo [PyStr (pending_tenant_type_value ty), PyInt tenant] True"

text \<open>The new counter comes from the entry that is given, the condition from the one that was found.\<close>

definition update_or_create_attempt :: "'d env \<Rightarrow> pending_tenant_event \<Rightarrow> ('d, unit) io" where
  "update_or_create_attempt E entry = bnd (find_tenant_event E (pt_type entry) (pt_tenant_id entry)) (\<lambda>current. case current of
     None \<Rightarrow> bnd (create (en_client E) tenant_event_repo (pending_tenant_event_to_record entry)) (\<lambda>ok.
       if ok then ret () else raise OptimisticLock)
   | Some c \<Rightarrow> patch_with_condition (en_client E) tenant_event_repo (pending_tenant_event_to_record c) ''stateCounter''
       (PyInt (pt_state_counter entry + 1)) (Some [(''accessToken'', PyStr (pt_access_token entry))]))"

definition update_or_create_event :: "'d env \<Rightarrow> pending_tenant_event \<Rightarrow> ('d, unit) io" where
  "update_or_create_event E entry = en_retry_unit E 10 (update_or_create_attempt E entry)"

definition update_tenant_action_time :: "'d env \<Rightarrow> pending_tenant_event \<Rightarrow> int \<Rightarrow> ('d, bool \<times> pending_tenant_event) io" where
  "update_tenant_action_time E event seconds = bnd get_system_time_in_millis (\<lambda>now.
     let t = now + seconds * 1000 in
     catch (bnd (patch_with_condition (en_client E) tenant_event_repo (pending_tenant_event_to_record event) ''activeAt'' (PyInt t) (Some [])) (\<lambda>_.
         ret (True, event\<lparr>pt_active_at := t\<rparr>)))
       (\<lambda>e. if e = OptimisticLock then Some (ret (False, event)) else None))"

definition delete_tenant_event :: "'d env \<Rightarrow> pending_tenant_event \<Rightarrow> ('d, unit) io" where
  "delete_tenant_event E event = delete_with_condition (en_client E) tenant_event_repo (pending_tenant_event_to_record event)
     ''stateCounter'' (PyInt (pt_state_counter event))"

text \<open>Pages are read until as many events were found as asked for, or there are no more.\<close>

fun query_tenant_loop :: "nat \<Rightarrow> 'd env \<Rightarrow> pending_tenant_event_type \<Rightarrow> int \<Rightarrow> int \<Rightarrow> ddb_item option \<Rightarrow>
    ('d, pending_tenant_event list \<times> ddb_item option) io" where
  "query_tenant_loop 0 E ty now limit token = raise OutOfFuel"
| "query_tenant_loop (Suc n) E ty now limit token =
     bnd (repo_query (en_client E) tenant_event_repo [PyStr (pending_tenant_type_value ty)] True NoRange (Some limit) token
        (Some [le_filter (Some ''activeAt'') (PyInt now)])) (\<lambda>(rows, token).
     bnd (map_prog pending_tenant_event_from_record rows) (\<lambda>es.
     if token = None \<or> limit - int (length rows) = 0 then ret (es, token)
     else bnd (query_tenant_loop n E ty now (limit - int (length rows)) token) (\<lambda>(es', token). ret (es @ es', token))))"

definition query_tenant_events :: "'d env \<Rightarrow> pending_tenant_event_type \<Rightarrow> int \<Rightarrow> ddb_item option \<Rightarrow>
    ('d, pending_tenant_event list \<times> ddb_item option) io" where
  "query_tenant_events E ty limit token = bnd (assert_that (0 < limit \<and> limit < 100000)) (\<lambda>_.
     bnd get_system_time_in_millis (\<lambda>now. query_tenant_loop (c_fuel (en_client E)) E ty now limit token))"

definition find_tenant_context :: "'d env \<Rightarrow> tenant_context_type \<Rightarrow> int \<Rightarrow> ('d, tenant_context option) io" where
  "find_tenant_context E ty tenant = find_as (\<lambda>r. lift_res (tenant_context_from_record r)) E tenant_context_repo
     [PyStr (tenant_context_value ty), PyInt tenant] True"

definition update_or_create_context :: "'d env \<Rightarrow> tenant_context \<Rightarrow> ('d, tenant_context) io" where
  "update_or_create_context E c =
     bnd (patch_with_condition_bool (en_client E) tenant_context_repo (tenant_context_to_record c) ''stateCounter''
        (PyInt (tc_state_counter c + 1)) (Some [(''contextData'', PyBytes (tc_data c))])) (\<lambda>ok.
     if ok then ret (c\<lparr>tc_state_counter := tc_state_counter c + 1\<rparr>)
     else bnd (create (en_client E) tenant_context_repo (tenant_context_to_record c)) (\<lambda>created.
       if created then ret c else raise OptimisticLock))"

definition delete_tenant_context :: "'d env \<Rightarrow> tenant_context \<Rightarrow> ('d, unit) io" where
  "delete_tenant_context E c = delete_with_condition (en_client E) tenant_context_repo (tenant_context_to_record c)
     ''stateCounter'' (PyInt (tc_state_counter c))"

definition set_context_data :: "'d env \<Rightarrow> tenant_context \<Rightarrow> bytes \<Rightarrow> ('d, unit) io" where
  "set_context_data E c data = bnd (update_or_create_context E (c\<lparr>tc_data := data\<rparr>)) (\<lambda>_. ret ())"

section \<open>Streams of platform events\<close>

record subscription_event =
  su_schema_id :: string
  su_payload :: bytes

record subscription_notification =
  su_events :: "subscription_event list"
  su_latest_replay_id :: bytes

record fetch_request =
  fr_topic_name :: string
  fr_replay_id :: bytes
  fr_latest :: bool
  fr_num_requested :: nat

text \<open>A service: the pickled position in the stream, the next notification for a request, schemas and their use.\<close>

record ('d, 'c) pubsub_service =
  pb_pickle :: "bytes option \<Rightarrow> bytes"
  pb_unpickle :: "bytes \<Rightarrow> exn + bytes option"
  pb_next :: "pending_tenant_event \<Rightarrow> fetch_request \<Rightarrow> ('d, subscription_notification option) io"
  pb_get_schema :: "string \<Rightarrow> ('d, 'c option) io"
  pb_decode_payload :: "'c \<Rightarrow> bytes \<Rightarrow> exn + row"

record pubsub_stream =
  st_context :: tenant_context
  st_event :: pending_tenant_event
  st_topic :: string
  st_replay_id :: "bytes option"
  st_initial :: "bytes option"

definition empty_context :: "('d, 'c) pubsub_service \<Rightarrow> bytes" where
  "empty_context B = pb_pickle B None"

definition create_stream :: "('d, 'c) pubsub_service \<Rightarrow> tenant_context \<Rightarrow> pending_tenant_event \<Rightarrow> string \<Rightarrow> exn + pubsub_stream" where
  "create_stream B c event topic = rbind (pb_unpickle B (tc_data c)) (\<lambda>r.
     Inr \<lparr>st_context = c, st_event = event, st_topic = topic, st_replay_id = r, st_initial = r\<rparr>)"

definition fetch_of :: "pubsub_stream \<Rightarrow> fetch_request" where
  "fetch_of st = \<lparr>fr_topic_name = st_topic st, fr_replay_id = (case st_replay_id st of None \<Rightarrow> [] | Some r \<Rightarrow> r),
     fr_latest = (st_replay_id st = None), fr_num_requested = 1\<rparr>"

definition submit_next :: "bytes \<Rightarrow> pubsub_stream \<Rightarrow> pubsub_stream" where
  "submit_next r st = st\<lparr>st_replay_id := Some r\<rparr>"

text \<open>The position is written back when it changed.\<close>

definition close_stream :: "'d env \<Rightarrow> ('d, 'c) pubsub_service \<Rightarrow> pubsub_stream \<Rightarrow> ('d, unit) io" where
  "close_stream E B st = (if st_replay_id st \<noteq> st_initial st then set_context_data E (st_context st) (pb_pickle B (st_replay_id st)) else ret ())"

text \<open>The time to live of a schema is given in seconds.\<close>

definition schema_cache :: "exn + (string, 'c) ttl_cache" where
  "schema_cache = new_ttl_cache 100 (60 * 1000)"

definition get_schema :: "('d, 'c) pubsub_service \<Rightarrow> int \<Rightarrow> string \<Rightarrow> (string, 'c, 'd, 'c) cache_prog" where
  "get_schema B tenant schema_id =
     bnd (cache_get None (int_str tenant @ '':'' @ schema_id) (Some (pb_get_schema B schema_id))) (\<lambda>s. case s of
       None \<Rightarrow> raise (ValueError (''Unable to load schema for tenant id '' @ int_str tenant @ '', schema id '' @ schema_id))
     | Some s \<Rightarrow> ret s)"

definition decode_event :: "('d, 'c) pubsub_service \<Rightarrow> int \<Rightarrow> subscription_event \<Rightarrow> (string, 'c, 'd, row) cache_prog" where
  "decode_event B tenant ev = bnd (get_schema B tenant (su_schema_id ev)) (\<lambda>s. lift_res (pb_decode_payload B s (su_payload ev)))"

section \<open>Messages of a tenant\<close>

definition str_value :: "pyval option \<Rightarrow> exn + string option" where
  "str_value v = (case v of None \<Rightarrow> Inr None | Some PyNone \<Rightarrow> Inr None | Some (PyStr s) \<Rightarrow> Inr (Some s) | Some _ \<Rightarrow> Inl TypeError)"

text \<open>The session by the conversation, else by the user; the user of the message goes first when the conversation is known.\<close>

definition resolve_session :: "'d env \<Rightarrow> int \<Rightarrow> row \<Rightarrow> ('d, (string \<times> string) option) io" where
  "resolve_session E tenant msg =
     bnd (lift_res (str_value (dget ''RS_L__User_Id__c'' msg))) (\<lambda>user.
     bnd (lift_res (str_value (dget ''RS_L__Conversation_Id__c'' msg))) (\<lambda>conversation.
     bnd (case conversation of None \<Rightarrow> ret None | Some c \<Rightarrow> bnd (find_work E tenant c) (\<lambda>w. ret (map_option (\<lambda>w.
         (wm_session_id w, case user of Some u \<Rightarrow> if u \<noteq> [] then u else wm_user_id w | None \<Rightarrow> wm_user_id w)) w))) (\<lambda>by_work.
     case by_work of Some r \<Rightarrow> ret (Some r)
     | None \<Rightarrow> (case user of None \<Rightarrow> ret None | Some u \<Rightarrow> bnd (find_user_session E tenant u) (\<lambda>us.
         ret (map_option (\<lambda>us. (us_session_id us, u)) us))))))"

definition dispatch_tenant_message :: "'d env \<Rightarrow> 'd lambda_env \<Rightarrow> int \<Rightarrow> row \<Rightarrow> ('d, unit) io" where
  "dispatch_tenant_message E L tenant msg = bnd (resolve_session E tenant msg) (\<lambda>k. case k of
     None \<Rightarrow> ret ()
   | Some (session_id, user) \<Rightarrow>
       bnd (lift_res (case dget ''RS_L_Type__c'' msg of None \<Rightarrow> Inr ''?'' | Some v \<Rightarrow> as_str v)) (\<lambda>ty.
       bnd (lift_res (json_dumps (PyDict msg))) (\<lambda>text.
       submit_push E L (key_of_args tenant session_id) user ''x1440'' ty text)))"

fun dispatch_events :: "'d env \<Rightarrow> 'd lambda_env \<Rightarrow> ('d, 'c) pubsub_service \<Rightarrow> int \<Rightarrow> subscription_event list \<Rightarrow> (string, 'c, 'd, unit) cache_prog" where
  "dispatch_events E L B tenant [] = ret ()"
| "dispatch_events E L B tenant (ev # evs) = bnd (decode_event B tenant ev) (\<lambda>msg.
     bnd (in_world (dispatch_tenant_message E L tenant msg)) (\<lambda>_. dispatch_events E L B tenant evs))"

text \<open>
  Reading the stream until it ends. Leaving it, also by an exception, closes it with the position reached so far, so a
  notification counts only when all its messages were handed on.
\<close>

fun read_stream :: "nat \<Rightarrow> 'd env \<Rightarrow> 'd lambda_env \<Rightarrow> ('d, 'c) pubsub_service \<Rightarrow> pubsub_stream \<Rightarrow>
    (string, 'c) ttl_cache \<times> 'd world \<Rightarrow> (exn + unit) \<times> pubsub_stream \<times> (string, 'c) ttl_cache \<times> 'd world" where
  "read_stream 0 E L B st s = (Inl OutOfFuel, st, s)"
| "read_stream (Suc n) E L B st s = (case in_world (pb_next B (st_event st) (fetch_of st)) s of
     (Inl e, s') \<Rightarrow> (Inl e, st, s')
   | (Inr None, s') \<Rightarrow> (Inr (), st, s')
   | (Inr (Some nt), s') \<Rightarrow> (case dispatch_events E L B (tc_tenant_id (st_context st)) (su_events nt) s' of
       (Inl e, s'') \<Rightarrow> (Inl e, st, s'')
     | (Inr _, s'') \<Rightarrow> read_stream n E L B (submit_next (su_latest_replay_id nt) st) s''))"

definition poll_stream :: "nat \<Rightarrow> 'd env \<Rightarrow> 'd lambda_env \<Rightarrow> ('d, 'c) pubsub_service \<Rightarrow> pubsub_stream \<Rightarrow> (string, 'c, 'd, unit) cache_prog" where
  "poll_stream fuel E L B st s = (case read_stream fuel E L B st s of (r, st', s') \<Rightarrow>
     (case in_world (close_stream E B st') s' of (Inl e, s'') \<Rightarrow> (Inl e, s'') | (Inr _, s'') \<Rightarrow> (r, s'')))"

section \<open>The platform\<close>

type_synonym tenant_lock_event = "(pending_tenant_event, pubsub_stream) lock_event"

definition tenant_lock_name :: "pending_tenant_event \<Rightarrow> string" where
  "tenant_lock_name e = ''pubsub-'' @ int_str (pt_tenant_id e)"

definition tenant_should_poll :: "'d env \<Rightarrow> ('d, 'c) pubsub_service \<Rightarrow> string \<Rightarrow> tenant_lock_event \<Rightarrow> ('d, bool \<times> tenant_lock_event) io" where
  "tenant_should_poll E B topic le = (let event = le_event le in
     bnd (has_sessions_with_platform_channel_type E (pt_tenant_id event) ''x1440'') (\<lambda>any.
     if \<not> any then bnd (delete_tenant_event E event) (\<lambda>_. ret (False, le))
     else bnd (find_tenant_context E X1440 (pt_tenant_id event)) (\<lambda>c.
       let c = (case c of Some c \<Rightarrow> c | None \<Rightarrow>
         \<lparr>tc_type = X1440, tc_tenant_id = pt_tenant_id event, tc_state_counter = 0, tc_data = empty_context B\<rparr>) in
       bnd (lift_res (create_stream B c event topic)) (\<lambda>st. ret (True, le\<lparr>le_user := Some st\<rparr>)))))"

definition tenant_poll :: "nat \<Rightarrow> (string, 'c) ttl_cache \<Rightarrow> 'd env \<Rightarrow> 'd lambda_env \<Rightarrow> ('d, 'c) pubsub_service \<Rightarrow> tenant_lock_event \<Rightarrow>
    ('d, tenant_lock_event) io" where
  "tenant_poll fuel cache E L B le w = (case le_user le of None \<Rightarrow> (Inl AttributeError, w)
     | Some st \<Rightarrow> (case poll_stream fuel E L B st (cache, w) of (r, (_, w')) \<Rightarrow> (map_sum id (\<lambda>_. le) r, w')))"

definition x1440_setup :: "nat \<Rightarrow> (string, 'c) ttl_cache \<Rightarrow> 'd env \<Rightarrow> 'd lambda_env \<Rightarrow> ('d, 'c) pubsub_service \<Rightarrow> string \<Rightarrow>
    ('d, pending_tenant_event, pubsub_stream) poll_setup" where
  "x1440_setup fuel cache E L B topic = \<lparr>sp_env = E,
     sp_ops = \<lparr>go_invoke_lambda = invoke_sfdc_pubsub_poller L, go_form_lock_name = tenant_lock_name,
       go_update_action_time = update_tenant_action_time E, go_should_poll = tenant_should_poll E B topic,
       go_poll = tenant_poll fuel cache E L B, go_query_events = query_tenant_events E X1440_POLL\<rparr>,
     sp_refresh_seconds = cf_pubsub_poll_session_seconds (en_config E),
     sp_max_working_count = cf_sessions_per_pubsub_poll_processor (en_config E)\<rparr>"

definition x1440_invoke :: "nat \<Rightarrow> ('d, pending_tenant_event, pubsub_stream) poll_setup \<Rightarrow> (nat \<Rightarrow> (poll_counts \<Rightarrow> poll_counts) list) \<Rightarrow>
    ('d, pending_tenant_event list) poll_prog" where
  "x1440_invoke fuel P = poll_invoke fuel P ''pubsub-collect'' 10"

end
