(* ===== verification/Push_Processor.thy ===== *)
theory Push_Processor
  imports Pollers
begin

text \<open>
  Sending the push notifications of a session (\<open>push_notification/\<close>): the notifiers and the choice of one by the prefix of
  a token, the function that goes through the notifications not sent yet, and the tests of tokens. The client of SQS and the
  module \<open>firebase_admin\<close> are parameters.
\<close>

section \<open>Notifiers\<close>

text \<open>A notifier: the prefix of its tokens, and \<open>_notify\<close> with a token, the data and whether it is a dry run.\<close>

record 'd notifier =
  nt_prefix :: "string option"
  nt_notify :: "string \<Rightarrow> row \<Rightarrow> bool \<Rightarrow> ('d, unit) io"

definition send_push_notification :: "'d notifier \<Rightarrow> string \<Rightarrow> row \<Rightarrow> ('d, unit) io" where
  "send_push_notification n token data = nt_notify n token data False"

text \<open>A dry run: nothing when it passes, else the text of the exception; a bean that cannot be made is no answer.\<close>

definition test_push_notification :: "(exn \<Rightarrow> string) \<Rightarrow> 'd notifier \<Rightarrow> string \<Rightarrow> ('d, string option) io" where
  "test_push_notification text n token =
     catch (bnd (nt_notify n token [(''type'', PyStr ''validation'')] True) (\<lambda>_. ret None))
       (\<lambda>e. case e of BeanInitialization _ \<Rightarrow> None | OutOfFuel \<Rightarrow> None | _ \<Rightarrow> Some (ret (Some (get_exception_message text e))))"

text \<open>The notifier over SQS, for tests of the service: the rest of the token is the group of the message.\<close>

definition sqs_notify :: "(string \<Rightarrow> string \<Rightarrow> string \<Rightarrow> ('d, unit) io) \<Rightarrow> string \<Rightarrow> string \<Rightarrow> row \<Rightarrow> bool \<Rightarrow> ('d, unit) io" where
  "sqs_notify send_message queue_url token data dry_run =
     (if prefix ''sqs::'' token \<and> drop 5 token \<noteq> [] then
        (if dry_run then ret ()
         else bnd (lift_res (json_dumps (PyDict data))) (\<lambda>text. send_message queue_url text (drop 5 token)))
      else raise (PlainException ''Invalid token''))"

definition sqs_notifier :: "(string \<Rightarrow> string \<Rightarrow> string \<Rightarrow> ('d, unit) io) \<Rightarrow> string \<Rightarrow> 'd notifier" where
  "sqs_notifier send_message queue_url = \<lparr>nt_prefix = Some ''sqs'', nt_notify = sqs_notify send_message queue_url\<rparr>"

text \<open>
  The notifier over Firebase: the module and the app are obtained with the first message. What they are made from are the
  beans of the credentials, of the module and of the builder of certificates.
\<close>

record ('d, 'm, 'a) firebase =
  fb_credentials :: "('d, string) io"
  fb_module :: "('d, 'm) io"
  fb_builder :: "('d, string \<Rightarrow> ('d, 'a) io) io"
  fb_initialize_app :: "'m \<Rightarrow> 'a \<Rightarrow> ('d, 'a) io"
  fb_send :: "'m \<Rightarrow> string \<Rightarrow> row \<Rightarrow> bool \<Rightarrow> ('d, unit) io"

record ('m, 'a) gcp_notifier =
  gn_messaging :: "'m option"
  gn_app :: "'a option"

type_synonym ('d, 'm, 'a, 'r) gcp_prog = "(('m, 'a) gcp_notifier \<times> 'd world, 'r) prog"

definition in_gcp :: "('d, 'r) io \<Rightarrow> ('d, 'm, 'a, 'r) gcp_prog" where
  "in_gcp p s = (case s of (g, w) \<Rightarrow> (case p w of (r, w') \<Rightarrow> (r, (g, w'))))"

definition obtain_app :: "('d, 'm, 'a) firebase \<Rightarrow> ('d, 'm, 'a, unit) gcp_prog" where
  "obtain_app F =
     bnd (in_gcp (fb_credentials F)) (\<lambda>content.
     bnd (in_gcp (fb_module F)) (\<lambda>m.
     bnd (modify (\<lambda>(g, w). (g\<lparr>gn_messaging := Some m\<rparr>, w))) (\<lambda>_.
     bnd (in_gcp (fb_builder F)) (\<lambda>build.
     bnd (in_gcp (build content)) (\<lambda>cert.
     bnd (in_gcp (fb_initialize_app F m cert)) (\<lambda>a.
     modify (\<lambda>(g, w). (g\<lparr>gn_app := Some a\<rparr>, w))))))))"

definition check_app :: "('d, 'm, 'a) firebase \<Rightarrow> ('d, 'm, 'a, 'm) gcp_prog" where
  "check_app F =
     bnd (gets (\<lambda>(g, w). gn_app g)) (\<lambda>a.
     bnd (if a = None then obtain_app F else ret ()) (\<lambda>_.
     bnd (gets (\<lambda>(g, w). gn_messaging g)) (\<lambda>m. case m of None \<Rightarrow> raise AttributeError | Some m \<Rightarrow> ret m)))"

definition gcp_notify :: "('d, 'm, 'a) firebase \<Rightarrow> string \<Rightarrow> row \<Rightarrow> bool \<Rightarrow> ('d, 'm, 'a, unit) gcp_prog" where
  "gcp_notify F token data dry_run = bnd (check_app F) (\<lambda>m. in_gcp (fb_send F m token data dry_run))"

section \<open>The manager\<close>

record 'd push_manager =
  pm_notifiers :: "(string, 'd notifier) dict"
  pm_default :: "'d notifier"

fun collect_notifiers :: "'d notifier list \<Rightarrow> (string, 'd notifier) dict \<Rightarrow> 'd notifier option \<Rightarrow>
    exn + (string, 'd notifier) dict \<times> 'd notifier option" where
  "collect_notifiers [] d dflt = Inr (d, dflt)"
| "collect_notifiers (n # ns) d dflt = (case nt_prefix n of
     None \<Rightarrow> (case dflt of None \<Rightarrow> collect_notifiers ns d (Some n) | Some _ \<Rightarrow> Inl AssertionError)
   | Some p \<Rightarrow> collect_notifiers ns (dset p n d) dflt)"

definition new_push_manager :: "'d notifier list \<Rightarrow> exn + 'd push_manager" where
  "new_push_manager notifiers = (if notifiers = [] then Inl AssertionError
     else rbind (collect_notifiers notifiers [] None) (\<lambda>(d, dflt). case dflt of
       None \<Rightarrow> Inl AssertionError | Some n \<Rightarrow> Inr \<lparr>pm_notifiers = d, pm_default = n\<rparr>))"

definition find_notifier :: "'d push_manager \<Rightarrow> string \<Rightarrow> 'd notifier" where
  "find_notifier M token = (if pm_notifiers M = [] then pm_default M
     else let index = find_str ''::'' token in
       if index > 0 then (case dget (take (nat index) token) (pm_notifiers M) of Some n \<Rightarrow> n | None \<Rightarrow> pm_default M)
       else pm_default M)"

definition manager_send :: "'d push_manager \<Rightarrow> string \<Rightarrow> row \<Rightarrow> ('d, unit) io" where
  "manager_send M token data = send_push_notification (find_notifier M token) token data"

definition manager_test :: "(exn \<Rightarrow> string) \<Rightarrow> 'd push_manager \<Rightarrow> string \<Rightarrow> ('d, string option) io" where
  "manager_test text M token = test_push_notification text (find_notifier M token) token"

section \<open>The function\<close>

record 'd push_processor =
  pp_env :: "'d env"
  pp_lambdas :: "'d lambda_env"
  pp_pickler :: pickler
  pp_manager :: "'d push_manager"

text \<open>Where the processor is: the context of the session, the token, and the number in its settings.\<close>

record push_entry =
  pq_context :: session_context
  pq_token :: string
  pq_last_seq_no :: "int option"

definition push_data :: "push_notification \<Rightarrow> exn + row" where
  "push_data n = rbind (json_dumps (PyDict [(''platformType'', PyStr (pn_channel_type n)),
     (''messageType'', val_str (pn_message_type n)), (''message'', val_str (pn_message n))])) (\<lambda>t. Inr [(''x1440Payload'', PyStr t)])"

definition set_position :: "'d push_processor \<Rightarrow> session_context \<Rightarrow> push_notification \<Rightarrow> ('d, session_context) io" where
  "set_position P c n =
     bnd (set_session_data c (pk_push (pp_pickler P) (Some (pn_seq_no n)))) (\<lambda>c'.
     bnd (set_sent (pp_env P) n (Some c')) (\<lambda>_. ret c'))"

text \<open>
  Sending one notification. The number in the settings is set when it was sent, the context when the row of the
  notification and the context were written; what \<open>set_sent\<close> answers is not looked at.
\<close>

definition push_notify :: "'d push_processor \<Rightarrow> push_entry \<Rightarrow> push_notification \<Rightarrow> 'd world \<Rightarrow> (bool \<times> push_entry) \<times> 'd world" where
  "push_notify P q n w = (case bnd (lift_res (push_data n)) (manager_send (pp_manager P) (pq_token q)) w of
     (Inl e, w') \<Rightarrow> ((False, q), w')
   | (Inr _, w') \<Rightarrow> (let q' = q\<lparr>pq_last_seq_no := Some (pn_seq_no n)\<rparr> in
       (case set_position P (pq_context q) n w' of
          (Inl e, w'') \<Rightarrow> ((False, q'), w'')
        | (Inr c, w'') \<Rightarrow> ((True, q'\<lparr>pq_context := c\<rparr>), w''))))"

text \<open>The rows come from the result set one at a time, so later pages are read after earlier notifications were sent.\<close>

definition next_notification :: "'d push_processor \<Rightarrow> Ddb_Client.query_params \<Rightarrow> int option result_set \<Rightarrow> 'd world \<Rightarrow>
    (exn + push_notification option) \<times> int option result_set \<times> 'd world" where
  "next_notification P props rs w =
     (case rs_dunder_next (query_function (en_client (pp_env P)) props) (rs, w_db w) of
        (r, (rs', d)) \<Rightarrow> (rbind r (\<lambda>row. case row of None \<Rightarrow> Inr None
          | Some row \<Rightarrow> rbind (deserialize_record push_repo row) (\<lambda>r. rbind (push_from_record r) (\<lambda>r. rbind (to_notification (pp_env P) r) (\<lambda>n. Inr (Some n))))),
          rs', w\<lparr>w_db := d\<rparr>))"

text \<open>The result is the list of the notifications that were counted.\<close>

fun process_records :: "nat \<Rightarrow> 'd push_processor \<Rightarrow> Ddb_Client.query_params \<Rightarrow> push_entry \<Rightarrow> int option result_set \<Rightarrow> 'd world \<Rightarrow>
    (exn + push_notification list \<times> push_entry) \<times> 'd world" where
  "process_records 0 P props q rs w = (Inl OutOfFuel, w)"
| "process_records (Suc k) P props q rs w = (case next_notification P props rs w of
     (Inl e, rs', w') \<Rightarrow> (Inl e, w')
   | (Inr None, rs', w') \<Rightarrow> (Inr ([], q), w')
   | (Inr (Some n), rs', w') \<Rightarrow> (case push_notify P q n w' of
       ((False, q'), w'') \<Rightarrow> (Inr ([], q'), w'')
     | ((True, q'), w'') \<Rightarrow> (case process_records k P props q' rs' w'' of
           (r, w''') \<Rightarrow> (map_sum id (\<lambda>(ns, q''). (n # ns, q'')) r, w'''))))"

definition process_notifications :: "'d push_processor \<Rightarrow> session_context \<Rightarrow> string \<Rightarrow> ('d, push_notification list) io" where
  "process_notifications P c token =
     bnd (lift_res (unpk_push (pp_pickler P) (sc_data c))) (\<lambda>last.
     bnd (lift_res (query_notifications_props (key_of_args (sc_tenant_id c) (sc_session_id c)) last)) (\<lambda>props.
     bnd (process_records (c_fuel (en_client (pp_env P))) P props \<lparr>pq_context = c, pq_token = token, pq_last_seq_no = last\<rparr>
       (new_result_set None)) (\<lambda>(ns, q). ret ns)))"

definition schedule_push :: "'d lambda_env \<Rightarrow> string \<Rightarrow> int \<Rightarrow> string \<Rightarrow> row \<Rightarrow> ('d, unit) io" where
  "schedule_push L name minutes f event = bnd (schedule_lambda_minutes L name minutes PushNotifierFn event) (\<lambda>_. ret ())"

text \<open>\<open>try_acquire\<close> never waits, so the retries of \<open>acquire\<close> do not matter.\<close>

definition push_invoke :: "'d push_processor \<Rightarrow> row \<Rightarrow> ('d, unit) io" where
  "push_invoke P parameters =
     bnd (lift_res (key_from_dict parameters)) (\<lambda>k.
     bnd (find_session_context_with_fcm_token (pp_env P) k PUSH_NOTIFIER) (\<lambda>entry. case entry of
       None \<Rightarrow> ret ()
     | Some (c, None) \<Rightarrow> bnd (delete_session_context (pp_env P) k (sc_context_type c)) (\<lambda>_. ret ())
     | Some (c, Some token) \<Rightarrow>
         catch (bnd (session_try_auto_lock (schedule_push (pp_lambdas P)) id (pp_env P) ''push-notifier'' 30 (Some ''PushNotifier'') None
             (key_of_args (sc_tenant_id c) (sc_session_id c)) (process_notifications P c token)) (\<lambda>_. ret ()))
           (\<lambda>e. if e = SessionLocked then Some (ret ()) else None)))"

section \<open>Marks and positions\<close>

text \<open>An update of one attribute of a row of the range table that must exist.\<close>

definition range_keys :: "virtual_table \<Rightarrow> string list \<Rightarrow> string list \<Rightarrow> row" where
  "range_keys vt hs rs = [(''hashKey'', PyStr (join_str default_delimiter (vt_type vt # hs))), (''rangeKey'', PyStr (join_str default_delimiter rs))]"

definition range_update :: "virtual_table \<Rightarrow> string list \<Rightarrow> string list \<Rightarrow> string \<Rightarrow> pyval \<Rightarrow> transaction_request" where
  "range_update vt hs rs att v = UpdateItem \<lparr>ur_table = virtual_range_table, ur_keys = range_keys vt hs rs, ur_item = [(att, v)],
     ur_condition = None, ur_must_exist = True, ur_virtual = Some (vt_name vt)\<rparr>"

lemma range_keys_item: "item_of (range_keys vt hs rs) = [(''hashKey'', Attr [SV (join_str default_delimiter (vt_type vt # hs))]),
    (''rangeKey'', Attr [SV (join_str default_delimiter rs)])]"
  by (simp add: range_keys_def item_of_def to_ddb_item_def)

lemma range_update_sem:
  assumes "ident att" "att \<noteq> ''hashKey''" "att \<noteq> ''rangeKey''" "storable v"
  shows "request_ok table_keys (range_update vt hs rs att v)"
    "ws_addr (request_sem table_keys (range_update vt hs rs att v)) = vaddr vt hs (Some rs)"
    "sem_ok w (request_sem table_keys (range_update vt hs rs att v)) \<longleftrightarrow>
       list_all (\<lambda>a. sat a (row_map (w (vaddr vt hs (Some rs))))) (atoms_of (item_of (range_keys vt hs rs)))"
    "sem_apply (request_sem table_keys (range_update vt hs rs att v)) w =
       w(vaddr vt hs (Some rs) := update_effect (item_of (range_keys vt hs rs)) [(att, val_attr v)] (w (vaddr vt hs (Some rs))))"
proof -
  have a: "key_of table_keys virtual_range_table (item_of (range_keys vt hs rs)) = snd (vaddr vt hs (Some rs))"
    by (simp add: key_of_def table_keys_def range_keys_item vaddr_def)
  have i: "set_list (dkeys (range_keys vt hs rs)) (item_of [(att, v)]) = [(att, val_attr v)]"
    using assms(2-4) convert_to_attribute(1) [of v] by (auto simp: range_keys_def set_list_def item_of_def to_ddb_item_def val_attr_def)
  show "request_ok table_keys (range_update vt hs rs att v)" using assms
    by (simp add: range_update_def range_keys_def ident_row_def cond_plain_def table_keys_def table_defs)
  show "ws_addr (request_sem table_keys (range_update vt hs rs att v)) = vaddr vt hs (Some rs)"
    by (simp add: range_update_def ws_addr_def a) (simp add: vaddr_def)
  then show "sem_ok w (request_sem table_keys (range_update vt hs rs att v)) \<longleftrightarrow>
       list_all (\<lambda>a. sat a (row_map (w (vaddr vt hs (Some rs))))) (atoms_of (item_of (range_keys vt hs rs)))"
    unfolding sem_ok_def by (simp add: range_update_def cond_row_def item_of_def to_ddb_item_def atoms_of_def)
  then show "sem_apply (request_sem table_keys (range_update vt hs rs att v)) w =
       w(vaddr vt hs (Some rs) := update_effect (item_of (range_keys vt hs rs)) [(att, val_attr v)] (w (vaddr vt hs (Some rs))))"
    using \<open>ws_addr _ = _\<close> unfolding sem_apply_def by (simp add: range_update_def i)
qed

text \<open>Where the row is there, only the attribute changes.\<close>

lemma update_existing:
  "list_all (\<lambda>a. sat a (row_map r)) (atoms_of (item_of (range_keys vt hs rs))) \<Longrightarrow>
   \<exists>m. r = Some m \<and> update_effect k [(att, a)] r = Some (m(att \<mapsto> a))"
  by (cases r) (auto simp: range_keys_item atoms_of_def row_map_def update_effect_def)

definition push_addr :: "push_notification \<Rightarrow> address" where
  "push_addr n = vaddr push_notification_vt [int_str (pn_tenant_id n), pn_session_id n] (Some [rjust 16 (CHR ''0'') (int_str (pn_seq_no n))])"

definition context_addr :: "session_context \<Rightarrow> address" where
  "context_addr c = vaddr session_context_vt [int_str (sc_tenant_id c)] (Some [sc_session_id c, context_value (sc_context_type c)])"

definition sent_update :: "push_notification \<Rightarrow> transaction_request" where
  "sent_update n = range_update push_notification_vt [int_str (pn_tenant_id n), pn_session_id n]
     [rjust 16 (CHR ''0'') (int_str (pn_seq_no n))] ''sent'' (PyBool True)"

definition context_update :: "session_context \<Rightarrow> transaction_request" where
  "context_update c = range_update session_context_vt [int_str (sc_tenant_id c)] [sc_session_id c, context_value (sc_context_type c)]
     ''sessionData'' (PyBytes (sc_data c))"

lemma sent_request_record: "create_update_item_request push_repo (push_to_record r) [(''sent'', PyBool True)] True =
    Inr (range_update push_notification_vt [int_str (lr_tenant_id r), lr_session_id r] [rjust 16 (CHR ''0'') (int_str (lr_seq_no r))] ''sent'' (PyBool True))"
  by (cases "lr_message_type r"; cases "lr_message_data r"; cases "lr_sent r")
     (simp_all add: create_update_item_request_def key_simps push_to_record_def virtual_name_def set_if_not_none_def range_update_def range_keys_def)

lemma sent_request: "push_from_entry E n = Inr r \<Longrightarrow>
    create_update_item_request push_repo (push_to_record r) [(''sent'', PyBool True)] True = Inr (sent_update n)"
  by (auto simp: sent_request_record sent_update_def push_from_entry_def split: option.splits)

lemma context_request: "create_patch_session_data_request c = Inr (context_update c)"
  by (simp add: context_update_def create_patch_session_data_request_def create_update_item_request_def key_simps context_to_record_def
      virtual_name_def range_update_def range_keys_def)

text \<open>The notification is marked as sent and the context has the position, and nothing else changed.\<close>

definition sent_together :: "push_notification \<Rightarrow> session_context \<Rightarrow> ddb_view \<Rightarrow> ddb_view \<Rightarrow> bool" where
  "sent_together n c v v' \<longleftrightarrow> (\<exists>m m'. v (push_addr n) = Some m \<and> v (context_addr c) = Some m' \<and>
     v' = v(push_addr n \<mapsto> m(''sent'' \<mapsto> val_attr (PyBool True)), context_addr c \<mapsto> m'(''sessionData'' \<mapsto> val_attr (PyBytes (sc_data c)))))"

lemma push_addrs [simp]: "push_addr n \<noteq> context_addr c" "context_addr c \<noteq> push_addr n" "None \<notin> set (snd (push_addr n))" "None \<notin> set (snd (context_addr c))"
  by (simp_all add: push_addr_def context_addr_def vaddr_def vt_defs)

lemma push_updates_sem:
  "request_ok table_keys (sent_update n)" "request_ok table_keys (context_update c)"
  "ws_addr (request_sem table_keys (sent_update n)) = push_addr n" "ws_addr (request_sem table_keys (context_update c)) = context_addr c"
  by (simp_all add: sent_update_def context_update_def range_update_sem push_addr_def context_addr_def)

lemma push_updates_done:
  assumes "list_all (\<lambda>q. sem_ok v (request_sem table_keys q)) [sent_update n, context_update c]"
  shows "sent_together n c v (fold sem_apply (map (request_sem table_keys) [sent_update n, context_update c]) v)"
proof -
  let ?k = "range_keys push_notification_vt [int_str (pn_tenant_id n), pn_session_id n] [rjust 16 (CHR ''0'') (int_str (pn_seq_no n))]"
  let ?l = "range_keys session_context_vt [int_str (sc_tenant_id c)] [sc_session_id c, context_value (sc_context_type c)]"
  have ok: "list_all (\<lambda>a. sat a (row_map (v (push_addr n)))) (atoms_of (item_of ?k))"
    "list_all (\<lambda>a. sat a (row_map (v (context_addr c)))) (atoms_of (item_of ?l))"
    using assms by (simp_all add: sent_update_def context_update_def range_update_sem push_addr_def context_addr_def)
  obtain m where m: "v (push_addr n) = Some m" "update_effect (item_of ?k) [(''sent'', val_attr (PyBool True))] (v (push_addr n)) = Some (m(''sent'' \<mapsto> val_attr (PyBool True)))"
    using update_existing [OF ok(1)] by blast
  obtain m' where m': "v (context_addr c) = Some m'" "update_effect (item_of ?l) [(''sessionData'', val_attr (PyBytes (sc_data c)))] (v (context_addr c)) =
      Some (m'(''sessionData'' \<mapsto> val_attr (PyBytes (sc_data c))))"
    using update_existing [OF ok(2)] by blast
  have "fold sem_apply (map (request_sem table_keys) [sent_update n, context_update c]) v =
      v(push_addr n \<mapsto> m(''sent'' \<mapsto> val_attr (PyBool True)), context_addr c \<mapsto> m'(''sessionData'' \<mapsto> val_attr (PyBytes (sc_data c))))"
    using m(2) m'(2) by (simp add: sent_update_def context_update_def range_update_sem push_addr_def [symmetric] context_addr_def [symmetric])
  then show ?thesis using m(1) m'(1) by (auto simp: sent_together_def)
qed

context store
begin

lemma set_sent_outcome:
  assumes "en_client E = C" "set_sent E n (Some c) w = (r, w')"
  shows "case r of Inr True \<Rightarrow> sent_together n c (view (w_db w)) (view (w_db w'))
    | Inr False \<Rightarrow> view (w_db w') = view (w_db w)
    | Inl _ \<Rightarrow> view (w_db w') = view (w_db w) \<or> sent_together n c (view (w_db w)) (view (w_db w'))"
proof (cases "push_from_entry E n")
  case (Inl e)
  then show ?thesis using assms(2) by (auto simp: set_sent_def)
next
  case (Inr p)
  obtain x u where x: "repo_transact_write C [sent_update n, context_update c] w = (x, u)" by fastforce
  have tx: "tx_ok [sent_update n, context_update c]"
    by (simp add: tx_ok_def push_updates_sem key_accepted)
  have r: "r = map_sum id (\<lambda>b. b = None) x" "w' = u"
    using assms Inr x by (auto simp: set_sent_def sent_request context_request bnd_def split: sum.splits)
  from repo_transact_outcome [OF x tx] show ?thesis
    using push_updates_done [of "view (w_db w)" n c] r by (auto split: sum.splits option.splits bool.splits)
qed

end

lemma set_session_data_result: "set_session_data c data w = (r, w') \<Longrightarrow> w_db w' = w_db w \<and> (\<exists>c'. r = Inr c' \<and> sc_data c' = data \<and> context_addr c' = context_addr c)"
  by (auto simp: set_session_data_def new_session_context_def time_or_now_def get_system_time_in_millis_def bnd_def context_addr_def split: if_splits option.splits)

text \<open>
  C12 (safety). Sending one notification marks it as sent and moves the position of the session in one step or does neither,
  whatever fails: nothing else in the tables changes, the position written is the number of this notification, and the
  entry keeps its context when the step is reported as failed. So what was not marked is sent again from the old position.
\<close>

theorem push_sent_together:
  assumes "store C view kok" "en_client (pp_env P) = C" "\<And>token data. keeps view {} (manager_send (pp_manager P) token data)"
    "push_notify P q n w = ((ok, q'), w')"
  shows "(\<exists>c. sc_data c = pk_push (pp_pickler P) (Some (pn_seq_no n)) \<and> context_addr c = context_addr (pq_context q) \<and>
        (view (w_db w') = view (w_db w) \<or> sent_together n c (view (w_db w)) (view (w_db w'))) \<and> (ok \<longrightarrow> pq_context q' = c)) \<and>
    (if ok then pq_last_seq_no q' = Some (pn_seq_no n) else pq_context q' = pq_context q)"
proof -
  obtain x u where x: "bnd (lift_res (push_data n)) (manager_send (pp_manager P) (pq_token q)) w = (x, u)" by fastforce
  have "keeps view {} (bnd (lift_res (push_data n)) (manager_send (pp_manager P) (pq_token q)))"
    by (intro frame_rules assms(3))
  from keeps_noneD [OF this x] have u: "view (w_db u) = view (w_db w)" .
  obtain y z where y: "set_session_data (pq_context q) (pk_push (pp_pickler P) (Some (pn_seq_no n))) u = (y, z)" by fastforce
  from set_session_data_result [OF y] obtain c where c: "w_db z = w_db u" "y = Inr c"
    "sc_data c = pk_push (pp_pickler P) (Some (pn_seq_no n))" "context_addr c = context_addr (pq_context q)" by blast
  obtain r t where r: "set_sent (pp_env P) n (Some c) z = (r, t)" by fastforce
  have p: "set_position P (pq_context q) n u = (map_sum id (\<lambda>_. c) r, t)"
    using y c(2) r by (simp add: set_position_def bnd_def split: sum.splits)
  have o: "view (w_db t) = view (w_db w) \<or> sent_together n c (view (w_db w)) (view (w_db t))"
    using store.set_sent_outcome [OF assms(1,2) r] u c(1) by (auto split: sum.splits bool.splits)
  show ?thesis
    using assms(4) x p c(3,4) o u
    by (intro conjI exI [of _ c]) (auto simp: push_notify_def Let_def map_sum_id_Inr split: sum.splits)
qed

section \<open>The order of sending\<close>

definition quiet :: "('d, 'a) io \<Rightarrow> bool" where
  "quiet p \<longleftrightarrow> (\<forall>w. w_out (snd (p w)) = w_out w)"

named_theorems quiet_rules \<open>programs that call no other service\<close>

lemma quietD: "quiet p \<Longrightarrow> p w = (r, w') \<Longrightarrow> w_out w' = w_out w"
  by (metis quiet_def snd_conv)

lemma quiet_basic [quiet_rules]: "quiet (ret x)" "quiet (raise e)" "quiet (lift_res r)" "quiet (with_db p)" "quiet get_system_time_in_millis"
  by (auto simp: quiet_def with_db_def get_system_time_in_millis_def split: prod.splits)

lemma quiet_bnd [quiet_rules]: "quiet m \<Longrightarrow> (\<And>x. quiet (f x)) \<Longrightarrow> quiet (bnd m f)"
  unfolding quiet_def bnd_def by (auto split: prod.splits sum.splits) (metis snd_conv)+

lemma quiet_option [quiet_rules]: "quiet p \<Longrightarrow> (\<And>x. quiet (q x)) \<Longrightarrow> quiet (case v of None \<Rightarrow> p | Some x \<Rightarrow> q x)"
  by (cases v) auto

lemma quiet_catch: "quiet m \<Longrightarrow> (\<And>e p. h e = Some p \<Longrightarrow> quiet p) \<Longrightarrow> quiet (catch m h)"
  unfolding quiet_def catch_def by (auto split: prod.splits sum.splits option.splits) (metis snd_conv)+

lemma quiet_transact [quiet_rules]: "quiet (repo_transact_write C qs)"
  unfolding repo_transact_write_def
  by (intro quiet_catch quiet_rules) (auto intro!: quiet_rules split: exn.splits option.splits prod.splits if_splits)

lemma set_position_quiet: "quiet (set_position P c n)"
  unfolding set_position_def set_session_data_def set_sent_def Let_def new_session_context_def time_or_now_def patch_def
  by (auto intro!: quiet_rules)

definition push_event :: "string \<Rightarrow> push_notification \<Rightarrow> out_event" where
  "push_event token n = OutEvent ''push'' [PyStr token, PyDict (projr (push_data n))]"

lemma next_notification_out: "next_notification P props rs w = (r, rs', w') \<Longrightarrow> w_out w' = w_out w"
  by (auto simp: next_notification_def split: prod.splits)

lemma push_notify_out:
  assumes "\<And>token data w. w_out (snd (manager_send (pp_manager P) token data w)) = w_out w @ [OutEvent ''push'' [PyStr token, PyDict data]]"
    "push_notify P q n w = ((ok, q'), w')"
  shows "pq_token q' = pq_token q" "ok \<Longrightarrow> w_out w' = w_out w @ [push_event (pq_token q) n] \<and> pq_last_seq_no q' = Some (pn_seq_no n)"
    "\<exists>ns. length ns \<le> 1 \<and> set ns \<subseteq> {n} \<and> w_out w' = w_out w @ map (push_event (pq_token q)) ns \<and> (ns = [] \<longrightarrow> pq_last_seq_no q' = pq_last_seq_no q)"
proof -
  obtain x u where x: "bnd (lift_res (push_data n)) (manager_send (pp_manager P) (pq_token q)) w = (x, u)" by fastforce
  obtain y t where y: "set_position P (pq_context q) n u = (y, t)" by fastforce
  have t: "w_out t = w_out u" by (rule quietD [OF set_position_quiet y])
  have u: "w_out u = (case push_data n of Inl _ \<Rightarrow> w_out w | Inr _ \<Rightarrow> w_out w @ [push_event (pq_token q) n])"
    using x assms(1) [of "pq_token q" "projr (push_data n)" w] by (cases "push_data n") (auto simp: push_event_def)
  have i: "push_data n = Inl e \<Longrightarrow> \<exists>e. x = Inl e" for e using x by auto
  note n = assms(2) [unfolded push_notify_def x prod.case Let_def y]
  show "pq_token q' = pq_token q" using n by (auto split: sum.splits)
  show "ok \<Longrightarrow> w_out w' = w_out w @ [push_event (pq_token q) n] \<and> pq_last_seq_no q' = Some (pn_seq_no n)"
    using n u t i by (cases "push_data n") (auto split: sum.splits)
  show "\<exists>ns. length ns \<le> 1 \<and> set ns \<subseteq> {n} \<and> w_out w' = w_out w @ map (push_event (pq_token q)) ns \<and> (ns = [] \<longrightarrow> pq_last_seq_no q' = pq_last_seq_no q)"
    using n u t i
    by (intro exI [of _ "if push_data n = Inl (projl (push_data n)) then [] else [n]"]) (cases "push_data n"; auto split: sum.splits)
qed


section \<open>Two notifications\<close>

definition push_pickler :: pickler where
  "push_pickler = scripted_pickler\<lparr>pk_push := (\<lambda>n. case n of None \<Rightarrow> [0] | Some i \<Rightarrow> [1, of_int i]),
     unpk_push := (\<lambda>b. case b of [_, i] \<Rightarrow> Inr (Some (uint i)) | _ \<Rightarrow> Inr None)\<rparr>"

definition push_log :: "'d notifier" where
  "push_log = \<lparr>nt_prefix = None, nt_notify = (\<lambda>token data dry. emit (OutEvent ''push'' [PyStr token, PyDict data]))\<rparr>"

definition push_query :: "mem_db \<Rightarrow> ddb_item list" where
  "push_query d = rev (filter (\<lambda>i. dget ''timeCreated'' i \<noteq> None) (map snd d))"

definition push_client :: "mem_db ddb_client" where
  "push_client = service_client\<lparr>c_query := (\<lambda>p d. (Inr \<lparr>qr_items = Some (push_query d), qr_last_key = None, qr_count = None\<rparr>, d))\<rparr>"

definition push_setup :: "mem_db env \<Rightarrow> mem_db push_processor" where
  "push_setup E = \<lparr>pp_env = E, pp_lambdas = scripted_lambdas, pp_pickler = push_pickler,
     pp_manager = \<lparr>pm_notifiers = [], pm_default = push_log\<rparr>\<rparr>"

definition push_context :: session_context where
  "push_context = example_context\<lparr>sc_context_type := PUSH_NOTIFIER, sc_data := [0]\<rparr>"

definition push_example :: "int \<Rightarrow> push_notification" where
  "push_example i = \<lparr>pn_tenant_id = 7, pn_session_id = ''s'', pn_seq_no = i, pn_channel_type = ''omni'', pn_message_type = None,
     pn_message = Some ''hi'', pn_time_created = 5, pn_sent = False\<rparr>"

definition push_row :: "int \<Rightarrow> row" where
  "push_row i = push_to_record (projr (push_from_entry service_env (push_example i)))"

definition push_world :: "mem_db world" where
  "push_world = snd (bnd (create_session_context service_env push_context) (\<lambda>_.
     bnd (create service_client push_repo (push_row 3)) (\<lambda>_. create service_client push_repo (push_row 4))) (service_world []))"

definition push_start :: push_entry where
  "push_start = \<lparr>pq_context = push_context, pq_token = ''t'', pq_last_seq_no = None\<rparr>"

lemma push_log_sends: "manager_send (pp_manager (push_setup E)) token data = emit (OutEvent ''push'' [PyStr token, PyDict data])"
  by (simp add: manager_send_def send_push_notification_def find_notifier_def push_setup_def push_log_def)

lemma push_first: "fst (fst (push_notify (push_setup service_env) push_start (push_example 3) push_world))"
  by code_simp

definition push_props :: Ddb_Client.query_params where
  "push_props = projr (query_notifications_props (key_of_args 7 ''s'') None)"

definition push_run :: "(exn + push_notification list \<times> push_entry) \<times> mem_db world" where
  "push_run = process_records 4 (push_setup (service_env\<lparr>en_client := push_client\<rparr>)) push_props push_start (new_result_set None) push_world"

lemma push_run_sent: "map_sum id (\<lambda>(ns, q). (map pn_seq_no ns, pq_last_seq_no q)) (fst push_run) = Inr ([3, 4], Some 4)"
  by code_simp

lemma push_sent_together_witness:
  "\<exists>c q' w'. push_notify (push_setup service_env) push_start (push_example 3) push_world = ((True, q'), w') \<and> sc_data c = [1, 3] \<and>
    context_addr c = context_addr push_context \<and> pq_context q' = c \<and> pq_last_seq_no q' = Some 3 \<and>
    (service_view (w_db w') = service_view (w_db push_world) \<or>
     sent_together (push_example 3) c (service_view (w_db push_world)) (service_view (w_db w')))"
proof -
  obtain q' w' where p: "push_notify (push_setup service_env) push_start (push_example 3) push_world = ((True, q'), w')"
    using push_first by (metis (full_types) prod.collapse)
  have E: "en_client (pp_env (push_setup service_env)) = service_client" by (simp add: push_setup_def service_env_ok)
  have K: "keeps service_view {} (manager_send (pp_manager (push_setup service_env)) token data)" for token data
    unfolding push_log_sends by (rule frame_rules)
  from push_sent_together [OF mem_store.store_axioms E K p] p show ?thesis
    by (auto simp: push_setup_def push_pickler_def push_example_def push_start_def)
qed


end
