(* ===== verification/Beans.thy ===== *)
theory Beans
  imports Contexts_Repo Lambdas
begin

text \<open>
  The beans of the service (\<open>bean/\<close>): the profiles a process runs with, the table of beans, the arguments that are injected
  into their loaders (\<open>bean/loaders\<close>), and how an instance is made the first time it is asked for. What a loader makes of
  its arguments is a parameter; threads are not modelled here. Overriding and resetting beans is for tests only.
\<close>

unbundle bit_operations_syntax

section \<open>Values made once\<close>

text \<open>\<open>MemoizedSupplier\<close>: a getter that raises is called again the next time.\<close>

definition supplier_get :: "('w, 'v) prog \<Rightarrow> ('w, unit) prog option \<Rightarrow> ('v option \<times> 'w, 'v) prog" where
  "supplier_get getter callback s = (case s of
     (Some v, w) \<Rightarrow> (Inr v, s)
   | (None, w) \<Rightarrow> (case getter w of
       (Inl e, w') \<Rightarrow> (Inl e, (None, w'))
     | (Inr v, w') \<Rightarrow> (case callback of
         None \<Rightarrow> (Inr v, (Some v, w'))
       | Some f \<Rightarrow> (case f w' of (r, w'') \<Rightarrow> (map_sum id (\<lambda>_. v) r, (Some v, w''))))))"

section \<open>Profiles\<close>

definition WEB_PROFILE :: int where "WEB_PROFILE = 0x1"
definition PUBSUB_POLLER_PROFILE :: int where "PUBSUB_POLLER_PROFILE = 0x02"
definition LIVE_AGENT_PROCESSOR_PROFILE :: int where "LIVE_AGENT_PROCESSOR_PROFILE = 0x04"
definition PUSH_NOTIFIER_PROFILE :: int where "PUSH_NOTIFIER_PROFILE = 0x08"
definition SCHEDULER_PROFILE :: int where "SCHEDULER_PROFILE = 0x10"
definition TABLE_LISTENER_PROFILE :: int where "TABLE_LISTENER_PROFILE = 0x20"

definition ALL_PROFILES :: int where
  "ALL_PROFILES = WEB_PROFILE OR PUBSUB_POLLER_PROFILE OR LIVE_AGENT_PROCESSOR_PROFILE OR PUSH_NOTIFIER_PROFILE OR SCHEDULER_PROFILE OR TABLE_LISTENER_PROFILE"

definition NON_WEB_PROFILES :: int where "NON_WEB_PROFILES = ALL_PROFILES XOR WEB_PROFILE"
definition HTTP_CLIENT_PROFILES :: int where "HTTP_CLIENT_PROFILES = ALL_PROFILES XOR SCHEDULER_PROFILE XOR TABLE_LISTENER_PROFILE"
definition INSTANCE_PROFILES :: int where "INSTANCE_PROFILES = ALL_PROFILES XOR SCHEDULER_PROFILE XOR TABLE_LISTENER_PROFILE"
definition EVENTS_PROFILES :: int where "EVENTS_PROFILES = ALL_PROFILES XOR SCHEDULER_PROFILE XOR TABLE_LISTENER_PROFILE"
definition LAMBDA_PROFILES :: int where "LAMBDA_PROFILES = ALL_PROFILES XOR SCHEDULER_PROFILE"

lemmas profile_defs = WEB_PROFILE_def PUBSUB_POLLER_PROFILE_def LIVE_AGENT_PROCESSOR_PROFILE_def PUSH_NOTIFIER_PROFILE_def
  SCHEDULER_PROFILE_def TABLE_LISTENER_PROFILE_def ALL_PROFILES_def NON_WEB_PROFILES_def HTTP_CLIENT_PROFILES_def
  INSTANCE_PROFILES_def EVENTS_PROFILES_def LAMBDA_PROFILES_def

definition profile_entries :: "(string, int) dict" where
  "profile_entries = [(''web'', WEB_PROFILE), (''pubsub-poller'', PUBSUB_POLLER_PROFILE), (''live-agent-poller'', LIVE_AGENT_PROCESSOR_PROFILE),
     (''notification-publisher'', PUSH_NOTIFIER_PROFILE), (''scheduler'', SCHEDULER_PROFILE), (''table-listener'', TABLE_LISTENER_PROFILE)]"

definition get_active_profiles :: "environ \<Rightarrow> int" where
  "get_active_profiles env = fold (\<lambda>p bits. bits OR (case dget (lower (strip p)) profile_entries of None \<Rightarrow> 0 | Some b \<Rightarrow> b))
     (split_str '','' (case env ''ACTIVE_PROFILES'' of None \<Rightarrow> [] | Some s \<Rightarrow> s)) 0"

definition is_profile_active :: "environ \<Rightarrow> int \<Rightarrow> bool" where
  "is_profile_active env profile_bit = (get_active_profiles env AND profile_bit \<noteq> 0)"

definition should_ignore_vars :: "environ \<Rightarrow> bool" where
  "should_ignore_vars env = (lower (case env ''IGNORE_VARS'' of None \<Rightarrow> ''false'' | Some s \<Rightarrow> s) = ''true'')"

definition resettable :: "environ \<Rightarrow> bool" where
  "resettable env = (env ''AWS_LAMBDA_FUNCTION_NAME'' = None)"

section \<open>The table of beans\<close>

datatype bean_type = BT_PUSH_NOTIFIER | BT_EVENT_LISTENER | BT_REQUEST_HANDLER

datatype bean_name =
    B_SECRETS_MANAGER_CLIENT | B_HTTP_CLIENT | B_DYNAMODB_CLIENT | B_DYNAMODB | B_INSTANCE | B_SECRETS_REPO | B_EVENTS_REPO
  | B_ADMIN_CLIENT | B_AUTHENTICATOR | B_WEB_ROUTER | B_SESSIONS_REPO | B_USER_SESSIONS_REPO | B_RESOURCE_LOCK_REPO
  | B_SNS_CLIENT | B_SNS | B_ERROR_NOTIFIER | B_CONFIG | B_HTTP_CLIENT_BUILDER | B_PUSH_NOTIFICATION_CREDS | B_FIREBASE_ADMIN
  | B_PUSH_NOTIFICATION_CERT_BUILDER | B_PUSH_NOTIFIER | B_SEQUENCE_REPO | B_SESSION_CONTEXTS_REPO | B_PUSH_NOTIFICATION_REPO
  | B_LIVE_AGENT_POLLER_PLATFORM | B_SFDC_SESSIONS_REPO | B_LAMBDA_INVOKER | B_SESSION_CONNECTOR | B_LAMBDA_CLIENT
  | B_LIVE_AGENT_PROCESSOR | B_PUBSUB_POLLER_PROCESSOR | B_SQS_CLIENT | B_SCHEDULER | B_LIVE_AGENT_MESSAGE_DISPATCHER
  | B_PENDING_EVENTS_REPO | B_PUSH_NOTIFIER_PROCESSOR | B_SQS_PUSH_NOTIFIER | B_PUSH_NOTIFICATION_MANAGER | B_WORK_ID_MAP_REPO
  | B_SCHEDULER_CLIENT | B_LAMBDA_SCHEDULER_PROCESSOR | B_TABLE_LISTENER_PROCESSOR | B_PENDING_TENANT_EVENTS_REPO
  | B_TENANT_CONTEXT_REPO | B_SECURE_CHANNEL_CREDENTIALS | B_PUBSUB_SERVICE

fun bean_profiles :: "bean_name \<Rightarrow> int" where
  "bean_profiles B_SECRETS_MANAGER_CLIENT = WEB_PROFILE"
| "bean_profiles B_HTTP_CLIENT = HTTP_CLIENT_PROFILES"
| "bean_profiles B_DYNAMODB_CLIENT = ALL_PROFILES"
| "bean_profiles B_DYNAMODB = ALL_PROFILES"
| "bean_profiles B_INSTANCE = INSTANCE_PROFILES"
| "bean_profiles B_SECRETS_REPO = WEB_PROFILE"
| "bean_profiles B_EVENTS_REPO = EVENTS_PROFILES"
| "bean_profiles B_ADMIN_CLIENT = WEB_PROFILE"
| "bean_profiles B_AUTHENTICATOR = WEB_PROFILE"
| "bean_profiles B_WEB_ROUTER = WEB_PROFILE"
| "bean_profiles B_SESSIONS_REPO = ALL_PROFILES"
| "bean_profiles B_USER_SESSIONS_REPO = ALL_PROFILES"
| "bean_profiles B_RESOURCE_LOCK_REPO = ALL_PROFILES"
| "bean_profiles B_SNS_CLIENT = ALL_PROFILES"
| "bean_profiles B_SNS = ALL_PROFILES"
| "bean_profiles B_ERROR_NOTIFIER = ALL_PROFILES"
| "bean_profiles B_CONFIG = ALL_PROFILES"
| "bean_profiles B_HTTP_CLIENT_BUILDER = HTTP_CLIENT_PROFILES"
| "bean_profiles B_PUSH_NOTIFICATION_CREDS = WEB_PROFILE OR PUSH_NOTIFIER_PROFILE"
| "bean_profiles B_FIREBASE_ADMIN = WEB_PROFILE OR PUSH_NOTIFIER_PROFILE"
| "bean_profiles B_PUSH_NOTIFICATION_CERT_BUILDER = WEB_PROFILE OR PUSH_NOTIFIER_PROFILE"
| "bean_profiles B_PUSH_NOTIFIER = WEB_PROFILE OR PUSH_NOTIFIER_PROFILE"
| "bean_profiles B_SEQUENCE_REPO = EVENTS_PROFILES"
| "bean_profiles B_SESSION_CONTEXTS_REPO = ALL_PROFILES"
| "bean_profiles B_PUSH_NOTIFICATION_REPO = NON_WEB_PROFILES XOR SCHEDULER_PROFILE XOR TABLE_LISTENER_PROFILE"
| "bean_profiles B_LIVE_AGENT_POLLER_PLATFORM = WEB_PROFILE OR LIVE_AGENT_PROCESSOR_PROFILE"
| "bean_profiles B_SFDC_SESSIONS_REPO = ALL_PROFILES"
| "bean_profiles B_LAMBDA_INVOKER = LAMBDA_PROFILES"
| "bean_profiles B_SESSION_CONNECTOR = WEB_PROFILE"
| "bean_profiles B_LAMBDA_CLIENT = LAMBDA_PROFILES"
| "bean_profiles B_LIVE_AGENT_PROCESSOR = LIVE_AGENT_PROCESSOR_PROFILE"
| "bean_profiles B_PUBSUB_POLLER_PROCESSOR = PUBSUB_POLLER_PROFILE"
| "bean_profiles B_SQS_CLIENT = EVENTS_PROFILES"
| "bean_profiles B_SCHEDULER = EVENTS_PROFILES"
| "bean_profiles B_LIVE_AGENT_MESSAGE_DISPATCHER = LIVE_AGENT_PROCESSOR_PROFILE"
| "bean_profiles B_PENDING_EVENTS_REPO = EVENTS_PROFILES"
| "bean_profiles B_PUSH_NOTIFIER_PROCESSOR = PUSH_NOTIFIER_PROFILE"
| "bean_profiles B_SQS_PUSH_NOTIFIER = WEB_PROFILE OR PUSH_NOTIFIER_PROFILE"
| "bean_profiles B_PUSH_NOTIFICATION_MANAGER = WEB_PROFILE OR PUSH_NOTIFIER_PROFILE"
| "bean_profiles B_WORK_ID_MAP_REPO = WEB_PROFILE OR PUBSUB_POLLER_PROFILE"
| "bean_profiles B_SCHEDULER_CLIENT = EVENTS_PROFILES"
| "bean_profiles B_LAMBDA_SCHEDULER_PROCESSOR = SCHEDULER_PROFILE"
| "bean_profiles B_TABLE_LISTENER_PROCESSOR = TABLE_LISTENER_PROFILE"
| "bean_profiles B_PENDING_TENANT_EVENTS_REPO = TABLE_LISTENER_PROFILE OR PUBSUB_POLLER_PROFILE"
| "bean_profiles B_TENANT_CONTEXT_REPO = PUBSUB_POLLER_PROFILE"
| "bean_profiles B_SECURE_CHANNEL_CREDENTIALS = PUBSUB_POLLER_PROFILE"
| "bean_profiles B_PUBSUB_SERVICE = PUBSUB_POLLER_PROFILE"

fun bean_type_of :: "bean_name \<Rightarrow> bean_type option" where
  "bean_type_of B_WEB_ROUTER = Some BT_REQUEST_HANDLER"
| "bean_type_of B_PUSH_NOTIFIER = Some BT_PUSH_NOTIFIER"
| "bean_type_of B_SESSION_CONNECTOR = Some BT_REQUEST_HANDLER"
| "bean_type_of B_LIVE_AGENT_PROCESSOR = Some BT_REQUEST_HANDLER"
| "bean_type_of B_PUBSUB_POLLER_PROCESSOR = Some BT_REQUEST_HANDLER"
| "bean_type_of B_PUSH_NOTIFIER_PROCESSOR = Some BT_REQUEST_HANDLER"
| "bean_type_of B_SQS_PUSH_NOTIFIER = Some BT_PUSH_NOTIFIER"
| "bean_type_of B_WORK_ID_MAP_REPO = Some BT_EVENT_LISTENER"
| "bean_type_of B_LAMBDA_SCHEDULER_PROCESSOR = Some BT_REQUEST_HANDLER"
| "bean_type_of B_TABLE_LISTENER_PROCESSOR = Some BT_REQUEST_HANDLER"
| "bean_type_of b = None"

fun bean_var :: "bean_name \<Rightarrow> string option" where
  "bean_var B_SQS_PUSH_NOTIFIER = Some ''SQS_PUSH_NOTIFICATION_QUEUE_URL''"
| "bean_var b = None"

fun bean_text :: "bean_name \<Rightarrow> string" where
  "bean_text B_SECRETS_MANAGER_CLIENT = ''SECRETS_MANAGER_CLIENT''"
| "bean_text B_HTTP_CLIENT = ''HTTP_CLIENT''"
| "bean_text B_DYNAMODB_CLIENT = ''DYNAMODB_CLIENT''"
| "bean_text B_DYNAMODB = ''DYNAMODB''"
| "bean_text B_INSTANCE = ''INSTANCE''"
| "bean_text B_SECRETS_REPO = ''SECRETS_REPO''"
| "bean_text B_EVENTS_REPO = ''EVENTS_REPO''"
| "bean_text B_ADMIN_CLIENT = ''ADMIN_CLIENT''"
| "bean_text B_AUTHENTICATOR = ''AUTHENTICATOR''"
| "bean_text B_WEB_ROUTER = ''WEB_ROUTER''"
| "bean_text B_SESSIONS_REPO = ''SESSIONS_REPO''"
| "bean_text B_USER_SESSIONS_REPO = ''USER_SESSIONS_REPO''"
| "bean_text B_RESOURCE_LOCK_REPO = ''RESOURCE_LOCK_REPO''"
| "bean_text B_SNS_CLIENT = ''SNS_CLIENT''"
| "bean_text B_SNS = ''SNS''"
| "bean_text B_ERROR_NOTIFIER = ''ERROR_NOTIFIER''"
| "bean_text B_CONFIG = ''CONFIG''"
| "bean_text B_HTTP_CLIENT_BUILDER = ''HTTP_CLIENT_BUILDER''"
| "bean_text B_PUSH_NOTIFICATION_CREDS = ''PUSH_NOTIFICATION_CREDS''"
| "bean_text B_FIREBASE_ADMIN = ''FIREBASE_ADMIN''"
| "bean_text B_PUSH_NOTIFICATION_CERT_BUILDER = ''PUSH_NOTIFICATION_CERT_BUILDER''"
| "bean_text B_PUSH_NOTIFIER = ''PUSH_NOTIFIER''"
| "bean_text B_SEQUENCE_REPO = ''SEQUENCE_REPO''"
| "bean_text B_SESSION_CONTEXTS_REPO = ''SESSION_CONTEXTS_REPO''"
| "bean_text B_PUSH_NOTIFICATION_REPO = ''PUSH_NOTIFICATION_REPO''"
| "bean_text B_LIVE_AGENT_POLLER_PLATFORM = ''LIVE_AGENT_POLLER_PLATFORM''"
| "bean_text B_SFDC_SESSIONS_REPO = ''SFDC_SESSIONS_REPO''"
| "bean_text B_LAMBDA_INVOKER = ''LAMBDA_INVOKER''"
| "bean_text B_SESSION_CONNECTOR = ''SESSION_CONNECTOR''"
| "bean_text B_LAMBDA_CLIENT = ''LAMBDA_CLIENT''"
| "bean_text B_LIVE_AGENT_PROCESSOR = ''LIVE_AGENT_PROCESSOR''"
| "bean_text B_PUBSUB_POLLER_PROCESSOR = ''PUBSUB_POLLER_PROCESSOR''"
| "bean_text B_SQS_CLIENT = ''SQS_CLIENT''"
| "bean_text B_SCHEDULER = ''SCHEDULER''"
| "bean_text B_LIVE_AGENT_MESSAGE_DISPATCHER = ''LIVE_AGENT_MESSAGE_DISPATCHER''"
| "bean_text B_PENDING_EVENTS_REPO = ''PENDING_EVENTS_REPO''"
| "bean_text B_PUSH_NOTIFIER_PROCESSOR = ''PUSH_NOTIFIER_PROCESSOR''"
| "bean_text B_SQS_PUSH_NOTIFIER = ''SQS_PUSH_NOTIFIER''"
| "bean_text B_PUSH_NOTIFICATION_MANAGER = ''PUSH_NOTIFICATION_MANAGER''"
| "bean_text B_WORK_ID_MAP_REPO = ''WORK_ID_MAP_REPO''"
| "bean_text B_SCHEDULER_CLIENT = ''SCHEDULER_CLIENT''"
| "bean_text B_LAMBDA_SCHEDULER_PROCESSOR = ''LAMBDA_SCHEDULER_PROCESSOR''"
| "bean_text B_TABLE_LISTENER_PROCESSOR = ''TABLE_LISTENER_PROCESSOR''"
| "bean_text B_PENDING_TENANT_EVENTS_REPO = ''PENDING_TENANT_EVENTS_REPO''"
| "bean_text B_TENANT_CONTEXT_REPO = ''TENANT_CONTEXT_REPO''"
| "bean_text B_SECURE_CHANNEL_CREDENTIALS = ''SECURE_CHANNEL_CREDENTIALS''"
| "bean_text B_PUBSUB_SERVICE = ''PUBSUB_SERVICE''"

definition all_beans :: "bean_name list" where
  "all_beans = [B_SECRETS_MANAGER_CLIENT, B_DYNAMODB_CLIENT, B_HTTP_CLIENT, B_INSTANCE, B_SECRETS_REPO, B_ADMIN_CLIENT,
     B_AUTHENTICATOR, B_WEB_ROUTER, B_DYNAMODB, B_SESSIONS_REPO, B_USER_SESSIONS_REPO, B_SNS_CLIENT, B_SNS, B_ERROR_NOTIFIER,
     B_CONFIG, B_HTTP_CLIENT_BUILDER, B_PUSH_NOTIFICATION_CREDS, B_PUSH_NOTIFICATION_CERT_BUILDER, B_PUSH_NOTIFICATION_REPO,
     B_FIREBASE_ADMIN, B_PUSH_NOTIFIER, B_SEQUENCE_REPO, B_EVENTS_REPO, B_SFDC_SESSIONS_REPO, B_LIVE_AGENT_POLLER_PLATFORM,
     B_SESSION_CONTEXTS_REPO, B_LAMBDA_CLIENT, B_LAMBDA_INVOKER, B_SESSION_CONNECTOR, B_RESOURCE_LOCK_REPO, B_LIVE_AGENT_PROCESSOR,
     B_SCHEDULER_CLIENT, B_SCHEDULER, B_LIVE_AGENT_MESSAGE_DISPATCHER, B_PENDING_EVENTS_REPO, B_PUSH_NOTIFIER_PROCESSOR,
     B_PUSH_NOTIFICATION_MANAGER, B_SQS_PUSH_NOTIFIER, B_WORK_ID_MAP_REPO, B_SQS_CLIENT, B_LAMBDA_SCHEDULER_PROCESSOR,
     B_TABLE_LISTENER_PROCESSOR, B_PENDING_TENANT_EVENTS_REPO, B_TENANT_CONTEXT_REPO, B_PUBSUB_SERVICE, B_PUBSUB_POLLER_PROCESSOR,
     B_SECURE_CHANNEL_CREDENTIALS]"

section \<open>What is injected\<close>

text \<open>\<open>@inject\<close>: instances of beans, of all beans of a type, and beans whose instances are made later.\<close>

record injected =
  in_instances :: "bean_name list"
  in_types :: "bean_type list"
  in_beans :: "bean_name list"

definition inject :: "bean_name list \<Rightarrow> bean_type list \<Rightarrow> bean_name list \<Rightarrow> injected" where
  "inject instances types beans = \<lparr>in_instances = instances, in_types = types, in_beans = beans\<rparr>"

definition http_client_loader :: injected where "http_client_loader = inject [] [] []"
definition instance_loader :: injected where "instance_loader = inject [B_CONFIG, B_SECRETS_REPO] [] [B_ADMIN_CLIENT, B_PUSH_NOTIFICATION_MANAGER]"
definition secrets_repo_loader :: injected where "secrets_repo_loader = inject [B_SECRETS_MANAGER_CLIENT] [] []"
definition admin_client_loader :: injected where "admin_client_loader = inject [B_SECRETS_REPO] [] []"
definition authenticator_loader :: injected where "authenticator_loader = inject [B_INSTANCE] [] []"
definition web_loader :: injected where "web_loader = inject [] [] []"
definition dynamodb_loader :: injected where "dynamodb_loader = inject [B_DYNAMODB_CLIENT] [] []"
definition sessions_repo_loader :: injected where
  "sessions_repo_loader = inject [B_DYNAMODB, B_USER_SESSIONS_REPO, B_EVENTS_REPO, B_SEQUENCE_REPO, B_SFDC_SESSIONS_REPO] [] []"
definition user_sessions_repo_loader :: injected where "user_sessions_repo_loader = inject [B_DYNAMODB] [] []"
definition sns_loader :: injected where "sns_loader = inject [B_SNS_CLIENT] [] []"
definition error_notifier_loader :: injected where "error_notifier_loader = inject [B_SNS] [] []"
definition http_client_builder_loader :: injected where "http_client_builder_loader = inject [] [] []"
definition push_provider_creds_loader :: injected where "push_provider_creds_loader = inject [B_ADMIN_CLIENT] [] []"
definition push_cert_builder_loader :: injected where "push_cert_builder_loader = inject [] [] []"
definition push_notification_repo_loader :: injected where
  "push_notification_repo_loader = inject [B_DYNAMODB, B_SEQUENCE_REPO, B_SESSION_CONTEXTS_REPO, B_LAMBDA_INVOKER, B_CONFIG] [] []"
definition firebase_loader :: injected where "firebase_loader = inject [] [] []"
definition push_notifier_loader :: injected where
  "push_notifier_loader = inject [] [] [B_PUSH_NOTIFICATION_CREDS, B_FIREBASE_ADMIN, B_PUSH_NOTIFICATION_CERT_BUILDER]"
definition sequence_repo_loader :: injected where "sequence_repo_loader = inject [B_DYNAMODB, B_EVENTS_REPO] [] []"
definition events_repo_loader :: injected where "events_repo_loader = inject [B_DYNAMODB] [BT_EVENT_LISTENER] []"
definition sfdc_sessions_repo_loader :: injected where "sfdc_sessions_repo_loader = inject [B_DYNAMODB, B_SESSION_CONTEXTS_REPO] [] [B_SESSIONS_REPO]"
definition live_agent_poller_platform_loader :: injected where "live_agent_poller_platform_loader = inject [] [] []"
definition session_contexts_repo_loader :: injected where
  "session_contexts_repo_loader = inject [B_DYNAMODB, B_CONFIG] [] [B_SEQUENCE_REPO, B_SESSIONS_REPO, B_SFDC_SESSIONS_REPO, B_PENDING_EVENTS_REPO]"
definition lambda_invoker_loader :: injected where "lambda_invoker_loader = inject [B_LAMBDA_CLIENT] [] []"
definition session_connector_loader :: injected where "session_connector_loader = inject [] [] []"
definition resource_lock_repo_loader :: injected where "resource_lock_repo_loader = inject [B_DYNAMODB] [] []"
definition live_agent_processor_loader :: injected where
  "live_agent_processor_loader = inject [B_PENDING_EVENTS_REPO, B_RESOURCE_LOCK_REPO, B_SESSION_CONTEXTS_REPO, B_LAMBDA_INVOKER, B_CONFIG, B_LIVE_AGENT_MESSAGE_DISPATCHER] [] []"
definition scheduler_loader :: injected where "scheduler_loader = inject [B_SCHEDULER_CLIENT, B_LAMBDA_CLIENT] [] []"
definition live_agent_message_dispatcher_loader :: injected where "live_agent_message_dispatcher_loader = inject [B_PUSH_NOTIFICATION_REPO] [] []"
definition pending_events_repo_loader :: injected where "pending_events_repo_loader = inject [B_DYNAMODB] [] []"
definition push_notifier_processor_loader :: injected where
  "push_notifier_processor_loader = inject [B_SESSION_CONTEXTS_REPO, B_PUSH_NOTIFICATION_REPO, B_PUSH_NOTIFICATION_MANAGER] [] []"
definition push_notification_manager_loader :: injected where "push_notification_manager_loader = inject [] [BT_PUSH_NOTIFIER] []"
definition sqs_push_notifier_loader :: injected where "sqs_push_notifier_loader = inject [B_SQS_CLIENT] [] []"
definition work_id_map_repo_loader :: injected where "work_id_map_repo_loader = inject [B_DYNAMODB, B_CONFIG] [] []"
definition lambda_scheduler_processor_loader :: injected where "lambda_scheduler_processor_loader = inject [] [] []"
definition table_listener_processor_loader :: injected where
  "table_listener_processor_loader = inject [B_SESSION_CONTEXTS_REPO, B_PENDING_TENANT_EVENTS_REPO, B_LAMBDA_INVOKER] [] []"
definition pending_tenant_events_repo_loader :: injected where "pending_tenant_events_repo_loader = inject [B_DYNAMODB] [] []"
definition tenant_context_repo_loader :: injected where "tenant_context_repo_loader = inject [B_DYNAMODB] [] []"
definition pubsub_service_loader :: injected where "pubsub_service_loader = inject [] [] []"
definition pubsub_poller_processor_loader :: injected where
  "pubsub_poller_processor_loader = inject [B_RESOURCE_LOCK_REPO, B_PENDING_TENANT_EVENTS_REPO, B_PUSH_NOTIFICATION_REPO, B_SESSIONS_REPO, B_USER_SESSIONS_REPO, B_WORK_ID_MAP_REPO, B_TENANT_CONTEXT_REPO, B_LAMBDA_INVOKER, B_CONFIG, B_SECURE_CHANNEL_CREDENTIALS, B_PUBSUB_SERVICE] [] []"
definition secure_channel_credentials_loader :: injected where "secure_channel_credentials_loader = inject [] [] []"

fun bean_loader :: "bean_name \<Rightarrow> injected" where
  "bean_loader B_HTTP_CLIENT = http_client_loader"
| "bean_loader B_INSTANCE = instance_loader"
| "bean_loader B_SECRETS_REPO = secrets_repo_loader"
| "bean_loader B_ADMIN_CLIENT = admin_client_loader"
| "bean_loader B_AUTHENTICATOR = authenticator_loader"
| "bean_loader B_WEB_ROUTER = web_loader"
| "bean_loader B_DYNAMODB = dynamodb_loader"
| "bean_loader B_SESSIONS_REPO = sessions_repo_loader"
| "bean_loader B_USER_SESSIONS_REPO = user_sessions_repo_loader"
| "bean_loader B_SNS = sns_loader"
| "bean_loader B_ERROR_NOTIFIER = error_notifier_loader"
| "bean_loader B_HTTP_CLIENT_BUILDER = http_client_builder_loader"
| "bean_loader B_PUSH_NOTIFICATION_CREDS = push_provider_creds_loader"
| "bean_loader B_PUSH_NOTIFICATION_CERT_BUILDER = push_cert_builder_loader"
| "bean_loader B_PUSH_NOTIFICATION_REPO = push_notification_repo_loader"
| "bean_loader B_FIREBASE_ADMIN = firebase_loader"
| "bean_loader B_PUSH_NOTIFIER = push_notifier_loader"
| "bean_loader B_SEQUENCE_REPO = sequence_repo_loader"
| "bean_loader B_EVENTS_REPO = events_repo_loader"
| "bean_loader B_SFDC_SESSIONS_REPO = sfdc_sessions_repo_loader"
| "bean_loader B_LIVE_AGENT_POLLER_PLATFORM = live_agent_poller_platform_loader"
| "bean_loader B_SESSION_CONTEXTS_REPO = session_contexts_repo_loader"
| "bean_loader B_LAMBDA_INVOKER = lambda_invoker_loader"
| "bean_loader B_SESSION_CONNECTOR = session_connector_loader"
| "bean_loader B_RESOURCE_LOCK_REPO = resource_lock_repo_loader"
| "bean_loader B_LIVE_AGENT_PROCESSOR = live_agent_processor_loader"
| "bean_loader B_SCHEDULER = scheduler_loader"
| "bean_loader B_LIVE_AGENT_MESSAGE_DISPATCHER = live_agent_message_dispatcher_loader"
| "bean_loader B_PENDING_EVENTS_REPO = pending_events_repo_loader"
| "bean_loader B_PUSH_NOTIFIER_PROCESSOR = push_notifier_processor_loader"
| "bean_loader B_PUSH_NOTIFICATION_MANAGER = push_notification_manager_loader"
| "bean_loader B_SQS_PUSH_NOTIFIER = sqs_push_notifier_loader"
| "bean_loader B_WORK_ID_MAP_REPO = work_id_map_repo_loader"
| "bean_loader B_LAMBDA_SCHEDULER_PROCESSOR = lambda_scheduler_processor_loader"
| "bean_loader B_TABLE_LISTENER_PROCESSOR = table_listener_processor_loader"
| "bean_loader B_PENDING_TENANT_EVENTS_REPO = pending_tenant_events_repo_loader"
| "bean_loader B_TENANT_CONTEXT_REPO = tenant_context_repo_loader"
| "bean_loader B_PUBSUB_SERVICE = pubsub_service_loader"
| "bean_loader B_PUBSUB_POLLER_PROCESSOR = pubsub_poller_processor_loader"
| "bean_loader B_SECURE_CHANNEL_CREDENTIALS = secure_channel_credentials_loader"
| "bean_loader b = inject [] [] []"

section \<open>Instances\<close>

record 'v bean_state =
  bs_value :: "'v option"
  bs_in_progress :: bool
  bs_disabled :: bool

datatype 'v bean_arg = Instance 'v | Instances "'v list" | Supplied bean_name

type_synonym ('v, 'w) bean_world = "(bean_name \<Rightarrow> 'v bean_state) \<times> 'w"
type_synonym ('v, 'w, 'a) bean_prog = "(('v, 'w) bean_world, 'a) prog"

text \<open>A bean is disabled by its profiles, in a function of Lambda only, or by its variable.\<close>

definition bean_disabled :: "environ \<Rightarrow> bean_name \<Rightarrow> bool" where
  "bean_disabled env b \<longleftrightarrow> \<not> resettable env \<and> get_active_profiles env AND bean_profiles b = 0 \<or>
     \<not> should_ignore_vars env \<and> (case bean_var b of None \<Rightarrow> False | Some v \<Rightarrow> env v = None \<or> env v = Some [])"

definition set_name :: "environ \<Rightarrow> bean_name \<Rightarrow> 'v bean_state" where
  "set_name env b = \<lparr>bs_value = None, bs_in_progress = False, bs_disabled = bean_disabled env b\<rparr>"

definition bean_gets :: "(('v bean_state) \<Rightarrow> 'a) \<Rightarrow> bean_name \<Rightarrow> ('v, 'w, 'a) bean_prog" where
  "bean_gets f b = gets (\<lambda>(s, w). f (s b))"

definition bean_set :: "bean_name \<Rightarrow> ('v bean_state \<Rightarrow> 'v bean_state) \<Rightarrow> ('v, 'w, unit) bean_prog" where
  "bean_set b f = modify (\<lambda>(s, w). (s(b := f (s b)), w))"

definition beans_of_type :: "bean_type \<Rightarrow> ('v, 'w, bean_name list) bean_prog" where
  "beans_of_type t = gets (\<lambda>(s, w). filter (\<lambda>b. \<not> bs_disabled (s b) \<and> bean_type_of b = Some t) all_beans)"

text \<open>
  What a loader makes of its arguments: \<open>bm_make\<close>, for clients of AWS and for the configuration with no arguments.
  \<open>bm_text\<close> is the text of an exception with its trace.
\<close>

record ('v, 'w) bean_maker =
  bm_make :: "bean_name \<Rightarrow> 'v bean_arg list \<Rightarrow> ('w, 'v) prog"
  bm_text :: "exn \<Rightarrow> string"

definition bean_initialization :: "bean_name \<Rightarrow> string \<Rightarrow> exn" where
  "bean_initialization b text = BeanInitialization (''Initialization of bean '' @ [CHR 0x27] @ bean_text b @ [CHR 0x27] @ '' failed: '' @ text)"

text \<open>The arguments of a loader; \<open>instance\<close> makes one instance.\<close>

definition load_bean_args :: "(bean_name \<Rightarrow> ('v, 'w, 'v) bean_prog) \<Rightarrow> injected \<Rightarrow> ('v, 'w, 'v bean_arg list) bean_prog" where
  "load_bean_args instance i =
     bnd (map_prog instance (in_instances i)) (\<lambda>vs.
     bnd (map_prog (\<lambda>t. bnd (beans_of_type t) (map_prog instance)) (in_types i)) (\<lambda>vss.
     ret (map Instance vs @ map Instances vss @ map Supplied (in_beans i))))"

definition initialize :: "('v, 'w) bean_maker \<Rightarrow> bean_name \<Rightarrow> ('v, 'w, 'v bean_arg list) bean_prog \<Rightarrow> ('v, 'w, 'v) bean_prog" where
  "initialize M b args =
     bnd (bean_gets bs_in_progress b) (\<lambda>busy.
     if busy then raise AssertionError
     else bnd (bean_set b (bs_in_progress_update (\<lambda>_. True))) (\<lambda>_.
       finally_do
         (catch (bnd (bean_gets bs_disabled b) (\<lambda>off.
              if off then raise (PlainException (''Bean BeanName.'' @ bean_text b @ '' not active based on current profile.''))
              else bnd args (\<lambda>vs. bnd (\<lambda>(s, w). case bm_make M b vs w of (r, w') \<Rightarrow> (r, (s, w'))) (\<lambda>v.
                bnd (bean_set b (bs_value_update (\<lambda>_. Some v))) (\<lambda>_. ret v)))))
           (\<lambda>e. if e = OutOfFuel then None else Some (raise (bean_initialization b (bm_text M e)))))
         (bean_set b (bs_in_progress_update (\<lambda>_. False)))))"

text \<open>The fuel counts nested instances.\<close>

fun get_instance :: "nat \<Rightarrow> ('v, 'w) bean_maker \<Rightarrow> bean_name \<Rightarrow> ('v, 'w, 'v) bean_prog" where
  "get_instance 0 M b = raise OutOfFuel"
| "get_instance (Suc n) M b = bnd (bean_gets bs_value b) (\<lambda>v. case v of
     Some v \<Rightarrow> ret v
   | None \<Rightarrow> initialize M b (load_bean_args (get_instance n M) (bean_loader b)))"

definition beans_with_type :: "nat \<Rightarrow> ('v, 'w) bean_maker \<Rightarrow> bean_type \<Rightarrow> ('v, 'w, 'v list) bean_prog" where
  "beans_with_type n M t = bnd (beans_of_type t) (map_prog (get_instance n M))"

definition setup_beans :: "environ \<Rightarrow> bean_name \<Rightarrow> 'v bean_state" where
  "setup_beans env = set_name env"

section \<open>Every function comes up\<close>

text \<open>A bean is asked for beans of a lower rank only, so nothing waits for itself.\<close>

definition bean_rank :: "bean_name \<Rightarrow> nat" where
  "bean_rank b = (case dget b
     [(B_INSTANCE, 2), (B_SECRETS_REPO, 1), (B_ADMIN_CLIENT, 2), (B_AUTHENTICATOR, 3), (B_DYNAMODB, 1), (B_SESSIONS_REPO, 5),
      (B_USER_SESSIONS_REPO, 2), (B_SNS, 1), (B_ERROR_NOTIFIER, 2), (B_PUSH_NOTIFICATION_CREDS, 3), (B_PUSH_NOTIFICATION_REPO, 5),
      (B_SEQUENCE_REPO, 4), (B_EVENTS_REPO, 3), (B_SFDC_SESSIONS_REPO, 3), (B_SESSION_CONTEXTS_REPO, 2), (B_LAMBDA_INVOKER, 1),
      (B_RESOURCE_LOCK_REPO, 2), (B_LIVE_AGENT_PROCESSOR, 7), (B_SCHEDULER, 1), (B_LIVE_AGENT_MESSAGE_DISPATCHER, 6),
      (B_PENDING_EVENTS_REPO, 2), (B_PUSH_NOTIFIER_PROCESSOR, 6), (B_PUSH_NOTIFICATION_MANAGER, 2), (B_SQS_PUSH_NOTIFIER, 1),
      (B_WORK_ID_MAP_REPO, 2), (B_TABLE_LISTENER_PROCESSOR, 3), (B_PENDING_TENANT_EVENTS_REPO, 2), (B_TENANT_CONTEXT_REPO, 2),
      (B_PUBSUB_POLLER_PROCESSOR, 6)] of None \<Rightarrow> 0 | Some r \<Rightarrow> r)"

definition bean_deps :: "(bean_name \<Rightarrow> bool) \<Rightarrow> bean_name \<Rightarrow> bean_name list" where
  "bean_deps off b = in_instances (bean_loader b) @
     concat (map (\<lambda>t. filter (\<lambda>c. \<not> off c \<and> bean_type_of c = Some t) all_beans) (in_types (bean_loader b)))"

lemma all_beans_UNIV [simp]: "b \<in> set all_beans"
  by (cases b) (simp_all add: all_beans_def)

lemma deps_below_all: "list_all (\<lambda>b. list_all (\<lambda>d. bean_rank d < bean_rank b) (bean_deps (\<lambda>c. False) b)) all_beans"
  by code_simp

lemma deps_below: "d \<in> set (bean_deps off b) \<Longrightarrow> bean_rank d < bean_rank b"
  using deps_below_all [unfolded list_all_iff, rule_format, of b d] by (auto simp: bean_deps_def)

fun wired :: "nat \<Rightarrow> (bean_name \<Rightarrow> bool) \<Rightarrow> bean_name \<Rightarrow> bool" where
  "wired 0 off b = False"
| "wired (Suc n) off b \<longleftrightarrow> \<not> off b \<and> list_all (wired n off) (bean_deps off b)"

text \<open>The same beans are disabled and in progress.\<close>

definition same_beans :: "(bean_name \<Rightarrow> 'v bean_state) \<Rightarrow> (bean_name \<Rightarrow> 'v bean_state) \<Rightarrow> bool" where
  "same_beans s s' \<longleftrightarrow> (\<forall>b. bs_in_progress (s' b) = bs_in_progress (s b) \<and> bs_disabled (s' b) = bs_disabled (s b))"

lemma same_beans_refl [simp]: "same_beans s s"
  by (simp add: same_beans_def)

lemma same_beans_trans: "same_beans s t \<Longrightarrow> same_beans t u \<Longrightarrow> same_beans s u"
  by (simp add: same_beans_def)

definition comes_up :: "('v, 'w, 'a) bean_prog \<Rightarrow> (bean_name \<Rightarrow> 'v bean_state) \<Rightarrow> bool" where
  "comes_up p s \<longleftrightarrow> (\<forall>t w. same_beans s t \<longrightarrow> (\<exists>v t' w'. p (t, w) = (Inr v, (t', w')) \<and> same_beans s t'))"

lemma comes_upI: "(\<And>t w. same_beans s t \<Longrightarrow> \<exists>v t' w'. p (t, w) = (Inr v, (t', w')) \<and> same_beans s t') \<Longrightarrow> comes_up p s"
  by (simp add: comes_up_def)

lemma comes_upE:
  assumes "comes_up p s" "same_beans s t"
  obtains v t' w' where "p (t, w) = (Inr v, (t', w'))" "same_beans s t'"
  using assms unfolding comes_up_def by blast

lemma comes_up_ret: "comes_up (ret v) s"
  by (simp add: comes_up_def)

lemma comes_up_bnd:
  assumes "comes_up p s" "\<And>v. comes_up (f v) s"
  shows "comes_up (bnd p f) s"
proof (rule comes_upI)
  fix t w assume "same_beans s t"
  from comes_upE [OF assms(1) this] obtain v t' w' where p: "p (t, w) = (Inr v, (t', w'))" "same_beans s t'" .
  from comes_upE [OF assms(2) p(2)] obtain u t'' w'' where "f v (t', w') = (Inr u, (t'', w''))" "same_beans s t''" .
  then show "\<exists>v t' w'. bnd p f (t, w) = (Inr v, (t', w')) \<and> same_beans s t'" using p(1) by (simp add: bnd_Inr)
qed

lemma comes_up_map: "(\<And>x. x \<in> set xs \<Longrightarrow> comes_up (f x) s) \<Longrightarrow> comes_up (map_prog f xs) s"
  by (induction xs) (auto intro!: comes_up_ret comes_up_bnd)

lemma comes_up_type:
  assumes "\<And>b. b \<in> set (filter (\<lambda>c. \<not> bs_disabled (s c) \<and> bean_type_of c = Some t) all_beans) \<Longrightarrow> comes_up (f b) s"
  shows "comes_up (bnd (beans_of_type t) (map_prog f)) s"
proof (rule comes_upI)
  fix u w assume u: "same_beans s u"
  let ?bs = "filter (\<lambda>c. \<not> bs_disabled (u c) \<and> bean_type_of c = Some t) all_beans"
  have "?bs = filter (\<lambda>c. \<not> bs_disabled (s c) \<and> bean_type_of c = Some t) all_beans" using u by (simp add: same_beans_def)
  then have "comes_up (map_prog f ?bs) s" using comes_up_map [of ?bs f s] assms by simp
  from comes_upE [OF this u] obtain v t' w' where "map_prog f ?bs (u, w) = (Inr v, (t', w'))" "same_beans s t'" .
  then show "\<exists>v t' w'. bnd (beans_of_type t) (map_prog f) (u, w) = (Inr v, (t', w')) \<and> same_beans s t'"
    by (simp add: beans_of_type_def bnd_def)
qed

lemma load_args_up:
  assumes "\<And>d. d \<in> set (bean_deps (\<lambda>c. bs_disabled (s c)) b) \<Longrightarrow> comes_up (f d) s"
  shows "comes_up (load_bean_args f (bean_loader b)) s"
  unfolding load_bean_args_def
  by (intro comes_up_bnd comes_up_map comes_up_type comes_up_ret assms) (auto simp: bean_deps_def)

definition makes :: "('v, 'w) bean_maker \<Rightarrow> bool" where
  "makes M \<longleftrightarrow> (\<forall>b vs w. \<exists>v w'. bm_make M b vs w = (Inr v, w'))"

lemma initialize_up:
  assumes "makes M" "\<not> bs_in_progress (s b)" "\<not> bs_disabled (s b)" "comes_up args (s(b := (s b)\<lparr>bs_in_progress := True\<rparr>))"
  shows "comes_up (initialize M b args) s"
proof (rule comes_upI)
  fix t w assume t: "same_beans s t"
  let ?s = "s(b := (s b)\<lparr>bs_in_progress := True\<rparr>)" and ?t = "t(b := (t b)\<lparr>bs_in_progress := True\<rparr>)"
  have "same_beans ?s ?t" using t by (simp add: same_beans_def)
  from comes_upE [OF assms(4) this] obtain vs u w1 where a: "args (?t, w) = (Inr vs, (u, w1))" "same_beans ?s u" .
  obtain v w2 where v: "bm_make M b vs w1 = (Inr v, w2)" using assms(1) unfolding makes_def by metis
  have "initialize M b args (t, w) = (Inr v, (u(b := (u b)\<lparr>bs_value := Some v, bs_in_progress := False\<rparr>), w2))"
    using t assms(2,3) a(1) v
    by (simp add: initialize_def bean_gets_def bean_set_def finally_do_def catch_def bnd_def same_beans_def)
  moreover have "same_beans s (u(b := (u b)\<lparr>bs_value := Some v, bs_in_progress := False\<rparr>))"
    using a(2) assms(2) by (auto simp: same_beans_def split: if_splits)
  ultimately show "\<exists>v t' w'. initialize M b args (t, w) = (Inr v, (t', w')) \<and> same_beans s t'" by blast
qed

lemma instance_up:
  assumes "makes M"
  shows "wired k (\<lambda>c. bs_disabled (s c)) b \<Longrightarrow> bean_rank b < n \<Longrightarrow> (\<And>c. bs_in_progress (s c) \<Longrightarrow> bean_rank b < bean_rank c) \<Longrightarrow>
    comes_up (get_instance n M b) s"
proof (induction n arbitrary: k b s)
  case (Suc n)
  obtain j where j: "k = Suc j" using Suc.prems(1) by (cases k) auto
  let ?s = "s(b := (s b)\<lparr>bs_in_progress := True\<rparr>)"
  have off: "(\<lambda>c. bs_disabled (?s c)) = (\<lambda>c. bs_disabled (s c))" by auto
  have a: "comes_up (load_bean_args (get_instance n M) (bean_loader b)) ?s"
  proof (rule load_args_up)
    fix d assume d: "d \<in> set (bean_deps (\<lambda>c. bs_disabled (?s c)) b)"
    then have r: "bean_rank d < bean_rank b" by (rule deps_below)
    have "wired j (\<lambda>c. bs_disabled (?s c)) d" using Suc.prems(1) d unfolding off j by (simp add: list_all_iff)
    then show "comes_up (get_instance n M d) ?s"
      by (rule Suc.IH) (use r Suc.prems(2,3) in \<open>fastforce split: if_splits\<close>)+
  qed
  have i: "comes_up (initialize M b (load_bean_args (get_instance n M) (bean_loader b))) s"
    by (rule initialize_up [OF assms _ _ a]) (use Suc.prems j in auto)
  show ?case
  proof (rule comes_upI)
    fix t w assume t: "same_beans s t"
    then show "\<exists>v t' w'. get_instance (Suc n) M b (t, w) = (Inr v, (t', w')) \<and> same_beans s t'"
      using comes_upE [OF i t] by (cases "bs_value (t b)") (auto simp: bean_gets_def bnd_def, metis)
  qed
qed simp

text \<open>A function of Lambda with one of the profiles; the variable of the SQS notifier may be set or not.\<close>

definition bean_off :: "int \<Rightarrow> bool \<Rightarrow> bean_name \<Rightarrow> bool" where
  "bean_off P no_queue b \<longleftrightarrow> P AND bean_profiles b = 0 \<or> no_queue \<and> bean_var b \<noteq> None"

definition function_environ :: "environ \<Rightarrow> string \<Rightarrow> bool" where
  "function_environ env p \<longleftrightarrow> env ''AWS_LAMBDA_FUNCTION_NAME'' \<noteq> None \<and> env ''ACTIVE_PROFILES'' = Some p \<and> p \<in> set (dkeys profile_entries)"

lemma active_profiles: "function_environ env p \<Longrightarrow> dget p profile_entries = Some (get_active_profiles env)"
proof -
  have "list_all (\<lambda>p. dget p profile_entries = Some (fold (\<lambda>p bits. bits OR (case dget (lower (strip p)) profile_entries of None \<Rightarrow> 0 | Some b \<Rightarrow> b))
     (split_str '','' p) 0)) (dkeys profile_entries)" by code_simp
  then show "function_environ env p \<Longrightarrow> ?thesis" by (auto simp: function_environ_def get_active_profiles_def list_all_iff)
qed

lemma disabled_off: "function_environ env p \<Longrightarrow> \<exists>no_queue. bean_disabled env = bean_off (get_active_profiles env) no_queue"
  by (intro exI [of _ "\<not> should_ignore_vars env \<and> (env ''SQS_PUSH_NOTIFICATION_QUEUE_URL'' = None \<or> env ''SQS_PUSH_NOTIFICATION_QUEUE_URL'' = Some [])"] ext)
     (auto simp: bean_disabled_def bean_off_def function_environ_def resettable_def split: option.splits elim!: bean_var.elims)

lemma handlers_wired:
  "list_all (\<lambda>P. list_all (\<lambda>q. list_all (\<lambda>b. bean_type_of b = Some BT_REQUEST_HANDLER \<longrightarrow> \<not> bean_off P q b \<longrightarrow> wired 9 (bean_off P q) b) all_beans) [True, False])
     (dvalues profile_entries)"
  by code_simp

lemma ranks_bounded: "bean_rank b < 9"
proof -
  have "list_all (\<lambda>b. bean_rank b < 9) all_beans" by code_simp
  then show ?thesis by (simp add: list_all_iff)
qed

lemma map_prog_length: "map_prog f xs w = (Inr vs, w') \<Longrightarrow> length vs = length xs"
  by (induction xs arbitrary: w vs) (auto simp: bnd_def ret_def split: prod.splits sum.splits)

lemma handler_up:
  assumes "function_environ env p" "makes M" "bean_type_of b = Some BT_REQUEST_HANDLER" "\<not> bean_disabled env b"
  shows "comes_up (get_instance 9 M b) (setup_beans env)"
proof (rule instance_up [OF assms(2) _ ranks_bounded])
  obtain q where q: "bean_disabled env = bean_off (get_active_profiles env) q" using disabled_off [OF assms(1)] by blast
  have "get_active_profiles env \<in> set (dvalues profile_entries)"
    using active_profiles [OF assms(1)] by (force simp: dvalues_def dest: dget_SomeD)
  then have "wired 9 (bean_off (get_active_profiles env) q) b"
    using handlers_wired assms(3,4) unfolding q by (cases q) (auto simp: list_all_iff)
  then show "wired 9 (\<lambda>c. bs_disabled (setup_beans env c)) b" by (simp add: setup_beans_def set_name_def q)
qed (simp add: setup_beans_def set_name_def)


text \<open>A function deployed with a profile, and loaders that answer the bean they make.\<close>

definition example_environ :: "string \<Rightarrow> environ" where
  "example_environ p = (\<lambda>k. dget k [(''AWS_LAMBDA_FUNCTION_NAME'', ''ShimService''), (''ACTIVE_PROFILES'', p)])"

definition example_maker :: "(bean_name, unit) bean_maker" where
  "example_maker = \<lparr>bm_make = \<lambda>b vs w. (Inr b, w), bm_text = \<lambda>e. ''trace''\<rparr>"


lemma off_raises:
  assumes "bs_value (s b) = None" "\<not> bs_in_progress (s b)" "bs_disabled (s b)"
  shows "\<exists>msg s'. get_instance (Suc n) M b (s, w) = (Inl (bean_initialization b msg), (s', w))"
  using assms by (auto simp: initialize_def bean_gets_def bean_set_def finally_do_def catch_def bnd_def)

text \<open>
  C16 (error). In the function that publishes the notifications the credentials of Firebase are never made, whatever the
  loaders make of their arguments: the bean is active there and needs the client of the
  administration, which is a bean of the web function only, so that asking for it raises a \<open>BeanInitializationException\<close>.
\<close>
theorem publisher_without_credentials:
  assumes "function_environ env ''notification-publisher''"
  shows "\<exists>msg s. get_instance (n + 2) M B_PUSH_NOTIFICATION_CREDS (setup_beans env, w) =
    (Inl (bean_initialization B_PUSH_NOTIFICATION_CREDS msg), (s, w))"
proof -
  have p: "get_active_profiles env = PUSH_NOTIFIER_PROFILE" using active_profiles [OF assms] by (simp add: profile_entries_def)
  let ?s = "(setup_beans env)(B_PUSH_NOTIFICATION_CREDS := (setup_beans env B_PUSH_NOTIFICATION_CREDS)\<lparr>bs_in_progress := True\<rparr>)"
  have "bean_disabled env B_ADMIN_CLIENT" "\<not> bean_disabled env B_PUSH_NOTIFICATION_CREDS"
    using assms by (auto simp: bean_disabled_def resettable_def function_environ_def p profile_defs)
  moreover obtain msg s' where "get_instance (Suc n) M B_ADMIN_CLIENT (?s, w) = (Inl (bean_initialization B_ADMIN_CLIENT msg), (s', w))"
    using off_raises [of ?s B_ADMIN_CLIENT n M w] calculation(1) by (auto simp: setup_beans_def set_name_def)
  ultimately show ?thesis
    by (simp add: initialize_def bean_gets_def bean_set_def finally_do_def catch_def bnd_def setup_beans_def set_name_def
      load_bean_args_def push_provider_creds_loader_def inject_def bean_initialization_def)
qed

lemma publisher_without_credentials_witness:
  "\<exists>msg s. get_instance (0 + 2) example_maker B_PUSH_NOTIFICATION_CREDS (setup_beans (example_environ ''notification-publisher''), ()) =
    (Inl (bean_initialization B_PUSH_NOTIFICATION_CREDS msg), (s, ()))"
proof (rule publisher_without_credentials)
  show "function_environ (example_environ ''notification-publisher'') ''notification-publisher''" by code_simp
qed

end
