(* ===== verification/Throttler.thy ===== *)
theory Throttler
  imports Poll_Steps
begin

text \<open>
  Signals, timers and the throttler (\<open>utils/signal_event.py\<close>, \<open>utils/timer_utils.py\<close>, \<open>utils/throttler.py\<close>). The throttler is a
  state machine of its thread and its callers: a step of the thread is what it does between two points where others can run.
\<close>

section \<open>Signals\<close>

record signal_event =
  sg_manual_reset :: bool
  sg_signalled :: bool

definition new_signal :: "bool \<Rightarrow> signal_event" where
  "new_signal manual_reset = \<lparr>sg_manual_reset = manual_reset, sg_signalled = False\<rparr>"

definition signal_notify :: "bool \<Rightarrow> signal_event \<Rightarrow> signal_event" where
  "signal_notify keep_signalled s = s\<lparr>sg_signalled := True, sg_manual_reset := keep_signalled \<or> sg_manual_reset s\<rparr>"

definition signal_reset :: "signal_event \<Rightarrow> signal_event" where
  "signal_reset s = s\<lparr>sg_signalled := False\<rparr>"

text \<open>\<open>during\<close> is what others do while the condition is waited for, and whether it was notified before the time was over.\<close>

definition signal_wait :: "(signal_event \<Rightarrow> bool \<times> signal_event) \<Rightarrow> signal_event \<Rightarrow> bool \<times> signal_event" where
  "signal_wait during s = (case if sg_signalled s then (True, s) else during s of
     (woken, s') \<Rightarrow> if woken then (True, if sg_manual_reset s' then s' else signal_reset s') else (False, s'))"

section \<open>Timers\<close>

text \<open>The time is given in milliseconds, \<open>timeout\<close> as well; Python counts in seconds as a float.\<close>

definition timer_end :: "int \<Rightarrow> int \<Rightarrow> int" where
  "timer_end now timeout = now + timeout"

definition is_expired :: "int \<Rightarrow> int \<Rightarrow> bool" where
  "is_expired end_time now \<longleftrightarrow> now \<ge> end_time"

definition get_delay_time :: "int \<Rightarrow> int \<Rightarrow> int \<Rightarrow> int" where
  "get_delay_time end_time now desired = min (max 0 (end_time - now)) desired"

section \<open>The throttler\<close>

text \<open>
  The thread waits for its event, or holds its decision after the block of the mutex, or is about to look at
  \<open>shutdown\<close>, or is over. \<open>tt_calls\<close> are the times at which the caller was called, \<open>tt_adds\<close> counts the requests.
\<close>

datatype tthread = NoThread | Waiting | Decided bool | Checking | Over

record tstate =
  tt_waiting :: bool
  tt_shutdown :: bool
  tt_thread :: tthread
  tt_start_time :: "int option"
  tt_now :: int
  tt_calls :: "int list"
  tt_adds :: nat

definition tt_init :: "int \<Rightarrow> tstate" where
  "tt_init now = \<lparr>tt_waiting = False, tt_shutdown = False, tt_thread = NoThread, tt_start_time = None, tt_now = now, tt_calls = [], tt_adds = 0\<rparr>"

text \<open>The block of the mutex: whether to call, and the time the thread sleeps next.\<close>

definition decide :: "int \<Rightarrow> tstate \<Rightarrow> bool \<times> int option" where
  "decide throttle s =
     (if \<not> tt_waiting s then (False, tt_start_time s)
      else if tt_shutdown s then (True, None)
      else case tt_start_time s of
        None \<Rightarrow> (False, Some (tt_now s))
      | Some t \<Rightarrow> if tt_now s - t \<ge> throttle then (True, None) else (False, Some t))"

definition sleep_time :: "int \<Rightarrow> tstate \<Rightarrow> int" where
  "sleep_time throttle s = (if \<not> tt_waiting s \<or> tt_shutdown s then 10000
     else case tt_start_time s of
       None \<Rightarrow> throttle
     | Some t \<Rightarrow> if tt_now s - t \<ge> throttle then 10000 else throttle - (tt_now s - t))"

definition tt_wake :: "int \<Rightarrow> tstate \<Rightarrow> tstate" where
  "tt_wake throttle s = (case decide throttle s of (call, start) \<Rightarrow>
     s\<lparr>tt_thread := Decided call, tt_start_time := start, tt_waiting := tt_waiting s \<and> \<not> call\<rparr>)"

definition tt_call :: "bool \<Rightarrow> tstate \<Rightarrow> tstate" where
  "tt_call call s = (if call then s\<lparr>tt_calls := tt_calls s @ [tt_now s]\<rparr> else s)\<lparr>tt_thread := Checking\<rparr>"

definition tt_check :: "tstate \<Rightarrow> tstate" where
  "tt_check s = s\<lparr>tt_thread := (if tt_shutdown s then Over else Waiting)\<rparr>"

definition tt_add :: "tstate \<Rightarrow> tstate option" where
  "tt_add s = (if tt_shutdown s then None
     else Some (s\<lparr>tt_waiting := True, tt_adds := Suc (tt_adds s), tt_thread := (if tt_thread s = NoThread then Waiting else tt_thread s)\<rparr>))"

definition tt_close :: "tstate \<Rightarrow> tstate" where
  "tt_close s = s\<lparr>tt_shutdown := True\<rparr>"

inductive tt_step :: "int \<Rightarrow> tstate \<Rightarrow> tstate \<Rightarrow> bool" for throttle where
  tick: "0 \<le> d \<Longrightarrow> tt_step throttle s (s\<lparr>tt_now := tt_now s + d\<rparr>)"
| add: "tt_add s = Some s' \<Longrightarrow> tt_step throttle s s'"
| close: "tt_step throttle s (tt_close s)"
| wake: "tt_thread s = Waiting \<Longrightarrow> tt_step throttle s (tt_wake throttle s)"
| call: "tt_thread s = Decided b \<Longrightarrow> tt_step throttle s (tt_call b s)"
| check: "tt_thread s = Checking \<Longrightarrow> tt_step throttle s (tt_check s)"

inductive_cases tt_stepE: "tt_step throttle s t"

lemmas tt_defs = tt_wake_def tt_call_def tt_check_def tt_add_def tt_close_def decide_def

text \<open>The calls that came before the shutdown are apart; a call that was decided for is apart from the last one.\<close>

definition apart :: "int \<Rightarrow> int list \<Rightarrow> int \<Rightarrow> bool" where
  "apart d ts t \<longleftrightarrow> (ts = [] \<or> last ts + d \<le> t)"

fun spaced :: "int \<Rightarrow> int list \<Rightarrow> bool" where
  "spaced d [] = True"
| "spaced d [t] = True"
| "spaced d (t # u # ts) \<longleftrightarrow> t + d \<le> u \<and> spaced d (u # ts)"

lemma spaced_snoc: "spaced d (ts @ [t]) \<longleftrightarrow> spaced d ts \<and> apart d ts t"
  by (induction d ts rule: spaced.induct) (auto simp: apart_def)

definition tt_inv :: "int \<Rightarrow> tstate \<Rightarrow> bool" where
  "tt_inv d s \<longleftrightarrow>
     (if tt_shutdown s then spaced d (butlast (tt_calls s)) else spaced d (tt_calls s)) \<and>
     (tt_calls s \<noteq> [] \<longrightarrow> last (tt_calls s) \<le> tt_now s) \<and>
     (\<forall>t. tt_start_time s = Some t \<longrightarrow> t \<le> tt_now s \<and> (tt_calls s = [] \<or> last (tt_calls s) \<le> t)) \<and>
     length (tt_calls s) + (if tt_waiting s then 1 else 0) + (if tt_thread s = Decided True then 1 else 0) \<le> tt_adds s \<and>
     (tt_thread s = NoThread \<longrightarrow> \<not> tt_waiting s \<and> tt_calls s = []) \<and>
     (tt_thread s = Decided True \<longrightarrow> tt_start_time s = None \<and>
        (if tt_shutdown s then spaced d (tt_calls s) else apart d (tt_calls s) (tt_now s))) \<and>
     (tt_shutdown s \<longrightarrow> tt_thread s = Waiting \<longrightarrow> spaced d (tt_calls s))"

lemma tt_init_inv: "tt_inv d (tt_init now)"
  by (simp add: tt_inv_def tt_init_def)

lemma apart_later: "apart d ts t \<Longrightarrow> t \<le> u \<Longrightarrow> apart d ts u"
  by (auto simp: apart_def)

lemma tt_wake_inv: "tt_inv d s \<Longrightarrow> tt_thread s = Waiting \<Longrightarrow> tt_inv d (tt_wake d s)"
  unfolding tt_inv_def tt_wake_def decide_def by (auto simp: apart_def split: option.splits if_splits)

lemma tt_call_inv: "tt_inv d s \<Longrightarrow> tt_thread s = Decided b \<Longrightarrow> tt_inv d (tt_call b s)"
  unfolding tt_inv_def tt_call_def by (auto simp: spaced_snoc split: if_splits)

lemma tt_add_inv: "tt_inv d s \<Longrightarrow> tt_add s = Some t \<Longrightarrow> tt_inv d t"
proof -
  assume i: "tt_inv d s" and a: "tt_add s = Some t"
  from a have sd: "\<not> tt_shutdown s" and t: "t = s\<lparr>tt_waiting := True, tt_adds := Suc (tt_adds s),
      tt_thread := (if tt_thread s = NoThread then Waiting else tt_thread s)\<rparr>"
    by (simp_all add: tt_add_def split: if_splits)
  from i sd show ?thesis unfolding t tt_inv_def by (cases "tt_waiting s"; cases "tt_thread s") simp_all
qed

lemma spaced_butlast: "spaced d ts \<Longrightarrow> spaced d (butlast ts)"
  by (induction d ts rule: spaced.induct) auto

lemma tt_step_inv: "tt_step d s t \<Longrightarrow> tt_inv d s \<Longrightarrow> tt_inv d t"
proof (induction rule: tt_step.induct)
  case (tick e s)
  then show ?case by (auto simp: tt_inv_def apart_def)
next
  case (close s)
  then show ?case by (auto simp: tt_inv_def tt_close_def spaced_butlast split: if_splits)
next
  case (check s)
  then show ?case by (auto simp: tt_inv_def tt_check_def split: if_splits)
qed (simp_all add: tt_wake_inv tt_call_inv tt_add_inv)

lemma tt_run_inv: "(tt_step d)\<^sup>*\<^sup>* s t \<Longrightarrow> tt_inv d s \<Longrightarrow> tt_inv d t"
  by (induction rule: rtranclp_induct) (auto intro: tt_step_inv)

text \<open>
  C15 (safety). In every run of the throttler, whatever the order in which requests, ticks of the clock, the thread and
  the closing come, the calls of its caller are at least the throttle apart, but for one call after the closing, and there
  are at most as many calls as requests.
\<close>
theorem throttler_rate:
  assumes "(tt_step throttle)\<^sup>*\<^sup>* (tt_init now) s"
  shows "spaced throttle (if tt_shutdown s then butlast (tt_calls s) else tt_calls s) \<and> length (tt_calls s) \<le> tt_adds s"
  using tt_run_inv [OF assms tt_init_inv] by (auto simp: tt_inv_def)

text \<open>The closing can come between the block of the mutex and the look at \<open>shutdown\<close>: the request is never answered.\<close>

lemma invocation_lost:
  "\<exists>s. (tt_step 1000)\<^sup>*\<^sup>* (tt_init now) s \<and> tt_thread s = Over \<and> tt_waiting s \<and> tt_adds s = 1 \<and> tt_calls s = []"
proof -
  let ?a = "the (tt_add (tt_init now))"
  let ?b = "tt_call False (tt_wake 1000 ?a)"
  let ?c = "tt_check (tt_close ?b)"
  have "tt_step 1000 (tt_init now) ?a" by (rule tt_step.add) (simp add: tt_add_def tt_init_def)
  moreover have "tt_step 1000 ?a (tt_wake 1000 ?a)" by (rule tt_step.wake) (simp add: tt_add_def tt_init_def)
  moreover have "tt_step 1000 (tt_wake 1000 ?a) ?b" by (rule tt_step.call) (simp add: tt_defs tt_init_def)
  moreover have "tt_step 1000 ?b (tt_close ?b)" by (rule tt_step.close)
  moreover have "tt_step 1000 (tt_close ?b) ?c" by (rule tt_step.check) (simp add: tt_defs tt_init_def)
  ultimately have "(tt_step 1000)\<^sup>*\<^sup>* (tt_init now) ?c" by (meson converse_rtranclp_into_rtranclp rtranclp.rtrancl_refl)
  then show ?thesis by (intro exI [of _ ?c] conjI) (simp_all add: tt_defs tt_init_def)
qed

text \<open>A run of one request: the first wake starts the clock, the next one after the throttle calls.\<close>

definition one_call :: "int \<Rightarrow> tstate" where
  "one_call throttle = (let s = tt_check (tt_call False (tt_wake throttle (the (tt_add (tt_init 0)))))
     in tt_check (tt_call True (tt_wake throttle (s\<lparr>tt_now := tt_now s + throttle\<rparr>))))"

lemma one_call_run: "0 < throttle \<Longrightarrow> (tt_step throttle)\<^sup>*\<^sup>* (tt_init 0) (one_call throttle)"
proof -
  assume t: "0 < throttle"
  let ?a = "the (tt_add (tt_init 0))"
  let ?b = "tt_wake throttle ?a"
  let ?c = "tt_check (tt_call False ?b)"
  let ?d = "?c\<lparr>tt_now := tt_now ?c + throttle\<rparr>"
  have "tt_step throttle (tt_init 0) ?a" by (rule tt_step.add) (simp add: tt_add_def tt_init_def)
  moreover have "tt_step throttle ?a ?b" by (rule tt_step.wake) (simp add: tt_add_def tt_init_def)
  moreover have "tt_step throttle ?b (tt_call False ?b)" by (rule tt_step.call) (simp add: tt_defs tt_init_def)
  moreover have "tt_step throttle (tt_call False ?b) ?c" by (rule tt_step.check) (simp add: tt_defs tt_init_def)
  moreover have "tt_step throttle ?c ?d" by (rule tt_step.tick) (use t in simp)
  moreover have "tt_step throttle ?d (tt_wake throttle ?d)" by (rule tt_step.wake) (simp add: tt_defs tt_init_def)
  moreover have "tt_step throttle (tt_wake throttle ?d) (tt_call True (tt_wake throttle ?d))"
    by (rule tt_step.call) (simp add: tt_defs tt_init_def)
  moreover have "tt_step throttle (tt_call True (tt_wake throttle ?d)) (one_call throttle)"
    unfolding one_call_def Let_def by (rule tt_step.check) (simp add: tt_defs tt_init_def)
  ultimately show ?thesis by (meson converse_rtranclp_into_rtranclp rtranclp.rtrancl_refl)
qed

lemma throttler_rate_witness:
  "tt_calls (one_call 1000) = [1000] \<and>
   spaced 1000 (if tt_shutdown (one_call 1000) then butlast (tt_calls (one_call 1000)) else tt_calls (one_call 1000)) \<and>
   length (tt_calls (one_call 1000)) \<le> tt_adds (one_call 1000)"
  using throttler_rate [OF one_call_run [of 1000]] by (simp add: one_call_def tt_defs tt_init_def)

end
