(* ===== verification/Table_Listener.thy ===== *)
theory Table_Listener
  imports Pollers
begin

text \<open>
  The listener of the stream of the session table (\<open>table_listener/processor.py\<close>): sessions that were removed take their
  contexts with them, and new sessions on the X1440 platform make an event for the poller of their tenant. The thread that
  writes the events is run before the contexts are deleted; the two touch different rows.
\<close>

section \<open>Records of the stream\<close>

text \<open>The part \<open>dynamodb\<close> of a record, in the format of DynamoDB; a part may be missing.\<close>

record stream_image =
  si_keys :: "ddb_item option"
  si_new_image :: "ddb_item option"

record stream_record =
  sr_source_arn :: string
  sr_event_name :: string
  sr_dynamodb :: "stream_image option"

definition image_part :: "string \<Rightarrow> (stream_image \<Rightarrow> ddb_item option) \<Rightarrow> stream_record \<Rightarrow> exn + ddb_item" where
  "image_part name f r = (case sr_dynamodb r of None \<Rightarrow> Inl (KeyError ''dynamodb'')
     | Some i \<Rightarrow> (case f i of None \<Rightarrow> Inl (KeyError name) | Some x \<Rightarrow> Inr x))"

text \<open>\<open>_REGEX\<close>: two parts without a colon, then the name of the table without a slash. The search takes the first place that fits.\<close>

definition colon_part :: "string \<Rightarrow> string option" where
  "colon_part s = (let p = takeWhile (\<lambda>c. c \<noteq> CHR '':'') s; r = dropWhile (\<lambda>c. c \<noteq> CHR '':'') s in
     if p = [] \<or> r = [] then None else Some (tl r))"

definition match_stream_arn :: "string \<Rightarrow> string option" where
  "match_stream_arn s = (if \<not> prefix ''arn:aws:dynamodb:'' s then None
     else case colon_part (drop 17 s) of None \<Rightarrow> None
     | Some s \<Rightarrow> (case colon_part s of None \<Rightarrow> None
     | Some s \<Rightarrow> if \<not> prefix ''table/'' s then None
         else let t = takeWhile (\<lambda>c. c \<noteq> CHR ''/'') (drop 6 s) in
           if t \<noteq> [] \<and> prefix ''/stream/'' (drop (6 + length t) s) then Some t else None))"

fun search_stream_arn :: "string \<Rightarrow> string option" where
  "search_stream_arn [] = match_stream_arn []"
| "search_stream_arn (c # s) = (case match_stream_arn (c # s) of Some t \<Rightarrow> Some t | None \<Rightarrow> search_stream_arn s)"

definition extract_table_name :: "string \<Rightarrow> string option" where
  "extract_table_name arn = search_stream_arn arn"

text \<open>The attribute is a dictionary from a type; its entry \<open>BOOL\<close> is asked for, whatever else it holds.\<close>

definition has_x1440_platform :: "stream_record \<Rightarrow> exn + bool" where
  "has_x1440_platform r = rbind (image_part ''NewImage'' si_new_image r) (\<lambda>img.
     Inr (case dget ''pt_X1440'' img of None \<Rightarrow> False | Some (Attr vs) \<Rightarrow> BOOLV True \<in> set vs))"

record reconstructed_session =
  rs_tenant_id :: int
  rs_org_id :: string
  rs_access_token :: string
  rs_instance_url :: string

definition image_value :: "string \<Rightarrow> ddb_item \<Rightarrow> exn + pyval" where
  "image_value k img = (case dget k img of None \<Rightarrow> Inl (KeyError k) | Some a \<Rightarrow> convert_value a)"

definition reconstruct_session :: "ddb_item \<Rightarrow> exn + reconstructed_session" where
  "reconstruct_session img =
     rbind (rbind (image_value ''tenantId'' img) (\<lambda>v. int_at ''v'' [(''v'', v)])) (\<lambda>t.
     rbind (rbind (image_value ''orgId'' img) (\<lambda>v. str_at ''v'' [(''v'', v)])) (\<lambda>org.
     rbind (rbind (image_value ''accessToken'' img) (\<lambda>v. str_at ''v'' [(''v'', v)])) (\<lambda>tok.
     rbind (rbind (image_value ''instanceUrl'' img) (\<lambda>v. str_at ''v'' [(''v'', v)])) (\<lambda>url.
     Inr \<lparr>rs_tenant_id = t, rs_org_id = org, rs_access_token = tok, rs_instance_url = url\<rparr>))))"

section \<open>A batch of records\<close>

type_synonym new_sessions = "(int, reconstructed_session) dict"

text \<open>The session of an insert on the platform; an exception is logged and the record left out.\<close>

definition inserted_session :: "stream_record \<Rightarrow> reconstructed_session option" where
  "inserted_session r = (case rbind (has_x1440_platform r) (\<lambda>b. if b
       then rbind (image_part ''NewImage'' si_new_image r) (\<lambda>img. rbind (reconstruct_session img) (\<lambda>s. Inr (Some s)))
       else Inr None) of
     Inl _ \<Rightarrow> None | Inr x \<Rightarrow> x)"

definition local_filter :: "stream_record \<Rightarrow> new_sessions \<Rightarrow> bool \<times> new_sessions" where
  "local_filter r sessions =
     (if extract_table_name (sr_source_arn r) = Some ''ShimServiceSession''
      then if sr_event_name r = ''REMOVE'' then (True, sessions)
        else if sr_event_name r = ''INSERT'' then (case inserted_session r of
            None \<Rightarrow> (False, sessions) | Some s \<Rightarrow> (False, dset (rs_tenant_id s) s sessions))
        else (False, sessions)
      else (False, sessions))"

fun sort_records :: "stream_record list \<Rightarrow> new_sessions \<Rightarrow> exn + ddb_item list \<times> new_sessions" where
  "sort_records [] sessions = Inr ([], sessions)"
| "sort_records (r # rs) sessions = (case local_filter r sessions of (remove, sessions) \<Rightarrow>
     if remove then rbind (image_part ''Keys'' si_keys r) (\<lambda>k. rbind (sort_records rs sessions) (\<lambda>(ks, sessions). Inr (k # ks, sessions)))
     else sort_records rs sessions)"

text \<open>The events of new sessions: how many were written, and whether one failed.\<close>

definition event_of_session :: "reconstructed_session \<Rightarrow> ('d, pending_tenant_event) io" where
  "event_of_session s = new_pending_tenant_event X1440_POLL (rs_org_id s) (rs_tenant_id s) (rs_access_token s) (rs_instance_url s) None None 0"

fun process_new_sessions :: "'d env \<Rightarrow> reconstructed_session list \<Rightarrow> ('d, nat \<times> bool) io" where
  "process_new_sessions E [] = ret (0, False)"
| "process_new_sessions E (s # ss) = bnd (event_of_session s) (\<lambda>e.
     bnd (catch (bnd (update_or_create_event E e) (\<lambda>_. ret True)) (\<lambda>x. if x = OutOfFuel then None else Some (ret False))) (\<lambda>ok.
     bnd (process_new_sessions E ss) (\<lambda>(good, errors). ret (if ok then (Suc good, errors) else (good, True)))))"

text \<open>\<open>join\<close>: a \<open>RuntimeError\<close> when an event failed, so that the stream delivers the batch again.\<close>

definition join_events :: "'d lambda_env \<Rightarrow> nat \<times> bool \<Rightarrow> ('d, unit) io" where
  "join_events L r = (case r of (good, errors) \<Rightarrow>
     bnd (if good > 0 then invoke_sfdc_pubsub_poller L else ret ()) (\<lambda>_.
     if errors then raise (PlainException ''Error creating pending tenant events.'') else ret ()))"

definition listener_invoke :: "'d env \<Rightarrow> 'd lambda_env \<Rightarrow> stream_record list option \<Rightarrow> ('d, unit) io" where
  "listener_invoke E L records = (case records of None \<Rightarrow> ret ()
   | Some rs \<Rightarrow> bnd (lift_res (sort_records rs [])) (\<lambda>(removed, sessions).
       bnd (if sessions = [] then ret None else bnd (process_new_sessions E (dvalues sessions)) (\<lambda>r. ret (Some r))) (\<lambda>handler.
       bnd (if removed = [] then ret () else delete_by_row_keys E removed) (\<lambda>_.
       case handler of None \<Rightarrow> ret () | Some r \<Rightarrow> join_events L r))))"

definition listener_handle :: "'d env \<Rightarrow> 'd lambda_env \<Rightarrow> stream_record list option \<Rightarrow> ('d, pyval option) io" where
  "listener_handle E L records = (case records of
     Some (r # rs) \<Rightarrow> if sr_dynamodb r = None then ret None
       else bnd (listener_invoke E L records) (\<lambda>_. ret (Some success_response))
   | _ \<Rightarrow> ret None)"

section \<open>The batch in its two parts\<close>

definition is_removed :: "stream_record \<Rightarrow> bool" where
  "is_removed r \<longleftrightarrow> extract_table_name (sr_source_arn r) = Some ''ShimServiceSession'' \<and> sr_event_name r = ''REMOVE''"

definition session_of_record :: "stream_record \<Rightarrow> reconstructed_session option" where
  "session_of_record r = (if extract_table_name (sr_source_arn r) = Some ''ShimServiceSession'' \<and> sr_event_name r = ''INSERT''
     then inserted_session r else None)"

lemma local_filter_eq: "local_filter r sessions = (is_removed r, case session_of_record r of
    None \<Rightarrow> sessions | Some s \<Rightarrow> dset (rs_tenant_id s) s sessions)"
  by (auto simp: local_filter_def is_removed_def session_of_record_def split: option.splits)

text \<open>The last session of a tenant among those of a list.\<close>

definition last_of_tenant :: "int \<Rightarrow> reconstructed_session list \<Rightarrow> reconstructed_session option" where
  "last_of_tenant t ss = (case filter (\<lambda>s. rs_tenant_id s = t) ss of [] \<Rightarrow> None | xs \<Rightarrow> Some (last xs))"

lemma last_of_tenant_Cons: "last_of_tenant t (s # ss) = (case last_of_tenant t ss of
    Some x \<Rightarrow> Some x | None \<Rightarrow> if rs_tenant_id s = t then Some s else None)"
  by (auto simp: last_of_tenant_def split: list.splits)

lemma sort_records_eq:
  assumes "sort_records rs d = Inr (ks, sessions)"
  shows "map Inr ks = map (image_part ''Keys'' si_keys) (filter is_removed rs) \<and> (distinct (dkeys d) \<longrightarrow> distinct (dkeys sessions)) \<and>
    dget t sessions = (case last_of_tenant t (List.map_filter session_of_record rs) of Some x \<Rightarrow> Some x | None \<Rightarrow> dget t d)"
  using assms
proof (induction rs arbitrary: d ks sessions)
  case Nil
  then show ?case by (simp add: last_of_tenant_def List.map_filter_simps)
next
  case (Cons r rs)
  let ?d = "case session_of_record r of None \<Rightarrow> d | Some s \<Rightarrow> dset (rs_tenant_id s) s d"
  obtain ks' where k: "sort_records rs ?d = Inr (ks', sessions)"
      "map Inr ks = (if is_removed r then [image_part ''Keys'' si_keys r] else []) @ map Inr ks'"
    using Cons.prems by (auto simp: local_filter_eq rbind_eq_Inr split: if_splits)
  from Cons.IH [OF k(1)] k(2) show ?case
    by (auto simp: List.map_filter_simps last_of_tenant_Cons split: option.splits if_splits)
qed

text \<open>
  A batch of the stream is sorted record by record: the keys of the sessions that were removed are
  collected in their order, and each tenant with new sessions on the platform gets the last of them and no other tenant
  gets one. Records of other tables or events, and inserts that cannot be read, change nothing.
\<close>
lemma listener_sorts_batch:
  assumes "sort_records rs [] = Inr (ks, sessions)"
  shows "map Inr ks = map (image_part ''Keys'' si_keys) (filter is_removed rs) \<and> distinct (dkeys sessions) \<and>
    dget t sessions = last_of_tenant t (List.map_filter session_of_record rs)"
  using sort_records_eq [OF assms, of t] by (simp add: dkeys_def split: option.splits)

section \<open>The events of new sessions\<close>

definition tenant_event_addr :: "int \<Rightarrow> address" where
  "tenant_event_addr t = vaddr pending_tenant_event_vt [''x1440''] (Some [rjust 12 (CHR ''0'') (int_str t)])"

definition tenant_event_key :: "int \<Rightarrow> row" where
  "tenant_event_key t = [(''hashKey'', PyStr (join_str default_delimiter [vt_type pending_tenant_event_vt, ''x1440''])),
     (''rangeKey'', PyStr (rjust 12 (CHR ''0'') (int_str t)))]"

definition tenant_event_rest :: "pending_tenant_event \<Rightarrow> row" where
  "tenant_event_rest e = [(''orgId'', PyStr (pt_org_id e)), (''accessToken'', PyStr (pt_access_token e)), (''instanceUrl'', PyStr (pt_instance_url e)),
     (''eventTime'', PyInt (pt_event_time e)), (''activeAt'', PyInt (pt_active_at e)), (''stateCounter'', PyInt (pt_state_counter e))]"

lemma tenant_event_item: "prepare_item tenant_event_repo (pending_tenant_event_to_record e) = Inr (tenant_event_rest e @ tenant_event_key (pt_tenant_id e))"
  by (simp add: key_simps tenant_event_key_def tenant_event_rest_def pending_tenant_event_to_record_def pending_tenant_type_value_def)

lemma tenant_event_args: "build_key_from_args (r_key tenant_event_repo) [PyStr (pending_tenant_type_value X1440_POLL), PyInt t] = Inr (tenant_event_key t, [])"
  by (simp add: key_simps tenant_event_key_def pending_tenant_type_value_def)

lemma tenant_event_repo_ok: "repo_ok table_keys tenant_event_repo" "r_table tenant_event_repo = virtual_range_table"
    "table_keys virtual_range_table = [''hashKey'', ''rangeKey'']"
  by code_simp+

lemma tenant_event_key_addr:
  "addr_of table_keys (r_table tenant_event_repo) (item_of (tenant_event_rest e @ tenant_event_key t)) = tenant_event_addr t"
  "addr_of table_keys (r_table tenant_event_repo) (item_of (tenant_event_key t)) = tenant_event_addr t"
  "keys_ok table_keys (r_table tenant_event_repo) (tenant_event_key t)"
  "build_key_as_dict (r_key tenant_event_repo) (tenant_event_rest e @ tenant_event_key t) True = Inr (tenant_event_key t)"
  "stored_item_ok tenant_event_repo (tenant_event_rest e @ tenant_event_key t)"
  by (simp_all add: tenant_event_repo_ok tenant_event_key_def tenant_event_rest_def tenant_event_addr_def vaddr_def addr_of_def key_of_def item_of_def
      to_ddb_item_def vt_defs keys_ok_def ident_row_def stored_item_ok_def key_simps)

lemma tenant_event_from_record_key:
  "pending_tenant_event_from_record r w = (Inr e, w') \<Longrightarrow> dget ''tenantId'' r = Some (PyInt (pt_tenant_id e))"
  by (auto simp: pending_tenant_event_from_record_def new_pending_tenant_event_def time_or_now_def get_system_time_in_millis_def rbind_eq_Inr at_Inr bnd_def split: sum.splits if_splits)

lemma tenant_event_texts:
  "split_str [CHR 0x09] (join_str [CHR 0x09] [vt_type pending_tenant_event_vt, ''x1440'']) = [vt_type pending_tenant_event_vt, ''x1440'']"
  "0 \<le> t \<Longrightarrow> split_str [CHR 0x09] (rjust 12 (CHR ''0'') (int_str t)) = [rjust 12 (CHR ''0'') (int_str t)]"
proof -
  show "split_str [CHR 0x09] (join_str [CHR 0x09] [vt_type pending_tenant_event_vt, ''x1440'']) = [vt_type pending_tenant_event_vt, ''x1440'']"
    by code_simp
  have "CHR 0x09 \<notin> set (rjust 12 (CHR ''0'') (int_str t))" using int_str_chars [of "CHR 0x09" t] by (auto simp: rjust_def is_digit_def)
  then have "split_str [CHR 0x09] (join_str [CHR 0x09] [rjust 12 (CHR ''0'') (int_str t)]) = [rjust 12 (CHR ''0'') (int_str t)]"
    by (intro split_join) auto
  then show "split_str [CHR 0x09] (rjust 12 (CHR ''0'') (int_str t)) = [rjust 12 (CHR ''0'') (int_str t)]" by simp
qed

lemma deserialize_tenant_event:
  assumes "deserialize_record tenant_event_repo row = Inr e" "dget ''hashKey'' row = Some (PyStr (join_str default_delimiter [vt_type pending_tenant_event_vt, ''x1440'']))"
    "dget ''rangeKey'' row = Some (PyStr (rjust 12 (CHR ''0'') (int_str t)))" "0 \<le> t"
  shows "dget ''tenantId'' e = Some (PyInt t)"
  using assms int_of_rjust_int_str [of t 12] tenant_event_texts
  by (simp add: deserialize_record_def key_simps ck_prep_for_deserialization_def default_delimiter_def del: join_str.simps) auto

lemma tenant_event_addr_inj: "0 \<le> t \<Longrightarrow> 0 \<le> u \<Longrightarrow> tenant_event_addr t = tenant_event_addr u \<Longrightarrow> t = u"
proof -
  assume n: "0 \<le> t" "0 \<le> u" and a: "tenant_event_addr t = tenant_event_addr u"
  from a have "rjust 12 (CHR ''0'') (int_str t) = rjust 12 (CHR ''0'') (int_str u)"
    by (simp only: tenant_event_addr_def vaddr_def option.case list.map prod.inject list.inject option.inject attr.inject attr_val.inject
        if_cancel join_str.simps)
  then have "(Inr t :: exn + int) = Inr u" by (metis int_of_rjust_int_str n)
  then show "t = u" by simp
qed

text \<open>The row of a pending event with a token.\<close>

definition asks_poll :: "string \<Rightarrow> ddb_row option \<Rightarrow> bool" where
  "asks_poll tok r \<longleftrightarrow> (\<exists>m. r = Some m \<and> m ''accessToken'' = Some (Attr [SV tok]))"

context store
begin

lemma tenant_event_kok: "kok (tenant_event_addr t)"
  by (auto simp: tenant_event_addr_def vaddr_def intro: keys_accepted)

lemma found_tenant_event:
  assumes "find_tenant_event E ty t w = (Inr (Some e), w')" "en_client E = C" "0 \<le> t"
  shows "pt_tenant_id e = t"
proof -
  have ty: "ty = X1440_POLL" by (cases ty)
  from assms(1,2) obtain r w1 where f: "find C tenant_event_repo [PyStr (pending_tenant_type_value X1440_POLL), PyInt t] True w = (Inr (Some r), w1)"
      and e: "pending_tenant_event_from_record r w1 = (Inr e, w')"
    by (auto simp: find_tenant_event_def find_as_def ty elim!: bnd_InrE split: option.splits)
  obtain i row where i: "from_ddb_item i = Inr row" "deserialize_record tenant_event_repo row = Inr r"
      "map (\<lambda>a. dget a i) (table_keys (r_table tenant_event_repo)) = key_of table_keys (r_table tenant_event_repo) (item_of (tenant_event_key t))"
    by (rule find_entry [OF f tenant_event_args tenant_event_key_addr(3)]) (auto simp: tenant_event_key_addr tenant_event_kok)
  from i(3) have k: "dget ''hashKey'' i = Some (Attr [SV (join_str default_delimiter [vt_type pending_tenant_event_vt, ''x1440''])])"
      "dget ''rangeKey'' i = Some (Attr [SV (rjust 12 (CHR ''0'') (int_str t))])"
    by (simp_all add: tenant_event_repo_ok key_of_def tenant_event_key_def item_of_def to_ddb_item_def)
  from from_ddb_get [OF i(1) k(1)] from_ddb_get [OF i(1) k(2)]
  have "dget ''hashKey'' row = Some (PyStr (join_str default_delimiter [vt_type pending_tenant_event_vt, ''x1440'']))"
    "dget ''rangeKey'' row = Some (PyStr (rjust 12 (CHR ''0'') (int_str t)))" by (simp_all del: join_str.simps)
  from deserialize_tenant_event [OF i(2) this assms(3)] tenant_event_from_record_key [OF e] show ?thesis by simp
qed

lemma patch_tenant_event:
  fixes c tok n
  defines "a \<equiv> tenant_event_addr (pt_tenant_id c)"
    and "p \<equiv> patch_with_condition C tenant_event_repo (pending_tenant_event_to_record c) ''stateCounter'' (PyInt n) (Some [(''accessToken'', PyStr tok)])"
  shows "keeps view {a} p" "p w = (Inr x, w') \<Longrightarrow> asks_poll tok (view (w_db w') a)"
proof -
  let ?k = "tenant_event_key (pt_tenant_id c)" and ?item = "tenant_event_rest c @ tenant_event_key (pt_tenant_id c)"
  have ps: "item_ok_for ?k (dset ''stateCounter'' (PyInt n) (case Some [(''accessToken'', PyStr tok)] of None \<Rightarrow> [] | Some p \<Rightarrow> p))"
    by (simp add: item_ok_for_def tenant_event_key_def ident_row_def)
  have k: "kok (addr_of table_keys (r_table tenant_event_repo) (item_of ?k))" by (simp add: tenant_event_key_addr tenant_event_kok)
  have sc: "dget ''stateCounter'' ?item = Some (PyInt (pt_state_counter c))" by (simp add: tenant_event_rest_def)
  show "keeps view {a} p"
    using patch_with_condition_keeps [OF tenant_event_item tenant_event_key_addr(4) _ tenant_event_key_addr(3) ps k]
    by (simp add: a_def p_def tenant_event_key_addr)
  assume "p w = (Inr x, w')"
  from patch_with_condition_outcome [OF this [unfolded p_def] tenant_event_item sc _ tenant_event_key_addr(4) _ tenant_event_key_addr(3) ps k, unfolded tenant_event_key_addr(2)]
  show "asks_poll tok (view (w_db w') a)"
    by (simp add: patched_def set_at_def a_def asks_poll_def set_list_def item_of_def to_ddb_item_def tenant_event_key_def)
qed

lemma create_tenant_event:
  fixes e :: pending_tenant_event
  defines "a \<equiv> tenant_event_addr (pt_tenant_id e)" and "p \<equiv> create C tenant_event_repo (pending_tenant_event_to_record e)"
  shows "keeps view {a} p" "p w = (Inr True, w') \<Longrightarrow> asks_poll (pt_access_token e) (view (w_db w') a)"
proof -
  have k: "kok (addr_of table_keys (r_table tenant_event_repo) (item_of (tenant_event_rest e @ tenant_event_key (pt_tenant_id e))))"
    by (simp add: tenant_event_key_addr tenant_event_kok)
  show "keeps view {a} p"
    using create_keeps [OF tenant_event_item tenant_event_repo_ok(1) tenant_event_key_addr(5) k] by (simp add: a_def p_def tenant_event_key_addr)
  assume "p w = (Inr True, w')"
  from create_outcome [OF this [unfolded p_def] tenant_event_item tenant_event_repo_ok(1) tenant_event_key_addr(5) k, unfolded tenant_event_key_addr(1)]
  show "asks_poll (pt_access_token e) (view (w_db w') a)"
    by (simp add: a_def asks_poll_def tenant_event_rest_def tenant_event_key_def item_of_def to_ddb_item_def)
qed

lemma update_or_create_attempt_row:
  assumes "en_client E = C" "0 \<le> pt_tenant_id e"
  shows "keeps view {tenant_event_addr (pt_tenant_id e)} (update_or_create_attempt E e)"
    "update_or_create_attempt E e w = (Inr x, w') \<Longrightarrow> asks_poll (pt_access_token e) (view (w_db w') (tenant_event_addr (pt_tenant_id e)))"
proof -
  show "keeps view {tenant_event_addr (pt_tenant_id e)} (update_or_create_attempt E e)"
    unfolding update_or_create_attempt_def
  proof (rule keeps_bnd_result)
    show "keeps view {tenant_event_addr (pt_tenant_id e)} (find_tenant_event E (pt_type e) (pt_tenant_id e))"
      unfolding find_tenant_event_def find_as_def assms(1)
      by (intro frame_rules) (auto simp: pending_tenant_event_from_record_def new_pending_tenant_event_def time_or_now_def intro!: frame_rules)
    fix w c w' assume f: "find_tenant_event E (pt_type e) (pt_tenant_id e) w = (Inr c, w')"
    show "keeps view {tenant_event_addr (pt_tenant_id e)} (case c of
         None \<Rightarrow> bnd (create (en_client E) tenant_event_repo (pending_tenant_event_to_record e)) (\<lambda>ok. if ok then ret () else raise OptimisticLock)
       | Some c \<Rightarrow> patch_with_condition (en_client E) tenant_event_repo (pending_tenant_event_to_record c) ''stateCounter''
           (PyInt (pt_state_counter e + 1)) (Some [(''accessToken'', PyStr (pt_access_token e))]))"
      using found_tenant_event [OF _ assms] f patch_tenant_event(1) [of "the c"] create_tenant_event(1) [of e]
      by (cases c) (auto simp: assms(1) intro!: frame_rules)
  qed
  assume "update_or_create_attempt E e w = (Inr x, w')"
  from this [unfolded update_or_create_attempt_def assms(1)]
  obtain c u where c: "find_tenant_event E (pt_type e) (pt_tenant_id e) w = (Inr c, u)"
    "(case c of
         None \<Rightarrow> bnd (create C tenant_event_repo (pending_tenant_event_to_record e)) (\<lambda>ok. if ok then ret () else raise OptimisticLock)
       | Some c \<Rightarrow> patch_with_condition C tenant_event_repo (pending_tenant_event_to_record c) ''stateCounter''
           (PyInt (pt_state_counter e + 1)) (Some [(''accessToken'', PyStr (pt_access_token e))])) u = (Inr x, w')"
    by (rule bnd_InrE)
  show "asks_poll (pt_access_token e) (view (w_db w') (tenant_event_addr (pt_tenant_id e)))"
  proof (cases c)
    case None
    with c(2) have "create C tenant_event_repo (pending_tenant_event_to_record e) u = (Inr True, w')"
      by (auto elim!: bnd_InrE split: if_splits)
    then show ?thesis by (rule create_tenant_event(2))
  next
    case (Some d)
    with c(1) found_tenant_event [OF _ assms] have "pt_tenant_id d = pt_tenant_id e" by blast
    with Some c(2) patch_tenant_event(2) [of d] show ?thesis by (metis option.simps(5))
  qed
qed

lemma update_or_create_event_row:
  assumes "en_client E = C" "retry_ok (en_retry_unit E)" "0 \<le> pt_tenant_id e"
  shows "keeps view {tenant_event_addr (pt_tenant_id e)} (update_or_create_event E e)"
    "update_or_create_event E e w = (Inr x, w') \<Longrightarrow> asks_poll (pt_access_token e) (view (w_db w') (tenant_event_addr (pt_tenant_id e)))"
proof -
  show "keeps view {tenant_event_addr (pt_tenant_id e)} (update_or_create_event E e)"
    unfolding update_or_create_event_def by (rule keeps_retry [OF assms(2) _ update_or_create_attempt_row(1) [OF assms(1,3)]]) simp
  assume "update_or_create_event E e w = (Inr x, w')"
  note u = this [unfolded update_or_create_event_def]
  obtain s where "update_or_create_attempt E e s = (Inr x, w')"
    by (rule retry_last [OF assms(2) _ u, where I = "\<lambda>_. True"]) auto
  then show "asks_poll (pt_access_token e) (view (w_db w') (tenant_event_addr (pt_tenant_id e)))"
    by (rule update_or_create_attempt_row(2) [OF assms(1,3)])
qed

text \<open>The events of sessions of different tenants leave each other alone.\<close>

lemma process_new_sessions_rows:
  assumes "en_client E = C" "retry_ok (en_retry_unit E)" "list_all (\<lambda>s. 0 \<le> rs_tenant_id s) ss" "distinct (map rs_tenant_id ss)"
    "process_new_sessions E ss w = (Inr (good, errors), w')"
  shows "good \<le> length ss \<and> (errors \<longleftrightarrow> good < length ss) \<and>
    (\<not> errors \<longrightarrow> (\<forall>s \<in> set ss. asks_poll (rs_access_token s) (view (w_db w') (tenant_event_addr (rs_tenant_id s))))) \<and>
    (\<forall>b. b \<notin> (\<lambda>s. tenant_event_addr (rs_tenant_id s)) ` set ss \<longrightarrow> view (w_db w') b = view (w_db w) b)"
  using assms(3-5)
proof (induction ss arbitrary: w good errors)
  case (Cons s ss)
  let ?a = "tenant_event_addr (rs_tenant_id s)"
  obtain e u where e: "event_of_session s w = (Inr e, u)" "pt_tenant_id e = rs_tenant_id s" "pt_access_token e = rs_access_token s" "w_db u = w_db w"
    by (auto simp: event_of_session_def new_pending_tenant_event_def time_or_now_def get_system_time_in_millis_def bnd_def)
  obtain r v where r: "update_or_create_event E e u = (r, v)" by fastforce
  note row = update_or_create_event_row [OF assms(1,2), of e]
  obtain ok g es where p: "process_new_sessions E ss v = (Inr (g, es), w')" "ok \<longleftrightarrow> (\<exists>x. r = Inr x)"
      "(good, errors) = (if ok then (Suc g, es) else (g, True))"
    using Cons.prems(3) e(1) r by (auto simp: bnd_def catch_def split: sum.splits if_splits prod.splits)
  have d: "?a \<noteq> tenant_event_addr (rs_tenant_id x)" if "x \<in> set ss" for x
    using Cons.prems(1,2) that tenant_event_addr_inj [of "rs_tenant_id s" "rs_tenant_id x"] by (auto simp: list_all_iff)
  have k: "b \<noteq> ?a \<Longrightarrow> view (w_db v) b = view (w_db w) b" for b
    using keepsD [OF row(1) r, of b] Cons.prems(1) e by simp
  have n: "ok \<Longrightarrow> asks_poll (rs_access_token s) (view (w_db v) ?a)"
    using row(2) [of u] r p(2) Cons.prems(1) e by auto
  have ih: "g \<le> length ss \<and> (es \<longleftrightarrow> g < length ss) \<and>
    (\<not> es \<longrightarrow> (\<forall>s \<in> set ss. asks_poll (rs_access_token s) (view (w_db w') (tenant_event_addr (rs_tenant_id s))))) \<and>
    (\<forall>b. b \<notin> (\<lambda>s. tenant_event_addr (rs_tenant_id s)) ` set ss \<longrightarrow> view (w_db w') b = view (w_db v) b)"
    by (rule Cons.IH [OF _ _ p(1)]) (use Cons.prems in auto)
  have "view (w_db w') ?a = view (w_db v) ?a" using ih d by blast
  then show ?case using ih k n p(3) by (auto split: if_splits)
qed simp

end

lemma set_dset: "set (dset k v d) \<subseteq> insert (k, v) (set d)"
  by (induction d) (auto split: if_splits)

lemma sort_records_tenants:
  assumes "sort_records rs d = Inr (ks, sessions)" "\<forall>(k, s) \<in> set d. rs_tenant_id s = k"
  shows "\<forall>(k, s) \<in> set sessions. rs_tenant_id s = k"
  using assms
proof (induction rs arbitrary: d ks)
  case (Cons r rs)
  let ?d = "case session_of_record r of None \<Rightarrow> d | Some s \<Rightarrow> dset (rs_tenant_id s) s d"
  have "\<forall>(k, s) \<in> set ?d. rs_tenant_id s = k"
    using Cons.prems(2) set_dset [of "rs_tenant_id (the (session_of_record r))" "the (session_of_record r)" d]
    by (cases "session_of_record r") auto
  moreover obtain ks' where "sort_records rs ?d = Inr (ks', sessions)"
    using Cons.prems(1) by (auto simp: local_filter_eq rbind_eq_Inr split: if_splits)
  ultimately show ?case by (rule Cons.IH [rotated])
qed simp


section \<open>Examples\<close>

text \<open>A batch of the stream: a session that was removed, an insert on the platform and one without it, and a session of a second tenant.\<close>

definition stream_arn :: "string \<Rightarrow> string" where
  "stream_arn table = ''arn:aws:dynamodb:us-west-1:123456789012:table/'' @ table @ ''/stream/2023-01-01T00:00:00.000''"

definition example_keys :: "string \<Rightarrow> ddb_item" where
  "example_keys sid = [(''tenantId'', Attr [NV ''7'']), (''sessionId'', Attr [SV sid])]"

definition example_image :: "string \<Rightarrow> string \<Rightarrow> bool \<Rightarrow> ddb_item" where
  "example_image t tok x = [(''tenantId'', Attr [NV t]), (''orgId'', Attr [SV ''org'']), (''accessToken'', Attr [SV tok]),
     (''instanceUrl'', Attr [SV ''https://i'']), (''pt_X1440'', Attr [BOOLV x])]"

definition example_record :: "string \<Rightarrow> string \<Rightarrow> ddb_item option \<Rightarrow> stream_record" where
  "example_record name sid img = \<lparr>sr_source_arn = stream_arn ''ShimServiceSession'', sr_event_name = name,
     sr_dynamodb = Some \<lparr>si_keys = Some (example_keys sid), si_new_image = img\<rparr>\<rparr>"

definition example_batch :: "stream_record list" where
  "example_batch = [example_record ''REMOVE'' ''s1'' None, example_record ''INSERT'' ''s2'' (Some (example_image ''7'' ''t2'' True)),
     example_record ''INSERT'' ''s3'' (Some (example_image ''7'' ''t3'' False)), example_record ''INSERT'' ''s4'' None,
     example_record ''INSERT'' ''s5'' (Some (example_image ''7'' ''t5'' True)), example_record ''INSERT'' ''s6'' (Some (example_image ''8'' ''t6'' True))]"

definition example_session_of :: "int \<Rightarrow> string \<Rightarrow> reconstructed_session" where
  "example_session_of t tok = \<lparr>rs_tenant_id = t, rs_org_id = ''org'', rs_access_token = tok, rs_instance_url = ''https://i''\<rparr>"

definition example_sessions :: new_sessions where
  "example_sessions = [(7, example_session_of 7 ''t5''), (8, example_session_of 8 ''t6'')]"

lemma example_sorted: "sort_records example_batch [] = Inr ([example_keys ''s1''], example_sessions)"
  by code_simp

lemma listener_sorts_batch_witness:
  "map Inr [example_keys ''s1''] = map (image_part ''Keys'' si_keys) (filter is_removed example_batch) \<and> distinct (dkeys example_sessions) \<and>
    dget 7 example_sessions = last_of_tenant 7 (List.map_filter session_of_record example_batch)"
  by (rule listener_sorts_batch [OF example_sorted])

definition example_inserts :: "stream_record list" where
  "example_inserts = drop 4 example_batch"

lemma inserts_sorted: "sort_records example_inserts [] = Inr ([], example_sessions)"
  by code_simp

lemma example_answered: "fst (listener_invoke service_env scripted_lambdas (Some example_inserts) (service_world [])) = Inr ()"
  by code_simp


end
