(* ===== verification/Command_Line.thy ===== *)
theory Command_Line
  imports Collections Py_Strings
begin

text \<open>
  The command line of the tools (\<open>tools/support/command_line.py\<close>, with helpers of \<open>tools/support/utils.py\<close>): the arguments
  that are left and the place the reader stands at, options that are looked for and removed, and the ways a usage text ends
  the program. Texts are ASCII; \<open>exit\<close> is the exception \<open>SystemExit\<close>.
\<close>

section \<open>The reader\<close>

text \<open>\<open>cl_err\<close> is what was written to the standard error.\<close>

record cli =
  cl_argv :: "string list"
  cl_index :: nat
  cl_count :: nat
  cl_environ :: "(string, string) dict"
  cl_err :: string

type_synonym 'a cli_prog = "(cli, 'a) prog"

text \<open>The configuration of one parameter; a handler is called with its value, or without one.\<close>

record param_config =
  pc_required :: bool
  pc_subname :: "string option"
  pc_usage :: "string option"
  pc_type :: "(string \<Rightarrow> exn + string) option"
  pc_handler :: "(string option \<Rightarrow> unit cli_prog) option"
  pc_handler_arg :: "string option"

datatype usage = UsageText string | UsageCall "unit cli_prog"

record cli_setup =
  cs_usage :: "usage option"
  cs_easy_usage :: "(string \<Rightarrow> unit cli_prog) option"
  cs_params :: "(string, param_config) dict option"
  cs_auto_exit :: bool
  cs_us :: string
  cs_file_name :: string

definition print_err :: "string \<Rightarrow> unit cli_prog" where
  "print_err s = modify (\<lambda>c. c\<lparr>cl_err := cl_err c @ s\<rparr>)"

definition print_line :: "string \<Rightarrow> unit cli_prog" where
  "print_line s = print_err (s @ [CHR 0x0A])"

section \<open>Usage\<close>

definition get_arg_name :: "param_config \<Rightarrow> string \<Rightarrow> string" where
  "get_arg_name p name = name @ (case pc_subname p of None \<Rightarrow> [] | Some sn \<Rightarrow> sn)"

definition exit_if_auto :: "cli_setup \<Rightarrow> unit cli_prog" where
  "exit_if_auto S = (if cs_auto_exit S then raise (SystemExit 2) else ret ())"

definition do_param_usage :: "cli_setup \<Rightarrow> (string, param_config) dict \<Rightarrow> unit cli_prog" where
  "do_param_usage S params =
     bnd (print_err (''Usage: '' @ cs_file_name S)) (\<lambda>_.
     bnd (for_each (\<lambda>(k, p). if pc_required p then print_err ('' '' @ get_arg_name p k)
       else print_err ('' ['' @ get_arg_name p k @ '']'')) params) (\<lambda>_.
     bnd (print_line [CHR 0x0A]) (\<lambda>_.
     bnd (for_each (\<lambda>(k, p). case pc_usage p of None \<Rightarrow> raise (KeyError ''usage'')
       | Some u \<Rightarrow> print_line (CHR 0x09 # rjust (foldr max (map (\<lambda>(k, p). length (get_arg_name p k)) params) 0) (CHR '' '') (get_arg_name p k) @ '': '' @ u)) params) (\<lambda>_.
     exit_if_auto S))))"

text \<open>\<open>invoke_usage\<close> may return: then the operation that called it goes on.\<close>

definition invoke_usage :: "cli_setup \<Rightarrow> string option \<Rightarrow> unit cli_prog" where
  "invoke_usage S msg =
     bnd (if cs_easy_usage S \<noteq> None \<or> cs_usage S \<noteq> None then
         bnd (case msg of None \<Rightarrow> ret () | Some m \<Rightarrow> print_line m) (\<lambda>_.
         case cs_easy_usage S of Some f \<Rightarrow> f (''Usage: '' @ cs_us S)
         | None \<Rightarrow> (case cs_usage S of
             Some (UsageText t) \<Rightarrow> bnd (print_line t) (\<lambda>_. raise (SystemExit 2))
           | Some (UsageCall f) \<Rightarrow> f
           | None \<Rightarrow> ret ()))
       else (case cs_params S of None \<Rightarrow> ret () | Some params \<Rightarrow> if params = [] then ret () else do_param_usage S params)) (\<lambda>_.
     exit_if_auto S)"

definition invoke_usage_with_bad_arg :: "cli_setup \<Rightarrow> string \<Rightarrow> unit cli_prog" where
  "invoke_usage_with_bad_arg S arg =
     bnd (if arg = ''--help'' then invoke_usage S None else ret ()) (\<lambda>_.
     invoke_usage S (Some (''Unrecognized command line argument: '' @ [CHR 0x27] @ arg @ [CHR 0x27])))"

definition fail_arg :: "cli_setup \<Rightarrow> string option \<Rightarrow> 'a cli_prog" where
  "fail_arg S expected =
     (let msg = map_option (\<lambda>n. ''Expected '' @ [CHR 0x27] @ n @ [CHR 0x27] @ '' to be passed to the command line'') expected in
      bnd (invoke_usage S msg) (\<lambda>_. raise (CommandLineExn (case msg of None \<Rightarrow> ''None'' | Some m \<Rightarrow> m))))"

section \<open>Taking arguments in order\<close>

definition has_more :: "bool cli_prog" where
  "has_more = gets (\<lambda>c. cl_index c < cl_count c)"

definition argv_at :: "nat \<Rightarrow> string cli_prog" where
  "argv_at i = (\<lambda>c. if i < length (cl_argv c) then (Inr (cl_argv c ! i), c) else (Inl IndexError, c))"

definition advance :: "nat \<Rightarrow> unit cli_prog" where
  "advance n = modify (\<lambda>c. c\<lparr>cl_index := cl_index c + n\<rparr>)"

definition get_next_arg :: "cli_setup \<Rightarrow> string option \<Rightarrow> string cli_prog" where
  "get_next_arg S expected =
     bnd (gets (\<lambda>c. (cl_index c, cl_count c))) (\<lambda>(i, n).
     if i = n then fail_arg S expected
     else bnd (argv_at i) (\<lambda>arg. bnd (advance 1) (\<lambda>_. ret arg)))"

definition get_next_args :: "cli_setup \<Rightarrow> string list \<Rightarrow> string list cli_prog" where
  "get_next_args S names = map_prog (\<lambda>n. get_next_arg S (Some n)) names"

text \<open>\<open>float_of\<close> is the conversion of Python; nothing is returned when the usage of a bad value returns.\<close>

definition get_next_arg_as_float :: "(string \<Rightarrow> 'f option) \<Rightarrow> cli_setup \<Rightarrow> string option \<Rightarrow> 'f option cli_prog" where
  "get_next_arg_as_float float_of S expected = bnd (get_next_arg S expected) (\<lambda>arg. case float_of arg of
     Some v \<Rightarrow> ret (Some v)
   | None \<Rightarrow> bnd (invoke_usage S (Some (arg @ '' is not a valid float value.''))) (\<lambda>_. ret None))"

definition get_next_arg_as_int :: "cli_setup \<Rightarrow> string option \<Rightarrow> int cli_prog" where
  "get_next_arg_as_int S expected = bnd (get_next_arg S expected) (\<lambda>arg. case int_of_str arg of
     Inr i \<Rightarrow> ret i
   | Inl _ \<Rightarrow> raise (CommandLineExn (case expected of
       Some n \<Rightarrow> ''Invalid integer for '' @ n @ '': '' @ arg | None \<Rightarrow> ''Invalid integer: '' @ arg)))"

text \<open>\<open>home\<close> is the directory of the user; the rest of the path is joined to it.\<close>

definition check_home_in_path :: "string \<Rightarrow> string \<Rightarrow> string" where
  "check_home_in_path home path = (if prefix ''~/'' path then
     (let rest = drop 2 path in if prefix ''/'' rest then rest else home @ ''/'' @ rest) else path)"

definition get_next_arg_as_filename :: "string \<Rightarrow> cli_setup \<Rightarrow> string option \<Rightarrow> string cli_prog" where
  "get_next_arg_as_filename home S expected = bnd (get_next_arg S expected) (\<lambda>n. ret (check_home_in_path home n))"

text \<open>A type in the list of arguments is for the name that follows it.\<close>

datatype 'v dict_arg = TypeArg "string \<Rightarrow> exn + 'v" | NameArg string | OtherArg string

fun args_as_dict :: "cli_setup \<Rightarrow> (string \<Rightarrow> 'v) \<Rightarrow> 'v dict_arg list \<Rightarrow> (string \<Rightarrow> exn + 'v) option \<Rightarrow> (string, 'v) dict \<Rightarrow> (string, 'v) dict cli_prog" where
  "args_as_dict S txt [] None d = ret d"
| "args_as_dict S txt [] (Some t) d = raise (PlainException ''Type specified with no argument name'')"
| "args_as_dict S txt (TypeArg t # as) None d = args_as_dict S txt as (Some t) d"
| "args_as_dict S txt (TypeArg t # as) (Some _) d = raise (PlainException ''More than one concurrent type specified'')"
| "args_as_dict S txt (NameArg n # as) ty d = bnd (get_next_arg S (Some n)) (\<lambda>v.
     bnd (case ty of None \<Rightarrow> ret (txt v) | Some t \<Rightarrow> lift_res (t v)) (\<lambda>v. args_as_dict S txt as None (dset n v d)))"
| "args_as_dict S txt (OtherArg a # as) ty d = raise (PlainException (''Unrecognized argument: '' @ a))"

definition get_next_args_as_dict :: "cli_setup \<Rightarrow> (string \<Rightarrow> 'v) \<Rightarrow> 'v dict_arg list \<Rightarrow> (string, 'v) dict cli_prog" where
  "get_next_args_as_dict S txt args = args_as_dict S txt args None []"

definition peek :: "string option cli_prog" where
  "peek = bnd (gets (\<lambda>c. (cl_index c, cl_count c))) (\<lambda>(i, n). if i = n then ret None else bnd (argv_at i) (\<lambda>a. ret (Some a)))"

definition skip :: "cli_setup \<Rightarrow> nat \<Rightarrow> string option \<Rightarrow> unit cli_prog" where
  "skip S numargs expected = bnd (gets (\<lambda>c. cl_index c + numargs > cl_count c)) (\<lambda>short.
     bnd (if short then fail_arg S expected else ret ()) (\<lambda>_. advance numargs))"

definition skip_next_arg :: "cli_setup \<Rightarrow> string option \<Rightarrow> unit cli_prog" where
  "skip_next_arg S expected = skip S 1 expected"

definition skip_args :: "cli_setup \<Rightarrow> string list \<Rightarrow> unit cli_prog" where
  "skip_args S names = for_each (\<lambda>a. bnd (gets (\<lambda>c. cl_index c = cl_count c)) (\<lambda>none_left.
     bnd (if none_left then fail_arg S (Some a) else ret ()) (\<lambda>_. advance 1))) names"

text \<open>The arguments are only counted.\<close>

definition assert_args :: "cli_setup \<Rightarrow> string list \<Rightarrow> unit cli_prog" where
  "assert_args S names = bnd (gets (\<lambda>c. (cl_index c, cl_count c))) (\<lambda>(i, n).
     if i \<le> n \<and> n - i < length names then fail_arg S (Some (names ! (n - i)))
     else if i + length names < n then bnd (argv_at (i + length names)) (invoke_usage_with_bad_arg S)
     else ret ())"

definition has_next_optional_switch :: "cli_setup \<Rightarrow> string \<Rightarrow> bool cli_prog" where
  "has_next_optional_switch S name = bnd (gets (\<lambda>c. cl_index c = cl_count c)) (\<lambda>none_left.
     if none_left then ret False
     else bnd (get_next_arg S None) (\<lambda>arg. if arg = name then ret True
       else bnd (invoke_usage_with_bad_arg S arg) (\<lambda>_. ret False)))"

definition skip_next_arg_if_equal_to :: "string \<Rightarrow> bool cli_prog" where
  "skip_next_arg_if_equal_to arg = bnd has_more (\<lambda>more.
     if more then bnd (gets cl_index) (\<lambda>i. bnd (argv_at i) (\<lambda>v. if v = arg then bnd (advance 1) (\<lambda>_. ret True) else ret False))
     else ret False)"

definition assert_no_more :: "cli_setup \<Rightarrow> unit cli_prog" where
  "assert_no_more S = bnd has_more (\<lambda>more. if more
     then bnd (get_next_arg S None) (\<lambda>arg. invoke_usage S (Some (''Unexpected argument '' @ [CHR 0x27] @ arg @ [CHR 0x27])))
     else ret ())"

definition assert_has_more :: "cli_setup \<Rightarrow> unit cli_prog" where
  "assert_has_more S = bnd has_more (\<lambda>more. if more then ret () else invoke_usage S None)"

definition get_remaining_args :: "string list cli_prog" where
  "get_remaining_args = bnd (gets (\<lambda>c. (cl_index c, cl_count c, cl_argv c))) (\<lambda>(i, n, args).
     if i = n then ret [] else bnd (modify (\<lambda>c. c\<lparr>cl_index := n\<rparr>)) (\<lambda>_. ret (drop i args)))"

section \<open>Looking for options\<close>

text \<open>Whether an option was found, or the arguments that were removed with it.\<close>

datatype removed = Found bool | Captured "string list"

fun index_of :: "string \<Rightarrow> nat \<Rightarrow> string list \<Rightarrow> nat option" where
  "index_of name i [] = None"
| "index_of name i (a # as) = (if a = name then Some i else index_of name (Suc i) as)"

text \<open>The loop that removes: \<open>n\<close> is the count.\<close>

fun remove_loop :: "nat \<Rightarrow> nat \<Rightarrow> nat \<Rightarrow> string list \<Rightarrow> nat \<Rightarrow> string list \<Rightarrow> exn + string list \<times> nat \<times> string list" where
  "remove_loop extra counter at argv 0 captured = Inr (argv, 0, captured)"
| "remove_loop extra counter at argv (Suc n) captured =
     (if at < Suc n then
        if at < length argv then
          let argv' = take at argv @ drop (Suc at) argv; captured' = (if counter > 0 then captured @ [argv ! at] else captured)
          in if counter = extra then Inr (argv', n, captured') else remove_loop extra (Suc counter) at argv' n captured'
        else Inl IndexError
      else Inr (argv, Suc n, captured))"

definition find_and_remove :: "cli_setup \<Rightarrow> string \<Rightarrow> nat \<Rightarrow> removed cli_prog" where
  "find_and_remove S name extra = bnd (gets (\<lambda>c. (cl_argv c, cl_index c, cl_count c))) (\<lambda>(args, i, n).
     case index_of name i (drop i args) of
       None \<Rightarrow> ret (Found False)
     | Some remove_at \<Rightarrow> bnd (lift_res (remove_loop extra 0 remove_at args n [])) (\<lambda>(args, n, captured).
         bnd (modify (\<lambda>c. c\<lparr>cl_argv := args, cl_count := n\<rparr>)) (\<lambda>_.
         if extra > 0 then bnd (if length captured \<noteq> extra then invoke_usage S None else ret ()) (\<lambda>_. ret (Captured captured))
         else ret (Found True))))"

definition find_and_remove_arg_plus_1 :: "cli_setup \<Rightarrow> string \<Rightarrow> string option \<Rightarrow> string option cli_prog" where
  "find_and_remove_arg_plus_1 S name dflt = bnd (find_and_remove S name 1) (\<lambda>r. case r of
     Captured (v # _) \<Rightarrow> ret (Some v) | _ \<Rightarrow> ret dflt)"

definition find_and_remove_arg_plus_int :: "cli_setup \<Rightarrow> string \<Rightarrow> int option \<Rightarrow> int option cli_prog" where
  "find_and_remove_arg_plus_int S name dflt = bnd (find_and_remove S name 1) (\<lambda>r. case r of
     Captured (v # _) \<Rightarrow>
       if v \<noteq> [] \<and> list_all is_digit v then bnd (lift_res (int_of_str v)) (\<lambda>i. ret (Some i))
       else bnd (invoke_usage S (Some (name @ '' must be specified with an integer value (vs '' @ v @ '').''))) (\<lambda>_. ret dflt)
   | _ \<Rightarrow> ret dflt)"

definition find_and_remove_args :: "cli_setup \<Rightarrow> string \<Rightarrow> nat \<Rightarrow> string option list cli_prog" where
  "find_and_remove_args S name num_args = bnd (assert_that (num_args > 0)) (\<lambda>_.
     bnd (find_and_remove S name num_args) (\<lambda>r. case r of
       Found _ \<Rightarrow> ret (replicate num_args None) | Captured vs \<Rightarrow> ret (map Some vs)))"

text \<open>The callable may read arguments; the fuel counts the switches.\<close>

fun pre_process :: "nat \<Rightarrow> string \<Rightarrow> unit cli_prog \<Rightarrow> unit cli_prog" where
  "pre_process 0 name caller = raise OutOfFuel"
| "pre_process (Suc k) name caller = bnd has_more (\<lambda>more. if \<not> more then ret ()
     else bnd peek (\<lambda>arg. if arg = Some name then bnd (advance 1) (\<lambda>_. bnd caller (\<lambda>_. pre_process k name caller)) else ret ()))"

section \<open>Variables of the environment\<close>

text \<open>A variable without a value is removed and then set to the empty text.\<close>

definition set_env :: "string \<Rightarrow> unit cli_prog" where
  "set_env name_and_value = (let index = find_str ''='' name_and_value in
     if index < 1 then raise (ValueError ''Expecting name=value formatted.'')
     else let name = strip (take (nat index) name_and_value); v = drop (nat index + 1) name_and_value in
       bnd (modify (\<lambda>c. if v = [] then c\<lparr>cl_environ := ddel name (cl_environ c)\<rparr> else c)) (\<lambda>_.
       modify (\<lambda>c. c\<lparr>cl_environ := dset name v (cl_environ c)\<rparr>)))"

fun process_env_switches :: "nat \<Rightarrow> cli_setup \<Rightarrow> string \<Rightarrow> unit cli_prog" where
  "process_env_switches 0 S name = raise OutOfFuel"
| "process_env_switches (Suc k) S name = bnd (find_and_remove_arg_plus_1 S name None) (\<lambda>v. case v of
     None \<Rightarrow> ret () | Some v \<Rightarrow> bnd (set_env v) (\<lambda>_. process_env_switches k S name))"

text \<open>The words of a text, with the apostrophes inside them, for additional arguments from a variable.\<close>

definition is_word_char :: "char \<Rightarrow> bool" where
  "is_word_char c \<longleftrightarrow> is_digit c \<or> c \<in> set ''_ABCDEFGHIJKLMNOPQRSTUVWXYZabcdefghijklmnopqrstuvwxyz''"

function find_words :: "string \<Rightarrow> string list" where
  "find_words s = (case dropWhile (\<lambda>c. \<not> is_word_char c) s of
     [] \<Rightarrow> []
   | c # r \<Rightarrow> rev (dropWhile (\<lambda>c. c = CHR 0x27) (rev (takeWhile (\<lambda>c. is_word_char c \<or> c = CHR 0x27) (c # r))))
       # find_words (dropWhile (\<lambda>c. is_word_char c \<or> c = CHR 0x27) (c # r)))"
  by pat_completeness auto

lemma dropWhile_Cons_length: "dropWhile P s = c # r \<Longrightarrow> length r < length s"
  by (metis length_Cons length_dropWhile_le less_eq_Suc_le)

termination find_words
proof (relation "measure length")
  fix s c r assume d: "dropWhile (\<lambda>c. \<not> is_word_char c) s = c # r"
  then have "is_word_char c" by (metis dropWhile_eq_Cons_conv)
  then have "dropWhile (\<lambda>c. is_word_char c \<or> c = CHR 0x27) (c # r) = dropWhile (\<lambda>c. is_word_char c \<or> c = CHR 0x27) r" by simp
  with le_less_trans [OF length_dropWhile_le dropWhile_Cons_length [OF d]]
  show "(dropWhile (\<lambda>c. is_word_char c \<or> c = CHR 0x27) (c # r), s) \<in> measure length" by simp
qed simp

definition check_env_args :: "string list \<Rightarrow> string option \<Rightarrow> (string, string) dict \<Rightarrow> string list" where
  "check_env_args argv env_name env = argv @ (case env_name of None \<Rightarrow> []
     | Some n \<Rightarrow> (case dget n env of None \<Rightarrow> [] | Some cmd \<Rightarrow> find_words cmd))"

section \<open>A new reader\<close>

definition base_name :: "string \<Rightarrow> string" where
  "base_name p = rev (takeWhile (\<lambda>c. c \<noteq> CHR ''/'') (rev p))"

record cli_args =
  ca_usage :: "usage option"
  ca_easy_usage :: "(string \<Rightarrow> unit cli_prog) option"
  ca_params :: "(string, param_config) dict option"
  ca_argv :: "string list option"
  ca_args_env_name :: "string option"
  ca_env_switch_name :: "string option"
  ca_no_help :: bool

definition cli_setup_of :: "cli_args \<Rightarrow> string \<Rightarrow> string \<Rightarrow> cli_setup" where
  "cli_setup_of A us file_name = \<lparr>cs_usage = ca_usage A, cs_easy_usage = ca_easy_usage A, cs_params = ca_params A,
     cs_auto_exit = (ca_argv A = None), cs_us = us, cs_file_name = file_name\<rparr>"

text \<open>The state before has the arguments of the process; the usage is shown once the switches were processed.\<close>

definition new_cli :: "cli_args \<Rightarrow> cli_setup cli_prog" where
  "new_cli A =
     bnd (gets (\<lambda>c. case cl_argv c of [] \<Rightarrow> [] | a # _ \<Rightarrow> base_name a)) (\<lambda>file_name.
     bnd (modify (\<lambda>c. let args = (case ca_argv A of None \<Rightarrow> check_env_args (cl_argv c) (ca_args_env_name A) (cl_environ c) | Some a \<Rightarrow> a)
        in c\<lparr>cl_argv := args, cl_count := length args, cl_index := 1\<rparr>)) (\<lambda>_.
     bnd (argv_at 0) (\<lambda>a0.
     let S = cli_setup_of A (base_name a0) file_name in
     bnd (case ca_env_switch_name A of None \<Rightarrow> ret ()
       | Some n \<Rightarrow> if n = [] then ret () else bnd (gets (\<lambda>c. length (cl_argv c))) (\<lambda>k. process_env_switches (Suc k) S n)) (\<lambda>_.
     bnd (gets (\<lambda>c. ''--help'' \<in> set (cl_argv c))) (\<lambda>help.
     bnd (if \<not> ca_no_help A \<and> help \<and> (ca_usage A \<noteq> None \<or> ca_easy_usage A \<noteq> None) then invoke_usage S None else ret ()) (\<lambda>_.
     ret S))))))"

section \<open>Settings\<close>

text \<open>A default is a value or a callable that makes one.\<close>

definition ps_get :: "(string, string) dict \<Rightarrow> string \<Rightarrow> string option cli_prog option \<Rightarrow> string option cli_prog" where
  "ps_get src key dflt = (case dget (lower key) src of
     Some v \<Rightarrow> ret (Some v) | None \<Rightarrow> (case dflt of None \<Rightarrow> ret None | Some p \<Rightarrow> p))"

definition ps_get_required :: "cli_setup \<Rightarrow> (string, string) dict \<Rightarrow> string \<Rightarrow> (string \<Rightarrow> exn + 'v) \<Rightarrow> (exn \<Rightarrow> string) \<Rightarrow> 'v cli_prog" where
  "ps_get_required S src key transformer text =
     bnd (ps_get src (lower key) None) (\<lambda>v. case v of
       None \<Rightarrow> bnd (invoke_usage S (Some (''Missing required setting: '' @ key @ ''.''))) (\<lambda>_. raise (SystemExit 2))
     | Some v \<Rightarrow> (case transformer v of
         Inr x \<Rightarrow> ret x
       | Inl e \<Rightarrow> bnd (invoke_usage S (Some (''Invalid value for '' @ key @ '': '' @ v @ '' - '' @ text e @ ''.''))) (\<lambda>_. raise (SystemExit 2))))"

text \<open>Nothing is returned for an argument without a key and a value, when its usage returns.\<close>

definition split_two :: "cli_setup \<Rightarrow> string list \<Rightarrow> string \<Rightarrow> (string \<times> string) option cli_prog" where
  "split_two S prop_set s = (let index = find_str ''='' s in
     if 0 < index \<and> index < int (length s) - 1 then
       let k = lower (take (nat index) s); v = drop (nat index + 1) s in
       bnd (if k \<in> set prop_set then ret () else invoke_usage S (Some (''Invalid argument: '' @ s))) (\<lambda>_. ret (Some (k, v)))
     else bnd (invoke_usage S (Some (''Invalid command-line argument: '' @ s @ ''. Expecting key=value.''))) (\<lambda>_. ret None))"

fun remaining_props :: "nat \<Rightarrow> cli_setup \<Rightarrow> string list \<Rightarrow> (string, string) dict \<Rightarrow> (string, string) dict cli_prog" where
  "remaining_props 0 S prop_set props = raise OutOfFuel"
| "remaining_props (Suc k) S prop_set props = bnd has_more (\<lambda>more. if \<not> more then ret props
     else bnd (get_next_arg S None) (\<lambda>a. bnd (split_two S prop_set a) (\<lambda>kv. case kv of
       None \<Rightarrow> raise TypeError | Some (n, v) \<Rightarrow> remaining_props k S prop_set (dset n v props))))"

definition get_remaining_props :: "cli_setup \<Rightarrow> string list \<Rightarrow> (string, string) dict cli_prog" where
  "get_remaining_props S prop_set = bnd (gets cl_count) (\<lambda>n. remaining_props (Suc n) S (map lower prop_set) [])"

section \<open>Configured arguments\<close>

definition convert_arg :: "param_config option \<Rightarrow> string \<Rightarrow> string \<Rightarrow> (string, string) dict \<Rightarrow> (string, string) dict cli_prog" where
  "convert_arg p key_name v collector = (case p of None \<Rightarrow> raise AttributeError
   | Some p \<Rightarrow> bnd (case pc_type p of None \<Rightarrow> ret v | Some t \<Rightarrow> lift_res (t v)) (\<lambda>v.
       case pc_handler p of
         Some h \<Rightarrow> bnd (h (if pc_type p = None then pc_handler_arg p else Some v)) (\<lambda>_. ret collector)
       | None \<Rightarrow> ret (dset (if suffix ''='' key_name then butlast key_name else key_name) v collector)))"

fun required_args :: "cli_setup \<Rightarrow> (string, param_config) dict \<Rightarrow> (string, string) dict \<Rightarrow> (string, string) dict cli_prog" where
  "required_args S [] d = ret d"
| "required_args S ((k, p) # ps) d = bnd (if pc_required p
     then bnd (get_next_arg S (Some k)) (\<lambda>v. convert_arg (Some p) k v d) else ret d) (required_args S ps)"

text \<open>The last equals sign of an argument, as \<open>rfind\<close>.\<close>

definition last_equals :: "string \<Rightarrow> nat option" where
  "last_equals s = (if CHR ''='' \<in> set s then Some (length s - 1 - length (takeWhile (\<lambda>c. c \<noteq> CHR ''='') (rev s))) else None)"

text \<open>The configuration of an argument and its value: the whole argument, or what follows its last equals sign.\<close>

definition config_of_arg :: "(string, param_config) dict \<Rightarrow> string \<Rightarrow> param_config option \<times> string" where
  "config_of_arg params arg = (case dget arg params of
     Some p \<Rightarrow> (Some p, arg)
   | None \<Rightarrow> (case last_equals arg of
       Some (Suc i) \<Rightarrow> (case dget (take (Suc (Suc i)) arg) params of
           Some p \<Rightarrow> (Some p, drop (Suc (Suc i)) arg) | None \<Rightarrow> (None, arg))
     | _ \<Rightarrow> (None, arg)))"

fun optional_args :: "nat \<Rightarrow> cli_setup \<Rightarrow> (string, param_config) dict \<Rightarrow> (string, string) dict \<Rightarrow> (string, string) dict cli_prog" where
  "optional_args 0 S params d = raise OutOfFuel"
| "optional_args (Suc k) S params d = bnd has_more (\<lambda>more. if \<not> more then ret d
     else bnd (get_next_arg S None) (\<lambda>key. case config_of_arg params key of (p, arg) \<Rightarrow>
       bnd (if p = None then invoke_usage_with_bad_arg S arg else ret ()) (\<lambda>_.
       bnd (convert_arg p key arg d) (optional_args k S params))))"

definition process_configured_args :: "cli_setup \<Rightarrow> (string, string) dict cli_prog" where
  "process_configured_args S = bnd (gets (\<lambda>c. (cl_index c, cl_count c))) (\<lambda>(i, n).
     if i \<noteq> 1 then raise (PlainException (''Can'' @ [CHR 0x27] @ ''t call this now.''))
     else case cs_params S of None \<Rightarrow> raise (PlainException ''No param config provided'')
     | Some params \<Rightarrow> bnd (required_args S params []) (optional_args (Suc n) S params))"

section \<open>Whole command lines\<close>

definition usage_args :: "usage option \<Rightarrow> cli_args" where
  "usage_args u = \<lparr>ca_usage = u, ca_easy_usage = None, ca_params = None, ca_argv = None, ca_args_env_name = None,
     ca_env_switch_name = None, ca_no_help = False\<rparr>"

definition get_args_from_command_line :: "usage option \<Rightarrow> string list \<Rightarrow> string list cli_prog" where
  "get_args_from_command_line u names = bnd (new_cli (usage_args u)) (\<lambda>S.
     bnd (get_next_args S names) (\<lambda>vs. bnd (assert_no_more S) (\<lambda>_. ret vs)))"

definition get_arg_from_command_line :: "usage option \<Rightarrow> string \<Rightarrow> string cli_prog" where
  "get_arg_from_command_line u name = bnd (new_cli (usage_args u)) (\<lambda>S.
     bnd (get_next_arg S (Some name)) (\<lambda>v. bnd (assert_no_more S) (\<lambda>_. ret v)))"

section \<open>What is taken\<close>

text \<open>The count is the number of arguments, and the place is not behind the last.\<close>

definition cli_ok :: "cli \<Rightarrow> bool" where
  "cli_ok c \<longleftrightarrow> cl_count c = length (cl_argv c) \<and> cl_index c \<le> cl_count c"

lemma usage_exits: "cs_auto_exit S \<Longrightarrow> \<exists>e c'. invoke_usage S msg c = (Inl e, c')"
  by (simp add: invoke_usage_def exit_if_auto_def bnd_def split: prod.splits sum.splits)

lemma fail_raises: "\<exists>e c'. fail_arg S expected c = (Inl e, c')"
  by (simp add: fail_arg_def Let_def bnd_def split: prod.splits sum.splits)

lemma get_next_arg_eq: "cli_ok c \<Longrightarrow> cl_index c < cl_count c \<Longrightarrow>
    get_next_arg S expected c = (Inr (cl_argv c ! cl_index c), c\<lparr>cl_index := Suc (cl_index c)\<rparr>)"
  by (simp add: get_next_arg_def argv_at_def advance_def bnd_def cli_ok_def)

lemma get_next_arg_none: "cl_index c = cl_count c \<Longrightarrow> \<exists>e c'. get_next_arg S expected c = (Inl e, c')"
  using fail_raises [of S expected c] by (simp add: get_next_arg_def bnd_def)

lemma get_next_args_eq:
  "cli_ok c \<Longrightarrow> length names \<le> cl_count c - cl_index c \<Longrightarrow> get_next_args S names c =
    (Inr (take (length names) (drop (cl_index c) (cl_argv c))), c\<lparr>cl_index := cl_index c + length names\<rparr>)"
proof (induction names arbitrary: c)
  case (Cons n names)
  let ?c = "c\<lparr>cl_index := Suc (cl_index c)\<rparr>"
  have "get_next_args S names ?c = (Inr (take (length names) (drop (Suc (cl_index c)) (cl_argv c))), ?c\<lparr>cl_index := Suc (cl_index c) + length names\<rparr>)"
    using Cons.IH [of ?c] Cons.prems by (auto simp: cli_ok_def)
  moreover have "take (Suc (length names)) (drop (cl_index c) (cl_argv c)) =
      cl_argv c ! cl_index c # take (length names) (drop (Suc (cl_index c)) (cl_argv c))"
    using Cons.prems by (auto simp: cli_ok_def Cons_nth_drop_Suc [symmetric])
  ultimately show ?case using Cons.prems get_next_arg_eq [of c S "Some n"] by (auto simp: get_next_args_def bnd_def)
qed (simp add: get_next_args_def)

lemma get_next_args_short:
  "cli_ok c \<Longrightarrow> cl_count c - cl_index c < length names \<Longrightarrow> \<exists>e c'. get_next_args S names c = (Inl e, c')"
proof (induction names arbitrary: c)
  case (Cons n names)
  show ?case
  proof (cases "cl_index c < cl_count c")
    case True
    then have "\<exists>e c'. get_next_args S names (c\<lparr>cl_index := Suc (cl_index c)\<rparr>) = (Inl e, c')"
      using Cons.prems by (intro Cons.IH) (auto simp: cli_ok_def)
    then show ?thesis using get_next_arg_eq [OF Cons.prems(1) True, of S "Some n"] by (auto simp: get_next_args_def bnd_def)
  next
    case False
    then show ?thesis using get_next_arg_none [of c S "Some n"] Cons.prems(1) by (auto simp: get_next_args_def bnd_def cli_ok_def)
  qed
qed simp

text \<open>
  C18 (error). The arguments of a tool are taken whole or not at all: asked for some names, the command line answers
  exactly its arguments when there are as many, and in every other case ends by an exception: too few or too many, or
  \<open>--help\<close> anywhere when there is a usage to show.
\<close>
theorem args_exact:
  assumes "cl_argv c = a # args"
  shows "fst (get_args_from_command_line u names c) = Inr vs \<longleftrightarrow>
    vs = args \<and> length args = length names \<and> \<not> (u \<noteq> None \<and> ''--help'' \<in> set (a # args))"
proof -
  define S where "S = cli_setup_of (usage_args u) (base_name a) (base_name a)"
  let ?c = "c\<lparr>cl_count := Suc (length args), cl_index := 1\<rparr>"
  have c: "c\<lparr>cl_argv := a # args, cl_count := Suc (length args), cl_index := Suc 0\<rparr> = ?c" using assms by simp
  have auto: "cs_auto_exit S" by (simp add: S_def cli_setup_of_def usage_args_def)
  have n: "new_cli (usage_args u) c = bnd (if ''--help'' \<in> set (a # args) \<and> u \<noteq> None then invoke_usage S None else ret ()) (\<lambda>_. ret S) ?c"
    using assms by (simp add: new_cli_def usage_args_def check_env_args_def argv_at_def bnd_def S_def c Let_def cong: prod.case_cong sum.case_cong)
  show ?thesis
  proof (cases "''--help'' \<in> set (a # args) \<and> u \<noteq> None")
    case True
    with usage_exits [OF auto, of None ?c] n obtain e c' where "new_cli (usage_args u) c = (Inl e, c')" by (auto simp: bnd_def)
    then show ?thesis using True by (auto simp: get_args_from_command_line_def bnd_def)
  next
    case False
    then have s: "new_cli (usage_args u) c = (Inr S, ?c)" using n by auto
    have ok: "cli_ok ?c" using assms by (simp add: cli_ok_def)
    show ?thesis
    proof (cases "length names \<le> length args")
      case True
      let ?d = "?c\<lparr>cl_index := Suc (length names)\<rparr>"
      have g: "get_next_args S names ?c = (Inr (take (length names) args), ?d)" using get_next_args_eq [OF ok, of names S] True assms by simp
      have d: "cli_ok ?d" using True assms by (simp add: cli_ok_def)
      have "\<exists>e c'. assert_no_more S ?d = (Inl e, c')" if "length names < length args"
        using get_next_arg_eq [OF d, of S None] usage_exits [OF auto] that by (auto simp: assert_no_more_def has_more_def bnd_def)
      moreover have "assert_no_more S ?d = (Inr (), ?d)" if "length names = length args"
        using that by (simp add: assert_no_more_def has_more_def bnd_def)
      ultimately show ?thesis using False True s g by (cases "length names = length args") (auto simp: get_args_from_command_line_def bnd_def)
    next
      case short: False
      then show ?thesis using get_next_args_short [OF ok, of names S] s False by (auto simp: get_args_from_command_line_def bnd_def)
    qed
  qed
qed

lemma args_exact_witness:
  "fst (get_args_from_command_line (Some (UsageText ''u'')) [''x'', ''y'']
     \<lparr>cl_argv = [''/bin/tool'', ''1'', ''2''], cl_index = 0, cl_count = 0, cl_environ = [], cl_err = []\<rparr>) = Inr [''1'', ''2'']"
proof -
  let ?c = "\<lparr>cl_argv = [''/bin/tool'', ''1'', ''2''], cl_index = 0, cl_count = 0, cl_environ = [], cl_err = []\<rparr>"
  have "cl_argv ?c = ''/bin/tool'' # [''1'', ''2'']" by simp
  from args_exact [OF this, of "Some (UsageText ''u'')" "[''x'', ''y'']" "[''1'', ''2'']"] show ?thesis by simp
qed

section \<open>What is removed\<close>

lemma remove_loop_end: "remove_loop extra counter n argv n captured = Inr (argv, n, captured)"
  by (cases n) auto

lemma remove_loop_eq:
  "at \<le> length argv \<Longrightarrow> counter \<le> extra \<Longrightarrow> remove_loop extra counter at argv (length argv) captured =
    (let R = take (Suc (extra - counter)) (drop at argv) in
     Inr (take at argv @ drop (at + Suc (extra - counter)) argv, length argv - length R, captured @ (if counter = 0 then tl R else R)))"
proof (induction "length argv" arbitrary: argv counter captured)
  case (Suc n)
  show ?case
  proof (cases "at < length argv")
    case True
    let ?argv = "take at argv @ drop (Suc at) argv"
    let ?captured = "if counter > 0 then captured @ [argv ! at] else captured"
    have l: "length ?argv = n" "at \<le> length ?argv" using True Suc.hyps(2) by auto
    have R: "take (Suc (extra - counter)) (drop at argv) = argv ! at # take (extra - counter) (drop (Suc at) argv)"
      using True by (simp add: Cons_nth_drop_Suc [symmetric])
    have step: "remove_loop extra counter at argv (length argv) captured = (if counter = extra then Inr (?argv, n, ?captured)
        else remove_loop extra (Suc counter) at ?argv (length ?argv) ?captured)"
      using True l(1) by (simp add: Suc.hyps(2) [symmetric] Let_def)
    show ?thesis
    proof (cases "counter = extra")
      case True
      then show ?thesis using step R Suc.hyps(2) by (auto simp: Let_def)
    next
      case False
      then have e: "extra - counter = Suc (extra - Suc counter)" using Suc.prems(2) by simp
      have d: "drop at ?argv = drop (Suc at) argv" "take at ?argv = take at argv" "drop (at + Suc (extra - Suc counter)) ?argv = drop (at + Suc (extra - counter)) argv"
        using True by (simp_all add: e add.commute)
      have "remove_loop extra (Suc counter) at ?argv (length ?argv) ?captured = (let R = take (Suc (extra - Suc counter)) (drop at ?argv) in
          Inr (take at ?argv @ drop (at + Suc (extra - Suc counter)) ?argv, length ?argv - length R, ?captured @ R))"
        using Suc.hyps(1) [of ?argv "Suc counter" ?captured] l False Suc.prems(2) by simp
      then show ?thesis using step False R l(1) Suc.hyps(2) unfolding d Let_def e by auto
    qed
  next
    case False
    then have "at = length argv" using Suc.prems(1) by simp
    then show ?thesis using remove_loop_end [of extra counter "length argv" argv captured] by (simp add: Let_def)
  qed
qed (simp add: Let_def)

lemma index_of_None: "index_of name i xs = None \<longleftrightarrow> name \<notin> set xs"
  by (induction xs arbitrary: i) auto

lemma index_of_first: "name \<notin> set ys \<Longrightarrow> index_of name i (ys @ name # zs) = Some (i + length ys)"
  by (induction ys arbitrary: i) auto

text \<open>An option that is found goes away with the arguments after it, and nothing else does.\<close>

lemma find_and_remove_eq:
  assumes "cl_argv c = pre @ ys @ name # vs @ zs" "cl_index c = length pre" "cl_count c = length (cl_argv c)" "name \<notin> set ys" "length vs = extra"
  shows "find_and_remove S name extra c = (Inr (if extra = 0 then Found True else Captured vs),
    c\<lparr>cl_argv := pre @ ys @ zs, cl_count := length (pre @ ys @ zs)\<rparr>)"
proof -
  have i: "index_of name (cl_index c) (drop (cl_index c) (cl_argv c)) = Some (length (pre @ ys))"
    using assms(1,2,4) by (simp add: index_of_first)
  have "remove_loop extra 0 (length (pre @ ys)) (cl_argv c) (length (cl_argv c)) [] = Inr (pre @ ys @ zs, length (pre @ ys @ zs), vs)"
    using remove_loop_eq [of "length (pre @ ys)" "cl_argv c" 0 extra "[]"] assms(1,5) by (simp add: Let_def)
  then show ?thesis using assms(5) by (simp add: find_and_remove_def i assms(3) bnd_def)
qed

lemma find_and_remove_missing: "name \<notin> set (drop (cl_index c) (cl_argv c)) \<Longrightarrow> find_and_remove S name extra c = (Inr (Found False), c)"
  by (simp add: find_and_remove_def bnd_def iffD2 [OF index_of_None])

lemma find_and_remove_1_eq:
  "cl_argv c = pre @ ys @ name # v # zs \<Longrightarrow> cl_index c = length pre \<Longrightarrow> cl_count c = length (cl_argv c) \<Longrightarrow> name \<notin> set ys \<Longrightarrow>
   find_and_remove_arg_plus_1 S name dflt c = (Inr (Some v), c\<lparr>cl_argv := pre @ ys @ zs, cl_count := length (pre @ ys @ zs)\<rparr>)"
  using find_and_remove_eq [of c pre ys name "[v]" zs 1 S] by (simp add: find_and_remove_arg_plus_1_def bnd_def)

lemma find_and_remove_1_missing:
  "name \<notin> set (drop (cl_index c) (cl_argv c)) \<Longrightarrow> find_and_remove_arg_plus_1 S name dflt c = (Inr dflt, c)"
  by (simp add: find_and_remove_arg_plus_1_def bnd_def find_and_remove_missing)

text \<open>The settings and the other arguments, read once from left to right; none when the last argument is a switch.\<close>

fun split_switches :: "string \<Rightarrow> string list \<Rightarrow> (string list \<times> string list) option" where
  "split_switches n [] = Some ([], [])"
| "split_switches n [a] = (if a = n then None else Some ([], [a]))"
| "split_switches n (a # b # r) = (if a = n then map_option (\<lambda>(vs, os). (b # vs, os)) (split_switches n r)
     else map_option (\<lambda>(vs, os). (vs, a # os)) (split_switches n (b # r)))"

lemma split_switches_Cons: "a \<noteq> n \<Longrightarrow> split_switches n (a # r) = map_option (\<lambda>(vs, os). (vs, a # os)) (split_switches n r)"
  by (cases r) auto

lemma split_switches_append:
  "n \<notin> set ys \<Longrightarrow> split_switches n (ys @ xs) = map_option (\<lambda>(vs, os). (vs, ys @ os)) (split_switches n xs)"
  by (induction ys; cases "split_switches n xs") (auto simp: split_switches_Cons)

definition set_var :: "string \<Rightarrow> (string, string) dict \<Rightarrow> (string, string) dict" where
  "set_var s env = (let i = nat (find_str ''='' s); name = strip (take i s); v = drop (i + 1) s in
     dset name v (if v = [] then ddel name env else env))"

lemma set_env_eq: "1 \<le> find_str ''='' s \<Longrightarrow> set_env s c = (Inr (), c\<lparr>cl_environ := set_var s (cl_environ c)\<rparr>)"
  by (simp add: set_env_def set_var_def Let_def bnd_def)

text \<open>
  The switches that set variables are all processed, and the loop over them ends: the reader removes each with
  its setting, in whatever order it finds them, applies the settings from left to right, and leaves exactly the other
  arguments in their order.
\<close>
lemma env_switches_processed:
  assumes "cli_ok c" "split_switches name (drop (cl_index c) (cl_argv c)) = Some (vs, os)" "list_all (\<lambda>v. 1 \<le> find_str ''='' v) vs"
  shows "process_env_switches (Suc (length (cl_argv c))) S name c =
    (Inr (), c\<lparr>cl_argv := take (cl_index c) (cl_argv c) @ os, cl_count := cl_index c + length os, cl_environ := fold set_var vs (cl_environ c)\<rparr>)"
proof -
  have "length rest < k \<Longrightarrow> cl_argv c = pre @ rest \<Longrightarrow> cl_index c = length pre \<Longrightarrow> cl_count c = length (cl_argv c) \<Longrightarrow>
    split_switches name rest = Some (vs, os) \<Longrightarrow> list_all (\<lambda>v. 1 \<le> find_str ''='' v) vs \<Longrightarrow>
    process_env_switches k S name c = (Inr (), c\<lparr>cl_argv := pre @ os, cl_count := length pre + length os, cl_environ := fold set_var vs (cl_environ c)\<rparr>)"
    for k pre rest
  proof (induction k arbitrary: c rest vs)
    case (Suc k)
    show ?case
    proof (cases "name \<in> set rest")
      case False
      have "vs = []" "os = rest" using Suc.prems(5) split_switches_append [OF False, of "[]"] by auto
      moreover have "find_and_remove_arg_plus_1 S name None c = (Inr None, c)"
        by (rule find_and_remove_1_missing) (use False Suc.prems(2,3) in simp)
      ultimately show ?thesis using Suc.prems(2,4) by (simp add: bnd_def)
    next
      case True
      then obtain ys r where r: "rest = ys @ name # r" "name \<notin> set ys" by (metis split_list_first)
      obtain v zs where v: "r = v # zs" using Suc.prems(5) r split_switches_append [OF r(2), of "name # r"] by (cases r) auto
      obtain ws where ws: "vs = v # ws" "split_switches name (ys @ zs) = Some (ws, os)"
        using Suc.prems(5) split_switches_append [OF r(2), of "name # r"] split_switches_append [OF r(2), of zs]
        by (cases "split_switches name zs") (auto simp: r(1) v)
      let ?c = "c\<lparr>cl_argv := pre @ ys @ zs, cl_count := length (pre @ ys @ zs)\<rparr>"
      have f: "find_and_remove_arg_plus_1 S name None c = (Inr (Some v), ?c)"
        by (rule find_and_remove_1_eq) (use Suc.prems r v in auto)
      have e: "set_env v ?c = (Inr (), ?c\<lparr>cl_environ := set_var v (cl_environ c)\<rparr>)"
        using Suc.prems(6) ws(1) set_env_eq [of v ?c] by simp
      show ?thesis
        using Suc.IH [of "ys @ zs" "?c\<lparr>cl_environ := set_var v (cl_environ c)\<rparr>" ws] Suc.prems(1,3,6) ws f e r(1) v
        by (simp add: bnd_def)
    qed
  qed simp
  from this [of "drop (cl_index c) (cl_argv c)" "Suc (length (cl_argv c))" "take (cl_index c) (cl_argv c)"] assms
  show ?thesis by (auto simp: cli_ok_def min_def)
qed

definition plain_param :: param_config where
  "plain_param = \<lparr>pc_required = False, pc_subname = None, pc_usage = None, pc_type = None, pc_handler = None, pc_handler_arg = None\<rparr>"

definition plain_setup :: cli_setup where
  "plain_setup = \<lparr>cs_usage = None, cs_easy_usage = None, cs_params = Some [(''n='', plain_param)], cs_auto_exit = False, cs_us = ''t'', cs_file_name = ''t''\<rparr>"

definition example_cli :: cli where
  "example_cli = \<lparr>cl_argv = [''tool'', ''a'', ''--env'', ''X=1'', ''b'', ''--env'', ''Y=''], cl_index = 1, cl_count = 7,
     cl_environ = [(''Y'', ''2'')], cl_err = []\<rparr>"

lemma env_switches_processed_witness:
  "process_env_switches (Suc (length (cl_argv example_cli))) plain_setup ''--env'' example_cli = (Inr (), example_cli\<lparr>cl_argv := [''tool'', ''a'', ''b''],
     cl_count := 3, cl_environ := [(''X'', ''1''), (''Y'', [])]\<rparr>)"
proof -
  have h: "cli_ok example_cli" "split_switches ''--env'' (drop (cl_index example_cli) (cl_argv example_cli)) = Some ([''X=1'', ''Y=''], [''a'', ''b''])"
    "list_all (\<lambda>v. 1 \<le> find_str ''='' v) [''X=1'', ''Y='']"
    by (simp_all add: cli_ok_def example_cli_def find_str_def)
  have "fold set_var [''X=1'', ''Y=''] (cl_environ example_cli) = [(''X'', ''1''), (''Y'', [])]" by code_simp
  with env_switches_processed [OF h, of plain_setup] show ?thesis by (simp add: example_cli_def)
qed

text \<open>A variable that is set to nothing stays, with the empty text; a setting of a configured parameter is stored under its whole argument.\<close>

lemma set_env_keeps_variable: "set_env ''A='' \<lparr>cl_argv = [], cl_index = 1, cl_count = 0, cl_environ = [(''A'', ''x'')], cl_err = []\<rparr> =
    (Inr (), \<lparr>cl_argv = [], cl_index = 1, cl_count = 0, cl_environ = [(''A'', [])], cl_err = []\<rparr>)"
  by code_simp

lemma setting_under_whole_argument:
  "fst (process_configured_args plain_setup \<lparr>cl_argv = [''t'', ''n=5''], cl_index = 1, cl_count = 2, cl_environ = [], cl_err = []\<rparr>) = Inr [(''n=5'', ''5'')]"
  by (simp add: process_configured_args_def plain_setup_def plain_param_def has_more_def get_next_arg_def argv_at_def advance_def
      config_of_arg_def last_equals_def convert_arg_def bnd_def dget_def numeral_2_eq_2 suffix_to_prefix)

end
