(* ===== verification/Async_Group.thy ===== *)
theory Async_Group
  imports Collections "HOL-Library.Multiset"
begin

text \<open>
  The group of threads of \<open>utils/threading_utils.py\<close> as a state machine: the thread that adds blocks and joins, the queue of
  bounded size, and the workers, in every order they can run. \<open>bad\<close> are the blocks for which \<open>on_submit\<close> raises; an exception of the
  processor is reported and does no harm.
\<close>

section \<open>Threads\<close>

text \<open>The function of a thread: an exception is written to the log, here the list of the state.\<close>

definition thread_wrapper :: "(exn \<Rightarrow> string) \<Rightarrow> ('u option \<Rightarrow> ('s, unit) prog) \<Rightarrow> 'u option \<Rightarrow> ('s \<times> string list, unit) prog" where
  "thread_wrapper text f user_object = (\<lambda>(s, logged). case f user_object s of
     (Inr _, s') \<Rightarrow> (Inr (), (s', logged))
   | (Inl e, s') \<Rightarrow> (Inr (), (s', logged @ [''Unhandled exception: '' @ text e])))"

text \<open>\<open>ThreadGroup.join\<close> waits for the first thread that is alive only; \<open>ended\<close> says who has ended by then, \<open>waited\<close> after the wait.\<close>

fun thread_group_join :: "('t \<Rightarrow> bool) \<Rightarrow> ('t \<Rightarrow> bool) \<Rightarrow> 't list \<Rightarrow> bool \<times> 't list" where
  "thread_group_join ended waited [] = (True, [])"
| "thread_group_join ended waited (t # ts) = (if ended t then thread_group_join ended waited ts
     else if waited t then (ts = [], ts) else (False, t # ts))"

section \<open>The group\<close>

text \<open>
  What the adding thread has before it: blocks to submit and a rest for the join; a block it puts into the queue; the marks of
  the end it still puts; the threads it waits for.
\<close>

datatype 'b producer =
    Submitting "'b list" "'b option"
  | Putting 'b "'b list" "'b option"
  | Closing nat
  | Joining
  | Joined
  | Raised

datatype 'b thread_phase = Waiting | Busy 'b | Ended | Died

record 'b async_group =
  ag_queue :: "'b option list"
  ag_threads :: "'b thread_phase list"
  ag_phase :: "'b producer"
  ag_executed :: "'b list"
  ag_refused :: "'b list"

definition new_group :: "'b list \<Rightarrow> 'b option \<Rightarrow> 'b async_group" where
  "new_group bs r = \<lparr>ag_queue = [], ag_threads = [], ag_phase = Submitting bs r, ag_executed = [], ag_refused = []\<rparr>"

text \<open>\<open>__submit\<close> up to the put: a thread is started when there is none, or when blocks wait and there is room for one more.\<close>

definition submit_block :: "nat \<Rightarrow> 'b async_group \<Rightarrow> 'b async_group" where
  "submit_block max_threads g = (let count = length (ag_threads g) in
     if count = 0 \<or> length (ag_queue g) > 0 \<and> count < max_threads then g\<lparr>ag_threads := ag_threads g @ [Waiting]\<rparr> else g)"

definition put_queue :: "'b option \<Rightarrow> 'b async_group \<Rightarrow> 'b async_group" where
  "put_queue x g = g\<lparr>ag_queue := ag_queue g @ [x]\<rparr>"

definition execute_block_now :: "('b \<Rightarrow> bool) \<Rightarrow> 'b \<Rightarrow> 'b async_group \<Rightarrow> 'b async_group" where
  "execute_block_now bad b g = (if bad b then g\<lparr>ag_refused := ag_refused g @ [b]\<rparr> else g\<lparr>ag_executed := ag_executed g @ [b]\<rparr>)"

definition set_thread :: "nat \<Rightarrow> 'b thread_phase \<Rightarrow> 'b async_group \<Rightarrow> 'b async_group" where
  "set_thread i p g = g\<lparr>ag_threads := (ag_threads g)[i := p]\<rparr>"

definition thread_ended :: "'b thread_phase \<Rightarrow> bool" where
  "thread_ended p \<longleftrightarrow> p = Ended \<or> p = Died"

text \<open>One step of the adding thread, when it does not wait.\<close>

definition producer_step :: "nat \<Rightarrow> nat \<Rightarrow> ('b \<Rightarrow> bool) \<Rightarrow> 'b async_group \<Rightarrow> 'b async_group option" where
  "producer_step max_threads max_queue bad g = (case ag_phase g of
     Submitting (b # bs) r \<Rightarrow> Some ((submit_block max_threads g)\<lparr>ag_phase := Putting b bs r\<rparr>)
   | Submitting [] None \<Rightarrow> Some (g\<lparr>ag_phase := Closing (length (ag_threads g))\<rparr>)
   | Submitting [] (Some r) \<Rightarrow> Some ((execute_block_now bad r g)\<lparr>ag_phase := (if bad r then Raised else Closing (length (ag_threads g)))\<rparr>)
   | Putting b bs r \<Rightarrow> if length (ag_queue g) < max_queue then Some ((put_queue (Some b) g)\<lparr>ag_phase := Submitting bs r\<rparr>) else None
   | Closing 0 \<Rightarrow> Some (g\<lparr>ag_phase := Joining\<rparr>)
   | Closing (Suc n) \<Rightarrow> if length (ag_queue g) < max_queue then Some ((put_queue None g)\<lparr>ag_phase := Closing n\<rparr>) else None
   | Joining \<Rightarrow> if list_all thread_ended (ag_threads g) then Some (g\<lparr>ag_phase := Joined\<rparr>) else None
   | Joined \<Rightarrow> None
   | Raised \<Rightarrow> None)"

text \<open>One step of a worker: it takes from the queue, or executes its block.\<close>

definition thread_step :: "('b \<Rightarrow> bool) \<Rightarrow> nat \<Rightarrow> 'b async_group \<Rightarrow> 'b async_group option" where
  "thread_step bad i g = (case ag_threads g ! i of
     Waiting \<Rightarrow> (case ag_queue g of [] \<Rightarrow> None
       | None # q \<Rightarrow> Some ((set_thread i Ended g)\<lparr>ag_queue := q\<rparr>)
       | Some b # q \<Rightarrow> Some ((set_thread i (Busy b) g)\<lparr>ag_queue := q\<rparr>))
   | Busy b \<Rightarrow> Some (set_thread i (if bad b then Died else Waiting) (execute_block_now bad b g))
   | Ended \<Rightarrow> None
   | Died \<Rightarrow> None)"

inductive ag_step :: "nat \<Rightarrow> nat \<Rightarrow> ('b \<Rightarrow> bool) \<Rightarrow> 'b async_group \<Rightarrow> 'b async_group \<Rightarrow> bool" for m q bad where
  producer: "producer_step m q bad g = Some h \<Longrightarrow> ag_step m q bad g h"
| worker: "i < length (ag_threads g) \<Longrightarrow> thread_step bad i g = Some h \<Longrightarrow> ag_step m q bad g h"

lemmas ag_defs = producer_step_def thread_step_def submit_block_def put_queue_def set_thread_def execute_block_now_def Let_def

section \<open>Every block once\<close>

definition busy_blocks :: "'b thread_phase list \<Rightarrow> 'b multiset" where
  "busy_blocks ps = (\<Sum>p\<in>#mset ps. case p of Busy b \<Rightarrow> {#b#} | _ \<Rightarrow> {#})"

definition queued_blocks :: "'b option list \<Rightarrow> 'b multiset" where
  "queued_blocks q = (\<Sum>x\<in>#mset q. case x of Some b \<Rightarrow> {#b#} | None \<Rightarrow> {#})"

fun pending_blocks :: "'b producer \<Rightarrow> 'b multiset" where
  "pending_blocks (Submitting bs r) = mset bs + (case r of None \<Rightarrow> {#} | Some b \<Rightarrow> {#b#})"
| "pending_blocks (Putting b bs r) = {#b#} + mset bs + (case r of None \<Rightarrow> {#} | Some b \<Rightarrow> {#b#})"
| "pending_blocks _ = {#}"

definition all_blocks :: "'b async_group \<Rightarrow> 'b multiset" where
  "all_blocks g = mset (ag_executed g) + mset (ag_refused g) + queued_blocks (ag_queue g) + busy_blocks (ag_threads g) + pending_blocks (ag_phase g)"

lemma busy_simps [simp]: "busy_blocks [] = {#}" "busy_blocks (p # ps) = (case p of Busy b \<Rightarrow> {#b#} | _ \<Rightarrow> {#}) + busy_blocks ps"
  "busy_blocks (ps @ qs) = busy_blocks ps + busy_blocks qs"
  by (simp_all add: busy_blocks_def)

lemma queued_simps [simp]: "queued_blocks [] = {#}" "queued_blocks (x # q) = (case x of Some b \<Rightarrow> {#b#} | None \<Rightarrow> {#}) + queued_blocks q"
  "queued_blocks (q @ r) = queued_blocks q + queued_blocks r"
  by (simp_all add: queued_blocks_def)

lemma busy_update: "i < length ps \<Longrightarrow> busy_blocks (ps[i := p]) + (case ps ! i of Busy b \<Rightarrow> {#b#} | _ \<Rightarrow> {#}) =
    busy_blocks ps + (case p of Busy b \<Rightarrow> {#b#} | _ \<Rightarrow> {#})"
  by (induction ps arbitrary: i) (auto simp: less_Suc_eq_0_disj ac_simps)

lemma producer_step_blocks: "producer_step m q bad g = Some h \<Longrightarrow> all_blocks h = all_blocks g"
  by (auto simp: ag_defs all_blocks_def split: producer.splits list.splits option.splits nat.splits if_splits)

lemma thread_step_blocks: "i < length (ag_threads g) \<Longrightarrow> thread_step bad i g = Some h \<Longrightarrow> all_blocks h = all_blocks g"
  using busy_update [of i "ag_threads g"]
  by (fastforce simp: ag_defs all_blocks_def split: thread_phase.splits list.splits option.splits if_splits)

text \<open>The marks of the end still to be put, once the adding thread is at them.\<close>

fun marks_left :: "'b producer \<Rightarrow> nat option" where
  "marks_left (Closing n) = Some n"
| "marks_left Joining = Some 0"
| "marks_left Joined = Some 0"
| "marks_left _ = None"

definition queue_form :: "'b async_group \<Rightarrow> 'b list \<Rightarrow> nat \<Rightarrow> bool" where
  "queue_form g bs k \<longleftrightarrow> ag_queue g = map Some bs @ replicate k None \<and> (Ended \<in> set (ag_threads g) \<longrightarrow> bs = []) \<and>
     (case marks_left (ag_phase g) of None \<Rightarrow> k = 0 \<and> Ended \<notin> set (ag_threads g)
      | Some n \<Rightarrow> n + k + count (mset (ag_threads g)) Ended = length (ag_threads g))"

definition ag_inv :: "nat \<Rightarrow> 'b async_group \<Rightarrow> bool" where
  "ag_inv m g \<longleftrightarrow> (\<exists>bs k. queue_form g bs k) \<and> length (ag_threads g) \<le> m \<and>
     (ag_threads g = [] \<longrightarrow> ag_queue g = [] \<and> (\<forall>b bs r. ag_phase g \<noteq> Putting b bs r)) \<and>
     (Died \<in> set (ag_threads g) \<longrightarrow> ag_refused g \<noteq> []) \<and> (ag_phase g = Joined \<longrightarrow> list_all thread_ended (ag_threads g))"

lemma count_set: "i < length ps \<Longrightarrow> ps ! i \<noteq> x \<Longrightarrow> count (mset (ps[i := p])) x = count (mset ps) x + (if p = x then 1 else 0)"
  by (simp add: mset_update)

lemma set_update_other: "i < length ps \<Longrightarrow> x \<in> set (ps[i := p]) \<Longrightarrow> x = p \<or> x \<in> set ps"
  using set_update_subset_insert [of ps i p] by blast

lemma new_group_inv: "ag_inv m (new_group bs r)"
  by (auto simp: ag_inv_def queue_form_def new_group_def)

lemma producer_step_inv:
  assumes "ag_inv m g" "0 < m" "producer_step m q bad g = Some h"
  shows "ag_inv m h"
proof -
  obtain bs k where f: "queue_form g bs k" using assms(1) by (auto simp: ag_inv_def)
  have "queue_form h bs k \<or> (\<exists>b. queue_form h (bs @ [b]) k) \<or> queue_form h bs (Suc k)"
    using assms(3) f
    by (auto simp: ag_defs queue_form_def replicate_append_same split: producer.splits list.splits option.splits nat.splits if_splits)
  moreover have "length (ag_threads h) \<le> m \<and> (ag_threads h = [] \<longrightarrow> ag_queue h = [] \<and> (\<forall>b bs r. ag_phase h \<noteq> Putting b bs r)) \<and>
     (Died \<in> set (ag_threads h) \<longrightarrow> ag_refused h \<noteq> []) \<and> (ag_phase h = Joined \<longrightarrow> list_all thread_ended (ag_threads h))"
    using assms f by (auto simp: ag_defs ag_inv_def queue_form_def split: producer.splits list.splits option.splits nat.splits if_splits)
  ultimately show ?thesis unfolding ag_inv_def by blast
qed

lemma thread_step_inv:
  assumes "ag_inv m g" "i < length (ag_threads g)" "thread_step bad i g = Some h"
  shows "ag_inv m h"
proof -
  obtain bs k where f: "queue_form g bs k" using assms(1) by (auto simp: ag_inv_def)
  have phase: "ag_phase h = ag_phase g" using assms(3) by (auto simp: ag_defs split: thread_phase.splits list.splits option.splits if_splits)
  have "\<exists>bs k. queue_form h bs k"
  proof (cases "ag_threads g ! i")
    case Waiting
    show ?thesis
    proof (cases bs)
      case Nil
      with f Waiting assms(3) obtain k' where "k = Suc k'" by (cases k) (auto simp: thread_step_def queue_form_def)
      then have "queue_form h [] k'" using f Nil Waiting assms(2,3)
        by (auto simp: ag_defs queue_form_def count_set split: option.splits)
      then show ?thesis by blast
    next
      case (Cons b bs')
      then have "queue_form h bs' k" using f Waiting assms(2,3)
        by (auto simp: ag_defs queue_form_def count_set split: option.splits dest: set_update_other)
      then show ?thesis by blast
    qed
  next
    case (Busy b)
    then have "queue_form h bs k" using f assms(2,3)
      by (auto simp: ag_defs queue_form_def count_set split: option.splits if_splits dest: set_update_other)
    then show ?thesis by blast
  qed (use assms(3) in \<open>auto simp: thread_step_def\<close>)
  moreover have "length (ag_threads h) = length (ag_threads g)" "ag_threads g = [] \<longrightarrow> ag_queue h = []"
    using assms(2,3) by (auto simp: ag_defs split: thread_phase.splits list.splits option.splits if_splits)
  moreover have "Died \<in> set (ag_threads h) \<longrightarrow> ag_refused h \<noteq> []"
  proof
    assume "Died \<in> set (ag_threads h)"
    moreover have "\<exists>p. ag_threads h = (ag_threads g)[i := p] \<and> (p = Died \<longrightarrow> ag_refused h \<noteq> [])" "ag_refused g \<noteq> [] \<longrightarrow> ag_refused h \<noteq> []"
      using assms(3) by (auto simp: ag_defs split: thread_phase.splits list.splits option.splits if_splits)
    ultimately have "Died \<in> set (ag_threads g) \<or> ag_refused h \<noteq> []" using set_update_other [OF assms(2)] by metis
    then show "ag_refused h \<noteq> []" using assms(1) \<open>ag_refused g \<noteq> [] \<longrightarrow> _\<close> by (auto simp: ag_inv_def)
  qed
  moreover have "ag_phase g \<noteq> Joined"
  proof
    assume "ag_phase g = Joined"
    then have "thread_ended (ag_threads g ! i)" using assms(1,2) by (auto simp: ag_inv_def list_all_length)
    then show False using assms(3) by (auto simp: thread_ended_def thread_step_def)
  qed
  ultimately show ?thesis using assms(1,2) unfolding ag_inv_def phase by auto
qed

lemma ag_step_keeps: "ag_step m q bad g h \<Longrightarrow> 0 < m \<Longrightarrow> ag_inv m g \<Longrightarrow> ag_inv m h \<and> all_blocks h = all_blocks g"
  by (induction rule: ag_step.induct) (blast intro: producer_step_inv thread_step_inv producer_step_blocks thread_step_blocks)+

lemma ag_run_keeps: "(ag_step m q bad)\<^sup>*\<^sup>* g h \<Longrightarrow> 0 < m \<Longrightarrow> ag_inv m g \<Longrightarrow> ag_inv m h \<and> all_blocks h = all_blocks g"
  by (induction rule: rtranclp_induct) (auto dest: ag_step_keeps)

lemma no_queued: "queued_blocks (replicate k None) = {#}"
  by (induction k) auto

lemma no_busy: "list_all thread_ended ps \<Longrightarrow> busy_blocks ps = {#}"
  by (induction ps) (auto simp: thread_ended_def)

lemma joined_blocks:
  assumes "ag_inv m g" "ag_phase g = Joined" "ag_refused g = []"
  shows "all_blocks g = mset (ag_executed g)"
proof -
  obtain bs k where f: "queue_form g bs k" using assms(1) by (auto simp: ag_inv_def)
  have e: "list_all thread_ended (ag_threads g)" "Died \<notin> set (ag_threads g)" using assms by (auto simp: ag_inv_def)
  then have a: "\<forall>p \<in> set (ag_threads g). p = Ended" by (auto simp: list_all_iff thread_ended_def)
  have "bs = []"
  proof (cases "ag_threads g")
    case Nil
    then show ?thesis using assms(1) f by (auto simp: ag_inv_def queue_form_def)
  next
    case (Cons p ps)
    then show ?thesis using a f by (auto simp: queue_form_def)
  qed
  then show ?thesis using f assms(2,3) no_busy [OF e(1)] by (simp add: all_blocks_def queue_form_def no_queued)
qed

section \<open>Every run ends\<close>

fun phase_work :: "nat \<Rightarrow> 'b producer \<Rightarrow> nat" where
  "phase_work w (Submitting bs r) = 6 * length bs + 2 * w + 3"
| "phase_work w (Putting b bs r) = 6 * length bs + 2 * w + 6"
| "phase_work w (Closing n) = 2 * n + 2"
| "phase_work w Joining = 1"
| "phase_work w _ = 0"

definition thread_work :: "'b thread_phase list \<Rightarrow> nat" where
  "thread_work ps = (\<Sum>p\<leftarrow>ps. case p of Busy b \<Rightarrow> 1 | _ \<Rightarrow> 0)"

definition queue_work :: "'b option list \<Rightarrow> nat" where
  "queue_work q = (\<Sum>x\<leftarrow>q. case x of Some b \<Rightarrow> 2 | None \<Rightarrow> 1)"

definition group_work :: "'b async_group \<Rightarrow> nat" where
  "group_work g = phase_work (length (ag_threads g)) (ag_phase g) + queue_work (ag_queue g) + thread_work (ag_threads g)"

lemma thread_work_update: "i < length ps \<Longrightarrow> thread_work (ps[i := p]) + (case ps ! i of Busy b \<Rightarrow> 1 | _ \<Rightarrow> 0) =
    thread_work ps + (case p of Busy b \<Rightarrow> 1 | _ \<Rightarrow> 0)"
  by (induction ps arbitrary: i) (auto simp: thread_work_def less_Suc_eq_0_disj)

lemma producer_step_work: "producer_step m q bad g = Some h \<Longrightarrow> group_work h < group_work g"
  by (auto simp: ag_defs group_work_def queue_work_def thread_work_def split: producer.splits list.splits option.splits nat.splits if_splits)

lemma thread_step_work:
  assumes "i < length (ag_threads g)" "thread_step bad i g = Some h"
  shows "group_work h < group_work g"
proof -
  note u = thread_work_update [OF assms(1)]
  show ?thesis
  proof (cases "ag_threads g ! i")
    case Waiting
    then obtain x r where "ag_queue g = x # r" using assms(2) by (cases "ag_queue g") (auto simp: thread_step_def)
    then show ?thesis using Waiting assms(2) u [of Ended] u [of "Busy (the x)"]
      by (cases x) (auto simp: ag_defs group_work_def queue_work_def)
  next
    case (Busy b)
    then show ?thesis using assms(2) u [of Died] u [of Waiting] by (auto simp: ag_defs group_work_def split: if_splits)
  qed (use assms(2) in \<open>auto simp: thread_step_def\<close>)
qed

lemma ag_step_work: "ag_step m q bad g h \<Longrightarrow> group_work h < group_work g"
  by (induction rule: ag_step.induct) (simp_all add: producer_step_work thread_step_work)

text \<open>As long as the group is not joined somebody can make a step, unless a worker died or the join raised.\<close>

lemma worker_moves:
  assumes "i < length (ag_threads g)" "ag_threads g ! i = Waiting \<and> ag_queue g \<noteq> [] \<or> (\<exists>b. ag_threads g ! i = Busy b)"
  shows "\<exists>h. ag_step m q bad g h"
proof -
  have "\<exists>h. thread_step bad i g = Some h" using assms(2) by (auto simp: thread_step_def neq_Nil_conv split: option.splits)
  then show ?thesis using ag_step.worker [OF assms(1)] by blast
qed

lemma all_ended_count: "(\<forall>p \<in> set ps. p = Ended) \<longleftrightarrow> count (mset ps) Ended = length ps"
proof (induction ps)
  case (Cons p ps)
  have "count (mset ps) Ended \<le> length ps" by (metis count_le_size size_mset)
  then show ?case using Cons by auto
qed simp

lemma group_moves:
  assumes "ag_inv m g" "0 < q" "ag_refused g = []" "ag_phase g \<noteq> Joined" "ag_phase g \<noteq> Raised"
  shows "\<exists>h. ag_step m q bad g h"
proof (rule ccontr)
  assume stuck: "\<nexists>h. ag_step m q bad g h"
  have p: "producer_step m q bad g = None" using stuck ag_step.producer by (metis option.exhaust)
  obtain bs k where f: "queue_form g bs k" using assms(1) by (auto simp: ag_inv_def)
  have w: "ag_threads g ! i = Ended \<or> ag_threads g ! i = Waiting \<and> ag_queue g = []" if "i < length (ag_threads g)" for i
    using worker_moves [OF that] stuck assms(1,3) that by (cases "ag_threads g ! i") (auto simp: ag_inv_def dest: nth_mem)
  have full: "ag_queue g \<noteq> []" "ag_threads g \<noteq> []" if "\<not> length (ag_queue g) < q"
    using that assms(1,2) by (auto simp: ag_inv_def)
  consider (put) b cs r where "ag_phase g = Putting b cs r" "\<not> length (ag_queue g) < q"
    | (mark) n where "ag_phase g = Closing (Suc n)" "\<not> length (ag_queue g) < q"
    | (join) "ag_phase g = Joining" "\<not> list_all thread_ended (ag_threads g)"
    using p assms(4,5) by (auto simp: producer_step_def split: producer.splits list.splits option.splits nat.splits if_splits)
  then show False
  proof cases
    case put
    then have "ag_threads g ! 0 = Ended" "0 < length (ag_threads g)" using w [of 0] full by auto
    then have "Ended \<in> set (ag_threads g)" by (metis nth_mem)
    then show ?thesis using f put by (simp add: queue_form_def)
  next
    case mark
    then have "\<forall>p \<in> set (ag_threads g). p = Ended" using w full by (auto simp: in_set_conv_nth)
    then have "count (mset (ag_threads g)) Ended = length (ag_threads g)" by (simp only: all_ended_count)
    then show ?thesis using f mark by (simp add: queue_form_def)
  next
    case join
    then obtain i where i: "i < length (ag_threads g)" "\<not> thread_ended (ag_threads g ! i)" by (auto simp: list_all_length)
    then have q: "ag_queue g = []" "ag_threads g ! i = Waiting" using w [OF i(1)] by (auto simp: thread_ended_def)
    then have "count (mset (ag_threads g)) Ended = length (ag_threads g)" using f join(1) by (simp add: queue_form_def)
    then have "\<forall>p \<in> set (ag_threads g). p = Ended" by (simp only: all_ended_count)
    then show ?thesis using i(1) q(2) by (metis nth_mem thread_phase.distinct(3))
  qed
qed

lemma no_refusal: "ag_step m q bad h h' \<Longrightarrow> (\<forall>b \<in># all_blocks h. \<not> bad b) \<Longrightarrow> ag_refused h = [] \<Longrightarrow> ag_phase h \<noteq> Raised \<Longrightarrow>
    ag_refused h' = [] \<and> ag_phase h' \<noteq> Raised"
proof (induction rule: ag_step.induct)
  case (producer g h)
  then show ?case
    by (auto simp: ag_defs all_blocks_def split: producer.splits list.splits option.splits nat.splits if_splits)
next
  case (worker i g h)
  have "\<not> bad b" if "ag_threads g ! i = Busy b" for b
  proof -
    have "b \<in># busy_blocks (ag_threads g)" using that worker(1) nth_mem [OF worker(1)]
      by (auto simp: busy_blocks_def intro!: bexI [of _ "Busy b"])
    then show ?thesis using worker(3) by (auto simp: all_blocks_def)
  qed
  then show ?case using worker by (auto simp: ag_defs split: thread_phase.splits list.splits option.splits if_splits)
qed

lemma run_no_refusal: "(ag_step m q bad)\<^sup>*\<^sup>* g h \<Longrightarrow> 0 < m \<Longrightarrow> ag_inv m g \<Longrightarrow> (\<forall>b \<in># all_blocks g. \<not> bad b) \<Longrightarrow> ag_refused g = [] \<Longrightarrow> ag_phase g \<noteq> Raised \<Longrightarrow>
    ag_refused h = [] \<and> ag_phase h \<noteq> Raised"
proof (induction rule: rtranclp_induct)
  case (step h h')
  have "all_blocks h = all_blocks g" using ag_run_keeps [OF step(1,4,5)] by blast
  with no_refusal [OF step(2)] step show ?case by simp
qed simp

text \<open>
  C19 (liveness). Whatever the order in which the adding thread and the workers run, however small the queue and however few the
  threads are: when no \<open>on_submit\<close> raises, a run of the group has a bounded number of steps, it is only stuck when the join has
  returned, and then every block was executed exactly once.
\<close>
theorem group_executes_all:
  assumes "0 < m" "0 < q" "\<forall>b \<in> set bs \<union> set_option r. \<not> bad b" "(ag_step m q bad ^^ n) (new_group bs r) g"
  shows "n \<le> 6 * length bs + 3 \<and> length (ag_threads g) \<le> m \<and>
    ((\<nexists>h. ag_step m q bad g h) \<longleftrightarrow> ag_phase g = Joined) \<and>
    (ag_phase g = Joined \<longrightarrow> mset (ag_executed g) = mset bs + mset (case r of None \<Rightarrow> [] | Some b \<Rightarrow> [b]))"
proof -
  have run: "(ag_step m q bad)\<^sup>*\<^sup>* (new_group bs r) g" using assms(4) by (rule relpowp_imp_rtranclp)
  have k: "ag_inv m g" "all_blocks g = all_blocks (new_group bs r)" using ag_run_keeps [OF run assms(1) new_group_inv] by auto
  have all: "all_blocks (new_group bs r) = mset bs + mset (case r of None \<Rightarrow> [] | Some b \<Rightarrow> [b])"
    by (simp add: all_blocks_def new_group_def split: option.splits)
  have "ag_refused g = [] \<and> ag_phase g \<noteq> Raised"
    by (rule run_no_refusal [OF run assms(1) new_group_inv]) (use assms(3) all in \<open>auto simp: new_group_def split: option.splits\<close>)
  then have ok: "ag_refused g = []" "ag_phase g \<noteq> Raised" by auto
  have "(ag_step m q bad ^^ n) g' h \<Longrightarrow> n + group_work h \<le> group_work g'" for g' h
    by (induction n arbitrary: h) (auto dest!: ag_step_work, fastforce dest: ag_step_work)
  from this [OF assms(4)] have "n \<le> 6 * length bs + 3" by (simp add: group_work_def new_group_def queue_work_def thread_work_def)
  moreover have "ag_phase g \<noteq> Joined" if "ag_step m q bad g h" for h
    using that k(1) by (induction rule: ag_step.induct)
      (auto simp: producer_step_def thread_step_def ag_inv_def list_all_length thread_ended_def split: thread_phase.splits)
  moreover have "\<exists>h. ag_step m q bad g h" if "ag_phase g \<noteq> Joined" using group_moves [OF k(1) assms(2) ok(1) that ok(2)] by blast
  moreover have "mset (ag_executed g) = mset bs + mset (case r of None \<Rightarrow> [] | Some b \<Rightarrow> [b])" if "ag_phase g = Joined"
    using joined_blocks [OF k(1) that ok(1)] k(2) all by simp
  moreover have "length (ag_threads g) \<le> m" using k(1) by (simp add: ag_inv_def)
  ultimately show ?thesis by blast
qed

text \<open>A run given by who moves: the adding thread, or a worker.\<close>

fun ag_exec :: "nat \<Rightarrow> nat \<Rightarrow> ('b \<Rightarrow> bool) \<Rightarrow> nat option list \<Rightarrow> 'b async_group \<Rightarrow> 'b async_group option" where
  "ag_exec m q bad [] g = Some g"
| "ag_exec m q bad (None # ws) g = (case producer_step m q bad g of None \<Rightarrow> None | Some h \<Rightarrow> ag_exec m q bad ws h)"
| "ag_exec m q bad (Some i # ws) g = (if i < length (ag_threads g) then (case thread_step bad i g of None \<Rightarrow> None | Some h \<Rightarrow> ag_exec m q bad ws h) else None)"

lemma ag_exec_steps: "ag_exec m q bad ws g = Some h \<Longrightarrow> (ag_step m q bad ^^ length ws) g h"
proof (induction m q bad ws g rule: ag_exec.induct)
  case (2 m q bad ws g)
  then obtain g' where "producer_step m q bad g = Some g'" "(ag_step m q bad ^^ length ws) g' h" by (auto split: option.splits)
  then show ?case by (metis ag_step.producer length_Cons relpowp_Suc_I2)
next
  case (3 m q bad i ws g)
  then obtain g' where "i < length (ag_threads g)" "thread_step bad i g = Some g'" "(ag_step m q bad ^^ length ws) g' h"
    by (auto split: option.splits if_splits)
  then show ?case by (metis ag_step.worker length_Cons relpowp_Suc_I2)
qed simp

lemma ag_exec_steps_n: "ag_exec m q bad ws g = Some h \<Longrightarrow> length ws = n \<Longrightarrow> (ag_step m q bad ^^ n) g h"
  using ag_exec_steps by blast

definition two_moves :: "nat option list" where
  "two_moves = [None, None, None, Some 0, None, Some 0, Some 0, Some 0, None, None, Some 0, None, Some 1, None, None]"

definition two_blocks :: "nat async_group" where
  "two_blocks = the (ag_exec 2 1 (\<lambda>b. False) two_moves (new_group [5, 6] (Some 7)))"

lemma two_blocks_run: "(ag_step 2 1 (\<lambda>b. False) ^^ 15) (new_group [5, 6] (Some 7)) two_blocks"
proof (rule ag_exec_steps_n)
  show "ag_exec 2 1 (\<lambda>b. False) two_moves (new_group [5, 6] (Some 7)) = Some two_blocks" by code_simp
qed (simp add: two_moves_def)

lemma group_executes_all_witness:
  "ag_phase two_blocks = Joined \<and> mset (ag_executed two_blocks) = {#5, 6, 7#} \<and> \<not> (\<exists>h. ag_step 2 1 (\<lambda>b. False) two_blocks h)"
proof -
  have p: "ag_phase two_blocks = Joined" by code_simp
  from group_executes_all [OF _ _ _ two_blocks_run] p show ?thesis by simp
qed

text \<open>
  With one thread, a block whose \<open>on_submit\<close> raises ends the worker: the block behind it is never executed, and the join
  returns as if nothing had happened.
\<close>

lemma refused_block_stops_others:
  "\<exists>g. (ag_step 1 512 (\<lambda>b. b = 0) ^^ 10) (new_group [0 :: nat, 1] None) g \<and> ag_phase g = Joined \<and> ag_executed g = [] \<and> ag_queue g = [Some 1, None]"
proof -
  let ?ws = "[None, None, Some 0, None, None, Some 0, None, None, None, None]"
  let ?g = "the (ag_exec 1 512 (\<lambda>b. b = 0) ?ws (new_group [0 :: nat, 1] None))"
  have "ag_exec 1 512 (\<lambda>b. b = 0) ?ws (new_group [0 :: nat, 1] None) = Some ?g"
    by (simp add: ag_defs new_group_def thread_ended_def)
  from ag_exec_steps_n [OF this, of 10] show ?thesis
    by (intro exI [of _ ?g]) (simp add: ag_defs new_group_def thread_ended_def)
qed

end
