(* ===== verification/Logging.thy ===== *)
theory Logging
  imports Session_Manager
begin

text \<open>
  Logging and what keeps it from raising (\<open>utils/loghelper.py\<close>, \<open>json_logger.py\<close>, \<open>exception_utils.py\<close>, \<open>perf_timer.py\<close>,
  \<open>notification/aws/aws_notifier.py\<close>). The state is what a logger writes to: the data of its thread, the lines of the handler, the
  standard error and the messages published. The logging module of Python is taken as it is used, with a message and no
  arguments.
\<close>

section \<open>Lines\<close>

record log_state =
  lg_data :: "row option"
  lg_lines :: "string list"
  lg_stderr :: "string list"
  lg_published :: "(string \<times> string \<times> string) list"

type_synonym 'a log_prog = "(log_state, 'a) prog"

text \<open>
  What is the same for all loggers: \<open>le_text\<close> is the text of an exception, \<open>le_trace\<close> the text with the trace, \<open>le_time\<close> the time of the
  record in milliseconds, and the hooks are those of tests.
\<close>

record log_env =
  lv_text :: "exn \<Rightarrow> string"
  lv_trace :: "exn \<Rightarrow> string"
  lv_time :: int
  lv_thread :: string
  lv_function :: "string option"
  lv_json_hook :: "(string \<Rightarrow> unit log_prog) option"
  lv_info_hook :: "(string \<Rightarrow> unit log_prog) option"
  lv_notifier :: "(string \<Rightarrow> string \<Rightarrow> unit log_prog) log_prog"

datatype log_level = DEBUG | INFO | WARNING | ERROR

fun level_name :: "log_level \<Rightarrow> string" where
  "level_name DEBUG = ''DEBUG''" | "level_name INFO = ''INFO''" | "level_name WARNING = ''WARNING''" | "level_name ERROR = ''ERROR''"

definition print_stderr :: "string \<Rightarrow> unit log_prog" where
  "print_stderr s = modify (\<lambda>g. g\<lparr>lg_stderr := lg_stderr g @ [s]\<rparr>)"

text \<open>The record of a line, with the data of the thread over it.\<close>

definition format_record :: "log_env \<Rightarrow> string \<Rightarrow> log_level \<Rightarrow> string \<Rightarrow> row option \<Rightarrow> exn + string" where
  "format_record E name level msg data = json_dumps (PyDict (
     let r = [(''name'', PyStr name), (''threadName'', PyStr (lv_thread E)), (''message'', PyStr msg), (''level'', PyStr (level_name level)),
       (''timestamp'', PyInt (lv_time E))]
     in case data of None \<Rightarrow> r | Some d \<Rightarrow> dupdate r d))"

definition is_exit :: "exn \<Rightarrow> bool" where
  "is_exit e = (case e of SystemExit _ \<Rightarrow> True | _ \<Rightarrow> False)"

text \<open>The handler writes what is at least \<open>INFO\<close>; an \<open>Exception\<close> in it is printed, not raised. \<open>SystemExit\<close> is not one of them.\<close>

definition emit_line :: "log_env \<Rightarrow> string \<Rightarrow> log_level \<Rightarrow> string \<Rightarrow> unit log_prog" where
  "emit_line E name level msg = (if level = DEBUG then ret ()
     else catch
       (bnd (gets lg_data) (\<lambda>data.
        bnd (lift_res (format_record E name level msg data)) (\<lambda>output.
        bnd (case lv_json_hook E of None \<Rightarrow> ret () | Some h \<Rightarrow> h output) (\<lambda>_.
        modify (\<lambda>g. g\<lparr>lg_lines := lg_lines g @ [output]\<rparr>)))))
       (\<lambda>e. if e = OutOfFuel \<or> is_exit e then None else Some (print_stderr (lv_trace E e))))"

section \<open>Functions that never raise\<close>

definition execute_no_raise :: "log_env \<Rightarrow> 'a log_prog \<Rightarrow> 'a option log_prog" where
  "execute_no_raise E caller = catch (bnd caller (\<lambda>v. ret (Some v)))
     (\<lambda>e. if e = OutOfFuel then None else Some (bnd (print_stderr (lv_trace E e)) (\<lambda>_. ret None)))"

definition dump_ex :: "log_env \<Rightarrow> exn \<Rightarrow> string" where
  "dump_ex E e = ''<<< Exception: '' @ get_exception_message (lv_text E) e @ '' >>>'' @ [CHR 0x0A, CHR 0x0A] @ lv_trace E e"

definition never_raise :: "log_env \<Rightarrow> (string \<Rightarrow> string \<Rightarrow> unit log_prog) option \<Rightarrow> 'a log_prog \<Rightarrow> 'a option log_prog" where
  "never_raise E notifier f = catch (bnd f (\<lambda>v. ret (Some v)))
     (\<lambda>e. if e = OutOfFuel then None else Some (
       bnd (print_stderr (dump_ex E e)) (\<lambda>_.
       bnd (case notifier of None \<Rightarrow> ret None | Some n \<Rightarrow> execute_no_raise E (n ''Unexpected Exception'' (dump_ex E e))) (\<lambda>_.
       ret None))))"

section \<open>Notifications of errors\<close>

text \<open>\<open>publish\<close> is the client of SNS; the logger of the notifier writes the failure.\<close>

definition aws_notify :: "log_env \<Rightarrow> (string \<Rightarrow> string \<Rightarrow> string \<Rightarrow> unit log_prog) \<Rightarrow> string \<Rightarrow> string \<Rightarrow> string \<Rightarrow> unit log_prog" where
  "aws_notify E publish topic_arn subject msg = catch (publish topic_arn subject msg)
     (\<lambda>e. if e = OutOfFuel then None else Some (emit_line E ''notification.aws.aws_notifier'' ERROR
       (''Failed to send message '' @ [CHR 0x27] @ msg @ [CHR 0x27] @ '' to topic '' @ topic_arn @ '': '' @ dump_ex E e)))"

text \<open>The notifier is a bean: obtaining it may raise, and is not in the \<open>try\<close>.\<close>

definition error_notify :: "log_env \<Rightarrow> string \<Rightarrow> string \<Rightarrow> unit log_prog" where
  "error_notify E subject msg = bnd (lv_notifier E) (\<lambda>notify.
     catch (notify subject msg) (\<lambda>e. if e = OutOfFuel then None else Some (print_stderr (lv_trace E e))))"

section \<open>The logger\<close>

definition log_plain :: "log_env \<Rightarrow> string \<Rightarrow> log_level \<Rightarrow> string \<Rightarrow> unit option log_prog" where
  "log_plain E name level msg = never_raise E (Some (error_notify E)) (emit_line E name level msg)"

definition log_info :: "log_env \<Rightarrow> string \<Rightarrow> string \<Rightarrow> unit option log_prog" where
  "log_info E name msg = never_raise E (Some (error_notify E))
     (bnd (case lv_info_hook E of None \<Rightarrow> ret () | Some h \<Rightarrow> h msg) (\<lambda>_. emit_line E name INFO msg))"

text \<open>\<open>warning\<close> called with a keyword it does not have, as \<open>file=sys.stderr\<close>.\<close>

definition log_warning_keyword :: "log_env \<Rightarrow> unit option log_prog" where
  "log_warning_keyword E = never_raise E (Some (error_notify E)) (raise TypeError)"

definition log_severe :: "log_env \<Rightarrow> string \<Rightarrow> string \<Rightarrow> exn option \<Rightarrow> string option log_prog" where
  "log_severe E name msg ex = never_raise E (Some (error_notify E))
     (let output = (case ex of None \<Rightarrow> msg | Some e \<Rightarrow> msg @ [CHR 0x0A] @ dump_ex E e);
          subject = ''ShimService Error'' @ (case lv_function E of None \<Rightarrow> [] | Some lf \<Rightarrow> '' from Lambda Function '' @ lf)
      in bnd (log_plain E name ERROR output) (\<lambda>_.
         bnd (error_notify E subject output) (\<lambda>_.
         ret (case ex of None \<Rightarrow> msg | Some e \<Rightarrow> get_exception_message (lv_text E) e))))"

section \<open>The data of a thread\<close>

definition set_logging_info :: "row \<Rightarrow> unit log_prog" where
  "set_logging_info data = modify (\<lambda>g. g\<lparr>lg_data := Some data\<rparr>)"

definition update_logging_info :: "row \<Rightarrow> unit log_prog" where
  "update_logging_info data = modify (\<lambda>g. g\<lparr>lg_data := Some (case lg_data g of None \<Rightarrow> data | Some d \<Rightarrow> dupdate d data)\<rparr>)"

definition clear_logging_info :: "unit log_prog" where
  "clear_logging_info = modify (\<lambda>g. g\<lparr>lg_data := None\<rparr>)"

definition execute_with_logging_info :: "row \<Rightarrow> 'a log_prog \<Rightarrow> 'a log_prog" where
  "execute_with_logging_info data caller = bnd (set_logging_info data) (\<lambda>_. finally_do caller clear_logging_info)"

definition to_logging_data :: "session_key \<Rightarrow> row" where
  "to_logging_data k = [(''session'', PyStr (int_str (k_tenant_id k) @ ''#'' @ k_session_id k))]"

definition execute_with_logging :: "session_key \<Rightarrow> 'a log_prog \<Rightarrow> 'a log_prog" where
  "execute_with_logging k caller = execute_with_logging_info (to_logging_data k) caller"

definition set_logging_session :: "session \<Rightarrow> unit log_prog" where
  "set_logging_session s = update_logging_info [(''tenantId'', PyInt (s_tenant_id s)), (''sessionId'', PyStr (s_session_id s)), (''userId'', PyStr (s_user_id s))]"

section \<open>Names and times\<close>

text \<open>The name of a logger: for a module under \<open>src\<close> its path there; \<open>path\<close> is the absolute path of its file.\<close>

definition logger_name :: "string \<Rightarrow> string \<Rightarrow> string" where
  "logger_name name path = (let i = find_str ''/src/'' path in
     if i > 0 then (let s = drop (nat i + 5) path; js = filter (\<lambda>j. prefix ''.py'' (drop j s)) [0..<length s] in
       if js \<noteq> [] \<and> last js > 0 then map (\<lambda>c. if c = CHR ''/'' then CHR ''.'' else c) (take (last js) s) else name)
     else name)"

text \<open>\<open>clock\<close> reads the time in nanoseconds.\<close>

definition timed_execute :: "('s, int) prog \<Rightarrow> ('s, 'a) prog \<Rightarrow> ('s, 'a \<times> int) prog" where
  "timed_execute clock caller = bnd clock (\<lambda>start. bnd caller (\<lambda>result. bnd clock (\<lambda>stop. ret (result, stop - start))))"

definition to_millis :: "int \<Rightarrow> int" where
  "to_millis elapsed = elapsed div 1000000"

definition execute_and_log :: "log_env \<Rightarrow> string \<Rightarrow> (int \<Rightarrow> string) \<Rightarrow> int log_prog \<Rightarrow> string \<Rightarrow> 'a log_prog \<Rightarrow> 'a log_prog" where
  "execute_and_log E name millis_string clock action caller =
     bnd (log_info E name (''Executing '' @ action @ '' ...'')) (\<lambda>_.
     bnd (timed_execute clock caller) (\<lambda>(result, elapsed).
     bnd (log_info E name (action @ '': time='' @ millis_string elapsed)) (\<lambda>_. ret result)))"

text \<open>\<open>get_or_create\<close> of \<open>utils/dict_utils.py\<close>: a value of \<open>None\<close> is made again.\<close>

definition get_or_create :: "'k \<Rightarrow> ('s, pyval) prog \<Rightarrow> (('k, pyval) dict \<times> 's, pyval) prog" where
  "get_or_create k loader = (\<lambda>(d, s). case none_if_null (dget k d) of
     Some v \<Rightarrow> (Inr v, (d, s))
   | None \<Rightarrow> (case loader s of (Inl e, s') \<Rightarrow> (Inl e, (d, s')) | (Inr v, s') \<Rightarrow> (Inr v, (dset k v d, s'))))"

section \<open>What a logger guarantees\<close>

definition calm :: "'a log_prog \<Rightarrow> bool" where
  "calm p \<longleftrightarrow> (\<forall>g. (\<exists>v. fst (p g) = Inr v) \<or> fst (p g) = Inl OutOfFuel)"

lemma calmI: "(\<And>g. (\<exists>v. fst (p g) = Inr v) \<or> fst (p g) = Inl OutOfFuel) \<Longrightarrow> calm p"
  by (simp add: calm_def)

lemma calmD: "calm p \<Longrightarrow> (\<exists>v. fst (p g) = Inr v) \<or> fst (p g) = Inl OutOfFuel"
  by (simp add: calm_def)

lemma calm_catch: assumes "h OutOfFuel = None" "\<And>e. e \<noteq> OutOfFuel \<Longrightarrow> \<exists>p. h e = Some p \<and> calm p" shows "calm (catch m h)"
proof (rule calmI)
  fix g
  obtain r g' where m: "m g = (r, g')" by fastforce
  show "(\<exists>v. fst (catch m h g) = Inr v) \<or> fst (catch m h g) = Inl OutOfFuel"
  proof (cases r)
    case (Inr v)
    then show ?thesis by (simp add: catch_def m)
  next
    case (Inl e)
    show ?thesis
    proof (cases "e = OutOfFuel")
      case False
      then obtain p where p: "h e = Some p" "calm p" using assms(2) by blast
      show ?thesis using calmD [OF p(2)] by (simp add: catch_def m Inl p(1))
    next
      case True
      then show ?thesis by (simp add: catch_def m Inl assms(1))
    qed
  qed
qed

lemma calm_bnd: assumes "calm p" "\<And>v. calm (f v)" shows "calm (bnd p f)"
proof (rule calmI)
  fix g
  obtain r g' where m: "p g = (r, g')" by fastforce
  show "(\<exists>v. fst (bnd p f g) = Inr v) \<or> fst (bnd p f g) = Inl OutOfFuel"
    proof (cases r)
    case (Inl e)
    then show ?thesis using calmD [OF assms(1), of g] by (simp add: bnd_def m)
  next
    case (Inr v)
    then show ?thesis using calmD [OF assms(2) [of v], of g'] by (simp add: bnd_def m)
  qed
qed

lemma calm_basic: "calm (ret v)" "calm (print_stderr s)" "calm (Pair (Inr v))"
  by (simp_all add: calm_def print_stderr_def)

lemma calm_execute: "calm (execute_no_raise E p)"
  unfolding execute_no_raise_def by (rule calm_catch) (auto intro!: calm_bnd calm_basic)

lemma calm_never: "calm (never_raise E n p)"
  unfolding never_raise_def by (rule calm_catch) (auto intro!: calm_bnd calm_basic calm_execute split: option.split)

text \<open>No method of a logger raises, whatever its hooks, its notifier and its data are.\<close>

lemma logger_never_raises:
  "calm (log_plain E name level msg)" "calm (log_info E name msg)" "calm (log_severe E name msg ex)" "calm (log_warning_keyword E)"
  by (simp_all add: log_plain_def log_info_def log_severe_def log_warning_keyword_def calm_never)

text \<open>Data set around a call inside another is gone after it, that of the outer call as well.\<close>

lemma inner_logging_clears: "snd (execute_with_logging_info d (bnd (execute_with_logging_info d' (ret ())) (\<lambda>_. gets lg_data)) g) = g\<lparr>lg_data := None\<rparr>"
  "fst (execute_with_logging_info d (bnd (execute_with_logging_info d' (ret ())) (\<lambda>_. gets lg_data)) g) = Inr None"
  by (simp_all add: execute_with_logging_info_def set_logging_info_def clear_logging_info_def finally_do_def bnd_def)

text \<open>A warning with a keyword the method does not have writes no line.\<close>

lemma warning_keyword_lost: "lv_notifier E = ret (\<lambda>s m. modify (\<lambda>g. g\<lparr>lg_published := lg_published g @ [(''topic'', s, m)]\<rparr>)) \<Longrightarrow>
    lg_lines (snd (log_warning_keyword E g)) = lg_lines g \<and> length (lg_published (snd (log_warning_keyword E g))) = Suc (length (lg_published g))"
  by (simp add: log_warning_keyword_def never_raise_def catch_def bnd_def print_stderr_def execute_no_raise_def error_notify_def)

end
