(* ===== verification/Archiver.thy ===== *)
theory Archiver
  imports Collections Py_Strings
begin

text \<open>
  The packer of the code (\<open>archiver.py\<close>): the modules that are reached from the application, the files and directories of the
  archive, and the way the archive replaces the one that was there. Paths are absolute, without \<open>.\<close>, \<open>..\<close> and symbolic links, so that
  \<open>realpath\<close> and \<open>abspath\<close> do nothing; the separator is the slash. The order in which a set or a directory is listed is not fixed:
  it is an argument, or the order of the nodes of the disk.
\<close>

section \<open>Paths\<close>

definition os_join :: "string \<Rightarrow> string \<Rightarrow> string" where
  "os_join a b = (if prefix ''/'' b then b else if a = [] \<or> last a = CHR ''/'' then a @ b else a @ ''/'' @ b)"

text \<open>\<open>os.path.split\<close>: what stands behind the last slash, and what stands before it without slashes at its end.\<close>

definition os_split :: "string \<Rightarrow> string \<times> string" where
  "os_split p = (let tl = rev (takeWhile (\<lambda>c. c \<noteq> CHR ''/'') (rev p)); hd = take (length p - length tl) p;
     stripped = rev (dropWhile (\<lambda>c. c = CHR ''/'') (rev hd))
   in (if stripped = [] then hd else stripped, tl))"

definition path_parts :: "string \<Rightarrow> string list" where
  "path_parts p = filter (\<lambda>x. x \<noteq> []) (split_str ''/'' p)"

definition relpath :: "string \<Rightarrow> string \<Rightarrow> string" where
  "relpath path start = (let ps = path_parts path; ss = path_parts start; i = length (longest_common_prefix ss ps);
     rel = replicate (length ss - i) ''..'' @ drop i ps
   in if rel = [] then ''.'' else join_str ''/'' rel)"

definition build_archive_name :: "string \<Rightarrow> string \<Rightarrow> string" where
  "build_archive_name file_name base_path = relpath file_name base_path"

section \<open>The disk\<close>

text \<open>An entry of an archive: its \<open>ZipInfo\<close>, with the mode of the file as its attributes, and its data.\<close>

record zip_info =
  zi_name :: string
  zi_time :: "nat list"
  zi_extra :: "nat list"
  zi_create_system :: nat
  zi_mode :: nat

datatype content = Bytes "nat list" | Archive "(zip_info \<times> nat list) list"

datatype node = Directory nat | RegularFile nat content

record packer =
  pk_nodes :: "(string, node) dict"
  pk_out :: "string list"
  pk_err :: "string list"

type_synonym 'a pack_prog = "(packer, 'a) prog"

abbreviation node_at :: "string \<Rightarrow> packer \<Rightarrow> node option" where
  "node_at p d \<equiv> dget p (pk_nodes d)"

definition is_dir_node :: "node option \<Rightarrow> bool" where
  "is_dir_node n = (case n of Some (Directory m) \<Rightarrow> True | _ \<Rightarrow> False)"

definition is_file_node :: "node option \<Rightarrow> bool" where
  "is_file_node n = (case n of Some (RegularFile m c) \<Rightarrow> True | _ \<Rightarrow> False)"

definition set_node :: "string \<Rightarrow> node \<Rightarrow> unit pack_prog" where
  "set_node p n = modify (\<lambda>d. d\<lparr>pk_nodes := dset p n (pk_nodes d)\<rparr>)"

definition remove_node :: "string \<Rightarrow> unit pack_prog" where
  "remove_node p = modify (\<lambda>d. d\<lparr>pk_nodes := ddel p (pk_nodes d)\<rparr>)"

definition pack_print :: "string \<Rightarrow> unit pack_prog" where
  "pack_print s = modify (\<lambda>d. d\<lparr>pk_out := pk_out d @ [s]\<rparr>)"

definition read_file :: "string \<Rightarrow> content pack_prog" where
  "read_file p = bnd (gets (node_at p)) (\<lambda>n. case n of
     Some (RegularFile m c) \<Rightarrow> ret c
   | Some (Directory m) \<Rightarrow> raise (PlainException ''IsADirectoryError'')
   | None \<Rightarrow> raise (PlainException ''FileNotFoundError''))"

section \<open>The command line\<close>

text \<open>Settings of variables among the arguments, wherever they stand, are taken out one after the other.\<close>

definition env_setting :: "string \<Rightarrow> bool" where
  "env_setting v = (find_str ''='' v > 0)"

lemma split_settings: "dropWhile P (tl argv) = v # vs \<Longrightarrow> length argv = Suc (Suc (length (takeWhile P (tl argv)) + length vs))"
proof -
  assume d: "dropWhile P (tl argv) = v # vs"
  have "length (tl argv) = length (takeWhile P (tl argv)) + length (dropWhile P (tl argv))"
    by (metis length_append takeWhile_dropWhile_id)
  moreover have "argv \<noteq> []" using d by (cases argv) auto
  ultimately show ?thesis using d by (cases argv) auto
qed

function check_env_variables :: "string list \<Rightarrow> (string, string) dict \<Rightarrow> string list \<times> (string, string) dict" where
  "check_env_variables argv env = (case dropWhile (\<lambda>v. \<not> env_setting v) (tl argv) of
     [] \<Rightarrow> (argv, env)
   | v # vs \<Rightarrow> check_env_variables (hd argv # takeWhile (\<lambda>v. \<not> env_setting v) (tl argv) @ vs)
       (let i = nat (find_str ''='' v) in dset (take i v) (drop (Suc i) v) env))"
  by pat_completeness auto

termination by (relation "measure (\<lambda>(argv, env). length argv)") (auto dest: split_settings)

text \<open>The target, whether messages are wanted, and whether the beans of the profiles are loaded.\<close>

fun check_args_loop :: "string list \<Rightarrow> string option \<Rightarrow> bool \<Rightarrow> (string option \<times> bool) pack_prog" where
  "check_args_loop [] target verbose = ret (target, verbose)"
| "check_args_loop (v # vs) target verbose = (if v = ''-v'' then check_args_loop vs target True
     else if target = None then check_args_loop vs (Some v) verbose
     else bnd (modify (\<lambda>d. d\<lparr>pk_err := pk_err d @ [''Invalid command line argument: '' @ v]\<rparr>)) (\<lambda>_. raise (SystemExit 2)))"

definition check_args :: "string list \<Rightarrow> (string, string) dict \<Rightarrow> (string \<times> bool \<times> bool) pack_prog" where
  "check_args argv env = bnd (check_args_loop (tl argv) None False) (\<lambda>(target, verbose). case target of
     None \<Rightarrow> bnd (modify (\<lambda>d. d\<lparr>pk_err := pk_err d @ [''Please supply target zip file name.'']\<rparr>)) (\<lambda>_. raise (SystemExit 2))
   | Some t \<Rightarrow> ret (t, verbose, dget ''ACTIVE_PROFILES'' env \<noteq> None))"

section \<open>Modules\<close>

text \<open>A value in a module: a module, a text, or an object with its attribute \<open>__module__\<close>. Python stores there the name of the module.\<close>

datatype attr_value = ModuleVal string | StringVal string | ObjectVal "attr_value option"

record module_info =
  mo_file :: "string option"
  mo_values :: "attr_value list"
  mo_excluded :: bool

text \<open>All modules by their names, as \<open>sys.modules\<close> lists them.\<close>

type_synonym modules = "(string, module_info) dict"

fun module_map :: "modules \<Rightarrow> string \<Rightarrow> attr_value \<Rightarrow> string option" where
  "module_map W root (ObjectVal (Some v)) = module_map W root v"
| "module_map W root (ObjectVal None) = None"
| "module_map W root (StringVal s) = None"
| "module_map W root (ModuleVal m) = (case dget m W of None \<Rightarrow> None | Some i \<Rightarrow> (case mo_file i of
     None \<Rightarrow> None
   | Some f \<Rightarrow> if \<not> prefix root f then None else if contains_str ''python3'' f then None else Some m))"

definition module_values :: "modules \<Rightarrow> string \<Rightarrow> string \<Rightarrow> string list" where
  "module_values W root m = (case dget m W of None \<Rightarrow> [] | Some i \<Rightarrow> List.map_filter (module_map W root) (mo_values i))"

text \<open>The set of the modules that were seen, as a list; \<open>None\<close> when the recursion is deeper than its first argument.\<close>

fun collect_them :: "nat \<Rightarrow> (string \<Rightarrow> string list) \<Rightarrow> string list \<Rightarrow> string \<Rightarrow> string list option"
  and collect_values :: "nat \<Rightarrow> (string \<Rightarrow> string list) \<Rightarrow> string list \<Rightarrow> string list \<Rightarrow> string list option" where
  "collect_them 0 vals seen m = None"
| "collect_them (Suc n) vals seen m = (if m \<in> set seen then Some seen else collect_values n vals (m # seen) (vals m))"
| "collect_values n vals seen [] = Some seen"
| "collect_values n vals seen (v # vs) = (case collect_them n vals seen v of None \<Rightarrow> None | Some s \<Rightarrow> collect_values n vals s vs)"

definition loaded_under :: "modules \<Rightarrow> string \<Rightarrow> string list \<Rightarrow> string list" where
  "loaded_under W parent seen = fold (\<lambda>(m, i) s. if m \<notin> set s \<and> (case mo_file i of None \<Rightarrow> False | Some f \<Rightarrow> prefix parent f) then m # s else s) W seen"

lemma os_split_shorter:
  assumes a: "os_split p = (parent, child)" "child \<noteq> []"
  shows "length parent < length p"
proof -
  let ?hd = "take (length p - length child) p"
  have c: "child = rev (takeWhile (\<lambda>c. c \<noteq> CHR ''/'') (rev p))" using a(1) by (simp add: os_split_def Let_def)
  have "length child \<le> length p" unfolding c by (metis length_rev length_takeWhile_le)
  then have h: "length ?hd < length p" using a(2) by (cases p) auto
  have "parent = ?hd \<or> parent = rev (dropWhile (\<lambda>c. c = CHR ''/'') (rev ?hd))"
    using a(1) unfolding os_split_def Let_def c [symmetric] prod.inject by (simp split: if_split_asm)
  then show ?thesis
  proof
    assume "parent = rev (dropWhile (\<lambda>c. c = CHR ''/'') (rev ?hd))"
    then have "length parent \<le> length ?hd" by (metis length_dropWhile_le length_rev)
    then show ?thesis using h by simp
  qed (use h in simp)
qed

function find_root_dir :: "packer \<Rightarrow> string \<Rightarrow> exn + string" where
  "find_root_dir d check_path = (if is_dir_node (node_at (os_join check_path ''.git'') d) then Inr (check_path @ ''/'')
     else if snd (os_split check_path) = [] then Inl (PlainException ''EnvironmentError'') else find_root_dir d (fst (os_split check_path)))"
  by pat_completeness auto

termination by (relation "measure (\<lambda>(d, p). length p)") (simp_all add: os_split_shorter [OF prod.collapse [symmetric]])

section \<open>The archive\<close>

record zipper =
  z_entries :: "string list"
  z_paths_added :: "string list"

fun check_dirs_loop :: "string \<Rightarrow> string \<Rightarrow> string list \<Rightarrow> zipper \<Rightarrow> zipper" where
  "check_dirs_loop file_path path [] z = z"
| "check_dirs_loop file_path path (v # vs) z = (let fp = os_join file_path v; p = path @ v @ ''/'' in
     check_dirs_loop fp p vs (if p \<in> set (z_paths_added z) then z
       else z\<lparr>z_entries := List.insert fp (z_entries z), z_paths_added := List.insert p (z_paths_added z)\<rparr>))"

definition check_dirs :: "string \<Rightarrow> string \<Rightarrow> zipper \<Rightarrow> zipper" where
  "check_dirs src_dir archive_name z = (let values = split_str ''/'' archive_name in
     if length values = 1 then z else check_dirs_loop src_dir [] (butlast values) z)"

definition zip_add :: "string \<Rightarrow> string \<Rightarrow> zipper \<Rightarrow> zipper" where
  "zip_add src_dir file_name z = (let archive_name = build_archive_name file_name src_dir;
     z' = (if CHR ''/'' \<in> set archive_name then check_dirs src_dir archive_name z else z)
   in z'\<lparr>z_entries := List.insert file_name (z_entries z')\<rparr>)"

definition create_zip_info :: "node \<Rightarrow> string \<Rightarrow> zip_info" where
  "create_zip_info n archive_name = \<lparr>zi_name = archive_name, zi_time = [2020, 2, 2, 2, 2, 2], zi_extra = [], zi_create_system = 0,
     zi_mode = (case n of Directory m \<Rightarrow> m | RegularFile m c \<Rightarrow> m)\<rparr>"

text \<open>\<open>writestr\<close> puts an entry at the end of the archive that is open as \<open>temp\<close>.\<close>

definition write_entry :: "string \<Rightarrow> zip_info \<Rightarrow> nat list \<Rightarrow> unit pack_prog" where
  "write_entry temp zi data = modify (\<lambda>d. case node_at temp d of
     Some (RegularFile m (Archive es)) \<Rightarrow> d\<lparr>pk_nodes := dset temp (RegularFile m (Archive (es @ [(zi, data)]))) (pk_nodes d)\<rparr>
   | _ \<Rightarrow> d)"

text \<open>The bytes of an archive that is itself packed are those \<open>raw\<close> gives.\<close>

definition write_file :: "((zip_info \<times> nat list) list \<Rightarrow> nat list) \<Rightarrow> string \<Rightarrow> string \<Rightarrow> string \<Rightarrow> unit pack_prog" where
  "write_file raw src_dir temp file_name = bnd (gets (node_at file_name)) (\<lambda>n. case n of
     None \<Rightarrow> raise (PlainException ''FileNotFoundError'')
   | Some (Directory m) \<Rightarrow> write_entry temp (create_zip_info (Directory m) (build_archive_name file_name src_dir @ ''/'')) []
   | Some (RegularFile m c) \<Rightarrow> write_entry temp (create_zip_info (RegularFile m c) (build_archive_name file_name src_dir))
       (case c of Bytes b \<Rightarrow> b | Archive es \<Rightarrow> raw es))"

definition zip_build :: "((zip_info \<times> nat list) list \<Rightarrow> nat list) \<Rightarrow> string \<Rightarrow> string \<Rightarrow> zipper \<Rightarrow> unit pack_prog" where
  "zip_build raw src_dir temp z = for_each (write_file raw src_dir temp) (sort (z_entries z))"

section \<open>The files of the archive\<close>

text \<open>What the packer does not fix: the bytes of an archive (\<open>pe_raw\<close>) and hashing, the mode of a new node, the order in which a set is
  listed, the modules (with the beans of the profiles, or without), the depth of recursion of Python.\<close>

record pack_env =
  pe_raw :: "(zip_info \<times> nat list) list \<Rightarrow> nat list"
  pe_sha256 :: "nat list \<Rightarrow> string"
  pe_mode :: nat
  pe_order :: "string list \<Rightarrow> string list"
  pe_modules :: "bool \<Rightarrow> modules"
  pe_src :: string
  pe_app_file :: string
  pe_recursion :: nat

definition make_dir :: "pack_env \<Rightarrow> string \<Rightarrow> unit pack_prog" where
  "make_dir E p = bnd (gets (\<lambda>d. (node_at p d, node_at (fst (os_split p)) d))) (\<lambda>(n, parent).
     if n \<noteq> None then raise (PlainException ''FileExistsError'')
     else if is_dir_node parent then set_node p (Directory (pe_mode E))
     else raise (PlainException (if parent = None then ''FileNotFoundError'' else ''NotADirectoryError'')))"

text \<open>\<open>os.makedirs\<close>, for a path that does not end with a slash.\<close>

function makedirs :: "pack_env \<Rightarrow> string \<Rightarrow> unit pack_prog" where
  "makedirs E p = (if fst (os_split p) = [] \<or> snd (os_split p) = [] then make_dir E p
     else bnd (gets (node_at (fst (os_split p)))) (\<lambda>n. bnd (if n \<noteq> None then ret ()
       else catch (makedirs E (fst (os_split p))) (\<lambda>e. if e = PlainException ''FileExistsError'' then Some (ret ()) else None)) (\<lambda>_.
     make_dir E p)))"
  by pat_completeness auto

termination by (relation "measure (\<lambda>(E, p). length p)") (simp_all add: os_split_shorter [OF prod.collapse [symmetric]])

declare makedirs.simps [simp del] find_root_dir.simps [simp del] check_env_variables.simps [simp del]

definition ensure_parent_exists :: "pack_env \<Rightarrow> string \<Rightarrow> unit pack_prog" where
  "ensure_parent_exists E file_name = (let parent = fst (os_split file_name) in
     bnd (gets (node_at parent)) (\<lambda>n. if parent \<noteq> [] \<and> \<not> is_dir_node n then makedirs E parent else ret ()))"

definition open_zip :: "pack_env \<Rightarrow> string \<Rightarrow> unit pack_prog" where
  "open_zip E temp = bnd (gets (\<lambda>d. (node_at temp d, node_at (fst (os_split temp)) d))) (\<lambda>(n, parent). case n of
     Some (Directory m) \<Rightarrow> raise (PlainException ''IsADirectoryError'')
   | Some (RegularFile m c) \<Rightarrow> set_node temp (RegularFile m (Archive []))
   | None \<Rightarrow> if fst (os_split temp) \<noteq> [] \<and> \<not> is_dir_node parent then raise (PlainException ''FileNotFoundError'')
       else set_node temp (RegularFile (pe_mode E) (Archive [])))"

fun add_modules :: "bool \<Rightarrow> string \<Rightarrow> modules \<Rightarrow> string list \<Rightarrow> zipper \<Rightarrow> zipper pack_prog" where
  "add_modules verbose src W [] z = ret z"
| "add_modules verbose src W (m # ms) z = (case dget m W of
     None \<Rightarrow> raise (KeyError m)
   | Some i \<Rightarrow> if mo_excluded i
       then bnd (pack_print (''Skipping '' @ (case mo_file i of None \<Rightarrow> ''None'' | Some f \<Rightarrow> f))) (\<lambda>_. add_modules verbose src W ms z)
       else (case mo_file i of
         None \<Rightarrow> raise TypeError
       | Some f \<Rightarrow> bnd (if verbose then pack_print (f @ '' -> '' @ relpath f src @ '' ...'') else ret ()) (\<lambda>_.
           add_modules verbose src W ms (zip_add src f z))))"

definition json_files :: "string \<Rightarrow> packer \<Rightarrow> string list" where
  "json_files src d = filter (\<lambda>p. prefix (src @ ''/'') p \<and> suffix ''.json'' p \<and> is_file_node (node_at p d)) (dkeys (pk_nodes d))"

fun add_json_files :: "bool \<Rightarrow> string \<Rightarrow> string list \<Rightarrow> zipper \<Rightarrow> zipper pack_prog" where
  "add_json_files verbose src [] z = ret z"
| "add_json_files verbose src (f # fs) z = bnd (if verbose then pack_print (f @ '' => '' @ relpath f src @ '' ...'') else ret ()) (\<lambda>_.
     add_json_files verbose src fs (zip_add src f z))"

definition add_json_resources :: "bool \<Rightarrow> string \<Rightarrow> zipper \<Rightarrow> zipper pack_prog" where
  "add_json_resources verbose src z = bnd (gets (json_files src)) (\<lambda>fs. add_json_files verbose src fs z)"

definition pack_modules :: "pack_env \<Rightarrow> bool \<Rightarrow> modules \<Rightarrow> string list \<Rightarrow> string \<Rightarrow> unit pack_prog" where
  "pack_modules E verbose W ms temp = bnd (open_zip E temp) (\<lambda>_.
     bnd (add_modules verbose (pe_src E) W ms \<lparr>z_entries = [], z_paths_added = []\<rparr>) (\<lambda>z.
     bnd (add_json_resources verbose (pe_src E) z) (\<lambda>z.
     zip_build (pe_raw E) (pe_src E) temp z)))"

definition remove_temp :: "string \<Rightarrow> unit pack_prog" where
  "remove_temp temp = bnd (gets (node_at temp)) (\<lambda>n. if is_file_node n then remove_node temp else ret ())"

definition rename_node :: "string \<Rightarrow> string \<Rightarrow> unit pack_prog" where
  "rename_node src dst = bnd (gets (\<lambda>d. (node_at src d, node_at dst d))) (\<lambda>(n, t). case n of
     None \<Rightarrow> raise (PlainException ''FileNotFoundError'')
   | Some n \<Rightarrow> if is_dir_node t then raise (PlainException ''IsADirectoryError'')
       else bnd (remove_node src) (\<lambda>_. set_node dst n))"

definition modules_of_app :: "pack_env \<Rightarrow> modules \<Rightarrow> string \<Rightarrow> exn + string list" where
  "modules_of_app E W root = (case collect_them (pe_recursion E) (module_values W root) [] ''app'' of
     None \<Rightarrow> Inl (PlainException ''RecursionError'')
   | Some seen \<Rightarrow> Inr (pe_order E (loaded_under W (fst (os_split (pe_app_file E)) @ ''/'') seen)))"

definition zip_python_files :: "pack_env \<Rightarrow> modules \<Rightarrow> bool \<Rightarrow> string \<Rightarrow> string pack_prog" where
  "zip_python_files E W verbose target = (let temp = target @ ''.temp'' in
     bnd (gets (\<lambda>d. find_root_dir d (fst (os_split (pe_app_file E))))) (\<lambda>root. bnd (lift_res root) (\<lambda>root.
     bnd (lift_res (modules_of_app E W root)) (\<lambda>ms.
     bnd (ensure_parent_exists E target) (\<lambda>_.
     bnd (catch (pack_modules E verbose W ms temp) (\<lambda>e. Some (bnd (remove_temp temp) (\<lambda>_. raise e)))) (\<lambda>_.
     bnd (pack_print (''Saved '' @ nat_str (length ms) @ '' files to '' @ target @ ''.'')) (\<lambda>_.
     bnd (remove_temp target) (\<lambda>_.
     bnd (rename_node temp target) (\<lambda>_. ret target)))))))))"

definition show_checksum :: "pack_env \<Rightarrow> string \<Rightarrow> unit pack_prog" where
  "show_checksum E file_name = bnd (read_file file_name) (\<lambda>c.
     pack_print (''Hash: '' @ pe_sha256 E (case c of Bytes b \<Rightarrow> b | Archive es \<Rightarrow> pe_raw E es)))"

definition archiver :: "pack_env \<Rightarrow> string list \<Rightarrow> (string, string) dict \<Rightarrow> unit pack_prog" where
  "archiver E argv env = (case check_env_variables argv (dset ''IGNORE_VARS'' ''true'' (dset ''SOURCE_DATE_EPOCH'' ''0'' (dset ''TZ'' ''UTC'' env))) of
     (argv, env) \<Rightarrow> bnd (check_args argv env) (\<lambda>(target, verbose, profiles).
       bnd (zip_python_files E (pe_modules E profiles) verbose target) (\<lambda>zip_file.
       if verbose then show_checksum E zip_file else ret ())))"

section \<open>What is collected\<close>

abbreviation reaches :: "(string \<Rightarrow> string list) \<Rightarrow> string \<Rightarrow> string \<Rightarrow> bool" where
  "reaches vals \<equiv> (\<lambda>a b. b \<in> set (vals a))\<^sup>*\<^sup>*"

lemma collect_sound:
  "collect_them n vals seen m = Some r \<Longrightarrow> set seen \<subseteq> set r \<and> m \<in> set r \<and> (\<forall>x\<in>set r - set seen. reaches vals m x \<and> set (vals x) \<subseteq> set r)"
  "collect_values n vals seen ms = Some r \<Longrightarrow> set seen \<subseteq> set r \<and> set ms \<subseteq> set r \<and>
     (\<forall>x\<in>set r - set seen. (\<exists>m\<in>set ms. reaches vals m x) \<and> set (vals x) \<subseteq> set r)"
proof (induction n vals seen m and n vals seen ms arbitrary: r and r rule: collect_them_collect_values.induct)
  case (2 n vals seen m)
  show ?case
  proof (cases "m \<in> set seen")
    case False
    then have s: "collect_values n vals (m # seen) (vals m) = Some r" using 2(2) by simp
    note i = 2(1) [OF False s]
    show ?thesis
    proof (intro conjI ballI)
      fix x assume x: "x \<in> set r - set seen"
      show "reaches vals m x"
      proof (cases "x = m")
        case False
        then have "x \<in> set r - set (m # seen)" using x by simp
        then obtain k where "k \<in> set (vals m)" "reaches vals k x" using i by blast
        then show ?thesis by (meson converse_rtranclp_into_rtranclp)
      qed simp
      show "set (vals x) \<subseteq> set r" using i x by (cases "x = m") auto
    qed (use i in auto)
  qed (use 2(2) in simp)
next
  case (4 n vals seen v vs)
  obtain s where s: "collect_them n vals seen v = Some s" "collect_values n vals s vs = Some r"
    using 4(3) by (auto split: option.splits)
  note a = 4(1) [OF s(1)] note b = 4(2) [OF s(1,2)]
  show ?case
  proof (intro conjI ballI)
    fix x assume x: "x \<in> set r - set seen"
    show "\<exists>m\<in>set (v # vs). reaches vals m x" "set (vals x) \<subseteq> set r" using a b x by (cases "x \<in> set s"; auto)+
  qed (use a b in auto)
qed simp_all

lemma collect_ends:
  "finite U \<Longrightarrow> (\<And>x. x \<in> U \<Longrightarrow> set (vals x) \<subseteq> U) \<Longrightarrow> m \<in> U \<Longrightarrow> card (U - set seen) < n \<Longrightarrow> collect_them n vals seen m \<noteq> None"
  "finite U \<Longrightarrow> (\<And>x. x \<in> U \<Longrightarrow> set (vals x) \<subseteq> U) \<Longrightarrow> set ms \<subseteq> U \<Longrightarrow> card (U - set seen) < n \<Longrightarrow> collect_values n vals seen ms \<noteq> None"
proof (induction n vals seen m and n vals seen ms rule: collect_them_collect_values.induct)
  case (2 n vals seen m)
  show ?case
  proof (cases "m \<in> set seen")
    case False
    have "card (U - set (m # seen)) < card (U - set seen)" using 2(2,4) False by (intro psubset_card_mono) auto
    then have "card (U - set (m # seen)) < n" using 2(5) by simp
    then show ?thesis using 2(1) [OF False 2(2,3) 2(3) [OF 2(4)]] False by auto
  qed simp
next
  case (4 n vals seen v vs)
  obtain s where s: "collect_them n vals seen v = Some s" using 4(1,3,4,5,6) by fastforce
  then have "card (U - set s) \<le> card (U - set seen)" using collect_sound(1) [OF s] 4(3) by (intro card_mono) auto
  then show ?case using 4(2) [OF s 4(3,4)] 4(5,6) s by auto
qed simp_all

lemma module_map_loaded: "module_map W root v = Some m \<Longrightarrow> m \<in> set (dkeys W)"
proof (induction W root v rule: module_map.induct)
  case (4 W root k)
  then have "m = k" "dget k W \<noteq> None" by (auto split: option.splits if_splits)
  then show ?case by (simp add: dget_None_iff)
qed simp_all

lemma module_values_loaded: "set (module_values W root m) \<subseteq> set (dkeys W)"
  by (auto simp: module_values_def List.map_filter_def module_map_loaded split: option.splits)

text \<open>C22 (functional). With a recursion limit above the number of modules, the collection from a module ends and gives exactly the
  modules that are reached from it over values that are modules of the repository, cycles of imports included.\<close>

theorem modules_collected:
  assumes "Suc (length W) < n"
  shows "\<exists>r. collect_them n (module_values W root) [] m = Some r \<and> set r = {x. reaches (module_values W root) m x}"
proof -
  let ?U = "insert m (set (dkeys W))" and ?v = "module_values W root"
  have "card ?U \<le> Suc (length W)"
    by (metis card_insert_le_m1 card_length dkeys_def length_map le_SucI card_insert_disjoint finite_set insert_absorb Suc_le_mono)
  then obtain r where r: "collect_them n ?v [] m = Some r"
    using collect_ends(1) [of ?U ?v m "[]" n] module_values_loaded [of W root] assms by fastforce
  note s = collect_sound(1) [OF r]
  have "x \<in> set r" if "reaches ?v m x" for x
    using that by (induction rule: rtranclp_induct) (use s in auto)
  then show ?thesis using r s by (intro exI [of _ r]) auto
qed

section \<open>What is packed\<close>

text \<open>The directories of a path, with their paths on the disk.\<close>

fun dir_pairs :: "string \<Rightarrow> string \<Rightarrow> string list \<Rightarrow> (string \<times> string) list" where
  "dir_pairs file_path path [] = []"
| "dir_pairs file_path path (v # vs) = (path @ v @ ''/'', os_join file_path v) # dir_pairs (os_join file_path v) (path @ v @ ''/'') vs"

definition entries_of :: "string \<Rightarrow> string \<Rightarrow> string set" where
  "entries_of src f = insert f (snd ` set (dir_pairs src [] (butlast (split_str ''/'' (build_archive_name f src)))))"

definition dir_of :: "string \<Rightarrow> string \<Rightarrow> string" where
  "dir_of src p = foldl os_join src (butlast (split_str ''/'' p))"

lemma split_dirs: "(\<And>v. v \<in> set vs \<Longrightarrow> CHR ''/'' \<notin> set v) \<Longrightarrow> split_str ''/'' (concat (map (\<lambda>v. v @ ''/'') vs)) = vs @ [[]]"
proof (induction vs)
  case (Cons v vs)
  have "split_from ''/'' [] (v @ ''/'' @ s) = v # split_from ''/'' [] s" for s
    using Cons.prems [of v] split_from_skip [of "CHR ''/''" v "[]" "[]" "''/'' @ s"] split_from_sep [of "''/''" "rev v" s] by simp
  then show ?case using Cons by (simp add: split_str_def)
qed (simp add: split_str_def)

lemma dir_pairs_dir:
  "(p, fp) \<in> set (dir_pairs (foldl os_join src us) (concat (map (\<lambda>v. v @ ''/'') us)) vs) \<Longrightarrow>
   (\<And>v. v \<in> set (us @ vs) \<Longrightarrow> CHR ''/'' \<notin> set v) \<Longrightarrow> fp = dir_of src p"
proof (induction vs arbitrary: us)
  case (Cons v vs)
  show ?case
  proof (cases "p = concat (map (\<lambda>v. v @ ''/'') (us @ [v])) \<and> fp = foldl os_join src (us @ [v])")
    case True
    have "split_str ''/'' (concat (map (\<lambda>v. v @ ''/'') (us @ [v]))) = (us @ [v]) @ [[]]" by (rule split_dirs) (use Cons.prems(2) in auto)
    then have "dir_of src p = foldl os_join src (us @ [v])" using True by (simp add: dir_of_def butlast_append)
    then show ?thesis using True by simp
  next
    case False
    then have "(p, fp) \<in> set (dir_pairs (foldl os_join src (us @ [v])) (concat (map (\<lambda>v. v @ ''/'') (us @ [v]))) vs)" using Cons.prems(1) by auto
    then show ?thesis by (rule Cons.IH) (use Cons.prems(2) in auto)
  qed
qed simp

definition dirs_recorded :: "string \<Rightarrow> zipper \<Rightarrow> bool" where
  "dirs_recorded src z \<longleftrightarrow> distinct (z_entries z) \<and> (\<forall>p\<in>set (z_paths_added z). dir_of src p \<in> set (z_entries z))"

lemma check_dirs_loop_entries:
  "dirs_recorded src z \<Longrightarrow> (\<And>p fp. (p, fp) \<in> set (dir_pairs file_path path vs) \<Longrightarrow> fp = dir_of src p) \<Longrightarrow>
   dirs_recorded src (check_dirs_loop file_path path vs z) \<and>
   set (z_entries (check_dirs_loop file_path path vs z)) = set (z_entries z) \<union> snd ` set (dir_pairs file_path path vs)"
proof (induction file_path path vs z rule: check_dirs_loop.induct)
  case (2 file_path path v vs z)
  let ?fp = "os_join file_path v" and ?p = "path @ v @ ''/''"
  let ?z = "if ?p \<in> set (z_paths_added z) then z
    else z\<lparr>z_entries := List.insert ?fp (z_entries z), z_paths_added := List.insert ?p (z_paths_added z)\<rparr>"
  have d: "?fp = dir_of src ?p" using 2(3) by simp
  have z: "dirs_recorded src ?z" "set (z_entries ?z) = insert ?fp (set (z_entries z))"
    using 2(2) d by (auto simp: dirs_recorded_def)
  have "dirs_recorded src (check_dirs_loop ?fp ?p vs ?z) \<and>
      set (z_entries (check_dirs_loop ?fp ?p vs ?z)) = set (z_entries ?z) \<union> snd ` set (dir_pairs ?fp ?p vs)"
    by (rule 2(1) [OF refl refl z(1)]) (use 2(3) in auto)
  then show ?case using z(2) by (simp add: Let_def)
qed simp

lemma zip_add_entries: assumes "dirs_recorded src z"
  shows "dirs_recorded src (zip_add src f z) \<and> set (z_entries (zip_add src f z)) = set (z_entries z) \<union> entries_of src f"
proof -
  let ?n = "build_archive_name f src"
  let ?vs = "butlast (split_str ''/'' ?n)"
  have s: "fp = dir_of src p" if "(p, fp) \<in> set (dir_pairs src [] ?vs)" for p fp
    using dir_pairs_dir [of p fp src "[]" ?vs] that split_str_no_char [of _ "CHR ''/''" ?n] by (auto dest: in_set_butlastD)
  have l: "dirs_recorded src (check_dirs_loop src [] ?vs z) \<and>
      set (z_entries (check_dirs_loop src [] ?vs z)) = set (z_entries z) \<union> snd ` set (dir_pairs src [] ?vs)"
    by (rule check_dirs_loop_entries [OF assms s])
  show ?thesis
  proof (cases "length (split_str ''/'' ?n) = 1 \<or> CHR ''/'' \<notin> set ?n")
    case True
    then have "?vs = []" by (auto simp: split_str_no_sep length_Suc_conv)
    then show ?thesis using True assms by (auto simp: zip_add_def Let_def check_dirs_def entries_of_def dirs_recorded_def)
  next
    case False
    then show ?thesis using l by (auto simp: zip_add_def Let_def check_dirs_def entries_of_def dirs_recorded_def)
  qed
qed

definition module_files :: "modules \<Rightarrow> string list \<Rightarrow> string set" where
  "module_files W ms = {f. \<exists>m\<in>set ms. \<exists>i. dget m W = Some i \<and> \<not> mo_excluded i \<and> mo_file i = Some f}"

lemma module_files_Cons: "dget m W = Some i \<Longrightarrow> module_files W (m # ms) =
    (if mo_excluded i then {} else {f. mo_file i = Some f}) \<union> module_files W ms"
  by (auto simp: module_files_def)

lemma add_modules_entries:
  "(\<And>m. m \<in> set ms \<Longrightarrow> \<exists>i f. dget m W = Some i \<and> mo_file i = Some f) \<Longrightarrow> dirs_recorded src z \<Longrightarrow>
   \<exists>z' d'. add_modules verbose src W ms z d = (Inr z', d') \<and> pk_nodes d' = pk_nodes d \<and> dirs_recorded src z' \<and>
     set (z_entries z') = set (z_entries z) \<union> \<Union> (entries_of src ` module_files W ms)"
proof (induction verbose src W ms z arbitrary: d rule: add_modules.induct)
  case (1 verbose src W z)
  then show ?case by (simp add: module_files_def)
next
  case (2 verbose src W m ms z)
  obtain i f where i: "dget m W = Some i" "mo_file i = Some f" using 2(3) [of m] by auto
  have m: "\<And>k. k \<in> set ms \<Longrightarrow> \<exists>i f. dget k W = Some i \<and> mo_file i = Some f" using 2(3) by simp
  show ?case
  proof (cases "mo_excluded i")
    case True
    let ?d = "d\<lparr>pk_out := pk_out d @ [''Skipping '' @ f]\<rparr>"
    have "add_modules verbose src W (m # ms) z d = add_modules verbose src W ms z ?d"
      using i True by (simp add: bnd_def pack_print_def)
    then show ?thesis using 2(1) [OF i(1) True m 2(4), of ?d] True by (simp add: module_files_Cons [OF i(1)])
  next
    case False
    let ?d = "if verbose then d\<lparr>pk_out := pk_out d @ [f @ '' -> '' @ relpath f src @ '' ...'']\<rparr> else d"
    note a = zip_add_entries [OF 2(4), of f]
    have e: "add_modules verbose src W (m # ms) z d = add_modules verbose src W ms (zip_add src f z) ?d"
      using i False by (simp add: bnd_def pack_print_def)
    have f: "module_files W (m # ms) = insert f (module_files W ms)" using False i by (auto simp: module_files_Cons [OF i(1)])
    have "pk_nodes ?d = pk_nodes d" by simp
    then show ?thesis using 2(2) [OF i(1) False i(2) m conjunct1 [OF a], of ?d] conjunct2 [OF a]
      unfolding e f by (simp add: Un_assoc)
  qed
qed

lemma add_json_entries:
  "dirs_recorded src z \<Longrightarrow> \<exists>z' d'. add_json_files verbose src fs z d = (Inr z', d') \<and> pk_nodes d' = pk_nodes d \<and> dirs_recorded src z' \<and>
     set (z_entries z') = set (z_entries z) \<union> \<Union> (entries_of src ` set fs)"
proof (induction verbose src fs z arbitrary: d rule: add_json_files.induct)
  case (2 verbose src f fs z)
  note a = zip_add_entries [OF 2(2), of f]
  note 2(1) [OF conjunct1 [OF a], of "if verbose then d\<lparr>pk_out := pk_out d @ [f @ '' => '' @ relpath f src @ '' ...'']\<rparr> else d"]
  then show ?case using a by (auto simp: bnd_def pack_print_def)
qed simp

section \<open>The same archive in every order\<close>

definition alike :: "packer \<Rightarrow> packer \<Rightarrow> bool" where
  "alike d d' \<longleftrightarrow> (\<forall>p. node_at p d = node_at p d')"

definition agree :: "('a \<Rightarrow> 'b \<Rightarrow> bool) \<Rightarrow> 'a pack_prog \<Rightarrow> 'b pack_prog \<Rightarrow> bool" where
  "agree R p q \<longleftrightarrow> (\<forall>d d'. alike d d' \<longrightarrow> rel_sum (=) R (fst (p d)) (fst (q d')) \<and> alike (snd (p d)) (snd (q d')))"

named_theorems agree_rules

lemma agreeI: "(\<And>d d'. alike d d' \<Longrightarrow> rel_sum (=) R (fst (p d)) (fst (q d')) \<and> alike (snd (p d)) (snd (q d'))) \<Longrightarrow> agree R p q"
  by (simp add: agree_def)

lemma agreeD: "agree R p q \<Longrightarrow> alike d d' \<Longrightarrow> p d = (r, e) \<Longrightarrow> q d' = (r', e') \<Longrightarrow> rel_sum (=) R r r' \<and> alike e e'"
  unfolding agree_def by (metis fst_conv snd_conv)

lemma agree_bnd:
  assumes "agree R p q" "\<And>x y. R x y \<Longrightarrow> agree S (f x) (g y)" shows "agree S (bnd p f) (bnd q g)"
proof (rule agreeI)
  fix d d' assume a: "alike d d'"
  obtain r e r' e' where pq: "p d = (r, e)" "q d' = (r', e')" by fastforce
  then have r: "rel_sum (=) R r r'" "alike e e'" using agreeD [OF assms(1) a pq] by simp_all
  show "rel_sum (=) S (fst (bnd p f d)) (fst (bnd q g d')) \<and> alike (snd (bnd p f d)) (snd (bnd q g d'))"
    using r(1)
  proof cases
    case (1 x y)
    then show ?thesis using r(2) by (simp add: bnd_def pq)
  next
    case (2 x y)
    then show ?thesis using assms(2) [of x y] r(2) by (simp add: bnd_def pq agree_def)
  qed
qed

lemma agree_catch:
  assumes "agree R p q" "\<And>e. agree R (h e) (h e)" shows "agree R (catch p (\<lambda>e. Some (h e))) (catch q (\<lambda>e. Some (h e)))"
proof (rule agreeI)
  fix d d' assume a: "alike d d'"
  obtain r e r' e' where pq: "p d = (r, e)" "q d' = (r', e')" by fastforce
  then have r: "rel_sum (=) R r r'" "alike e e'" using agreeD [OF assms(1) a pq] by simp_all
  show "rel_sum (=) R (fst (catch p (\<lambda>e. Some (h e)) d)) (fst (catch q (\<lambda>e. Some (h e)) d')) \<and>
      alike (snd (catch p (\<lambda>e. Some (h e)) d)) (snd (catch q (\<lambda>e. Some (h e)) d'))"
    using r(1)
  proof cases
    case (1 x y)
    then show ?thesis using assms(2) [of x] r(2) by (simp add: catch_def pq agree_def)
  qed (use r(2) in \<open>simp add: catch_def pq\<close>)
qed

lemma order_simps: "pe_raw (E\<lparr>pe_order := ord\<rparr>) = pe_raw E" "pe_sha256 (E\<lparr>pe_order := ord\<rparr>) = pe_sha256 E" "pe_mode (E\<lparr>pe_order := ord\<rparr>) = pe_mode E"
  "pe_modules (E\<lparr>pe_order := ord\<rparr>) = pe_modules E" "pe_src (E\<lparr>pe_order := ord\<rparr>) = pe_src E" "pe_app_file (E\<lparr>pe_order := ord\<rparr>) = pe_app_file E"
  "pe_recursion (E\<lparr>pe_order := ord\<rparr>) = pe_recursion E" "pe_order (E\<lparr>pe_order := ord\<rparr>) = ord"
  by simp_all

definition same :: "'a \<Rightarrow> 'a \<Rightarrow> bool" where
  "same x y \<longleftrightarrow> x = y"

lemma agree_seq [agree_rules]: "agree same p q \<Longrightarrow> (\<And>x. agree S (f x) (g x)) \<Longrightarrow> agree S (bnd p f) (bnd q g)"
  by (rule agree_bnd [where R = same]) (simp_all add: same_def)

lemma agree_basic [agree_rules]:
  "agree same (ret x) (ret x)" "agree R (raise e) (raise e)" "agree same (set_node p n) (set_node p n)"
  "agree same (remove_node p) (remove_node p)" "agree same (pack_print a) (pack_print b)" "agree same (lift_res u) (lift_res u)"
  by (auto simp: agree_def alike_def set_node_def remove_node_def pack_print_def same_def rel_sum_simps sum.rel_refl)

lemma alikeD: "alike d d' \<Longrightarrow> node_at p d = node_at p d'"
  by (simp add: alike_def)

lemma agree_gets: "(\<And>d d'. alike d d' \<Longrightarrow> f d = g d') \<Longrightarrow> agree same (gets f) (gets g)"
  by (simp add: agree_def same_def)

lemma agree_node [agree_rules]: "agree same (gets (node_at p)) (gets (node_at p))"
    "agree same (gets (\<lambda>d. (node_at p d, node_at q d))) (gets (\<lambda>d. (node_at p d, node_at q d)))"
  by (auto intro!: agree_gets dest: alikeD)

lemma agree_option [agree_rules]: "agree R p q \<Longrightarrow> (\<And>x. agree R (f x) (g x)) \<Longrightarrow>
    agree R (case n of None \<Rightarrow> p | Some x \<Rightarrow> f x) (case n of None \<Rightarrow> q | Some x \<Rightarrow> g x)"
  by (cases n) auto

lemma agree_case_node [agree_rules]: "(\<And>m. agree R (f m) (f' m)) \<Longrightarrow> (\<And>m c. agree R (g m c) (g' m c)) \<Longrightarrow>
    agree R (case n of Directory m \<Rightarrow> f m | RegularFile m c \<Rightarrow> g m c) (case n of Directory m \<Rightarrow> f' m | RegularFile m c \<Rightarrow> g' m c)"
  by (cases n) auto

lemma agree_case_pair [agree_rules]: "(\<And>a b. agree R (f a b) (g a b)) \<Longrightarrow> agree R (case x of (a, b) \<Rightarrow> f a b) (case x of (a, b) \<Rightarrow> g a b)"
  by (cases x) auto

lemma agree_if [agree_rules]: "agree R p q \<Longrightarrow> agree R p' q' \<Longrightarrow> agree R (if b then p else p') (if b then q else q')"
  by simp

lemma agree_for_each: "(\<And>x. x \<in> set xs \<Longrightarrow> agree same (f x) (g x)) \<Longrightarrow> agree same (for_each f xs) (for_each g xs)"
  by (induction xs) (auto intro: agree_rules)

lemma agree_write_entry [agree_rules]: "agree same (write_entry temp zi b) (write_entry temp zi b)"
proof (rule agreeI)
  fix d d' assume a: "alike d d'"
  have "pk_nodes (snd (write_entry temp zi b d)) = (case node_at temp d of
      Some (RegularFile m (Archive es)) \<Rightarrow> dset temp (RegularFile m (Archive (es @ [(zi, b)]))) (pk_nodes d) | _ \<Rightarrow> pk_nodes d)" for d
    by (simp add: write_entry_def split: option.split node.split content.split)
  then show "rel_sum (=) same (fst (write_entry temp zi b d)) (fst (write_entry temp zi b d')) \<and>
      alike (snd (write_entry temp zi b d)) (snd (write_entry temp zi b d'))"
    using a by (auto simp: alike_def same_def write_entry_def split: option.split node.split content.split)
qed

lemma agree_write_file: "agree same (write_file raw src temp f) (write_file raw src temp f)"
  unfolding write_file_def by (intro agree_rules)

lemma agree_make_dir: "agree same (make_dir E p) (make_dir (E\<lparr>pe_order := ord\<rparr>) p)"
  unfolding make_dir_def order_simps by (intro agree_rules)

lemma agree_ignore:
  assumes "agree same a b"
  shows "agree same (catch a (\<lambda>e. if Q e then Some (ret ()) else None)) (catch b (\<lambda>e. if Q e then Some (ret ()) else None))"
proof -
  have "catch u (\<lambda>e. if Q e then Some (ret ()) else None) = catch u (\<lambda>e. Some (if Q e then ret () else raise e))" for u :: "unit pack_prog"
    by (rule ext) (simp add: catch_def split: prod.split sum.split)
  then show ?thesis using agree_catch [OF assms, of "\<lambda>e. if Q e then ret () else raise e"] by (simp add: agree_basic)
qed

lemma agree_makedirs: "agree same (makedirs E p) (makedirs (E\<lparr>pe_order := ord\<rparr>) p)"
proof (induction E p rule: makedirs.induct)
  case (1 E p)
  show ?case
  proof (cases "fst (os_split p) = [] \<or> snd (os_split p) = []")
    case True
    then show ?thesis unfolding makedirs.simps [of _ p] if_P [OF True] by (intro agree_make_dir)
  next
    case False
    have "agree same (if n \<noteq> None then ret () else catch (makedirs E (fst (os_split p))) (\<lambda>e. if e = PlainException ''FileExistsError'' then Some (ret ()) else None))
        (if n \<noteq> None then ret () else catch (makedirs (E\<lparr>pe_order := ord\<rparr>) (fst (os_split p))) (\<lambda>e. if e = PlainException ''FileExistsError'' then Some (ret ()) else None))"
      for n :: "node option"
      by (cases n) (use 1 [OF False] in \<open>simp_all add: agree_ignore agree_basic\<close>)
    then show ?thesis unfolding makedirs.simps [of _ p] if_not_P [OF False] by (intro agree_seq agree_node agree_make_dir)
  qed
qed

lemma agree_open_zip: "agree same (open_zip E temp) (open_zip (E\<lparr>pe_order := ord\<rparr>) temp)"
  unfolding open_zip_def order_simps
  by (intro agree_rules; rename_tac c; case_tac c; auto intro: agree_rules)

lemma agree_ensure_parent: "agree same (ensure_parent_exists E f) (ensure_parent_exists (E\<lparr>pe_order := ord\<rparr>) f)"
  unfolding ensure_parent_exists_def Let_def by (intro agree_rules agree_makedirs)

lemma find_root_alike: "alike d d' \<Longrightarrow> find_root_dir d p = find_root_dir d' p"
proof (induction d p rule: find_root_dir.induct)
  case (1 d p)
  then show ?case using alikeD [OF 1(2), of "os_join p ''/.git''"] alikeD [OF 1(2), of "os_join p ''.git''"]
    by (simp add: find_root_dir.simps [of _ p])
qed

definition same_zip :: "string \<Rightarrow> zipper \<Rightarrow> zipper \<Rightarrow> bool" where
  "same_zip src z z' \<longleftrightarrow> dirs_recorded src z \<and> dirs_recorded src z' \<and> set (z_entries z) = set (z_entries z')"

lemma agree_add_modules:
  assumes "set ms = set ms'" "\<And>m. m \<in> set ms \<Longrightarrow> \<exists>i f. dget m W = Some i \<and> mo_file i = Some f" "same_zip src z z'"
  shows "agree (same_zip src) (add_modules verbose src W ms z) (add_modules verbose src W ms' z')"
proof (rule agreeI)
  fix d d' assume a: "alike d d'"
  have f: "module_files W ms = module_files W ms'" using assms(1) by (simp add: module_files_def)
  obtain y e where y: "add_modules verbose src W ms z d = (Inr y, e)" "pk_nodes e = pk_nodes d" "dirs_recorded src y"
      "set (z_entries y) = set (z_entries z) \<union> \<Union> (entries_of src ` module_files W ms)"
    using add_modules_entries [OF assms(2), of ms src z verbose d] assms(3) unfolding same_zip_def by blast
  obtain y' e' where y': "add_modules verbose src W ms' z' d' = (Inr y', e')" "pk_nodes e' = pk_nodes d'" "dirs_recorded src y'"
      "set (z_entries y') = set (z_entries z') \<union> \<Union> (entries_of src ` module_files W ms')"
    using add_modules_entries [OF assms(2) [unfolded assms(1)], of ms' src z' verbose d'] assms(3) unfolding same_zip_def by blast
  show "rel_sum (=) (same_zip src) (fst (add_modules verbose src W ms z d)) (fst (add_modules verbose src W ms' z' d')) \<and>
      alike (snd (add_modules verbose src W ms z d)) (snd (add_modules verbose src W ms' z' d'))"
    using y y' a assms(3) f by (simp add: same_zip_def alike_def)
qed

lemma agree_add_json: assumes "same_zip src z z'" shows "agree (same_zip src) (add_json_resources verbose src z) (add_json_resources verbose src z')"
proof (rule agreeI)
  fix d d' assume a: "alike d d'"
  have "p \<in> set (dkeys (pk_nodes d)) \<longleftrightarrow> p \<in> set (dkeys (pk_nodes d'))" for p
    using alikeD [OF a, of p] dget_None_iff [of p "pk_nodes d"] dget_None_iff [of p "pk_nodes d'"] by simp
  then have f: "set (json_files src d) = set (json_files src d')" using alikeD [OF a] by (simp add: json_files_def)
  obtain y e where y: "add_json_files verbose src (json_files src d) z d = (Inr y, e)" "pk_nodes e = pk_nodes d" "dirs_recorded src y"
      "set (z_entries y) = set (z_entries z) \<union> \<Union> (entries_of src ` set (json_files src d))"
    using add_json_entries assms unfolding same_zip_def by blast
  obtain y' e' where y': "add_json_files verbose src (json_files src d') z' d' = (Inr y', e')" "pk_nodes e' = pk_nodes d'" "dirs_recorded src y'"
      "set (z_entries y') = set (z_entries z') \<union> \<Union> (entries_of src ` set (json_files src d'))"
    using add_json_entries assms unfolding same_zip_def by blast
  show "rel_sum (=) (same_zip src) (fst (add_json_resources verbose src z d)) (fst (add_json_resources verbose src z' d')) \<and>
      alike (snd (add_json_resources verbose src z d)) (snd (add_json_resources verbose src z' d'))"
    using y y' a assms f by (simp add: add_json_resources_def bnd_def same_zip_def alike_def)
qed

lemma agree_zip_build: "same_zip src z z' \<Longrightarrow> agree same (zip_build raw src temp z) (zip_build raw src temp z')"
proof -
  assume "same_zip src z z'"
  then have "sort (z_entries z) = sort (z_entries z')"
    by (intro sorted_distinct_set_unique) (auto simp: same_zip_def dirs_recorded_def)
  then show ?thesis by (simp add: zip_build_def agree_for_each agree_write_file)
qed

lemma agree_pack_modules:
  assumes "set ms = set ms'" "\<And>m. m \<in> set ms \<Longrightarrow> \<exists>i f. dget m W = Some i \<and> mo_file i = Some f"
  shows "agree same (pack_modules E verbose W ms temp) (pack_modules (E\<lparr>pe_order := ord\<rparr>) verbose W ms' temp)"
proof -
  have z: "same_zip (pe_src E) \<lparr>z_entries = [], z_paths_added = []\<rparr> \<lparr>z_entries = [], z_paths_added = []\<rparr>"
    by (simp add: same_zip_def dirs_recorded_def)
  show ?thesis unfolding pack_modules_def order_simps
    by (rule agree_seq [OF agree_open_zip], rule agree_bnd [OF agree_add_modules [OF assms z]], assumption,
      rule agree_bnd [OF agree_add_json], assumption, rule agree_zip_build)
qed

lemma agree_last: "agree same (remove_temp t) (remove_temp t)" "agree same (rename_node a b) (rename_node a b)"
  unfolding remove_temp_def rename_node_def by (intro agree_rules)+

lemma module_values_file: "x \<in> set (module_values W root m) \<Longrightarrow> \<exists>i f. dget x W = Some i \<and> mo_file i = Some f"
proof -
  have "module_map W root v = Some x \<Longrightarrow> \<exists>i f. dget x W = Some i \<and> mo_file i = Some f" for v
    by (induction W root v rule: module_map.induct) (auto split: option.splits if_splits)
  then show "x \<in> set (module_values W root m) \<Longrightarrow> ?thesis"
    by (auto simp: module_values_def List.map_filter_def split: option.splits)
qed

lemma loaded_under_file:
  "distinct (dkeys W) \<Longrightarrow> (\<And>m. m \<in> set seen \<Longrightarrow> \<exists>i f. dget m W = Some i \<and> mo_file i = Some f) \<Longrightarrow>
   m \<in> set (loaded_under W parent seen) \<Longrightarrow> \<exists>i f. dget m W = Some i \<and> mo_file i = Some f"
proof -
  let ?f = "\<lambda>(m, i) s. if m \<notin> set s \<and> (case mo_file i of None \<Rightarrow> False | Some f \<Rightarrow> prefix parent f) then m # s else s"
  let ?ok = "\<lambda>m. \<exists>i f. dget m W = Some i \<and> mo_file i = Some f"
  assume d: "distinct (dkeys W)" and seen: "\<And>m. m \<in> set seen \<Longrightarrow> ?ok m" and m: "m \<in> set (loaded_under W parent seen)"
  have "\<forall>m\<in>set (fold ?f V s). ?ok m" if "set V \<subseteq> set W" "\<forall>m\<in>set s. ?ok m" for V s
    using that
  proof (induction V arbitrary: s)
    case (Cons p V)
    obtain k i where p: "p = (k, i)" by fastforce
    then have "dget k W = Some i" using Cons.prems(1) d by (simp add: dget_def dkeys_def)
    then have "\<forall>m\<in>set (?f p s). ?ok m" using Cons.prems(2) by (auto simp: p split: option.splits)
    then show ?case using Cons.IH [of "?f p s"] Cons.prems(1) by simp
  qed simp
  from this [of W seen] show "?ok m" using m seen unfolding loaded_under_def by blast
qed

lemma app_modules_file:
  assumes "distinct (dkeys W)" "dget ''app'' W = Some i" "mo_file i \<noteq> None" "\<And>xs. set (pe_order E xs) = set xs"
    "modules_of_app E W root = Inr ms" "m \<in> set ms"
  shows "\<exists>i f. dget m W = Some i \<and> mo_file i = Some f"
proof -
  obtain seen where s: "collect_them (pe_recursion E) (module_values W root) [] ''app'' = Some seen"
      "ms = pe_order E (loaded_under W (fst (os_split (pe_app_file E)) @ ''/'') seen)"
    using assms(5) by (auto simp: modules_of_app_def split: option.splits)
  have "\<exists>i f. dget x W = Some i \<and> mo_file i = Some f" if "x \<in> set seen" for x
  proof -
    have "reaches (module_values W root) ''app'' x" using collect_sound(1) [OF s(1)] that by auto
    then show ?thesis by (cases rule: rtranclp.cases) (use assms(2,3) module_values_file in auto)
  qed
  then show ?thesis using loaded_under_file [OF assms(1)] assms(4,6) s(2) by blast
qed

text \<open>C20 (equivalence). The archive does not depend on the order in which sets are iterated and directories are listed: two runs on disks
  with the same nodes end alike, with the same error or with the same disk, so with the same archive in place of the target.\<close>

theorem archive_reproducible:
  assumes "distinct (dkeys W)" "dget ''app'' W = Some i" "mo_file i \<noteq> None"
    and "\<And>xs. set (pe_order E xs) = set xs" "\<And>xs. set (ord xs) = set xs"
    and "\<And>p. node_at p d = node_at p d'"
  shows "fst (zip_python_files E W verbose target d) = fst (zip_python_files (E\<lparr>pe_order := ord\<rparr>) W verbose target d') \<and>
    (\<forall>p. node_at p (snd (zip_python_files E W verbose target d)) = node_at p (snd (zip_python_files (E\<lparr>pe_order := ord\<rparr>) W verbose target d')))"
proof -
  let ?E = "E\<lparr>pe_order := ord\<rparr>"
  have o: "\<And>xs. set (pe_order ?E xs) = set xs" using assms(5) by simp
  have m: "agree (\<lambda>ms ms'. set ms = set ms' \<and> (\<forall>m\<in>set ms. \<exists>i f. dget m W = Some i \<and> mo_file i = Some f))
      (lift_res (modules_of_app E W root)) (lift_res (modules_of_app ?E W root))" for root
  proof (cases "collect_them (pe_recursion E) (module_values W root) [] ''app''")
    case None
    then show ?thesis by (simp add: modules_of_app_def agree_def)
  next
    case (Some seen)
    let ?l = "loaded_under W (fst (os_split (pe_app_file E)) @ ''/'') seen"
    have ms: "modules_of_app E W root = Inr (pe_order E ?l)" "modules_of_app ?E W root = Inr (ord ?l)"
      using Some by (simp_all add: modules_of_app_def)
    then have "\<forall>m\<in>set ?l. \<exists>i f. dget m W = Some i \<and> mo_file i = Some f"
      using app_modules_file [OF assms(1-4)] assms(4) [of ?l] by blast
    then show ?thesis by (simp add: ms assms(4,5) agree_def)
  qed
  have r: "agree same (gets (\<lambda>d. find_root_dir d p)) (gets (\<lambda>d. find_root_dir d p))" for p
    by (rule agree_gets) (rule find_root_alike)
  have p: "agree same (catch (pack_modules E verbose W ms t) (\<lambda>e. Some (bnd (remove_temp t) (\<lambda>_. raise e))))
      (catch (pack_modules ?E verbose W ms' t) (\<lambda>e. Some (bnd (remove_temp t) (\<lambda>_. raise e))))"
    if "set ms = set ms' \<and> (\<forall>m\<in>set ms. \<exists>i f. dget m W = Some i \<and> mo_file i = Some f)" for ms ms' t
    by (rule agree_catch [OF agree_pack_modules]) (use that in \<open>auto intro: agree_rules agree_last\<close>)
  have "agree same (zip_python_files E W verbose target) (zip_python_files ?E W verbose target)"
    unfolding zip_python_files_def Let_def order_simps
    by (rule agree_seq [OF r], rule agree_seq [OF agree_basic(6)], rule agree_bnd [OF m], rule agree_seq [OF agree_ensure_parent],
      rule agree_seq [OF p], assumption) (intro agree_rules agree_last)
  then show ?thesis using assms(6) unfolding agree_def alike_def same_def sum.rel_eq by blast
qed

section \<open>A packing that fails\<close>

definition only_temp :: "string \<Rightarrow> packer \<Rightarrow> packer \<Rightarrow> bool" where
  "only_temp temp d d' \<longleftrightarrow> (\<forall>p. p \<noteq> temp \<longrightarrow> node_at p d' = node_at p d) \<and> (\<exists>m es. node_at temp d' = Some (RegularFile m (Archive es)))"

lemma only_temp_for_each:
  "(\<And>x d'. only_temp temp d d' \<Longrightarrow> only_temp temp d (snd (f x d'))) \<Longrightarrow> only_temp temp d d' \<Longrightarrow> only_temp temp d (snd (for_each f xs d'))"
proof (induction xs arbitrary: d')
  case (Cons x xs)
  obtain r e where r: "f x d' = (r, e)" by fastforce
  have e: "only_temp temp d e" using Cons.prems(1) [OF Cons.prems(2), of x] by (simp add: r)
  show ?case using Cons.IH [OF Cons.prems(1) e] e by (cases r) (simp_all add: bnd_def r)
qed simp

lemma only_temp_write: "only_temp temp d d' \<Longrightarrow> only_temp temp d (snd (write_file raw src temp f d'))"
  by (auto simp: write_file_def write_entry_def only_temp_def bnd_def split: option.split node.split)

lemma only_temp_add:
  assumes "only_temp temp d d'"
  shows "only_temp temp d (snd (add_modules verbose src W ms z d'))" "only_temp temp d (snd (add_json_files verbose src fs z d'))"
proof -
  have n: "pk_nodes (snd (add_modules verbose src W ms z d')) = pk_nodes d'" for d'
    by (induction verbose src W ms z arbitrary: d' rule: add_modules.induct)
      (auto simp: bnd_def pack_print_def split: option.split)
  have j: "pk_nodes (snd (add_json_files verbose src fs z d')) = pk_nodes d'" for d'
    by (induction verbose src fs z arbitrary: d' rule: add_json_files.induct) (auto simp: bnd_def pack_print_def)
  show "only_temp temp d (snd (add_modules verbose src W ms z d'))" "only_temp temp d (snd (add_json_files verbose src fs z d'))"
    using assms by (simp_all add: only_temp_def n j)
qed

lemma pack_modules_temp:
  assumes "node_at temp d = None"
  shows "case pack_modules E verbose W ms temp d of
      (Inr u, d') \<Rightarrow> only_temp temp d d'
    | (Inl e, d') \<Rightarrow> only_temp temp d d' \<or> d' = d"
proof (cases "fst (os_split temp) \<noteq> [] \<and> \<not> is_dir_node (node_at (fst (os_split temp)) d)")
  case True
  then show ?thesis using assms by (simp add: pack_modules_def open_zip_def bnd_def)
next
  case False
  let ?d = "snd (set_node temp (RegularFile (pe_mode E) (Archive [])) d)"
  let ?rest = "bnd (add_modules verbose (pe_src E) W ms \<lparr>z_entries = [], z_paths_added = []\<rparr>) (\<lambda>z.
     bnd (add_json_resources verbose (pe_src E) z) (\<lambda>z. zip_build (pe_raw E) (pe_src E) temp z))"
  have o: "only_temp temp d ?d" by (simp add: only_temp_def set_node_def)
  have j: "only_temp temp d (snd (bnd (add_json_resources verbose (pe_src E) z) (\<lambda>z. zip_build (pe_raw E) (pe_src E) temp z) e))"
    if "only_temp temp d e" for z e
  proof -
    obtain r e' where r: "add_json_files verbose (pe_src E) (json_files (pe_src E) e) z e = (r, e')" by fastforce
    have "only_temp temp d e'" using only_temp_add(2) [OF that] r by (metis snd_conv)
    then show ?thesis using only_temp_for_each [OF only_temp_write]
      by (cases r) (simp_all add: add_json_resources_def zip_build_def bnd_def r)
  qed
  obtain r e where r: "add_modules verbose (pe_src E) W ms \<lparr>z_entries = [], z_paths_added = []\<rparr> ?d = (r, e)" by fastforce
  have "only_temp temp d e" using only_temp_add(1) [OF o] r by (metis snd_conv)
  then have "only_temp temp d (snd (?rest ?d))" using j by (cases r) (simp_all add: bnd_def [of "add_modules _ _ _ _ _"] r)
  moreover have "pack_modules E verbose W ms temp d = ?rest ?d"
    using assms False by (auto simp: pack_modules_def open_zip_def bnd_def set_node_def)
  ultimately show ?thesis by (auto split: prod.split sum.split)
qed

lemma makedirs_frame: "length p < length q \<Longrightarrow> node_at q (snd (makedirs E p d)) = node_at q d"
proof (induction E p arbitrary: d rule: makedirs.induct)
  case (1 E p)
  have m: "node_at q (snd (make_dir E p d)) = node_at q d" for d
    using 1(2) by (auto simp: make_dir_def set_node_def bnd_def)
  show ?case
  proof (cases "fst (os_split p) = [] \<or> snd (os_split p) = []")
    case True
    then show ?thesis by (simp add: makedirs.simps [of _ p] m)
  next
    case False
    then have "length (fst (os_split p)) < length q" using 1(2) os_split_shorter [of p "fst (os_split p)" "snd (os_split p)"] by simp
    note i = 1(1) [OF False _ this]
    show ?thesis unfolding makedirs.simps [of _ p] if_not_P [OF False]
      using i m by (auto simp: bnd_def catch_def split: prod.split sum.split; metis snd_conv)
  qed
qed

lemma ensure_parent_frame:
  assumes "snd (os_split f) \<noteq> []" "length f \<le> length q"
  shows "node_at q (snd (ensure_parent_exists E f d)) = node_at q d"
  using makedirs_frame [of "fst (os_split f)" q E d] os_split_shorter [of f "fst (os_split f)" "snd (os_split f)"] assms
  by (simp add: ensure_parent_exists_def Let_def bnd_def)

text \<open>C21 (error). Packing either succeeds, with an archive in place of the target, or raises and leaves what was at the target as it
  was; in both cases the file it writes to is gone.\<close>

theorem packing_keeps_target:
  assumes "snd (os_split target) \<noteq> []" "node_at (target @ ''.temp'') d = None" "\<not> is_dir_node (node_at target d)"
  shows "case zip_python_files E W verbose target d of
      (Inl e, d') \<Rightarrow> node_at target d' = node_at target d \<and> node_at (target @ ''.temp'') d' = None
    | (Inr t, d') \<Rightarrow> (\<exists>m es. node_at target d' = Some (RegularFile m (Archive es))) \<and> node_at (target @ ''.temp'') d' = None"
proof -
  let ?t = "target @ ''.temp''" and ?root = "find_root_dir d (fst (os_split (pe_app_file E)))"
  show ?thesis
  proof (cases "rbind ?root (modules_of_app E W)")
    case (Inl e)
    then have "zip_python_files E W verbose target d = (Inl e, d)"
      by (auto simp: zip_python_files_def Let_def bnd_def rbind_def split: sum.splits)
    then show ?thesis using assms(2) by simp
  next
    case (Inr ms)
    then obtain root where root: "?root = Inr root" "modules_of_app E W root = Inr ms" by (auto simp: rbind_eq_Inr)
    obtain r1 d1 where e: "ensure_parent_exists E target d = (r1, d1)" by fastforce
    have n1: "node_at target d1 = node_at target d" "node_at ?t d1 = None"
      using ensure_parent_frame [OF assms(1), of target E d] ensure_parent_frame [OF assms(1), of ?t E d] assms(2) e by simp_all
    note zip = zip_python_files_def Let_def bnd_def root e
    show ?thesis
    proof (cases r1)
      case (Inl x)
      then show ?thesis using n1 by (simp add: zip)
    next
      case r1: (Inr u)
      obtain r2 d2 where p: "pack_modules E verbose W ms ?t d1 = (r2, d2)" by fastforce
      note k = pack_modules_temp [OF n1(2), of E verbose W ms, unfolded p prod.case]
      show ?thesis
      proof (cases r2)
        case (Inl x)
        then have "only_temp ?t d1 d2 \<or> d2 = d1" using k by simp
        then show ?thesis
          using n1 by (auto simp: zip r1 catch_def p Inl remove_temp_def remove_node_def is_file_node_def only_temp_def split: option.split node.split)
      next
        case (Inr v)
        then have o: "only_temp ?t d1 d2" using k by simp
        then have t: "node_at target d2 = node_at target d" using n1(1) by (simp add: only_temp_def)
        obtain m es where a: "node_at ?t d2 = Some (RegularFile m (Archive es))" using o by (auto simp: only_temp_def)
        show ?thesis using assms(3) t a
          by (auto simp: zip r1 catch_def p Inr pack_print_def remove_temp_def remove_node_def rename_node_def set_node_def is_file_node_def is_dir_node_def
              split: option.split node.split)
      qed
    qed
  qed
qed

section \<open>An example\<close>

text \<open>A repository in which the application uses one module, which uses it back; a package of it is loaded but not reached.\<close>

definition example_modules :: modules where
  "example_modules = [(''app'', \<lparr>mo_file = Some ''/r/src/app.py'', mo_values = [ModuleVal ''u'', StringVal ''x''], mo_excluded = False\<rparr>),
     (''u'', \<lparr>mo_file = Some ''/r/src/p/u.py'', mo_values = [ModuleVal ''app'', ModuleVal ''sys''], mo_excluded = False\<rparr>),
     (''p'', \<lparr>mo_file = Some ''/r/src/p/__init__.py'', mo_values = [ObjectVal (Some (StringVal ''u''))], mo_excluded = False\<rparr>),
     (''sys'', \<lparr>mo_file = None, mo_values = [], mo_excluded = False\<rparr>)]"

definition example_nodes :: "(string, node) dict" where
  "example_nodes = [(''/r/.git'', Directory 1), (''/r/src'', Directory 1), (''/r/src/app.py'', RegularFile 2 (Bytes [1])),
     (''/r/src/p'', Directory 1), (''/r/src/p/u.py'', RegularFile 2 (Bytes [2])), (''/r/src/p/__init__.py'', RegularFile 2 (Bytes [])), (''/o'', Directory 1)]"

definition example_disk :: "(string, node) dict \<Rightarrow> packer" where
  "example_disk ns = \<lparr>pk_nodes = ns, pk_out = [], pk_err = []\<rparr>"

definition example_env :: pack_env where
  "example_env = \<lparr>pe_raw = (\<lambda>es. []), pe_sha256 = (\<lambda>b. []), pe_mode = 3, pe_order = id, pe_modules = (\<lambda>b. example_modules), pe_src = ''/r/src'',
     pe_app_file = ''/r/src/app.py'', pe_recursion = 1000\<rparr>"

definition archive_names :: "node option \<Rightarrow> string list" where
  "archive_names n = (case n of Some (RegularFile m (Archive es)) \<Rightarrow> map (\<lambda>e. zi_name (fst e)) es | _ \<Rightarrow> [])"

lemma example_packed:
  "archive_names (node_at ''/o/a.zip'' (snd (zip_python_files example_env example_modules False ''/o/a.zip'' (example_disk example_nodes)))) =
     [''app.py'', ''p/'', ''p/__init__.py'', ''p/u.py'']"
  "fst (zip_python_files example_env example_modules False ''/o/a.zip'' (example_disk example_nodes)) = Inr ''/o/a.zip''"
  "fst (zip_python_files example_env example_modules False ''/o/a.zip'' (example_disk (ddel ''/r/src/p/u.py'' example_nodes))) =
     Inl (PlainException ''FileNotFoundError'')"
  "collect_them 10 (module_values example_modules ''/r/'') [] ''app'' = Some [''u'', ''app'']"
  by code_simp+

text \<open>A setting is taken out of the arguments, an argument without a name before the sign stays.\<close>

lemma example_settings: "check_env_variables [''x'', ''a=1'', ''-v'', ''=b'', ''a=2'', ''t''] [] = ([''x'', ''-v'', ''=b'', ''t''], [(''a'', ''2'')])"
  by code_simp

lemma modules_collected_witness:
  "\<exists>r. collect_them 1000 (module_values example_modules ''/r/'') [] ''app'' = Some r \<and> set r = {x. reaches (module_values example_modules ''/r/'') ''app'' x}"
  by (rule modules_collected) (simp add: example_modules_def)

lemma archive_reproducible_witness:
  "fst (zip_python_files example_env example_modules False ''/o/a.zip'' (example_disk example_nodes)) =
     fst (zip_python_files (example_env\<lparr>pe_order := rev\<rparr>) example_modules False ''/o/a.zip'' (example_disk (rev example_nodes))) \<and>
   (\<forall>p. node_at p (snd (zip_python_files example_env example_modules False ''/o/a.zip'' (example_disk example_nodes))) =
     node_at p (snd (zip_python_files (example_env\<lparr>pe_order := rev\<rparr>) example_modules False ''/o/a.zip'' (example_disk (rev example_nodes)))))"
proof (rule archive_reproducible)
  show "distinct (dkeys example_modules)" "mo_file \<lparr>mo_file = Some ''/r/src/app.py'', mo_values = [ModuleVal ''u'', StringVal ''x''], mo_excluded = False\<rparr> \<noteq> None"
    "dget ''app'' example_modules = Some \<lparr>mo_file = Some ''/r/src/app.py'', mo_values = [ModuleVal ''u'', StringVal ''x''], mo_excluded = False\<rparr>"
    by (simp_all add: example_modules_def)
  have "distinct (dkeys example_nodes)" by (simp add: example_nodes_def)
  then show "node_at p (example_disk example_nodes) = node_at p (example_disk (rev example_nodes))" for p
    by (simp add: example_disk_def dget_rev)
qed (simp_all add: example_env_def)

lemma packing_keeps_target_witness:
  "case zip_python_files example_env example_modules False ''/o/a.zip'' (example_disk (ddel ''/r/src/p/u.py'' example_nodes)) of
      (Inl e, d') \<Rightarrow> node_at ''/o/a.zip'' d' = node_at ''/o/a.zip'' (example_disk (ddel ''/r/src/p/u.py'' example_nodes)) \<and>
        node_at ''/o/a.zip.temp'' d' = None
    | (Inr t, d') \<Rightarrow> (\<exists>m es. node_at ''/o/a.zip'' d' = Some (RegularFile m (Archive es))) \<and> node_at ''/o/a.zip.temp'' d' = None"
proof -
  let ?d = "example_disk (ddel ''/r/src/p/u.py'' example_nodes)"
  have d: "snd (os_split ''/o/a.zip'') \<noteq> []" "node_at (''/o/a.zip'' @ ''.temp'') ?d = None" "\<not> is_dir_node (node_at ''/o/a.zip'' ?d)"
    by (simp_all add: os_split_def example_disk_def example_nodes_def is_dir_node_def)
  show ?thesis using packing_keeps_target [OF d, of example_env example_modules False] by (simp only: append.simps)
qed

end
