(* ===== verification/Spec2Isabelle.thy ===== *)
theory Spec2Isabelle
  imports Mem_Examples Web_Request Lock_Refinement Push_Repo Key_Order Caches Push_Processor Beans Throttler Table_Listener Command_Line Async_Group Logging Archiver
begin

text \<open>
  A verification development for the session service for Salesforce agents (\<open>src/python/shim-service/src\<close>, the Python part of the
  repository, and its packer \<open>src/python/shim-service/archiver.py\<close>). Paths below are relative to the first of the two.

  \<^bold>\<open>The program.\<close> A mobile client logs an agent in through the web application; the service holds the session with Salesforce for it,
  polls the Live Agent for chats, listens to platform events, and wakes the client up with push notifications. It runs as six
  Lambda functions (web, the pollers for Live Agent and platform events, the scheduler, the publisher of notifications, the listener of the
  session table) that share nothing but DynamoDB, so the hard behaviours are conditional writes and transactions, locks
  kept as rows, numbered events, retries, clocks, and processes that overlap.

  \<^bold>\<open>How it is modelled.\<close> A method is a program with state and exceptions (\<open>prog\<close> in \<open>Py_Base\<close>): every \<open>raise\<close> and every early return is
  a branch, \<open>try\<close>, \<open>except\<close> and \<open>finally\<close> are the combinators \<open>catch\<close> and \<open>finally_do\<close>. Python values are \<open>pyval\<close>, dictionaries are association
  lists in the order of insertion, classes are records, enumerations are datatypes. The state of the repositories is a \<open>world\<close>: the
  state of the DynamoDB service, the clock by the number of its readings, a source of UUIDs, and the calls made to other services. Where threads
  or processes overlap the code is an \<open>inductive\<close> step relation (locks, pollers, throttler, group of threads), whose steps
  are the reads, writes and critical sections of the code.

  \<^bold>\<open>Theories, in the order of their dependencies.\<close>
  \<^item> Prelude: \<open>Py_Base\<close> (values, dictionaries, exceptions, combinators and the rules about them), \<open>Py_Strings\<close> (the methods of \<open>str\<close>, \<open>int\<close> and
    \<open>str\<close> of numbers), \<open>Text_Codec\<close> (UTF-8, base64, \<open>utils/string_utils.py\<close>), \<open>Json_Text\<close> (the JSON module), \<open>Web_Paths\<close>
    (\<open>utils/path_utils.py\<close>, \<open>uri_utils.py\<close>, \<open>http_utils.py\<close>), \<open>Collections\<close> (\<open>utils/collection_utils.py\<close>, blocks of
    \<open>threading_utils.py\<close>), \<open>Http_Errors\<close> (\<open>lambda_web_framework/web_exceptions.py\<close>).
  \<^item> DynamoDB (\<open>aws/\<close>): \<open>Ddb_Values\<close>, \<open>Ddb_Keys\<close>, \<open>Ddb_Requests\<close> (requests and expressions, with their documented meaning), \<open>Ddb_Client\<close> (the
    class \<open>DynamoDb\<close> over the SDK, result sets), \<open>Ddb_Contract\<close> (the locale \<open>dynamo\<close>: what the service promises), \<open>World\<close> (the clock and
    \<open>utils/date_utils.py\<close>), \<open>Mem_Dynamo\<close> (a service in memory that satisfies the contract: the interpretation of \<open>dynamo\<close>).
  \<^item> Repositories (\<open>repos/aws\<close>, \<open>tenant/repo\<close>): \<open>Aws_Repo\<close> (the base class), \<open>Entities\<close>, \<open>Event_Entities\<close> (\<open>session/\<close>, \<open>events/\<close>, \<open>pending_event/\<close>,
    \<open>tenant/\<close>), \<open>Repo_Tables\<close>, \<open>Service_Env\<close> (\<open>config.py\<close>), \<open>Repo_Frames\<close> (which rows an operation keeps; the locale \<open>store\<close>),
    \<open>Sequence_Repo\<close>, \<open>Sessions_Repo\<close>, \<open>Contexts_Repo\<close>, \<open>Push_Repo\<close>, \<open>Key_Order\<close>, \<open>Resource_Lock\<close>, \<open>Lock_Refinement\<close>; \<open>Service_Memory\<close> and
    \<open>Mem_Examples\<close> run them on the service in memory, \<open>Scripted\<close> on one that answers from a list.
  \<^item> Shared services: \<open>Caches\<close> (both caches over the locale \<open>bounded_store\<close>), \<open>Lambdas\<close> (\<open>lambda_pkg/\<close>, \<open>scheduler/\<close>), \<open>Http_Client\<close>,
    \<open>Cs_Client\<close> (\<open>cs_client/\<close>, \<open>repos/secrets.py\<close>), \<open>Logging\<close>, \<open>Throttler\<close>, \<open>Async_Group\<close>, \<open>Beans\<close> (\<open>bean/\<close>: profiles, injection and the
    loaders).
  \<^item> Salesforce (\<open>services/sfdc\<close>): \<open>Aura\<close>, \<open>Live_Agent\<close>, \<open>Sfdc_Connection\<close>, \<open>Sfdc_Session\<close>, \<open>Omni_Api\<close>.
  \<^item> Sessions and the web: \<open>Session_Manager\<close> (\<open>session/manager.py\<close>), \<open>Web_Request\<close>, \<open>Web_App\<close>, \<open>Controllers\<close> (\<open>controllers/\<close>), \<open>Web_Safety\<close>.
  \<^item> Background functions: \<open>Poll_Group\<close>, \<open>Poll_Steps\<close>, \<open>Pollers\<close> (\<open>poll/\<close>), \<open>Push_Processor\<close> (\<open>push_notification/\<close>), \<open>Table_Listener\<close>
    (\<open>table_listener/\<close>).
  \<^item> Tools: \<open>Command_Line\<close> (\<open>tools/support\<close>), \<open>Archiver\<close> (\<open>archiver.py\<close>).

  \<^bold>\<open>How the parts interact.\<close> A controller authenticates a request and calls the session manager, which writes sessions through \<open>Sessions_Repo\<close>: one
  transaction holds the rows of a session and its numbered event. Connecting activates the session and puts a pending event into
  its table; the collector of a polling group takes the events that are due, a worker locks the event and polls, and the messages it
  finds become events with a push notification. The publisher sends those after the last position; the listener of the table cleans up and
  starts the pollers of tenants. All of them rest on \<open>Aws_Repo\<close>, and that on the contract \<open>dynamo\<close>.

  \<^bold>\<open>What the lemmas show.\<close> The properties that are claims are marked C1 to C40 above their theorems.
  \<^item> Consistency of the store: sessions are created as a whole or not at all, patches never lose an update, inserts never
    overwrite, a notification is marked and its position moved together, and the expressions sent to DynamoDB mean what the requests say (a
    refinement from texts to conditions and updates).
  \<^item> Mutual exclusion: at most one process holds a lock that has not expired; the conditional writes refine the atomic steps of the abstract
    lock; taking over a lock that has expired; and a refresh after a lost row that breaks the exclusion (a finding).
  \<^item> Polling: the counters of a group always agree with the phases of its threads (a simulation of the code of a worker), no group is
    over its capacity, waiting for workers ends. Throttling: the rate of calls, and no more calls than requests. Groups of threads:
    every block is executed exactly once, whatever the schedule, and the join returns.
  \<^item> Safety of the web: routes run only for fresh requests with the right signature, verified sessions are those of the token, every answer is well formed.
  \<^item> Round trips of items, keys, rows, JSON, tokens; termination of throttled calls, of result sets and of the beans of every function;
    bounds of times and caches; exact errors of the command line, of the publisher without credentials, and of a packing that
    fails; archives that do not depend on the order of sets.

  \<^bold>\<open>Interfaces.\<close> \<open>dynamo\<close> (and \<open>calm_dynamo\<close>, without throttling) fixes the calls of the SDK and a view of the stored rows, and assumes
  what DynamoDB documents: consistent reads, conditional writes, transactions that are applied as a whole. It is interpreted by the service in
  memory, as is \<open>store\<close>, its extension with the tables of this program. \<open>bounded_store\<close> is the contract of the two caches and is
  interpreted by both. Everything a locale proves reaches the claims through these interpretations, or with the contract as a named
  hypothesis that a witness satisfies on the service in memory.

  \<^bold>\<open>Bounds and fuel.\<close> Loops that need not end take a number of rounds and end in \<open>OutOfFuel\<close>: the repetition of throttled calls (enough when it is
  above the number of answers that throttle, proved in \<open>Ddb_Contract\<close>), the pages of a result set (one more than the rows is enough,
  proved in \<open>Ddb_Client\<close>), JSON (a number for every character and level of nesting, enough for every text that is written), nested beans
  (enough for the whole table, by evaluation), switches of a command line (one more than the arguments), and the recursion over modules (Python's own
  limit; above the number of modules it is never reached). All other recursion is structural or has a measure. Integers are those of Python,
  without bound; bytes are 8-bit words.

  \<^bold>\<open>Parameters.\<close> Not part of the repository, and so arguments of the definitions that use them: the SDK clients of AWS, \<open>requests\<close>,
  gRPC and Avro, \<open>firebase_admin\<close>, the decorator \<open>retry\<close>, \<open>zlib\<close>, hashes and the Fernet cipher, pickling, \<open>urlparse\<close>, and the texts of exceptions.
  What a property needs of them is a hypothesis by name (\<open>retry_ok\<close>, \<open>zlib_ok\<close>, that deciphering undoes the cipher), and its witness gives
  functions that satisfy it.

  \<^bold>\<open>Not modelled.\<close> Generated code (\<open>generated/\<close>), the derivation of keys in \<open>utils/obfuscation.py\<close> (calls of the package \<open>cryptography\<close>), the script
  \<open>tools/deploy_service_keys.py\<close>, dynamic imports (\<open>utils/code_utils.py\<close>), abstract methods, conversions to \<open>datetime\<close>, statistics and texts that are only printed
  for the log, code points above 255, the Terraform and YAML of the deployment, and the clients in other languages.
\<close>

end
